(* ===== verification/Py_Prelude.thy ===== *)
theory Py_Prelude
  imports Complex_Main "HOL-Library.AList" "HOL-Library.Sublist"
begin

text \<open>
  Shared vocabulary of the development: Python dictionaries as association lists in
  insertion order, runs of fallible steps, persisted capped counters, and the string
  operations the harness uses. Every component theory imports this one, directly or
  through another. The locales state the two contracts several components rely on: a
  fallible step that keeps an invariant, and a persisted counter with a cap.
\<close>

named_theorems py_simps \<open>evaluation rules of the Python vocabulary\<close>
named_theorems inv_intros \<open>preservation facts of component invariants\<close>

section \<open>Dictionaries\<close>

text \<open>
  A Python dict keeps its insertion order: storing under a present key keeps the key's
  place, a new key goes to the end, and \<open>pop\<close> removes the entry. This is what
  \<^const>\<open>AList.update\<close> and \<^const>\<open>AList.delete\<close> do on an association list.
\<close>

type_synonym 'v dict = "(string \<times> 'v) list"

abbreviation dict_set :: "string \<Rightarrow> 'v \<Rightarrow> 'v dict \<Rightarrow> 'v dict" where
  "dict_set k v d \<equiv> AList.update k v d"

abbreviation dict_del :: "string \<Rightarrow> 'v dict \<Rightarrow> 'v dict" where
  "dict_del k d \<equiv> AList.delete k d"

definition dict_has :: "string \<Rightarrow> 'v dict \<Rightarrow> bool" where
  "dict_has k d = (map_of d k \<noteq> None)"

definition dict_get_or :: "'v \<Rightarrow> string \<Rightarrow> 'v dict \<Rightarrow> 'v" where
  "dict_get_or v k d = (case map_of d k of None \<Rightarrow> v | Some x \<Rightarrow> x)"

definition dict_setdefault :: "string \<Rightarrow> 'v \<Rightarrow> 'v dict \<Rightarrow> 'v dict" where
  "dict_setdefault k v d = (if dict_has k d then d else d @ [(k, v)])"

definition dict_values :: "'v dict \<Rightarrow> 'v list" where
  "dict_values d = map snd d"

definition dict_sum :: "int dict \<Rightarrow> int" where
  "dict_sum d = sum_list (map snd d)"

abbreviation wf_dict :: "'v dict \<Rightarrow> bool" where
  "wf_dict d \<equiv> distinct (map fst d)"

lemma map_of_dict_set [simp]: "map_of (dict_set k v d) k' = (if k' = k then Some v else map_of d k')"
  by (simp add: update_conv')

lemma map_of_dict_del [simp]: "map_of (dict_del k d) k' = (if k' = k then None else map_of d k')"
  by (simp add: delete_conv')

lemma dict_has_set [simp]: "dict_has k' (dict_set k v d) \<longleftrightarrow> k' = k \<or> dict_has k' d"
  by (simp add: dict_has_def)

lemma dict_get_or_set [simp]:
  "dict_get_or x k' (dict_set k v d) = (if k' = k then v else dict_get_or x k' d)"
  by (simp add: dict_get_or_def)

lemma dict_get_or_del [simp]:
  "dict_get_or x k' (dict_del k d) = (if k' = k then x else dict_get_or x k' d)"
  by (simp add: dict_get_or_def)

lemma map_of_setdefault [simp]:
  "map_of (dict_setdefault k v d) k' =
     (if k' = k then Some (dict_get_or v k d) else map_of d k')"
  by (auto simp: dict_setdefault_def dict_has_def dict_get_or_def map_add_def
      split: option.splits)

lemma wf_dict_set [simp, intro]: "wf_dict d \<Longrightarrow> wf_dict (dict_set k v d)"
  by (rule distinct_update)

lemma wf_dict_del [simp, intro]: "wf_dict d \<Longrightarrow> wf_dict (dict_del k d)"
  by (rule distinct_delete)

lemma wf_dict_setdefault [simp, intro]: "wf_dict d \<Longrightarrow> wf_dict (dict_setdefault k v d)"
  by (auto simp: dict_setdefault_def dict_has_def map_of_eq_None_iff)

lemma dict_sum_simps [simp]:
  "dict_sum [] = 0" "dict_sum (p # d) = snd p + dict_sum d"
  by (simp_all add: dict_sum_def)

lemma dict_sum_set: "dict_sum (dict_set k v d) = dict_sum d - dict_get_or 0 k d + v"
  by (induction d) (auto simp: dict_get_or_def)

lemma dict_sum_del: "wf_dict d \<Longrightarrow> dict_sum (dict_del k d) = dict_sum d - dict_get_or 0 k d"
  by (induction d) (auto simp: dict_get_or_def map_of_eq_None_iff image_iff
      split: option.splits intro!: delete_id)

lemma dict_sum_map: "dict_sum (map (\<lambda>(k, v). (g k, f v)) d) = sum_list (map (\<lambda>p. f (snd p)) d)"
  by (induction d) auto

section \<open>Fallible steps and their runs\<close>

text \<open>
  A loop over a list of inputs whose body may raise: the first error ends the loop and is
  the result, as an uncaught exception would be.
\<close>

fun run_steps :: "('e \<Rightarrow> 's \<Rightarrow> 'err + 's) \<Rightarrow> 'e list \<Rightarrow> 's \<Rightarrow> 'err + 's" where
  "run_steps f [] s = Inr s"
| "run_steps f (e # es) s = (case f e s of Inl x \<Rightarrow> Inl x | Inr s' \<Rightarrow> run_steps f es s')"

lemma run_steps_append:
  "run_steps f (xs @ ys) s = (case run_steps f xs s of Inl x \<Rightarrow> Inl x | Inr s' \<Rightarrow> run_steps f ys s')"
  by (induction xs arbitrary: s) (auto split: sum.splits)

text \<open>
  The contract of an event handler: it keeps the invariant of its state whenever it
  returns. Every run of the handler then keeps it too.
\<close>

locale fallible_machine =
  fixes step :: "'e \<Rightarrow> 's \<Rightarrow> 'err + 's"
    and inv :: "'s \<Rightarrow> bool"
  assumes step_inv: "inv s \<Longrightarrow> step e s = Inr s' \<Longrightarrow> inv s'"
begin

lemma run_inv: "inv s \<Longrightarrow> run_steps step es s = Inr s' \<Longrightarrow> inv s'"
proof (induction es arbitrary: s)
  case Nil
  then show ?case by simp
next
  case (Cons e es)
  then show ?case by (auto split: sum.splits dest: step_inv)
qed

lemma run_prefix_inv:
  assumes "inv s" and "run_steps step (xs @ ys) s = Inr s'"
  shows "\<exists>t. run_steps step xs s = Inr t \<and> inv t"
  using assms by (auto simp: run_steps_append split: sum.splits dest: run_inv)

end

section \<open>Persisted capped counters\<close>

text \<open>
  Two components keep a JSON file of counters per packet and compare the new count with a
  cap: the state machine (\<open>_bump_counter\<close>, for replans and timeout retries) and the
  trigger evaluator (\<open>bump_l3_counter\<close>). A counter file that cannot be read or written
  counts as exceeded. The contract: a bump that is within the cap raises the stored count
  by one and the result is at most the cap; other packets' counts are untouched.
\<close>

locale capped_counter =
  fixes bump :: "bool \<Rightarrow> string \<Rightarrow> 'c \<Rightarrow> (int \<times> bool) \<times> 'c"
    and stored :: "'c \<Rightarrow> string \<Rightarrow> int"
    and cap :: int
  assumes bump_within: "bump io k c = ((n, False), c') \<Longrightarrow> stored c' k = stored c k + 1 \<and> stored c' k \<le> cap"
    and bump_grows: "bump io k c = ((n, b), c') \<Longrightarrow> stored c j \<le> stored c' j"
    and bump_other: "bump io k c = ((n, b), c') \<Longrightarrow> j \<noteq> k \<Longrightarrow> stored c' j = stored c j"
begin

lemma within_count_le:
  assumes "bump io k c = ((n, False), c')" and "used \<le> stored c k"
  shows "used + 1 \<le> stored c' k \<and> used + 1 \<le> cap"
  using bump_within [OF assms(1)] assms(2) by linarith

lemma used_le_stored:
  assumes "bump io k c = ((n, b), c')" and "used \<le> stored c j"
  shows "used \<le> stored c' j"
  using bump_grows [OF assms(1), of j] assms(2) by linarith

end

definition bump_counter :: "int \<Rightarrow> bool \<Rightarrow> string \<Rightarrow> int dict \<Rightarrow> (int \<times> bool) \<times> int dict" where
  "bump_counter cap io_ok k counters =
     (if \<not> io_ok then ((cap + 1, True), counters)
      else let count = dict_get_or 0 k counters + 1;
               counters' = dict_set k count counters
           in ((count, cap < count), counters'))"

text \<open>The one dictionary implementation meets the contract for every cap.\<close>

interpretation file_counter: capped_counter "bump_counter cap" "\<lambda>c k. dict_get_or 0 k c" cap
  for cap
  by unfold_locales (auto simp: bump_counter_def Let_def split: if_splits)

section \<open>Strings\<close>

text \<open>Character classes and case folding are those of ASCII.\<close>

definition is_space :: "char \<Rightarrow> bool" where
  "is_space c = (c \<in> set [CHR '' '', CHR 0x09, CHR 0x0A, CHR 0x0B, CHR 0x0C, CHR 0x0D])"

definition lower_char :: "char \<Rightarrow> char" where
  "lower_char c = (let n = of_char c :: nat
                   in if 65 \<le> n \<and> n \<le> 90 then char_of (n + 32) else c)"

definition py_lower :: "string \<Rightarrow> string" where
  "py_lower s = map lower_char s"

definition py_lstrip :: "string \<Rightarrow> string" where
  "py_lstrip s = dropWhile is_space s"

definition py_strip :: "string \<Rightarrow> string" where
  "py_strip s = rev (py_lstrip (rev (py_lstrip s)))"

abbreviation startswith :: "string \<Rightarrow> string \<Rightarrow> bool" where
  "startswith s p \<equiv> prefix p s"

definition startswith_any :: "string \<Rightarrow> string list \<Rightarrow> bool" where
  "startswith_any s ps = list_ex (\<lambda>p. prefix p s) ps"

definition take_last :: "nat \<Rightarrow> 'a list \<Rightarrow> 'a list" where
  "take_last n xs = drop (length xs - n) xs"

lemma take_last_length: "length (take_last n xs) = min n (length xs)"
  by (simp add: take_last_def)

lemma startswith_any_iff: "startswith_any s ps \<longleftrightarrow> (\<exists>p \<in> set ps. prefix p s)"
  by (simp add: startswith_any_def list_ex_iff)

end
