(* ===== verification/Py_Json.thy ===== *)
theory Py_Json
  imports Py_Prelude
begin

text \<open>
  JSON documents as \<open>json.loads\<close> and \<open>tomllib\<close> return them, with the conversions the
  harness applies to values it does not trust: \<open>isinstance\<close> tests, truth value,
  \<open>==\<close>, \<open>int(\<dots>)\<close> and \<open>float(\<dots>)\<close>. Floats are exact rationals: the
  rounding of binary floats, NaN and the infinities are not modelled. Strings are ASCII.
\<close>

datatype json =
    JNull
  | JBool bool
  | JInt int
  | JFloat rat
  | JStr string
  | JList "json list"
  | JObj "(string \<times> json) list"

type_synonym jobj = "(string \<times> json) list"

section \<open>Type tests and member access\<close>

fun is_obj :: "json \<Rightarrow> bool" where
  "is_obj (JObj _) = True"
| "is_obj _ = False"

fun is_str :: "json \<Rightarrow> bool" where
  "is_str (JStr _) = True"
| "is_str _ = False"

fun obj_of :: "json \<Rightarrow> jobj" where
  "obj_of (JObj d) = d"
| "obj_of _ = []"

text \<open>\<open>d.get(k)\<close> on a dict: a missing key is \<open>None\<close>, which JSON writes \<open>null\<close>.\<close>

definition jget :: "jobj \<Rightarrow> string \<Rightarrow> json" where
  "jget d k = dict_get_or JNull k d"

definition jget_or :: "json \<Rightarrow> jobj \<Rightarrow> string \<Rightarrow> json" where
  "jget_or v d k = dict_get_or v k d"

fun truthy :: "json \<Rightarrow> bool" where
  "truthy JNull = False"
| "truthy (JBool b) = b"
| "truthy (JInt n) = (n \<noteq> 0)"
| "truthy (JFloat x) = (x \<noteq> 0)"
| "truthy (JStr s) = (s \<noteq> [])"
| "truthy (JList xs) = (xs \<noteq> [])"
| "truthy (JObj d) = (d \<noteq> [])"

text \<open>\<open>a or b\<close>\<close>

definition py_or :: "json \<Rightarrow> json \<Rightarrow> json" where
  "py_or a b = (if truthy a then a else b)"

text \<open>
  \<open>==\<close>: integers, floats and booleans compare by their numeric value, everything else by
  structure. (Inside lists and objects the comparison is structural too; the code compares
  only scalars.)
\<close>

fun num_of :: "json \<Rightarrow> rat option" where
  "num_of (JBool b) = Some (if b then 1 else 0)"
| "num_of (JInt n) = Some (of_int n)"
| "num_of (JFloat x) = Some x"
| "num_of _ = None"

definition py_eq :: "json \<Rightarrow> json \<Rightarrow> bool" where
  "py_eq a b = (case (num_of a, num_of b) of
       (Some x, Some y) \<Rightarrow> x = y
     | _ \<Rightarrow> a = b)"

lemma py_eq_refl [simp]: "py_eq a a"
  by (simp add: py_eq_def split: option.splits)

lemma py_eq_str [simp]: "py_eq a (JStr s) \<longleftrightarrow> a = JStr s"
  by (cases a) (simp_all add: py_eq_def)

lemma py_eq_str' [simp]: "py_eq (JStr s) a \<longleftrightarrow> a = JStr s"
  by (cases a) (auto simp add: py_eq_def)

section \<open>Conversions\<close>

datatype py_error = TypeError | ValueError | KeyError | ZeroDivision | AttributeError | SystemExit nat

text \<open>
  The decimal literals \<open>int(str)\<close> accepts: optional sign, digits with single underscores
  between them, surrounding white space.
\<close>

definition is_digit :: "char \<Rightarrow> bool" where
  "is_digit c = (let n = of_char c :: nat in 48 \<le> n \<and> n \<le> 57)"

definition digit_val :: "char \<Rightarrow> nat" where
  "digit_val c = of_char c - 48"

fun digits_val :: "nat \<Rightarrow> string \<Rightarrow> nat option" where
  "digits_val acc [] = Some acc"
| "digits_val acc (c # cs) =
     (if is_digit c then digits_val (10 * acc + digit_val c) cs
      else if c = CHR ''_'' then
        (case cs of [] \<Rightarrow> None | d # _ \<Rightarrow> if is_digit d then digits_val acc cs else None)
      else None)"

definition nat_literal :: "string \<Rightarrow> nat option" where
  "nat_literal s = (case s of [] \<Rightarrow> None | c # _ \<Rightarrow> if is_digit c then digits_val 0 s else None)"

definition int_literal :: "string \<Rightarrow> int option" where
  "int_literal s = (case py_strip s of
       [] \<Rightarrow> None
     | c # cs \<Rightarrow> if c = CHR ''-'' then map_option (\<lambda>n. - int n) (nat_literal cs)
                 else if c = CHR ''+'' then map_option int (nat_literal cs)
                 else map_option int (nat_literal (c # cs)))"

text \<open>\<open>int(x)\<close>: floats are truncated towards zero.\<close>

definition trunc_rat :: "rat \<Rightarrow> int" where
  "trunc_rat x = (if 0 \<le> x then \<lfloor>x\<rfloor> else \<lceil>x\<rceil>)"

fun py_int :: "json \<Rightarrow> py_error + int" where
  "py_int (JBool b) = Inr (if b then 1 else 0)"
| "py_int (JInt n) = Inr n"
| "py_int (JFloat x) = Inr (trunc_rat x)"
| "py_int (JStr s) = (case int_literal s of Some n \<Rightarrow> Inr n | None \<Rightarrow> Inl ValueError)"
| "py_int _ = Inl TypeError"

text \<open>\<open>str(n)\<close> of a natural number.\<close>

fun decimal :: "nat \<Rightarrow> string" where
  "decimal n = (if n < 10 then [char_of (48 + n)] else decimal (n div 10) @ [char_of (48 + n mod 10)])"

text \<open>
  The literals \<open>float(str)\<close> accepts: sign, digits with an optional fraction (one of the
  two parts may be empty), optional exponent. \<open>nan\<close> and \<open>inf\<close> are not modelled.
\<close>

definition digit_count :: "string \<Rightarrow> nat" where
  "digit_count s = length (filter is_digit s)"

definition part_literal :: "string \<Rightarrow> nat option" where
  "part_literal s = (if s = [] then Some 0 else nat_literal s)"

definition mantissa_literal :: "string \<Rightarrow> rat option" where
  "mantissa_literal s =
     (let whole = takeWhile (\<lambda>c. c \<noteq> CHR ''.'') s; rest = dropWhile (\<lambda>c. c \<noteq> CHR ''.'') s in
      case rest of
        [] \<Rightarrow> map_option of_nat (nat_literal whole)
      | _ # decimals \<Rightarrow>
          if whole = [] \<and> decimals = [] then None
          else case (part_literal whole, part_literal decimals) of
                 (Some w, Some f) \<Rightarrow> Some (of_nat w + of_nat f / 10 ^ digit_count decimals)
               | _ \<Rightarrow> None)"

definition sign_split :: "string \<Rightarrow> bool \<times> string" where
  "sign_split s = (case s of
       [] \<Rightarrow> (False, [])
     | c # cs \<Rightarrow> if c = CHR ''-'' then (True, cs) else if c = CHR ''+'' then (False, cs) else (False, s))"

definition float_literal :: "string \<Rightarrow> rat option" where
  "float_literal s =
     (let (neg, body) = sign_split (py_strip s);
          mant = takeWhile (\<lambda>c. c \<notin> {CHR ''e'', CHR ''E''}) body;
          rest = dropWhile (\<lambda>c. c \<notin> {CHR ''e'', CHR ''E''}) body;
          scaled = (case (mantissa_literal mant, rest) of
              (None, _) \<Rightarrow> None
            | (Some m, []) \<Rightarrow> Some m
            | (Some m, _ # ex) \<Rightarrow>
                (let (eneg, digits) = sign_split ex in
                 map_option (\<lambda>e. if eneg then m / 10 ^ e else m * 10 ^ e) (nat_literal digits)))
      in map_option (\<lambda>x. if neg then - x else x) scaled)"

fun py_float :: "json \<Rightarrow> py_error + rat" where
  "py_float (JBool b) = Inr (if b then 1 else 0)"
| "py_float (JInt n) = Inr (of_int n)"
| "py_float (JFloat x) = Inr x"
| "py_float (JStr s) = (case float_literal s of Some x \<Rightarrow> Inr x | None \<Rightarrow> Inl ValueError)"
| "py_float _ = Inl TypeError"

definition right_or :: "'b \<Rightarrow> 'a + 'b \<Rightarrow> 'b" where
  "right_or d r = (case r of Inr x \<Rightarrow> x | Inl _ \<Rightarrow> d)"

text \<open>\<open>try: \<dots> except (TypeError, ValueError): None\<close>\<close>

definition opt_of :: "'e + 'a \<Rightarrow> 'a option" where
  "opt_of r = (case r of Inr x \<Rightarrow> Some x | Inl _ \<Rightarrow> None)"

lemma opt_of_simps [simp]: "opt_of (Inr x) = Some x" "opt_of (Inl e) = None"
  by (simp_all add: opt_of_def)

lemma right_or_simps [simp]: "right_or d (Inr x) = x" "right_or d (Inl e) = d"
  by (simp_all add: right_or_def)

lemma jget_dict_del: "jget (dict_del k d) k' = (if k' = k then JNull else jget d k')"
  by (simp add: jget_def)

text \<open>A lookup or conversion the code performs on every value it reads.\<close>

lemmas json_access [py_simps] = jget_def jget_or_def dict_get_or_def py_or_def

text \<open>Unhashable values cannot be dict keys or set members: testing membership raises.\<close>

fun hashable :: "json \<Rightarrow> bool" where
  "hashable (JList _) = False"
| "hashable (JObj _) = False"
| "hashable _ = True"

section \<open>Truncation\<close>

lemma trunc_rat_of_int [simp]: "trunc_rat (of_int n) = n"
  by (simp add: trunc_rat_def)

lemma trunc_rat_nonneg: "0 \<le> x \<Longrightarrow> 0 \<le> trunc_rat x"
  by (simp add: trunc_rat_def)

lemma trunc_rat_le: "0 \<le> x \<Longrightarrow> of_int (trunc_rat x) \<le> x"
  by (simp add: trunc_rat_def)

lemma trunc_rat_mono: "0 \<le> x \<Longrightarrow> x \<le> y \<Longrightarrow> trunc_rat x \<le> trunc_rat y"
  by (simp add: trunc_rat_def floor_mono)

end
