(* ===== verification/SM_Table.thy ===== *)
theory SM_Table
  imports Py_Json
begin

text \<open>
  The transition table of \<open>src/harness/statemachine_v2.py\<close>: states, terminal states, the
  dictionary \<open>T\<close>, the audit-only events, and \<open>validate_transition_table\<close>, which the
  module runs on \<open>T\<close> when it is imported. State and event names are the strings of the
  ledger and of \<open>events.ndjson\<close>.
\<close>

definition REPLAN_CAP :: int where "REPLAN_CAP = 2"
definition TIMEOUT_RETRY_MAX :: int where "TIMEOUT_RETRY_MAX = 1"
definition L2_ATTEMPTS_MAX :: int where "L2_ATTEMPTS_MAX = 1"
definition PRE_SPAWN_FAILURE_MAX :: int where "PRE_SPAWN_FAILURE_MAX = 3"
definition SUPERVISOR_HEARTBEAT_STALE_SECONDS :: rat where
  "SUPERVISOR_HEARTBEAT_STALE_SECONDS = 5"

lemmas sm_caps = REPLAN_CAP_def TIMEOUT_RETRY_MAX_def L2_ATTEMPTS_MAX_def
  PRE_SPAWN_FAILURE_MAX_def

definition STATES :: "string list" where
  "STATES = [''NONE'', ''PLANNED'', ''DISPATCHABLE'', ''RUNNING'', ''REPORTED'', ''ACCEPTED'',
     ''FAILED'', ''TIMED_OUT'', ''DUTY_REVIEW'', ''DEAD_LETTER'', ''MERGED'',
     ''MERGE_CONFLICT'', ''WAVE_DONE'', ''SOL_ADJUDICATE'', ''DONE'',
     ''EXPAND_K3'', ''L2_VERIFY'', ''L2_RANK'']"

definition TERMINAL :: "string list" where
  "TERMINAL = [''MERGED'', ''DEAD_LETTER'', ''DONE'']"

definition L2_STATES :: "string list" where
  "L2_STATES = [''EXPAND_K3'', ''L2_VERIFY'', ''L2_RANK'']"

type_synonym transition_table = "((string \<times> string) \<times> (string \<times> nat)) list"

definition T :: transition_table where
  "T = [
    ((''NONE'',           ''planned''),             (''PLANNED'',         1)),
    ((''PLANNED'',        ''dag_assert_pass''),     (''DISPATCHABLE'',    2)),
    ((''DISPATCHABLE'',   ''dispatched''),          (''RUNNING'',         3)),
    ((''RUNNING'',        ''subagent_stop''),       (''REPORTED'',        4)),
    ((''RUNNING'',        ''timeout''),             (''TIMED_OUT'',       5)),
    ((''RUNNING'',        ''exec_failed''),         (''FAILED'',          6)),
    ((''REPORTED'',       ''acceptance_pass''),     (''ACCEPTED'',        7)),
    ((''REPORTED'',       ''acceptance_fail''),     (''FAILED'',          8)),
    ((''FAILED'',         ''retry_dispatch''),      (''DISPATCHABLE'',    9)),
    ((''FAILED'',         ''duty_review''),         (''DUTY_REVIEW'',    10)),
    ((''TIMED_OUT'',      ''duty_review''),         (''DUTY_REVIEW'',    39)),
    ((''DUTY_REVIEW'',    ''duty_retryable''),      (''RUNNING'',        11)),
    ((''DUTY_REVIEW'',    ''duty_fixable''),        (''RUNNING'',        12)),
    ((''DUTY_REVIEW'',    ''duty_terminal''),       (''DEAD_LETTER'',    13)),
    ((''TIMED_OUT'',      ''budget_exhausted''),    (''DEAD_LETTER'',    14)),
    ((''FAILED'',         ''budget_exhausted''),    (''DEAD_LETTER'',    15)),
    ((''ACCEPTED'',       ''merged''),              (''MERGED'',         16)),
    ((''ACCEPTED'',       ''merge_conflict''),      (''MERGE_CONFLICT'', 17)),
    ((''MERGED'',         ''wave_complete''),       (''WAVE_DONE'',      18)),
    ((''DEAD_LETTER'',    ''dead_letter_summary''), (''SOL_ADJUDICATE'', 19)),
    ((''MERGE_CONFLICT'', ''conflict_pointer''),    (''SOL_ADJUDICATE'', 20)),
    ((''WAVE_DONE'',      ''wave_summary''),        (''SOL_ADJUDICATE'', 21)),
    ((''SOL_ADJUDICATE'', ''sol_replan''),          (''PLANNED'',        22)),
    ((''SOL_ADJUDICATE'', ''release_merge''),       (''DONE'',           23)),
    ((''REPORTED'',       ''review_verdict_pass''), (''SOL_ADJUDICATE'', 24)),
    ((''REPORTED'',       ''review_verdict_fail''), (''SOL_ADJUDICATE'', 25)),
    ((''NONE'',           ''skeleton_ready''),      (''EXPAND_K3'',      27)),
    ((''EXPAND_K3'',      ''expansion_valid''),     (''PLANNED'',        28)),
    ((''EXPAND_K3'',      ''expansion_invalid''),   (''SOL_ADJUDICATE'', 29)),
    ((''REPORTED'',       ''l2_requested''),        (''L2_VERIFY'',      30)),
    ((''L2_VERIFY'',      ''verdict_pass''),        (''ACCEPTED'',       31)),
    ((''L2_VERIFY'',      ''verdict_redo''),        (''FAILED'',         32)),
    ((''L2_VERIFY'',      ''verdict_escalate_l2_5''), (''L2_RANK'',      33)),
    ((''L2_VERIFY'',      ''verdict_escalate_l3''), (''SOL_ADJUDICATE'', 34)),
    ((''L2_VERIFY'',      ''exec_failed''),         (''FAILED'',         35)),
    ((''L2_RANK'',        ''best_candidate''),      (''L2_VERIFY'',      36)),
    ((''TIMED_OUT'',      ''retry_dispatch''),      (''DISPATCHABLE'',   37)),
    ((''DEAD_LETTER'',    ''duty_triage''),         (''DUTY_REVIEW'',    38))]"

definition INFO_EVENTS :: "string list" where
  "INFO_EVENTS = [
    ''worktree_allocated'', ''worktree_released'',
    ''SubagentStart'', ''SubagentStartRecovered'', ''SubagentStop'',
    ''exec_spawned'', ''exec_supervisor_started'', ''exec_exited'', ''exec_killed'',
    ''dispatch_refused'', ''spawn_health_gate_passed'',
    ''spawn_lost'', ''parent_stop'', ''close_requested'', ''lifecycle_reconciled'',
    ''dispatch_dry_run'', ''sol_budget_blocked'',
    ''l2_consumer_stale'', ''l2_claim_reaped'',
    ''governor.fail_closed'', ''governor.break_glass'',
    ''governor.state_key_unattested'', ''budget_state_change'', ''route_decision'']"

section \<open>Table validation\<close>

text \<open>
  One constructor per \<open>raise TransitionError\<close> of the validator. The dictionary argument is
  an association list; \<open>outbound\<close> collects the exits of a state in table order.
\<close>

datatype transition_error =
    Unknown_from string nat
  | Unknown_to string nat
  | Duplicate_number nat
  | Missing_transitions "nat list"
  | T26_in_table
  | Sol_adjudicate_terminal
  | Terminal_set_drifted
  | Sol_exits_drifted
  | L2_power_violation string nat
  | Dead_letter_exits_drifted
  | Merged_exits_drifted
  | Terminal_has_exits string
  | No_outbound string
  | Timed_out_not_retryable

definition outbound :: "transition_table \<Rightarrow> string \<Rightarrow> (string \<times> string \<times> nat) list" where
  "outbound tbl s = [(e, to, n). ((f, e), (to, n)) \<leftarrow> tbl, f = s]"

fun check_rows :: "nat list \<Rightarrow> transition_table \<Rightarrow> transition_error + nat list" where
  "check_rows numbers [] = Inr numbers"
| "check_rows numbers (((frm, event), (to, num)) # rest) =
     (if frm \<notin> set STATES then Inl (Unknown_from frm num)
      else if to \<notin> set STATES then Inl (Unknown_to to num)
      else if num \<in> set numbers then Inl (Duplicate_number num)
      else check_rows (num # numbers) rest)"

definition expected_numbers :: "nat list" where
  "expected_numbers = [1..<26] @ [27..<40]"

fun first_error :: "('e option) list \<Rightarrow> 'e + unit" where
  "first_error [] = Inr ()"
| "first_error (None # cs) = first_error cs"
| "first_error (Some e # cs) = Inl e"

definition same_set :: "'a list \<Rightarrow> 'a list \<Rightarrow> bool" where
  "same_set xs ys = (set xs = set ys)"

definition l2_violations :: "transition_table \<Rightarrow> transition_error option list" where
  "l2_violations tbl =
     [if to \<in> {''MERGED'', ''DONE''} then Some (L2_power_violation s n) else None.
        s \<leftarrow> L2_STATES, (e, to, n) \<leftarrow> outbound tbl s]"

definition terminal_check :: "transition_table \<Rightarrow> string \<Rightarrow> transition_error option" where
  "terminal_check tbl s =
     (let exits = outbound tbl s in
      if s = ''DEAD_LETTER'' then
        (if same_set exits [(''dead_letter_summary'', ''SOL_ADJUDICATE'', 19),
                            (''duty_triage'', ''DUTY_REVIEW'', 38)]
         then None else Some Dead_letter_exits_drifted)
      else if s = ''MERGED'' then
        (if same_set exits [(''wave_complete'', ''WAVE_DONE'', 18)]
         then None else Some Merged_exits_drifted)
      else if exits \<noteq> [] then Some (Terminal_has_exits s) else None)"

definition outbound_check :: "transition_table \<Rightarrow> string \<Rightarrow> transition_error option" where
  "outbound_check tbl s =
     (if outbound tbl s = [] \<and> s \<noteq> ''NONE'' then Some (No_outbound s) else None)"

definition validate_transition_table :: "transition_table \<Rightarrow> transition_error + unit" where
  "validate_transition_table tbl =
     (case check_rows [] tbl of
        Inl e \<Rightarrow> Inl e
      | Inr numbers \<Rightarrow>
          (let missing = filter (\<lambda>n. n \<notin> set numbers) expected_numbers in
           first_error (
             [if missing \<noteq> [] then Some (Missing_transitions missing) else None,
              if 26 \<in> set numbers then Some T26_in_table else None,
              if ''SOL_ADJUDICATE'' \<in> set TERMINAL then Some Sol_adjudicate_terminal else None,
              if \<not> same_set TERMINAL [''MERGED'', ''DEAD_LETTER'', ''DONE'']
                then Some Terminal_set_drifted else None,
              if \<not> same_set (outbound tbl ''SOL_ADJUDICATE'')
                    [(''sol_replan'', ''PLANNED'', 22), (''release_merge'', ''DONE'', 23)]
                then Some Sol_exits_drifted else None]
             @ l2_violations tbl
             @ map (terminal_check tbl) TERMINAL
             @ map (outbound_check tbl)
                 (filter (\<lambda>s. s \<notin> set TERMINAL \<and> s \<noteq> ''DONE'') STATES)
             @ [if map_of tbl (''TIMED_OUT'', ''retry_dispatch'') = None
                then Some Timed_out_not_retryable else None])))"

lemma first_error_Inr_iff: "first_error cs = Inr () \<longleftrightarrow> (\<forall>c \<in> set cs. c = None)"
  by (induction cs rule: first_error.induct) auto

end
