(* ===== verification/SM_Machine.thy ===== *)
theory SM_Machine
  imports SM_Table
begin

text \<open>
  The packet state machine of \<open>src/harness/statemachine_v2.py\<close> (class
  \<open>StateMachine\<close>): the packet entries of the progress ledger, the application of one
  event, the two fallbacks \<open>reconcile\<close> and \<open>watchdog\<close>, and the step that drains the
  event stream from the committed cursor. Files the machine reads but does not own are in
  the environment record; files it writes are in the state record.
\<close>

section \<open>Data\<close>

record history_entry =
  h_ts :: rat
  h_to :: string
  h_via :: json
  h_t :: "nat option"
  h_extra :: jobj

text \<open>
  A packet entry of the ledger. An absent optional key is \<open>JNull\<close>, zero or false, which
  is what the code's \<open>pkt.get(\<dots>)\<close> and \<open>int(\<dots> or 0)\<close> make of it.
\<close>

record packet =
  p_state :: string
  p_history :: "history_entry list"
  p_attempts :: int
  p_current_run_id :: json
  p_release_review :: bool
  p_l2_attempts :: int
  p_pre_spawn_failures :: int
  p_manifest_id :: json
  p_parent_session_id :: json
  p_role :: json
  p_pool_hint :: json

definition new_packet :: packet where
  "new_packet = \<lparr>p_state = ''NONE'', p_history = [], p_attempts = 0, p_current_run_id = JNull,
     p_release_review = False, p_l2_attempts = 0, p_pre_spawn_failures = 0,
     p_manifest_id = JNull, p_parent_session_id = JNull, p_role = JNull, p_pool_hint = JNull\<rparr>"

record dead_letter_file =
  dl_reason :: string
  dl_detail :: json
  dl_prior :: "history_entry list"

record escalation =
  esc_pid :: string
  esc_level :: string
  esc_reason :: json

text \<open>
  What the machine owns: the ledger (packets and committed cursor), the two counter files,
  the dead-letter files, the Sol wake and human-gate queues, and the escalation log.
\<close>

record sm_state =
  packets :: "packet dict"
  event_cursor :: json
  replan_counters :: "int dict"
  timeout_retry_counters :: "int dict"
  dead_letters :: "dead_letter_file dict"
  sol_wakes :: "(string \<times> string) list"
  l4_queue :: "(string \<times> string) list"
  escalation_log :: "escalation list"
  dead_this_step :: nat

text \<open>
  What the machine reads: the clock, its two configuration values, the published reports
  (\<open>None\<close> if there is no file; an unreadable or malformed body is \<open>None\<close> inside), the
  parsed \<open>spawn_times.json\<close> and \<open>exec_roster.json\<close>, the legacy cursor file, and
  whether the counter files can be read and written.
\<close>

record report_file =
  rf_mtime :: rat
  rf_body :: "json option"

record sm_env =
  e_now :: rat
  e_enforce_duty :: bool
  e_job_max_runtime :: rat
  e_reports :: "string \<Rightarrow> report_file option"
  e_spawn_times :: json
  e_exec_roster :: json
  e_legacy_cursor :: "string option"
  e_counter_io :: bool

section \<open>Events\<close>

definition ev_detail :: "jobj \<Rightarrow> jobj" where
  "ev_detail ev = obj_of (jget ev ''detail'')"

definition ev_run_id :: "jobj \<Rightarrow> json" where
  "ev_run_id ev = py_or (jget ev ''run_id'') (jget (ev_detail ev) ''run_id'')"

definition ev_attempt :: "jobj \<Rightarrow> int option" where
  "ev_attempt ev =
     (let raw = jget_or (jget (ev_detail ev) ''attempt'') ev ''attempt'' in
      if raw = JNull then None else opt_of (py_int raw))"

definition add_history :: "sm_env \<Rightarrow> string \<Rightarrow> json \<Rightarrow> nat option \<Rightarrow> jobj \<Rightarrow> packet \<Rightarrow> packet" where
  "add_history env to via t extra pkt =
     pkt\<lparr>p_history := p_history pkt @
        [\<lparr>h_ts = e_now env, h_to = to, h_via = via, h_t = t, h_extra = extra\<rparr>]\<rparr>"

definition enter :: "sm_env \<Rightarrow> string \<Rightarrow> json \<Rightarrow> nat option \<Rightarrow> jobj \<Rightarrow> packet \<Rightarrow> packet" where
  "enter env to via t extra pkt = add_history env to via t extra (pkt\<lparr>p_state := to\<rparr>)"

section \<open>File names and sinks\<close>

definition pid_char :: "char \<Rightarrow> bool" where
  "pid_char c = (let n = of_char c :: nat in
     (48 \<le> n \<and> n \<le> 57) \<or> (65 \<le> n \<and> n \<le> 90) \<or> (97 \<le> n \<and> n \<le> 122))"

definition pid_tail_char :: "char \<Rightarrow> bool" where
  "pid_tail_char c = (pid_char c \<or> c \<in> {CHR ''.'', CHR ''_'', CHR ''-''})"

definition valid_pid :: "string \<Rightarrow> bool" where
  "valid_pid s = (case s of [] \<Rightarrow> False
     | c # cs \<Rightarrow> pid_char c \<and> list_all pid_tail_char cs \<and> length cs \<le> 95)"

definition sol_wake :: "string \<Rightarrow> string \<Rightarrow> sm_state \<Rightarrow> sm_state" where
  "sol_wake pid reason st =
     st\<lparr>sol_wakes := sol_wakes st @ [(pid, reason)],
        escalation_log := escalation_log st @
          [\<lparr>esc_pid = pid, esc_level = ''SOL_WAKE'', esc_reason = JStr reason\<rparr>]\<rparr>"

definition l4_summary :: "string \<Rightarrow> string \<Rightarrow> sm_state \<Rightarrow> py_error + sm_state" where
  "l4_summary pid reason st =
     (if \<not> valid_pid pid then Inl (SystemExit 1)
      else Inr (st\<lparr>l4_queue := l4_queue st @ [(pid, reason)],
        escalation_log := escalation_log st @
          [\<lparr>esc_pid = pid, esc_level = ''DIRECT_L4'', esc_reason = JStr reason\<rparr>]\<rparr>))"

definition put_packet :: "string \<Rightarrow> packet \<Rightarrow> sm_state \<Rightarrow> sm_state" where
  "put_packet pid pkt st = st\<lparr>packets := dict_set pid pkt (packets st)\<rparr>"

definition to_dead_letter ::
  "sm_env \<Rightarrow> string \<Rightarrow> packet \<Rightarrow> string \<Rightarrow> json \<Rightarrow> sm_state \<Rightarrow> py_error + sm_state" where
  "to_dead_letter env pid pkt reason detail st =
     (if \<not> valid_pid pid then Inl (SystemExit 1)
      else let pkt' = enter env ''DEAD_LETTER'' (JStr reason) None [] pkt;
               st1 = put_packet pid pkt' st;
               st2 = st1\<lparr>dead_letters := dict_set pid
                 \<lparr>dl_reason = reason, dl_detail = detail, dl_prior = take_last 10 (p_history pkt')\<rparr>
                 (dead_letters st1)\<rparr>;
               st3 = sol_wake pid reason st2
           in Inr (st3\<lparr>dead_this_step := dead_this_step st3 + 1\<rparr>))"

definition bump_replan_counter ::
  "sm_env \<Rightarrow> string \<Rightarrow> sm_state \<Rightarrow> (int \<times> bool) \<times> sm_state" where
  "bump_replan_counter env pid st =
     (let (r, c) = bump_counter REPLAN_CAP (e_counter_io env) pid (replan_counters st)
      in (r, st\<lparr>replan_counters := c\<rparr>))"

definition bump_timeout_retry_counter ::
  "sm_env \<Rightarrow> string \<Rightarrow> sm_state \<Rightarrow> (int \<times> bool) \<times> sm_state" where
  "bump_timeout_retry_counter env pid st =
     (let (r, c) = bump_counter TIMEOUT_RETRY_MAX (e_counter_io env) pid (timeout_retry_counters st)
      in (r, st\<lparr>timeout_retry_counters := c\<rparr>))"

section \<open>Report currency\<close>

definition report_is_current :: "sm_env \<Rightarrow> string \<Rightarrow> bool" where
  "report_is_current env pid =
     (case e_reports env pid of
        None \<Rightarrow> False
      | Some rf \<Rightarrow>
          (case rf_body rf of
             Some (JObj value) \<Rightarrow>
               if value = [] then False
               else if jget value ''packet_id'' \<notin> {JNull, JStr pid} then False
               else (case jget (obj_of (e_spawn_times env)) pid of
                       JObj stamp \<Rightarrow>
                         if jget stamp ''ts'' = JNull then True
                         else (case py_float (jget stamp ''ts'') of
                                 Inr ts \<Rightarrow> ts \<le> rf_mtime rf
                               | Inl _ \<Rightarrow> True)
                     | _ \<Rightarrow> True)
           | _ \<Rightarrow> False))"

section \<open>Applying one event\<close>

text \<open>
  The rules before the table lookup, in source order. Each looks at one packet and, when it
  applies, returns the packet it leaves behind; the event is then finished.
\<close>

definition run_ids_differ :: "json \<Rightarrow> json \<Rightarrow> bool" where
  "run_ids_differ cur ev = (truthy cur \<and> truthy ev \<and> \<not> py_eq ev cur)"

definition ignore :: "sm_env \<Rightarrow> string \<Rightarrow> jobj \<Rightarrow> packet \<Rightarrow> packet" where
  "ignore env why extra pkt = add_history env (p_state pkt) (JStr why) None extra pkt"

definition stale_generation :: "sm_env \<Rightarrow> json \<Rightarrow> jobj \<Rightarrow> packet \<Rightarrow> packet option" where
  "stale_generation env name ev pkt =
     (case ev_attempt ev of
        Some a \<Rightarrow> if a < p_attempts pkt
                  then Some (ignore env ''stale_generation_ignored''
                    [(''event'', name), (''event_attempt'', JInt a),
                     (''current_attempt'', JInt (p_attempts pkt))] pkt)
                  else None
      | None \<Rightarrow> None)"

definition run_id_extra :: "json \<Rightarrow> jobj \<Rightarrow> packet \<Rightarrow> jobj" where
  "run_id_extra name ev pkt = [(''event'', name), (''event_run_id'', ev_run_id ev),
     (''current_run_id'', p_current_run_id pkt)]"

definition stale_run_id :: "sm_env \<Rightarrow> json \<Rightarrow> jobj \<Rightarrow> packet \<Rightarrow> packet option" where
  "stale_run_id env name ev pkt =
     (if name \<in> {JStr ''subagent_stop'', JStr ''exec_failed'', JStr ''timeout''}
         \<and> run_ids_differ (p_current_run_id pkt) (ev_run_id ev)
      then Some (ignore env ''stale_run_id_ignored'' (run_id_extra name ev pkt) pkt)
      else None)"

definition duplicate_generation :: "sm_env \<Rightarrow> json \<Rightarrow> jobj \<Rightarrow> packet \<Rightarrow> packet option" where
  "duplicate_generation env name ev pkt =
     (if name = JStr ''dispatched'' \<and> run_ids_differ (p_current_run_id pkt) (ev_run_id ev)
         \<and> p_state pkt \<in> {''RUNNING'', ''REPORTED'', ''ACCEPTED'', ''MERGED'', ''WAVE_DONE'', ''DONE''}
      then Some (ignore env ''duplicate_generation_ignored'' (run_id_extra name ev pkt) pkt)
      else None)"

definition pre_spawn_failure :: "sm_env \<Rightarrow> json \<Rightarrow> jobj \<Rightarrow> packet \<Rightarrow> packet option" where
  "pre_spawn_failure env name ev pkt =
     (if name = JStr ''exec_failed'' \<and> py_eq (jget (ev_detail ev) ''phase'') (JStr ''pre_spawn'')
         \<and> p_state pkt \<in> {''DISPATCHABLE'', ''RUNNING''}
      then
        let failures = p_pre_spawn_failures pkt + 1;
            counted = pkt\<lparr>p_pre_spawn_failures := failures\<rparr> in
        if PRE_SPAWN_FAILURE_MAX < failures
        then Some (enter env ''DUTY_REVIEW'' (JStr ''pre_spawn_failure_exhausted'') None
               [(''pre_spawn_failures'', JInt failures), (''cap'', JInt PRE_SPAWN_FAILURE_MAX),
                (''detail'', JObj (ev_detail ev))] (counted\<lparr>p_current_run_id := JNull\<rparr>))
        else Some (enter env ''DISPATCHABLE'' (JStr ''pre_spawn_failure_retryable'') None
               [(''event_run_id'', ev_run_id ev), (''detail'', JObj (ev_detail ev))]
               (counted\<lparr>p_current_run_id :=
                  (if run_ids_differ (p_current_run_id pkt) (ev_run_id ev)
                   then p_current_run_id pkt else JNull)\<rparr>))
      else None)"

definition attempt_json :: "jobj \<Rightarrow> json" where
  "attempt_json ev = (case ev_attempt ev of Some a \<Rightarrow> JInt a | None \<Rightarrow> JNull)"

definition late_stop :: "sm_env \<Rightarrow> string \<Rightarrow> json \<Rightarrow> jobj \<Rightarrow> packet \<Rightarrow> packet option" where
  "late_stop env pid name ev pkt =
     (if p_state pkt = ''REPORTED'' \<and> name = JStr ''subagent_stop'' \<and> e_reports env pid \<noteq> None
      then Some (add_history env ''REPORTED'' (JStr ''late_subagent_stop_confirmed'') None
             [(''event_attempt'', attempt_json ev)] pkt)
      else None)"

definition dispatch_confirmed :: "sm_env \<Rightarrow> json \<Rightarrow> jobj \<Rightarrow> packet \<Rightarrow> packet option" where
  "dispatch_confirmed env name ev pkt =
     (if p_state pkt = ''RUNNING'' \<and> name = JStr ''dispatched''
         \<and> ev_attempt ev = Some (p_attempts pkt)
         \<and> \<not> run_ids_differ (p_current_run_id pkt) (ev_run_id ev)
      then Some (add_history env ''RUNNING'' (JStr ''generation_dispatch_confirmed'') None
             [(''event_attempt'', attempt_json ev)] pkt)
      else None)"

definition timeout_confirmed :: "sm_env \<Rightarrow> json \<Rightarrow> jobj \<Rightarrow> packet \<Rightarrow> packet option" where
  "timeout_confirmed env name ev pkt =
     (if p_state pkt = ''TIMED_OUT'' \<and> name = JStr ''timeout''
      then Some (add_history env ''TIMED_OUT'' (JStr ''timeout_confirmed_idempotent'') None
             [(''event_attempt'', attempt_json ev)] pkt)
      else None)"

definition release_review_failed :: "sm_env \<Rightarrow> json \<Rightarrow> packet \<Rightarrow> packet option" where
  "release_review_failed env name pkt =
     (if p_release_review pkt \<and> p_state pkt = ''RUNNING'' \<and> name = JStr ''exec_failed''
      then Some (enter env ''SOL_ADJUDICATE'' name (Some 26) [(''release_review'', JBool True)] pkt)
      else None)"

fun first_some :: "'a option list \<Rightarrow> 'a option" where
  "first_some [] = None"
| "first_some (Some x # _) = Some x"
| "first_some (None # xs) = first_some xs"

definition local_rules :: "sm_env \<Rightarrow> string \<Rightarrow> json \<Rightarrow> jobj \<Rightarrow> packet \<Rightarrow> packet option" where
  "local_rules env pid name ev pkt = first_some
     [stale_generation env name ev pkt,
      stale_run_id env name ev pkt,
      duplicate_generation env name ev pkt,
      pre_spawn_failure env name ev pkt,
      late_stop env pid name ev pkt,
      dispatch_confirmed env name ev pkt,
      timeout_confirmed env name ev pkt,
      release_review_failed env name pkt]"

text \<open>The table lookup and its gates.\<close>

definition T_lookup :: "string \<Rightarrow> json \<Rightarrow> (string \<times> nat) option" where
  "T_lookup s name = (case name of JStr e \<Rightarrow> map_of T (s, e) | _ \<Rightarrow> None)"

definition take_transition ::
  "sm_env \<Rightarrow> json \<Rightarrow> jobj \<Rightarrow> string \<Rightarrow> nat \<Rightarrow> packet \<Rightarrow> packet" where
  "take_transition env name ev to num pkt0 =
     (let pkt1 = enter env to name (Some num) [] pkt0;
          pkt2 = (if name = JStr ''retry_dispatch'' then pkt1\<lparr>p_current_run_id := JNull\<rparr> else pkt1);
          pkt3 = (if name = JStr ''dispatched'' \<and> truthy (ev_run_id ev)
                  then pkt2\<lparr>p_current_run_id := ev_run_id ev\<rparr> else pkt2);
          pkt4 = (if name = JStr ''dispatched'' then pkt3\<lparr>p_pre_spawn_failures := 0\<rparr> else pkt3)
      in if num \<in> {9, 37} then pkt4\<lparr>p_attempts := p_attempts pkt4 + 1\<rparr> else pkt4)"

definition table_step ::
  "sm_env \<Rightarrow> string \<Rightarrow> json \<Rightarrow> jobj \<Rightarrow> packet \<Rightarrow> sm_state \<Rightarrow> py_error + sm_state" where
  "table_step env pid name ev pkt st =
     (case T_lookup (p_state pkt) name of
        None \<Rightarrow> to_dead_letter env pid pkt ''off_table_event''
                  (JObj [(''event'', name), (''from_state'', JStr (p_state pkt))]) st
      | Some (to, num) \<Rightarrow>
          if num = 4 \<and> \<not> report_is_current env pid
          then to_dead_letter env pid pkt ''report_missing_on_stop'' (JObj [(''event'', name)]) st
          else if num \<in> {11, 12} \<and> \<not> e_enforce_duty env
          then to_dead_letter env pid pkt ''duty_ruling_recorded_not_routed''
                 (JObj [(''ruling'', name)])
                 (st\<lparr>escalation_log := escalation_log st @
                   [\<lparr>esc_pid = pid, esc_level = ''DUTY_RECORD_ONLY'', esc_reason = name\<rparr>]\<rparr>)
          else if num = 22
          then (case bump_replan_counter env pid st of
                  ((count, exceeded), st1) \<Rightarrow>
                    if exceeded
                    then (case l4_summary pid ''replan_cap_exceeded'' st1 of
                            Inl e \<Rightarrow> Inl e
                          | Inr st2 \<Rightarrow> Inr (put_packet pid
                              (add_history env ''SOL_ADJUDICATE'' (JStr ''replan_cap_forced_l4'')
                                 (Some 22) [] pkt) st2))
                    else Inr (put_packet pid (take_transition env name ev to num pkt) st1))
          else if num = 37
          then (case bump_timeout_retry_counter env pid st of
                  ((count, exceeded), st1) \<Rightarrow>
                    if exceeded
                    then to_dead_letter env pid pkt ''timeout_retry_exhausted''
                           (JObj [(''timeout_retries'', JInt count),
                                  (''cap'', JInt TIMEOUT_RETRY_MAX)]) st1
                    else Inr (put_packet pid (take_transition env name ev to num pkt) st1))
          else if num = 35
          then (let l2 = p_l2_attempts pkt + 1; pkt1 = pkt\<lparr>p_l2_attempts := l2\<rparr> in
                if L2_ATTEMPTS_MAX < l2
                then Inr (put_packet pid (enter env ''SOL_ADJUDICATE''
                       (JStr ''l2_attempts_exhausted'') (Some 35) [] pkt1) st)
                else Inr (put_packet pid (take_transition env name ev to num pkt1) st))
          else Inr (put_packet pid (take_transition env name ev to num pkt) st))"

definition admitting_event :: "json \<Rightarrow> bool" where
  "admitting_event name = (name \<in> {JStr ''planned'', JStr ''skeleton_ready''})"

text \<open>
  \<open>apply_event\<close>: an L2 job id, an audit event, or an unknown packet that is not being
  admitted changes nothing (result \<open>None\<close>). Membership tests on unhashable values raise.
  Ledger keys are strings: a packet id of another type cannot be admitted.
\<close>

definition apply_event ::
  "sm_env \<Rightarrow> json \<Rightarrow> sm_state \<Rightarrow> py_error + (string option \<times> sm_state)" where
  "apply_event env event st =
     (case event of
        JObj ev \<Rightarrow>
          (let pid_v = jget_or (JStr ''?'') ev ''packet_id'';
               name = jget_or (JStr ''?'') ev ''event'' in
           if (case pid_v of JStr s \<Rightarrow> startswith_any s [''l2v-'', ''v2job-''] | _ \<Rightarrow> False)
           then Inr (None, st)
           else if \<not> hashable name then Inl TypeError
           else if name \<in> JStr ` set INFO_EVENTS then Inr (None, st)
           else (case pid_v of
               JStr pid \<Rightarrow>
                 if \<not> dict_has pid (packets st) \<and> \<not> admitting_event name then Inr (None, st)
                 else (let st0 = st\<lparr>packets := dict_setdefault pid new_packet (packets st)\<rparr>;
                           pkt = dict_get_or new_packet pid (packets st0) in
                       case local_rules env pid name ev pkt of
                         Some pkt' \<Rightarrow> Inr (Some (p_state pkt'), put_packet pid pkt' st0)
                       | None \<Rightarrow>
                           (case table_step env pid name ev pkt st0 of
                              Inl e \<Rightarrow> Inl e
                            | Inr st' \<Rightarrow>
                                Inr (Some (p_state (dict_get_or new_packet pid (packets st'))), st')))
             | other \<Rightarrow> if hashable other \<and> \<not> admitting_event name then Inr (None, st)
                        else Inl TypeError))
      | _ \<Rightarrow> Inl AttributeError)"

end
