(* ===== verification/SM_Step.thy ===== *)
theory SM_Step
  imports SM_Machine
begin

text \<open>
  The rest of class \<open>StateMachine\<close> in \<open>src/harness/statemachine_v2.py\<close>: the
  report-file fallback, the watchdog, the event reader and the step that composes them, and
  the wave check. The event file is its text; \<open>json.loads\<close> on one line is the argument
  \<open>parse\<close> (\<open>None\<close> where it raises).
\<close>

section \<open>Reconcile\<close>

definition reconcile_packet :: "sm_env \<Rightarrow> string \<Rightarrow> packet \<Rightarrow> packet" where
  "reconcile_packet env pid pkt =
     (if p_state pkt = ''RUNNING'' \<and> report_is_current env pid
      then enter env ''REPORTED'' (JStr ''report_file_fallback'') (Some 4) [] pkt
      else pkt)"

definition reconcile :: "sm_env \<Rightarrow> sm_state \<Rightarrow> sm_state" where
  "reconcile env st =
     st\<lparr>packets := map (\<lambda>(pid, pkt). (pid, reconcile_packet env pid pkt)) (packets st)\<rparr>"

section \<open>Watchdog\<close>

definition synthetic_spawn_ts :: "packet \<Rightarrow> rat option" where
  "synthetic_spawn_ts pkt = map_option h_ts (find (\<lambda>h. h_to h = ''RUNNING'') (rev (p_history pkt)))"

text \<open>\<open>d.get(\<dots>)\<close> on a value that is not a dict raises.\<close>

definition need_obj :: "json \<Rightarrow> py_error + jobj" where
  "need_obj v = (case v of JObj d \<Rightarrow> Inr d | _ \<Rightarrow> Inl AttributeError)"

definition elapsed_since :: "sm_env \<Rightarrow> json \<Rightarrow> rat option" where
  "elapsed_since env ts =
     (if ts = JNull then None else map_option (\<lambda>x. e_now env - x) (opt_of (py_float ts)))"

definition spawn_stamp :: "json \<Rightarrow> packet \<Rightarrow> json \<times> json" where
  "spawn_stamp stamp pkt =
     (let mode = (case stamp of JObj s \<Rightarrow> jget s ''mode'' | _ \<Rightarrow> JStr ''legacy'');
          ts = (case stamp of JObj s \<Rightarrow> jget s ''ts'' | v \<Rightarrow> v)
      in if ts = JNull
         then (case synthetic_spawn_ts pkt of Some t \<Rightarrow> JFloat t | None \<Rightarrow> JNull,
               JStr ''ledger_synthetic'')
         else (ts, mode))"

definition heartbeat_fresh :: "sm_env \<Rightarrow> jobj \<Rightarrow> bool" where
  "heartbeat_fresh env job =
     (case elapsed_since env (jget job ''heartbeat_at'') of
        Some age \<Rightarrow> age \<le> SUPERVISOR_HEARTBEAT_STALE_SECONDS
      | None \<Rightarrow> False)"

definition supervised :: "sm_env \<Rightarrow> jobj \<Rightarrow> json \<Rightarrow> json \<Rightarrow> bool" where
  "supervised env job mode run_id =
     (py_eq mode (JStr ''single'') \<and> py_eq (jget job ''run_id'') run_id
      \<and> jget job ''state'' \<in> {JStr ''starting'', JStr ''running''} \<and> heartbeat_fresh env job)"

definition timeout_event :: "sm_env \<Rightarrow> string \<Rightarrow> json \<Rightarrow> json \<Rightarrow> json \<Rightarrow> json \<Rightarrow> json" where
  "timeout_event env pid attempt run_id ts mode = JObj
     [(''ts'', JFloat (e_now env)), (''packet_id'', JStr pid), (''event'', JStr ''timeout''),
      (''attempt'', attempt), (''run_id'', run_id),
      (''detail'', JObj [(''why'', JStr ''watchdog''), (''spawn_ts'', ts), (''mode'', mode),
                         (''limit_s'', JFloat (e_job_max_runtime env))])]"

text \<open>\<open>exec_roster.get("jobs", {}).get(pid, {})\<close>\<close>

definition roster_job :: "json \<Rightarrow> string \<Rightarrow> py_error + jobj" where
  "roster_job roster pid =
     (case need_obj roster of
        Inl e \<Rightarrow> Inl e
      | Inr r \<Rightarrow>
          (case need_obj (jget_or (JObj []) r ''jobs'') of
             Inl e \<Rightarrow> Inl e
           | Inr jobs \<Rightarrow> need_obj (jget_or (JObj []) jobs pid)))"

definition watchdog_packet ::
  "sm_env \<Rightarrow> json \<Rightarrow> json \<Rightarrow> string \<Rightarrow> packet \<Rightarrow> py_error + (packet \<times> json list)" where
  "watchdog_packet env stamps roster pid pkt =
     (if p_state pkt \<noteq> ''RUNNING'' then Inr (pkt, [])
      else (case need_obj stamps of
          Inl e \<Rightarrow> Inl e
        | Inr ss \<Rightarrow>
            (let stamp = jget ss pid; (ts, mode) = spawn_stamp stamp pkt in
             (case elapsed_since env ts of
                None \<Rightarrow> Inr (pkt, [])
              | Some elapsed \<Rightarrow>
                  if elapsed \<le> e_job_max_runtime env then Inr (pkt, [])
                  else (case roster_job roster pid of
                      Inl e \<Rightarrow> Inl e
                    | Inr job \<Rightarrow>
                        (let run_id = jget (obj_of stamp) ''run_id'' in
                         if supervised env job mode run_id then Inr (pkt, [])
                         else Inr (enter env ''TIMED_OUT'' (JStr ''timeout'') (Some 5) [] pkt,
                                   [timeout_event env pid (jget (obj_of stamp) ''attempt'')
                                      run_id ts mode])))))))"

fun watchdog_packets ::
  "sm_env \<Rightarrow> json \<Rightarrow> json \<Rightarrow> packet dict \<Rightarrow> py_error + (packet dict \<times> json list)" where
  "watchdog_packets env stamps roster [] = Inr ([], [])"
| "watchdog_packets env stamps roster ((pid, pkt) # rest) =
     (case watchdog_packet env stamps roster pid pkt of
        Inl e \<Rightarrow> Inl e
      | Inr (pkt', evs) \<Rightarrow>
          (case watchdog_packets env stamps roster rest of
             Inl e \<Rightarrow> Inl e
           | Inr (rest', evs') \<Rightarrow> Inr ((pid, pkt') # rest', evs @ evs')))"

text \<open>
  \<open>read_json(path, default) or default\<close>: an unreadable file (\<open>JNull\<close> in the environment) or
  a falsy document counts as the default; any other non-object raises at the first \<open>get\<close>.
\<close>

definition doc_or :: "jobj \<Rightarrow> json \<Rightarrow> json" where
  "doc_or d v = (if truthy v then v else JObj d)"

definition watchdog :: "sm_env \<Rightarrow> sm_state \<Rightarrow> py_error + (sm_state \<times> json list)" where
  "watchdog env st =
     (case watchdog_packets env (doc_or [] (e_spawn_times env))
             (doc_or [(''jobs'', JObj [])] (e_exec_roster env)) (packets st) of
        Inl e \<Rightarrow> Inl e
      | Inr (ps, evs) \<Rightarrow> Inr (st\<lparr>packets := ps\<rparr>, evs))"

section \<open>Reading the event stream\<close>

text \<open>
  \<open>readline\<close> from the cursor: a line counts only when its newline is there. The reader
  returns the complete lines and the offset after the last of them (\<open>f.tell()\<close>).
\<close>

definition next_line :: "string \<Rightarrow> (string \<times> string) option" where
  "next_line s = (case dropWhile (\<lambda>c. c \<noteq> CHR 0x0A) s of
       [] \<Rightarrow> None
     | _ # rest \<Rightarrow> Some (takeWhile (\<lambda>c. c \<noteq> CHR 0x0A) s, rest))"

lemma next_line_shorter: "next_line s = Some (l, rest) \<Longrightarrow> length rest < length s"
  by (auto simp: next_line_def split: list.splits)
     (metis length_Cons length_dropWhile_le less_eq_Suc_le)

function drain :: "string \<Rightarrow> nat \<Rightarrow> string list \<times> nat" where
  "drain s n = (case next_line s of
       None \<Rightarrow> ([], n)
     | Some (l, rest) \<Rightarrow> (let (ls, m) = drain rest (n + length l + 1) in (l # ls, m)))"
  by pat_completeness auto
termination
  by (relation "measure (\<lambda>(s, n). length s)") (auto dest: next_line_shorter)

declare drain.simps [simp del]

definition decode_line :: "(string \<Rightarrow> json option) \<Rightarrow> string \<Rightarrow> json option" where
  "decode_line parse line =
     (let stripped = py_strip line in
      if stripped = [] then None
      else case parse stripped of
             Some v \<Rightarrow> Some v
           | None \<Rightarrow> Some (JObj [(''packet_id'', JStr ''malformed''),
                                 (''event'', JStr ''unparseable''),
                                 (''raw'', JStr (take 200 stripped))]))"

definition apply_line ::
  "(string \<Rightarrow> json option) \<Rightarrow> sm_env \<Rightarrow> string \<Rightarrow> sm_state \<Rightarrow> py_error + sm_state" where
  "apply_line parse env line st =
     (case decode_line parse line of
        None \<Rightarrow> Inr st
      | Some ev \<Rightarrow> (case apply_event env ev st of Inl e \<Rightarrow> Inl e | Inr (_, st') \<Rightarrow> Inr st'))"

definition start_offset :: "sm_env \<Rightarrow> sm_state \<Rightarrow> nat" where
  "start_offset env st =
     (case event_cursor st of
        JInt n \<Rightarrow> nat n
      | _ \<Rightarrow> (case e_legacy_cursor env of
               None \<Rightarrow> 0
             | Some s \<Rightarrow> (if py_strip s = [] then 0
                         else case int_literal s of Some n \<Rightarrow> nat n | None \<Rightarrow> 0)))"

definition sm_step ::
  "(string \<Rightarrow> json option) \<Rightarrow> sm_env \<Rightarrow> string \<Rightarrow> sm_state \<Rightarrow> py_error + (sm_state \<times> json list)" where
  "sm_step parse env content st =
     (let offset = start_offset env st;
          (lines, consumed) = drain (drop offset content) offset in
      case run_steps (apply_line parse env) lines (st\<lparr>dead_this_step := 0\<rparr>) of
        Inl e \<Rightarrow> Inl e
      | Inr st1 \<Rightarrow>
          (case watchdog env (reconcile env st1) of
             Inl e \<Rightarrow> Inl e
           | Inr (st2, evs) \<Rightarrow> Inr (st2\<lparr>event_cursor := JInt (int consumed)\<rparr>, evs)))"

section \<open>Wave check\<close>

datatype wave_scope = Unscoped | By_manifest string | By_parent string

definition in_scope :: "wave_scope \<Rightarrow> packet \<Rightarrow> bool" where
  "in_scope sc pkt = (case sc of
       Unscoped \<Rightarrow> True
     | By_manifest m \<Rightarrow> p_manifest_id pkt = JStr m
     | By_parent p \<Rightarrow> p_parent_session_id pkt = JStr p)"

definition wave_check :: "(string \<Rightarrow> nat option) \<Rightarrow> wave_scope \<Rightarrow> sm_state \<Rightarrow> bool" where
  "wave_check report_size sc st =
     (let ps = filter (\<lambda>p. in_scope sc (snd p)) (packets st) in
      ps \<noteq> []
      \<and> list_all (\<lambda>p. p_state (snd p) \<in> set TERMINAL
                     \<or> p_state (snd p) \<in> {''WAVE_DONE'', ''SOL_ADJUDICATE''}) ps
      \<and> list_all (\<lambda>p. case report_size (fst p) of None \<Rightarrow> False | Some n \<Rightarrow> 0 < n) ps)"

end
