(* ===== verification/SM_Invariants.thy ===== *)
theory SM_Invariants
  imports SM_Step
begin

text \<open>
  What the state machine keeps true: the graph of packet states a single event can move
  along (\<open>packet_edge\<close>, the abstract specification the handler refines), the packet
  invariant that ties the stored state and the counters to the history, and the bounds on
  replans, timeout retries and verifier failures that follow from it.
\<close>

section \<open>The abstract graph of packet states\<close>

text \<open>
  One event moves one packet: along the table, into the dead-letter state, back to the
  queue when nothing was spawned, along the release-review rule t26, from an exhausted
  verifier to Sol, or not at all.
\<close>

inductive packet_edge :: "string \<Rightarrow> json \<Rightarrow> string \<Rightarrow> bool" where
  stay: "packet_edge s n s"
| table: "((s, e), (t, num)) \<in> set T \<Longrightarrow> packet_edge s (JStr e) t"
| dead: "packet_edge s n ''DEAD_LETTER''"
| requeue: "s \<in> {''DISPATCHABLE'', ''RUNNING''} \<Longrightarrow> packet_edge s (JStr ''exec_failed'') ''DISPATCHABLE''"
| spawn_exhausted: "s \<in> {''DISPATCHABLE'', ''RUNNING''} \<Longrightarrow> packet_edge s (JStr ''exec_failed'') ''DUTY_REVIEW''"
| release_review: "packet_edge ''RUNNING'' (JStr ''exec_failed'') ''SOL_ADJUDICATE''"
| l2_exhausted: "packet_edge ''L2_VERIFY'' (JStr ''exec_failed'') ''SOL_ADJUDICATE''"

inductive_cases packet_edgeE: "packet_edge s n t"

definition counters_grow :: "string \<Rightarrow> sm_state \<Rightarrow> sm_state \<Rightarrow> bool" where
  "counters_grow pid st st' =
     (\<forall>j. dict_get_or 0 j (replan_counters st) \<le> dict_get_or 0 j (replan_counters st')
        \<and> dict_get_or 0 j (timeout_retry_counters st) \<le> dict_get_or 0 j (timeout_retry_counters st'))"

lemma counters_grow_refl [simp, intro]: "counters_grow pid st st"
  by (simp add: counters_grow_def)

lemma counters_grow_same [intro]:
  "replan_counters st' = replan_counters st \<Longrightarrow>
   timeout_retry_counters st' = timeout_retry_counters st \<Longrightarrow> counters_grow pid st st'"
  by (simp add: counters_grow_def)

section \<open>Outcomes of the parts of the handler\<close>

lemma enter_simps [simp]:
  "p_state (enter env to via t extra pkt) = to"
  "p_state (add_history env to via t extra pkt) = p_state pkt"
  "p_attempts (enter env to via t extra pkt) = p_attempts pkt"
  "p_attempts (add_history env to via t extra pkt) = p_attempts pkt"
  "p_l2_attempts (enter env to via t extra pkt) = p_l2_attempts pkt"
  "p_l2_attempts (add_history env to via t extra pkt) = p_l2_attempts pkt"
  "p_history (enter env to via t extra pkt) =
     p_history pkt @ [\<lparr>h_ts = e_now env, h_to = to, h_via = via, h_t = t, h_extra = extra\<rparr>]"
  "p_history (add_history env to via t extra pkt) =
     p_history pkt @ [\<lparr>h_ts = e_now env, h_to = to, h_via = via, h_t = t, h_extra = extra\<rparr>]"
  by (simp_all add: enter_def add_history_def)

lemma take_transition_simps [simp]:
  "p_state (take_transition env name ev to num pkt) = to"
  "p_attempts (take_transition env name ev to num pkt) =
     (if num \<in> {9, 37} then p_attempts pkt + 1 else p_attempts pkt)"
  "p_l2_attempts (take_transition env name ev to num pkt) = p_l2_attempts pkt"
  "p_history (take_transition env name ev to num pkt) =
     p_history pkt @ [\<lparr>h_ts = e_now env, h_to = to, h_via = name, h_t = Some num, h_extra = []\<rparr>]"
  by (simp_all add: take_transition_def Let_def)

lemma first_some_mem: "first_some xs = Some x \<Longrightarrow> Some x \<in> set xs"
  by (induction xs rule: first_some.induct) auto

definition confirms :: "sm_env \<Rightarrow> packet \<Rightarrow> packet \<Rightarrow> bool" where
  "confirms env pkt pkt' = (\<exists>via extra. pkt' = add_history env (p_state pkt) via None extra pkt)"

lemma confirm_rules:
  "stale_generation env name ev pkt = Some pkt' \<Longrightarrow> confirms env pkt pkt'"
  "stale_run_id env name ev pkt = Some pkt' \<Longrightarrow> confirms env pkt pkt'"
  "duplicate_generation env name ev pkt = Some pkt' \<Longrightarrow> confirms env pkt pkt'"
  "late_stop env pid name ev pkt = Some pkt' \<Longrightarrow> confirms env pkt pkt'"
  "dispatch_confirmed env name ev pkt = Some pkt' \<Longrightarrow> confirms env pkt pkt'"
  "timeout_confirmed env name ev pkt = Some pkt' \<Longrightarrow> confirms env pkt pkt'"
  unfolding confirms_def stale_generation_def stale_run_id_def duplicate_generation_def
    late_stop_def dispatch_confirmed_def timeout_confirmed_def ignore_def
  by (fastforce split: option.splits if_splits)+

lemma pre_spawn_failure_cases:
  assumes "pre_spawn_failure env name ev pkt = Some pkt'"
  obtains (requeue) extra pkt1 where "name = JStr ''exec_failed''"
      "p_state pkt \<in> {''DISPATCHABLE'', ''RUNNING''}"
      "pkt' = enter env ''DISPATCHABLE'' (JStr ''pre_spawn_failure_retryable'') None extra pkt1"
      "p_history pkt1 = p_history pkt" "p_attempts pkt1 = p_attempts pkt"
      "p_l2_attempts pkt1 = p_l2_attempts pkt" "p_state pkt1 = p_state pkt"
      "p_pre_spawn_failures pkt1 = p_pre_spawn_failures pkt + 1"
      "p_pre_spawn_failures pkt < PRE_SPAWN_FAILURE_MAX"
  | (exhausted) extra pkt1 where "name = JStr ''exec_failed''"
      "p_state pkt \<in> {''DISPATCHABLE'', ''RUNNING''}"
      "pkt' = enter env ''DUTY_REVIEW'' (JStr ''pre_spawn_failure_exhausted'') None extra pkt1"
      "p_history pkt1 = p_history pkt" "p_attempts pkt1 = p_attempts pkt"
      "p_l2_attempts pkt1 = p_l2_attempts pkt" "p_state pkt1 = p_state pkt"
      "PRE_SPAWN_FAILURE_MAX \<le> p_pre_spawn_failures pkt"
proof (cases "PRE_SPAWN_FAILURE_MAX < p_pre_spawn_failures pkt + 1")
  case True
  with assms obtain extra where
    "pkt' = enter env ''DUTY_REVIEW'' (JStr ''pre_spawn_failure_exhausted'') None extra
       (pkt\<lparr>p_pre_spawn_failures := p_pre_spawn_failures pkt + 1, p_current_run_id := JNull\<rparr>)"
    by (auto simp: pre_spawn_failure_def Let_def split: if_splits)
  from exhausted [OF _ _ this] show thesis
    using assms True by (auto simp: pre_spawn_failure_def split: if_splits)
next
  case False
  with assms have
    "pkt' = enter env ''DISPATCHABLE'' (JStr ''pre_spawn_failure_retryable'') None
       [(''event_run_id'', ev_run_id ev), (''detail'', JObj (ev_detail ev))]
       (pkt\<lparr>p_pre_spawn_failures := p_pre_spawn_failures pkt + 1, p_current_run_id :=
          (if run_ids_differ (p_current_run_id pkt) (ev_run_id ev)
           then p_current_run_id pkt else JNull)\<rparr>)"
    by (simp add: pre_spawn_failure_def Let_def split: if_split_asm)
  from requeue [OF _ _ this] show thesis
    using assms False by (auto simp: pre_spawn_failure_def split: if_splits)
qed

lemma release_review_failed_Some:
  "release_review_failed env name pkt = Some pkt' \<Longrightarrow>
     name = JStr ''exec_failed'' \<and> p_state pkt = ''RUNNING'' \<and> p_release_review pkt
     \<and> pkt' = enter env ''SOL_ADJUDICATE'' name (Some 26) [(''release_review'', JBool True)] pkt"
  by (auto simp: release_review_failed_def split: if_splits)

lemma local_rules_cases:
  assumes "local_rules env pid name ev pkt = Some pkt'"
  obtains (same) via extra where
      "pkt' = add_history env (p_state pkt) via None extra pkt"
  | (requeue) extra pkt1 where "name = JStr ''exec_failed''"
      "p_state pkt \<in> {''DISPATCHABLE'', ''RUNNING''}"
      "pkt' = enter env ''DISPATCHABLE'' (JStr ''pre_spawn_failure_retryable'') None extra pkt1"
      "p_history pkt1 = p_history pkt" "p_attempts pkt1 = p_attempts pkt"
      "p_l2_attempts pkt1 = p_l2_attempts pkt" "p_state pkt1 = p_state pkt"
      "p_pre_spawn_failures pkt1 = p_pre_spawn_failures pkt + 1"
      "p_pre_spawn_failures pkt < PRE_SPAWN_FAILURE_MAX"
  | (exhausted) extra pkt1 where "name = JStr ''exec_failed''"
      "p_state pkt \<in> {''DISPATCHABLE'', ''RUNNING''}"
      "pkt' = enter env ''DUTY_REVIEW'' (JStr ''pre_spawn_failure_exhausted'') None extra pkt1"
      "p_history pkt1 = p_history pkt" "p_attempts pkt1 = p_attempts pkt"
      "p_l2_attempts pkt1 = p_l2_attempts pkt" "p_state pkt1 = p_state pkt"
      "PRE_SPAWN_FAILURE_MAX \<le> p_pre_spawn_failures pkt"
  | (review) "name = JStr ''exec_failed''" "p_state pkt = ''RUNNING''" "p_release_review pkt"
      "pkt' = enter env ''SOL_ADJUDICATE'' name (Some 26) [(''release_review'', JBool True)] pkt"
proof -
  have "confirms env pkt pkt' \<or> pre_spawn_failure env name ev pkt = Some pkt'
        \<or> release_review_failed env name pkt = Some pkt'"
    using first_some_mem [OF assms [unfolded local_rules_def]]
    by (auto dest: confirm_rules [OF sym])
  then consider (c) "confirms env pkt pkt'" | (p) "pre_spawn_failure env name ev pkt = Some pkt'"
    | (r) "release_review_failed env name pkt = Some pkt'" by blast
  then show thesis
  proof cases
    case c
    then show thesis using same by (auto simp: confirms_def)
  next
    case p
    then show thesis by (cases rule: pre_spawn_failure_cases) (fact requeue, fact exhausted)
  next
    case r
    then show thesis using review release_review_failed_Some by blast
  qed
qed

lemma bump_counter_parts:
  "bump_replan_counter env pid st = ((n, b), st') \<Longrightarrow>
     packets st' = packets st \<and> timeout_retry_counters st' = timeout_retry_counters st
     \<and> bump_counter REPLAN_CAP (e_counter_io env) pid (replan_counters st) = ((n, b), replan_counters st')"
  "bump_timeout_retry_counter env pid st = ((n, b), st') \<Longrightarrow>
     packets st' = packets st \<and> replan_counters st' = replan_counters st
     \<and> bump_counter TIMEOUT_RETRY_MAX (e_counter_io env) pid (timeout_retry_counters st)
         = ((n, b), timeout_retry_counters st')"
  by (auto simp: bump_replan_counter_def bump_timeout_retry_counter_def split: prod.splits)

lemma bump_counters_grow:
  "bump_replan_counter env pid st = ((n, b), st') \<Longrightarrow> counters_grow pid st st'"
  "bump_timeout_retry_counter env pid st = ((n, b), st') \<Longrightarrow> counters_grow pid st st'"
  by (auto simp: counters_grow_def dest!: bump_counter_parts dest: file_counter.bump_grows)

lemma to_dead_letter_Inr:
  "to_dead_letter env pid pkt reason detail st = Inr st' \<Longrightarrow>
     valid_pid pid
     \<and> packets st' = dict_set pid (enter env ''DEAD_LETTER'' (JStr reason) None [] pkt) (packets st)
     \<and> replan_counters st' = replan_counters st
     \<and> timeout_retry_counters st' = timeout_retry_counters st
     \<and> event_cursor st' = event_cursor st
     \<and> dead_this_step st' = dead_this_step st + 1
     \<and> sol_wakes st' = sol_wakes st @ [(pid, reason)]
     \<and> dict_has pid (dead_letters st')"
  by (auto simp: to_dead_letter_def put_packet_def sol_wake_def Let_def split: if_splits)

lemma l4_summary_Inr:
  "l4_summary pid reason st = Inr st' \<Longrightarrow>
     packets st' = packets st \<and> replan_counters st' = replan_counters st
     \<and> timeout_retry_counters st' = timeout_retry_counters st
     \<and> l4_queue st' = l4_queue st @ [(pid, reason)]"
  by (auto simp: l4_summary_def split: if_splits)

text \<open>
  What a transition that spends one of the two counted budgets leaves in the counter
  files, and what the gated transitions t4, t11, t12 and t35 require.
\<close>

definition spends :: "nat \<Rightarrow> string \<Rightarrow> sm_state \<Rightarrow> sm_state \<Rightarrow> bool" where
  "spends num pid st st' =
     ((num = 22 \<longrightarrow> dict_get_or 0 pid (replan_counters st') = dict_get_or 0 pid (replan_counters st) + 1
                   \<and> dict_get_or 0 pid (replan_counters st') \<le> REPLAN_CAP)
      \<and> (num = 37 \<longrightarrow> dict_get_or 0 pid (timeout_retry_counters st')
                        = dict_get_or 0 pid (timeout_retry_counters st) + 1
                   \<and> dict_get_or 0 pid (timeout_retry_counters st') \<le> TIMEOUT_RETRY_MAX))"

definition gates_open :: "sm_env \<Rightarrow> string \<Rightarrow> nat \<Rightarrow> packet \<Rightarrow> bool" where
  "gates_open env pid num pkt =
     ((num = 4 \<longrightarrow> report_is_current env pid)
      \<and> (num \<in> {11, 12} \<longrightarrow> e_enforce_duty env)
      \<and> (num = 35 \<longrightarrow> p_l2_attempts pkt < L2_ATTEMPTS_MAX))"

definition entered_packet :: "nat \<Rightarrow> packet \<Rightarrow> packet" where
  "entered_packet num pkt = (if num = 35 then pkt\<lparr>p_l2_attempts := p_l2_attempts pkt + 1\<rparr> else pkt)"

lemma T_lookup_Some:
  "T_lookup s name = Some (to, num) \<Longrightarrow> \<exists>e. name = JStr e \<and> ((s, e), (to, num)) \<in> set T"
  by (auto simp: T_lookup_def split: json.splits dest: map_of_SomeD)

lemma T_distinct: "distinct (map fst T)"
  by code_simp

lemma T_lookup_iff: "T_lookup s (JStr e) = Some (to, num) \<longleftrightarrow> ((s, e), (to, num)) \<in> set T"
  by (simp add: T_lookup_def T_distinct)

definition budget_row :: "(string \<times> string) \<times> string \<times> nat \<Rightarrow> bool" where
  "budget_row r = (case r of ((s, e), (to, num)) \<Rightarrow>
     (num = 22 \<longrightarrow> s = ''SOL_ADJUDICATE'' \<and> e = ''sol_replan'' \<and> to = ''PLANNED'')
     \<and> (num = 37 \<longrightarrow> s = ''TIMED_OUT'' \<and> e = ''retry_dispatch'' \<and> to = ''DISPATCHABLE'')
     \<and> (num = 35 \<longrightarrow> s = ''L2_VERIFY'' \<and> e = ''exec_failed'' \<and> to = ''FAILED''))"

lemma T_budget_rows: "r \<in> set T \<Longrightarrow> budget_row r"
proof -
  have "list_all budget_row T" by code_simp
  then show "r \<in> set T \<Longrightarrow> budget_row r" by (simp add: list_all_iff)
qed

lemma dead_letter_outcome:
  assumes "to_dead_letter env pid pkt reason detail st1 = Inr st'"
    and "packets st1 = packets st" and "sol_wakes st1 = sol_wakes st"
    and "dead_this_step st1 = dead_this_step st" and "counters_grow pid st st1"
  shows "packets st' = dict_set pid (enter env ''DEAD_LETTER'' (JStr reason) None [] pkt) (packets st)
    \<and> counters_grow pid st st' \<and> dead_this_step st' = dead_this_step st + 1 \<and> valid_pid pid
    \<and> sol_wakes st' = sol_wakes st @ [(pid, reason)]"
  using to_dead_letter_Inr [OF assms(1)] assms(2-5) by (simp add: counters_grow_def)

text \<open>
  The four ways a table step can end, as an inductive relation; its case rule is how the
  lemmas below look at a table step.
\<close>

inductive table_outcome ::
  "sm_env \<Rightarrow> string \<Rightarrow> json \<Rightarrow> jobj \<Rightarrow> packet \<Rightarrow> sm_state \<Rightarrow> sm_state \<Rightarrow> bool"
  for env pid name ev pkt st st' where
  dead: "packets st' = dict_set pid (enter env ''DEAD_LETTER'' (JStr reason) None [] pkt) (packets st) \<Longrightarrow>
     counters_grow pid st st' \<Longrightarrow> dead_this_step st' = dead_this_step st + 1 \<Longrightarrow> valid_pid pid \<Longrightarrow>
     sol_wakes st' = sol_wakes st @ [(pid, reason)] \<Longrightarrow>
     table_outcome env pid name ev pkt st st'"
| forced_l4: "p_state pkt = ''SOL_ADJUDICATE'' \<Longrightarrow> name = JStr ''sol_replan'' \<Longrightarrow>
     packets st' = dict_set pid (add_history env ''SOL_ADJUDICATE''
          (JStr ''replan_cap_forced_l4'') (Some 22) [] pkt) (packets st) \<Longrightarrow>
     counters_grow pid st st' \<Longrightarrow> (pid, ''replan_cap_exceeded'') \<in> set (l4_queue st') \<Longrightarrow>
     table_outcome env pid name ev pkt st st'"
| l2_exhausted: "p_state pkt = ''L2_VERIFY'' \<Longrightarrow> name = JStr ''exec_failed'' \<Longrightarrow>
     packets st' = dict_set pid (enter env ''SOL_ADJUDICATE'' (JStr ''l2_attempts_exhausted'')
          (Some 35) [] (pkt\<lparr>p_l2_attempts := p_l2_attempts pkt + 1\<rparr>)) (packets st) \<Longrightarrow>
     counters_grow pid st st' \<Longrightarrow> L2_ATTEMPTS_MAX \<le> p_l2_attempts pkt \<Longrightarrow>
     table_outcome env pid name ev pkt st st'"
| move: "name = JStr e \<Longrightarrow> ((p_state pkt, e), (to, num)) \<in> set T \<Longrightarrow>
     packets st' = dict_set pid (take_transition env name ev to num (entered_packet num pkt)) (packets st) \<Longrightarrow>
     counters_grow pid st st' \<Longrightarrow> spends num pid st st' \<Longrightarrow> gates_open env pid num pkt \<Longrightarrow>
     table_outcome env pid name ev pkt st st'"

lemma dead_letter_table_outcome:
  "to_dead_letter env pid pkt reason detail st1 = Inr st' \<Longrightarrow>
   packets st1 = packets st \<Longrightarrow> sol_wakes st1 = sol_wakes st \<Longrightarrow>
   dead_this_step st1 = dead_this_step st \<Longrightarrow> counters_grow pid st st1 \<Longrightarrow>
   table_outcome env pid name ev pkt st st'"
  by (drule (4) dead_letter_outcome) (auto intro: table_outcome.dead)

lemma replan_outcome:
  assumes look: "T_lookup (p_state pkt) name = Some (to, 22)"
    and ts: "table_step env pid name ev pkt st = Inr st'"
  shows "table_outcome env pid name ev pkt st st'"
proof -
  from look obtain e where e: "name = JStr e" and mem: "((p_state pkt, e), (to, 22)) \<in> set T"
    using T_lookup_Some by blast
  obtain n b st1 where bump: "bump_replan_counter env pid st = ((n, b), st1)"
    by (metis prod.exhaust)
  note parts = bump_counter_parts(1) [OF bump] and grow = bump_counters_grow(1) [OF bump]
  show ?thesis
  proof (cases b)
    case True
    with ts look bump obtain st2 where "l4_summary pid ''replan_cap_exceeded'' st1 = Inr st2"
      and "st' = put_packet pid (add_history env ''SOL_ADJUDICATE''
             (JStr ''replan_cap_forced_l4'') (Some 22) [] pkt) st2"
      by (auto simp: table_step_def split: sum.splits)
    with l4_summary_Inr parts grow T_budget_rows [OF mem] e show ?thesis
      by (intro table_outcome.forced_l4) (auto simp: put_packet_def counters_grow_def budget_row_def)
  next
    case False
    with ts look bump have st': "st' = put_packet pid (take_transition env name ev to 22 pkt) st1"
      by (simp add: table_step_def)
    from parts False have "bump_counter REPLAN_CAP (e_counter_io env) pid (replan_counters st)
        = ((n, False), replan_counters st1)" by simp
    from file_counter.bump_within [OF this] have "spends 22 pid st st'"
      by (simp add: spends_def st' put_packet_def)
    with parts grow st' mem e show ?thesis
      by (intro table_outcome.move [of name e pkt to 22])
         (auto simp: put_packet_def counters_grow_def gates_open_def entered_packet_def)
  qed
qed

lemma timeout_retry_outcome:
  assumes look: "T_lookup (p_state pkt) name = Some (to, 37)"
    and ts: "table_step env pid name ev pkt st = Inr st'"
  shows "table_outcome env pid name ev pkt st st'"
proof -
  from look obtain e where e: "name = JStr e" and mem: "((p_state pkt, e), (to, 37)) \<in> set T"
    using T_lookup_Some by blast
  obtain n b st1 where bump: "bump_timeout_retry_counter env pid st = ((n, b), st1)"
    by (metis prod.exhaust)
  note parts = bump_counter_parts(2) [OF bump] and grow = bump_counters_grow(2) [OF bump]
  have same: "sol_wakes st1 = sol_wakes st" "dead_this_step st1 = dead_this_step st"
    using bump by (auto simp: bump_timeout_retry_counter_def split: prod.splits)
  show ?thesis
  proof (cases b)
    case True
    with ts look bump have "to_dead_letter env pid pkt ''timeout_retry_exhausted''
        (JObj [(''timeout_retries'', JInt n), (''cap'', JInt TIMEOUT_RETRY_MAX)]) st1 = Inr st'"
      by (simp add: table_step_def)
    then show ?thesis using parts grow same by (auto intro: dead_letter_table_outcome)
  next
    case False
    with ts look bump have st': "st' = put_packet pid (take_transition env name ev to 37 pkt) st1"
      by (simp add: table_step_def)
    from parts False have "bump_counter TIMEOUT_RETRY_MAX (e_counter_io env) pid
        (timeout_retry_counters st) = ((n, False), timeout_retry_counters st1)" by simp
    from file_counter.bump_within [OF this] have "spends 37 pid st st'"
      by (simp add: spends_def st' put_packet_def)
    with parts grow st' mem e show ?thesis
      by (intro table_outcome.move [of name e pkt to 37])
         (auto simp: put_packet_def counters_grow_def gates_open_def entered_packet_def)
  qed
qed

lemma l2_failure_outcome:
  assumes look: "T_lookup (p_state pkt) name = Some (to, 35)"
    and ts: "table_step env pid name ev pkt st = Inr st'"
  shows "table_outcome env pid name ev pkt st st'"
proof -
  from look obtain e where e: "name = JStr e" and mem: "((p_state pkt, e), (to, 35)) \<in> set T"
    using T_lookup_Some by blast
  show ?thesis
  proof (cases "L2_ATTEMPTS_MAX < p_l2_attempts pkt + 1")
    case True
    with ts look T_budget_rows [OF mem] e show ?thesis
      by (intro table_outcome.l2_exhausted)
         (auto simp: table_step_def put_packet_def Let_def counters_grow_def budget_row_def)
  next
    case False
    with ts look mem e show ?thesis
      by (intro table_outcome.move [of name e pkt to 35])
         (auto simp: table_step_def put_packet_def Let_def counters_grow_def spends_def
              gates_open_def entered_packet_def)
  qed
qed

lemma table_step_outcome:
  assumes ts: "table_step env pid name ev pkt st = Inr st'"
  shows "table_outcome env pid name ev pkt st st'"
proof (cases "T_lookup (p_state pkt) name")
  case None
  with ts show ?thesis by (auto simp: table_step_def intro: dead_letter_table_outcome)
next
  case (Some row)
  then obtain to num where look: "T_lookup (p_state pkt) name = Some (to, num)" by (cases row) auto
  then obtain e where e: "name = JStr e" and mem: "((p_state pkt, e), (to, num)) \<in> set T"
    using T_lookup_Some by blast
  consider (g4) "num = 4 \<and> \<not> report_is_current env pid"
    | (g11) "num \<in> {11, 12} \<and> \<not> e_enforce_duty env"
    | (n22) "num = 22" | (n37) "num = 37" | (n35) "num = 35"
    | (other) "num \<notin> {22, 37, 35}" "num = 4 \<longrightarrow> report_is_current env pid"
        "num \<in> {11, 12} \<longrightarrow> e_enforce_duty env"
    by blast
  then show ?thesis
  proof cases
    case g4
    with ts look show ?thesis by (auto simp: table_step_def intro: dead_letter_table_outcome)
  next
    case g11
    then have "num \<noteq> 4" by auto
    with g11 ts look show ?thesis
      by (auto simp: table_step_def intro!: dead_letter_table_outcome)
  next
    case n22
    with ts look show ?thesis by (auto intro: replan_outcome)
  next
    case n37
    with ts look show ?thesis by (auto intro: timeout_retry_outcome)
  next
    case n35
    with ts look show ?thesis by (auto intro: l2_failure_outcome)
  next
    case other
    with ts look mem e show ?thesis
      by (intro table_outcome.move [of name e pkt to num])
         (auto simp: table_step_def put_packet_def counters_grow_def spends_def
              gates_open_def entered_packet_def)
  qed
qed

section \<open>Outcomes of one event\<close>

definition ev_name :: "jobj \<Rightarrow> json" where
  "ev_name ev = jget_or (JStr ''?'') ev ''event''"

definition admitted :: "string \<Rightarrow> sm_state \<Rightarrow> sm_state" where
  "admitted pid st = st\<lparr>packets := dict_setdefault pid new_packet (packets st)\<rparr>"

definition packet_of :: "string \<Rightarrow> sm_state \<Rightarrow> packet" where
  "packet_of pid st = dict_get_or new_packet pid (packets st)"

lemma packet_of_admitted [simp]: "packet_of j (admitted pid st) = packet_of j st"
  by (auto simp: packet_of_def admitted_def dict_get_or_def split: option.splits)

lemma admitted_simps [simp]:
  "replan_counters (admitted pid st) = replan_counters st"
  "timeout_retry_counters (admitted pid st) = timeout_retry_counters st"
  "sol_wakes (admitted pid st) = sol_wakes st"
  "dead_this_step (admitted pid st) = dead_this_step st"
  by (simp_all add: admitted_def)

lemma counters_grow_admitted [simp]: "counters_grow pid (admitted p st) st' = counters_grow pid st st'"
  by (simp add: counters_grow_def)

inductive event_outcome :: "sm_env \<Rightarrow> json \<Rightarrow> sm_state \<Rightarrow> string option \<Rightarrow> sm_state \<Rightarrow> bool"
  for env event st r st' where
  unchanged: "r = None \<Longrightarrow> st' = st \<Longrightarrow> event_outcome env event st r st'"
| local: "event = JObj ev \<Longrightarrow> jget_or (JStr ''?'') ev ''packet_id'' = JStr pid \<Longrightarrow>
     dict_has pid (packets st) \<or> admitting_event (ev_name ev) \<Longrightarrow>
     local_rules env pid (ev_name ev) ev (packet_of pid st) = Some pkt' \<Longrightarrow>
     st' = put_packet pid pkt' (admitted pid st) \<Longrightarrow> r = Some (p_state pkt') \<Longrightarrow>
     event_outcome env event st r st'"
| tabled: "event = JObj ev \<Longrightarrow> jget_or (JStr ''?'') ev ''packet_id'' = JStr pid \<Longrightarrow>
     dict_has pid (packets st) \<or> admitting_event (ev_name ev) \<Longrightarrow>
     table_outcome env pid (ev_name ev) ev (packet_of pid st) (admitted pid st) st' \<Longrightarrow>
     r = Some (p_state (packet_of pid st')) \<Longrightarrow> event_outcome env event st r st'"

lemma apply_event_outcome:
  assumes "apply_event env event st = Inr (r, st')"
  shows "event_outcome env event st r st'"
proof -
  from assms obtain ev where ev: "event = JObj ev"
    by (cases event) (simp_all add: apply_event_def)
  show ?thesis
  proof (cases "r = None \<and> st' = st")
    case True
    then show ?thesis by (auto intro: unchanged)
  next
    case False
    with assms ev obtain pid where pid: "jget_or (JStr ''?'') ev ''packet_id'' = JStr pid"
      by (auto simp: apply_event_def Let_def split: json.splits if_splits)
    have known: "dict_has pid (packets st) \<or> admitting_event (ev_name ev)"
      using assms ev pid False
      by (auto simp: apply_event_def Let_def ev_name_def split: if_splits)
    note parts = admitted_def [symmetric] packet_of_def [symmetric] ev_name_def [symmetric]
    show ?thesis
    proof (cases "local_rules env pid (ev_name ev) ev (packet_of pid st)")
      case (Some pkt')
      with assms ev pid False known show ?thesis
        by (intro local [of event ev pid]) (auto simp: apply_event_def Let_def parts split: if_splits)
    next
      case None
      with assms ev pid False known show ?thesis
        by (intro tabled [of event ev pid])
           (auto simp: apply_event_def Let_def parts intro: table_step_outcome
             split: if_splits sum.splits)
    qed
  qed
qed

section \<open>Refinement of the abstract graph\<close>

lemma local_rules_edge:
  "local_rules env pid name ev pkt = Some pkt' \<Longrightarrow> packet_edge (p_state pkt) name (p_state pkt')"
  by (cases rule: local_rules_cases, assumption) (auto intro: packet_edge.intros)

lemma table_outcome_edge:
  "table_outcome env pid name ev pkt st st' \<Longrightarrow> packet_edge (p_state pkt) name (p_state (packet_of pid st'))"
  by (cases rule: table_outcome.cases, assumption)
     (auto simp: packet_of_def intro: packet_edge.intros)

lemma table_outcome_frame:
  "table_outcome env pid name ev pkt st st' \<Longrightarrow> j \<noteq> pid \<Longrightarrow> map_of (packets st') j = map_of (packets st) j"
  by (cases rule: table_outcome.cases, assumption) auto

definition event_pid :: "json \<Rightarrow> json" where
  "event_pid event = jget_or (JStr ''?'') (obj_of event) ''packet_id''"

lemma apply_event_refines:
  assumes "apply_event env event st = Inr (r, st')"
  shows "packet_edge (p_state (packet_of pid st)) (ev_name (obj_of event)) (p_state (packet_of pid st'))
    \<and> (event_pid event \<noteq> JStr pid \<longrightarrow> map_of (packets st') pid = map_of (packets st) pid)"
  using apply_event_outcome [OF assms]
proof cases
  case unchanged
  then show ?thesis by (auto intro: packet_edge.intros)
next
  case (local ev p pkt')
  have "packet_edge (p_state (packet_of p st)) (ev_name ev) (p_state (packet_of p st'))"
    using local_rules_edge [OF local(4)] local(5) by (simp add: packet_of_def put_packet_def)
  then show ?thesis using local
    by (cases "pid = p") (auto simp: packet_of_def put_packet_def admitted_def event_pid_def
        dict_get_or_def intro: packet_edge.stay)
next
  case (tabled ev p)
  have "packet_edge (p_state (packet_of p st)) (ev_name ev) (p_state (packet_of p st'))"
    using table_outcome_edge [OF tabled(4)] by simp
  moreover have "pid \<noteq> p \<Longrightarrow> map_of (packets st') pid = map_of (packets st) pid"
    using table_outcome_frame [OF tabled(4)] by (simp add: admitted_def)
  ultimately show ?thesis using tabled
    by (cases "pid = p") (auto simp: packet_of_def event_pid_def dict_get_or_def
        intro: packet_edge.stay)
qed

section \<open>Entry conditions of the states that release work\<close>

definition guarded_row :: "(string \<times> string) \<times> string \<times> nat \<Rightarrow> bool" where
  "guarded_row r = (case r of ((s, e), (to, num)) \<Rightarrow>
     (to = ''DONE'' \<longrightarrow> s = ''SOL_ADJUDICATE'' \<and> e = ''release_merge'')
     \<and> (to = ''MERGED'' \<longrightarrow> s = ''ACCEPTED'' \<and> e = ''merged'')
     \<and> (to = ''ACCEPTED'' \<longrightarrow> (s = ''REPORTED'' \<and> e = ''acceptance_pass'')
                           \<or> (s = ''L2_VERIFY'' \<and> e = ''verdict_pass'')))"

lemma T_guarded: "((s, e), (to, num)) \<in> set T \<Longrightarrow> guarded_row ((s, e), (to, num))"
proof -
  have "list_all guarded_row T" by code_simp
  then show "((s, e), (to, num)) \<in> set T \<Longrightarrow> guarded_row ((s, e), (to, num))"
    unfolding list_all_iff by blast
qed

lemma edge_into:
  assumes "packet_edge s n t" and "s \<noteq> t"
  shows "(t = ''DONE'' \<longrightarrow> s = ''SOL_ADJUDICATE'' \<and> n = JStr ''release_merge'')
     \<and> (t = ''MERGED'' \<longrightarrow> s = ''ACCEPTED'' \<and> n = JStr ''merged'')
     \<and> (t = ''ACCEPTED'' \<longrightarrow> (s = ''REPORTED'' \<and> n = JStr ''acceptance_pass'')
                         \<or> (s = ''L2_VERIFY'' \<and> n = JStr ''verdict_pass''))"
  using assms(1)
proof cases
  case (table e num)
  then show ?thesis using T_guarded [OF table(2)] by (simp add: guarded_row_def)
qed (use assms(2) in auto)

section \<open>The packet invariant\<close>

text \<open>
  \<open>hcount P\<close> counts history entries. The invariant of one packet, given the stored counts
  \<open>rc\<close> and \<open>tc\<close> of its replans and timeout retries: the last history entry names the
  current state, the attempt number is the number of admitted retries, and every bounded
  transition was taken at most as often as its counter says and as its cap allows.
\<close>

definition hcount :: "(history_entry \<Rightarrow> bool) \<Rightarrow> packet \<Rightarrow> int" where
  "hcount P pkt = int (length (filter P (p_history pkt)))"

definition is_replan :: "history_entry \<Rightarrow> bool" where
  "is_replan h = (h_t h = Some 22 \<and> h_to h = ''PLANNED'')"

definition is_timeout_retry :: "history_entry \<Rightarrow> bool" where
  "is_timeout_retry h = (h_t h = Some 37)"

definition is_retry :: "history_entry \<Rightarrow> bool" where
  "is_retry h = (h_t h = Some 9 \<or> h_t h = Some 37)"

definition is_l2_failure :: "history_entry \<Rightarrow> bool" where
  "is_l2_failure h = (h_t h = Some 35 \<and> h_to h = ''FAILED'')"

definition current_state :: "packet \<Rightarrow> string" where
  "current_state pkt = (if p_history pkt = [] then ''NONE'' else h_to (last (p_history pkt)))"

definition packet_inv :: "int \<Rightarrow> int \<Rightarrow> packet \<Rightarrow> bool" where
  "packet_inv rc tc pkt =
     (p_state pkt = current_state pkt
      \<and> p_attempts pkt = hcount is_retry pkt
      \<and> hcount is_replan pkt \<le> rc \<and> hcount is_replan pkt \<le> REPLAN_CAP
      \<and> hcount is_timeout_retry pkt \<le> tc \<and> hcount is_timeout_retry pkt \<le> TIMEOUT_RETRY_MAX
      \<and> hcount is_l2_failure pkt \<le> p_l2_attempts pkt
      \<and> hcount is_l2_failure pkt \<le> L2_ATTEMPTS_MAX)"

definition sm_inv :: "sm_state \<Rightarrow> bool" where
  "sm_inv st = (wf_dict (packets st) \<and>
     (\<forall>pid. packet_inv (dict_get_or 0 pid (replan_counters st))
        (dict_get_or 0 pid (timeout_retry_counters st)) (packet_of pid st)))"

lemmas history_kinds = is_replan_def is_timeout_retry_def is_retry_def is_l2_failure_def

lemma packet_inv_new [inv_intros]: "0 \<le> rc \<Longrightarrow> 0 \<le> tc \<Longrightarrow> packet_inv rc tc new_packet"
  by (simp add: packet_inv_def new_packet_def hcount_def current_state_def sm_caps)

lemma packet_inv_mono [inv_intros]:
  "packet_inv rc tc pkt \<Longrightarrow> rc \<le> rc' \<Longrightarrow> tc \<le> tc' \<Longrightarrow> packet_inv rc' tc' pkt"
  by (auto simp: packet_inv_def)

text \<open>Appending an entry that spends no budget keeps the invariant.\<close>

lemma packet_inv_append:
  assumes "packet_inv rc tc pkt"
    and "p_history pkt' = p_history pkt @ [h]" and "p_state pkt' = h_to h"
    and "p_attempts pkt' = p_attempts pkt" and "p_l2_attempts pkt \<le> p_l2_attempts pkt'"
    and "\<not> is_retry h" and "\<not> is_replan h" and "\<not> is_l2_failure h"
  shows "packet_inv rc tc pkt'"
proof -
  have "\<not> is_timeout_retry h" using assms(6) by (auto simp: history_kinds)
  then show ?thesis using assms
    by (auto simp: packet_inv_def hcount_def current_state_def)
qed

lemma packet_inv_enter [inv_intros]:
  "packet_inv rc tc pkt \<Longrightarrow> t \<notin> {Some 9, Some 37} \<Longrightarrow>
     t = Some 22 \<longrightarrow> to \<noteq> ''PLANNED'' \<Longrightarrow> t = Some 35 \<longrightarrow> to \<noteq> ''FAILED'' \<Longrightarrow>
     packet_inv rc tc (enter env to via t extra pkt)"
  by (erule packet_inv_append) (auto simp: history_kinds)

lemma enter_same: "p_state pkt = s \<Longrightarrow> add_history env s via t extra pkt = enter env s via t extra pkt"
  by (cases pkt) (simp add: enter_def)

lemma packet_inv_l2 [inv_intros]:
  "packet_inv rc tc pkt \<Longrightarrow> packet_inv rc tc (pkt\<lparr>p_l2_attempts := p_l2_attempts pkt + 1\<rparr>)"
  by (simp add: packet_inv_def hcount_def current_state_def)

lemma local_rules_inv:
  assumes "local_rules env pid name ev pkt = Some pkt'" and "packet_inv rc tc pkt"
  shows "packet_inv rc tc pkt'"
  using assms(1)
proof (cases rule: local_rules_cases)
  case same
  then show ?thesis using packet_inv_append [OF assms(2)] by (auto simp: history_kinds)
next
  case requeue
  then show ?thesis using packet_inv_append [OF assms(2)] by (auto simp: history_kinds)
next
  case exhausted
  then show ?thesis using packet_inv_append [OF assms(2)] by (auto simp: history_kinds)
next
  case review
  then show ?thesis using packet_inv_append [OF assms(2)] by (auto simp: history_kinds)
qed

lemma hcount_snoc:
  "p_history pkt' = p_history pkt @ [h] \<Longrightarrow> hcount P pkt' = hcount P pkt + (if P h then 1 else 0)"
  by (simp add: hcount_def)

lemma take_transition_inv:
  assumes inv: "packet_inv rc tc pkt" and row: "((p_state pkt, e), (to, num)) \<in> set T"
    and gates: "gates_open env pid num pkt"
    and rc: "rc \<le> rc'" "num = 22 \<Longrightarrow> rc' = rc + 1 \<and> rc' \<le> REPLAN_CAP"
    and tc: "tc \<le> tc'" "num = 37 \<Longrightarrow> tc' = tc + 1 \<and> tc' \<le> TIMEOUT_RETRY_MAX"
  shows "packet_inv rc' tc' (take_transition env name ev to num (entered_packet num pkt))"
proof -
  let ?h = "\<lparr>h_ts = e_now env, h_to = to, h_via = name, h_t = Some num, h_extra = []\<rparr>"
  let ?q = "take_transition env name ev to num (entered_packet num pkt)"
  have hist: "p_history ?q = p_history pkt @ [?h]"
    by (simp add: entered_packet_def)
  note cnt = hcount_snoc [OF hist]
  have kinds: "is_replan ?h = (num = 22)" "is_l2_failure ?h = (num = 35)"
    "is_timeout_retry ?h = (num = 37)" "is_retry ?h = (num = 9 \<or> num = 37)"
    using T_budget_rows [OF row] by (auto simp: history_kinds budget_row_def)
  have i: "p_attempts pkt = hcount is_retry pkt" "hcount is_replan pkt \<le> rc"
    "hcount is_replan pkt \<le> REPLAN_CAP" "hcount is_timeout_retry pkt \<le> tc"
    "hcount is_timeout_retry pkt \<le> TIMEOUT_RETRY_MAX"
    "hcount is_l2_failure pkt \<le> p_l2_attempts pkt" "hcount is_l2_failure pkt \<le> L2_ATTEMPTS_MAX"
    using inv by (simp_all add: packet_inv_def)
  have imps: "num = 22 \<longrightarrow> rc' = rc + 1 \<and> rc' \<le> REPLAN_CAP"
    "num = 37 \<longrightarrow> tc' = tc + 1 \<and> tc' \<le> TIMEOUT_RETRY_MAX"
    using rc(2) tc(2) by blast+
  have counts: "p_attempts ?q = hcount is_retry ?q"
    "hcount is_replan ?q \<le> rc'" "hcount is_replan ?q \<le> REPLAN_CAP"
    "hcount is_timeout_retry ?q \<le> tc'" "hcount is_timeout_retry ?q \<le> TIMEOUT_RETRY_MAX"
    "hcount is_l2_failure ?q \<le> p_l2_attempts ?q" "hcount is_l2_failure ?q \<le> L2_ATTEMPTS_MAX"
    unfolding cnt kinds using i rc(1) tc(1) imps gates
    by (simp_all add: entered_packet_def gates_open_def) (clarsimp; linarith)+
  show ?thesis
    using counts by (simp add: packet_inv_def current_state_def hist)
qed

lemma table_outcome_inv:
  assumes "table_outcome env pid name ev pkt st st'"
    and "packet_inv (dict_get_or 0 pid (replan_counters st)) (dict_get_or 0 pid (timeout_retry_counters st)) pkt"
  shows "packet_inv (dict_get_or 0 pid (replan_counters st')) (dict_get_or 0 pid (timeout_retry_counters st'))
           (packet_of pid st')"
  using assms(1)
proof cases
  case (dead reason)
  then have "packet_of pid st' = enter env ''DEAD_LETTER'' (JStr reason) None [] pkt"
    by (simp add: packet_of_def)
  moreover have "packet_inv (dict_get_or 0 pid (replan_counters st))
      (dict_get_or 0 pid (timeout_retry_counters st)) \<dots>"
    by (rule packet_inv_enter [OF assms(2)]) simp_all
  ultimately show ?thesis using dead(2) by (simp add: packet_inv_mono counters_grow_def)
next
  case forced_l4
  then have "packet_of pid st' =
      enter env ''SOL_ADJUDICATE'' (JStr ''replan_cap_forced_l4'') (Some 22) [] pkt"
    by (simp add: packet_of_def enter_same)
  moreover have "packet_inv (dict_get_or 0 pid (replan_counters st))
      (dict_get_or 0 pid (timeout_retry_counters st)) \<dots>"
    by (rule packet_inv_enter [OF assms(2)]) simp_all
  ultimately show ?thesis using forced_l4(4) by (simp add: packet_inv_mono counters_grow_def)
next
  case l2_exhausted
  then have "packet_of pid st' = enter env ''SOL_ADJUDICATE'' (JStr ''l2_attempts_exhausted'')
      (Some 35) [] (pkt\<lparr>p_l2_attempts := p_l2_attempts pkt + 1\<rparr>)"
    by (simp add: packet_of_def)
  moreover have "packet_inv (dict_get_or 0 pid (replan_counters st))
      (dict_get_or 0 pid (timeout_retry_counters st)) \<dots>"
    by (rule packet_inv_enter [OF packet_inv_l2 [OF assms(2)]]) simp_all
  ultimately show ?thesis using l2_exhausted(4) by (simp add: packet_inv_mono counters_grow_def)
next
  case (move e to num)
  then have "packet_of pid st' = take_transition env name ev to num (entered_packet num pkt)"
    by (simp add: packet_of_def)
  moreover have "packet_inv (dict_get_or 0 pid (replan_counters st'))
      (dict_get_or 0 pid (timeout_retry_counters st'))
      (take_transition env name ev to num (entered_packet num pkt))"
    using move(4,5)
    by (intro take_transition_inv [OF assms(2) move(2,6)])
       (simp_all add: counters_grow_def spends_def)
  ultimately show ?thesis by simp
qed

lemma table_outcome_grow: "table_outcome env pid name ev pkt st st' \<Longrightarrow> counters_grow pid st st'"
  by (cases rule: table_outcome.cases, assumption)

lemma table_outcome_keys:
  "table_outcome env pid name ev pkt st st' \<Longrightarrow> wf_dict (packets st) \<Longrightarrow> wf_dict (packets st')"
  by (cases rule: table_outcome.cases, assumption) auto

lemma apply_event_inv:
  assumes "apply_event env event st = Inr (r, st')" and inv: "sm_inv st"
  shows "sm_inv st'"
  using apply_event_outcome [OF assms(1)]
proof cases
  case unchanged
  then show ?thesis using inv by simp
next
  case (local ev pid pkt')
  have own: "packet_inv (dict_get_or 0 pid (replan_counters st)) (dict_get_or 0 pid (timeout_retry_counters st)) pkt'"
    using inv local_rules_inv [OF local(4)] by (simp add: sm_inv_def)
  have "packet_of j st' = (if j = pid then pkt' else packet_of j st)" for j
    using local(5) packet_of_admitted [of j pid st] by (simp add: packet_of_def put_packet_def)
  moreover have "wf_dict (packets st')"
    using inv local(5) by (simp add: sm_inv_def put_packet_def admitted_def)
  ultimately show ?thesis using inv own local(5) by (simp add: sm_inv_def put_packet_def)
next
  case (tabled ev pid)
  note out = tabled(4)
  have own: "packet_inv (dict_get_or 0 pid (replan_counters st')) (dict_get_or 0 pid (timeout_retry_counters st'))
          (packet_of pid st')"
    using table_outcome_inv [OF out] inv by (simp add: sm_inv_def)
  have frame: "packet_of j st' = packet_of j st" if "j \<noteq> pid" for j
    using table_outcome_frame [OF out that] that
    by (simp add: packet_of_def admitted_def dict_get_or_def)
  have "packet_inv (dict_get_or 0 j (replan_counters st')) (dict_get_or 0 j (timeout_retry_counters st'))
          (packet_of j st')" for j
  proof (cases "j = pid")
    case True
    with own show ?thesis by simp
  next
    case False
    have "counters_grow pid st st'" using table_outcome_grow [OF out] by simp
    then show ?thesis
      using inv frame [OF False] unfolding sm_inv_def counters_grow_def
      by (metis packet_inv_mono)
  qed
  moreover have "wf_dict (packets st')"
    using table_outcome_keys [OF out] inv by (simp add: sm_inv_def admitted_def)
  ultimately show ?thesis by (simp add: sm_inv_def)
qed

end
