(* ===== verification/SM_Properties.thy ===== *)
theory SM_Properties
  imports SM_Invariants
begin

text \<open>
  Properties of the packet state machine: the shipped table passes its own validation, the
  validator means what it checks, no packet is released without the human event, every
  budget bounds its transition over any number of steps, the cursor neither skips nor
  repeats a line, and the watchdog reaches every packet the reports and the roster leave
  RUNNING.
\<close>

section \<open>Whole steps keep the packet invariant\<close>

lemma list_all2_map_of:
  "list_all2 (\<lambda>a b. fst a = fst b \<and> R (fst a) (snd a) (snd b)) d d' \<Longrightarrow>
     map fst d' = map fst d \<and> rel_option (R k) (map_of d k) (map_of d' k)"
  by (induction d d' rule: list_all2_induct) auto

text \<open>A pass over all packets keeps the invariant when it does so packet by packet.\<close>

lemma pointwise_inv:
  assumes inv: "sm_inv st"
    and pass: "list_all2 (\<lambda>a b. fst a = fst b \<and> R (fst a) (snd a) (snd b)) (packets st) ps"
    and keeps: "\<And>rc tc k p p'. R k p p' \<Longrightarrow> packet_inv rc tc p \<Longrightarrow> packet_inv rc tc p'"
  shows "sm_inv (st\<lparr>packets := ps\<rparr>)"
proof -
  have rel: "rel_option (R pid) (map_of (packets st) pid) (map_of ps pid)" for pid
    using list_all2_map_of [OF pass] by blast
  have "packet_inv (dict_get_or 0 pid (replan_counters st))
      (dict_get_or 0 pid (timeout_retry_counters st)) (dict_get_or new_packet pid ps)" for pid
  proof -
    have "packet_inv (dict_get_or 0 pid (replan_counters st))
        (dict_get_or 0 pid (timeout_retry_counters st)) (dict_get_or new_packet pid (packets st))"
      using inv by (simp add: sm_inv_def packet_of_def)
    then show ?thesis using rel [of pid]
      by (cases "map_of (packets st) pid"; cases "map_of ps pid")
         (auto simp: dict_get_or_def intro: keeps)
  qed
  moreover have "wf_dict ps"
    using inv list_all2_map_of [OF pass] by (simp add: sm_inv_def)
  ultimately show ?thesis by (simp add: sm_inv_def packet_of_def)
qed

lemma reconcile_inv: "sm_inv st \<Longrightarrow> sm_inv (reconcile env st)"
  unfolding reconcile_def
  by (erule pointwise_inv [where R = "\<lambda>k p p'. p' = reconcile_packet env k p"])
     (auto simp: list_all2_map2 list_all2_same split_def reconcile_packet_def packet_inv_enter)

lemma watchdog_packet_cases:
  "watchdog_packet env stamps roster pid pkt = Inr (pkt', evs) \<Longrightarrow>
     (pkt' = pkt \<and> evs = []) \<or>
     (p_state pkt = ''RUNNING'' \<and> pkt' = enter env ''TIMED_OUT'' (JStr ''timeout'') (Some 5) [] pkt
        \<and> (\<exists>a r t m. evs = [timeout_event env pid a r t m]))"
  by (auto simp: watchdog_packet_def Let_def split: sum.splits prod.splits option.splits if_splits)

definition watched :: "sm_env \<Rightarrow> json \<Rightarrow> json \<Rightarrow> json list \<Rightarrow> string \<Rightarrow> packet \<Rightarrow> packet \<Rightarrow> bool" where
  "watched env stamps roster evs pid pkt pkt' =
     (\<exists>es. watchdog_packet env stamps roster pid pkt = Inr (pkt', es) \<and> set es \<subseteq> set evs)"

lemma watched_mono: "watched env stamps roster evs k p p' \<Longrightarrow> set evs \<subseteq> set evs' \<Longrightarrow>
    watched env stamps roster evs' k p p'"
  by (auto simp: watched_def)

lemma watchdog_packets_pass:
  "watchdog_packets env stamps roster ps = Inr (ps', evs) \<Longrightarrow>
     list_all2 (\<lambda>a b. fst a = fst b \<and> watched env stamps roster evs (fst a) (snd a) (snd b)) ps ps'"
proof (induction ps arbitrary: ps' evs)
  case Nil
  then show ?case by simp
next
  case (Cons p ps)
  obtain pid pkt where p: "p = (pid, pkt)" by (cases p)
  with Cons.prems obtain pkt1 es1 ps1 es2 where
    w: "watchdog_packet env stamps roster pid pkt = Inr (pkt1, es1)"
    and ws: "watchdog_packets env stamps roster ps = Inr (ps1, es2)"
    and out: "ps' = (pid, pkt1) # ps1" "evs = es1 @ es2"
    by (auto split: sum.splits prod.splits)
  have "list_all2 (\<lambda>a b. fst a = fst b \<and> watched env stamps roster evs (fst a) (snd a) (snd b)) ps ps1"
    using Cons.IH [OF ws] by (rule list_all2_mono) (auto simp: out intro: watched_mono)
  then show ?case using w out p by (auto simp: watched_def)
qed

lemma watchdog_pass:
  assumes "watchdog env st = Inr (st', evs)"
  obtains ps where "st' = st\<lparr>packets := ps\<rparr>"
    and "list_all2 (\<lambda>a b. fst a = fst b \<and> watched env (doc_or [] (e_spawn_times env))
           (doc_or [(''jobs'', JObj [])] (e_exec_roster env)) evs (fst a) (snd a) (snd b))
           (packets st) ps"
  using assms by (auto simp: watchdog_def split: sum.splits prod.splits dest: watchdog_packets_pass)

lemma watchdog_inv: "watchdog env st = Inr (st', evs) \<Longrightarrow> sm_inv st \<Longrightarrow> sm_inv st'"
  by (erule watchdog_pass, simp, erule pointwise_inv, assumption)
     (auto simp: watched_def dest!: watchdog_packet_cases intro: packet_inv_enter)

lemma apply_line_inv: "sm_inv st \<Longrightarrow> apply_line parse env line st = Inr st' \<Longrightarrow> sm_inv st'"
  by (auto simp: apply_line_def split: option.splits sum.splits prod.splits dest: apply_event_inv)

text \<open>
  Applying a line, and a whole step, are fallible machines: both keep the invariant, so the
  runs of each do.
\<close>

interpretation lines: fallible_machine "apply_line parse env" sm_inv for parse env
  by unfold_locales (rule apply_line_inv)

definition drive ::
  "(string \<Rightarrow> json option) \<Rightarrow> sm_env \<times> string \<Rightarrow> sm_state \<Rightarrow> py_error + sm_state" where
  "drive parse input st =
     (case sm_step parse (fst input) (snd input) st of
        Inl e \<Rightarrow> Inl e | Inr (st', evs) \<Rightarrow> Inr st')"

lemma sm_inv_fields [simp]:
  "sm_inv (st\<lparr>event_cursor := c\<rparr>) = sm_inv st" "sm_inv (st\<lparr>dead_this_step := n\<rparr>) = sm_inv st"
  by (simp_all add: sm_inv_def packet_of_def)

lemma sm_step_inv:
  assumes "sm_step parse env content st = Inr (st', evs)" and "sm_inv st"
  shows "sm_inv st'"
  using assms
  by (auto simp: sm_step_def Let_def split: sum.splits prod.splits
      dest!: lines.run_inv [rotated] watchdog_inv intro: reconcile_inv)

interpretation steps: fallible_machine "drive parse" sm_inv for parse
  by unfold_locales (auto simp: drive_def split: sum.splits prod.splits dest: sm_step_inv)

definition sm_init :: sm_state where
  "sm_init = \<lparr>packets = [], event_cursor = JNull, replan_counters = [], timeout_retry_counters = [],
     dead_letters = [], sol_wakes = [], l4_queue = [], escalation_log = [], dead_this_step = 0\<rparr>"

lemma sm_inv_init [simp]: "sm_inv sm_init"
  by (simp add: sm_inv_def sm_init_def packet_of_def dict_get_or_def packet_inv_new)

section \<open>The transition table\<close>

text \<open>The shipped table passes the validation the module runs at import, so the
  module loads.\<close>

theorem T_passes_validation: "validate_transition_table T = Inr ()"
  by code_simp

definition declared_rows :: "transition_table \<Rightarrow> bool" where
  "declared_rows tbl = (\<forall>((s, e), (t, n)) \<in> set tbl. s \<in> set STATES \<and> t \<in> set STATES)"

definition row_number :: "(string \<times> string) \<times> string \<times> nat \<Rightarrow> nat" where
  "row_number r = snd (snd r)"

lemma check_rows_Inr:
  "check_rows ns tbl = Inr ns' \<Longrightarrow>
     declared_rows tbl \<and> distinct (map row_number tbl)
     \<and> set (map row_number tbl) \<inter> set ns = {} \<and> set ns' = set ns \<union> set (map row_number tbl)"
  by (induction ns tbl rule: check_rows.induct)
     (auto simp: declared_rows_def row_number_def split: if_splits)

lemma outbound_mem: "(e, t, n) \<in> set (outbound tbl s) \<longleftrightarrow> ((s, e), (t, n)) \<in> set tbl"
  by (force simp: outbound_def)

lemma l2_violation_mem:
  assumes "s \<in> set L2_STATES" and "(e, t, n) \<in> set (outbound tbl s)" and "t \<in> {''MERGED'', ''DONE''}"
  shows "Some (L2_power_violation s n) \<in> set (l2_violations tbl)"
  unfolding l2_violations_def using assms by (simp only: set_concat set_map UN_iff bex_simps) force

text \<open>Any table the validator accepts uses declared states only, numbers its
  transitions uniquely, gives Sol adjudication no exits but replan and human release, gives
  the verifier states no edge into MERGED or DONE, gives DONE no exit, and leaves no other
  declared state (but the start) without one.\<close>

theorem validator_sound:
  assumes ok: "validate_transition_table tbl = Inr ()"
  shows "declared_rows tbl \<and> distinct (map row_number tbl)
    \<and> (\<forall>e t n. ((''SOL_ADJUDICATE'', e), (t, n)) \<in> set tbl \<longleftrightarrow>
          (e, t, n) \<in> {(''sol_replan'', ''PLANNED'', 22), (''release_merge'', ''DONE'', 23)})
    \<and> (\<forall>s e t n. s \<in> set L2_STATES \<and> ((s, e), (t, n)) \<in> set tbl \<longrightarrow> t \<notin> {''MERGED'', ''DONE''})
    \<and> (\<forall>e t n. ((''DONE'', e), (t, n)) \<notin> set tbl)
    \<and> (\<forall>s \<in> set STATES - {''NONE'', ''DONE''}. \<exists>e t n. ((s, e), (t, n)) \<in> set tbl)"
proof -
  from ok obtain ns where rows: "check_rows [] tbl = Inr ns"
    by (auto simp: validate_transition_table_def split: sum.splits)
  note checks = ok [unfolded validate_transition_table_def rows sum.case Let_def first_error_Inr_iff]
  have sol: "same_set (outbound tbl ''SOL_ADJUDICATE'')
      [(''sol_replan'', ''PLANNED'', 22), (''release_merge'', ''DONE'', 23)]"
    using checks by (simp split: if_splits)
  have l2: "\<forall>c \<in> set (l2_violations tbl). c = None" using checks by simp
  have terminal: "\<forall>s \<in> set TERMINAL. terminal_check tbl s = None" using checks by simp
  have out: "\<forall>s \<in> set STATES. s \<notin> set TERMINAL \<and> s \<noteq> ''DONE'' \<longrightarrow> outbound_check tbl s = None"
    using checks by simp
  have fin: "outbound tbl ''DONE'' = []"
    using terminal by (simp add: TERMINAL_def terminal_check_def Let_def split: if_splits)
  have dead: "(''dead_letter_summary'', ''SOL_ADJUDICATE'', 19) \<in> set (outbound tbl ''DEAD_LETTER'')"
    and merged: "(''wave_complete'', ''WAVE_DONE'', 18) \<in> set (outbound tbl ''MERGED'')"
    using terminal by (simp_all add: TERMINAL_def terminal_check_def Let_def same_set_def split: if_splits)
  have some_exit: "\<exists>e t n. ((s, e), (t, n)) \<in> set tbl" if "s \<in> set STATES - {''NONE'', ''DONE''}" for s
  proof (cases "s \<in> set TERMINAL")
    case True
    with that have "s = ''DEAD_LETTER'' \<or> s = ''MERGED''" by (auto simp: TERMINAL_def)
    then show ?thesis using dead merged by (auto simp: outbound_mem)
  next
    case False
    with that out have "outbound tbl s \<noteq> []" by (auto simp: outbound_check_def split: if_splits)
    then show ?thesis using outbound_mem by (metis last_in_set prod_cases3)
  qed
  have power: "t \<notin> {''MERGED'', ''DONE''}"
    if "s \<in> set L2_STATES" "((s, e), (t, n)) \<in> set tbl" for s e t n
    using l2_violation_mem l2 that outbound_mem by (metis option.distinct(1))
  have exits: "((''SOL_ADJUDICATE'', e), (t, n)) \<in> set tbl \<longleftrightarrow>
      (e, t, n) \<in> {(''sol_replan'', ''PLANNED'', 22), (''release_merge'', ''DONE'', 23)}" for e t n
    using sol outbound_mem [of e t n tbl "''SOL_ADJUDICATE''"] by (simp add: same_set_def)
  have final: "((''DONE'', e), (t, n)) \<notin> set tbl" for e t n
    using fin outbound_mem [of e t n tbl "''DONE''"] by simp
  from check_rows_Inr [OF rows] show ?thesis
    by (intro conjI allI ballI impI exits final some_exit) (use power in blast)+
qed

theorem validator_sound_witness:
  "((''DONE'', ''timeout''), (''DONE'', 1)) \<notin> set T"
  using validator_sound [OF T_passes_validation] by blast

section \<open>Release needs its events\<close>

text \<open>One event of a run, each under its own environment (clock, files, configuration).\<close>

definition apply_at :: "sm_env \<times> json \<Rightarrow> sm_state \<Rightarrow> py_error + sm_state" where
  "apply_at input st =
     (case apply_event (fst input) (snd input) st of Inl e \<Rightarrow> Inl e | Inr (r, st') \<Rightarrow> Inr st')"

lemma apply_at_Inr: "apply_at (env, event) st = Inr st' \<longleftrightarrow> (\<exists>r. apply_event env event st = Inr (r, st'))"
  by (auto simp: apply_at_def split: sum.splits)

interpretation events: fallible_machine apply_at sm_inv
  by unfold_locales (auto simp: apply_at_def split: sum.splits prod.splits dest: apply_event_inv)

definition carries :: "(sm_env \<times> json) list \<Rightarrow> string \<Rightarrow> string set \<Rightarrow> bool" where
  "carries trace pid names =
     (\<exists>(env, event) \<in> set trace. event_pid event = JStr pid \<and> (\<exists>n \<in> names. ev_name (obj_of event) = JStr n))"

lemma carries_Cons: "carries (x # xs) pid names \<longleftrightarrow> carries [x] pid names \<or> carries xs pid names"
  by (auto simp: carries_def)

text \<open>A set of states that only some event names lead into is entered only with such an event.\<close>

lemma run_enters_only_by:
  assumes edges: "\<And>s n t. packet_edge s n t \<Longrightarrow> t \<in> S \<Longrightarrow> s \<notin> S \<Longrightarrow> n \<in> JStr ` names"
  shows "run_steps apply_at trace st = Inr st' \<Longrightarrow> p_state (packet_of pid st') \<in> S \<Longrightarrow>
     p_state (packet_of pid st) \<in> S \<or> carries trace pid names"
proof (induction trace arbitrary: st)
  case Nil
  then show ?case by simp
next
  case (Cons x xs)
  obtain env event where x: "x = (env, event)" by (cases x)
  with Cons.prems(1) obtain st1 where "apply_at (env, event) st = Inr st1"
    and rest: "run_steps apply_at xs st1 = Inr st'"
    by (auto split: sum.splits)
  then obtain r where a: "apply_event env event st = Inr (r, st1)"
    by (auto simp: apply_at_Inr)
  have "p_state (packet_of pid st1) \<in> S \<or> carries xs pid names"
    using Cons.IH [OF rest Cons.prems(2)] .
  moreover have "p_state (packet_of pid st) \<in> S \<or> carries [x] pid names"
    if in1: "p_state (packet_of pid st1) \<in> S"
  proof (rule disjCI)
    assume no: "\<not> carries [x] pid names"
    have "event_pid event \<noteq> JStr pid \<Longrightarrow> packet_of pid st1 = packet_of pid st"
      using apply_event_refines [OF a, of pid] by (simp add: packet_of_def dict_get_or_def)
    moreover have "event_pid event = JStr pid \<Longrightarrow> ev_name (obj_of event) \<notin> JStr ` names"
      using no x by (auto simp: carries_def)
    ultimately show "p_state (packet_of pid st) \<in> S"
      using edges apply_event_refines [OF a, of pid] in1 by metis
  qed
  ultimately show ?case by (auto simp: carries_Cons [of x xs])
qed

text \<open>Claim C1. Every event moves the packet it names along the abstract graph (the table,
  t26, the pre-spawn and verifier rules, the dead-letter edge) or leaves it where it is, and
  leaves the ledger entry of every other packet alone.\<close>

theorem handler_refines_graph:
  assumes "apply_event env event st = Inr (r, st')"
  shows "packet_edge (p_state (packet_of pid st)) (ev_name (obj_of event)) (p_state (packet_of pid st'))
    \<and> (event_pid event \<noteq> JStr pid \<longrightarrow> map_of (packets st') pid = map_of (packets st) pid)"
  using assms by (rule apply_event_refines)

text \<open>Claim C2. Over any run of events, a packet is DONE at the end only if it was DONE at
  the start or the human \<open>release_merge\<close> event for it occurred.\<close>

theorem done_needs_human_release:
  assumes "run_steps apply_at trace st = Inr st'"
    and "p_state (packet_of pid st') = ''DONE''"
  shows "p_state (packet_of pid st) = ''DONE'' \<or> carries trace pid {''release_merge''}"
  using run_enters_only_by [of "{''DONE''}" "{''release_merge''}"] assms edge_into by blast

text \<open>Over any run of events, a packet is accepted or merged at the end only if it
  was so at the start or it passed acceptance or its verifier (no other verdict, timeout,
  retry or triage event can get it there).\<close>

theorem merge_needs_acceptance:
  assumes "run_steps apply_at trace st = Inr st'"
    and "p_state (packet_of pid st') \<in> {''ACCEPTED'', ''MERGED''}"
  shows "p_state (packet_of pid st) \<in> {''ACCEPTED'', ''MERGED''}
    \<or> carries trace pid {''acceptance_pass'', ''verdict_pass''}"
proof (rule run_enters_only_by [OF _ assms])
  fix s n t
  assume "packet_edge s n t" "t \<in> {''ACCEPTED'', ''MERGED''}" "s \<notin> {''ACCEPTED'', ''MERGED''}"
  then have "n = JStr ''acceptance_pass'' \<or> n = JStr ''verdict_pass''"
    using edge_into [of s n t] by (metis insert_iff singletonD)
  then show "n \<in> JStr ` {''acceptance_pass'', ''verdict_pass''}" by blast
qed

section \<open>A concrete run\<close>

definition demo_env :: sm_env where
  "demo_env = \<lparr>e_now = 100, e_enforce_duty = True, e_job_max_runtime = 1800,
     e_reports = (\<lambda>pid. Some \<lparr>rf_mtime = 50, rf_body = Some (JObj [(''status'', JStr ''done'')])\<rparr>),
     e_spawn_times = JObj [], e_exec_roster = JObj [], e_legacy_cursor = None, e_counter_io = True\<rparr>"

definition demo_event :: "string \<Rightarrow> json" where
  "demo_event name = JObj [(''packet_id'', JStr ''p1''), (''event'', JStr name)]"

definition demo_trace :: "(sm_env \<times> json) list" where
  "demo_trace = map (\<lambda>n. (demo_env, demo_event n))
     [''planned'', ''dag_assert_pass'', ''dispatched'', ''subagent_stop'', ''acceptance_pass'',
      ''merged'', ''wave_complete'', ''wave_summary'', ''release_merge'']"

definition final_state :: "py_error + sm_state \<Rightarrow> string" where
  "final_state r = (case r of Inl e \<Rightarrow> ''error'' | Inr st \<Rightarrow> p_state (packet_of ''p1'' st))"

lemma demo_runs:
  "final_state (run_steps apply_at demo_trace sm_init) = ''DONE''"
  "final_state (run_steps apply_at (take 5 demo_trace) sm_init) = ''ACCEPTED''"
  "final_state (run_steps apply_at (take 2 demo_trace) sm_init) = ''DISPATCHABLE''"
  "final_state (run_steps apply_at (take 1 demo_trace) sm_init) = ''PLANNED''"
  by code_simp+

lemma final_state_run:
  "final_state r = s \<Longrightarrow> s \<noteq> ''error'' \<Longrightarrow> \<exists>st. r = Inr st \<and> p_state (packet_of ''p1'' st) = s"
  by (auto simp: final_state_def split: sum.splits)

lemma demo_init: "p_state (packet_of pid sm_init) = ''NONE''"
  by (simp add: packet_of_def sm_init_def dict_get_or_def new_packet_def)

theorem handler_refines_graph_witness:
  "packet_edge ''NONE'' (JStr ''planned'') ''PLANNED''"
proof -
  obtain st r where "apply_event demo_env (demo_event ''planned'') sm_init = Inr (r, st)"
    and "p_state (packet_of ''p1'' st) = ''PLANNED''"
    using final_state_run [OF demo_runs(4)] by (auto simp: demo_trace_def apply_at_Inr split: sum.splits)
  then show ?thesis
    using handler_refines_graph [of demo_env "demo_event ''planned''" sm_init r st "''p1''"]
    by (simp add: demo_init demo_event_def ev_name_def jget_or_def dict_get_or_def)
qed

theorem done_needs_human_release_witness:
  "carries demo_trace ''p1'' {''release_merge''}"
  using final_state_run [OF demo_runs(1)] done_needs_human_release [of demo_trace sm_init _ "''p1''"]
  by (auto simp: demo_init)

theorem merge_needs_acceptance_witness:
  "carries (take 5 demo_trace) ''p1'' {''acceptance_pass'', ''verdict_pass''}"
  using final_state_run [OF demo_runs(2)] merge_needs_acceptance [of "take 5 demo_trace" sm_init _ "''p1''"]
  by (auto simp: demo_init)

section \<open>Budgets over any number of steps\<close>

text \<open>Claim C3. However many steps are taken, on whatever event files, reports, rosters and
  counter failures: a packet is replanned at most twice, re-dispatched after a timeout at
  most once, and sent back by a failing verifier at most once; its attempt number is the
  number of retries in its history, whose last entry names its state.\<close>

theorem budgets_bound_every_run:
  assumes "run_steps (drive parse) inputs sm_init = Inr st"
  shows "hcount is_replan (packet_of pid st) \<le> 2
    \<and> hcount is_timeout_retry (packet_of pid st) \<le> 1
    \<and> hcount is_l2_failure (packet_of pid st) \<le> 1
    \<and> p_attempts (packet_of pid st) = hcount is_retry (packet_of pid st)
    \<and> p_state (packet_of pid st) = current_state (packet_of pid st)"
  using steps.run_inv [OF sm_inv_init assms]
  by (simp add: sm_inv_def packet_inv_def sm_caps)

text \<open>A parser for the three lines of the demonstration file, and two steps over it.\<close>

definition demo_parse :: "string \<Rightarrow> json option" where
  "demo_parse s = (if s = ''p'' then Some (demo_event ''planned'')
     else if s = ''g'' then Some (demo_event ''dag_assert_pass'')
     else if s = ''d'' then Some (demo_event ''dispatched'') else None)"

definition no_report_env :: sm_env where
  "no_report_env = demo_env\<lparr>e_reports := (\<lambda>pid. None)\<rparr>"

definition demo_inputs :: "(sm_env \<times> string) list" where
  "demo_inputs = [(no_report_env, ''p'' @ [CHR 0x0A] @ ''g''),
     (no_report_env, ''p'' @ [CHR 0x0A] @ ''g'' @ [CHR 0x0A] @ ''d'' @ [CHR 0x0A])]"

declare drain.simps [code]

lemma demo_steps: "final_state (run_steps (drive demo_parse) demo_inputs sm_init) = ''RUNNING''"
  by code_simp

theorem budgets_bound_every_run_witness:
  "\<exists>st. run_steps (drive demo_parse) demo_inputs sm_init = Inr st
     \<and> hcount is_replan (packet_of ''p1'' st) \<le> 2"
  using final_state_run [OF demo_steps] budgets_bound_every_run [of demo_parse demo_inputs _ "''p1''"]
  by auto

section \<open>The cursor\<close>

lemma next_line_Some:
  assumes "next_line s = Some (l, rest)"
  shows "s = l @ CHR 0x0A # rest \<and> CHR 0x0A \<notin> set l"
proof (cases "dropWhile (\<lambda>c. c \<noteq> CHR 0x0A) s")
  case Nil
  with assms show ?thesis by (simp add: next_line_def)
next
  case (Cons c cs)
  then have "c = CHR 0x0A" using hd_dropWhile [of "\<lambda>c. c \<noteq> CHR 0x0A" s] by simp
  moreover have "l = takeWhile (\<lambda>c. c \<noteq> CHR 0x0A) s" "rest = cs"
    using assms Cons by (simp_all add: next_line_def)
  ultimately show ?thesis
    using takeWhile_dropWhile_id [of "\<lambda>c. c \<noteq> CHR 0x0A" s] Cons by (auto dest: set_takeWhileD)
qed

lemma next_line_append: "CHR 0x0A \<notin> set l \<Longrightarrow> next_line (l @ CHR 0x0A # rest) = Some (l, rest)"
proof -
  assume l: "CHR 0x0A \<notin> set l"
  then have "takeWhile (\<lambda>c. c \<noteq> CHR 0x0A) (l @ CHR 0x0A # rest) = l"
    by (subst takeWhile_append2) auto
  moreover have "dropWhile (\<lambda>c. c \<noteq> CHR 0x0A) (l @ CHR 0x0A # rest) = CHR 0x0A # rest"
    using l by (subst dropWhile_append2) auto
  ultimately show ?thesis by (simp add: next_line_def)
qed

lemma next_line_extend: "next_line s = Some (l, rest) \<Longrightarrow> next_line (s @ t) = Some (l, rest @ t)"
  using next_line_Some [of s l rest] next_line_append [of l "rest @ t"] by auto

text \<open>
  Draining a file and later draining what was appended, from the committed offset, reads
  the lines of the longer file, each once.
\<close>

lemma drain_split:
  "drain s n = (ls, m) \<Longrightarrow>
     n \<le> m \<and> m \<le> n + length s \<and>
     drain (s @ t) n = (ls @ fst (drain (drop (m - n) s @ t) m), snd (drain (drop (m - n) s @ t) m))"
proof (induction s n arbitrary: ls m rule: drain.induct)
  case (1 s n)
  show ?case
  proof (cases "next_line s")
    case None
    with 1(2) show ?thesis by (simp add: drain.simps [of s n])
  next
    case (Some p)
    obtain l rest where p: "p = (l, rest)" by (cases p)
    let ?n = "n + length l + 1"
    obtain ls' where d: "drain rest ?n = (ls', m)" and ls: "ls = l # ls'"
      using 1(2) Some p by (auto simp: drain.simps [of s n] split: prod.splits)
    note IH = 1(1) [OF Some p [symmetric] d]
    have s: "s = l @ CHR 0x0A # rest" using next_line_Some Some p by blast
    have "drop (m - n) s = drop (m - ?n) rest"
    proof -
      have "?n \<le> m" using IH by simp
      then have "m - n = Suc (length l) + (m - ?n)" by linarith
      moreover have "drop (Suc (length l) + k) s = drop k rest" for k using s by simp
      ultimately show ?thesis by (simp only:)
    qed
    moreover have "drain (s @ t) n = (l # fst (drain (rest @ t) ?n), snd (drain (rest @ t) ?n))"
      using next_line_extend [of s l rest t] Some p by (simp add: drain.simps [of "s @ t" n] split_def Let_def)
    ultimately show ?thesis using IH s ls by auto
  qed
qed

text \<open>A step commits the offset after the last complete line it read, never
  beyond what it consumed; whatever is appended to the file afterwards (a line that was
  still partial, the watchdog's own events, a concurrent writer's), the next step reads
  exactly the lines not read before, in order.\<close>

theorem cursor_reads_each_line_once:
  assumes "sm_step parse env content st = Inr (st1, evs)"
    and "start_offset env st \<le> length content"
  shows "\<exists>n. event_cursor st1 = JInt (int n) \<and> start_offset env st \<le> n \<and> n \<le> length content
    \<and> (\<forall>env2 appended. start_offset env2 st1 = n \<and>
        fst (drain (drop (start_offset env st) (content @ appended)) (start_offset env st)) =
          fst (drain (drop (start_offset env st) content) (start_offset env st))
          @ fst (drain (drop n (content @ appended)) n))"
proof -
  let ?k = "start_offset env st"
  obtain ls n where d: "drain (drop ?k content) ?k = (ls, n)" by (cases "drain (drop ?k content) ?k")
  have c: "event_cursor st1 = JInt (int n)"
    using assms(1) d by (auto simp: sm_step_def Let_def split: sum.splits prod.splits)
  note split = drain_split [OF d]
  have n: "?k \<le> n" "n \<le> length content"
    using split [of "[]"] assms(2) by auto
  have "drop ?k (content @ t) = drop ?k content @ t" for t
    using assms(2) by simp
  moreover have "drop (n - ?k) (drop ?k content) @ t = drop n (content @ t)" for t
    using n by simp
  ultimately show ?thesis
    using split c n d by (intro exI [of _ n]) (simp add: start_offset_def)
qed

theorem cursor_reads_each_line_once_witness:
  "\<exists>st1 evs n. sm_step demo_parse no_report_env (snd (demo_inputs ! 0)) sm_init = Inr (st1, evs)
     \<and> event_cursor st1 = JInt (int n) \<and> n \<le> 3"
proof -
  have "final_state (run_steps (drive demo_parse) (take 1 demo_inputs) sm_init) \<noteq> ''error''"
    by code_simp
  then obtain st1 evs where
    step: "sm_step demo_parse no_report_env (snd (demo_inputs ! 0)) sm_init = Inr (st1, evs)"
    by (auto simp: final_state_def demo_inputs_def drive_def split: sum.splits prod.splits)
  have "start_offset no_report_env sm_init \<le> length (snd (demo_inputs ! 0))"
    by code_simp
  from cursor_reads_each_line_once [OF step this] step show ?thesis
    by (auto simp: demo_inputs_def)
qed

section \<open>The watchdog\<close>

lemma synthetic_of_running:
  assumes "packet_inv rc tc pkt" and "p_state pkt = ''RUNNING''"
  shows "\<exists>h \<in> set (p_history pkt). h_to h = ''RUNNING'' \<and> synthetic_spawn_ts pkt = Some (h_ts h)"
proof -
  have cur: "current_state pkt = ''RUNNING''" using assms by (simp add: packet_inv_def)
  then have ne: "p_history pkt \<noteq> []" by (auto simp: current_state_def)
  then have lst: "h_to (last (p_history pkt)) = ''RUNNING''" using cur by (simp add: current_state_def)
  obtain hs h where hs: "p_history pkt = hs @ [h]" using ne by (metis append_butlast_last_id)
  then have "synthetic_spawn_ts pkt = Some (h_ts h)" using lst by (simp add: synthetic_spawn_ts_def)
  then show ?thesis using hs lst by auto
qed

lemma watchdog_packet_overdue:
  assumes "p_state pkt = ''RUNNING''" and "stamps = JObj ss" and "jget ss pid = JNull"
    and "synthetic_spawn_ts pkt = Some t" and "e_job_max_runtime env < e_now env - t"
    and "watchdog_packet env stamps roster pid pkt = Inr (pkt', evs)"
  shows "pkt' = enter env ''TIMED_OUT'' (JStr ''timeout'') (Some 5) [] pkt
    \<and> timeout_event env pid JNull JNull (JFloat t) (JStr ''ledger_synthetic'') \<in> set evs"
proof -
  have stamp: "spawn_stamp JNull pkt = (JFloat t, JStr ''ledger_synthetic'')"
    using assms(4) by (simp add: spawn_stamp_def)
  have el: "elapsed_since env (JFloat t) = Some (e_now env - t)"
    by (simp add: elapsed_since_def opt_of_def)
  have un: "\<not> supervised env job (JStr ''ledger_synthetic'') r" for job r
    by (simp add: supervised_def py_eq_def)
  show ?thesis
    using assms(1,2,3,5,6)
    by (auto simp: watchdog_packet_def need_obj_def stamp el un Let_def jget_def dict_get_or_def
        split: sum.splits)
qed

text \<open>In every reachable ledger, a RUNNING packet that the spawn-times file does
  not mention has a start time in its own history; once that is older than the limit, the
  watchdog moves the packet to TIMED_OUT and appends a timeout event for it, whatever the
  roster says.\<close>

theorem unstamped_running_times_out:
  assumes "run_steps (drive parse) inputs sm_init = Inr st"
    and "map_of (packets st) pid = Some pkt" and "p_state pkt = ''RUNNING''"
    and "e_spawn_times env = JObj ss" and "jget ss pid = JNull"
    and "watchdog env st = Inr (st', evs)"
  shows "\<exists>h \<in> set (p_history pkt). h_to h = ''RUNNING''
    \<and> (e_job_max_runtime env < e_now env - h_ts h \<longrightarrow>
         p_state (packet_of pid st') = ''TIMED_OUT''
         \<and> timeout_event env pid JNull JNull (JFloat (h_ts h)) (JStr ''ledger_synthetic'') \<in> set evs)"
proof -
  have "packet_of pid st = pkt" using assms(2) by (simp add: packet_of_def dict_get_or_def)
  then obtain rc tc where "packet_inv rc tc pkt"
    using steps.run_inv [OF sm_inv_init assms(1)] by (metis sm_inv_def)
  from synthetic_of_running [OF this assms(3)] obtain h where
    h: "h \<in> set (p_history pkt)" "h_to h = ''RUNNING''" "synthetic_spawn_ts pkt = Some (h_ts h)" by blast
  define stamps where "stamps = doc_or [] (e_spawn_times env)"
  define roster where "roster = doc_or [(''jobs'', JObj [])] (e_exec_roster env)"
  obtain ss' where ss': "stamps = JObj ss'" "jget ss' pid = JNull"
    using assms(4,5) by (cases "ss = []") (simp_all add: stamps_def doc_or_def)
  from assms(6) obtain ps where st': "st' = st\<lparr>packets := ps\<rparr>"
    and pass: "list_all2 (\<lambda>a b. fst a = fst b \<and> watched env stamps roster evs (fst a) (snd a) (snd b))
        (packets st) ps"
    unfolding stamps_def roster_def by (rule watchdog_pass)
  obtain pkt' where pkt': "map_of ps pid = Some pkt'" "watched env stamps roster evs pid pkt pkt'"
    using list_all2_map_of [OF pass, of pid] assms(2) by (auto simp: option_rel_Some1)
  then obtain es where w: "watchdog_packet env stamps roster pid pkt = Inr (pkt', es)"
    and es: "set es \<subseteq> set evs" by (auto simp: watched_def)
  have "p_state (packet_of pid st') = ''TIMED_OUT''
      \<and> timeout_event env pid JNull JNull (JFloat (h_ts h)) (JStr ''ledger_synthetic'') \<in> set evs"
    if "e_job_max_runtime env < e_now env - h_ts h"
    using watchdog_packet_overdue [OF assms(3) ss' h(3) that w] es pkt'(1) st'
    by (auto simp: packet_of_def dict_get_or_def)
  then show ?thesis using h by blast
qed

definition late_env :: sm_env where
  "late_env = no_report_env\<lparr>e_now := 5000\<rparr>"

definition watchdog_fires :: bool where
  "watchdog_fires = (case run_steps (drive demo_parse) demo_inputs sm_init of
       Inl e \<Rightarrow> False
     | Inr st \<Rightarrow> (case map_of (packets st) ''p1'' of
           None \<Rightarrow> False
         | Some pkt \<Rightarrow> p_state pkt = ''RUNNING''
             \<and> list_all (\<lambda>h. e_job_max_runtime late_env < e_now late_env - h_ts h) (p_history pkt)
             \<and> (case watchdog late_env st of Inl e \<Rightarrow> False | Inr r \<Rightarrow> True)))"

lemma demo_watchdog: "watchdog_fires"
  by code_simp

theorem unstamped_running_times_out_witness:
  "\<exists>st st' evs. run_steps (drive demo_parse) demo_inputs sm_init = Inr st
     \<and> watchdog late_env st = Inr (st', evs) \<and> p_state (packet_of ''p1'' st') = ''TIMED_OUT''"
proof -
  obtain st pkt st' evs where run: "run_steps (drive demo_parse) demo_inputs sm_init = Inr st"
    and pkt: "map_of (packets st) ''p1'' = Some pkt" "p_state pkt = ''RUNNING''"
    and old: "list_all (\<lambda>h. e_job_max_runtime late_env < e_now late_env - h_ts h) (p_history pkt)"
    and w: "watchdog late_env st = Inr (st', evs)"
    using demo_watchdog by (auto simp: watchdog_fires_def split: sum.splits option.splits)
  have stamps: "e_spawn_times late_env = JObj []" "jget [] ''p1'' = JNull"
    by (simp_all add: late_env_def no_report_env_def demo_env_def jget_def dict_get_or_def)
  from unstamped_running_times_out [OF run pkt stamps w] old run w show ?thesis
    by (auto simp: list_all_iff)
qed

end
