(* ===== verification/SM_Liveness.thy ===== *)
theory SM_Liveness
  imports SM_Properties
begin

text \<open>
  No packet of the state machine is ever stuck: every reachable packet is in a declared
  state, and from every declared state a fixed list of events leads to the human release.
  The watchdog's own timeout event, read back on the next step, is absorbed.
\<close>

section \<open>Reachable packets are in declared states\<close>

definition declared :: "sm_state \<Rightarrow> bool" where
  "declared st = (\<forall>pid. p_state (packet_of pid st) \<in> set STATES)"

lemma T_targets: "((s, e), (t, n)) \<in> set T \<Longrightarrow> t \<in> set STATES"
proof -
  have "list_all (\<lambda>((s, e), (t, n)). t \<in> set STATES) T" by code_simp
  then show "((s, e), (t, n)) \<in> set T \<Longrightarrow> t \<in> set STATES" by (auto simp: list_all_iff)
qed

lemma some_states:
  "{''DEAD_LETTER'', ''DISPATCHABLE'', ''DUTY_REVIEW'', ''SOL_ADJUDICATE'', ''REPORTED'', ''TIMED_OUT'', ''NONE''}
     \<subseteq> set STATES"
  by (simp add: STATES_def)

lemma packet_edge_declared: "packet_edge s n t \<Longrightarrow> s \<in> set STATES \<Longrightarrow> t \<in> set STATES"
  using some_states by (auto elim!: packet_edgeE dest: T_targets)

lemma apply_event_declared: "apply_event env event st = Inr (r, st') \<Longrightarrow> declared st \<Longrightarrow> declared st'"
  unfolding declared_def using apply_event_refines packet_edge_declared by blast

lemma apply_line_declared: "declared st \<Longrightarrow> apply_line parse env line st = Inr st' \<Longrightarrow> declared st'"
  by (auto simp: apply_line_def split: option.splits sum.splits dest: apply_event_declared)

interpretation declared_lines: fallible_machine "apply_line parse env" declared for parse env
  by unfold_locales (rule apply_line_declared)

lemma pointwise_declared:
  assumes "declared st"
    and pass: "list_all2 (\<lambda>a b. fst a = fst b \<and> R (fst a) (snd a) (snd b)) (packets st) ps"
    and keeps: "\<And>k p p'. R k p p' \<Longrightarrow> p' = p \<or> p_state p' \<in> set STATES"
  shows "declared (st\<lparr>packets := ps\<rparr>)"
  unfolding declared_def
proof
  fix pid
  have "p_state (packet_of pid st) \<in> set STATES" using assms(1) by (simp add: declared_def)
  moreover have "rel_option (R pid) (map_of (packets st) pid) (map_of ps pid)"
    using list_all2_map_of [OF pass] by blast
  ultimately show "p_state (packet_of pid (st\<lparr>packets := ps\<rparr>)) \<in> set STATES"
    by (cases "map_of (packets st) pid"; cases "map_of ps pid")
       (auto simp: packet_of_def dict_get_or_def dest: keeps)
qed

lemma reconcile_declared: "declared st \<Longrightarrow> declared (reconcile env st)"
  unfolding reconcile_def
  by (erule pointwise_declared [where R = "\<lambda>k p p'. p' = reconcile_packet env k p"])
     (use some_states in \<open>auto simp: list_all2_map2 list_all2_same split_def reconcile_packet_def\<close>)

lemma watchdog_declared: "watchdog env st = Inr (st', evs) \<Longrightarrow> declared st \<Longrightarrow> declared st'"
  by (erule watchdog_pass, simp, erule pointwise_declared, assumption)
     (use some_states in \<open>auto simp: watched_def dest!: watchdog_packet_cases\<close>)

lemma declared_fields [simp]:
  "declared (st\<lparr>event_cursor := c\<rparr>) = declared st" "declared (st\<lparr>dead_this_step := n\<rparr>) = declared st"
  by (simp_all add: declared_def packet_of_def)

lemma sm_step_declared:
  assumes "sm_step parse env content st = Inr (st', evs)" and "declared st"
  shows "declared st'"
  using assms
  by (auto simp: sm_step_def Let_def split: sum.splits prod.splits
      dest!: declared_lines.run_inv [rotated] watchdog_declared intro: reconcile_declared)

interpretation declared_steps: fallible_machine "drive parse" declared for parse
  by unfold_locales (auto simp: drive_def split: sum.splits prod.splits dest: sm_step_declared)

lemma declared_init: "declared sm_init"
  using some_states by (simp add: declared_def demo_init)

section \<open>A way out of every state\<close>

definition plain_event :: "string \<Rightarrow> string \<Rightarrow> json" where
  "plain_event pid name = JObj [(''packet_id'', JStr pid), (''event'', JStr name)]"

text \<open>The events that take a packet from a state to DONE without passing a gated row.\<close>

definition release_path :: "string \<Rightarrow> string list" where
  "release_path s =
     (if s = ''DONE'' then []
      else if s = ''SOL_ADJUDICATE'' then [''release_merge'']
      else if s = ''NONE'' then [''skeleton_ready'', ''expansion_invalid'', ''release_merge'']
      else if s = ''EXPAND_K3'' then [''expansion_invalid'', ''release_merge'']
      else if s = ''PLANNED'' then [''dag_assert_pass'', ''dispatched'', ''timeout'', ''budget_exhausted'',
        ''dead_letter_summary'', ''release_merge'']
      else if s = ''DISPATCHABLE'' then [''dispatched'', ''timeout'', ''budget_exhausted'',
        ''dead_letter_summary'', ''release_merge'']
      else if s = ''RUNNING'' then [''timeout'', ''budget_exhausted'', ''dead_letter_summary'', ''release_merge'']
      else if s \<in> {''TIMED_OUT'', ''FAILED''} then [''budget_exhausted'', ''dead_letter_summary'', ''release_merge'']
      else if s = ''DEAD_LETTER'' then [''dead_letter_summary'', ''release_merge'']
      else if s = ''DUTY_REVIEW'' then [''duty_terminal'', ''dead_letter_summary'', ''release_merge'']
      else if s = ''REPORTED'' then [''review_verdict_pass'', ''release_merge'']
      else if s = ''ACCEPTED'' then [''merge_conflict'', ''conflict_pointer'', ''release_merge'']
      else if s = ''MERGE_CONFLICT'' then [''conflict_pointer'', ''release_merge'']
      else if s = ''MERGED'' then [''wave_complete'', ''wave_summary'', ''release_merge'']
      else if s = ''WAVE_DONE'' then [''wave_summary'', ''release_merge'']
      else if s = ''L2_VERIFY'' then [''verdict_escalate_l3'', ''release_merge'']
      else if s = ''L2_RANK'' then [''best_candidate'', ''verdict_escalate_l3'', ''release_merge'']
      else [])"

definition plain_row :: "string \<Rightarrow> string \<Rightarrow> (string \<times> nat) option" where
  "plain_row s n =
     (if n \<in> {''subagent_stop'', ''exec_failed''} \<or> n \<in> set INFO_EVENTS \<or> (s = ''TIMED_OUT'' \<and> n = ''timeout'')
      then None
      else case map_of T (s, n) of
             Some (t, num) \<Rightarrow> if num \<in> {4, 11, 12, 22, 35, 37} then None else Some (t, num)
           | None \<Rightarrow> None)"

fun leads_to_done :: "string \<Rightarrow> string list \<Rightarrow> bool" where
  "leads_to_done s [] = (s = ''DONE'')"
| "leads_to_done s (n # ns) = (case plain_row s n of None \<Rightarrow> False | Some (t, num) \<Rightarrow> leads_to_done t ns)"

lemma release_path_leads: "s \<in> set STATES \<Longrightarrow> leads_to_done s (release_path s)"
proof -
  have "list_all (\<lambda>s. leads_to_done s (release_path s)) STATES" by code_simp
  then show "s \<in> set STATES \<Longrightarrow> leads_to_done s (release_path s)" by (simp add: list_all_iff)
qed

lemma plain_fields [simp]:
  "ev_detail [(''packet_id'', JStr pid), (''event'', JStr n)] = []"
  "ev_attempt [(''packet_id'', JStr pid), (''event'', JStr n)] = None"
  "truthy (ev_run_id [(''packet_id'', JStr pid), (''event'', JStr n)]) = False"
  by (simp_all add: ev_detail_def ev_attempt_def ev_run_id_def jget_def jget_or_def dict_get_or_def
      py_or_def)

lemma plain_local_rules:
  assumes "plain_row (p_state pkt) n = Some r"
  shows "local_rules env pid (JStr n) [(''packet_id'', JStr pid), (''event'', JStr n)] pkt = None"
proof -
  have n: "n \<noteq> ''subagent_stop''" "n \<noteq> ''exec_failed''"
    "\<not> (p_state pkt = ''TIMED_OUT'' \<and> n = ''timeout'')"
    using assms by (auto simp: plain_row_def split: if_splits)
  show ?thesis
    using n by (simp add: local_rules_def stale_generation_def stale_run_id_def duplicate_generation_def
        run_ids_differ_def pre_spawn_failure_def late_stop_def dispatch_confirmed_def
        timeout_confirmed_def release_review_failed_def)
qed

lemma plain_table_step:
  assumes "plain_row (p_state pkt) n = Some (t, num)"
  shows "\<exists>pkt'. table_step env pid (JStr n) ev pkt st = Inr (put_packet pid pkt' st) \<and> p_state pkt' = t"
proof -
  have "T_lookup (p_state pkt) (JStr n) = Some (t, num)" "num \<notin> {4, 11, 12, 22, 35, 37}"
    using assms by (auto simp: plain_row_def T_lookup_def split: if_splits option.splits)
  then have "table_step env pid (JStr n) ev pkt st =
      Inr (put_packet pid (take_transition env (JStr n) ev t num pkt) st)"
    by (simp add: table_step_def)
  then show ?thesis by (meson take_transition_simps(1))
qed

lemma plain_apply:
  assumes "map_of (packets st) pid = Some pkt" and "\<not> startswith_any pid [''l2v-'', ''v2job-'']"
    and row: "plain_row (p_state pkt) n = Some (t, num)"
  shows "\<exists>st' pkt'. apply_at (env, plain_event pid n) st = Inr st'
    \<and> map_of (packets st') pid = Some pkt' \<and> p_state pkt' = t"
proof -
  let ?ev = "[(''packet_id'', JStr pid), (''event'', JStr n)]"
  let ?st = "st\<lparr>packets := dict_setdefault pid new_packet (packets st)\<rparr>"
  have info: "n \<notin> set INFO_EVENTS" using row by (auto simp: plain_row_def split: if_splits)
  have pkt: "dict_get_or new_packet pid (packets ?st) = pkt"
    using assms(1) by (simp add: dict_get_or_def)
  obtain pkt' where "table_step env pid (JStr n) ?ev pkt ?st = Inr (put_packet pid pkt' ?st)"
    and t: "p_state pkt' = t" using plain_table_step [OF row] by blast
  then have "apply_event env (plain_event pid n) st = Inr (Some t, put_packet pid pkt' ?st)"
    using assms(1,2) info pkt plain_local_rules [OF row]
    by (simp add: apply_event_def plain_event_def jget_or_def dict_get_or_def dict_has_def
        put_packet_def image_iff)
  then show ?thesis using t by (auto simp: apply_at_Inr put_packet_def)
qed

lemma leads_run:
  assumes "\<not> startswith_any pid [''l2v-'', ''v2job-'']"
  shows "leads_to_done (p_state pkt) ns \<Longrightarrow> map_of (packets st) pid = Some pkt \<Longrightarrow>
    \<exists>st'. run_steps apply_at (map (\<lambda>n. (env, plain_event pid n)) ns) st = Inr st'
      \<and> p_state (packet_of pid st') = ''DONE''"
proof (induction ns arbitrary: pkt st)
  case Nil
  then show ?case by (simp add: packet_of_def dict_get_or_def)
next
  case (Cons n ns)
  then obtain t num where row: "plain_row (p_state pkt) n = Some (t, num)" and ns: "leads_to_done t ns"
    by (auto split: option.splits)
  obtain st1 pkt1 where "apply_at (env, plain_event pid n) st = Inr st1"
    "map_of (packets st1) pid = Some pkt1" "p_state pkt1 = t"
    using plain_apply [OF Cons.prems(2) assms row] by blast
  then show ?case using Cons.IH ns by auto
qed



section \<open>The watchdog's event is absorbed\<close>

text \<open>When the watchdog's timeout event is read back for a packet that is still
  TIMED_OUT, the handler confirms it: the packet keeps its state and its budgets, and no
  dead letter, Sol wake or human-gate entry is written.\<close>

theorem reread_timeout_is_absorbed:
  assumes "map_of (packets st) pid = Some pkt" and "p_state pkt = ''TIMED_OUT''"
    and "\<not> startswith_any pid [''l2v-'', ''v2job-'']"
  shows "\<exists>st' pkt'. apply_event env (timeout_event wenv pid attempt run_id ts mode) st
      = Inr (Some ''TIMED_OUT'', st')
    \<and> map_of (packets st') pid = Some pkt' \<and> p_state pkt' = ''TIMED_OUT''
    \<and> p_attempts pkt' = p_attempts pkt
    \<and> dead_letters st' = dead_letters st \<and> sol_wakes st' = sol_wakes st
    \<and> l4_queue st' = l4_queue st \<and> dead_this_step st' = dead_this_step st
    \<and> timeout_retry_counters st' = timeout_retry_counters st"
proof -
  obtain ev where ev: "timeout_event wenv pid attempt run_id ts mode = JObj ev"
    and get: "jget_or (JStr ''?'') ev ''packet_id'' = JStr pid" "jget_or (JStr ''?'') ev ''event'' = JStr ''timeout''"
    by (simp add: timeout_event_def jget_or_def dict_get_or_def)
  obtain pkt' where rule: "local_rules env pid (JStr ''timeout'') ev pkt = Some pkt'"
    and p: "p_state pkt' = ''TIMED_OUT''" "p_attempts pkt' = p_attempts pkt"
    using assms(2)
    by (cases "stale_generation env (JStr ''timeout'') ev pkt";
        cases "stale_run_id env (JStr ''timeout'') ev pkt")
       (auto simp: local_rules_def duplicate_generation_def pre_spawn_failure_def late_stop_def
        dispatch_confirmed_def timeout_confirmed_def stale_generation_def stale_run_id_def ignore_def
        split: option.splits if_splits)
  have info: "JStr ''timeout'' \<notin> JStr ` set INFO_EVENTS"
    by (simp add: INFO_EVENTS_def)
  have "apply_event env (timeout_event wenv pid attempt run_id ts mode) st = Inr (Some ''TIMED_OUT'',
      put_packet pid pkt' (st\<lparr>packets := dict_setdefault pid new_packet (packets st)\<rparr>))"
    unfolding ev using assms(1,3) get rule p info
    by (simp add: apply_event_def dict_has_def dict_get_or_def)
  then show ?thesis using p by (simp add: put_packet_def)
qed

theorem reread_timeout_is_absorbed_witness:
  "\<exists>st'. apply_event demo_env (timeout_event demo_env ''p1'' JNull JNull JNull JNull)
     (sm_init\<lparr>packets := [(''p1'', new_packet\<lparr>p_state := ''TIMED_OUT''\<rparr>)]\<rparr>) = Inr (Some ''TIMED_OUT'', st')
     \<and> dead_letters st' = []"
  using reread_timeout_is_absorbed [of "sm_init\<lparr>packets := [(''p1'', new_packet\<lparr>p_state := ''TIMED_OUT''\<rparr>)]\<rparr>"
      "''p1''" "new_packet\<lparr>p_state := ''TIMED_OUT''\<rparr>" demo_env demo_env JNull JNull JNull JNull]
  by (simp add: sm_init_def startswith_any_def) blast

end
