(* ===== verification/Policy.thy ===== *)
theory Policy
  imports Py_Json
begin

text \<open>
  The policy views of \<open>src/harness/orchestration_common.py\<close>: \<open>OrchestrationPolicy\<close> and
  \<open>RefillPolicy\<close> over parsed TOML documents, the byte-bound layered authorization, and
  semantic idempotency keys. The digest of the standard library is the argument
  \<open>b32digest\<close>.
\<close>

section \<open>OrchestrationPolicy\<close>

datatype policy_error = PolicyError | ModelPinError

text \<open>\<open>self.doc\<close>, the parsed document, is the argument \<open>doc\<close>.\<close>

definition policy_value :: "jobj \<Rightarrow> string \<Rightarrow> string \<Rightarrow> json \<Rightarrow> json" where
  "policy_value doc section_name key dflt =
     (case jget_or (JObj []) doc section_name of JObj table \<Rightarrow> jget_or dflt table key | _ \<Rightarrow> dflt)"

definition require :: "jobj \<Rightarrow> string \<Rightarrow> string \<Rightarrow> policy_error + json" where
  "require doc section_name key =
     (let v = policy_value doc section_name key JNull in if v = JNull then Inl PolicyError else Inr v)"

definition routing_mode :: "jobj \<Rightarrow> string" where
  "routing_mode doc =
     (let legacy = (case policy_value doc ''routing'' ''passthrough_enabled'' JNull of
           JBool b \<Rightarrow> if b then ''layered'' else ''cold_start''
         | _ \<Rightarrow> ''cold_start'')
      in case policy_value doc ''routing'' ''mode'' JNull of
           JStr m \<Rightarrow> if m \<in> {''cold_start'', ''shadow'', ''layered''} then m else legacy
         | _ \<Rightarrow> legacy)"

definition verify_sample_rate :: "jobj \<Rightarrow> rat" where
  "verify_sample_rate doc =
     (case num_of (policy_value doc ''routing'' ''verify_sample_rate'' (JFloat (10 / 100))) of
        Some x \<Rightarrow> x
      | None \<Rightarrow> 10 / 100)"

definition model_pin :: "jobj \<Rightarrow> string \<Rightarrow> policy_error + string" where
  "model_pin doc family =
     (case jget_or (JObj []) doc ''models'' of
        JObj models \<Rightarrow>
          (case jget models (family @ ''_model'') of
             JStr pin \<Rightarrow> if pin = [] then Inl ModelPinError else Inr pin
           | _ \<Rightarrow> Inl ModelPinError)
      | _ \<Rightarrow> Inl ModelPinError)"

definition context_suffix :: "string \<Rightarrow> string option" where
  "context_suffix key =
     (if key = ''context_window'' then Some ''context_tokens''
      else if key = ''compaction'' then Some ''compaction_tokens'' else None)"

definition model_context :: "jobj \<Rightarrow> string \<Rightarrow> string \<Rightarrow> int option" where
  "model_context doc family key =
     (case (jget_or (JObj []) doc ''models'', context_suffix key) of
        (JObj models, Some suf) \<Rightarrow>
          (case jget models (family @ ''_'' @ suf) of JInt n \<Rightarrow> Some n | _ \<Rightarrow> None)
      | _ \<Rightarrow> None)"

definition model_reasoning :: "jobj \<Rightarrow> string \<Rightarrow> string option" where
  "model_reasoning doc family =
     (case jget_or (JObj []) doc ''models'' of
        JObj models \<Rightarrow>
          (case jget models (family @ ''_reasoning'') of
             JStr s \<Rightarrow> if s = [] then None else Some s
           | _ \<Rightarrow> None)
      | _ \<Rightarrow> None)"

definition sol_hard_cap :: "jobj \<Rightarrow> py_error + rat" where
  "sol_hard_cap doc = py_float (policy_value doc ''tokens'' ''sol_allocation_cap''
     (policy_value doc ''tokens'' ''sol_hard_cap'' (JFloat (15 / 100))))"

definition k3_floor :: "jobj \<Rightarrow> py_error + rat" where
  "k3_floor doc = py_float (policy_value doc ''tokens'' ''k3_floor'' (JFloat (20 / 100)))"

definition minimum_denominator :: "jobj \<Rightarrow> py_error + int" where
  "minimum_denominator doc =
     py_int (policy_value doc ''tokens'' ''minimum_denominator'' (JInt 2000000))"

record hysteresis =
  enter_high :: rat
  enter_samples :: int
  leave_high :: rat
  leave_samples :: int
  critical_1h_share :: rat

definition hysteresis_of :: "jobj \<Rightarrow> py_error + hysteresis" where
  "hysteresis_of doc =
     (case (py_float (policy_value doc ''hysteresis'' ''enter_high_sol_share'' (JFloat (25 / 100))),
            py_int (policy_value doc ''hysteresis'' ''enter_samples'' (JInt 2)),
            py_float (policy_value doc ''hysteresis'' ''leave_high_sol_share'' (JFloat (22 / 100))),
            py_int (policy_value doc ''hysteresis'' ''leave_samples'' (JInt 2)),
            py_float (policy_value doc ''hysteresis'' ''critical_1h_share'' (JFloat (35 / 100)))) of
        (Inr eh, Inr es, Inr lh, Inr ls, Inr cr) \<Rightarrow>
          Inr \<lparr>enter_high = eh, enter_samples = es, leave_high = lh, leave_samples = ls,
               critical_1h_share = cr\<rparr>
      | (Inl e, _) \<Rightarrow> Inl e
      | (Inr _, Inl e, _) \<Rightarrow> Inl e
      | (Inr _, Inr _, Inl e, _) \<Rightarrow> Inl e
      | (Inr _, Inr _, Inr _, Inl e, _) \<Rightarrow> Inl e
      | (Inr _, Inr _, Inr _, Inr _, Inl e) \<Rightarrow> Inl e)"

definition planning_max_turns :: "jobj \<Rightarrow> py_error + int" where
  "planning_max_turns doc = py_int (policy_value doc ''budget'' ''planning_max_turns'' (JInt 6))"

definition planning_max_new_tokens :: "jobj \<Rightarrow> py_error + int" where
  "planning_max_new_tokens doc =
     py_int (policy_value doc ''budget'' ''planning_max_new_tokens'' (JInt 30000))"

definition l2_max_age_s :: "jobj \<Rightarrow> py_error + rat" where
  "l2_max_age_s doc = py_float (policy_value doc ''l2_queue'' ''l2_max_age_s'' (JInt 900))"

definition meter_stale_after_s :: "jobj \<Rightarrow> py_error + rat" where
  "meter_stale_after_s doc = py_float (policy_value doc ''tokens'' ''stale_after_s'' (JInt 7200))"

section \<open>RefillPolicy\<close>

definition refill_int :: "jobj \<Rightarrow> string \<Rightarrow> string \<Rightarrow> policy_error + int" where
  "refill_int doc section_name key =
     (case jget_or (JObj []) doc section_name of
        JObj table \<Rightarrow> (case jget table key of JInt n \<Rightarrow> Inr n | _ \<Rightarrow> Inl PolicyError)
      | _ \<Rightarrow> Inl PolicyError)"

definition target_total :: "jobj \<Rightarrow> policy_error + int" where
  "target_total doc = refill_int doc ''concurrency'' ''target_total''"

definition dialogue_target :: "jobj \<Rightarrow> policy_error + int" where
  "dialogue_target doc = refill_int doc ''concurrency'' ''dialogue_target''"

definition v4_target :: "jobj \<Rightarrow> policy_error + int" where
  "v4_target doc = refill_int doc ''concurrency'' ''v4_target''"

definition k3_target :: "jobj \<Rightarrow> policy_error + int" where
  "k3_target doc = refill_int doc ''concurrency'' ''k3_target''"

definition v4_low_water :: "jobj \<Rightarrow> policy_error + int" where
  "v4_low_water doc = refill_int doc ''concurrency'' ''v4_low_water''"

definition k3_low_water :: "jobj \<Rightarrow> policy_error + int" where
  "k3_low_water doc = refill_int doc ''concurrency'' ''k3_low_water''"

definition spawn_interval_ms :: "jobj \<Rightarrow> policy_error + int" where
  "spawn_interval_ms doc = refill_int doc ''spawn_throttle'' ''spawn_interval_ms''"

definition reservations_borrowable :: "jobj \<Rightarrow> bool" where
  "reservations_borrowable doc =
     (case jget_or (JObj []) doc ''concurrency'' of
        JObj table \<Rightarrow> truthy (jget_or (JBool True) table ''reservations_borrowable'')
      | _ \<Rightarrow> True)"

section \<open>Layered authorization\<close>

datatype auth_reason = Unreadable | Status_mode_mismatch | Age_exceeded | Hash_mismatch
  | Conditions_incomplete | Current

text \<open>
  \<open>layered_authorization\<close>: the marker file (\<open>None\<close> when unreadable or not JSON), the clock,
  and the hash of the policy file's bytes (\<open>None\<close> when it cannot be read). The first group
  of failures is one \<open>try\<close> block; indexing anything but a dict by a string raises there too.
\<close>

definition condition_met :: "json \<Rightarrow> bool" where
  "condition_met item = (case item of JObj d \<Rightarrow> truthy (jget d ''ok'') | _ \<Rightarrow> False)"

definition conditions_complete :: "json \<Rightarrow> bool" where
  "conditions_complete v = (case v of JList items \<Rightarrow> items \<noteq> [] \<and> list_all condition_met items | _ \<Rightarrow> False)"

definition layered_authorization ::
  "json option \<Rightarrow> rat \<Rightarrow> rat \<Rightarrow> string option \<Rightarrow> bool \<times> auth_reason" where
  "layered_authorization marker_file now max_age_s policy_hash =
     (case (marker_file, policy_hash) of
        (Some (JObj marker), Some current_hash) \<Rightarrow>
          (case (map_of marker ''ts'', map_of marker ''conditions'') of
             (Some ts, Some conditions) \<Rightarrow>
               (case py_float ts of
                  Inl e \<Rightarrow> (False, Unreadable)
                | Inr t \<Rightarrow>
                    (let age = now - t in
                     if jget marker ''status'' \<noteq> JStr ''PASS''
                        \<or> jget marker ''authorized_mode'' \<noteq> JStr ''layered''
                     then (False, Status_mode_mismatch)
                     else if age < 0 \<or> max_age_s < age then (False, Age_exceeded)
                     else if jget marker ''policy_sha256'' \<noteq> JStr current_hash then (False, Hash_mismatch)
                     else if \<not> conditions_complete conditions then (False, Conditions_incomplete)
                     else (True, Current)))
           | _ \<Rightarrow> (False, Unreadable))
      | _ \<Rightarrow> (False, Unreadable))"

section \<open>Idempotency keys\<close>

fun join_with :: "string \<Rightarrow> string list \<Rightarrow> string" where
  "join_with sep [] = []"
| "join_with sep [x] = x"
| "join_with sep (x # xs) = x @ sep @ join_with sep xs"

definition rstrip_char :: "char \<Rightarrow> string \<Rightarrow> string" where
  "rstrip_char c s = rev (dropWhile (\<lambda>x. x = c) (rev s))"

definition idem_key :: "(string \<Rightarrow> string) \<Rightarrow> string \<Rightarrow> string \<Rightarrow> string list \<Rightarrow> string" where
  "idem_key b32digest kind scope semantic_fields =
     ''k3:'' @ kind @ '':'' @ scope @ '':''
       @ take 16 (rstrip_char (CHR ''='') (py_lower (b32digest (join_with ''|'' semantic_fields))))"

section \<open>Properties\<close>

lemma routing_mode_range: "routing_mode doc \<in> {''cold_start'', ''shadow'', ''layered''}"
  by (auto simp: routing_mode_def Let_def split: json.splits)

lemma routing_mode_empty [simp]: "routing_mode [] = ''cold_start''"
  by (simp add: routing_mode_def policy_value_def jget_or_def dict_get_or_def)

lemma authorized_iff:
  "fst (layered_authorization marker_file now max_age policy_hash) \<longleftrightarrow>
     (\<exists>marker h ts t items. marker_file = Some (JObj marker) \<and> policy_hash = Some h
        \<and> map_of marker ''ts'' = Some ts \<and> py_float ts = Inr t
        \<and> 0 \<le> now - t \<and> now - t \<le> max_age
        \<and> map_of marker ''conditions'' = Some (JList items) \<and> items \<noteq> [] \<and> list_all condition_met items
        \<and> jget marker ''status'' = JStr ''PASS'' \<and> jget marker ''authorized_mode'' = JStr ''layered''
        \<and> jget marker ''policy_sha256'' = JStr h)"
  by (auto simp: layered_authorization_def Let_def conditions_complete_def
      split: option.splits json.splits sum.splits if_splits)

text \<open>A layered authorization is bound to one policy file and one time window:
  when a marker authorizes, then it names the hash of the policy in force, so under any other
  policy bytes it does not authorize; it has expired once its maximum age has passed; and no
  clock set before its timestamp accepts it.\<close>

theorem authorization_is_bound:
  assumes "fst (layered_authorization marker now max_age (Some h))"
  shows "(h' \<noteq> h \<longrightarrow> \<not> fst (layered_authorization marker now' max_age' (Some h')))
    \<and> (now + max_age < now' \<longrightarrow> \<not> fst (layered_authorization marker now' max_age (Some h)))
    \<and> (now' < now - max_age \<longrightarrow> \<not> fst (layered_authorization marker now' max_age (Some h)))"
  using assms by (auto simp: authorized_iff)

definition demo_marker :: json where
  "demo_marker = JObj [(''ts'', JInt 100), (''conditions'', JList [JObj [(''ok'', JBool True)]]),
     (''status'', JStr ''PASS''), (''authorized_mode'', JStr ''layered''), (''policy_sha256'', JStr ''abc'')]"

theorem authorization_is_bound_witness:
  "fst (layered_authorization (Some demo_marker) 150 3600 (Some ''abc''))
   \<and> \<not> fst (layered_authorization (Some demo_marker) 150 3600 (Some ''abd''))"
proof -
  have "fst (layered_authorization (Some demo_marker) 150 3600 (Some ''abc''))" by code_simp
  with authorization_is_bound [OF this, of "''abd''" 150 3600] show ?thesis by simp
qed

end
