(* ===== verification/Budget.thy ===== *)
theory Budget
  imports Policy
begin

text \<open>
  The runtime budget controller, \<open>src/harness/budget_controller.py\<close>: the cost model, the
  shaping of allocations when a task opens, the per-agent operations on the persisted
  document, and the four-rung ladder. The document is the state; the clock, the cost history
  and the thresholds are arguments. Floats are exact rationals.
\<close>

section \<open>The ladder\<close>

datatype budget_state = NORMAL | THROTTLE | DEGRADE | BREAK

fun state_order :: "budget_state \<Rightarrow> nat" where
  "state_order NORMAL = 0"
| "state_order THROTTLE = 1"
| "state_order DEGRADE = 2"
| "state_order BREAK = 3"

lemma state_order_inj: "state_order s = state_order t \<longleftrightarrow> s = t"
  by (cases s; cases t) simp_all

instantiation budget_state :: linorder
begin

definition less_eq_budget_state :: "budget_state \<Rightarrow> budget_state \<Rightarrow> bool" where
  "s \<le> t \<longleftrightarrow> state_order s \<le> state_order t"

definition less_budget_state :: "budget_state \<Rightarrow> budget_state \<Rightarrow> bool" where
  "s < t \<longleftrightarrow> state_order s < state_order t"

instance
  by standard (auto simp: less_eq_budget_state_def less_budget_state_def state_order_inj)

end

section \<open>Data\<close>

datatype budget_event =
    Budget_opened string int
  | State_change budget_state budget_state bool
  | Budget_reclaimed string int
  | Budget_extended string int

text \<open>The document \<open>active.json\<close> and the event log beside it.\<close>

record budget_doc =
  b_task :: "string option"
  b_ceiling :: int
  allocated :: "int dict"
  consumed :: "int dict"
  b_state :: budget_state
  state_changed_at :: rat
  pool_returned :: int
  b_events :: "budget_event list"

definition budget_load :: "rat \<Rightarrow> budget_doc option \<Rightarrow> budget_doc" where
  "budget_load now file = (case file of
       Some d \<Rightarrow> d
     | None \<Rightarrow> \<lparr>b_task = None, b_ceiling = 0, allocated = [], consumed = [], b_state = NORMAL,
         state_changed_at = now, pool_returned = 0, b_events = []\<rparr>)"

record budget_config =
  throttle_at :: rat
  degrade_at :: rat
  break_at :: rat
  cooldown_s :: rat
  headroom :: rat

definition budget_number :: "jobj \<Rightarrow> string \<Rightarrow> rat \<Rightarrow> py_error + rat" where
  "budget_number doc key dflt = py_float (policy_value doc ''budget'' key (JFloat dflt))"

definition budget_config_of :: "jobj \<Rightarrow> py_error + budget_config" where
  "budget_config_of doc =
     (case (budget_number doc ''throttle_at'' (60 / 100), budget_number doc ''degrade_at'' (85 / 100),
            budget_number doc ''break_at'' 1, budget_number doc ''state_cooldown_s'' 60,
            budget_number doc ''allocation_headroom'' (30 / 100)) of
        (Inr t, Inr d, Inr b, Inr c, Inr h) \<Rightarrow>
          Inr \<lparr>throttle_at = t, degrade_at = d, break_at = b, cooldown_s = c, headroom = h\<rparr>
      | (Inl e, _) \<Rightarrow> Inl e
      | (_, Inl e, _) \<Rightarrow> Inl e
      | (_, _, Inl e, _) \<Rightarrow> Inl e
      | (_, _, _, Inl e, _) \<Rightarrow> Inl e
      | (_, _, _, _, Inl e) \<Rightarrow> Inl e)"

datatype budget_error = Budget_exceeded string int | Py_raised py_error

section \<open>Cost model\<close>

record role_cost =
  rc_p50 :: int
  rc_p90 :: int
  rc_samples :: int

definition bootstrap_cost :: role_cost where
  "bootstrap_cost = \<lparr>rc_p50 = 20000, rc_p90 = 60000, rc_samples = 0\<rparr>"

definition cost_entry :: "json \<Rightarrow> role_cost" where
  "cost_entry entry = (case entry of
       JObj d \<Rightarrow>
         (case (map_option py_int (map_of d ''p50''), map_option py_int (map_of d ''p90''),
                py_int (jget_or (JInt 0) d ''samples'')) of
            (Some (Inr a), Some (Inr b), Inr n) \<Rightarrow> \<lparr>rc_p50 = a, rc_p90 = b, rc_samples = n\<rparr>
          | _ \<Rightarrow> bootstrap_cost)
     | _ \<Rightarrow> bootstrap_cost)"

definition role_cost_model :: "json \<Rightarrow> string \<Rightarrow> py_error + role_cost" where
  "role_cost_model history role =
     (case (if truthy history then history else JObj []) of
        JObj h \<Rightarrow> Inr (cost_entry (jget h role))
      | _ \<Rightarrow> Inl AttributeError)"

definition cost_allocation :: "rat \<Rightarrow> role_cost \<Rightarrow> int" where
  "cost_allocation hr m = trunc_rat (of_int (rc_p90 m) * (1 + max 0 hr))"

definition wanted :: "rat \<Rightarrow> json \<Rightarrow> string \<Rightarrow> py_error + int" where
  "wanted hr history role =
     (case role_cost_model history role of Inl e \<Rightarrow> Inl e | Inr m \<Rightarrow> Inr (cost_allocation hr m))"

section \<open>Opening a task\<close>

fun raw_allocations :: "rat \<Rightarrow> json \<Rightarrow> int dict \<Rightarrow> py_error + int dict" where
  "raw_allocations hr history [] = Inr []"
| "raw_allocations hr history ((role, count) # roles) =
     (case wanted hr history role of
        Inl e \<Rightarrow> Inl e
      | Inr a \<Rightarrow> (case raw_allocations hr history roles of
            Inl e \<Rightarrow> Inl e
          | Inr rest \<Rightarrow> Inr ((role, a * max 1 count) # rest)))"

definition sol_role :: "string \<Rightarrow> bool" where
  "sol_role r = (r = ''sol'')"

definition k3_role :: "string \<Rightarrow> bool" where
  "k3_role r = (r \<in> {''verifier'', ''reviewer'', ''plan_expander'', ''k3''})"

definition fixed_role :: "string \<Rightarrow> bool" where
  "fixed_role r = (sol_role r \<or> k3_role r)"

definition sum_roles :: "(string \<Rightarrow> bool) \<Rightarrow> int dict \<Rightarrow> int" where
  "sum_roles P d = dict_sum (filter (\<lambda>p. P (fst p)) d)"

definition map_roles :: "(string \<Rightarrow> bool) \<Rightarrow> (int \<Rightarrow> int) \<Rightarrow> int dict \<Rightarrow> int dict" where
  "map_roles P f d = map (\<lambda>(r, v). (r, if P r then f v else v)) d"

definition scale_by :: "rat \<Rightarrow> int \<Rightarrow> int" where
  "scale_by scale v = trunc_rat (of_int v * scale)"

definition cap_sol :: "int \<Rightarrow> int dict \<Rightarrow> int dict" where
  "cap_sol cap raw = map_roles sol_role (\<lambda>v. min v cap) raw"

definition floor_k3 :: "int \<Rightarrow> int dict \<Rightarrow> int dict" where
  "floor_k3 floor_tokens raw =
     (let k3_sum = sum_roles k3_role raw in
      if list_ex (\<lambda>p. k3_role (fst p)) raw \<and> k3_sum < floor_tokens
      then map_roles k3_role (scale_by (of_int floor_tokens / of_int (max 1 k3_sum))) raw
      else raw)"

definition fit_others :: "int \<Rightarrow> int dict \<Rightarrow> int dict" where
  "fit_others limit raw =
     (let other = (\<lambda>r. \<not> fixed_role r);
          other_sum = sum_roles other raw;
          available = max 0 (limit - sum_roles fixed_role raw) in
      if list_ex (\<lambda>p. other (fst p)) raw \<and> available < other_sum
      then map_roles other (scale_by (of_int available / of_int (max 1 other_sum))) raw
      else raw)"

definition shape :: "rat \<Rightarrow> rat \<Rightarrow> int \<Rightarrow> int dict \<Rightarrow> int dict" where
  "shape sol_cap k3_fl limit raw =
     fit_others limit
       (floor_k3 (trunc_rat (of_int limit * k3_fl))
         (cap_sol (trunc_rat (of_int limit * sol_cap)) raw))"

text \<open>\<open>policy\<close> is the policy document, from which the Sol cap and the K3 floor are read.\<close>

definition open_task ::
  "jobj \<Rightarrow> budget_config \<Rightarrow> json \<Rightarrow> rat \<Rightarrow> string \<Rightarrow> int \<Rightarrow> int dict \<Rightarrow> py_error + budget_doc" where
  "open_task policy cfg history now task_id limit roles =
     (if limit \<le> 0 then Inl ValueError
      else case (sol_hard_cap policy, k3_floor policy, raw_allocations (headroom cfg) history roles) of
          (Inl e, _, _) \<Rightarrow> Inl e
        | (Inr _, Inl e, _) \<Rightarrow> Inl e
        | (Inr _, Inr _, Inl e) \<Rightarrow> Inl e
        | (Inr sol_cap, Inr k3_fl, Inr raw) \<Rightarrow>
            Inr \<lparr>b_task = Some task_id, b_ceiling = limit,
                 allocated = map (\<lambda>(r, v). (''role:'' @ r, v)) (shape sol_cap k3_fl limit raw),
                 consumed = [], b_state = NORMAL, state_changed_at = now, pool_returned = 0,
                 b_events = [Budget_opened task_id limit]\<rparr>)"

section \<open>Operations on an open task\<close>

definition register_agent ::
  "budget_config \<Rightarrow> json \<Rightarrow> string \<Rightarrow> string \<Rightarrow> budget_doc \<Rightarrow> (budget_error + int) \<times> budget_doc" where
  "register_agent cfg history agent role doc =
     (case wanted (headroom cfg) history role of
        Inl e \<Rightarrow> (Inl (Py_raised e), doc)
      | Inr want \<Rightarrow>
          (case map_of (allocated doc) agent of
             Some granted \<Rightarrow> (Inr granted, doc)
           | None \<Rightarrow>
               (let role_key = ''role:'' @ role;
                    role_pool = dict_get_or 0 role_key (allocated doc);
                    pool = pool_returned doc;
                    available = role_pool + pool in
                if available \<le> 0 \<and> b_task doc \<noteq> None then (Inl (Budget_exceeded agent 0), doc)
                else
                  let grant = (if 0 < available then min want available else want);
                      take_role = min grant role_pool in
                  (Inr grant,
                   doc\<lparr>allocated := dict_set agent grant
                         (dict_set role_key (role_pool - take_role) (allocated doc)),
                       pool_returned := pool - (grant - take_role),
                       consumed := dict_setdefault agent 0 (consumed doc)\<rparr>))))"

definition usage_ratio :: "budget_doc \<Rightarrow> rat" where
  "usage_ratio doc = of_int (dict_sum (consumed doc)) / of_int (max 1 (b_ceiling doc))"

definition target_state :: "budget_config \<Rightarrow> rat \<Rightarrow> budget_state" where
  "target_state cfg ratio =
     (if break_at cfg < ratio then BREAK
      else if degrade_at cfg \<le> ratio then DEGRADE
      else if throttle_at cfg \<le> ratio then THROTTLE
      else NORMAL)"

text \<open>\<open>thresholds[current]\<close>: the table has no entry for NORMAL, below which there is no rung.\<close>

definition threshold :: "budget_config \<Rightarrow> budget_state \<Rightarrow> rat" where
  "threshold cfg s = (case s of THROTTLE \<Rightarrow> throttle_at cfg | DEGRADE \<Rightarrow> degrade_at cfg
     | BREAK \<Rightarrow> break_at cfg | NORMAL \<Rightarrow> 0)"

definition move_state :: "rat \<Rightarrow> budget_state \<Rightarrow> bool \<Rightarrow> budget_doc \<Rightarrow> budget_doc" where
  "move_state now target cooled doc =
     doc\<lparr>b_state := target, state_changed_at := now,
         b_events := b_events doc @ [State_change (b_state doc) target cooled]\<rparr>"

definition recompute_state :: "budget_config \<Rightarrow> rat \<Rightarrow> budget_doc \<Rightarrow> budget_state \<times> budget_doc" where
  "recompute_state cfg now doc =
     (let ratio = usage_ratio doc; current = b_state doc; target = target_state cfg ratio in
      if current < target then (target, move_state now target False doc)
      else if target < current \<and> cooldown_s cfg \<le> now - state_changed_at doc
              \<and> ratio < threshold cfg current - 5 / 100
      then (target, move_state now target True doc)
      else (current, doc))"

definition record_usage ::
  "budget_config \<Rightarrow> rat \<Rightarrow> string \<Rightarrow> int \<Rightarrow> budget_doc \<Rightarrow> (budget_error + budget_state) \<times> budget_doc" where
  "record_usage cfg now agent tokens doc =
     (let spent = dict_get_or 0 agent (consumed doc) + max 0 tokens;
          (state, doc') = recompute_state cfg now (doc\<lparr>consumed := dict_set agent spent (consumed doc)\<rparr>);
          granted = dict_get_or 0 agent (allocated doc') in
      if state = BREAK \<and> granted < spent
      then (Inl (Budget_exceeded agent (granted - spent)), doc')
      else (Inr state, doc'))"

definition reclaim :: "budget_config \<Rightarrow> rat \<Rightarrow> string \<Rightarrow> budget_doc \<Rightarrow> int \<times> budget_doc" where
  "reclaim cfg now agent doc =
     (let granted = dict_get_or 0 agent (allocated doc);
          spent = dict_get_or 0 agent (consumed doc);
          unused = max 0 (granted - spent);
          doc1 = doc\<lparr>allocated := dict_del agent (allocated doc),
                     pool_returned := pool_returned doc + unused\<rparr>;
          doc2 = snd (recompute_state cfg now doc1) in
      (unused, if unused = 0 then doc2
               else doc2\<lparr>b_events := b_events doc2 @ [Budget_reclaimed agent unused]\<rparr>))"

datatype budget_decision = Extend int | Wrap_up

definition extend_or_wrap_up ::
  "string \<Rightarrow> string \<Rightarrow> budget_doc \<Rightarrow> budget_decision \<times> budget_doc" where
  "extend_or_wrap_up agent verification_state doc =
     (let pool = pool_returned doc;
          granted = dict_get_or 0 agent (allocated doc);
          spent = dict_get_or 0 agent (consumed doc) in
      if (of_int spent :: rat) < 85 / 100 * of_int (max 1 granted) then (Extend 0, doc)
      else
        let extension = min pool (max 0 granted div 2) in
        if 0 < extension \<and> verification_state = ''CONTINUE'' \<and> b_state doc \<noteq> BREAK
        then (Extend extension,
              doc\<lparr>pool_returned := pool - extension,
                  allocated := dict_set agent (granted + extension) (allocated doc),
                  b_events := b_events doc @ [Budget_extended agent extension]\<rparr>)
        else (Wrap_up, doc))"

section \<open>Signals\<close>

datatype guidance = No_guidance | Compress | Delegate_only | Stop_now

record tracker =
  tr_used :: int
  tr_remaining :: int
  tr_allocated :: int
  tr_task_used :: int
  tr_ceiling :: int
  tr_state :: budget_state
  tr_guidance :: guidance

text \<open>The fields \<open>tracker_block\<close> renders, before they are formatted into text.\<close>

definition tracker_block :: "string \<Rightarrow> budget_doc \<Rightarrow> tracker" where
  "tracker_block agent doc =
     (let granted = dict_get_or 0 agent (allocated doc); spent = dict_get_or 0 agent (consumed doc) in
      \<lparr>tr_used = spent, tr_remaining = max 0 (granted - spent), tr_allocated = granted,
       tr_task_used = dict_sum (consumed doc), tr_ceiling = max 1 (b_ceiling doc),
       tr_state = b_state doc,
       tr_guidance = (case b_state doc of NORMAL \<Rightarrow> No_guidance | THROTTLE \<Rightarrow> Compress
         | DEGRADE \<Rightarrow> Delegate_only | BREAK \<Rightarrow> Stop_now)\<rparr>)"

datatype quota =
    Quota_missing
  | Quota_malformed
  | Quota_insufficient
  | Quota_ok rat rat bool bool int

definition or_zero :: "json \<Rightarrow> json" where
  "or_zero v = py_or v (JInt 0)"

definition global_quota_check :: "jobj \<Rightarrow> json \<Rightarrow> py_error + quota" where
  "global_quota_check policy report =
     (case report of
        JObj rep \<Rightarrow>
          (case (case jget_or (JObj []) rep ''windows'' of
                   JObj windows \<Rightarrow> jget windows ''rolling_5h'' | _ \<Rightarrow> JNull) of
             JObj w5h \<Rightarrow>
               (case (py_int (or_zero (jget_or (JInt 0) w5h ''production_effective_tokens'')),
                      minimum_denominator policy) of
                  (Inl e, _) \<Rightarrow> Inl e
                | (Inr _, Inl e) \<Rightarrow> Inl e
                | (Inr denom, Inr least) \<Rightarrow>
                    if denom < least then Inr Quota_insufficient
                    else (case (py_float (or_zero (jget_or (jget_or (JInt 0) w5h ''share_effective'')
                                  w5h ''sol_share_effective'')),
                                py_float (or_zero (jget_or (JInt 0) w5h ''k3_share_effective'')),
                                sol_hard_cap policy, k3_floor policy) of
                            (Inr sol, Inr k3, Inr cap, Inr fl) \<Rightarrow>
                              Inr (Quota_ok sol k3 (sol \<le> cap) (fl \<le> k3) denom)
                          | (Inl e, _) \<Rightarrow> Inl e
                          | (_, Inl e, _) \<Rightarrow> Inl e
                          | (_, _, Inl e, _) \<Rightarrow> Inl e
                          | (_, _, _, Inl e) \<Rightarrow> Inl e))
           | _ \<Rightarrow> Inr Quota_malformed)
      | _ \<Rightarrow> Inr Quota_missing)"

end
