(* ===== verification/Budget_Properties.thy ===== *)
theory Budget_Properties
  imports Budget
begin

text \<open>
  Properties of the budget controller: the shape of the allocations of a fresh task, the
  conservation of tokens over any sequence of operations, the ladder with its hysteresis,
  and the extension decision.
\<close>

section \<open>Sums over roles\<close>

lemma sum_roles_Nil [simp]: "sum_roles P [] = 0"
  by (simp add: sum_roles_def)

lemma sum_roles_Cons [simp]: "sum_roles P (p # d) = (if P (fst p) then snd p else 0) + sum_roles P d"
  by (simp add: sum_roles_def)

lemma map_roles_simps [simp]:
  "map_roles P f [] = []" "map_roles P f ((r, v) # d) = (r, if P r then f v else v) # map_roles P f d"
  by (simp_all add: map_roles_def)

lemma sum_roles_split: "dict_sum d = sum_roles P d + sum_roles (\<lambda>r. \<not> P r) d"
  by (induction d) auto

lemma sum_roles_other: "(\<And>r. P r \<Longrightarrow> \<not> Q r) \<Longrightarrow> sum_roles P (map_roles Q f d) = sum_roles P d"
  by (induction d) auto

lemma sum_roles_none: "\<not> list_ex (\<lambda>p. P (fst p)) d \<Longrightarrow> sum_roles P d = 0"
  by (induction d) auto

lemma map_of_map_roles: "map_of (map_roles P f d) r = map_option (\<lambda>v. if P r then f v else v) (map_of d r)"
  by (induction d) auto

lemma keys_map_roles [simp]: "map fst (map_roles P f d) = map fst d"
  by (induction d) auto

definition nonneg :: "int dict \<Rightarrow> bool" where
  "nonneg d = list_all (\<lambda>p. 0 \<le> snd p) d"

lemma nonneg_simps [simp]: "nonneg []" "nonneg (p # d) \<longleftrightarrow> 0 \<le> snd p \<and> nonneg d"
  by (simp_all add: nonneg_def)

lemma nonneg_map_roles:
  assumes "nonneg d" and "\<And>v. 0 \<le> v \<Longrightarrow> 0 \<le> f v"
  shows "nonneg (map_roles P f d)"
  using assms(1) by (induction d) (auto simp: assms(2))

lemma sum_roles_nonneg: "nonneg d \<Longrightarrow> 0 \<le> sum_roles P d"
  by (induction d) auto

lemma nonneg_get: "nonneg d \<Longrightarrow> 0 \<le> dict_get_or 0 k d"
  by (induction d) (auto simp: dict_get_or_def)

lemma get_le_sum: "nonneg d \<Longrightarrow> dict_get_or 0 k d \<le> dict_sum d"
proof (induction d)
  case Nil
  then show ?case by (simp add: dict_get_or_def)
next
  case (Cons p d)
  then have "0 \<le> dict_sum d" using sum_roles_nonneg [of d "\<lambda>_. True"] by (simp add: sum_roles_def)
  with Cons show ?case by (auto simp: dict_get_or_def split: option.splits)
qed

lemma nonneg_set: "nonneg d \<Longrightarrow> 0 \<le> v \<Longrightarrow> nonneg (dict_set k v d)"
  by (induction d) auto

lemma nonneg_del: "nonneg d \<Longrightarrow> nonneg (dict_del k d)"
  by (induction d) auto

lemma scale_by_nonneg: "0 \<le> s \<Longrightarrow> 0 \<le> v \<Longrightarrow> 0 \<le> scale_by s v"
  by (simp add: scale_by_def trunc_rat_nonneg)

lemma scale_by_le: "0 \<le> s \<Longrightarrow> 0 \<le> v \<Longrightarrow> of_int (scale_by s v) \<le> of_int v * s"
  by (simp add: scale_by_def trunc_rat_le)

lemma scale_by_gt: "0 \<le> s \<Longrightarrow> 0 \<le> v \<Longrightarrow> of_int v * s < of_int (scale_by s v) + 1"
  by (simp add: scale_by_def trunc_rat_def floor_less_iff) linarith

lemma sum_scaled_le:
  assumes "0 \<le> s" and "nonneg d"
  shows "of_int (sum_roles P (map_roles P (scale_by s) d)) \<le> of_int (sum_roles P d) * s"
  using assms(2)
proof (induction d)
  case Nil
  then show ?case by simp
next
  case (Cons p d)
  obtain r v where p: "p = (r, v)" by (cases p)
  with Cons have "of_int (scale_by s v) \<le> of_int v * s" by (intro scale_by_le assms(1)) simp
  with Cons p show ?case by (auto simp: algebra_simps)
qed

lemma sum_scaled_ge:
  assumes "0 \<le> s" and "nonneg d"
  shows "of_int (sum_roles P d) * s
     \<le> of_int (sum_roles P (map_roles P (scale_by s) d)) + of_nat (length (filter (\<lambda>p. P (fst p)) d))"
  using assms(2)
proof (induction d)
  case Nil
  then show ?case by simp
next
  case (Cons p d)
  obtain r v where p: "p = (r, v)" by (cases p)
  with Cons have "of_int v * s < of_int (scale_by s v) + 1" by (intro scale_by_gt assms(1)) simp
  with Cons p show ?case by (auto simp: algebra_simps)
qed

section \<open>Shaping\<close>

lemma fit_others_total:
  assumes "nonneg raw"
  shows "dict_sum (fit_others limit raw) \<le> max limit (sum_roles fixed_role raw)
    \<and> sum_roles fixed_role (fit_others limit raw) = sum_roles fixed_role raw"
proof -
  let ?other = "\<lambda>r. \<not> fixed_role r"
  let ?avail = "max 0 (limit - sum_roles fixed_role raw)"
  let ?s = "of_int ?avail / of_int (max 1 (sum_roles ?other raw)) :: rat"
  show ?thesis
  proof (cases "list_ex (\<lambda>p. ?other (fst p)) raw \<and> ?avail < sum_roles ?other raw")
    case True
    let ?new = "map_roles ?other (scale_by ?s) raw"
    have same: "sum_roles fixed_role ?new = sum_roles fixed_role raw" by (rule sum_roles_other) simp
    have pos: "0 < sum_roles ?other raw" using True by linarith
    then have one: "max 1 (sum_roles ?other raw) = sum_roles ?other raw" by simp
    have "of_int (sum_roles ?other ?new) \<le> of_int (sum_roles ?other raw) * ?s"
      by (rule sum_scaled_le) (simp_all add: assms)
    also have "\<dots> = of_int ?avail" using pos unfolding one by simp
    finally have "sum_roles ?other ?new \<le> ?avail" by linarith
    then have "dict_sum ?new \<le> max limit (sum_roles fixed_role raw)"
      using sum_roles_split [of ?new fixed_role] same by linarith
    moreover have "fit_others limit raw = ?new"
      unfolding fit_others_def Let_def using True by (simp only: if_True simp_thms)
    ultimately show ?thesis using same by simp
  next
    case False
    then have "sum_roles ?other raw \<le> ?avail"
      using sum_roles_none [of ?other raw] by force
    then have "dict_sum raw \<le> max limit (sum_roles fixed_role raw)"
      using sum_roles_split [of raw fixed_role] by linarith
    moreover have "fit_others limit raw = raw"
      unfolding fit_others_def Let_def using False by (simp only: if_False)
    ultimately show ?thesis by simp
  qed
qed

lemma floor_k3_sum:
  assumes "nonneg raw" and "list_ex (\<lambda>p. k3_role (fst p)) raw" and "0 < sum_roles k3_role raw"
  shows "fl - int (length (filter (\<lambda>p. k3_role (fst p)) raw)) \<le> sum_roles k3_role (floor_k3 fl raw)"
proof (cases "sum_roles k3_role raw < fl")
  case True
  let ?s = "of_int fl / of_int (max 1 (sum_roles k3_role raw)) :: rat"
  have one: "max 1 (sum_roles k3_role raw) = sum_roles k3_role raw" using assms(3) by simp
  have "of_int fl = of_int (sum_roles k3_role raw) * ?s" using assms(3) unfolding one by simp
  also have "\<dots> \<le> of_int (sum_roles k3_role (map_roles k3_role (scale_by ?s) raw))
      + of_nat (length (filter (\<lambda>p. k3_role (fst p)) raw))"
    by (rule sum_scaled_ge) (use True assms in auto)
  finally have "fl \<le> sum_roles k3_role (map_roles k3_role (scale_by ?s) raw)
      + int (length (filter (\<lambda>p. k3_role (fst p)) raw))"
    by (metis (mono_tags) of_int_add of_int_le_iff of_int_of_nat_eq)
  moreover have "floor_k3 fl raw = map_roles k3_role (scale_by ?s) raw"
    unfolding floor_k3_def Let_def using True assms(2) by (simp only: if_True simp_thms)
  ultimately show ?thesis by simp
next
  case False
  then show ?thesis by (simp add: floor_k3_def Let_def)
qed

lemma nonneg_floor_k3: "nonneg raw \<Longrightarrow> nonneg (floor_k3 fl raw)"
  using sum_roles_nonneg [of raw k3_role]
  by (auto simp: floor_k3_def Let_def intro!: nonneg_map_roles scale_by_nonneg)

lemma nonneg_fit_others: "nonneg raw \<Longrightarrow> nonneg (fit_others limit raw)"
  by (auto simp: fit_others_def Let_def intro!: nonneg_map_roles scale_by_nonneg)

lemma floor_k3_zero: "nonneg raw \<Longrightarrow> sum_roles k3_role raw = 0 \<Longrightarrow> sum_roles k3_role (floor_k3 fl raw) = 0"
proof -
  assume raw: "nonneg raw" and zero: "sum_roles k3_role raw = 0"
  show ?thesis
  proof (cases "0 < fl")
    case True
    have "of_int (sum_roles k3_role (map_roles k3_role (scale_by (of_int fl)) raw))
        \<le> of_int (sum_roles k3_role raw) * (of_int fl :: rat)"
      by (rule sum_scaled_le) (use True raw in auto)
    then have "sum_roles k3_role (map_roles k3_role (scale_by (of_int fl)) raw) \<le> 0" using zero by simp
    moreover have "0 \<le> sum_roles k3_role (map_roles k3_role (scale_by (of_int fl)) raw)"
      by (intro sum_roles_nonneg nonneg_map_roles raw scale_by_nonneg) (use True in auto)
    ultimately show ?thesis using zero by (simp add: floor_k3_def)
  next
    case False
    then show ?thesis using zero by (simp add: floor_k3_def)
  qed
qed

lemma cap_sol_get:
  "dict_get_or 0 ''sol'' (cap_sol cap raw) \<le> (if dict_has ''sol'' raw then cap else 0)"
  by (auto simp: cap_sol_def dict_get_or_def dict_has_def map_of_map_roles sol_role_def split: option.splits)

lemma shape_sol: "dict_get_or 0 ''sol'' (shape c f limit raw)
    = dict_get_or 0 ''sol'' (cap_sol (trunc_rat (of_int limit * c)) raw)"
  by (simp add: shape_def fit_others_def floor_k3_def Let_def dict_get_or_def map_of_map_roles
      fixed_role_def sol_role_def k3_role_def option.map_ident)

lemma sum_k3_fit [simp]: "sum_roles k3_role (fit_others limit raw) = sum_roles k3_role raw"
  by (simp add: fit_others_def Let_def) (intro impI sum_roles_other, simp add: fixed_role_def)

lemma sum_k3_cap [simp]: "sum_roles k3_role (cap_sol cap raw) = sum_roles k3_role raw"
  unfolding cap_sol_def by (rule sum_roles_other) (auto simp: k3_role_def sol_role_def)

lemma keys_cap_sol [simp]: "map fst (cap_sol cap raw) = map fst raw"
  by (simp add: cap_sol_def)

lemma length_filter_keys: "length (filter (\<lambda>p. P (fst p)) d) = length (filter P (map fst d))"
  by (simp add: filter_map comp_def)

lemma length_filter_fst: "map fst d = map fst d' \<Longrightarrow>
    length (filter (\<lambda>p. P (fst p)) d) = length (filter (\<lambda>p. P (fst p)) d')"
  by (simp only: length_filter_keys)

definition sane_history :: "json \<Rightarrow> bool" where
  "sane_history history = (\<forall>role m. role_cost_model history role = Inr m \<longrightarrow> 0 \<le> rc_p90 m)"

lemma wanted_nonneg: "sane_history history \<Longrightarrow> wanted hr history role = Inr w \<Longrightarrow> 0 \<le> w"
  by (auto simp: wanted_def sane_history_def cost_allocation_def split: sum.splits intro!: trunc_rat_nonneg)

lemma raw_allocations_sane:
  "raw_allocations hr history roles = Inr raw \<Longrightarrow> sane_history history \<Longrightarrow>
     nonneg raw \<and> map fst raw = map fst roles"
  by (induction hr history roles arbitrary: raw rule: raw_allocations.induct)
     (auto split: sum.splits dest: wanted_nonneg)

definition role_total :: "(string \<Rightarrow> bool) \<Rightarrow> budget_doc \<Rightarrow> int" where
  "role_total P doc = sum_roles (\<lambda>k. P (drop 5 k)) (allocated doc)"

definition role_keys :: "int dict \<Rightarrow> int dict" where
  "role_keys d = map (\<lambda>(r, v). (''role:'' @ r, v)) d"

lemma role_keys_sums:
  "sum_roles (\<lambda>k. P (drop 5 k)) (role_keys d) = sum_roles P d"
  "dict_sum (role_keys d) = dict_sum d"
  "dict_get_or 0 (''role:'' @ r) (role_keys d) = dict_get_or 0 r d"
  "nonneg (role_keys d) = nonneg d"
  by (induction d) (auto simp: role_keys_def dict_get_or_def)

text \<open>A freshly opened task gives Sol at most its hard cap of the ceiling; gives
  the K3 roles, where they got anything, at least their floor less one token per role lost to
  truncation; and allocates at most the ceiling in all, unless the Sol and K3 shares alone
  already exceed it.\<close>

theorem open_task_shape:
  assumes "open_task policy cfg history now task_id limit roles = Inr doc"
    and "sane_history history"
    and "sol_hard_cap policy = Inr c" and "0 \<le> c" and "k3_floor policy = Inr f"
  shows "dict_get_or 0 ''role:sol'' (allocated doc) \<le> trunc_rat (of_int limit * c)
    \<and> (0 < role_total k3_role doc \<longrightarrow>
         trunc_rat (of_int limit * f) - int (length (filter (\<lambda>p. k3_role (fst p)) roles))
           \<le> role_total k3_role doc)
    \<and> dict_sum (allocated doc) \<le> max limit (role_total fixed_role doc)
    \<and> nonneg (allocated doc)"
proof -
  from assms obtain raw where pos: "0 < limit"
    and raw: "raw_allocations (headroom cfg) history roles = Inr raw"
    and doc: "allocated doc = role_keys (shape c f limit raw)"
    by (auto simp: open_task_def role_keys_def split: if_splits sum.splits)
  let ?cap = "trunc_rat (of_int limit * c)" and ?fl = "trunc_rat (of_int limit * f)"
  have cap0: "0 \<le> ?cap" using pos assms(4) by (simp add: trunc_rat_nonneg)
  note sane = raw_allocations_sane [OF raw assms(2)]
  have nn1: "nonneg (cap_sol ?cap raw)"
    unfolding cap_sol_def using sane cap0 by (intro nonneg_map_roles) auto
  have nn2: "nonneg (floor_k3 ?fl (cap_sol ?cap raw))" by (rule nonneg_floor_k3 [OF nn1])
  have sol: "dict_get_or 0 ''sol'' (shape c f limit raw) \<le> ?cap"
    using cap_sol_get [of ?cap raw] cap0 unfolding shape_sol by (auto split: if_splits)
  have k3: "?fl - int (length (filter (\<lambda>p. k3_role (fst p)) roles)) \<le> sum_roles k3_role (shape c f limit raw)"
    if "0 < sum_roles k3_role (shape c f limit raw)"
  proof -
    have some: "0 < sum_roles k3_role (cap_sol ?cap raw)"
      using that floor_k3_zero [OF nn1] sum_roles_nonneg [OF nn1, of k3_role]
      by (force simp: shape_def)
    then have "list_ex (\<lambda>p. k3_role (fst p)) (cap_sol ?cap raw)"
      using sum_roles_none [of k3_role "cap_sol ?cap raw"] by fastforce
    from floor_k3_sum [OF nn1 this some, of ?fl]
    have "?fl - int (length (filter (\<lambda>p. k3_role (fst p)) (cap_sol ?cap raw)))
        \<le> sum_roles k3_role (shape c f limit raw)" by (simp add: shape_def)
    moreover have "length (filter (\<lambda>p. k3_role (fst p)) (cap_sol ?cap raw))
        = length (filter (\<lambda>p. k3_role (fst p)) roles)"
      by (rule length_filter_fst) (use sane in simp)
    ultimately show ?thesis by simp
  qed
  have amount: "dict_sum (shape c f limit raw) \<le> max limit (sum_roles fixed_role (shape c f limit raw))"
    using fit_others_total [OF nn2, of limit] by (simp add: shape_def)
  have nn: "nonneg (shape c f limit raw)"
    unfolding shape_def by (rule nonneg_fit_others [OF nn2])
  show ?thesis
    using sol k3 amount nn role_keys_sums(3) [of "''sol''"]
    by (simp add: role_total_def doc role_keys_sums)
qed

definition demo_budget_config :: budget_config where
  "demo_budget_config = \<lparr>throttle_at = 60 / 100, degrade_at = 85 / 100, break_at = 1,
     cooldown_s = 60, headroom = 30 / 100\<rparr>"

definition demo_roles :: "int dict" where
  "demo_roles = [(''sol'', 1), (''verifier'', 1), (''worker'', 16)]"

lemma sane_history_null: "sane_history JNull"
  by (simp add: sane_history_def role_cost_model_def cost_entry_def bootstrap_cost_def jget_def
      dict_get_or_def)

lemma default_shares: "sol_hard_cap [] = Inr (15 / 100)" "k3_floor [] = Inr (20 / 100)"
  by (simp_all add: sol_hard_cap_def k3_floor_def policy_value_def jget_or_def dict_get_or_def)

definition demo_allocated :: "int dict" where
  "demo_allocated = (case open_task [] demo_budget_config JNull 0 ''t1'' 1000000 demo_roles of
     Inr doc \<Rightarrow> allocated doc | Inl e \<Rightarrow> [])"

lemma demo_allocation:
  "demo_allocated = [(''role:sol'', 78000), (''role:verifier'', 200000), (''role:worker'', 722000)]"
  by code_simp

theorem open_task_shape_witness:
  "\<exists>doc. open_task [] demo_budget_config JNull 0 ''t1'' 1000000 demo_roles = Inr doc
     \<and> dict_sum (allocated doc) \<le> max 1000000 (role_total fixed_role doc)"
proof -
  obtain doc where doc: "open_task [] demo_budget_config JNull 0 ''t1'' 1000000 demo_roles = Inr doc"
    using demo_allocation by (auto simp: demo_allocated_def split: sum.splits)
  from open_task_shape [OF this sane_history_null default_shares(1) _ default_shares(2)] doc
  show ?thesis by simp
qed

section \<open>Conservation of tokens\<close>

datatype budget_op =
    Register string string
  | Record string int
  | Reclaim string
  | Near_limit string string

text \<open>One operation at its clock; a raised budget error leaves its document behind.\<close>

definition budget_step ::
  "budget_config \<Rightarrow> json \<Rightarrow> rat \<times> budget_op \<Rightarrow> budget_doc \<Rightarrow> py_error + budget_doc" where
  "budget_step cfg history input doc =
     (case snd input of
        Register agent role \<Rightarrow>
          (case register_agent cfg history agent role doc of
             (Inl (Py_raised e), _) \<Rightarrow> Inl e
           | (_, doc') \<Rightarrow> Inr doc')
      | Record agent tokens \<Rightarrow> Inr (snd (record_usage cfg (fst input) agent tokens doc))
      | Reclaim agent \<Rightarrow> Inr (snd (reclaim cfg (fst input) agent doc))
      | Near_limit agent v \<Rightarrow> Inr (snd (extend_or_wrap_up agent v doc)))"

definition tokens_inv :: "int \<Rightarrow> budget_doc \<Rightarrow> bool" where
  "tokens_inv amount doc =
     (b_task doc \<noteq> None \<and> wf_dict (allocated doc) \<and> nonneg (allocated doc)
      \<and> 0 \<le> pool_returned doc \<and> dict_sum (allocated doc) + pool_returned doc \<le> amount)"

lemma recompute_keeps:
  "allocated (snd (recompute_state cfg now doc)) = allocated doc"
  "consumed (snd (recompute_state cfg now doc)) = consumed doc"
  "pool_returned (snd (recompute_state cfg now doc)) = pool_returned doc"
  "b_task (snd (recompute_state cfg now doc)) = b_task doc"
  "b_ceiling (snd (recompute_state cfg now doc)) = b_ceiling doc"
  by (simp_all add: recompute_state_def Let_def move_state_def)

lemma tokens_inv_recompute [simp]:
  "tokens_inv amount (snd (recompute_state cfg now doc)) = tokens_inv amount doc"
  by (simp add: tokens_inv_def recompute_keeps)

lemma tokens_inv_events [simp]: "tokens_inv amount (doc\<lparr>b_events := e\<rparr>) = tokens_inv amount doc"
  by (simp add: tokens_inv_def)

lemma record_usage_keeps [inv_intros]:
  assumes "tokens_inv amount doc"
  shows "tokens_inv amount (snd (record_usage cfg now agent tokens doc))"
proof -
  let ?d = "doc\<lparr>consumed := dict_set agent (dict_get_or 0 agent (consumed doc) + max 0 tokens) (consumed doc)\<rparr>"
  have "snd (record_usage cfg now agent tokens doc) = snd (recompute_state cfg now ?d)"
    by (simp add: record_usage_def Let_def split_def)
  moreover have "tokens_inv amount ?d" using assms by (simp add: tokens_inv_def)
  ultimately show ?thesis by simp
qed

lemma reclaim_keeps [inv_intros]:
  assumes "tokens_inv amount doc" and "\<And>a. 0 \<le> dict_get_or 0 a (consumed doc)"
  shows "tokens_inv amount (snd (reclaim cfg now agent doc))"
proof -
  let ?g = "dict_get_or 0 agent (allocated doc)" and ?c = "dict_get_or 0 agent (consumed doc)"
  let ?d = "doc\<lparr>allocated := dict_del agent (allocated doc),
      pool_returned := pool_returned doc + max 0 (?g - ?c)\<rparr>"
  have inv: "b_task doc \<noteq> None" "wf_dict (allocated doc)" "nonneg (allocated doc)"
    "0 \<le> pool_returned doc" "dict_sum (allocated doc) + pool_returned doc \<le> amount"
    using assms(1) by (simp_all add: tokens_inv_def)
  have "max 0 (?g - ?c) \<le> ?g"
    using assms(2) [of agent] nonneg_get [OF inv(3), of agent] by linarith
  then have "dict_sum (dict_del agent (allocated doc)) + (pool_returned doc + max 0 (?g - ?c)) \<le> amount"
    using inv(5) dict_sum_del [OF inv(2), of agent] by linarith
  then have "tokens_inv amount ?d"
    using inv by (simp add: tokens_inv_def nonneg_del wf_dict_del)
  then have two: "tokens_inv amount (snd (recompute_state cfg now ?d))" by simp
  have "\<exists>e. snd (reclaim cfg now agent doc) \<in>
      {snd (recompute_state cfg now ?d), snd (recompute_state cfg now ?d)\<lparr>b_events := e\<rparr>}"
    unfolding reclaim_def Let_def snd_conv by (simp only: insert_iff split: if_split) blast
  then show ?thesis using two by auto
qed

lemma extend_keeps [inv_intros]:
  assumes "tokens_inv amount doc"
  shows "tokens_inv amount (snd (extend_or_wrap_up agent v doc))"
proof -
  let ?g = "dict_get_or 0 agent (allocated doc)"
  let ?x = "min (pool_returned doc) (max 0 ?g div 2)"
  have "0 \<le> ?g" using assms nonneg_get by (simp add: tokens_inv_def)
  then have "tokens_inv amount (doc\<lparr>pool_returned := pool_returned doc - ?x,
      allocated := dict_set agent (?g + ?x) (allocated doc), b_events := e\<rparr>)" if "0 < ?x" for e
    using assms that by (simp add: tokens_inv_def dict_sum_set nonneg_set wf_dict_set)
  then show ?thesis using assms by (simp add: extend_or_wrap_up_def Let_def)
qed

lemma register_keeps [inv_intros]:
  assumes inv: "tokens_inv amount doc" and sane: "sane_history history"
  shows "tokens_inv amount (snd (register_agent cfg history agent role doc))"
proof (cases "wanted (headroom cfg) history role")
  case (Inl e)
  then show ?thesis using inv by (simp add: register_agent_def)
next
  case (Inr want)
  define k where "k = ''role:'' @ role"
  let ?r = "dict_get_or 0 k (allocated doc)" and ?p = "pool_returned doc"
  let ?g = "min want (?r + ?p)"
  let ?d = "dict_set agent ?g (dict_set k (?r - min ?g ?r) (allocated doc))"
  note register = register_agent_def [of cfg history agent role doc, folded k_def]
  have w: "0 \<le> want" by (rule wanted_nonneg [OF sane Inr])
  have r: "0 \<le> ?r" and p: "0 \<le> ?p" using inv nonneg_get by (auto simp: tokens_inv_def)
  have granted: "tokens_inv amount (doc\<lparr>allocated := ?d, pool_returned := ?p - (?g - min ?g ?r),
        consumed := cs\<rparr>)" if fresh: "map_of (allocated doc) agent = None" for cs
  proof -
    have g: "0 \<le> ?g" using w r p by simp
    have fresh0: "dict_get_or 0 agent (allocated doc) = 0" using fresh by (simp add: dict_get_or_def)
    have "min ?g ?r = 0" if "agent = k" using fresh0 g that by simp
    then have "dict_sum ?d = dict_sum (allocated doc) - min ?g ?r + ?g"
      using fresh0 unfolding dict_sum_set by (cases "agent = k") simp_all
    moreover have "nonneg ?d"
      using inv g r by (intro nonneg_set) (simp_all add: tokens_inv_def)
    moreover have "0 \<le> ?p - (?g - min ?g ?r)" using r p by linarith
    moreover have "wf_dict ?d" using inv by (simp add: tokens_inv_def wf_dict_set)
    ultimately show ?thesis using inv unfolding tokens_inv_def by simp
  qed
  show ?thesis
  proof (cases "map_of (allocated doc) agent")
    case (Some x)
    then show ?thesis using Inr inv by (simp add: register)
  next
    case None
    show ?thesis
    proof (cases "0 < ?r + ?p")
      case True
      then show ?thesis using granted [OF None] Inr None by (simp add: register Let_def)
    next
      case False
      then have "snd (register_agent cfg history agent role doc) = doc"
        using Inr None inv by (auto simp: register Let_def tokens_inv_def)
      then show ?thesis using inv by simp
    qed
  qed
qed

definition spent_inv :: "budget_doc \<Rightarrow> bool" where
  "spent_inv doc = (\<forall>a. 0 \<le> dict_get_or 0 a (consumed doc))"

lemma setdefault_zero [simp]: "dict_get_or 0 a (dict_setdefault k 0 d) = dict_get_or 0 a d"
  by (simp add: dict_get_or_def split: option.splits)

lemma consumed_after:
  "consumed (snd (record_usage cfg now agent tokens doc))
     = dict_set agent (dict_get_or 0 agent (consumed doc) + max 0 tokens) (consumed doc)"
  "consumed (snd (reclaim cfg now agent doc)) = consumed doc"
  "consumed (snd (extend_or_wrap_up agent v doc)) = consumed doc"
  by (simp_all add: record_usage_def reclaim_def extend_or_wrap_up_def Let_def split_def recompute_keeps)

lemma register_consumed:
  "consumed (snd (register_agent cfg history agent role doc))
     \<in> {consumed doc, dict_setdefault agent 0 (consumed doc)}"
  by (simp add: register_agent_def Let_def split: sum.splits option.splits)

lemma register_spent: "spent_inv doc \<Longrightarrow> spent_inv (snd (register_agent cfg history agent role doc))"
  using register_consumed [of cfg history agent role doc] by (auto simp: spent_inv_def)

lemma budget_step_inv:
  assumes "budget_step cfg history input doc = Inr doc'" and "sane_history history"
    and "tokens_inv amount doc \<and> spent_inv doc"
  shows "tokens_inv amount doc' \<and> spent_inv doc'"
proof (cases "snd input")
  case (Register agent role)
  then have "doc' = snd (register_agent cfg history agent role doc)"
    using assms(1) by (auto simp: budget_step_def split: prod.splits sum.splits budget_error.splits)
  then show ?thesis using assms(2,3) register_keeps register_spent by blast
next
  case (Record agent tokens)
  then have "doc' = snd (record_usage cfg (fst input) agent tokens doc)"
    using assms(1) by (simp add: budget_step_def)
  then show ?thesis using assms(3) record_usage_keeps by (simp add: spent_inv_def consumed_after)
next
  case (Reclaim agent)
  then have "doc' = snd (reclaim cfg (fst input) agent doc)"
    using assms(1) by (simp add: budget_step_def)
  then show ?thesis using assms(3) reclaim_keeps by (simp add: spent_inv_def consumed_after)
next
  case (Near_limit agent v)
  then have "doc' = snd (extend_or_wrap_up agent v doc)"
    using assms(1) by (simp add: budget_step_def)
  then show ?thesis using assms(3) extend_keeps by (simp add: spent_inv_def consumed_after)
qed

text \<open>The operations under a sane cost history are a fallible machine over this invariant.\<close>

definition sane_step ::
  "budget_config \<Rightarrow> json \<Rightarrow> rat \<times> budget_op \<Rightarrow> budget_doc \<Rightarrow> py_error + budget_doc" where
  "sane_step cfg history input doc =
     (if sane_history history then budget_step cfg history input doc else Inl ValueError)"

interpretation budget_runs: fallible_machine "sane_step cfg history"
    "\<lambda>doc. tokens_inv amount doc \<and> spent_inv doc" for cfg history amount
  by unfold_locales (auto simp: sane_step_def split: if_splits dest: budget_step_inv)

lemma sane_run:
  "sane_history history \<Longrightarrow>
     run_steps (sane_step cfg history) ops doc = run_steps (budget_step cfg history) ops doc"
  by (induction ops arbitrary: doc) (auto simp: sane_step_def split: sum.splits)

lemma opened_inv:
  assumes "open_task policy cfg history now task_id limit roles = Inr doc"
    and "nonneg (allocated doc)" and "wf_dict roles"
  shows "tokens_inv (dict_sum (allocated doc)) doc \<and> spent_inv doc"
proof -
  obtain c f raw where raw: "raw_allocations (headroom cfg) history roles = Inr raw"
    and doc: "allocated doc = role_keys (shape c f limit raw)"
      "b_task doc = Some task_id" "pool_returned doc = 0" "consumed doc = []"
    using assms(1) by (auto simp: open_task_def role_keys_def split: if_splits sum.splits)
  have "map fst raw = map fst roles"
    using raw by (induction "headroom cfg" history roles arbitrary: raw rule: raw_allocations.induct)
      (auto split: sum.splits)
  moreover have "map fst (shape c f limit raw) = map fst raw"
    by (simp add: shape_def fit_others_def floor_k3_def Let_def)
  moreover have "map fst (role_keys d) = map ((@) ''role:'') (map fst d)" for d
    by (induction d) (auto simp: role_keys_def)
  ultimately have keys: "map fst (allocated doc) = map ((@) ''role:'') (map fst roles)"
    using doc(1) by (simp only:)
  have "wf_dict (allocated doc)"
    unfolding keys distinct_map [of "(@) ''role:''"] using assms(3) by (simp add: inj_on_def)
  then show ?thesis
    using doc(2-) assms(2) by (simp add: tokens_inv_def spent_inv_def dict_get_or_def)
qed

text \<open>Claim C15. Whatever sequence of registrations, usage reports, reclaims and extensions
  follows, the tokens granted to roles and agents plus the returned pool never exceed what
  the task was opened with; the pool and every grant stay non-negative, so no agent holds
  more than the whole.\<close>

theorem tokens_are_conserved:
  assumes "open_task policy cfg history now task_id limit roles = Inr doc"
    and "nonneg (allocated doc)" and "wf_dict roles" and "sane_history history"
    and "run_steps (budget_step cfg history) ops doc = Inr doc'"
  shows "dict_sum (allocated doc') + pool_returned doc' \<le> dict_sum (allocated doc)
    \<and> 0 \<le> pool_returned doc'
    \<and> 0 \<le> dict_get_or 0 agent (allocated doc')
    \<and> dict_get_or 0 agent (allocated doc') \<le> dict_sum (allocated doc)"
proof -
  have "run_steps (sane_step cfg history) ops doc = Inr doc'"
    using assms(4,5) by (simp add: sane_run)
  from budget_runs.run_inv [OF opened_inv [OF assms(1-3)] this]
  have "tokens_inv (dict_sum (allocated doc)) doc'" by simp
  then show ?thesis
    using nonneg_get [of "allocated doc'" agent] get_le_sum [of "allocated doc'" agent]
    by (simp add: tokens_inv_def)
qed

definition demo_ops :: "(rat \<times> budget_op) list" where
  "demo_ops = [(1, Register ''a1'' ''worker''), (2, Record ''a1'' 70000), (3, Reclaim ''a1'')]"

definition demo_budget_run :: "(int \<times> int) option" where
  "demo_budget_run = (case open_task [] demo_budget_config JNull 0 ''t1'' 1000000 demo_roles of
     Inl e \<Rightarrow> None
   | Inr doc \<Rightarrow> (case run_steps (budget_step demo_budget_config JNull) demo_ops doc of
       Inl e \<Rightarrow> None
     | Inr doc' \<Rightarrow> Some (dict_sum (allocated doc'), pool_returned doc')))"

lemma demo_budget_result: "demo_budget_run = Some (922000, 8000)"
  by code_simp

theorem tokens_are_conserved_witness:
  "\<exists>doc doc'. open_task [] demo_budget_config JNull 0 ''t1'' 1000000 demo_roles = Inr doc
     \<and> run_steps (budget_step demo_budget_config JNull) demo_ops doc = Inr doc'
     \<and> dict_sum (allocated doc') + pool_returned doc' \<le> dict_sum (allocated doc)"
proof -
  obtain doc doc' where doc: "open_task [] demo_budget_config JNull 0 ''t1'' 1000000 demo_roles = Inr doc"
    and run: "run_steps (budget_step demo_budget_config JNull) demo_ops doc = Inr doc'"
    using demo_budget_result by (auto simp: demo_budget_run_def split: sum.splits)
  have "allocated doc = demo_allocated" using doc by (simp add: demo_allocated_def)
  then have "nonneg (allocated doc)" by (simp add: demo_allocation)
  moreover have "wf_dict demo_roles" by (simp add: demo_roles_def)
  ultimately show ?thesis
    using tokens_are_conserved [OF doc _ _ sane_history_null run] doc run by blast
qed

section \<open>The ladder\<close>

text \<open>The budget state after a usage report is at least the rung the usage ratio
  calls for; it is lower than before only when the cooldown has elapsed and usage sits five
  points under the rung being left; and BREAK is reported to an agent as an error exactly
  when that agent has overrun its own grant.\<close>

theorem ladder_is_sticky:
  assumes "record_usage cfg now agent tokens doc = (result, doc')"
  shows "target_state cfg (usage_ratio doc') \<le> b_state doc'
    \<and> (b_state doc' < b_state doc \<longrightarrow>
         cooldown_s cfg \<le> now - state_changed_at doc
         \<and> usage_ratio doc' < threshold cfg (b_state doc) - 5 / 100)
    \<and> (result = Inr (b_state doc') \<longleftrightarrow>
         \<not> (b_state doc' = BREAK \<and> dict_get_or 0 agent (allocated doc') < dict_get_or 0 agent (consumed doc')))"
proof -
  define spent where "spent = dict_get_or 0 agent (consumed doc) + max 0 tokens"
  define doc1 where "doc1 = doc\<lparr>consumed := dict_set agent spent (consumed doc)\<rparr>"
  obtain state doc2 where r: "recompute_state cfg now doc1 = (state, doc2)" by (cases "recompute_state cfg now doc1")
  have kept: "allocated doc2 = allocated doc1" "consumed doc2 = consumed doc1" "b_ceiling doc2 = b_ceiling doc1"
    using recompute_keeps [of cfg now doc1] r by simp_all
  have ratio: "usage_ratio doc2 = usage_ratio doc1" using kept by (simp add: usage_ratio_def)
  have st: "state = b_state doc2"
    using r by (auto simp: recompute_state_def Let_def move_state_def split: if_splits)
  have rung: "target_state cfg (usage_ratio doc1) \<le> b_state doc2"
    using r by (auto simp: recompute_state_def Let_def move_state_def split: if_splits)
  have down: "b_state doc2 < b_state doc1 \<longrightarrow> cooldown_s cfg \<le> now - state_changed_at doc1
      \<and> usage_ratio doc1 < threshold cfg (b_state doc1) - 5 / 100"
    using r by (auto simp: recompute_state_def Let_def move_state_def split: if_splits)
  have same: "b_state doc1 = b_state doc" "state_changed_at doc1 = state_changed_at doc"
    by (simp_all add: doc1_def)
  have out: "doc' = doc2" "result = (if state = BREAK \<and> dict_get_or 0 agent (allocated doc2) < spent
      then Inl (Budget_exceeded agent (dict_get_or 0 agent (allocated doc2) - spent)) else Inr state)"
    using assms r by (auto simp: record_usage_def Let_def doc1_def spent_def split: if_splits)
  have "dict_get_or 0 agent (consumed doc2) = spent" using kept by (simp add: doc1_def)
  then show ?thesis using rung down st out ratio same by auto
qed

theorem ladder_is_sticky_witness:
  "\<exists>result doc'. record_usage demo_budget_config 10 ''a'' 700 (budget_load 0 None) = (result, doc')
     \<and> target_state demo_budget_config (usage_ratio doc') \<le> b_state doc'"
  using ladder_is_sticky [of demo_budget_config 10 "''a''" 700 "budget_load 0 None"]
  by (cases "record_usage demo_budget_config 10 ''a'' 700 (budget_load 0 None)") blast

end
