(* ===== verification/Retry.thy ===== *)
theory Retry
  imports SM_Properties
begin

text \<open>
  Table-driven retry, \<open>src/harness/retry.py\<close>: the failure classes, the session circuit
  breaker, the consecutive-class rule, the two budgets, the claim on the event stream and
  the sinks. The world is what the script reads and writes: the ledger's packets, the parsed
  lines of the event stream, the breaker file, the sidecar of last failure classes, the duty
  tickets and the dead-letter files. Regular-expression search is the argument \<open>search\<close>.
\<close>

section \<open>Data\<close>

text \<open>
  One row of \<open>retry_classes.yaml\<close>, with the keys of both schemas the script accepts; an
  absent key is \<open>None\<close>.
\<close>

record retry_class =
  rc_name :: string
  rc_pattern :: "string option"
  rc_action :: "string option"
  rc_retryable :: "bool option"
  rc_max_attempts :: "int option"
  rc_max_retries :: "int option"
  rc_base :: "rat option"
  rc_backoff_base :: "rat option"
  rc_cap :: "rat option"
  rc_backoff_cap :: "rat option"

record breaker_file =
  br_fails :: "rat list"
  br_open_until :: rat

record retry_world =
  rw_ledger :: "packet dict"
  rw_events :: "json list"
  rw_breaker :: breaker_file
  rw_last_class :: "string dict"
  rw_tickets :: "(string \<times> string \<times> string option \<times> string) list"
  rw_dead :: "(string \<times> string \<times> string \<times> string) list"

text \<open>
  What the script is given: the clock, the loaded table (\<open>load_classes\<close>), the legacy class
  recorded in the ledger, and the draw of \<open>random.random\<close>.
\<close>

record retry_env =
  re_now :: rat
  re_classes :: "retry_class list"
  re_run_budget :: int
  re_breaker_fails :: int
  re_legacy_class :: "string \<Rightarrow> string option"
  re_random :: rat

record decision =
  d_class :: "string option"
  d_action :: string
  d_attempt :: "int option"
  d_delay :: "rat option"

section \<open>The class table\<close>

definition default_run_budget :: int where "default_run_budget = 10"
definition default_breaker_fails :: int where "default_breaker_fails = 5"
definition default_max_attempts :: int where "default_max_attempts = 3"
definition default_base :: rat where "default_base = 1 / 2"
definition default_cap :: rat where "default_cap = 30"
definition breaker_window :: rat where "breaker_window = 60"
definition breaker_cooldown :: rat where "breaker_cooldown = 45"

text \<open>
  \<open>load_classes\<close> on the parsed document (\<open>None\<close>: no file, or unreadable; then everything is
  off-table). A conversion that raises part way leaves the budgets read so far.
\<close>

definition load_classes ::
  "(json \<Rightarrow> retry_class list option) \<Rightarrow> json option \<Rightarrow> retry_class list \<times> int \<times> int" where
  "load_classes rows_of file =
     (case file of
        None \<Rightarrow> ([], default_run_budget, default_breaker_fails)
      | Some v \<Rightarrow>
          (case py_or v (JObj []) of
             JObj doc \<Rightarrow>
               (case py_int (jget_or (JInt default_run_budget) doc ''run_level_retry_budget'') of
                  Inl e \<Rightarrow> ([], default_run_budget, default_breaker_fails)
                | Inr budget \<Rightarrow>
                    (case py_int (jget_or (JInt default_breaker_fails) doc ''session_circuit_breaker'') of
                       Inl e \<Rightarrow> ([], budget, default_breaker_fails)
                     | Inr fails \<Rightarrow>
                         (case rows_of (jget_or (JList []) doc ''classes'') of
                            None \<Rightarrow> ([], budget, fails)
                          | Some rows \<Rightarrow> (rows, budget, fails))))
           | _ \<Rightarrow> ([], default_run_budget, default_breaker_fails)))"

text \<open>\<open>next((c for c in classes if re.search(\<dots>)), None)\<close>; a bad pattern raises.\<close>

fun first_class ::
  "(string \<Rightarrow> string \<Rightarrow> py_error + bool) \<Rightarrow> string \<Rightarrow> retry_class list \<Rightarrow> py_error + retry_class option" where
  "first_class search err [] = Inr None"
| "first_class search err (c # cs) =
     (case search (case rc_pattern c of Some p \<Rightarrow> p | None \<Rightarrow> ''$^'') err of
        Inl e \<Rightarrow> Inl e
      | Inr hit \<Rightarrow> if hit then Inr (Some c) else first_class search err cs)"

text \<open>The first key present wins.\<close>

definition first_key :: "'a \<Rightarrow> 'a option \<Rightarrow> 'a option \<Rightarrow> 'a" where
  "first_key dflt a b = (case a of Some x \<Rightarrow> x | None \<Rightarrow> (case b of Some x \<Rightarrow> x | None \<Rightarrow> dflt))"

definition retryable :: "retry_class \<Rightarrow> bool" where
  "retryable c = (case rc_retryable c of Some b \<Rightarrow> b | None \<Rightarrow> rc_action c = Some ''retry'')"

definition max_attempts_of :: "retry_class \<Rightarrow> int" where
  "max_attempts_of c = first_key default_max_attempts (rc_max_attempts c) (rc_max_retries c)"

section \<open>Delay and breaker\<close>

definition pow2 :: "int \<Rightarrow> rat" where
  "pow2 n = (if 0 \<le> n then 2 ^ nat n else 1 / 2 ^ nat (- n))"

text \<open>\<open>random.uniform(0, b)\<close> is \<open>b\<close> times the draw.\<close>

definition full_jitter :: "rat \<Rightarrow> rat \<Rightarrow> rat \<Rightarrow> int \<Rightarrow> rat" where
  "full_jitter draw base cap attempt = draw * min cap (base * pow2 attempt)"

text \<open>\<open>round(x, 2)\<close>, to even on a tie.\<close>

definition round_even :: "rat \<Rightarrow> int" where
  "round_even x = (let f = \<lfloor>x\<rfloor>; d = x - of_int f in
     if d < 1 / 2 then f else if 1 / 2 < d then f + 1 else if even f then f else f + 1)"

definition round2 :: "rat \<Rightarrow> rat" where
  "round2 x = of_int (round_even (x * 100)) / 100"

definition breaker :: "rat \<Rightarrow> bool \<Rightarrow> int \<Rightarrow> breaker_file \<Rightarrow> bool \<times> breaker_file" where
  "breaker now record_failure fails_max st =
     (let st1 = (if record_failure
                 then let fails = filter (\<lambda>t. now - t < breaker_window) (br_fails st) @ [now] in
                      st\<lparr>br_fails := fails,
                         br_open_until := (if fails_max \<le> int (length fails) then now + breaker_cooldown
                                           else br_open_until st)\<rparr>
                 else st)
      in (now < br_open_until st1, st1))"

section \<open>Sinks and claims\<close>

definition append_event :: "rat \<Rightarrow> string \<Rightarrow> string \<Rightarrow> json \<Rightarrow> retry_world \<Rightarrow> retry_world" where
  "append_event now pid event detail w =
     w\<lparr>rw_events := rw_events w @ [JObj [(''ts'', JFloat now), (''packet_id'', JStr pid),
         (''event'', JStr event), (''detail'', detail)]]\<rparr>"

definition write_ticket ::
  "string \<Rightarrow> string \<Rightarrow> string option \<Rightarrow> string \<Rightarrow> retry_world \<Rightarrow> retry_world" where
  "write_ticket pid why cls err w = w\<lparr>rw_tickets := rw_tickets w @ [(pid, why, cls, take 8000 err)]\<rparr>"

definition dead_letter ::
  "rat \<Rightarrow> string \<Rightarrow> string \<Rightarrow> string \<Rightarrow> string \<Rightarrow> retry_world \<Rightarrow> retry_world" where
  "dead_letter now pid reason detail cls w =
     append_event now pid ''budget_exhausted'' (JObj [(''reason'', JStr reason), (''class'', JStr cls)])
       (w\<lparr>rw_dead := rw_dead w @ [(pid, reason, cls, detail)]\<rparr>)"

text \<open>
  \<open>ev.get("attempt", (ev.get("detail") or {}).get("attempt"))\<close>: the default is evaluated
  first, so a truthy detail that is not a dict raises.
\<close>

definition event_attempt :: "jobj \<Rightarrow> py_error + json" where
  "event_attempt ev =
     (case py_or (jget ev ''detail'') (JObj []) of
        JObj d \<Rightarrow> Inr (jget_or (jget d ''attempt'') ev ''attempt'')
      | _ \<Rightarrow> Inl AttributeError)"

fun has_retry_dispatch :: "string \<Rightarrow> int \<Rightarrow> json list \<Rightarrow> py_error + bool" where
  "has_retry_dispatch pid attempt [] = Inr False"
| "has_retry_dispatch pid attempt (v # vs) =
     (case v of
        JObj ev \<Rightarrow>
          if jget ev ''packet_id'' \<noteq> JStr pid \<or> jget ev ''event'' \<noteq> JStr ''retry_dispatch''
          then has_retry_dispatch pid attempt vs
          else (case event_attempt ev of
              Inl e \<Rightarrow> Inl e
            | Inr a \<Rightarrow> if py_int a = Inr attempt then Inr True else has_retry_dispatch pid attempt vs)
      | _ \<Rightarrow> Inl AttributeError)"

definition load_last_fail_class :: "retry_env \<Rightarrow> string \<Rightarrow> retry_world \<Rightarrow> string option" where
  "load_last_fail_class env pid w =
     (case map_of (rw_last_class w) pid of
        Some c \<Rightarrow> if c = [] then re_legacy_class env pid else Some c
      | None \<Rightarrow> re_legacy_class env pid)"

definition record_last_fail_class :: "string \<Rightarrow> string \<Rightarrow> retry_world \<Rightarrow> retry_world" where
  "record_last_fail_class pid cls w = w\<lparr>rw_last_class := dict_set pid cls (rw_last_class w)\<rparr>"

definition failed_packet :: packet where
  "failed_packet = new_packet\<lparr>p_state := ''FAILED''\<rparr>"

definition admitted_packet :: "rat \<Rightarrow> packet" where
  "admitted_packet now = failed_packet\<lparr>p_history :=
     [\<lparr>h_ts = now, h_to = ''FAILED'', h_via = JStr ''retry_admission'', h_t = None, h_extra = []\<rparr>]\<rparr>"

definition admit_failed_packet :: "rat \<Rightarrow> string \<Rightarrow> retry_world \<Rightarrow> retry_world" where
  "admit_failed_packet now pid w =
     w\<lparr>rw_ledger := dict_setdefault pid (admitted_packet now) (rw_ledger w)\<rparr>"

section \<open>The decision\<close>

definition retry_detail :: "string \<Rightarrow> string \<Rightarrow> rat \<Rightarrow> int \<Rightarrow> json" where
  "retry_detail pid cls delay attempt = JObj
     [(''packet_id'', JStr pid), (''class'', JStr cls), (''action'', JStr ''retry''),
      (''delay_s'', JFloat delay), (''attempt'', JInt attempt)]"

definition to_duty ::
  "retry_env \<Rightarrow> string \<Rightarrow> string \<Rightarrow> string option \<Rightarrow> string \<Rightarrow> string \<Rightarrow> jobj \<Rightarrow> string option \<Rightarrow> nat
     \<Rightarrow> retry_world \<Rightarrow> decision \<times> nat \<times> retry_world" where
  "to_duty env pid err cls action why extra ticket_cls code w =
     (\<lparr>d_class = cls, d_action = action, d_attempt = None, d_delay = None\<rparr>, code,
      write_ticket pid why ticket_cls err
        (append_event (re_now env) pid ''duty_review'' (JObj ((''why'', JStr why) # extra)) w))"

definition to_dead ::
  "retry_env \<Rightarrow> string \<Rightarrow> string \<Rightarrow> string \<Rightarrow> string \<Rightarrow> string \<Rightarrow> retry_world
     \<Rightarrow> decision \<times> nat \<times> retry_world" where
  "to_dead env pid err cls action reason w =
     (\<lparr>d_class = Some cls, d_action = action, d_attempt = None, d_delay = None\<rparr>, 5,
      dead_letter (re_now env) pid reason (take 500 err) cls w)"

text \<open>The budgeted tail: admission of an unknown packet, the claim, and the dispatch event.\<close>

definition claim_retry ::
  "retry_env \<Rightarrow> string \<Rightarrow> packet \<Rightarrow> retry_class \<Rightarrow> retry_world \<Rightarrow> py_error + decision \<times> nat \<times> retry_world" where
  "claim_retry env pid pkt c w0 =
     (let new_attempt = p_attempts pkt + 1;
          w = (if p_state pkt = ''FAILED'' \<and> p_history pkt = []
               then admit_failed_packet (re_now env) pid w0 else w0) in
      case has_retry_dispatch pid new_attempt (rw_events w) of
        Inl e \<Rightarrow> Inl e
      | Inr True \<Rightarrow>
          Inr (\<lparr>d_class = Some (rc_name c), d_action = ''retry_already_scheduled'',
                d_attempt = Some new_attempt, d_delay = None\<rparr>, 0, w)
      | Inr False \<Rightarrow>
          (let delay = round2 (full_jitter (re_random env)
                 (first_key default_base (rc_base c) (rc_backoff_base c))
                 (first_key default_cap (rc_cap c) (rc_backoff_cap c)) (p_attempts pkt)) in
           Inr (\<lparr>d_class = Some (rc_name c), d_action = ''retry'', d_attempt = Some new_attempt,
                 d_delay = Some delay\<rparr>, 0,
                append_event (re_now env) pid ''retry_dispatch''
                  (retry_detail pid (rc_name c) delay new_attempt) w)))"

definition total_retries :: "packet dict \<Rightarrow> int" where
  "total_retries ledger = sum_list (map (\<lambda>p. p_attempts (snd p)) ledger)"

text \<open>A failure of a class, after the breaker let it through.\<close>

definition route_class ::
  "retry_env \<Rightarrow> string \<Rightarrow> string \<Rightarrow> packet \<Rightarrow> retry_class \<Rightarrow> retry_world
     \<Rightarrow> py_error + decision \<times> nat \<times> retry_world" where
  "route_class env pid err pkt c w0 =
     (let name = rc_name c; w = record_last_fail_class pid name w0; named = [(''class'', JStr name)] in
      if load_last_fail_class env pid w0 = Some name
      then Inr (to_duty env pid err (Some name) ''duty_review_repeat'' ''2_consecutive_same_class''
             named (Some name) 4 w)
      else if \<not> retryable c
      then (if rc_action c = Some ''duty_review''
            then Inr (to_duty env pid err (Some name) ''duty_review_class'' ''class_action_duty_review''
                   named (Some name) 4 w)
            else Inr (to_dead env pid err name ''dead_letter_permanent'' ''permanent_class'' w))
      else if max_attempts_of c \<le> p_attempts pkt \<or> re_run_budget env \<le> total_retries (rw_ledger w)
      then Inr (to_dead env pid err name ''dead_letter_budget'' ''budget_exhausted'' w)
      else claim_retry env pid pkt c w)"

definition retry_main ::
  "(string \<Rightarrow> string \<Rightarrow> py_error + bool) \<Rightarrow> retry_env \<Rightarrow> string \<Rightarrow> string \<Rightarrow> retry_world
     \<Rightarrow> py_error + decision \<times> nat \<times> retry_world" where
  "retry_main search env pid err w =
     (if \<not> valid_pid pid then Inl (SystemExit 1)
      else
        let pkt = dict_get_or failed_packet pid (rw_ledger w) in
        case first_class search err (re_classes env) of
          Inl e \<Rightarrow> Inl e
        | Inr matched \<Rightarrow>
            if p_state pkt \<noteq> [] \<and> p_state pkt \<notin> {''FAILED'', ''TIMED_OUT''}
            then Inr (\<lparr>d_class = map_option rc_name matched, d_action = ''retry_already_scheduled'',
                       d_attempt = Some (p_attempts pkt + 1), d_delay = None\<rparr>, 0, w)
            else
              (case breaker (re_now env) True (re_breaker_fails env) (rw_breaker w) of
                 (opened, br) \<Rightarrow>
                   (let w1 = w\<lparr>rw_breaker := br\<rparr> in
                    if opened
                    then Inr (to_duty env pid err (map_option rc_name matched) ''circuit_open''
                               ''circuit_breaker_open'' [] None 6 w1)
                    else (case matched of
                        None \<Rightarrow> Inr (to_duty env pid err None ''duty_review_offtable''
                                  ''regex_no_match'' [(''err_head'', JStr (take 300 err))] None 4 w1)
                      | Some c \<Rightarrow> route_class env pid err pkt c w1))))"

end
