(* ===== verification/Retry_Properties.thy ===== *)
theory Retry_Properties
  imports Retry
begin

text \<open>
  Properties of the retry script: an attempt is dispatched at most once however often the
  script runs, a retry is within every budget, no failure is silent, the breaker halts
  re-dispatch, and whatever the script emits is on the state machine's table.
\<close>

section \<open>Outcomes\<close>

text \<open>What one call can do, with the event it appends.\<close>

definition emitted :: "rat \<Rightarrow> string \<Rightarrow> string \<Rightarrow> jobj \<Rightarrow> json" where
  "emitted now pid name detail = JObj [(''ts'', JFloat now), (''packet_id'', JStr pid),
     (''event'', JStr name), (''detail'', JObj detail)]"

inductive retry_outcome ::
  "retry_env \<Rightarrow> string \<Rightarrow> packet \<Rightarrow> retry_world \<Rightarrow> decision \<Rightarrow> nat \<Rightarrow> retry_world \<Rightarrow> bool" where
  already: "retry_outcome env pid pkt w d 0 w'"
    if "d_action d = ''retry_already_scheduled''" "rw_events w' = rw_events w"
| duty: "retry_outcome env pid pkt w d code w'"
    if "rw_events w' = rw_events w @ [emitted (re_now env) pid ''duty_review'' det]"
      "\<exists>t. rw_tickets w' = rw_tickets w @ [(pid, t)]" "code \<in> {4, 6}" "rw_dead w' = rw_dead w"
      "d_action d \<notin> {''retry'', ''retry_already_scheduled''}" "rw_ledger w' = rw_ledger w"
      "code = 6 \<longleftrightarrow> re_now env < br_open_until (rw_breaker w')" "jget det ''attempt'' = JNull"
| dead: "retry_outcome env pid pkt w d 5 w'"
    if "rw_events w' = rw_events w @ [emitted (re_now env) pid ''budget_exhausted'' det]"
      "\<exists>t. rw_dead w' = rw_dead w @ [(pid, t)]" "d_action d \<notin> {''retry'', ''retry_already_scheduled''}"
      "\<not> re_now env < br_open_until (rw_breaker w')" "rw_ledger w' = rw_ledger w"
      "jget det ''attempt'' = JNull"
| retry: "retry_outcome env pid pkt w d 0 w'"
    if "rw_events w' = rw_events w @ [emitted (re_now env) pid ''retry_dispatch''
          [(''packet_id'', JStr pid), (''class'', JStr (rc_name c)), (''action'', JStr ''retry''),
           (''delay_s'', JFloat delay), (''attempt'', JInt (p_attempts pkt + 1))]]"
      "has_retry_dispatch pid (p_attempts pkt + 1) (rw_events w) = Inr False"
      "d_action d = ''retry''" "c \<in> set (re_classes env)" "retryable c"
      "p_attempts pkt < max_attempts_of c" "total_retries (rw_ledger w) < re_run_budget env"
      "load_last_fail_class env pid w \<noteq> Some (rc_name c)"
      "p_state pkt \<in> {''FAILED'', ''TIMED_OUT'', []}"
      "\<not> re_now env < br_open_until (rw_breaker w')"
      "rw_ledger w' = (if p_state pkt = ''FAILED'' \<and> p_history pkt = []
         then dict_setdefault pid (admitted_packet (re_now env)) (rw_ledger w) else rw_ledger w)"

lemma first_class_mem: "first_class search err cs = Inr (Some c) \<Longrightarrow> c \<in> set cs"
  by (induction cs) (auto split: sum.splits if_splits)

lemma claim_retry_cases:
  assumes "claim_retry env pid pkt c w = Inr (d, code, w')"
  obtains (claimed) "d_action d = ''retry_already_scheduled''" "code = 0" "rw_events w' = rw_events w"
  | (dispatched) delay where "d_action d = ''retry''" "code = 0" "rw_breaker w' = rw_breaker w"
    "has_retry_dispatch pid (p_attempts pkt + 1) (rw_events w) = Inr False"
    "rw_events w' = rw_events w @ [emitted (re_now env) pid ''retry_dispatch''
          [(''packet_id'', JStr pid), (''class'', JStr (rc_name c)), (''action'', JStr ''retry''),
           (''delay_s'', JFloat delay), (''attempt'', JInt (p_attempts pkt + 1))]]"
    "rw_ledger w' = (if p_state pkt = ''FAILED'' \<and> p_history pkt = []
         then dict_setdefault pid (admitted_packet (re_now env)) (rw_ledger w) else rw_ledger w)"
proof -
  define w1 where "w1 = (if p_state pkt = ''FAILED'' \<and> p_history pkt = []
      then admit_failed_packet (re_now env) pid w else w)"
  have same: "rw_events w1 = rw_events w" "rw_breaker w1 = rw_breaker w"
    "rw_ledger w1 = (if p_state pkt = ''FAILED'' \<and> p_history pkt = []
         then dict_setdefault pid (admitted_packet (re_now env)) (rw_ledger w) else rw_ledger w)"
    by (simp_all add: w1_def admit_failed_packet_def)
  note claim = assms [unfolded claim_retry_def Let_def, folded w1_def, unfolded same(1)]
  obtain b where h: "has_retry_dispatch pid (p_attempts pkt + 1) (rw_events w) = Inr b"
    using claim by (auto split: sum.splits)
  show ?thesis
  proof (cases b)
    case True
    then show ?thesis using claim h same by (intro claimed) auto
  next
    case False
    then show ?thesis using claim h same
      by (intro dispatched) (auto simp: append_event_def retry_detail_def emitted_def)
  qed
qed

lemma load_last_breaker [simp]:
  "load_last_fail_class env pid (w\<lparr>rw_breaker := br\<rparr>) = load_last_fail_class env pid w"
  by (simp add: load_last_fail_class_def)

lemma route_class_outcome:
  assumes "route_class env pid err pkt c w = Inr (d, code, w')"
    and "c \<in> set (re_classes env)" and "p_state pkt \<in> {''FAILED'', ''TIMED_OUT'', []}"
    and "\<not> re_now env < br_open_until (rw_breaker w)"
  shows "retry_outcome env pid pkt w d code w'"
proof -
  let ?w = "record_last_fail_class pid (rc_name c) w"
  note route = assms(1) [unfolded route_class_def Let_def]
  have same: "rw_events ?w = rw_events w" "rw_ledger ?w = rw_ledger w" "rw_breaker ?w = rw_breaker w"
      "rw_tickets ?w = rw_tickets w" "rw_dead ?w = rw_dead w"
    by (simp_all add: record_last_fail_class_def)
  note sinks = to_duty_def to_dead_def write_ticket_def dead_letter_def append_event_def emitted_def
  consider
      "load_last_fail_class env pid w = Some (rc_name c)"
    | "load_last_fail_class env pid w \<noteq> Some (rc_name c)" "\<not> retryable c" "rc_action c = Some ''duty_review''"
    | "load_last_fail_class env pid w \<noteq> Some (rc_name c)" "\<not> retryable c" "rc_action c \<noteq> Some ''duty_review''"
    | "load_last_fail_class env pid w \<noteq> Some (rc_name c)" "retryable c"
      "max_attempts_of c \<le> p_attempts pkt \<or> re_run_budget env \<le> total_retries (rw_ledger w)"
    | "load_last_fail_class env pid w \<noteq> Some (rc_name c)" "retryable c"
      "p_attempts pkt < max_attempts_of c" "total_retries (rw_ledger w) < re_run_budget env"
    by linarith
  then show ?thesis
  proof cases
    case 1
    then show ?thesis using route same assms(4)
      by (intro retry_outcome.duty [where det = "[(''why'', JStr ''2_consecutive_same_class''), (''class'', JStr (rc_name c))]"])
         (auto simp: sinks py_simps)
  next
    case 2
    then show ?thesis using route same assms(4)
      by (intro retry_outcome.duty [where det = "[(''why'', JStr ''class_action_duty_review''), (''class'', JStr (rc_name c))]"])
         (auto simp: sinks py_simps)
  next
    case 3
    then have r: "to_dead env pid err (rc_name c) ''dead_letter_permanent'' ''permanent_class'' ?w = (d, code, w')"
      using route by simp
    then have "code = 5" by (simp add: to_dead_def)
    then show ?thesis using r same assms(4)
      by (simp, intro retry_outcome.dead [where det = "[(''reason'', JStr ''permanent_class''), (''class'', JStr (rc_name c))]"])
         (auto simp: sinks py_simps)
  next
    case 4
    then have r: "to_dead env pid err (rc_name c) ''dead_letter_budget'' ''budget_exhausted'' ?w = (d, code, w')"
      using route same by simp
    then have "code = 5" by (simp add: to_dead_def)
    then show ?thesis using r same assms(4)
      by (simp, intro retry_outcome.dead [where det = "[(''reason'', JStr ''budget_exhausted''), (''class'', JStr (rc_name c))]"])
         (auto simp: sinks py_simps)
  next
    case 5
    then have "claim_retry env pid pkt c ?w = Inr (d, code, w')" using route same by simp
    then show ?thesis
    proof (cases rule: claim_retry_cases)
      case claimed
      then show ?thesis using same by (auto intro: retry_outcome.already)
    next
      case (dispatched delay)
      show ?thesis unfolding \<open>code = 0\<close>
        by (rule retry_outcome.retry [of w' w env pid c delay])
           (use dispatched same 5 assms in auto)
    qed
  qed
qed

lemma retry_main_outcome:
  assumes "retry_main search env pid err w = Inr (d, code, w')"
  shows "valid_pid pid \<and> retry_outcome env pid (dict_get_or failed_packet pid (rw_ledger w)) w d code w'"
proof -
  let ?pkt = "dict_get_or failed_packet pid (rw_ledger w)"
  obtain matched where v: "valid_pid pid" and m: "first_class search err (re_classes env) = Inr matched"
    using assms by (auto simp: retry_main_def Let_def split: if_splits sum.splits)
  obtain opened br where b: "breaker (re_now env) True (re_breaker_fails env) (rw_breaker w) = (opened, br)"
    by (cases "breaker (re_now env) True (re_breaker_fails env) (rw_breaker w)")
  then have op: "opened \<longleftrightarrow> re_now env < br_open_until br"
    by (auto simp: breaker_def Let_def)
  note run = assms [unfolded retry_main_def Let_def m sum.case b prod.case]
  note sinks = to_duty_def write_ticket_def append_event_def emitted_def
  have "retry_outcome env pid ?pkt w d code w'"
  proof (cases "p_state ?pkt \<noteq> [] \<and> p_state ?pkt \<notin> {''FAILED'', ''TIMED_OUT''}")
    case True
    then have "d_action d = ''retry_already_scheduled''" "code = 0" "w' = w" using run v by auto
    then show ?thesis by (simp add: retry_outcome.already)
  next
    case st: False
    show ?thesis
    proof (cases opened)
      case True
      then show ?thesis using run v st op
        by (intro retry_outcome.duty [where det = "[(''why'', JStr ''circuit_breaker_open'')]"])
           (auto simp: sinks py_simps)
    next
      case closed: False
      show ?thesis
      proof (cases matched)
        case None
        then show ?thesis using run v st op closed
          by (intro retry_outcome.duty [where det = "[(''why'', JStr ''regex_no_match''), (''err_head'', JStr (take 300 err))]"])
             (auto simp: sinks py_simps)
      next
        case (Some c)
        then have "route_class env pid err ?pkt c (w\<lparr>rw_breaker := br\<rparr>) = Inr (d, code, w')"
          using run v st closed by (auto split: if_splits)
        from route_class_outcome [OF this] have "retry_outcome env pid ?pkt (w\<lparr>rw_breaker := br\<rparr>) d code w'"
          using first_class_mem m Some st op closed by auto
        then show ?thesis
          by cases (auto intro: retry_outcome.intros)
      qed
    qed
  qed
  then show ?thesis using v by simp
qed

section \<open>An attempt is dispatched once\<close>

definition claim_of :: "json \<Rightarrow> (string \<times> int) option" where
  "claim_of v = (case v of
       JObj ev \<Rightarrow>
         (case (jget ev ''packet_id'', event_attempt ev) of
            (JStr pid, Inr a) \<Rightarrow>
              if jget ev ''event'' = JStr ''retry_dispatch''
              then map_option (\<lambda>n. (pid, n)) (opt_of (py_int a)) else None
          | _ \<Rightarrow> None)
     | _ \<Rightarrow> None)"

definition claims :: "json list \<Rightarrow> (string \<times> int) list" where
  "claims events = List.map_filter claim_of events"

lemma claims_append [simp]: "claims (xs @ ys) = claims xs @ claims ys"
  by (simp add: claims_def map_filter_def)

lemma claims_single [simp]: "claims [x] = (case claim_of x of None \<Rightarrow> [] | Some c \<Rightarrow> [c])"
  by (simp add: claims_def map_filter_def split: option.splits)

lemma opt_of_Some: "opt_of r = Some x \<longleftrightarrow> r = Inr x"
  by (cases r) simp_all

lemma no_dispatch_no_claim:
  "has_retry_dispatch pid n events = Inr False \<Longrightarrow> (pid, n) \<notin> set (claims events)"
proof (induction events)
  case Nil
  then show ?case by (simp add: claims_def map_filter_def)
next
  case (Cons v vs)
  have "claim_of v \<noteq> Some (pid, n) \<and> has_retry_dispatch pid n vs = Inr False"
    using Cons.prems
    by (cases v) (auto simp: claim_of_def opt_of_Some split: sum.splits json.splits if_splits)
  then show ?case using Cons.IH claims_append [of "[v]" vs] by (auto split: option.splits)
qed

lemma claim_of_emitted [simp]:
  "claim_of (emitted now pid ''duty_review'' det) = None"
  "claim_of (emitted now pid ''budget_exhausted'' det) = None"
  "claim_of (emitted now pid ''retry_dispatch''
     [(''packet_id'', JStr pid), (''class'', c), (''action'', a), (''delay_s'', x), (''attempt'', JInt n)])
     = Some (pid, n)"
  by (simp_all add: claim_of_def emitted_def event_attempt_def py_simps split: json.splits sum.splits)

text \<open>
  The life of the shared files: calls of the script, events of other writers (only this
  script writes retry dispatches), and whatever the state machine makes of the ledger.
\<close>

datatype retry_input =
    Call retry_env string string
  | Foreign_event json
  | Ledger_update "packet dict"

definition retry_step ::
  "(string \<Rightarrow> string \<Rightarrow> py_error + bool) \<Rightarrow> retry_input \<Rightarrow> retry_world \<Rightarrow> py_error + retry_world" where
  "retry_step search input w =
     (case input of
        Call env pid err \<Rightarrow>
          (case retry_main search env pid err w of Inl e \<Rightarrow> Inl e | Inr (_, _, w') \<Rightarrow> Inr w')
      | Foreign_event v \<Rightarrow> Inr (if claim_of v = None then w\<lparr>rw_events := rw_events w @ [v]\<rparr> else w)
      | Ledger_update ledger \<Rightarrow> Inr (w\<lparr>rw_ledger := ledger\<rparr>))"

lemma outcome_claims:
  assumes "retry_outcome env pid pkt w d code w'" and "distinct (claims (rw_events w))"
  shows "distinct (claims (rw_events w'))"
  using assms by cases (auto dest: no_dispatch_no_claim)

interpretation claims: fallible_machine "retry_step search" "\<lambda>w. distinct (claims (rw_events w))" for search
  by unfold_locales
     (auto simp: retry_step_def split: retry_input.splits sum.splits if_splits
      dest!: retry_main_outcome outcome_claims)

text \<open>Claim C16. However often the script runs, on whatever errors, and however the ledger
  and the event stream change between the calls, no attempt of a packet is dispatched twice:
  the (packet, attempt) pairs of the retry dispatches in the stream stay distinct.\<close>

theorem dispatches_are_unique:
  assumes "run_steps (retry_step search) inputs w = Inr w'"
    and "distinct (claims (rw_events w))"
  shows "distinct (claims (rw_events w'))"
  using claims.run_inv [OF assms(2,1)] .

definition demo_search :: "string \<Rightarrow> string \<Rightarrow> py_error + bool" where
  "demo_search pat err = Inr (pat = err)"

definition demo_class :: retry_class where
  "demo_class = \<lparr>rc_name = ''net'', rc_pattern = Some ''timeout'', rc_action = Some ''retry'',
     rc_retryable = None, rc_max_attempts = None, rc_max_retries = Some 3, rc_base = None,
     rc_backoff_base = Some 1, rc_cap = None, rc_backoff_cap = None\<rparr>"

definition demo_retry_env :: retry_env where
  "demo_retry_env = \<lparr>re_now = 1000, re_classes = [demo_class], re_run_budget = 10,
     re_breaker_fails = 5, re_legacy_class = (\<lambda>_. None), re_random = 1 / 2\<rparr>"

definition demo_world :: retry_world where
  "demo_world = \<lparr>rw_ledger = [(''p1'', failed_packet)], rw_events = [],
     rw_breaker = \<lparr>br_fails = [], br_open_until = 0\<rparr>, rw_last_class = [], rw_tickets = [], rw_dead = []\<rparr>"

definition demo_calls :: "retry_input list" where
  "demo_calls = [Call demo_retry_env ''p1'' ''timeout'', Ledger_update [(''p1'', failed_packet)],
     Call demo_retry_env ''p1'' ''other'', Call demo_retry_env ''p1'' ''timeout'']"

definition demo_retry_run :: "(string \<times> int) list option" where
  "demo_retry_run = (case run_steps (retry_step demo_search) demo_calls demo_world of
     Inl e \<Rightarrow> None | Inr w \<Rightarrow> Some (claims (rw_events w)))"

lemma demo_retry_result: "demo_retry_run = Some [(''p1'', 1)]"
  by code_simp

theorem dispatches_are_unique_witness:
  "\<exists>w. run_steps (retry_step demo_search) demo_calls demo_world = Inr w
     \<and> distinct (claims (rw_events w))"
proof -
  obtain w where run: "run_steps (retry_step demo_search) demo_calls demo_world = Inr w"
    using demo_retry_result by (auto simp: demo_retry_run_def split: sum.splits)
  have "distinct (claims (rw_events demo_world))" by (simp add: demo_world_def claims_def map_filter_def)
  from dispatches_are_unique [OF run this] run show ?thesis by blast
qed

section \<open>Budgets and sinks\<close>

text \<open>A retry is dispatched only for a FAILED or TIMED_OUT packet (or one without
  a state), with a matching retryable class other than the previous failure's, below the
  class's attempt limit and the run-level budget, and with the breaker closed.\<close>

theorem retry_is_within_budgets:
  assumes "retry_main search env pid err w = Inr (d, code, w')" and "d_action d = ''retry''"
  shows "\<exists>c \<in> set (re_classes env). retryable c
    \<and> load_last_fail_class env pid w \<noteq> Some (rc_name c)
    \<and> p_attempts (dict_get_or failed_packet pid (rw_ledger w)) < max_attempts_of c
    \<and> total_retries (rw_ledger w) < re_run_budget env
    \<and> p_state (dict_get_or failed_packet pid (rw_ledger w)) \<in> {''FAILED'', ''TIMED_OUT'', []}
    \<and> \<not> re_now env < br_open_until (rw_breaker w')"
  using retry_main_outcome [OF assms(1)] assms(2) by (auto elim!: retry_outcome.cases)

definition demo_decision :: "(string \<times> nat) option" where
  "demo_decision = (case retry_main demo_search demo_retry_env ''p1'' ''timeout'' demo_world of
     Inl e \<Rightarrow> None | Inr (d, code, w) \<Rightarrow> Some (d_action d, code))"

lemma demo_decision_result: "demo_decision = Some (''retry'', 0)"
  by code_simp

lemma demo_decision_run:
  "\<exists>d w'. retry_main demo_search demo_retry_env ''p1'' ''timeout'' demo_world = Inr (d, 0, w')
     \<and> d_action d = ''retry''"
  using demo_decision_result by (auto simp: demo_decision_def split: sum.splits prod.splits)

theorem retry_is_within_budgets_witness:
  "p_attempts (dict_get_or failed_packet ''p1'' (rw_ledger demo_world)) < max_attempts_of demo_class"
proof -
  obtain d w' where "retry_main demo_search demo_retry_env ''p1'' ''timeout'' demo_world = Inr (d, 0, w')"
    and "d_action d = ''retry''" using demo_decision_run by blast
  from retry_is_within_budgets [OF this] show ?thesis by (simp add: demo_retry_env_def)
qed

text \<open>No failure is silent: a call that returns has exit code 0 with a retry (new
  or already scheduled), or 4 or 6 with one duty-review event and one duty ticket for the
  packet, or 5 with one budget-exhausted event and one dead-letter file; 6 is returned
  exactly when the breaker is open and the packet was not already routed.\<close>

theorem no_failure_is_silent:
  assumes "retry_main search env pid err w = Inr (d, code, w')"
  shows "(code = 0 \<and> d_action d \<in> {''retry'', ''retry_already_scheduled''})
    \<or> (code \<in> {4, 6} \<and> (\<exists>det t. rw_events w' = rw_events w @ [emitted (re_now env) pid ''duty_review'' det]
          \<and> rw_tickets w' = rw_tickets w @ [(pid, t)])
        \<and> (code = 6 \<longleftrightarrow> re_now env < br_open_until (rw_breaker w')))
    \<or> (code = 5 \<and> (\<exists>det t. rw_events w' = rw_events w @ [emitted (re_now env) pid ''budget_exhausted'' det]
          \<and> rw_dead w' = rw_dead w @ [(pid, t)]))"
  using retry_main_outcome [OF assms] by (auto elim!: retry_outcome.cases)

theorem no_failure_is_silent_witness:
  "\<exists>d code w'. retry_main demo_search demo_retry_env ''p1'' ''timeout'' demo_world = Inr (d, code, w')
     \<and> (code = 0 \<longrightarrow> d_action d \<in> {''retry'', ''retry_already_scheduled''})"
proof -
  obtain d w' where r: "retry_main demo_search demo_retry_env ''p1'' ''timeout'' demo_world = Inr (d, 0, w')"
    using demo_decision_run by blast
  from no_failure_is_silent [OF this] r show ?thesis by auto
qed

text \<open>Once enough failures fall into the window, the breaker opens for the whole
  cooldown: at every later time before its end it reads open, whether or not that call
  records a failure of its own.\<close>

theorem breaker_opens_and_holds:
  assumes "breaker now True n st = (opened, st')"
    and "n \<le> int (length (filter (\<lambda>t. now - t < breaker_window) (br_fails st))) + 1"
    and "now \<le> later" and "later < now + breaker_cooldown"
  shows "opened \<and> fst (breaker later failing m st')"
  using assms by (auto simp: breaker_def Let_def breaker_cooldown_def)

theorem breaker_opens_and_holds_witness:
  "fst (breaker 140 False 2 (snd (breaker 100 True 2 \<lparr>br_fails = [70], br_open_until = 0\<rparr>)))"
proof -
  obtain opened st' where b: "breaker 100 True 2 \<lparr>br_fails = [70], br_open_until = 0\<rparr> = (opened, st')"
    by (cases "breaker 100 True 2 \<lparr>br_fails = [70], br_open_until = 0\<rparr>")
  from breaker_opens_and_holds [OF b, of 140 False 2] b show ?thesis
    by (simp add: breaker_window_def breaker_cooldown_def)
qed

end
