(* ===== verification/Retry_Routing.thy ===== *)
theory Retry_Routing
  imports SM_Liveness Retry_Properties
begin

text \<open>
  Where the retry script meets the state machine: the events it appends, applied to the
  ledger it read, take the table's own edges and never the off-table dead letter.
\<close>

lemma map_of_failed: "map_of d pid = Some pkt \<Longrightarrow> dict_get_or failed_packet pid d = pkt"
  by (simp add: dict_get_or_def)

lemma emitted_fields [simp]:
  "jget_or x [(''ts'', t), (''packet_id'', p), (''event'', n), (''detail'', d)] ''packet_id'' = p"
  "jget_or x [(''ts'', t), (''packet_id'', p), (''event'', n), (''detail'', d)] ''event'' = n"
  "ev_detail [(''ts'', t), (''packet_id'', p), (''event'', n), (''detail'', d)] = obj_of d"
  "ev_attempt [(''ts'', t), (''packet_id'', p), (''event'', n), (''detail'', d)] =
     (let raw = jget (obj_of d) ''attempt'' in if raw = JNull then None else opt_of (py_int raw))"
  by (simp_all add: jget_or_def jget_def dict_get_or_def ev_detail_def ev_attempt_def)

text \<open>None of the rules before the table concerns the three events of the script.\<close>

lemma emitted_local_rules:
  assumes "name \<in> {''duty_review'', ''budget_exhausted'', ''retry_dispatch''}"
    and "\<And>a. ev_attempt ev = Some a \<Longrightarrow> p_attempts pkt \<le> a"
  shows "local_rules env pid (JStr name) ev pkt = None"
proof -
  have "stale_generation env (JStr name) ev pkt = None"
    using assms(2) by (auto simp: stale_generation_def split: option.splits dest: leD)
  then show ?thesis
    using assms(1)
    by (auto simp: local_rules_def stale_run_id_def duplicate_generation_def pre_spawn_failure_def
        late_stop_def dispatch_confirmed_def timeout_confirmed_def release_review_failed_def)
qed

lemma apply_known:
  assumes "map_of (packets st) pid = Some pkt" and "\<not> startswith_any pid [''l2v-'', ''v2job-'']"
    and "jget_or (JStr ''?'') ev ''packet_id'' = JStr pid" and "jget_or (JStr ''?'') ev ''event'' = JStr name"
    and "name \<notin> set INFO_EVENTS" and "local_rules env pid (JStr name) ev pkt = None"
  shows "apply_event env (JObj ev) st =
    (case table_step env pid (JStr name) ev pkt st of
       Inl e \<Rightarrow> Inl e
     | Inr st' \<Rightarrow> Inr (Some (p_state (dict_get_or new_packet pid (packets st'))), st'))"
proof -
  have "dict_setdefault pid new_packet (packets st) = packets st"
    using assms(1) by (simp add: dict_setdefault_def dict_has_def)
  then have same: "st\<lparr>packets := dict_setdefault pid new_packet (packets st)\<rparr> = st" by simp
  have known: "dict_has pid (packets st)" "dict_get_or new_packet pid (packets st) = pkt"
    using assms(1) by (simp_all add: dict_has_def dict_get_or_def)
  show ?thesis
    using assms(2-) known
    by (simp add: apply_event_def Let_def same image_iff del: map_of_setdefault)
qed

lemma retry_rows:
  "T_lookup ''FAILED'' (JStr ''duty_review'') = Some (''DUTY_REVIEW'', 10)"
  "T_lookup ''TIMED_OUT'' (JStr ''duty_review'') = Some (''DUTY_REVIEW'', 39)"
  "T_lookup ''FAILED'' (JStr ''budget_exhausted'') = Some (''DEAD_LETTER'', 15)"
  "T_lookup ''TIMED_OUT'' (JStr ''budget_exhausted'') = Some (''DEAD_LETTER'', 14)"
  "T_lookup ''FAILED'' (JStr ''retry_dispatch'') = Some (''DISPATCHABLE'', 9)"
  "T_lookup ''TIMED_OUT'' (JStr ''retry_dispatch'') = Some (''DISPATCHABLE'', 37)"
  by code_simp+

lemma retry_events_not_info:
  "name \<in> {''duty_review'', ''budget_exhausted'', ''retry_dispatch''} \<Longrightarrow> name \<notin> set INFO_EVENTS"
  by (auto simp: INFO_EVENTS_def)

text \<open>An event with no attempt in its detail takes its table row.\<close>

lemma emitted_takes_row:
  assumes "map_of (packets st) pid = Some pkt" and "\<not> startswith_any pid [''l2v-'', ''v2job-'']"
    and "p_state pkt \<in> {''FAILED'', ''TIMED_OUT''}"
    and "(name, to) \<in> {(''duty_review'', ''DUTY_REVIEW''), (''budget_exhausted'', ''DEAD_LETTER'')}"
    and "jget det ''attempt'' = JNull"
  shows "\<exists>st'. apply_event env (emitted now pid name det) st = Inr (Some to, st')
    \<and> dead_letters st' = dead_letters st \<and> p_attempts (packet_of pid st') = p_attempts pkt"
proof -
  let ?ev = "[(''ts'', JFloat now), (''packet_id'', JStr pid), (''event'', JStr name), (''detail'', JObj det)]"
  have n: "name \<in> {''duty_review'', ''budget_exhausted'', ''retry_dispatch''}" using assms(4) by auto
  have "local_rules env pid (JStr name) ?ev pkt = None"
    by (rule emitted_local_rules [OF n]) (use assms(5) in simp)
  note step = apply_known [OF assms(1,2) _ _ retry_events_not_info [OF n] this]
  obtain num where row: "T_lookup (p_state pkt) (JStr name) = Some (to, num)" "num \<in> {10, 39, 14, 15}"
    using assms(3,4) retry_rows by auto
  then have "table_step env pid (JStr name) ?ev pkt st
      = Inr (put_packet pid (take_transition env (JStr name) ?ev to num pkt) st)"
    by (auto simp: table_step_def)
  then show ?thesis
    using step row(2) by (auto simp: emitted_def put_packet_def packet_of_def dict_get_or_def)
qed

lemma dispatch_takes_row:
  assumes "map_of (packets st) pid = Some pkt" and "\<not> startswith_any pid [''l2v-'', ''v2job-'']"
    and "valid_pid pid" and "p_state pkt \<in> {''FAILED'', ''TIMED_OUT''}"
    and "jget det ''attempt'' = JInt (p_attempts pkt + 1)"
  shows "\<exists>st'. apply_event env (emitted now pid ''retry_dispatch'' det) st
        = Inr (Some (p_state (packet_of pid st')), st')
    \<and> (p_state (packet_of pid st') = ''DISPATCHABLE''
         \<and> p_attempts (packet_of pid st') = p_attempts pkt + 1 \<and> dead_letters st' = dead_letters st
       \<or> p_state pkt = ''TIMED_OUT'' \<and> p_state (packet_of pid st') = ''DEAD_LETTER'')"
proof -
  let ?ev = "[(''ts'', JFloat now), (''packet_id'', JStr pid), (''event'', JStr ''retry_dispatch''),
      (''detail'', JObj det)]"
  let ?n = "JStr ''retry_dispatch''"
  have "local_rules env pid ?n ?ev pkt = None"
    by (rule emitted_local_rules) (use assms(5) in \<open>simp_all\<close>)
  note step = apply_known [OF assms(1,2) _ _ retry_events_not_info this]
  show ?thesis
  proof (cases "p_state pkt = ''FAILED''")
    case True
    then have "table_step env pid ?n ?ev pkt st
        = Inr (put_packet pid (take_transition env ?n ?ev ''DISPATCHABLE'' 9 pkt) st)"
      using retry_rows(5) by (simp add: table_step_def)
    then show ?thesis
      using step by (simp add: emitted_def put_packet_def packet_of_def dict_get_or_def)
  next
    case False
    then have lookup: "T_lookup (p_state pkt) ?n = Some (''DISPATCHABLE'', 37)"
      using assms(4) retry_rows(6) by simp
    obtain count exceeded st1 where bump: "bump_timeout_retry_counter env pid st = ((count, exceeded), st1)"
      by (metis prod.exhaust)
    have st1: "dead_letters st1 = dead_letters st"
      using bump by (auto simp: bump_timeout_retry_counter_def Let_def split: prod.splits)
    show ?thesis
    proof (cases exceeded)
      case True
      then obtain st' where "table_step env pid ?n ?ev pkt st = Inr st'"
        and "p_state (packet_of pid st') = ''DEAD_LETTER''"
        using lookup bump assms(3)
        by (auto simp: table_step_def to_dead_letter_def sol_wake_def Let_def put_packet_def
            packet_of_def dict_get_or_def split: sum.splits)
      then show ?thesis
        using step False assms(4) by (auto simp: emitted_def packet_of_def)
    next
      case False
      then have "table_step env pid ?n ?ev pkt st
          = Inr (put_packet pid (take_transition env ?n ?ev ''DISPATCHABLE'' 37 pkt) st1)"
        using lookup bump by (simp add: table_step_def)
      then show ?thesis
        using step st1 by (simp add: emitted_def put_packet_def packet_of_def dict_get_or_def)
    qed
  qed
qed

lemma apply_event_result_state:
  assumes "apply_event env (JObj ev) st = Inr (Some s, st')"
    and "jget_or (JStr ''?'') ev ''packet_id'' = JStr pid"
  shows "p_state (packet_of pid st') = s"
  using assms
  by (auto simp: apply_event_def Let_def put_packet_def packet_of_def dict_get_or_def
      split: if_splits option.splits sum.splits)

lemma emitted_result_state:
  assumes "apply_event senv v st = Inr (Some s, st')" and "v = emitted now pid name det"
    and "\<not> startswith_any pid [''l2v-'', ''v2job-'']"
  shows "p_state (packet_of pid st') = s"
  using apply_event_result_state [of senv _ st s st' pid] assms(1,2) by (simp add: emitted_def)

text \<open>Whatever the script decides about a packet the ledger holds as FAILED or
  TIMED_OUT, each event it appends takes a table edge when the state machine applies it to
  that ledger: a retry makes the packet DISPATCHABLE with its attempt number raised by one
  (for a timed-out packet whose retry is spent, the dead letter), a duty review makes it
  DUTY_REVIEW, an exhausted budget DEAD_LETTER; no off-table dead-letter file is written for
  the last two, nor for an admitted retry.\<close>

theorem retry_events_are_on_table:
  assumes "retry_main search env pid err w = Inr (d, code, w')"
    and "map_of (rw_ledger w) pid = Some pkt" and "p_state pkt \<in> {''FAILED'', ''TIMED_OUT''}"
    and "packets st = rw_ledger w'" and "\<not> startswith_any pid [''l2v-'', ''v2job-'']"
    and "v \<in> set (drop (length (rw_events w)) (rw_events w'))"
  shows "\<exists>st' s. apply_event senv v st = Inr (Some s, st') \<and> s = p_state (packet_of pid st')
    \<and> (code \<in> {4, 6} \<longrightarrow> s = ''DUTY_REVIEW'' \<and> dead_letters st' = dead_letters st)
    \<and> (code = 5 \<longrightarrow> s = ''DEAD_LETTER'' \<and> dead_letters st' = dead_letters st)
    \<and> (code = 0 \<longrightarrow> s = ''DISPATCHABLE'' \<and> p_attempts (packet_of pid st') = p_attempts pkt + 1
         \<or> p_state pkt = ''TIMED_OUT'' \<and> s = ''DEAD_LETTER'')"
proof -
  have valid: "valid_pid pid" and out: "retry_outcome env pid pkt w d code w'"
    using retry_main_outcome [OF assms(1)] map_of_failed [OF assms(2)] by simp_all
  have reach: "p_state (packet_of pid st') = s"
    if "apply_event senv v st = Inr (Some s, st')" "v = emitted now pid name det" for st' s now name det
    using that by (rule emitted_result_state [OF _ _ assms(5)])
  from out show ?thesis
  proof cases
    case already
    then show ?thesis using assms(6) by simp
  next
    case (duty det)
    then have v: "v = emitted (re_now env) pid ''duty_review'' det" using assms(6) by simp
    have known: "map_of (packets st) pid = Some pkt" using assms(2,4) duty by simp
    obtain st' where "apply_event senv v st = Inr (Some ''DUTY_REVIEW'', st')" "dead_letters st' = dead_letters st"
      using emitted_takes_row [OF known assms(5,3), of "''duty_review''" "''DUTY_REVIEW''" det] duty v by auto
    then show ?thesis using reach v duty by (intro exI [of _ st']) auto
  next
    case (dead det)
    then have v: "v = emitted (re_now env) pid ''budget_exhausted'' det" using assms(6) by simp
    have known: "map_of (packets st) pid = Some pkt" using assms(2,4) dead by simp
    obtain st' where "apply_event senv v st = Inr (Some ''DEAD_LETTER'', st')" "dead_letters st' = dead_letters st"
      using emitted_takes_row [OF known assms(5,3), of "''budget_exhausted''" "''DEAD_LETTER''" det] dead v by auto
    then show ?thesis using reach v dead by (intro exI [of _ st']) auto
  next
    case (retry c delay)
    define det where "det = [(''packet_id'', JStr pid), (''class'', JStr (rc_name c)),
        (''action'', JStr ''retry''), (''delay_s'', JFloat delay), (''attempt'', JInt (p_attempts pkt + 1))]"
    have v: "v = emitted (re_now env) pid ''retry_dispatch'' det" using assms(6) retry by (simp add: det_def)
    have known: "map_of (packets st) pid = Some pkt"
      using assms(2,4) retry by (simp add: dict_get_or_def)
    have "jget det ''attempt'' = JInt (p_attempts pkt + 1)" by (simp add: det_def py_simps)
    from dispatch_takes_row [OF known assms(5) valid assms(3) this, of senv "re_now env"] v retry
    show ?thesis by auto
  qed
qed

definition routing_state :: sm_state where
  "routing_state = sm_init\<lparr>packets := [(''p1'', failed_packet\<lparr>p_history := p_history (admitted_packet 0)\<rparr>)]\<rparr>"

definition routing_world :: retry_world where
  "routing_world = demo_world\<lparr>rw_ledger := packets routing_state\<rparr>"

definition routing_demo :: "(nat \<times> nat \<times> bool) option" where
  "routing_demo = (case retry_main demo_search demo_retry_env ''p1'' ''timeout'' routing_world of
     Inl e \<Rightarrow> None
   | Inr (d, code, w) \<Rightarrow> Some (code, length (rw_events w), map fst (rw_ledger w) = [''p1'']
       \<and> map (p_state \<circ> snd) (rw_ledger w) = [''FAILED'']))"

lemma routing_demo_result: "routing_demo = Some (0, 1, True)"
  by code_simp

theorem retry_events_are_on_table_witness:
  "\<exists>d w' v st'. retry_main demo_search demo_retry_env ''p1'' ''timeout'' routing_world = Inr (d, 0, w')
     \<and> rw_events w' = [v]
     \<and> apply_event demo_env v (routing_state\<lparr>packets := rw_ledger w'\<rparr>) = Inr (Some ''DISPATCHABLE'', st')"
proof -
  obtain d w' where run: "retry_main demo_search demo_retry_env ''p1'' ''timeout'' routing_world = Inr (d, 0, w')"
    and one: "length (rw_events w') = 1"
    using routing_demo_result by (auto simp: routing_demo_def split: sum.splits prod.splits)
  from one obtain v where v: "rw_events w' = [v]" by (auto simp: length_Suc_conv)
  have known: "map_of (rw_ledger routing_world) ''p1''
      = Some (failed_packet\<lparr>p_history := p_history (admitted_packet 0)\<rparr>)"
    by (simp add: routing_world_def routing_state_def)
  have "\<not> startswith_any ''p1'' [''l2v-'', ''v2job-'']" by code_simp
  moreover have "v \<in> set (drop (length (rw_events routing_world)) (rw_events w'))"
    using v by (simp add: routing_world_def demo_world_def)
  moreover have "p_state (failed_packet\<lparr>p_history := p_history (admitted_packet 0)\<rparr>) = ''FAILED''"
    by (simp add: failed_packet_def)
  ultimately show ?thesis
    using retry_events_are_on_table [OF run known, of "routing_state\<lparr>packets := rw_ledger w'\<rparr>" v demo_env] run v
    by auto
qed

text \<open>For a packet the ledger does not hold, the duty-review and budget-exhausted
  events the script appends are ignored by the state machine: it changes nothing.\<close>

theorem unknown_packet_events_are_ignored:
  assumes "map_of (packets st) pid = None" and "name \<in> {''duty_review'', ''budget_exhausted''}"
  shows "apply_event senv (emitted now pid name det) st = Inr (None, st)"
  using assms by (auto simp: apply_event_def emitted_def dict_has_def admitting_event_def Let_def)

theorem unknown_packet_events_are_ignored_witness:
  "apply_event demo_env (emitted 0 ''ghost'' ''duty_review'' []) sm_init = Inr (None, sm_init)"
  using unknown_packet_events_are_ignored [of sm_init "''ghost''" "''duty_review''"]
  by (simp add: sm_init_def)

end
