(* ===== verification/Router.thy ===== *)
theory Router
  imports Policy "HOL-Library.Char_ord" "HOL-Library.List_Lexorder"
begin

text \<open>
  The deterministic router, \<open>src/harness/agent_router.py\<close>: the mechanical gate guards, the
  calibrated escalation confidence, the effective mode and the routing of one trigger
  action. The files the router reads are in an environment record, the files it appends to
  in a state record. Floats are exact rationals.
\<close>

section \<open>Closed enumerations\<close>

datatype routing_mode = COLD_START | SHADOW | LAYERED

text \<open>\<open>RoutingMode(value)\<close>: the policy accessor returns one of the three values.\<close>

definition mode_of :: "string \<Rightarrow> routing_mode" where
  "mode_of s = (if s = ''layered'' then LAYERED else if s = ''shadow'' then SHADOW else COLD_START)"

datatype route = V4_DIRECT | K3_EXPAND | K3_VERIFY | K3_RANK | SOL_ADJUDICATE_R | L4_HUMAN | MERGE_QUEUE

datatype route_reason =
    TABLE_PASS | TABLE_ANNOTATED_PASS | TABLE_SEND_L2 | SAMPLED_VERIFICATION
  | PLAN_EXPANSION_CRITERIA | K3_SUITED_CLASS | RANK_REQUESTED | COLD_START_UPGRADE
  | SOL_HIGH_RISK | SOL_OFF_TABLE | SOL_L2_ESCALATION | SOL_SCHEMA_INVALID | SOL_NEEDS_DECISION
  | SOL_RETRY_EXHAUSTED | SOL_BUDGET_REFUSED_ALTERNATIVE | L4_CAP_EXCEEDED

definition SOL_REASONS :: "route_reason list" where
  "SOL_REASONS = [SOL_HIGH_RISK, SOL_OFF_TABLE, SOL_L2_ESCALATION, SOL_SCHEMA_INVALID,
     SOL_NEEDS_DECISION, SOL_RETRY_EXHAUSTED, SOL_BUDGET_REFUSED_ALTERNATIVE, COLD_START_UPGRADE]"

definition K3_SUITED_CLASSES :: "string list" where
  "K3_SUITED_CLASSES = [''verification'', ''cross_file_reasoning_review'',
     ''plan_shaped_analysis'', ''long_context_single_doc_audit'']"

section \<open>Gate guards\<close>

datatype gate_guard =
    CONSUMER_HEARTBEAT_FRESH | EXACTLY_ONCE_CANARY | K3_VERIFIER_MODEL_PINNED
  | SHORT_RESULT_VALIDATOR_ENABLED | STATEMACHINE_SCHEMA_COMPATIBLE | ROLLBACK_KEY_AVAILABLE
  | LAYERED_AUTHORIZATION_CURRENT

text \<open>
  The files the guards observe, \<open>JNull\<close> for one that is missing or unreadable; the verifier
  model is \<open>None\<close> when there is no readable role file.
\<close>

record guard_env =
  g_now :: rat
  g_heartbeat :: json
  g_canary :: json
  g_verifier_model :: "json option"
  g_validator :: json
  g_ledger :: json
  g_marker :: "json option"
  g_policy_hash :: "string option"

text \<open>\<open>statemachine_v2.SCHEMA\<close>\<close>

definition STATEMACHINE_SCHEMA :: string where
  "STATEMACHINE_SCHEMA = ''codex-loop-statemachine/v2''"

definition heartbeat_ok :: "guard_env \<Rightarrow> rat \<Rightarrow> bool" where
  "heartbeat_ok env max_age =
     (case g_heartbeat env of
        JObj hb \<Rightarrow> (case map_option py_float (map_of hb ''ts'') of
            Some (Inr ts) \<Rightarrow> g_now env - ts \<le> max_age | _ \<Rightarrow> False)
      | _ \<Rightarrow> False)"

definition canary_ok :: "guard_env \<Rightarrow> bool" where
  "canary_ok env = (case g_canary env of JObj d \<Rightarrow> jget d ''status'' = JStr ''PASS'' | _ \<Rightarrow> False)"

definition verifier_pinned :: "guard_env \<Rightarrow> jobj \<Rightarrow> bool" where
  "verifier_pinned env policy =
     (case model_pin policy ''k3'' of
        Inl e \<Rightarrow> False
      | Inr pin \<Rightarrow>
          (case g_verifier_model env of
             None \<Rightarrow> True
           | Some m \<Rightarrow> m = JNull \<or> m = JStr pin))"

definition validator_enabled :: "guard_env \<Rightarrow> bool" where
  "validator_enabled env = (case g_validator env of JObj d \<Rightarrow> truthy (jget d ''enabled'') | _ \<Rightarrow> False)"

text \<open>
  \<open>schema == required\<close>, or the imported state machine's own schema is the required one.
  The required schema is a string in the policy.
\<close>

definition schema_compatible :: "guard_env \<Rightarrow> jobj \<Rightarrow> py_error + bool" where
  "schema_compatible env policy =
     (let required = policy_value policy ''gate_guard'' ''statemachine_schema_required''
            (JStr STATEMACHINE_SCHEMA) in
      case py_or (g_ledger env) (JObj []) of
        JObj ledger \<Rightarrow> Inr (jget ledger ''schema'' = required \<or> JStr STATEMACHINE_SCHEMA = required)
      | _ \<Rightarrow> Inl AttributeError)"

definition rollback_available :: "jobj \<Rightarrow> bool" where
  "rollback_available policy = (policy_value policy ''routing'' ''rollback_mode'' JNull = JStr ''cold_start'')"

definition authorization_ok :: "guard_env \<Rightarrow> jobj \<Rightarrow> bool" where
  "authorization_ok env policy =
     (if routing_mode policy = ''layered''
      then fst (layered_authorization (g_marker env) (g_now env) 3600 (g_policy_hash env))
      else True)"

definition check_layered_gate_guards :: "guard_env \<Rightarrow> jobj \<Rightarrow> py_error + (gate_guard \<times> bool) list" where
  "check_layered_gate_guards env policy =
     (case (py_float (policy_value policy ''l2_queue'' ''consumer_heartbeat_max_age_s'' (JInt 300)),
            schema_compatible env policy) of
        (Inl e, _) \<Rightarrow> Inl e
      | (Inr max_age, Inl e) \<Rightarrow> Inl e
      | (Inr max_age, Inr schema_ok) \<Rightarrow>
          Inr [(CONSUMER_HEARTBEAT_FRESH, heartbeat_ok env max_age),
               (EXACTLY_ONCE_CANARY, canary_ok env),
               (K3_VERIFIER_MODEL_PINNED, verifier_pinned env policy),
               (SHORT_RESULT_VALIDATOR_ENABLED, validator_enabled env),
               (STATEMACHINE_SCHEMA_COMPATIBLE, schema_ok),
               (ROLLBACK_KEY_AVAILABLE, rollback_available policy),
               (LAYERED_AUTHORIZATION_CURRENT, authorization_ok env policy)])"

definition guards_passed :: "(gate_guard \<times> bool) list \<Rightarrow> bool" where
  "guards_passed report = list_all snd report"

definition failing :: "(gate_guard \<times> bool) list \<Rightarrow> gate_guard list" where
  "failing report = map fst (filter (\<lambda>r. \<not> snd r) report)"

section \<open>Confidence\<close>

fun show_nat :: "nat \<Rightarrow> string" where
  "show_nat n = (if n < 10 then [char_of (48 + n)] else show_nat (n div 10) @ [char_of (48 + n mod 10)])"

declare show_nat.simps [simp del]

definition show_int :: "int \<Rightarrow> string" where
  "show_int n = (if n < 0 then CHR ''-'' # show_nat (nat (- n)) else show_nat (nat n))"

text \<open>\<open>any(c == 0 for c in exit_codes)\<close>: iterating a string or a dict yields strings.\<close>

definition some_zero :: "json \<Rightarrow> py_error + bool" where
  "some_zero v = (case v of
       JList xs \<Rightarrow> Inr (list_ex (\<lambda>c. py_eq c (JInt 0)) xs)
     | JStr _ \<Rightarrow> Inr False
     | JObj _ \<Rightarrow> Inr False
     | _ \<Rightarrow> Inl TypeError)"

definition exit_bucket :: "json \<Rightarrow> py_error + string" where
  "exit_bucket v =
     (case v of
        JList [c] \<Rightarrow> Inr (if py_eq c (JInt 0) then ''rc0'' else ''rcfail'')
      | _ \<Rightarrow> (case some_zero v of Inl e \<Rightarrow> Inl e | Inr b \<Rightarrow> Inr (if b then ''rcmix'' else ''rcfail'')))"

definition fingerprint :: "jobj \<Rightarrow> string list \<Rightarrow> py_error + string" where
  "fingerprint signals rules_hit =
     (case (exit_bucket (py_or (jget signals ''exit_codes'') (JList [])),
            py_int (py_or (jget_or (JInt 0) signals ''retry_count'') (JInt 0))) of
        (Inl e, _) \<Rightarrow> Inl e
      | (Inr rc, Inl e) \<Rightarrow> Inl e
      | (Inr rc, Inr n) \<Rightarrow>
          Inr (join_with ''|'' (sort (remdups rules_hit)
            @ [rc, ''retry'' @ show_int (min n 3),
               if truthy (jget signals ''diff_lines'') then ''diff+'' else ''diff0''])))"

definition PRIOR_ESCALATE :: rat where "PRIOR_ESCALATE = 1"
definition PRIOR_TOTAL :: rat where "PRIOR_TOTAL = 2"

text \<open>\<open>read_json(self.path, {}) or {}\<close> is an object in every file this class writes.\<close>

definition p_escalate :: "jobj \<Rightarrow> string \<Rightarrow> py_error + rat" where
  "p_escalate doc fp =
     (case jget_or (JObj []) doc fp of
        JObj entry \<Rightarrow>
          (case (py_float (jget_or (JInt 0) entry ''escalated''), py_float (jget_or (JInt 0) entry ''total'')) of
             (Inr e, Inr t) \<Rightarrow>
               if t + PRIOR_TOTAL = 0 then Inl ZeroDivision
               else Inr ((e + PRIOR_ESCALATE) / (t + PRIOR_TOTAL))
           | (Inl x, _) \<Rightarrow> Inl x
           | (_, Inl x) \<Rightarrow> Inl x)
      | _ \<Rightarrow> Inl AttributeError)"

definition bump_entry :: "bool \<Rightarrow> jobj \<Rightarrow> py_error + jobj" where
  "bump_entry escalated entry =
     (case py_int (jget_or (JInt 0) entry ''total'') of
        Inl e \<Rightarrow> Inl e
      | Inr t \<Rightarrow>
          (let entry1 = dict_set ''total'' (JInt (t + 1)) entry in
           if escalated
           then (case py_int (jget_or (JInt 0) entry1 ''escalated'') of
                   Inl e \<Rightarrow> Inl e
                 | Inr k \<Rightarrow> Inr (dict_set ''escalated'' (JInt (k + 1)) entry1))
           else Inr entry1))"

definition record_outcome :: "string \<times> bool \<Rightarrow> jobj \<Rightarrow> py_error + jobj" where
  "record_outcome outcome doc =
     (let fp = fst outcome;
          doc1 = dict_setdefault fp (JObj [(''escalated'', JInt 0), (''total'', JInt 0)]) doc in
      case jget doc1 fp of
        JObj entry \<Rightarrow>
          (case bump_entry (snd outcome) entry of
             Inl e \<Rightarrow> Inl e
           | Inr entry' \<Rightarrow> Inr (dict_set fp (JObj entry') doc1))
      | _ \<Rightarrow> Inl AttributeError)"

section \<open>Routing\<close>

record route_decision =
  rd_packet :: string
  rd_route :: route
  rd_reason :: route_reason
  rd_mode :: routing_mode
  rd_requested :: routing_mode
  rd_raw_action :: string
  rd_effective_action :: string
  rd_confidence :: rat

text \<open>What the router appends to, and the calibration corpus.\<close>

record router_state =
  calibration :: jobj
  route_ledger :: "route_decision list"
  shadow_log :: "(route_decision \<times> route \<times> route_reason \<times> string) list"
  mode_downgrades :: "gate_guard list list"
  l2_pending :: "(string \<times> string \<times> string \<times> int \<times> route_reason) list"

definition ESCALATE_THRESHOLD :: rat where
  "ESCALATE_THRESHOLD = 1 / 2"

definition effective_mode ::
  "guard_env \<Rightarrow> jobj \<Rightarrow> router_state \<Rightarrow> py_error + (routing_mode \<times> router_state)" where
  "effective_mode env policy st =
     (let requested = mode_of (routing_mode policy) in
      if requested \<noteq> LAYERED then Inr (requested, st)
      else case check_layered_gate_guards env policy of
          Inl e \<Rightarrow> Inl e
        | Inr report \<Rightarrow>
            if guards_passed report then Inr (LAYERED, st)
            else Inr (SHADOW, st\<lparr>mode_downgrades := mode_downgrades st @ [failing report]\<rparr>))"

definition enforce_model_pin :: "jobj \<Rightarrow> string \<Rightarrow> string \<Rightarrow> policy_error + string" where
  "enforce_model_pin policy family proposed =
     (case model_pin policy family of
        Inl e \<Rightarrow> Inl e
      | Inr pin \<Rightarrow> if proposed \<noteq> pin then Inl ModelPinError else Inr pin)"

definition k3_suited :: "jobj \<Rightarrow> bool" where
  "k3_suited packet_meta =
     (case jget_or (JStr []) packet_meta ''class'' of JStr c \<Rightarrow> c \<in> set K3_SUITED_CLASSES | _ \<Rightarrow> False)"

definition layered_route :: "string \<Rightarrow> rat \<Rightarrow> jobj \<Rightarrow> bool \<Rightarrow> route \<times> route_reason \<times> string" where
  "layered_route action confidence packet_meta high_risk =
     (if high_risk \<or> action = ''direct_l3''
      then (SOL_ADJUDICATE_R, if high_risk then SOL_HIGH_RISK else SOL_L2_ESCALATION, ''direct_l3'')
      else if action = ''direct_l4'' then (L4_HUMAN, L4_CAP_EXCEEDED, ''direct_l4'')
      else if action = ''send_l2'' then (K3_VERIFY, TABLE_SEND_L2, ''send_l2'')
      else if action = ''pass'' \<or> action = ''annotated_pass''
      then (if k3_suited packet_meta then (K3_VERIFY, K3_SUITED_CLASS, ''send_l2'')
            else if ESCALATE_THRESHOLD \<le> confidence then (K3_VERIFY, SAMPLED_VERIFICATION, ''send_l2'')
            else (MERGE_QUEUE, if action = ''pass'' then TABLE_PASS else TABLE_ANNOTATED_PASS, action))
      else if action = ''spawn_duty_officer'' then (V4_DIRECT, TABLE_PASS, action)
      else (SOL_ADJUDICATE_R, SOL_OFF_TABLE, ''direct_l3''))"

definition legacy_route :: "string \<Rightarrow> bool \<Rightarrow> route \<times> route_reason \<times> string" where
  "legacy_route action high_risk =
     (let effective = (if action \<in> {''direct_l3'', ''direct_l4''} then action else ''direct_l3'') in
      (if effective = ''direct_l4'' then L4_HUMAN else SOL_ADJUDICATE_R,
       if high_risk then SOL_HIGH_RISK
       else if effective \<noteq> action then COLD_START_UPGRADE else SOL_OFF_TABLE,
       effective))"

definition route_action ::
  "guard_env \<Rightarrow> jobj \<Rightarrow> string \<Rightarrow> string \<Rightarrow> jobj \<Rightarrow> string list \<Rightarrow> jobj \<Rightarrow> bool \<Rightarrow> router_state
     \<Rightarrow> py_error + (route_decision \<times> router_state)" where
  "route_action env policy packet_id action signals rules_hit packet_meta high_risk st =
     (case effective_mode env policy st of
        Inl e \<Rightarrow> Inl e
      | Inr (mode, st1) \<Rightarrow>
          (case fingerprint signals rules_hit of
             Inl e \<Rightarrow> Inl e
           | Inr fp \<Rightarrow>
               (case p_escalate (calibration st1) fp of
                  Inl e \<Rightarrow> Inl e
                | Inr confidence \<Rightarrow>
                    (let layered = layered_route action confidence packet_meta high_risk;
                         (rt, reason, effective) =
                           (if mode = LAYERED then layered else legacy_route action high_risk);
                         d = \<lparr>rd_packet = packet_id, rd_route = rt, rd_reason = reason, rd_mode = mode,
                              rd_requested = mode_of (routing_mode policy), rd_raw_action = action,
                              rd_effective_action = effective, rd_confidence = confidence\<rparr>;
                         st2 = (if mode = SHADOW
                                then st1\<lparr>shadow_log := shadow_log st1 @ [(d, layered)]\<rparr> else st1)
                     in Inr (d, st2\<lparr>route_ledger := route_ledger st2 @ [d]\<rparr>)))))"

definition emit_l2_request ::
  "(string \<Rightarrow> string) \<Rightarrow> string \<Rightarrow> string \<Rightarrow> int \<Rightarrow> route_decision \<Rightarrow> router_state \<Rightarrow> string \<times> router_state" where
  "emit_l2_request b32digest packet_id run_id attempt d st =
     (let key = idem_key b32digest ''l2req'' packet_id [run_id, show_int attempt] in
      (key, st\<lparr>l2_pending := l2_pending st @ [(key, packet_id, run_id, attempt, rd_reason d)]\<rparr>))"

section \<open>Properties\<close>

lemma route_action_cases:
  assumes "route_action env policy pid action signals rules meta high_risk st = Inr (d, st')"
  obtains mode st1 confidence where "effective_mode env policy st = Inr (mode, st1)" "rd_mode d = mode"
    "(rd_route d, rd_reason d, rd_effective_action d) =
       (if mode = LAYERED then layered_route action confidence meta high_risk
        else legacy_route action high_risk)"
    "rd_confidence d = confidence" "rd_raw_action d = action"
    "route_ledger st' = route_ledger st1 @ [d]"
proof -
  from assms obtain mode st1 fp confidence where
    m: "effective_mode env policy st = Inr (mode, st1)" and f: "fingerprint signals rules = Inr fp"
    and c: "p_escalate (calibration st1) fp = Inr confidence"
    by (auto simp: route_action_def split: sum.splits prod.splits)
  obtain rt reason effective where r: "(if mode = LAYERED then layered_route action confidence meta high_risk
      else legacy_route action high_risk) = (rt, reason, effective)"
    by (metis prod_cases3)
  note run = assms [unfolded route_action_def m f c sum.case prod.case Let_def r]
  show ?thesis
    by (rule that [OF m]) (use run in \<open>auto simp: r [symmetric] split: if_splits\<close>)
qed

lemma effective_layered:
  assumes "effective_mode env policy st = Inr (LAYERED, st1)"
  shows "\<exists>report. check_layered_gate_guards env policy = Inr report \<and> guards_passed report
    \<and> routing_mode policy = ''layered'' \<and> st1 = st"
  using assms by (auto simp: effective_mode_def Let_def mode_of_def split: sum.splits if_splits)

text \<open>Every decision the router ledgers is justified: a route to Sol carries a
  reason of the closed Sol list; a high-risk packet goes to Sol or a human and nowhere else;
  outside effective layered mode every packet does; and a packet reaches the merge queue only
  in layered mode, on a table pass, outside the K3-suited classes, with its calibrated
  escalation frequency below one half.\<close>

theorem routes_are_justified:
  assumes "route_action env policy pid action signals rules meta high_risk st = Inr (d, st')"
  shows "(rd_route d = SOL_ADJUDICATE_R \<longrightarrow> rd_reason d \<in> set SOL_REASONS)
    \<and> (high_risk \<or> rd_mode d \<noteq> LAYERED \<longrightarrow> rd_route d \<in> {SOL_ADJUDICATE_R, L4_HUMAN})
    \<and> (rd_route d = MERGE_QUEUE \<longrightarrow> rd_mode d = LAYERED \<and> \<not> high_risk
         \<and> action \<in> {''pass'', ''annotated_pass''} \<and> \<not> k3_suited meta \<and> rd_confidence d < 1 / 2)"
  using assms
proof (cases rule: route_action_cases)
  case (1 mode st1 confidence)
  then show ?thesis
    by (auto simp: layered_route_def legacy_route_def SOL_REASONS_def Let_def ESCALATE_THRESHOLD_def
        split: if_splits)
qed

definition demo_guard_env :: guard_env where
  "demo_guard_env = \<lparr>g_now = 150, g_heartbeat = JObj [(''ts'', JInt 100)],
     g_canary = JObj [(''status'', JStr ''PASS'')], g_verifier_model = None,
     g_validator = JObj [(''enabled'', JBool True)], g_ledger = JNull,
     g_marker = Some demo_marker, g_policy_hash = Some ''abc''\<rparr>"

definition demo_policy :: jobj where
  "demo_policy = [(''routing'', JObj [(''mode'', JStr ''layered''), (''rollback_mode'', JStr ''cold_start'')]),
     (''models'', JObj [(''k3_model'', JStr ''k3'')])]"

definition router_init :: router_state where
  "router_init = \<lparr>calibration = [], route_ledger = [], shadow_log = [], mode_downgrades = [], l2_pending = []\<rparr>"

definition demo_route :: "(route \<times> routing_mode) option" where
  "demo_route = (case route_action demo_guard_env demo_policy ''p1'' ''send_l2'' [] [''r1''] [] False router_init of
     Inl e \<Rightarrow> None | Inr (d, st) \<Rightarrow> Some (rd_route d, rd_mode d))"

lemma demo_route_result: "demo_route = Some (K3_VERIFY, LAYERED)"
  by code_simp

lemma demo_route_run:
  "\<exists>d st. route_action demo_guard_env demo_policy ''p1'' ''send_l2'' [] [''r1''] [] False router_init = Inr (d, st)
     \<and> rd_route d = K3_VERIFY \<and> rd_mode d = LAYERED"
  using demo_route_result by (auto simp: demo_route_def split: sum.splits prod.splits)

theorem routes_are_justified_witness:
  "\<exists>d st. route_action demo_guard_env demo_policy ''p1'' ''send_l2'' [] [''r1''] [] False router_init = Inr (d, st)
     \<and> (rd_route d = MERGE_QUEUE \<longrightarrow> rd_confidence d < 1 / 2)"
  using demo_route_run routes_are_justified by blast

text \<open>The router acts in layered mode only when the policy asks for it and every
  gate guard passes; in particular the consumer's heartbeat is fresh, the exactly-once canary
  passed, the rollback key is set, and an authorization bound to the policy in force is at
  most an hour old. When a guard fails, the downgrade to shadow is recorded with the guards
  that failed.\<close>

theorem layered_needs_every_guard:
  assumes "effective_mode env policy st = Inr (mode, st')" and "routing_mode policy = ''layered''"
  shows "(mode = LAYERED \<longrightarrow>
      canary_ok env \<and> validator_enabled env \<and> rollback_available policy \<and> verifier_pinned env policy
      \<and> (\<exists>max_age. heartbeat_ok env max_age)
      \<and> fst (layered_authorization (g_marker env) (g_now env) 3600 (g_policy_hash env)))
    \<and> (mode \<noteq> LAYERED \<longrightarrow> mode = SHADOW \<and>
        (\<exists>guards. guards \<noteq> [] \<and> mode_downgrades st' = mode_downgrades st @ [guards]))"
  using assms
  by (auto simp: effective_mode_def Let_def mode_of_def check_layered_gate_guards_def guards_passed_def
      failing_def authorization_ok_def split: sum.splits if_splits)

theorem layered_needs_every_guard_witness:
  "\<exists>st'. effective_mode demo_guard_env demo_policy router_init = Inr (LAYERED, st') \<and> canary_ok demo_guard_env"
proof -
  have mode: "routing_mode demo_policy = ''layered''" by code_simp
  obtain d st where run: "route_action demo_guard_env demo_policy ''p1'' ''send_l2'' [] [''r1''] [] False router_init
      = Inr (d, st)" and "rd_mode d = LAYERED" using demo_route_run by blast
  from run obtain m st1 c where eff: "effective_mode demo_guard_env demo_policy router_init = Inr (m, st1)"
    and "rd_mode d = m" by (rule route_action_cases)
  with \<open>rd_mode d = LAYERED\<close> layered_needs_every_guard [OF eff mode] show ?thesis by auto
qed

section \<open>Calibration\<close>

definition entry :: "int \<Rightarrow> int \<Rightarrow> json" where
  "entry k n = JObj [(''escalated'', JInt k), (''total'', JInt n)]"

definition seen :: "string \<Rightarrow> (string \<times> bool) list \<Rightarrow> int" where
  "seen fp outcomes = int (length (filter (\<lambda>o'. fst o' = fp) outcomes))"

definition escalations :: "string \<Rightarrow> (string \<times> bool) list \<Rightarrow> int" where
  "escalations fp outcomes = int (length (filter (\<lambda>o'. fst o' = fp \<and> snd o') outcomes))"

text \<open>The corpus holds exactly the counts of the outcomes fed into it.\<close>

definition counts_match :: "(string \<times> bool) list \<Rightarrow> jobj \<Rightarrow> bool" where
  "counts_match outcomes doc =
     (\<forall>fp. map_of doc fp =
        (if seen fp outcomes = 0 then None else Some (entry (escalations fp outcomes) (seen fp outcomes))))"

lemma seen_snoc: "seen fp (os @ [x]) = seen fp os + (if fst x = fp then 1 else 0)"
  by (simp add: seen_def)

lemma escalations_snoc:
  "escalations fp (os @ [x]) = escalations fp os + (if fst x = fp \<and> snd x then 1 else 0)"
  by (simp add: escalations_def)

lemma seen_nonneg: "0 \<le> seen fp os"
  by (simp add: seen_def)

lemma unseen_escalations: "seen fp os = 0 \<Longrightarrow> escalations fp os = 0"
  by (auto simp: seen_def escalations_def filter_empty_conv)

lemma bump_entry_counts:
  "bump_entry esc [(''escalated'', JInt k), (''total'', JInt n)]
     = Inr [(''escalated'', JInt (if esc then k + 1 else k)), (''total'', JInt (n + 1))]"
  by (simp add: bump_entry_def py_simps)

lemma record_outcome_counts:
  assumes "counts_match os doc"
  shows "\<exists>doc'. record_outcome x doc = Inr doc' \<and> counts_match (os @ [x]) doc'"
proof -
  let ?fp = "fst x"
  let ?doc = "dict_setdefault ?fp (entry 0 0) doc"
  have found: "jget ?doc ?fp = entry (escalations ?fp os) (seen ?fp os)"
    using assms unseen_escalations [of ?fp os]
    by (auto simp: counts_match_def jget_def dict_get_or_def entry_def)
  let ?e = "entry (escalations ?fp (os @ [x])) (seen ?fp (os @ [x]))"
  have "record_outcome x doc = Inr (dict_set ?fp ?e ?doc)"
    using found [unfolded entry_def]
    by (simp add: record_outcome_def Let_def entry_def bump_entry_counts seen_snoc escalations_snoc)
  moreover have "counts_match (os @ [x]) (dict_set ?fp ?e ?doc)"
    using assms seen_nonneg [of ?fp os]
    by (auto simp: counts_match_def seen_snoc escalations_snoc)
  ultimately show ?thesis by blast
qed

lemma record_outcomes_counts:
  "\<exists>doc. run_steps record_outcome os [] = Inr doc \<and> counts_match os doc"
proof (induction os rule: rev_induct)
  case Nil
  then show ?case by (simp add: counts_match_def seen_def)
next
  case (snoc x os)
  then obtain doc where "run_steps record_outcome os [] = Inr doc" "counts_match os doc" by blast
  with record_outcome_counts [of os doc x] show ?case
    by (auto simp: run_steps_append)
qed

text \<open>Feeding outcomes into the corpus never fails, and the calibrated probability
  of a fingerprint is then the smoothed frequency (k + 1) / (n + 2) of its n outcomes, k of
  them escalations: one half without history, and strictly between zero and one.\<close>

theorem calibration_is_laplace:
  "\<exists>doc. run_steps record_outcome outcomes [] = Inr doc
    \<and> p_escalate doc fp = Inr ((of_int (escalations fp outcomes) + 1) / (of_int (seen fp outcomes) + 2))
    \<and> 0 < (of_int (escalations fp outcomes) + 1) / (of_int (seen fp outcomes) + (2 :: rat))
    \<and> (of_int (escalations fp outcomes) + 1) / (of_int (seen fp outcomes) + (2 :: rat)) < 1"
proof -
  obtain doc where run: "run_steps record_outcome outcomes [] = Inr doc" and c: "counts_match outcomes doc"
    using record_outcomes_counts by blast
  have "escalations fp outcomes \<le> seen fp outcomes"
    unfolding escalations_def seen_def by (induction outcomes) auto
  moreover have e0: "0 \<le> escalations fp outcomes" by (simp add: escalations_def)
  ultimately have less: "(of_int (escalations fp outcomes) + 1 :: rat) < of_int (seen fp outcomes) + 2"
    by linarith
  have pos: "(0 :: rat) < of_int (seen fp outcomes) + 2" "(0 :: rat) < of_int (escalations fp outcomes) + 1"
    using seen_nonneg [of fp outcomes] e0 by linarith+
  have "p_escalate doc fp = Inr ((of_int (escalations fp outcomes) + 1) / (of_int (seen fp outcomes) + 2))"
    using c pos unseen_escalations [of fp outcomes]
    by (auto simp: counts_match_def p_escalate_def jget_or_def dict_get_or_def entry_def
        PRIOR_ESCALATE_def PRIOR_TOTAL_def)
  then show ?thesis using run less pos by simp
qed

text \<open>In layered mode a high-risk packet whose verdict was already raised to the human gate
  is routed back to Sol.\<close>

lemma high_risk_overrides_l4:
  "layered_route ''direct_l4'' confidence meta True = (SOL_ADJUDICATE_R, SOL_HIGH_RISK, ''direct_l3'')"
  by (simp add: layered_route_def)

end
