(* ===== verification/Trigger_Eval.thy ===== *)
theory Trigger_Eval
  imports Router
begin

text \<open>
  The L1 trigger evaluator, \<open>src/harness/trigger_eval_v2.py\<close>: signal derivation, the predicate
  table, severity-max evaluation with the hardcoded high-risk rail, sampled verification, the
  three-mode switch, the idempotent L2 request and the L3 call cap. Signals are a typed
  record (a signal of another type raises in the code and is not modelled); an absent key is
  \<open>None\<close> or its default. The fixed regular expressions are written out as substring tests.
  The SHA-256 prefix and JSON rendering are the arguments \<open>digest8\<close>, \<open>b32digest\<close> and
  \<open>render\<close>.
\<close>

section \<open>Signals\<close>

record signals =
  sg_packet_id :: string
  sg_command_history :: "string list"
  sg_observation_lengths :: "int list option"
  sg_observation_length :: "int option"
  sg_exit_codes :: "int list"
  sg_retry_count :: int
  sg_run_level_budget :: int
  sg_diff_lines :: int
  sg_deleted_lines :: int
  sg_diff_budget :: "int option"
  sg_path_boundary_attempts :: int
  sg_boundary_probe_in_log :: bool
  sg_test_count_before :: "int option"
  sg_test_count_after :: "int option"
  sg_min_test_count :: "int option"
  sg_requires_new_tests :: bool
  sg_test_assertions_modified :: bool
  sg_paths_touched :: "string list"
  sg_file_deletions :: int
  sg_consecutive_same_type_failures :: bool
  sg_retry_class_no_match :: bool
  sg_prior_ruling_confidence :: "rat option"
  sg_evidence_missing :: bool

record derived = signals +
  loop_max :: int
  obs_over_3000 :: nat
  high_risk_path_hits :: "string list"
  flapping :: bool

definition SEVERITY :: "(string \<times> nat) list" where
  "SEVERITY = [(''pass'', 0), (''annotated_pass'', 1), (''spawn_duty_officer'', 2),
     (''send_l2'', 3), (''direct_l3'', 4), (''direct_l4'', 5)]"

section \<open>The fixed path patterns\<close>

text \<open>\<open>re.search\<close> of a literal under \<open>IGNORECASE\<close>; \<open>$\<close> also matches before a final newline.\<close>

definition contains_ci :: "string \<Rightarrow> string \<Rightarrow> bool" where
  "contains_ci s lit = sublist lit (py_lower s)"

definition ends_ci :: "string \<Rightarrow> string \<Rightarrow> bool" where
  "ends_ci s lit = (suffix lit (py_lower s) \<or> suffix (lit @ [CHR 0x0A]) (py_lower s))"

definition migration_path :: "string \<Rightarrow> bool" where
  "migration_path p = (contains_ci p ''migration/'' \<or> contains_ci p ''migrations/''
     \<or> contains_ci p ''schema/'' \<or> ends_ci p ''.sql'')"

definition credential_path :: "string \<Rightarrow> bool" where
  "credential_path p = list_ex (contains_ci p)
     [''.env'', ''secrets'', ''credentials'', ''.aws/'', ''.ssh/'', ''auth.json'']"

definition ci_path :: "string \<Rightarrow> bool" where
  "ci_path p = list_ex (contains_ci p) [''.github/workflows/'', ''.gitlab-ci'', ''jenkinsfile'', ''.circleci/'']"

text \<open>\<open>config/.*\.(toml|yaml)\<close>: the dot does not match a newline.\<close>

definition config_file :: "string \<Rightarrow> bool" where
  "config_file p = list_ex (\<lambda>t. prefix ''config/'' t \<and>
     (let rest = takeWhile (\<lambda>c. c \<noteq> CHR 0x0A) (drop 7 t) in sublist ''.toml'' rest \<or> sublist ''.yaml'' rest))
     (suffixes (py_lower p))"

definition hook_path :: "string \<Rightarrow> bool" where
  "hook_path p = (contains_ci p ''hooks/'' \<or> contains_ci p ''agents.md'')"

definition high_risk_path :: "string \<Rightarrow> bool" where
  "high_risk_path p = (migration_path p \<or> credential_path p \<or> ci_path p \<or> hook_path p)"

section \<open>Derivation\<close>

definition command_counts :: "string list \<Rightarrow> int dict" where
  "command_counts cmds = fold (\<lambda>c d. dict_set c (dict_get_or 0 c d + 1) d) cmds []"

definition max_value :: "int dict \<Rightarrow> int" where
  "max_value d = (case map snd d of [] \<Rightarrow> 0 | v # vs \<Rightarrow> fold max vs v)"

definition observations :: "('a signals_scheme) \<Rightarrow> int list" where
  "observations s = (case sg_observation_lengths s of Some xs \<Rightarrow> xs
     | None \<Rightarrow> (case sg_observation_length s of Some x \<Rightarrow> [x] | None \<Rightarrow> []))"

definition flips :: "int list \<Rightarrow> nat" where
  "flips ec = length (filter (\<lambda>(a, b). (a = 0) \<noteq> (b = 0)) (zip ec (tl ec)))"

definition derive :: "signals \<Rightarrow> derived" where
  "derive s = signals.extend s
     (derived.fields (max_value (command_counts (sg_command_history s)))
        (length (filter (\<lambda>x. 3000 < x) (observations s)))
        (sort (filter high_risk_path (sg_paths_touched s)))
        (3 \<le> length (sg_exit_codes s) \<and> 2 \<le> flips (sg_exit_codes s)))"

section \<open>Predicates\<close>

definition with_budget :: "derived \<Rightarrow> (rat \<Rightarrow> rat \<Rightarrow> bool) \<Rightarrow> bool" where
  "with_budget d P = (case sg_diff_budget d of None \<Rightarrow> False
     | Some b \<Rightarrow> P (of_int (sg_diff_lines d)) (of_int b))"

definition both :: "int option \<Rightarrow> int option \<Rightarrow> (int \<Rightarrow> int \<Rightarrow> bool) \<Rightarrow> bool" where
  "both a b P = (case (a, b) of (Some x, Some y) \<Rightarrow> P x y | _ \<Rightarrow> False)"

definition PREDICATES :: "(string \<times> (derived \<Rightarrow> bool)) list" where
  "PREDICATES =
   [(''exit_clean_single_run'', \<lambda>d. sg_exit_codes d = [0]),
    (''exit_nonzero_then_clean'', \<lambda>d. 2 \<le> length (sg_exit_codes d) \<and> last (sg_exit_codes d) = 0
       \<and> list_ex (\<lambda>c. c \<noteq> 0) (butlast (sg_exit_codes d))),
    (''exit_flapping'', flapping),
    (''exit_signal_kill'', \<lambda>d. list_ex (\<lambda>c. c \<in> {137, 139, 143}) (sg_exit_codes d)),
    (''exit_persistent_failure'', \<lambda>d. 2 \<le> length (sg_exit_codes d) \<and> last (sg_exit_codes d) \<noteq> 0
       \<and> last (sg_exit_codes d) = last (butlast (sg_exit_codes d))),
    (''retry_none'', \<lambda>d. sg_retry_count d = 0),
    (''retry_single'', \<lambda>d. sg_retry_count d = 1),
    (''retry_double'', \<lambda>d. sg_retry_count d = 2),
    (''retry_exhausted'', \<lambda>d. sg_run_level_budget d \<le> sg_retry_count d),
    (''diff_within_budget'', \<lambda>d. with_budget d (\<lambda>n b. 0 < n \<and> n \<le> b)),
    (''diff_near_budget'', \<lambda>d. with_budget d (\<lambda>n b. b < n \<and> n \<le> 12 / 10 * b)),
    (''diff_over_budget'', \<lambda>d. with_budget d (\<lambda>n b. 12 / 10 * b < n \<and> n \<le> 2 * b)),
    (''diff_runaway'', \<lambda>d. with_budget d (\<lambda>n b. 2 * b < n)),
    (''diff_empty'', \<lambda>d. sg_diff_lines d = 0),
    (''path_boundary_attempt'', \<lambda>d. 0 < sg_path_boundary_attempts d),
    (''path_boundary_probe_in_log'', sg_boundary_probe_in_log),
    (''test_count_increased'', \<lambda>d. both (sg_test_count_before d) (sg_test_count_after d) (\<lambda>x y. x < y)),
    (''test_count_unchanged'', \<lambda>d. both (sg_test_count_before d) (sg_test_count_after d) (\<lambda>x y. x = y)
       \<and> sg_requires_new_tests d),
    (''test_count_decreased'', \<lambda>d. both (sg_test_count_before d) (sg_test_count_after d) (\<lambda>x y. y < x)),
    (''test_assertions_modified'', sg_test_assertions_modified),
    (''test_below_min_count'', \<lambda>d. both (sg_min_test_count d) (sg_test_count_after d) (\<lambda>m y. y < m)),
    (''high_risk_migration_path'', \<lambda>d. list_ex migration_path (sg_paths_touched d)),
    (''high_risk_credential_path'', \<lambda>d. list_ex credential_path (sg_paths_touched d)),
    (''high_risk_ci_path'', \<lambda>d. list_ex ci_path (sg_paths_touched d)),
    (''high_risk_mass_deletion'', \<lambda>d. 200 < sg_deleted_lines d \<or> 0 < sg_file_deletions d),
    (''high_risk_hook_or_config'', \<lambda>d. list_ex (\<lambda>p. hook_path p \<or> config_file p) (sg_paths_touched d)),
    (''observation_oversize'', \<lambda>d. 1 \<le> obs_over_3000 d),
    (''observation_oversize_repeated'', \<lambda>d. 3 \<le> obs_over_3000 d),
    (''loop_fingerprint_warn'', \<lambda>d. 3 \<le> loop_max d \<and> loop_max d \<le> 4),
    (''loop_fingerprint_hit'', \<lambda>d. 5 \<le> loop_max d),
    (''loop_fingerprint_hard'', \<lambda>d. 10 \<le> loop_max d),
    (''consecutive_same_type_failures'', sg_consecutive_same_type_failures),
    (''retry_regex_no_match'', sg_retry_class_no_match),
    (''low_confidence_ruling'', \<lambda>d. case sg_prior_ruling_confidence d of None \<Rightarrow> False | Some x \<Rightarrow> x < 7 / 10),
    (''evidence_missing'', sg_evidence_missing)]"

section \<open>The table\<close>

record trigger_rule =
  r_name :: string
  r_action :: "string option"
  r_priority :: int
  r_high_risk :: bool

record trigger_table =
  t_default_action :: string
  t_partitions :: "(string \<times> trigger_rule list) list"

text \<open>A rule without a priority key has priority \<open>10 ** 9\<close>; Python's sort is stable.\<close>

definition table_rules :: "trigger_table \<Rightarrow> trigger_rule list" where
  "table_rules table = sort_key r_priority (concat (map snd (t_partitions table)))"

definition rule_hits :: "derived \<Rightarrow> trigger_rule \<Rightarrow> bool" where
  "rule_hits d r = (case map_of PREDICATES (r_name r) of None \<Rightarrow> False | Some pred \<Rightarrow> pred d)"

definition rule_action :: "trigger_table \<Rightarrow> trigger_rule \<Rightarrow> string" where
  "rule_action table r = (case r_action r of Some a \<Rightarrow> a | None \<Rightarrow> t_default_action table)"

definition severity_or :: "nat \<Rightarrow> string \<Rightarrow> nat" where
  "severity_or dflt a = (case map_of SEVERITY a of Some n \<Rightarrow> n | None \<Rightarrow> dflt)"

definition take_rule :: "string \<Rightarrow> string option \<Rightarrow> string option" where
  "take_rule act action = (case action of
       None \<Rightarrow> Some act
     | Some a \<Rightarrow> if severity_or 0 a < severity_or 3 act then Some act else Some a)"

fun scan_rules ::
  "derived \<Rightarrow> trigger_table \<Rightarrow> trigger_rule list \<Rightarrow> string option \<times> string list \<times> bool \<times> bool
     \<Rightarrow> string option \<times> string list \<times> bool \<times> bool" where
  "scan_rules d table [] acc = acc"
| "scan_rules d table (r # rs) (action, hits, high_risk, duty) =
     (if \<not> rule_hits d r then scan_rules d table rs (action, hits, high_risk, duty)
      else let act = rule_action table r in
           scan_rules d table rs
             (take_rule act action, hits @ [r_name r], high_risk \<or> r_high_risk r,
              duty \<or> act = ''spawn_duty_officer''))"

definition evaluate_table :: "derived \<Rightarrow> trigger_table \<Rightarrow> string \<times> string list \<times> bool \<times> bool" where
  "evaluate_table d table =
     (let (action, hits, high_risk, duty) = scan_rules d table (table_rules table) (None, [], False, False);
          path_hit = high_risk_path_hits d \<noteq> [];
          hits1 = (if path_hit then hits @ [''HARDCODED-high-risk-path''] else hits);
          high_risk1 = (high_risk \<or> path_hit);
          action1 = (if high_risk1 then Some ''direct_l3'' else action) in
      case action1 of
        Some a \<Rightarrow> (a, hits1, high_risk1, duty)
      | None \<Rightarrow> (t_default_action table, hits1 @ [''OFF_TABLE-default''], high_risk1, duty))"

section \<open>Sampling and the mode switch\<close>

definition sampled_for_verification :: "(string \<Rightarrow> nat) \<Rightarrow> string \<Rightarrow> rat \<Rightarrow> bool" where
  "sampled_for_verification digest8 packet_id rate =
     (if rate \<le> 0 then False else of_nat (digest8 packet_id) / 2 ^ 64 < rate)"

record l2_record =
  l2_reason :: string
  l2_packet :: string
  l2_run :: string
  l2_attempt :: int
  l2_key :: string
  l2_rules :: "string list"

text \<open>Results of one evaluation, as logged.\<close>

record trigger_out =
  to_packet :: string
  to_action :: string
  to_raw :: string
  to_mode :: routing_mode
  to_rules :: "string list"
  to_duty :: bool
  to_high_risk :: bool
  to_l3_calls :: "int option"

text \<open>
  What the evaluator owns beside the router's files: the pending queue as lines of text, its
  shadow log, the L3 counter file and the escalation log.
\<close>

record trigger_state =
  ts_router :: router_state
  ts_pending :: "string list"
  ts_shadow :: "(string \<times> string \<times> string list) list"
  ts_l3_counters :: "int dict"
  ts_log :: "trigger_out list"

definition l2_record_exists :: "string list \<Rightarrow> string \<Rightarrow> bool" where
  "l2_record_exists pending key = list_ex (sublist key) pending"

definition upgrade :: "string \<Rightarrow> string" where
  "upgrade action = (if action \<in> {''direct_l3'', ''direct_l4''} then action else ''direct_l3'')"

definition send_l2 ::
  "(l2_record \<Rightarrow> string) \<Rightarrow> (string \<Rightarrow> string) \<Rightarrow> string \<Rightarrow> string \<Rightarrow> int \<Rightarrow> string list
     \<Rightarrow> trigger_state \<Rightarrow> trigger_state" where
  "send_l2 render b32digest packet_id run_id attempt rules_hit st =
     (let key = idem_key b32digest ''l2req'' packet_id [run_id, show_int attempt] in
      if l2_record_exists (ts_pending st) key then st
      else st\<lparr>ts_pending := ts_pending st @ [render
             \<lparr>l2_reason = (if rules_hit = [] then ''send_l2'' else last rules_hit), l2_packet = packet_id,
              l2_run = run_id, l2_attempt = attempt, l2_key = key, l2_rules = take_last 8 rules_hit\<rparr>]\<rparr>)"

record trigger_env =
  te_guards :: guard_env
  te_policy :: jobj
  te_digest8 :: "string \<Rightarrow> nat"
  te_b32digest :: "string \<Rightarrow> string"
  te_render :: "l2_record \<Rightarrow> string"
  te_run_id :: string
  te_attempt :: int
  te_ladder :: "json option"
  te_str :: "json \<Rightarrow> string"
  te_counter_io :: bool

definition apply_routing_mode ::
  "trigger_env \<Rightarrow> string \<Rightarrow> string \<Rightarrow> string list \<Rightarrow> trigger_state
     \<Rightarrow> py_error + (string \<times> routing_mode \<times> string list \<times> trigger_state)" where
  "apply_routing_mode env action packet_id rules_hit st =
     (case effective_mode (te_guards env) (te_policy env) (ts_router st) of
        Inl e \<Rightarrow> Inl e
      | Inr (mode, router) \<Rightarrow>
          (let st1 = st\<lparr>ts_router := router\<rparr> in
           case mode of
             COLD_START \<Rightarrow> Inr (upgrade action, mode, rules_hit, st1)
           | SHADOW \<Rightarrow> Inr (upgrade action, mode, rules_hit,
                 st1\<lparr>ts_shadow := ts_shadow st1 @ [(packet_id, action, rules_hit)]\<rparr>)
           | LAYERED \<Rightarrow>
               (let sampled = (action = ''pass'' \<and> sampled_for_verification (te_digest8 env) packet_id
                                 (verify_sample_rate (te_policy env)));
                    rules1 = (if sampled then rules_hit @ [''SAMPLED_VERIFICATION''] else rules_hit);
                    action1 = (if sampled then ''send_l2'' else action) in
                Inr (action1, mode, rules1,
                     if action1 = ''send_l2''
                     then send_l2 (te_render env) (te_b32digest env) packet_id (te_run_id env)
                            (te_attempt env) rules1 st1
                     else st1))))"

section \<open>The L3 cap\<close>

text \<open>Cap and target from the ladder file; \<open>str_of\<close> is \<open>str(\<dots>)\<close>.\<close>

definition load_l3_cap :: "(json \<Rightarrow> string) \<Rightarrow> json option \<Rightarrow> py_error + int \<times> string" where
  "load_l3_cap str_of ladder =
     (case ladder of
        None \<Rightarrow> Inr (2, ''L4'')
      | Some doc \<Rightarrow>
          (case py_or doc (JObj []) of
             JObj d \<Rightarrow>
               (case jget_or (JObj []) d ''levels'' of
                  JObj levels \<Rightarrow>
                    (case jget_or (JObj []) levels ''L3'' of
                       JObj l3 \<Rightarrow>
                         (case py_int (jget_or (JInt 2) l3 ''per_packet_call_cap'') of
                            Inr n \<Rightarrow> Inr (n, str_of (jget_or (JStr ''L4'') l3 ''on_cap_exceeded''))
                          | Inl e \<Rightarrow> if e = ValueError then Inr (2, ''L4'') else Inl e)
                     | _ \<Rightarrow> Inr (2, ''L4''))
                | _ \<Rightarrow> Inr (2, ''L4''))
           | _ \<Rightarrow> Inr (2, ''L4'')))"

definition bump_l3_counter :: "int \<Rightarrow> bool \<Rightarrow> string \<Rightarrow> int dict \<Rightarrow> (int \<times> bool) \<times> int dict" where
  "bump_l3_counter cap io_ok pid counters =
     (if \<not> io_ok then ((cap + 1, True), counters)
      else let count = dict_get_or 0 pid counters + 1 in
           ((count, cap < count), dict_set pid count counters))"

interpretation l3_counter: capped_counter "bump_l3_counter cap" "\<lambda>c k. dict_get_or 0 k c" cap for cap
  by unfold_locales (auto simp: bump_l3_counter_def Let_def split: if_splits)

definition trigger_main ::
  "trigger_env \<Rightarrow> trigger_table \<Rightarrow> signals \<Rightarrow> trigger_state \<Rightarrow> py_error + (trigger_out \<times> trigger_state)" where
  "trigger_main env table raw st =
     (let pid = sg_packet_id raw;
          (raw_action, hits, high_risk, duty) = evaluate_table (derive raw) table in
      case apply_routing_mode env raw_action pid hits st of
        Inl e \<Rightarrow> Inl e
      | Inr (action, mode, hits1, st1) \<Rightarrow>
          (case (if action = ''direct_l3'' then load_l3_cap (te_str env) (te_ladder env) else Inr (0, [])) of
             Inl e \<Rightarrow> Inl e
           | Inr (cap, target) \<Rightarrow>
               (let ((calls, exceeded), counters) =
                      (if action = ''direct_l3''
                       then bump_l3_counter cap (te_counter_io env) pid (ts_l3_counters st1)
                       else ((0, False), ts_l3_counters st1));
                    out = \<lparr>to_packet = pid,
                           to_action = (if exceeded then ''direct_l4'' else action),
                           to_raw = raw_action, to_mode = mode,
                           to_rules = (if exceeded then hits1 @ [''L3_CAP_EXCEEDED->'' @ target] else hits1),
                           to_duty = duty, to_high_risk = high_risk,
                           to_l3_calls = (if action = ''direct_l3'' then Some calls else None)\<rparr>
                in Inr (out, st1\<lparr>ts_l3_counters := counters, ts_log := ts_log st1 @ [out]\<rparr>))))"

end
