(* ===== verification/Severity.thy ===== *)
theory Severity
  imports Py_Prelude
begin

text \<open>
  Several components fold a list of verdicts into the most severe one. The contract of the
  folding step, and what every fold then returns: one of the verdicts, and none above it.
\<close>

locale worst_of =
  fixes rank :: "'a \<Rightarrow> nat"
    and pick :: "'a \<Rightarrow> 'a option \<Rightarrow> 'a option"
    and known :: "'a \<Rightarrow> bool"
  assumes pick_first: "pick x None = Some x"
    and pick_next: "known x \<Longrightarrow> known a \<Longrightarrow> pick x (Some a) = Some (if rank a < rank x then x else a)"
begin

lemma fold_from:
  "list_all known xs \<Longrightarrow> known a \<Longrightarrow>
     \<exists>y. fold pick xs (Some a) = Some y \<and> y \<in> insert a (set xs) \<and> (\<forall>x \<in> insert a (set xs). rank x \<le> rank y)"
proof (induction xs arbitrary: a)
  case Nil
  then show ?case by simp
next
  case (Cons x xs)
  let ?b = "if rank a < rank x then x else a"
  have "known ?b" "list_all known xs" using Cons.prems by auto
  from Cons.IH [OF this(2,1)] obtain y where
    "fold pick xs (Some ?b) = Some y" "y \<in> insert ?b (set xs)" "\<forall>z \<in> insert ?b (set xs). rank z \<le> rank y"
    by blast
  moreover have "fold pick (x # xs) (Some a) = fold pick xs (Some ?b)"
    using Cons.prems by (simp add: pick_next)
  moreover have "rank a \<le> rank ?b" "rank x \<le> rank ?b" by auto
  ultimately show ?case by (intro exI [of _ y]) (auto split: if_splits intro: order_trans)
qed

lemma fold_worst:
  assumes "list_all known xs"
  shows "fold pick xs None = None \<longleftrightarrow> xs = []"
    and "fold pick xs None = Some y \<Longrightarrow> y \<in> set xs \<and> (\<forall>x \<in> set xs. rank x \<le> rank y)"
proof -
  have cons: "\<exists>y. fold pick xs None = Some y \<and> y \<in> set xs \<and> (\<forall>x \<in> set xs. rank x \<le> rank y)"
    if ne: "xs \<noteq> []"
  proof -
    obtain x xs' where "xs = x # xs'" using ne by (meson list.exhaust)
    then show ?thesis using fold_from [of xs' x] assms by (simp add: pick_first)
  qed
  show "fold pick xs None = None \<longleftrightarrow> xs = []" using cons by (cases "xs = []") auto
  show "fold pick xs None = Some y \<Longrightarrow> y \<in> set xs \<and> (\<forall>x \<in> set xs. rank x \<le> rank y)"
    using cons by (cases "xs = []") auto
qed

end

end
