(* ===== verification/Trigger_Properties.thy ===== *)
theory Trigger_Properties
  imports Trigger_Eval Severity
begin

text \<open>
  Properties of the trigger evaluator: the verdict is the most severe hit and never silent,
  high-risk work reaches Sol or a human in every mode, an L2 request is queued once, and the
  L3 cap bounds the Sol calls of a packet over any number of evaluations.
\<close>

section \<open>The verdict of the table\<close>

definition known_action :: "string \<Rightarrow> bool" where
  "known_action a = (map_of SEVERITY a \<noteq> None)"

lemma severity_known: "known_action a \<Longrightarrow> severity_or n a = severity_or 0 a"
  by (auto simp: known_action_def severity_or_def)

interpretation verdicts: worst_of "severity_or 0" take_rule known_action
  by unfold_locales (auto simp: take_rule_def severity_known [of _ 3])

definition hit_rules :: "derived \<Rightarrow> trigger_table \<Rightarrow> trigger_rule list" where
  "hit_rules d table = filter (rule_hits d) (table_rules table)"

lemma scan_rules_fold:
  "scan_rules d table rs (a, h, hr, du) =
     (fold take_rule (map (rule_action table) (filter (rule_hits d) rs)) a,
      h @ map r_name (filter (rule_hits d) rs),
      hr \<or> list_ex r_high_risk (filter (rule_hits d) rs),
      du \<or> list_ex (\<lambda>r. rule_action table r = ''spawn_duty_officer'') (filter (rule_hits d) rs))"
  by (induction rs arbitrary: a h hr du) (auto simp: Let_def)

lemma set_table_rules: "set (table_rules table) = (\<Union>p \<in> set (t_partitions table). set (snd p))"
  by (simp add: table_rules_def)

lemma evaluate_table_eq:
  "evaluate_table d table =
     (let hits = hit_rules d table;
          path_hit = high_risk_path_hits d \<noteq> [];
          high_risk = (list_ex r_high_risk hits \<or> path_hit);
          names = map r_name hits @ (if path_hit then [''HARDCODED-high-risk-path''] else []);
          duty = list_ex (\<lambda>r. rule_action table r = ''spawn_duty_officer'') hits in
      case (if high_risk then Some ''direct_l3'' else fold take_rule (map (rule_action table) hits) None) of
        Some a \<Rightarrow> (a, names, high_risk, duty)
      | None \<Rightarrow> (t_default_action table, names @ [''OFF_TABLE-default''], high_risk, duty))"
  by (simp add: evaluate_table_def scan_rules_fold hit_rules_def Let_def split: option.split)

text \<open>The table's verdict: a high-risk rule or a high-risk path forces direct_l3;
  otherwise, when the actions of the rules that hit are known ones, the verdict is the action
  of a rule that hit and no hit is more severe; and when nothing hits, the verdict is the
  default and is marked off-table, so it is never a silent pass.\<close>

theorem verdict_is_most_severe:
  assumes "evaluate_table d table = (action, hits, high_risk, duty)"
  shows "(high_risk \<longleftrightarrow> high_risk_path_hits d \<noteq> [] \<or> (\<exists>r \<in> set (hit_rules d table). r_high_risk r))
    \<and> (high_risk \<longrightarrow> action = ''direct_l3'')
    \<and> (\<not> high_risk \<and> hit_rules d table \<noteq> []
         \<and> list_all known_action (map (rule_action table) (hit_rules d table)) \<longrightarrow>
         (\<exists>r \<in> set (hit_rules d table). action = rule_action table r)
         \<and> (\<forall>r \<in> set (hit_rules d table). severity_or 0 (rule_action table r) \<le> severity_or 0 action))
    \<and> (\<not> high_risk \<and> hit_rules d table = [] \<longrightarrow>
         action = t_default_action table \<and> hits = [''OFF_TABLE-default''])"
proof -
  let ?hits = "hit_rules d table" and ?acts = "map (rule_action table) (hit_rules d table)"
  note ev = assms [unfolded evaluate_table_eq Let_def]
  have hr: "high_risk \<longleftrightarrow> list_ex r_high_risk ?hits \<or> high_risk_path_hits d \<noteq> []"
    using ev by (auto split: option.splits if_splits)
  have l3: "high_risk \<longrightarrow> action = ''direct_l3''"
    using ev hr by (auto split: if_splits)
  have worst: "action \<in> set ?acts \<and> (\<forall>x \<in> set ?acts. severity_or 0 x \<le> severity_or 0 action)"
    if "\<not> high_risk" "?hits \<noteq> []" "list_all known_action ?acts"
  proof -
    have "fold take_rule ?acts None \<noteq> None" using verdicts.fold_worst(1) [OF that(3)] that(2) by simp
    then have "fold take_rule ?acts None = Some action"
      using ev hr that(1) by (auto split: if_splits)
    then show ?thesis by (rule verdicts.fold_worst(2) [OF that(3)])
  qed
  have off: "action = t_default_action table \<and> hits = [''OFF_TABLE-default'']"
    if "\<not> high_risk" "?hits = []"
    using ev hr that by (auto split: if_splits)
  show ?thesis using hr l3 worst off by (auto simp: list_ex_iff)
qed

definition demo_signals :: signals where
  "demo_signals = \<lparr>sg_packet_id = ''p1'', sg_command_history = [''make''], sg_observation_lengths = None,
     sg_observation_length = None, sg_exit_codes = [0], sg_retry_count = 0, sg_run_level_budget = 3,
     sg_diff_lines = 10, sg_deleted_lines = 0, sg_diff_budget = Some 100, sg_path_boundary_attempts = 0,
     sg_boundary_probe_in_log = False, sg_test_count_before = None, sg_test_count_after = None,
     sg_min_test_count = None, sg_requires_new_tests = False, sg_test_assertions_modified = False,
     sg_paths_touched = [''src/a.py''], sg_file_deletions = 0, sg_consecutive_same_type_failures = False,
     sg_retry_class_no_match = False, sg_prior_ruling_confidence = None, sg_evidence_missing = False\<rparr>"

definition demo_table :: trigger_table where
  "demo_table = \<lparr>t_default_action = ''send_l2'', t_partitions =
     [(''exit'', [\<lparr>r_name = ''exit_clean_single_run'', r_action = Some ''pass'', r_priority = 2, r_high_risk = False\<rparr>,
                 \<lparr>r_name = ''diff_within_budget'', r_action = Some ''annotated_pass'', r_priority = 1, r_high_risk = False\<rparr>])]\<rparr>"

lemma demo_verdict: "evaluate_table (derive demo_signals) demo_table
    = (''annotated_pass'', [''diff_within_budget'', ''exit_clean_single_run''], False, False)"
  by code_simp

theorem verdict_is_most_severe_witness:
  "\<exists>r \<in> set (hit_rules (derive demo_signals) demo_table). ''annotated_pass'' = rule_action demo_table r"
proof -
  have "hit_rules (derive demo_signals) demo_table \<noteq> []
      \<and> list_all known_action (map (rule_action demo_table) (hit_rules (derive demo_signals) demo_table))"
    by code_simp
  then show ?thesis using verdict_is_most_severe [OF demo_verdict] by blast
qed

section \<open>One evaluation\<close>

lemma trigger_main_cases:
  assumes "trigger_main env table raw st = Inr (out, st')"
  obtains action mode hits st1 cap target calls exceeded counters where
    "apply_routing_mode env (fst (evaluate_table (derive raw) table)) (sg_packet_id raw)
       (fst (snd (evaluate_table (derive raw) table))) st = Inr (action, mode, hits, st1)"
    "to_action out = (if exceeded then ''direct_l4'' else action)" "to_mode out = mode"
    "to_packet out = sg_packet_id raw"
    "to_high_risk out = fst (snd (snd (evaluate_table (derive raw) table)))"
    "ts_log st' = ts_log st1 @ [out]" "ts_l3_counters st' = counters"
    "if action = ''direct_l3''
     then load_l3_cap (te_str env) (te_ladder env) = Inr (cap, target)
       \<and> bump_l3_counter cap (te_counter_io env) (sg_packet_id raw) (ts_l3_counters st1)
           = ((calls, exceeded), counters)
     else \<not> exceeded \<and> counters = ts_l3_counters st1"
proof -
  obtain raw_action hits0 high_risk duty where ev:
    "evaluate_table (derive raw) table = (raw_action, hits0, high_risk, duty)" by (metis prod_cases4)
  note run = assms [unfolded trigger_main_def Let_def ev prod.case]
  obtain action mode hits st1 where a:
    "apply_routing_mode env raw_action (sg_packet_id raw) hits0 st = Inr (action, mode, hits, st1)"
    using run by (auto split: sum.splits)
  note run1 = run [unfolded a sum.case prod.case]
  show ?thesis
  proof (cases "action = ''direct_l3''")
    case True
    then obtain cap target where c: "load_l3_cap (te_str env) (te_ladder env) = Inr (cap, target)"
      using run1 by (auto split: sum.splits)
    obtain calls exceeded counters where b:
      "bump_l3_counter cap (te_counter_io env) (sg_packet_id raw) (ts_l3_counters st1)
         = ((calls, exceeded), counters)" by (metis prod.exhaust)
    show ?thesis
      by (rule that [of action mode hits st1 exceeded counters cap target calls])
         (use run1 a ev True c b in auto)
  next
    case False
    show ?thesis
      by (rule that [of action mode hits st1 False "ts_l3_counters st1"]) (use run1 a ev False in auto)
  qed
qed

lemma apply_routing_mode_keeps:
  assumes "apply_routing_mode env action pid hits st = Inr (a, mode, h, st1)"
  shows "ts_l3_counters st1 = ts_l3_counters st \<and> ts_log st1 = ts_log st
    \<and> (mode \<noteq> LAYERED \<longrightarrow> a = upgrade action)
    \<and> (action \<noteq> ''pass'' \<longrightarrow> a = action \<or> a = upgrade action)"
  using assms
  by (auto simp: apply_routing_mode_def Let_def send_l2_def split: sum.splits prod.splits routing_mode.splits if_splits)

text \<open>In every mode, a packet that hit a high-risk rule or touched a high-risk path
  ends at Sol or at a human; outside layered mode every packet does.\<close>

theorem high_risk_reaches_sol:
  assumes "trigger_main env table raw st = Inr (out, st')"
    and "to_high_risk out \<or> to_mode out \<noteq> LAYERED"
  shows "to_action out \<in> {''direct_l3'', ''direct_l4''}"
  using assms(1)
proof (cases rule: trigger_main_cases)
  case (1 action mode hits st1 cap target calls exceeded counters)
  obtain raw_action hits0 high_risk duty where ev:
    "evaluate_table (derive raw) table = (raw_action, hits0, high_risk, duty)" by (metis prod_cases4)
  have a: "apply_routing_mode env raw_action (sg_packet_id raw) hits0 st = Inr (action, mode, hits, st1)"
    using 1(1) ev by simp
  have "high_risk \<longrightarrow> raw_action = ''direct_l3''"
    using ev unfolding evaluate_table_eq Let_def by (auto split: if_splits option.splits)
  moreover have "upgrade x \<in> {''direct_l3'', ''direct_l4''}" for x by (simp add: upgrade_def)
  moreover have "high_risk \<or> mode \<noteq> LAYERED" using assms(2) 1 ev by auto
  ultimately have "action \<in> {''direct_l3'', ''direct_l4''}"
    using apply_routing_mode_keeps [OF a] by fastforce
  then show ?thesis using 1(2) by auto
qed

definition demo_trigger_env :: trigger_env where
  "demo_trigger_env = \<lparr>te_guards = demo_guard_env, te_policy = [], te_digest8 = (\<lambda>_. 0),
     te_b32digest = (\<lambda>s. s), te_render = l2_key, te_run_id = ''r1'', te_attempt = 0,
     te_ladder = None, te_str = (\<lambda>_. []), te_counter_io = True\<rparr>"

definition trigger_init :: trigger_state where
  "trigger_init = \<lparr>ts_router = router_init, ts_pending = [], ts_shadow = [], ts_l3_counters = [], ts_log = []\<rparr>"

definition demo_trigger :: "(string \<times> routing_mode) option" where
  "demo_trigger = (case trigger_main demo_trigger_env demo_table demo_signals trigger_init of
     Inl e \<Rightarrow> None | Inr (out, st) \<Rightarrow> Some (to_action out, to_mode out))"

lemma demo_trigger_result: "demo_trigger = Some (''direct_l3'', COLD_START)"
  by code_simp

lemma demo_trigger_run:
  "\<exists>out st. trigger_main demo_trigger_env demo_table demo_signals trigger_init = Inr (out, st)
     \<and> to_mode out = COLD_START"
  using demo_trigger_result by (auto simp: demo_trigger_def split: sum.splits prod.splits)

theorem high_risk_reaches_sol_witness:
  "\<exists>out st. trigger_main demo_trigger_env demo_table demo_signals trigger_init = Inr (out, st)
     \<and> to_action out \<in> {''direct_l3'', ''direct_l4''}"
proof -
  obtain out st where run: "trigger_main demo_trigger_env demo_table demo_signals trigger_init = Inr (out, st)"
    and "to_mode out = COLD_START" using demo_trigger_run by blast
  then show ?thesis using high_risk_reaches_sol [OF run] by auto
qed

section \<open>The L3 cap over many evaluations\<close>

definition l3_calls :: "string \<Rightarrow> trigger_out list \<Rightarrow> int" where
  "l3_calls pid entries = int (length (filter (\<lambda>o'. to_packet o' = pid \<and> to_action o' = ''direct_l3'') entries))"

definition trigger_step ::
  "trigger_env \<times> trigger_table \<times> signals \<Rightarrow> trigger_state \<Rightarrow> py_error + trigger_state" where
  "trigger_step input st =
     (case input of (env, table, raw) \<Rightarrow>
        (case trigger_main env table raw st of Inl e \<Rightarrow> Inl e | Inr (_, st') \<Rightarrow> Inr st'))"

definition capped_at :: "int \<Rightarrow> trigger_env \<times> trigger_table \<times> signals \<Rightarrow> bool" where
  "capped_at cap input = (\<exists>target. load_l3_cap (te_str (fst input)) (te_ladder (fst input)) = Inr (cap, target))"

definition l3_inv :: "int \<Rightarrow> trigger_state \<Rightarrow> bool" where
  "l3_inv cap st = (\<forall>pid. l3_calls pid (ts_log st) \<le> dict_get_or 0 pid (ts_l3_counters st)
      \<and> l3_calls pid (ts_log st) \<le> max 0 cap)"

lemma l3_calls_snoc:
  "l3_calls pid (entries @ [out]) = l3_calls pid entries
     + (if to_packet out = pid \<and> to_action out = ''direct_l3'' then 1 else 0)"
  by (simp add: l3_calls_def)

lemma trigger_step_inv:
  assumes "trigger_step input st = Inr st'" and "capped_at cap input" and inv: "l3_inv cap st"
  shows "l3_inv cap st'"
proof -
  obtain env table raw where input: "input = (env, table, raw)" by (cases input)
  then obtain out where "trigger_main env table raw st = Inr (out, st')"
    using assms(1) by (auto simp: trigger_step_def split: sum.splits)
  then show ?thesis
  proof (cases rule: trigger_main_cases)
    case (1 action mode hits st1 cap' target calls exceeded counters)
    note keep = apply_routing_mode_keeps [OF 1(1)]
    show ?thesis
    proof (cases "action = ''direct_l3''")
      case True
      then have "cap' = cap" using 1(8) assms(2) input by (auto simp: capped_at_def)
      with True have b: "bump_l3_counter cap (te_counter_io env) (sg_packet_id raw) (ts_l3_counters st)
          = ((calls, exceeded), counters)" using 1(8) keep by simp
      show ?thesis unfolding l3_inv_def
      proof
        fix pid
        have old: "l3_calls pid (ts_log st) \<le> dict_get_or 0 pid (ts_l3_counters st)"
          "l3_calls pid (ts_log st) \<le> max 0 cap" using inv by (simp_all add: l3_inv_def)
        have grown: "l3_calls pid (ts_log st) \<le> dict_get_or 0 pid counters"
          using l3_counter.used_le_stored [OF b old(1)] .
        have one: "l3_calls pid (ts_log st) + 1 \<le> dict_get_or 0 pid counters
            \<and> l3_calls pid (ts_log st) + 1 \<le> max 0 cap" if "\<not> exceeded" "pid = sg_packet_id raw"
          using l3_counter.within_count_le [of cap "te_counter_io env" "sg_packet_id raw"
              "ts_l3_counters st" calls counters "l3_calls pid (ts_log st)"] b old(1) that by (simp add: le_max_iff_disj)
        show "l3_calls pid (ts_log st') \<le> dict_get_or 0 pid (ts_l3_counters st')
            \<and> l3_calls pid (ts_log st') \<le> max 0 cap"
          using grown old one 1 keep True
          by (cases "exceeded"; cases "pid = sg_packet_id raw") (simp_all add: l3_calls_snoc)
      qed
    next
      case False
      then have "to_action out \<noteq> ''direct_l3''" using 1 by auto
      then show ?thesis using inv 1 keep False by (simp add: l3_inv_def l3_calls_snoc)
    qed
  qed
qed

text \<open>However often a packet is evaluated, under whatever tables, signals, modes and
  counter failures, at most the cap of its evaluations call Sol directly; the rest of its
  direct verdicts go to the human gate.\<close>

theorem l3_cap_bounds_sol_calls:
  assumes "run_steps trigger_step inputs st = Inr st'" and "list_all (capped_at cap) inputs"
    and "ts_log st = []" and "ts_l3_counters st = []"
  shows "l3_calls pid (ts_log st') \<le> max 0 cap"
proof -
  have "l3_inv cap st" using assms(3,4) by (simp add: l3_inv_def l3_calls_def dict_get_or_def)
  then have "l3_inv cap st'" using assms(1,2)
  proof (induction inputs arbitrary: st)
    case Nil
    then show ?case by simp
  next
    case (Cons x xs)
    then obtain st1 where step: "trigger_step x st = Inr st1" and rest: "run_steps trigger_step xs st1 = Inr st'"
      by (auto split: sum.splits)
    have "l3_inv cap st1" by (rule trigger_step_inv [OF step]) (use Cons.prems in simp_all)
    then show ?case using Cons.IH rest Cons.prems by simp
  qed
  then show ?thesis by (simp add: l3_inv_def)
qed

definition demo_evaluations :: "(trigger_env \<times> trigger_table \<times> signals) list" where
  "demo_evaluations = replicate 3 (demo_trigger_env, demo_table, demo_signals)"

definition demo_l3 :: "(string list \<times> int) option" where
  "demo_l3 = (case run_steps trigger_step demo_evaluations trigger_init of
     Inl e \<Rightarrow> None | Inr st \<Rightarrow> Some (map to_action (ts_log st), l3_calls ''p1'' (ts_log st)))"

lemma demo_l3_result: "demo_l3 = Some ([''direct_l3'', ''direct_l3'', ''direct_l4''], 2)"
  by code_simp

theorem l3_cap_bounds_sol_calls_witness:
  "\<exists>st. run_steps trigger_step demo_evaluations trigger_init = Inr st \<and> l3_calls ''p1'' (ts_log st) \<le> 2"
proof -
  obtain st where run: "run_steps trigger_step demo_evaluations trigger_init = Inr st"
    using demo_l3_result by (auto simp: demo_l3_def split: sum.splits)
  have "list_all (capped_at 2) demo_evaluations"
    by (simp add: demo_evaluations_def capped_at_def demo_trigger_env_def load_l3_cap_def list_all_iff)
  from l3_cap_bounds_sol_calls [OF run this, of "''p1''"] run show ?thesis
    by (simp add: trigger_init_def)
qed

section \<open>The L2 request\<close>

lemma send_l2_present:
  assumes "\<And>r. sublist (l2_key r) (render r)"
  shows "l2_record_exists (ts_pending (send_l2 render b pid run att hits st))
    (idem_key b ''l2req'' pid [run, show_int att])"
  using assms [of "\<lparr>l2_reason = (if hits = [] then ''send_l2'' else last hits), l2_packet = pid,
      l2_run = run, l2_attempt = att, l2_key = idem_key b ''l2req'' pid [run, show_int att],
      l2_rules = take_last 8 hits\<rparr>"]
  by (simp add: send_l2_def Let_def l2_record_exists_def)

text \<open>The L2 request is queued once: after an evaluation that sent a packet to the
  verifier in layered mode, evaluating the same packet, run and attempt again in layered mode
  leaves the pending queue as it is, whatever rules hit this time and whatever other writers
  appended in between. The rendering of a record is assumed to show its key.\<close>

theorem l2_request_is_idempotent:
  assumes "apply_routing_mode env action pid hits st = Inr (''send_l2'', LAYERED, h1, st1)"
    and "apply_routing_mode env2 action2 pid hits2 st2 = Inr (a2, LAYERED, h2, st3)"
    and "te_render env2 = te_render env" and "te_b32digest env2 = te_b32digest env"
    and "te_run_id env2 = te_run_id env" and "te_attempt env2 = te_attempt env"
    and "prefix (ts_pending st1) (ts_pending st2)"
    and "\<And>r. sublist (l2_key r) (te_render env r)"
  shows "ts_pending st3 = ts_pending st2"
proof -
  let ?key = "idem_key (te_b32digest env) ''l2req'' pid [te_run_id env, show_int (te_attempt env)]"
  obtain rules st0 where "st1 = send_l2 (te_render env) (te_b32digest env) pid (te_run_id env)
      (te_attempt env) rules st0"
    using assms(1) by (auto simp: apply_routing_mode_def Let_def upgrade_def
        split: sum.splits prod.splits routing_mode.splits if_splits)
  then have "l2_record_exists (ts_pending st1) ?key" using send_l2_present assms(8) by blast
  then have "l2_record_exists (ts_pending st2) ?key"
    using assms(7) by (auto simp: l2_record_exists_def prefix_def)
  then have "ts_pending (send_l2 (te_render env) (te_b32digest env) pid (te_run_id env)
      (te_attempt env) rules' (st2\<lparr>ts_router := r\<rparr>)) = ts_pending st2" for rules' r
    by (simp add: send_l2_def Let_def)
  then show ?thesis
    using assms(2-6) by (auto simp: apply_routing_mode_def Let_def
        split: sum.splits prod.splits routing_mode.splits if_splits)
qed

definition layered_trigger_env :: trigger_env where
  "layered_trigger_env = demo_trigger_env\<lparr>te_policy := demo_policy\<rparr>"

definition demo_l2 :: "(string \<times> routing_mode \<times> nat) option" where
  "demo_l2 = (case apply_routing_mode layered_trigger_env ''send_l2'' ''p1'' [] trigger_init of
     Inl e \<Rightarrow> None | Inr (a, m, h, st) \<Rightarrow> Some (a, m, length (ts_pending st)))"

lemma demo_l2_result: "demo_l2 = Some (''send_l2'', LAYERED, 1)"
  by code_simp

theorem l2_request_is_idempotent_witness:
  "\<exists>h1 st1. apply_routing_mode layered_trigger_env ''send_l2'' ''p1'' [] trigger_init
      = Inr (''send_l2'', LAYERED, h1, st1)
     \<and> (\<forall>a2 h2 st3. apply_routing_mode layered_trigger_env ''send_l2'' ''p1'' [''r''] st1
          = Inr (a2, LAYERED, h2, st3) \<longrightarrow> length (ts_pending st3) = 1)"
proof -
  obtain h1 st1 where run: "apply_routing_mode layered_trigger_env ''send_l2'' ''p1'' [] trigger_init
      = Inr (''send_l2'', LAYERED, h1, st1)" and one: "length (ts_pending st1) = 1"
    using demo_l2_result by (auto simp: demo_l2_def split: sum.splits prod.splits)
  have shows_key: "sublist (l2_key r) (te_render layered_trigger_env r)" for r
    by (simp add: layered_trigger_env_def demo_trigger_env_def)
  have "length (ts_pending st3) = 1"
    if "apply_routing_mode layered_trigger_env ''send_l2'' ''p1'' [''r''] st1 = Inr (a2, LAYERED, h2, st3)"
    for a2 h2 st3
    using l2_request_is_idempotent [OF run that refl refl refl refl _ shows_key] one by simp
  then show ?thesis using run by blast
qed

end
