(* ===== verification/Dag_Gate.thy ===== *)
theory Dag_Gate
  imports Py_Prelude
begin

text \<open>
  The DAG assertion before dispatch, \<open>src/harness/dag_assert.py\<close>: Kahn's algorithm over the
  edge list and the pairwise disjointness of the authorized paths within a wave. The packet
  files are the function \<open>paths_of\<close> (\<open>None\<close>: missing, unreadable or without
  \<open>authorized_paths\<close>, which ends the script with exit code 2).
\<close>

section \<open>Kahn's algorithm\<close>

type_synonym edges = "(string \<times> string) list"

definition dag_nodes :: "edges \<Rightarrow> string list list \<Rightarrow> string list" where
  "dag_nodes edges waves = remdups (concat (map (\<lambda>(a, b). [a, b]) edges) @ concat waves)"

definition in_degrees :: "string list \<Rightarrow> edges \<Rightarrow> int dict" where
  "in_degrees nodes edges =
     fold (\<lambda>(a, b) d. dict_set b (dict_get_or 0 b d + 1) d) edges (map (\<lambda>n. (n, 0)) nodes)"

text \<open>The body of the loop for one popped node: the inner loop over all edges.\<close>

definition relax :: "string \<Rightarrow> string \<times> string \<Rightarrow> int dict \<times> string list \<Rightarrow> int dict \<times> string list" where
  "relax n e acc =
     (case e of (a, b) \<Rightarrow> (case acc of (indeg, queue) \<Rightarrow>
        if a = n
        then (let k = dict_get_or 0 b indeg - 1 in
              (dict_set b k indeg, if k = 0 then queue @ [b] else queue))
        else (indeg, queue)))"

text \<open>
  \<open>while queue\<close> with fuel: every node enters the queue at most once, so the number of nodes
  is enough (\<open>kahn_decides\<close>). The result is the number of nodes sorted.
\<close>

fun kahn_loop :: "nat \<Rightarrow> edges \<Rightarrow> int dict \<Rightarrow> string list \<Rightarrow> nat \<Rightarrow> nat option" where
  "kahn_loop fuel edges indeg [] seen = Some seen"
| "kahn_loop 0 edges indeg (q # queue) seen = None"
| "kahn_loop (Suc fuel) edges indeg (q # queue) seen =
     (let n = last (q # queue);
          (indeg', queue') = fold (relax n) edges (indeg, butlast (q # queue)) in
      kahn_loop fuel edges indeg' queue' (seen + 1))"

definition kahn :: "edges \<Rightarrow> string list list \<Rightarrow> nat option" where
  "kahn edges waves =
     (let nodes = dag_nodes edges waves; indeg = in_degrees nodes edges in
      kahn_loop (length nodes) edges indeg (filter (\<lambda>n. dict_get_or 0 n indeg = 0) nodes) 0)"

section \<open>Path isolation\<close>

definition norm_path :: "string \<Rightarrow> string" where
  "norm_path p = rev (dropWhile (\<lambda>c. c = CHR ''/'') (rev p)) @ ''/''"

definition paths_intersect :: "string \<Rightarrow> string \<Rightarrow> bool" where
  "paths_intersect pa pb =
     (prefix (norm_path pb) (norm_path pa) \<or> prefix (norm_path pa) (norm_path pb))"

fun load_wave :: "(string \<Rightarrow> string list option) \<Rightarrow> string list \<Rightarrow> (string list) list option" where
  "load_wave paths_of [] = Some []"
| "load_wave paths_of (pid # wave) =
     (case paths_of pid of
        None \<Rightarrow> None
      | Some ps \<Rightarrow> map_option (\<lambda>rest. ps # rest) (load_wave paths_of wave))"

fun wave_disjoint :: "string list list \<Rightarrow> bool" where
  "wave_disjoint [] = True"
| "wave_disjoint (ps # rest) =
     (list_all (\<lambda>qs. list_all (\<lambda>pa. list_all (\<lambda>pb. \<not> paths_intersect pa pb) qs) ps) rest
      \<and> wave_disjoint rest)"

fun check_waves :: "(string \<Rightarrow> string list option) \<Rightarrow> string list list \<Rightarrow> nat" where
  "check_waves paths_of [] = 0"
| "check_waves paths_of (wave # waves) =
     (case load_wave paths_of wave of
        None \<Rightarrow> 2
      | Some pss \<Rightarrow> if wave_disjoint pss then check_waves paths_of waves else 1)"

text \<open>The script's exit code: 0 pass, 1 assertion failed, 2 bad input.\<close>

definition dag_assert :: "edges \<Rightarrow> string list list \<Rightarrow> (string \<Rightarrow> string list option) \<Rightarrow> nat" where
  "dag_assert edges waves paths_of =
     (if kahn edges waves \<noteq> Some (length (dag_nodes edges waves)) then 1
      else check_waves paths_of waves)"

section \<open>The inner loop\<close>

definition edge_count :: "edges \<Rightarrow> string \<Rightarrow> string \<Rightarrow> nat" where
  "edge_count edges n b = length (filter (\<lambda>e. e = (n, b)) edges)"

lemma edge_count_simps [simp]:
  "edge_count [] n b = 0"
  "edge_count (e # es) n b = (if e = (n, b) then 1 else 0) + edge_count es n b"
  by (simp_all add: edge_count_def)

text \<open>
  After the inner loop, each in-degree has dropped by the edges from the popped node, and
  exactly the nodes whose in-degree that brought to zero were appended, once each.
\<close>

lemma relax_pair: "relax n (a, b) (indeg, queue) =
    (if a = n then (dict_set b (dict_get_or 0 b indeg - 1) indeg,
                    if dict_get_or 0 b indeg - 1 = 0 then queue @ [b] else queue)
     else (indeg, queue))"
  by (simp add: relax_def Let_def)

lemma relax_fold:
  assumes "\<And>b. int (edge_count es n b) \<le> dict_get_or 0 b indeg"
    and "distinct queue" and "\<And>b. 0 < edge_count es n b \<Longrightarrow> b \<notin> set queue"
    and "fold (relax n) es (indeg, queue) = (indeg', queue')"
  shows "(\<forall>b. dict_get_or 0 b indeg' = dict_get_or 0 b indeg - int (edge_count es n b))
    \<and> distinct queue'
    \<and> set queue' = set queue \<union> {b. 0 < edge_count es n b \<and> dict_get_or 0 b indeg = int (edge_count es n b)}"
  using assms
proof (induction es arbitrary: indeg queue)
  case Nil
  then show ?case by auto
next
  case (Cons e es)
  obtain a b where e: "e = (a, b)" by (cases e)
  show ?case
  proof (cases "a = n")
    case False
    then have "fold (relax n) es (indeg, queue) = (indeg', queue')"
      using Cons.prems(4) unfolding e by (simp add: relax_pair)
    from Cons.IH [OF _ Cons.prems(2) _ this] Cons.prems(1,3) e False show ?thesis by simp
  next
    case True
    let ?k = "dict_get_or 0 b indeg - 1"
    let ?indeg = "dict_set b ?k indeg" and ?queue = "if ?k = 0 then queue @ [b] else queue"
    have run: "fold (relax n) es (?indeg, ?queue) = (indeg', queue')"
      using Cons.prems(4) True unfolding e by (simp add: relax_pair)
    have b1: "edge_count (e # es) n b = Suc (edge_count es n b)" using e True by simp
    have other: "edge_count (e # es) n c = edge_count es n c" if "c \<noteq> b" for c using e that by simp
    have le: "int (Suc (edge_count es n b)) \<le> dict_get_or 0 b indeg" using Cons.prems(1) [of b] b1 by simp
    have le': "\<And>c. int (edge_count es n c) \<le> dict_get_or 0 c ?indeg"
      using Cons.prems(1) other le by (metis add_le_imp_le_diff dict_get_or_set of_nat_Suc add.commute)
    have bq: "b \<notin> set queue" using Cons.prems(3) [of b] b1 by simp
    then have dist: "distinct ?queue" using Cons.prems(2) by simp
    have fresh: "c \<notin> set ?queue" if c: "0 < edge_count es n c" for c
    proof (cases "c = b")
      case True
      then have "?k \<noteq> 0" using c le by simp
      then show ?thesis using True bq by simp
    next
      case False
      then show ?thesis using Cons.prems(3) [of c] other [of c] c by simp
    qed
    have IH: "(\<forall>c. dict_get_or 0 c indeg' = dict_get_or 0 c ?indeg - int (edge_count es n c))
        \<and> distinct queue'
        \<and> set queue' = set ?queue \<union> {c. 0 < edge_count es n c \<and> dict_get_or 0 c ?indeg = int (edge_count es n c)}"
      by (rule Cons.IH [OF le' dist fresh run])
    have "set ?queue \<union> {c. 0 < edge_count es n c \<and> dict_get_or 0 c ?indeg = int (edge_count es n c)}
        = set queue \<union> {c. 0 < edge_count (e # es) n c \<and> dict_get_or 0 c indeg = int (edge_count (e # es) n c)}"
      (is "?l = ?r")
    proof (rule set_eqI)
      fix c
      show "c \<in> ?l \<longleftrightarrow> c \<in> ?r" using le other [of c] b1 by (cases "c = b") auto
    qed
    moreover have "dict_get_or 0 c ?indeg - int (edge_count es n c)
        = dict_get_or 0 c indeg - int (edge_count (e # es) n c)" for c
      using other [of c] b1 by (cases "c = b") simp_all
    ultimately show ?thesis using IH by simp
  qed
qed

end
