(* ===== verification/Dag_Properties.thy ===== *)
theory Dag_Properties
  imports Dag_Gate
begin

text \<open>
  The DAG gate decides what it claims: Kahn's loop ends within its fuel and sorts every node
  exactly when the edges are acyclic, and an accepted wave gives no file to two packets.
\<close>

section \<open>The invariant of the loop\<close>

text \<open>In-edges from nodes not yet removed.\<close>

definition live :: "edges \<Rightarrow> string set \<Rightarrow> string \<Rightarrow> nat" where
  "live edges R n = length (filter (\<lambda>e. snd e = n \<and> fst e \<notin> R) edges)"

lemma live_Nil [simp]: "live [] R n = 0"
  by (simp add: live_def)

lemma live_Cons [simp]:
  "live (e # es) R n = (if snd e = n \<and> fst e \<notin> R then 1 else 0) + live es R n"
  by (simp add: live_def)

lemma count_le_live: "n \<notin> R \<Longrightarrow> edge_count es n b \<le> live es R b"
  by (induction es) auto

lemma live_insert: "n \<notin> R \<Longrightarrow> live es (insert n R) b = live es R b - edge_count es n b"
proof (induction es)
  case Nil
  then show ?case by simp
next
  case (Cons e es)
  then show ?case using count_le_live [of n R es b] by (cases e) auto
qed

lemma live_zero: "live es R n = 0 \<longleftrightarrow> (\<forall>a. (a, n) \<in> set es \<longrightarrow> a \<in> R)"
  by (induction es) (auto split: if_splits)

text \<open>The removed nodes, the last one first: every edge into one comes from an earlier one.\<close>

fun sorted_so_far :: "edges \<Rightarrow> string list \<Rightarrow> bool" where
  "sorted_so_far es [] = True"
| "sorted_so_far es (r # rs) = ((\<forall>a. (a, r) \<in> set es \<longrightarrow> a \<in> set rs) \<and> sorted_so_far es rs)"

definition kahn_inv :: "edges \<Rightarrow> string set \<Rightarrow> int dict \<Rightarrow> string list \<Rightarrow> string list \<Rightarrow> bool" where
  "kahn_inv es N indeg queue rs =
     (distinct (rs @ queue)
      \<and> (\<forall>n. dict_get_or 0 n indeg = int (live es (set rs) n))
      \<and> set (rs @ queue) = {n \<in> N. live es (set rs) n = 0}
      \<and> sorted_so_far es rs)"

lemma kahn_step:
  assumes inv: "kahn_inv es N indeg (q # queue) rs" and closed: "\<And>a b. (a, b) \<in> set es \<Longrightarrow> b \<in> N"
    and n: "n = last (q # queue)"
    and run: "fold (relax n) es (indeg, butlast (q # queue)) = (indeg', queue')"
  shows "kahn_inv es N indeg' queue' (n # rs)"
proof -
  define rest where "rest = butlast (q # queue)"
  let ?R = "set rs"
  have split: "q # queue = rest @ [n]" using n by (simp add: rest_def)
  note inv' = inv [unfolded split kahn_inv_def]
  have dist: "distinct (rs @ rest @ [n])"
    and deg: "\<And>b. dict_get_or 0 b indeg = int (live es ?R b)"
    and zero: "?R \<union> set rest \<union> {n} = {x \<in> N. live es ?R x = 0}"
    and topo: "sorted_so_far es rs"
    using inv' by auto
  have nR: "n \<notin> ?R" and n0: "live es ?R n = 0" and nN: "n \<in> N" using dist zero by auto
  have nself: "edge_count es n n = 0" using count_le_live [OF nR, of es n] n0 by simp
  have fresh: "b \<notin> ?R \<union> set rest" if "0 < edge_count es n b" for b
  proof -
    have "live es ?R b \<noteq> 0" using count_le_live [OF nR, of es b] that by simp
    then have "b \<notin> {x \<in> N. live es ?R x = 0}" by simp
    then show ?thesis unfolding zero [symmetric] by simp
  qed
  note run' = run [folded rest_def]
  have relaxed: "(\<forall>b. dict_get_or 0 b indeg' = dict_get_or 0 b indeg - int (edge_count es n b))
    \<and> distinct queue'
    \<and> set queue' = set rest \<union> {b. 0 < edge_count es n b \<and> dict_get_or 0 b indeg = int (edge_count es n b)}"
    by (rule relax_fold [OF _ _ _ run']) (use count_le_live [OF nR] deg dist fresh in auto)
  have deg': "dict_get_or 0 b indeg' = int (live es (set (n # rs)) b)" for b
    using relaxed deg [of b] live_insert [OF nR, of es b] count_le_live [OF nR, of es b]
    by (simp add: of_nat_diff)
  have zero': "set ((n # rs) @ queue') = {x \<in> N. live es (set (n # rs)) x = 0}" (is "?l = ?r")
  proof (rule set_eqI)
    fix x
    have inN: "0 < edge_count es n x \<Longrightarrow> x \<in> N"
      using closed by (auto simp: edge_count_def length_greater_0_conv filter_empty_conv)
    have "live es (set (n # rs)) x = 0 \<longleftrightarrow> live es ?R x = edge_count es n x"
      using live_insert [OF nR, of es x] count_le_live [OF nR, of es x] by auto
    then have "x \<in> ?r \<longleftrightarrow> x \<in> N \<and> (live es ?R x = 0 \<or> (0 < edge_count es n x \<and> live es ?R x = edge_count es n x))"
      using count_le_live [OF nR, of es x] by auto
    also have "\<dots> \<longleftrightarrow> x \<in> ?R \<union> set rest \<union> {n} \<or> (0 < edge_count es n x \<and> live es ?R x = edge_count es n x)"
      unfolding zero using inN by auto
    also have "\<dots> \<longleftrightarrow> x \<in> ?l" using relaxed deg [of x] by auto
    finally show "x \<in> ?l \<longleftrightarrow> x \<in> ?r" by simp
  qed
  have "distinct ((n # rs) @ queue')"
    using relaxed dist fresh nself by auto
  moreover have "sorted_so_far es (n # rs)" using topo n0 by (simp add: live_zero)
  ultimately show ?thesis using deg' zero' by (simp add: kahn_inv_def)
qed

lemma kahn_loop_ends:
  assumes closed: "\<And>a b. (a, b) \<in> set es \<Longrightarrow> b \<in> N" and fin: "finite N"
  shows "kahn_inv es N indeg queue rs \<Longrightarrow> card N \<le> length rs + fuel \<Longrightarrow>
    \<exists>rs' indeg'. kahn_loop fuel es indeg queue (length rs) = Some (length rs') \<and> kahn_inv es N indeg' [] rs'"
proof (induction fuel arbitrary: indeg queue rs)
  case 0
  have "length rs + length queue = card {n \<in> N. live es (set rs) n = 0}"
    using "0.prems"(1) distinct_card [of "rs @ queue"] by (simp add: kahn_inv_def)
  also have "\<dots> \<le> card N" by (rule card_mono [OF fin]) auto
  finally have "length queue = 0" using "0.prems"(2) by linarith
  then have "queue = []" by simp
  then show ?case using "0.prems"(1) by auto
next
  case (Suc fuel)
  show ?case
  proof (cases queue)
    case Nil
    then show ?thesis using Suc.prems(1) by auto
  next
    case (Cons q qs)
    let ?n = "last (q # qs)"
    obtain indeg' queue' where run: "fold (relax ?n) es (indeg, butlast (q # qs)) = (indeg', queue')"
      by (metis prod.exhaust)
    have "kahn_inv es N indeg' queue' (?n # rs)"
      by (rule kahn_step [OF Suc.prems(1) [unfolded Cons] closed refl run])
    from Suc.IH [OF this] Suc.prems(2) show ?thesis
      unfolding Cons using run by (simp add: Let_def)
  qed
qed

section \<open>Sorted completely means acyclic\<close>

fun place :: "string list \<Rightarrow> string \<Rightarrow> nat" where
  "place [] x = 0"
| "place (r # rs) x = (if x = r then Suc (length rs) else place rs x)"

lemma place_le: "place rs x \<le> length rs"
  by (induction rs) auto

lemma sorted_closed: "sorted_so_far es rs \<Longrightarrow> (a, b) \<in> set es \<Longrightarrow> b \<in> set rs \<Longrightarrow> a \<in> set rs"
  by (induction rs) auto

lemma sorted_place:
  "sorted_so_far es rs \<Longrightarrow> distinct rs \<Longrightarrow> (a, b) \<in> set es \<Longrightarrow> b \<in> set rs \<Longrightarrow> place rs a < place rs b"
proof (induction rs)
  case Nil
  then show ?case by simp
next
  case (Cons r rs)
  show ?case
  proof (cases "b = r")
    case True
    then have "a \<in> set rs" using Cons.prems by simp
    then have "a \<noteq> r" using Cons.prems(2) by auto
    then show ?thesis using True place_le [of rs a] by simp
  next
    case False
    then have "b \<in> set rs" "a \<in> set rs" using Cons.prems sorted_closed by auto
    then show ?thesis using Cons False by auto
  qed
qed

lemma sorted_acyclic:
  assumes "sorted_so_far es rs" and "distinct rs" and "\<And>a b. (a, b) \<in> set es \<Longrightarrow> b \<in> set rs"
  shows "acyclic (set es)"
proof -
  have "set es \<subseteq> measure (place rs)" using sorted_place assms by auto
  then show ?thesis by (meson wf_acyclic wf_measure wf_subset)
qed

lemma acyclic_all_sorted:
  assumes "acyclic (set es)" and inv: "kahn_inv es N indeg [] rs"
    and closed: "\<And>a b. (a, b) \<in> set es \<Longrightarrow> a \<in> N \<and> b \<in> N"
  shows "set rs = N"
proof (rule ccontr)
  assume ne: "set rs \<noteq> N"
  have zero: "n \<in> set rs \<longleftrightarrow> n \<in> N \<and> live es (set rs) n = 0" for n
    using inv unfolding kahn_inv_def set_eq_iff by simp
  obtain x where x: "x \<in> N - set rs" using ne zero by blast
  have "wf (set es)" using assms(1) by (intro finite_acyclic_wf) simp_all
  from wfE_min [OF this x] obtain z where z: "z \<in> N - set rs"
    and least: "\<And>y. (y, z) \<in> set es \<Longrightarrow> y \<notin> N - set rs" by blast
  have "live es (set rs) z \<noteq> 0" using z zero [of z] by simp
  then obtain a where "(a, z) \<in> set es" "a \<notin> set rs" by (auto simp: live_zero)
  then show False using least closed by blast
qed

section \<open>The start of the loop\<close>

lemma in_degrees_start:
  assumes "\<And>n. dict_get_or 0 n d = f n"
  shows "dict_get_or 0 n (fold (\<lambda>(a, b) d. dict_set b (dict_get_or 0 b d + 1) d) es d)
    = f n + int (live es {} n)"
  using assms
proof (induction es arbitrary: d f)
  case Nil
  then show ?case by simp
next
  case (Cons e es)
  obtain a b where e: "e = (a, b)" by (cases e)
  have "\<And>n. dict_get_or 0 n (dict_set b (dict_get_or 0 b d + 1) d) = f n + (if n = b then 1 else 0)"
    using Cons.prems by simp
  from Cons.IH [OF this] e show ?case by simp
qed

lemma in_degrees_live: "dict_get_or 0 n (in_degrees nodes es) = int (live es {} n)"
proof -
  have "dict_get_or 0 n (map (\<lambda>n. (n, 0)) nodes) = (0 :: int)" for n
    by (induction nodes) (auto simp: dict_get_or_def)
  then show ?thesis using in_degrees_start [of "map (\<lambda>n. (n, 0)) nodes" "\<lambda>_. 0"]
    by (simp add: in_degrees_def)
qed

lemma set_dag_nodes: "set (dag_nodes es waves) = fst ` set es \<union> snd ` set es \<union> set (concat waves)"
  by (force simp: dag_nodes_def)

lemma kahn_start:
  "kahn_inv es (set (dag_nodes es waves)) (in_degrees (dag_nodes es waves) es)
     (filter (\<lambda>n. dict_get_or 0 n (in_degrees (dag_nodes es waves) es) = 0) (dag_nodes es waves)) []"
  by (auto simp: kahn_inv_def in_degrees_live) (simp add: dag_nodes_def)

lemma kahn_result:
  "\<exists>rs indeg. kahn es waves = Some (length rs) \<and> kahn_inv es (set (dag_nodes es waves)) indeg [] rs"
proof -
  have closed: "\<And>a b. (a, b) \<in> set es \<Longrightarrow> b \<in> set (dag_nodes es waves)"
    by (force simp: set_dag_nodes)
  have "distinct (dag_nodes es waves)" by (simp add: dag_nodes_def)
  then have "card (set (dag_nodes es waves)) \<le> length ([] :: string list) + length (dag_nodes es waves)"
    by (simp add: distinct_card)
  from kahn_loop_ends [OF closed finite_set kahn_start this] show ?thesis
    by (simp add: kahn_def Let_def)
qed

lemma kahn_acyclic:
  "kahn es waves = Some (length (dag_nodes es waves)) \<longleftrightarrow> acyclic (set es)"
proof -
  let ?N = "set (dag_nodes es waves)"
  obtain rs indeg where k: "kahn es waves = Some (length rs)" and inv: "kahn_inv es ?N indeg [] rs"
    using kahn_result by blast
  have closed: "\<And>a b. (a, b) \<in> set es \<Longrightarrow> a \<in> ?N \<and> b \<in> ?N" by (force simp: set_dag_nodes)
  have d: "distinct rs" and sub: "set rs \<subseteq> ?N" and sorted: "sorted_so_far es rs"
    using inv by (auto simp: kahn_inv_def)
  have len: "length rs = card (set rs)" "length (dag_nodes es waves) = card ?N"
    using d distinct_card [of "dag_nodes es waves"] by (simp_all add: distinct_card dag_nodes_def)
  have "length rs = length (dag_nodes es waves) \<longleftrightarrow> set rs = ?N"
    using len sub card_subset_eq [of ?N "set rs"] by auto
  also have "\<dots> \<longleftrightarrow> acyclic (set es)"
    using sorted_acyclic [OF sorted d] acyclic_all_sorted [OF _ inv closed] closed by blast
  finally show ?thesis using k by simp
qed

text \<open>Kahn's loop always ends within its fuel, and it sorts all the nodes exactly
  when the edges are acyclic.\<close>

theorem kahn_decides:
  "(\<exists>k. kahn es waves = Some k)
   \<and> (kahn es waves = Some (length (dag_nodes es waves)) \<longleftrightarrow> acyclic (set es))"
  using kahn_result kahn_acyclic by blast

section \<open>Isolation of a wave\<close>

text \<open>A packet may write a file that equals an authorized path or lies under it.\<close>

definition covers :: "string \<Rightarrow> string \<Rightarrow> bool" where
  "covers p f = prefix (norm_path p) (f @ ''/'')"

lemma covered_twice: "covers pa f \<Longrightarrow> covers pb f \<Longrightarrow> paths_intersect pa pb"
  unfolding covers_def paths_intersect_def by (metis prefix_same_cases)

lemma wave_disjoint_nth:
  "wave_disjoint pss \<Longrightarrow> i < j \<Longrightarrow> j < length pss \<Longrightarrow> pa \<in> set (pss ! i) \<Longrightarrow> pb \<in> set (pss ! j) \<Longrightarrow>
     \<not> paths_intersect pa pb"
proof (induction pss arbitrary: i j)
  case Nil
  then show ?case by simp
next
  case (Cons ps rest)
  obtain j' where j: "j = Suc j'" using Cons.prems(2) by (cases j) auto
  show ?case
  proof (cases i)
    case 0
    have "rest ! j' \<in> set rest" using Cons.prems(3) j by simp
    then show ?thesis using Cons.prems(1,4,5) 0 j by (simp add: list_all_iff)
  next
    case (Suc i')
    then show ?thesis using Cons j by auto
  qed
qed

lemma load_wave_nth:
  "load_wave paths_of wave = Some pss \<Longrightarrow> length pss = length wave
     \<and> (\<forall>i < length wave. paths_of (wave ! i) = Some (pss ! i))"
  by (induction wave arbitrary: pss) (auto split: option.splits simp: less_Suc_eq_0_disj)

lemma check_waves_zero:
  "check_waves paths_of waves = 0 \<longleftrightarrow>
     (\<forall>wave \<in> set waves. \<exists>pss. load_wave paths_of wave = Some pss \<and> wave_disjoint pss)"
  by (induction waves) (auto split: option.splits)

text \<open>When the gate passes, the edges are acyclic, every packet of every wave has its
  authorized paths, and no file is covered by the paths of two packets (at two places) of the
  same wave.\<close>

theorem accepted_waves_are_isolated:
  assumes "dag_assert es waves paths_of = 0"
  shows "acyclic (set es)
    \<and> (\<forall>wave \<in> set waves. \<forall>i j f. i < j \<and> j < length wave \<longrightarrow>
        (\<exists>ps qs. paths_of (wave ! i) = Some ps \<and> paths_of (wave ! j) = Some qs
           \<and> \<not> ((\<exists>pa \<in> set ps. covers pa f) \<and> (\<exists>pb \<in> set qs. covers pb f))))"
proof (intro conjI ballI allI impI)
  show "acyclic (set es)"
    using assms kahn_acyclic by (auto simp: dag_assert_def split: if_splits)
next
  fix wave i j f
  assume w: "wave \<in> set waves" and ij: "i < j \<and> j < length wave"
  have "check_waves paths_of waves = 0" using assms by (simp add: dag_assert_def split: if_splits)
  then obtain pss where l: "load_wave paths_of wave = Some pss" and d: "wave_disjoint pss"
    using w by (auto simp: check_waves_zero)
  note paths = load_wave_nth [OF l]
  have "\<not> ((\<exists>pa \<in> set (pss ! i). covers pa f) \<and> (\<exists>pb \<in> set (pss ! j). covers pb f))"
    using wave_disjoint_nth [OF d, of i j] covered_twice ij paths by metis
  then show "\<exists>ps qs. paths_of (wave ! i) = Some ps \<and> paths_of (wave ! j) = Some qs
           \<and> \<not> ((\<exists>pa \<in> set ps. covers pa f) \<and> (\<exists>pb \<in> set qs. covers pb f))"
    using paths ij by auto
qed

definition demo_paths :: "string \<Rightarrow> string list option" where
  "demo_paths pid = (if pid = ''a'' then Some [''src/a''] else if pid = ''b'' then Some [''src/b/'']
     else None)"

lemma demo_dag: "dag_assert [(''a'', ''b'')] [[''a'', ''b'']] demo_paths = 0"
  by code_simp

theorem accepted_waves_are_isolated_witness:
  "acyclic (set [(''a'', ''b'')])"
  using accepted_waves_are_isolated [OF demo_dag] by blast

text \<open>Paths are compared as text: a dot segment hides an overlap.\<close>

lemma dot_segments_are_not_resolved: "\<not> paths_intersect ''./src'' ''src''"
  by code_simp

end
