(* ===== verification/Verdicts.thy ===== *)
theory Verdicts
  imports Py_Json Severity
begin

text \<open>
  The two verdict gates: \<open>src/harness/verdict_aggregate.py\<close> folds verifier verdicts over the
  candidates, strictest wins, and \<open>src/harness/verdict_check.py\<close> checks that a reviewer's
  ruling is closed under its findings. The printed texts are error constructors; scores are
  exact rationals.
\<close>

section \<open>Aggregation\<close>

definition ORDER :: "string list" where
  "ORDER = [''pass'', ''redo'', ''escalate_l2_5'', ''escalate_l3'']"

fun index_of :: "'a \<Rightarrow> 'a list \<Rightarrow> nat option" where
  "index_of x [] = None"
| "index_of x (y # ys) = (if x = y then Some 0 else map_option Suc (index_of x ys))"

definition legal_verdict :: "string \<Rightarrow> bool" where
  "legal_verdict v = (v \<in> set ORDER)"

definition RANK :: "string \<Rightarrow> nat" where
  "RANK v = (case index_of v ORDER of Some i \<Rightarrow> i | None \<Rightarrow> 0)"

record verdict =
  v_verdict :: string
  v_score :: rat

record candidate =
  c_id :: string
  c_diff_path :: "string option"
  c_verdicts :: "verdict list"

record ranked =
  rk_id :: string
  rk_diff_path :: "string option"
  rk_verdict :: string
  rk_mean :: rat

text \<open>One step of \<open>max(\<dots>, key=RANK)\<close>: the first of the largest is kept.\<close>

definition stricter :: "string \<Rightarrow> string option \<Rightarrow> string option" where
  "stricter v acc = (case acc of None \<Rightarrow> Some v | Some a \<Rightarrow> Some (if RANK a < RANK v then v else a))"

definition round4 :: "rat \<Rightarrow> rat" where
  "round4 x = (let y = x * 10000; f = \<lfloor>y\<rfloor>; d = y - of_int f in
     of_int (if d < 1 / 2 then f else if 1 / 2 < d then f + 1 else if even f then f else f + 1) / 10000)"

definition judged :: "candidate \<Rightarrow> verdict list" where
  "judged c = filter (\<lambda>v. legal_verdict (v_verdict v)) (c_verdicts c)"

definition rank_candidate :: "candidate \<Rightarrow> ranked" where
  "rank_candidate c =
     (let vs = judged c;
          (strict, score) =
            (case fold stricter (map v_verdict vs) None of
               None \<Rightarrow> (''escalate_l3'', 0)
             | Some s \<Rightarrow> (s, sum_list (map v_score vs) / of_nat (length vs)))
      in \<lparr>rk_id = c_id c, rk_diff_path = c_diff_path c, rk_verdict = strict, rk_mean = round4 score\<rparr>)"

definition rank_key :: "ranked \<Rightarrow> nat \<times> rat" where
  "rank_key r = (RANK (rk_verdict r), - rk_mean r)"

definition key_le :: "nat \<times> rat \<Rightarrow> nat \<times> rat \<Rightarrow> bool" where
  "key_le a b = (fst a < fst b \<or> (fst a = fst b \<and> snd a \<le> snd b))"

text \<open>\<open>list.sort(key=\<dots>)\<close> is stable: equal keys keep their order.\<close>

fun insert_ranked :: "ranked \<Rightarrow> ranked list \<Rightarrow> ranked list" where
  "insert_ranked r [] = [r]"
| "insert_ranked r (x # xs) = (if key_le (rank_key r) (rank_key x) then r # x # xs else x # insert_ranked r xs)"

definition sort_ranked :: "ranked list \<Rightarrow> ranked list" where
  "sort_ranked rs = foldr insert_ranked rs []"

record aggregate =
  ag_verdict :: string
  ag_best :: "ranked option"
  ag_ranking :: "ranked list"
  ag_exit :: nat

definition aggregate_verdicts :: "candidate list \<Rightarrow> aggregate" where
  "aggregate_verdicts cands =
     (if cands = []
      then \<lparr>ag_verdict = ''escalate_l3'', ag_best = None, ag_ranking = [], ag_exit = 2\<rparr>
      else let ranking = map rank_candidate cands;
               worst = fold (\<lambda>r w. if RANK w < RANK (rk_verdict r) then rk_verdict r else w) ranking ''pass'';
               ordered = sort_ranked ranking in
           \<lparr>ag_verdict = worst,
            ag_best = (case ordered of [] \<Rightarrow> None | r # _ \<Rightarrow> Some r),
            ag_ranking = ordered, ag_exit = 0\<rparr>)"

section \<open>Closure of a reviewer's ruling\<close>

definition LEGAL_VERDICTS :: "string list" where
  "LEGAL_VERDICTS = [''APPROVED'', ''APPROVED_WITH_NOTES'', ''CHANGES_REQUIRED'',
     ''CHANGES_REQUESTED'', ''REJECTED'']"

definition LEGAL_SEVERITIES :: "string list" where
  "LEGAL_SEVERITIES = [''blocking'', ''major'', ''minor'', ''info'']"

definition PASS_VERDICTS :: "string list" where
  "PASS_VERDICTS = [''APPROVED'', ''APPROVED_WITH_NOTES'']"

definition NEGATIVE_VERDICTS :: "string list" where
  "NEGATIVE_VERDICTS = [''CHANGES_REQUIRED'', ''CHANGES_REQUESTED'', ''REJECTED'']"

datatype closure_error =
    Dispatch_record_invalid
  | Provenance_missing
  | Provenance_mismatch string
  | Illegal_verdict
  | Findings_not_list
  | Finding_severity nat
  | Finding_pointer nat
  | Blocking_closure
  | Negative_without_findings
  | Notes_without_findings

text \<open>Membership of a JSON value in a set of strings; an unhashable value raises.\<close>

definition in_set :: "json \<Rightarrow> string list \<Rightarrow> py_error + bool" where
  "in_set v names = (if hashable v then Inr (case v of JStr s \<Rightarrow> s \<in> set names | _ \<Rightarrow> False) else Inl TypeError)"

text \<open>\<open>not str(f.get("pointer", "")).strip()\<close>: only a blank string renders as blank.\<close>

definition pointer_blank :: "jobj \<Rightarrow> bool" where
  "pointer_blank f = (case jget_or (JStr []) f ''pointer'' of JStr s \<Rightarrow> py_strip s = [] | _ \<Rightarrow> False)"

definition finding_errors :: "nat \<Rightarrow> json \<Rightarrow> py_error + closure_error list" where
  "finding_errors i v =
     (case v of
        JObj f \<Rightarrow>
          (case in_set (jget f ''severity'') LEGAL_SEVERITIES of
             Inl e \<Rightarrow> Inl e
           | Inr legal \<Rightarrow> Inr ((if legal then [] else [Finding_severity i])
                @ (if pointer_blank f then [Finding_pointer i] else [])))
      | _ \<Rightarrow> Inr [Finding_severity i])"

fun all_finding_errors :: "nat \<Rightarrow> json list \<Rightarrow> py_error + closure_error list" where
  "all_finding_errors i [] = Inr []"
| "all_finding_errors i (v # vs) =
     (case finding_errors i v of
        Inl e \<Rightarrow> Inl e
      | Inr es \<Rightarrow> (case all_finding_errors (Suc i) vs of Inl e \<Rightarrow> Inl e | Inr es' \<Rightarrow> Inr (es @ es')))"

definition is_blocking :: "json \<Rightarrow> bool" where
  "is_blocking v = (case v of JObj f \<Rightarrow> jget f ''severity'' = JStr ''blocking'' | _ \<Rightarrow> False)"

definition PROVENANCE_FIELDS :: "string list" where
  "PROVENANCE_FIELDS = [''run_id'', ''model'', ''effort'', ''wave'']"

text \<open>The optional dispatch record; \<open>None\<close> when the option is not given.\<close>

definition provenance_errors :: "json option \<Rightarrow> jobj \<Rightarrow> closure_error list" where
  "provenance_errors dispatch_record data =
     (case dispatch_record of
        None \<Rightarrow> []
      | Some r \<Rightarrow>
          (if is_obj r then [] else [Dispatch_record_invalid])
          @ (case jget data ''provenance'' of
               JObj prov \<Rightarrow>
                 map Provenance_mismatch (filter (\<lambda>k. \<not> py_eq (jget prov k) (jget (obj_of r) k)) PROVENANCE_FIELDS)
             | _ \<Rightarrow> [Provenance_missing]))"

definition verdict_check :: "json option \<Rightarrow> json \<Rightarrow> py_error + closure_error list" where
  "verdict_check dispatch_record report =
     (case report of
        JObj data \<Rightarrow>
          (let v = jget data ''verdict'';
               raw = jget_or (JList []) data ''findings'';
               findings = (case raw of JList xs \<Rightarrow> xs | _ \<Rightarrow> []) in
           case (in_set v LEGAL_VERDICTS, all_finding_errors 0 findings) of
             (Inl e, _) \<Rightarrow> Inl e
           | (Inr _, Inl e) \<Rightarrow> Inl e
           | (Inr legal, Inr ferrs) \<Rightarrow>
               Inr (provenance_errors dispatch_record data
                 @ (if legal then [] else [Illegal_verdict])
                 @ (case raw of JList _ \<Rightarrow> [] | _ \<Rightarrow> [Findings_not_list])
                 @ ferrs
                 @ (if list_ex is_blocking findings \<and> v \<in> JStr ` set PASS_VERDICTS then [Blocking_closure] else [])
                 @ (if v \<in> JStr ` set NEGATIVE_VERDICTS \<and> findings = [] then [Negative_without_findings] else [])
                 @ (if v = JStr ''APPROVED_WITH_NOTES'' \<and> findings = [] then [Notes_without_findings] else [])))
      | _ \<Rightarrow> Inl AttributeError)"

definition verdict_exit :: "closure_error list \<Rightarrow> nat" where
  "verdict_exit errors = (if errors = [] then 0 else 1)"

section \<open>Strictest wins\<close>

interpretation strictness: worst_of RANK stricter "\<lambda>_. True"
  by unfold_locales (simp_all add: stricter_def)

lemma legal_rank_inj: "legal_verdict v \<Longrightarrow> legal_verdict w \<Longrightarrow> RANK v = RANK w \<Longrightarrow> v = w"
  by (auto simp: legal_verdict_def ORDER_def RANK_def)

lemma rank_candidate_verdict:
  "rk_verdict (rank_candidate c) =
     (case fold stricter (map v_verdict (judged c)) None of None \<Rightarrow> ''escalate_l3'' | Some s \<Rightarrow> s)"
  by (simp add: rank_candidate_def Let_def split: option.splits)

lemma candidate_strictest:
  "(judged c = [] \<longrightarrow> rk_verdict (rank_candidate c) = ''escalate_l3'')
   \<and> (\<forall>v \<in> set (judged c). RANK (v_verdict v) \<le> RANK (rk_verdict (rank_candidate c)))
   \<and> (judged c \<noteq> [] \<longrightarrow> rk_verdict (rank_candidate c) \<in> v_verdict ` set (judged c))"
proof (cases "fold stricter (map v_verdict (judged c)) None")
  case None
  then have "judged c = []" using strictness.fold_worst(1) [of "map v_verdict (judged c)"]
    by (simp add: list_all_iff)
  then show ?thesis using None by (simp add: rank_candidate_verdict)
next
  case (Some s)
  have "s \<in> set (map v_verdict (judged c)) \<and> (\<forall>x \<in> set (map v_verdict (judged c)). RANK x \<le> RANK s)"
    by (rule strictness.fold_worst(2) [OF _ Some]) (simp add: list_all_iff)
  then show ?thesis using Some by (auto simp: rank_candidate_verdict)
qed

lemma worst_fold:
  "RANK w \<le> RANK (fold (\<lambda>r w. if RANK w < RANK (rk_verdict r) then rk_verdict r else w) rs w)
   \<and> (\<forall>r \<in> set rs. RANK (rk_verdict r)
        \<le> RANK (fold (\<lambda>r w. if RANK w < RANK (rk_verdict r) then rk_verdict r else w) rs w))
   \<and> fold (\<lambda>r w. if RANK w < RANK (rk_verdict r) then rk_verdict r else w) rs w \<in> insert w (rk_verdict ` set rs)"
proof (induction rs arbitrary: w)
  case Nil
  then show ?case by simp
next
  case (Cons r rs)
  let ?w = "if RANK w < RANK (rk_verdict r) then rk_verdict r else w"
  have "RANK w \<le> RANK ?w" "RANK (rk_verdict r) \<le> RANK ?w" "?w \<in> {w, rk_verdict r}" by auto
  then show ?case using Cons.IH [of ?w] by (simp only: fold.simps comp_apply) (auto intro: order_trans)
qed

lemma rank_bound: "RANK v \<le> 3"
  by (simp add: RANK_def ORDER_def)

lemma set_insert_ranked [simp]: "set (insert_ranked r xs) = insert r (set xs)"
  by (induction xs) auto

lemma set_sort_ranked [simp]: "set (sort_ranked rs) = set rs"
  by (induction rs) (auto simp: sort_ranked_def)

lemma insert_ranked_head:
  "(\<forall>x \<in> set xs. key_le (rank_key (hd xs)) (rank_key x)) \<Longrightarrow>
     \<forall>x \<in> set (insert_ranked r xs). key_le (rank_key (hd (insert_ranked r xs))) (rank_key x)"
  by (cases xs) (auto simp: key_le_def)

lemma sort_ranked_head: "\<forall>x \<in> set (sort_ranked rs). key_le (rank_key (hd (sort_ranked rs))) (rank_key x)"
proof (induction rs)
  case Nil
  then show ?case by (simp add: sort_ranked_def)
next
  case (Cons r rs)
  then show ?case using insert_ranked_head [of "sort_ranked rs" r] by (simp add: sort_ranked_def)
qed

text \<open>The aggregate is a pass only when every candidate was judged and every legal
  verdict on it is a pass; a single stricter verdict, or a candidate nobody judged, raises it
  at least that far; an empty document escalates with exit code 2. The best candidate is one
  of those given, none is less strict, and among equally strict ones none scores higher.\<close>

theorem strictest_verdict_wins:
  "(ag_verdict (aggregate_verdicts cands) = ''pass'' \<longrightarrow>
      cands \<noteq> [] \<and> (\<forall>c \<in> set cands. judged c \<noteq> [] \<and> (\<forall>v \<in> set (judged c). v_verdict v = ''pass'')))
   \<and> (\<forall>c \<in> set cands. \<forall>v \<in> set (judged c). RANK (v_verdict v) \<le> RANK (ag_verdict (aggregate_verdicts cands)))
   \<and> (\<forall>c \<in> set cands. judged c = [] \<longrightarrow> ag_verdict (aggregate_verdicts cands) = ''escalate_l3'')
   \<and> (\<forall>b. ag_best (aggregate_verdicts cands) = Some b \<longrightarrow>
        b \<in> rank_candidate ` set cands
        \<and> (\<forall>c \<in> set cands. key_le (rank_key b) (rank_key (rank_candidate c))))"
proof (cases "cands = []")
  case True
  then show ?thesis by (simp add: aggregate_verdicts_def)
next
  case ne: False
  let ?rs = "map rank_candidate cands"
  define w where "w = ag_verdict (aggregate_verdicts cands)"
  have w_eq: "w = fold (\<lambda>r w. if RANK w < RANK (rk_verdict r) then rk_verdict r else w) ?rs ''pass''"
    using ne by (simp add: w_def aggregate_verdicts_def Let_def)
  have above: "RANK (rk_verdict (rank_candidate c)) \<le> RANK w" if "c \<in> set cands" for c
    using worst_fold [of "''pass''" ?rs] that unfolding w_eq by auto
  have member: "w \<in> insert ''pass'' (rk_verdict ` set ?rs)"
    using worst_fold [of "''pass''" ?rs] unfolding w_eq by blast
  have legal_cand: "legal_verdict (rk_verdict (rank_candidate c))" for c
    using candidate_strictest [of c]
    by (cases "judged c = []") (auto simp: judged_def legal_verdict_def ORDER_def)
  have legal: "legal_verdict w" using member legal_cand by (auto simp: legal_verdict_def ORDER_def)
  have raises: "RANK (v_verdict v) \<le> RANK w" if "c \<in> set cands" "v \<in> set (judged c)" for c v
    using candidate_strictest [of c] above that by (meson order_trans)
  have unjudged: "w = ''escalate_l3''" if "c \<in> set cands" "judged c = []" for c
  proof -
    have "RANK ''escalate_l3'' \<le> RANK w" using above [OF that(1)] candidate_strictest [of c] that(2) by simp
    then have "RANK w = RANK ''escalate_l3''"
      using rank_bound [of w] by (simp add: RANK_def ORDER_def)
    then show ?thesis by (rule legal_rank_inj [OF legal, rotated]) (simp add: legal_verdict_def ORDER_def)
  qed
  have pass: "judged c \<noteq> [] \<and> (\<forall>v \<in> set (judged c). v_verdict v = ''pass'')"
    if "w = ''pass''" "c \<in> set cands" for c
  proof
    show "judged c \<noteq> []" using unjudged [OF that(2)] that(1) by auto
    show "\<forall>v \<in> set (judged c). v_verdict v = ''pass''"
    proof
      fix v assume v: "v \<in> set (judged c)"
      then have "RANK (v_verdict v) = RANK ''pass''"
        using raises [OF that(2) v] that(1) by (simp add: RANK_def ORDER_def)
      then show "v_verdict v = ''pass''"
        by (rule legal_rank_inj [rotated 2]) (use v in \<open>auto simp: judged_def legal_verdict_def ORDER_def\<close>)
    qed
  qed
  have best: "b \<in> rank_candidate ` set cands \<and> (\<forall>c \<in> set cands. key_le (rank_key b) (rank_key (rank_candidate c)))"
    if "ag_best (aggregate_verdicts cands) = Some b" for b
  proof -
    have s: "sort_ranked ?rs \<noteq> [] \<and> b = hd (sort_ranked ?rs)"
      using that ne by (auto simp: aggregate_verdicts_def Let_def split: list.splits)
    then have "b \<in> set (sort_ranked ?rs)" by (metis hd_in_set)
    then show ?thesis using sort_ranked_head [of ?rs] s by auto
  qed
  show ?thesis using ne pass raises unjudged best unfolding w_def by blast
qed

theorem strictest_verdict_wins_witness:
  "RANK ''redo'' \<le> RANK (ag_verdict (aggregate_verdicts
     [\<lparr>c_id = ''a'', c_diff_path = None, c_verdicts = [\<lparr>v_verdict = ''redo'', v_score = 1\<rparr>]\<rparr>]))"
  using strictest_verdict_wins [of "[\<lparr>c_id = ''a'', c_diff_path = None,
      c_verdicts = [\<lparr>v_verdict = ''redo'', v_score = 1\<rparr>]\<rparr>]"]
  by (simp add: judged_def legal_verdict_def ORDER_def)

section \<open>An accepted ruling is closed\<close>

lemma all_finding_errors_Nil:
  "all_finding_errors i vs = Inr [] \<longleftrightarrow>
     (\<forall>v \<in> set vs. \<exists>f s. v = JObj f \<and> jget f ''severity'' = JStr s \<and> s \<in> set LEGAL_SEVERITIES \<and> \<not> pointer_blank f)"
proof (induction i vs rule: all_finding_errors.induct)
  case (1 i)
  then show ?case by simp
next
  case (2 i v vs)
  have "finding_errors i v = Inr [] \<longleftrightarrow>
      (\<exists>f s. v = JObj f \<and> jget f ''severity'' = JStr s \<and> s \<in> set LEGAL_SEVERITIES \<and> \<not> pointer_blank f)"
    by (auto simp: finding_errors_def in_set_def split: json.splits sum.splits if_splits)
  then show ?case using 2 by (auto split: sum.splits)
qed

text \<open>The closure check accepts a report exactly when the verdict is legal, the
  findings are a list in which every finding has a legal severity and a pointer, no blocking
  finding stands beside a passing verdict, a negative verdict or one with notes cites a
  finding, and, with a dispatch record, the provenance equals the record's.\<close>

theorem accepted_ruling_is_closed:
  "verdict_check record (JObj data) = Inr [] \<longleftrightarrow>
     (\<exists>name findings. jget data ''verdict'' = JStr name \<and> name \<in> set LEGAL_VERDICTS
        \<and> jget_or (JList []) data ''findings'' = JList findings
        \<and> (\<forall>v \<in> set findings. \<exists>f s. v = JObj f \<and> jget f ''severity'' = JStr s
              \<and> s \<in> set LEGAL_SEVERITIES \<and> \<not> pointer_blank f)
        \<and> (name \<in> set PASS_VERDICTS \<longrightarrow> \<not> list_ex is_blocking findings)
        \<and> (name \<in> set NEGATIVE_VERDICTS \<or> name = ''APPROVED_WITH_NOTES'' \<longrightarrow> findings \<noteq> []))
     \<and> (\<forall>r. record = Some r \<longrightarrow> is_obj r \<and> (\<exists>prov. jget data ''provenance'' = JObj prov
              \<and> (\<forall>k \<in> set PROVENANCE_FIELDS. py_eq (jget prov k) (jget (obj_of r) k))))"
proof -
  have prov: "provenance_errors record data = [] \<longleftrightarrow>
      (\<forall>r. record = Some r \<longrightarrow> is_obj r \<and> (\<exists>prov. jget data ''provenance'' = JObj prov
              \<and> (\<forall>k \<in> set PROVENANCE_FIELDS. py_eq (jget prov k) (jget (obj_of r) k))))"
    by (auto simp: provenance_errors_def filter_empty_conv split: option.splits json.splits if_splits)
  show ?thesis
  proof (cases "\<exists>name findings. jget data ''verdict'' = JStr name
      \<and> jget_or (JList []) data ''findings'' = JList findings")
    case True
    then obtain name findings where v: "jget data ''verdict'' = JStr name"
      and f: "jget_or (JList []) data ''findings'' = JList findings" by blast
    show ?thesis
      unfolding prov [symmetric] all_finding_errors_Nil [of 0, symmetric]
      by (auto simp: verdict_check_def v f in_set_def Let_def split: sum.splits if_splits)
  next
    case False
    then show ?thesis
      unfolding prov [symmetric]
      by (auto simp: verdict_check_def in_set_def Let_def split: sum.splits if_splits json.splits)
  qed
qed

theorem accepted_ruling_is_closed_witness:
  "verdict_check None (JObj [(''verdict'', JStr ''APPROVED''), (''findings'', JList [])]) = Inr []"
  using accepted_ruling_is_closed [of None "[(''verdict'', JStr ''APPROVED''), (''findings'', JList [])]"]
  by (simp add: py_simps LEGAL_VERDICTS_def NEGATIVE_VERDICTS_def)

end
