(* ===== verification/Refill.thy ===== *)
theory Refill
  imports SM_Machine Policy "HOL-Library.Char_ord" "HOL-Library.List_Lexorder"
begin

text \<open>
  The pool-aware refill controller, \<open>src/harness/refill_controller_v2.py\<close>: the pool of a
  packet, the work queue and its total sync from the ledger, the observed rosters, the
  Hamilton split and the recomputation of the refill state. Rows of the JSON files that are
  not objects are skipped by the code and absent here; parent ids, roles, models and statuses
  are strings. The observer snapshot is its typed content; a process's start token is the
  argument \<open>start_token\<close>.
\<close>

section \<open>Pools\<close>

datatype pool = V4 | K3

definition POOLS :: "pool list" where
  "POOLS = [V4, K3]"

definition K3_ROLES :: "string list" where
  "K3_ROLES = [''verifier'', ''reviewer'', ''plan_expander'']"

definition K3_WORK_STATES :: "string list" where
  "K3_WORK_STATES = [''L2_VERIFY'', ''L2_RANK'', ''EXPAND_K3'', ''L2_VERIFY_PENDING'']"

definition NATIVE_RUNNING_TTL_SECONDS :: rat where
  "NATIVE_RUNNING_TTL_SECONDS = 1800"

definition sum_pools :: "(pool \<Rightarrow> int) \<Rightarrow> int" where
  "sum_pools f = sum_list (map f POOLS)"

definition pool_of_hint :: "json \<Rightarrow> pool option" where
  "pool_of_hint v = (if v = JStr ''v4'' then Some V4 else if v = JStr ''k3'' then Some K3 else None)"

definition pool_for_packet :: "packet \<Rightarrow> pool" where
  "pool_for_packet pkt =
     (case pool_of_hint (p_pool_hint pkt) of
        Some p \<Rightarrow> p
      | None \<Rightarrow> if p_role pkt \<in> JStr ` set K3_ROLES then K3 else V4)"

definition classify_pool :: "json \<Rightarrow> pool" where
  "classify_pool model =
     (case model of
        JStr s \<Rightarrow> if list_ex (\<lambda>k. sublist k (py_lower s)) [''k3'', ''r1'', ''reasoner''] then K3 else V4
      | _ \<Rightarrow> V4)"

text \<open>\<open>("k3" if role in K3_ROLES else "v4") if role else classify_pool(model)\<close>\<close>

definition role_pool :: "json \<Rightarrow> json \<Rightarrow> pool" where
  "role_pool role model =
     (if \<not> truthy role then classify_pool model
      else if role \<in> JStr ` set K3_ROLES then K3 else V4)"

section \<open>The work queue\<close>

record parent_row =
  pr_pools :: "pool \<Rightarrow> int"
  pr_manifest :: json

record work_queue =
  wq_pools :: "pool \<Rightarrow> int"
  wq_parents :: "parent_row dict"

definition clean :: "(pool \<Rightarrow> int) \<Rightarrow> pool \<Rightarrow> int" where
  "clean f = (\<lambda>p. max 0 (f p))"

definition read_queue :: "work_queue \<Rightarrow> pool \<Rightarrow> int" where
  "read_queue q = clean (wq_pools q)"

definition read_parent_queue :: "work_queue \<Rightarrow> parent_row dict" where
  "read_parent_queue q = map (\<lambda>(k, row). (k, row\<lparr>pr_pools := clean (pr_pools row)\<rparr>)) (wq_parents q)"

definition write_queue :: "(pool \<Rightarrow> int) \<Rightarrow> parent_row dict \<Rightarrow> work_queue" where
  "write_queue pools parents = \<lparr>wq_pools = clean pools,
     wq_parents = map (\<lambda>(k, row). (k, row\<lparr>pr_pools := clean (pr_pools row)\<rparr>)) parents\<rparr>"

definition queue_mutate :: "((pool \<Rightarrow> int) \<Rightarrow> pool \<Rightarrow> int) \<Rightarrow> work_queue \<Rightarrow> work_queue" where
  "queue_mutate f q = write_queue (f (read_queue q)) (read_parent_queue q)"

definition queue_set :: "int \<Rightarrow> pool \<Rightarrow> work_queue \<Rightarrow> work_queue" where
  "queue_set n p = queue_mutate (\<lambda>pools. pools(p := n))"

definition queue_add :: "int \<Rightarrow> pool \<Rightarrow> work_queue \<Rightarrow> work_queue" where
  "queue_add n p = queue_mutate (\<lambda>pools. pools(p := pools p + n))"

definition queue_remove :: "int \<Rightarrow> pool \<Rightarrow> work_queue \<Rightarrow> work_queue" where
  "queue_remove n p = queue_mutate (\<lambda>pools. pools(p := max 0 (pools p - n)))"

definition queue_clear :: "work_queue \<Rightarrow> work_queue" where
  "queue_clear q = write_queue (\<lambda>_. 0) (read_parent_queue q)"

section \<open>Total sync from the ledger\<close>

record parent_registration =
  rg_active :: bool
  rg_manifest :: json
  rg_target :: json

definition bump :: "pool \<Rightarrow> (pool \<Rightarrow> int) \<Rightarrow> pool \<Rightarrow> int" where
  "bump p f = f(p := f p + 1)"

text \<open>The parent of a packet, when its id is truthy.\<close>

definition parent_key :: "json \<Rightarrow> string option" where
  "parent_key v = (case v of JStr s \<Rightarrow> if s = [] then None else Some s | _ \<Rightarrow> None)"

definition parent_admits :: "parent_registration dict \<Rightarrow> string \<Rightarrow> packet \<Rightarrow> bool" where
  "parent_admits registered parent pkt =
     (case map_of registered parent of
        None \<Rightarrow> False
      | Some r \<Rightarrow> rg_active r \<and> py_eq (rg_manifest r) (p_manifest_id pkt))"

definition add_parent_demand :: "string \<Rightarrow> pool \<Rightarrow> json \<Rightarrow> parent_row dict \<Rightarrow> parent_row dict" where
  "add_parent_demand parent p manifest rows =
     (let row = dict_get_or \<lparr>pr_pools = (\<lambda>_. 0), pr_manifest = manifest\<rparr> parent rows in
      dict_set parent (row\<lparr>pr_pools := bump p (pr_pools row)\<rparr>) rows)"

definition count_packet ::
  "parent_registration dict \<Rightarrow> packet \<Rightarrow> (pool \<Rightarrow> int) \<times> parent_row dict \<Rightarrow> (pool \<Rightarrow> int) \<times> parent_row dict" where
  "count_packet registered pkt acc =
     (case acc of (ready, rows) \<Rightarrow>
        if p_state pkt = ''DISPATCHABLE''
        then (let p = pool_for_packet pkt in
              case parent_key (p_parent_session_id pkt) of
                None \<Rightarrow> (bump p ready, rows)
              | Some parent \<Rightarrow>
                  if parent_admits registered parent pkt
                  then (bump p ready, add_parent_demand parent p (p_manifest_id pkt) rows)
                  else (ready, rows))
        else if p_state pkt \<in> set K3_WORK_STATES then (bump K3 ready, rows)
        else (ready, rows))"

definition queue_sync_ledger :: "parent_registration dict \<Rightarrow> packet dict \<Rightarrow> work_queue" where
  "queue_sync_ledger registered ledger =
     (let (ready, rows) = fold (\<lambda>entry. count_packet registered (snd entry)) ledger ((\<lambda>_. 0), []) in
      write_queue ready rows)"

section \<open>Observed state\<close>

record parent_counts =
  pc_running :: int
  pc_initializing :: int
  pc_pool_running :: "pool \<Rightarrow> int"
  pc_pool_initializing :: "pool \<Rightarrow> int"

definition no_counts :: parent_counts where
  "no_counts = \<lparr>pc_running = 0, pc_initializing = 0, pc_pool_running = (\<lambda>_. 0),
     pc_pool_initializing = (\<lambda>_. 0)\<rparr>"

definition ROSTER_KEYS :: "string list" where
  "ROSTER_KEYS = [''initializing'', ''running'', ''idle'', ''completed'', ''shutdown_pending'']"

text \<open>Counts per pool and status, and per parent.\<close>

record roster_counts =
  rs_counts :: "pool \<Rightarrow> string \<Rightarrow> int"
  rs_parents :: "parent_counts dict"

definition remember_parent :: "jobj \<Rightarrow> pool \<Rightarrow> string \<Rightarrow> parent_counts dict \<Rightarrow> parent_counts dict" where
  "remember_parent item p key parents =
     (case parent_key (jget item ''parent_session_id'') of
        None \<Rightarrow> parents
      | Some parent \<Rightarrow>
          if key \<notin> {''running'', ''initializing''} then parents
          else (let row = dict_get_or no_counts parent parents in
                dict_set parent
                  (if key = ''running''
                   then row\<lparr>pc_running := pc_running row + 1, pc_pool_running := bump p (pc_pool_running row)\<rparr>
                   else row\<lparr>pc_initializing := pc_initializing row + 1,
                            pc_pool_initializing := bump p (pc_pool_initializing row)\<rparr>) parents))"

definition count_row :: "jobj \<Rightarrow> pool \<Rightarrow> string \<Rightarrow> roster_counts \<Rightarrow> roster_counts" where
  "count_row item p key rs =
     rs\<lparr>rs_counts := (rs_counts rs)(p := (rs_counts rs p)(key := rs_counts rs p key + 1)),
        rs_parents := remember_parent item p key (rs_parents rs)\<rparr>"

definition timestamp_or_zero :: "json \<Rightarrow> rat" where
  "timestamp_or_zero v = right_or 0 (py_float (py_or v (JInt 0)))"

definition count_native :: "rat \<Rightarrow> jobj \<Rightarrow> roster_counts \<Rightarrow> roster_counts" where
  "count_native now item rs =
     (let p = role_pool (py_or (jget item ''agent_role'') (jget item ''role'')) (jget item ''model'');
          status = (case jget item ''status'' of JStr s \<Rightarrow> s | _ \<Rightarrow> []);
          observed_at = timestamp_or_zero (py_or (jget item ''updated_at'') (jget item ''started_at'')) in
      if status \<in> {''running'', ''initializing''}
         \<and> (observed_at \<le> 0 \<or> NATIVE_RUNNING_TTL_SECONDS < now - observed_at)
      then rs
      else if status \<in> set ROSTER_KEYS then count_row item p status rs
      else rs)"

definition count_pending :: "rat \<Rightarrow> jobj \<Rightarrow> roster_counts \<Rightarrow> roster_counts" where
  "count_pending now item rs =
     (let pending_at = timestamp_or_zero (py_or (jget item ''queued_at'') (jget item ''ts'')) in
      if jget item ''status'' \<noteq> JStr ''pending_start'' then rs
      else if 0 < pending_at \<and> NATIVE_RUNNING_TTL_SECONDS < now - pending_at then rs
      else count_row item (role_pool (jget item ''agent_role'') (jget item ''model'')) ''initializing'' rs)"

definition process_generation_alive :: "(int \<Rightarrow> int option) \<Rightarrow> json \<Rightarrow> json \<Rightarrow> bool" where
  "process_generation_alive start_token pid expected =
     (case py_int pid of
        Inl e \<Rightarrow> False
      | Inr n \<Rightarrow> (case start_token n of None \<Rightarrow> False | Some actual \<Rightarrow> py_int expected = Inr actual))"

definition count_job :: "(int \<Rightarrow> int option) \<Rightarrow> jobj \<Rightarrow> roster_counts \<Rightarrow> roster_counts" where
  "count_job start_token item rs =
     (let key = (if jget item ''state'' = JStr ''starting'' then Some ''initializing''
                 else if jget item ''state'' = JStr ''running'' then Some ''running'' else None);
          supervisor_alive = process_generation_alive start_token (jget item ''supervisor_pid'')
             (jget item ''supervisor_proc_start_ticks'');
          worker_alive = process_generation_alive start_token (jget item ''os_pid'')
             (jget item ''worker_proc_start_ticks'') in
      case key of
        None \<Rightarrow> rs
      | Some k \<Rightarrow>
          if \<not> supervisor_alive \<or> (k = ''running'' \<and> \<not> worker_alive) then rs
          else count_row item (role_pool (py_or (jget item ''role'') (jget item ''agent_role''))
                 (jget item ''model'')) k rs)"

text \<open>A fresh observer snapshot replaces the running counts.\<close>

record observer =
  ob_pools :: "pool \<Rightarrow> int"
  ob_parents :: "(string \<times> int \<times> (pool \<Rightarrow> int)) list"

definition overlay_parent ::
  "string \<times> int \<times> (pool \<Rightarrow> int) \<Rightarrow> parent_counts dict \<Rightarrow> parent_counts dict" where
  "overlay_parent entry parents =
     (case entry of (parent, running, pools) \<Rightarrow>
        dict_set parent ((dict_get_or no_counts parent parents)
            \<lparr>pc_running := max 0 running, pc_pool_running := clean pools\<rparr>) parents)"

definition overlay :: "observer option \<Rightarrow> roster_counts \<Rightarrow> roster_counts" where
  "overlay snapshot rs =
     (case snapshot of
        None \<Rightarrow> rs
      | Some ob \<Rightarrow>
          rs\<lparr>rs_counts := (\<lambda>p. (rs_counts rs p)(''running'' := max 0 (ob_pools ob p))),
             rs_parents := fold overlay_parent (ob_parents ob) (rs_parents rs)\<rparr>)"

record refill_env =
  rf_now :: rat
  rf_agents :: "jobj list"
  rf_pending :: "jobj list"
  rf_jobs :: "jobj list"
  rf_start_token :: "int \<Rightarrow> int option"
  rf_observer :: "observer option"
  rf_registry :: "parent_registration dict"

definition read_roster_state :: "refill_env \<Rightarrow> roster_counts" where
  "read_roster_state env =
     overlay (rf_observer env)
       (fold (count_job (rf_start_token env)) (rf_jobs env)
         (fold (count_pending (rf_now env)) (rf_pending env)
           (fold (count_native (rf_now env)) (rf_agents env)
             \<lparr>rs_counts = (\<lambda>p k. 0), rs_parents = []\<rparr>)))"

section \<open>The split\<close>

text \<open>
  Hamilton's largest remainder over the two pools; \<open>sorted(\<dots>, reverse=True)\<close> keeps the
  order of equal remainders.
\<close>

definition split_order :: "(pool \<Rightarrow> int) \<Rightarrow> pool list \<Rightarrow> pool list" where
  "split_order remainders ps = sort_key (\<lambda>p. - remainders p) ps"

fun hand_out :: "(pool \<Rightarrow> int) \<Rightarrow> pool list \<Rightarrow> int \<Rightarrow> (pool \<Rightarrow> int) \<Rightarrow> pool \<Rightarrow> int" where
  "hand_out pending [] remaining floors = floors"
| "hand_out pending (p # ps) remaining floors =
     (if remaining \<le> 0 then floors
      else if floors p < pending p then hand_out pending ps (remaining - 1) (floors(p := floors p + 1))
      else hand_out pending ps remaining floors)"

definition split_deficit :: "int \<Rightarrow> (pool \<Rightarrow> int) \<Rightarrow> pool \<Rightarrow> int" where
  "split_deficit amount pending =
     (let ps = filter (\<lambda>p. 0 < pending p) POOLS in
      if amount \<le> 0 \<or> ps = [] then (\<lambda>_. 0)
      else let grand = sum_list (map pending ps);
               floors = (\<lambda>p. if p \<in> set ps then amount * pending p div grand else 0);
               remainders = (\<lambda>p. amount * pending p mod grand);
               remaining = amount - sum_list (map floors ps);
               handed = hand_out pending (split_order remainders ps) remaining floors in
           (\<lambda>p. if p \<in> set ps then min (handed p) (pending p) else 0))"

section \<open>Recompute\<close>

record refill_policy =
  rp_target :: "pool \<Rightarrow> int"
  rp_low_water :: "pool \<Rightarrow> int"
  rp_target_total :: int
  rp_dialogue_target :: int
  rp_borrowable :: bool

text \<open>The controller reads its policy fail-closed when it is built.\<close>

definition load_refill_policy :: "jobj \<Rightarrow> policy_error + refill_policy" where
  "load_refill_policy doc =
     (case (v4_target doc, k3_target doc, v4_low_water doc, k3_low_water doc, target_total doc,
            dialogue_target doc) of
        (Inr v, Inr k, Inr lv, Inr lk, Inr t, Inr d) \<Rightarrow>
          Inr \<lparr>rp_target = (\<lambda>p. case p of V4 \<Rightarrow> v | K3 \<Rightarrow> k),
               rp_low_water = (\<lambda>p. case p of V4 \<Rightarrow> min v lv | K3 \<Rightarrow> min k lk),
               rp_target_total = t, rp_dialogue_target = d,
               rp_borrowable = reservations_borrowable doc\<rparr>
      | _ \<Rightarrow> Inl PolicyError)"

definition parent_target :: "int \<Rightarrow> parent_registration \<Rightarrow> int" where
  "parent_target limit reg = max 1 (min limit (right_or limit (py_int (py_or (rg_target reg) (JInt limit)))))"

definition parent_debt :: "int \<Rightarrow> parent_counts dict \<Rightarrow> parent_row dict \<Rightarrow> string \<times> parent_registration \<Rightarrow> int" where
  "parent_debt limit counts queued entry =
     (let row = dict_get_or \<lparr>pr_pools = (\<lambda>_. 0), pr_manifest = JNull\<rparr> (fst entry) queued;
          running = max 0 (pc_running (dict_get_or no_counts (fst entry) counts)) in
      min (sum_pools (clean (pr_pools row))) (max 0 (parent_target limit (snd entry) - running)))"

definition parent_split ::
  "int \<Rightarrow> parent_counts dict \<Rightarrow> parent_row dict \<Rightarrow> string \<times> parent_registration \<Rightarrow> pool \<Rightarrow> int" where
  "parent_split limit counts queued entry =
     (if \<not> rg_active (snd entry) then (\<lambda>_. 0)
      else split_deficit (parent_debt limit counts queued entry)
             (clean (pr_pools (dict_get_or \<lparr>pr_pools = (\<lambda>_. 0), pr_manifest = JNull\<rparr> (fst entry) queued))))"

definition parent_demand ::
  "int \<Rightarrow> parent_registration dict \<Rightarrow> parent_counts dict \<Rightarrow> parent_row dict \<Rightarrow> pool \<Rightarrow> int" where
  "parent_demand limit registry counts queued =
     (\<lambda>p. sum_list (map (\<lambda>entry. parent_split limit counts queued entry p) registry))"

definition effective_targets :: "refill_policy \<Rightarrow> (pool \<Rightarrow> int) \<Rightarrow> (pool \<Rightarrow> int) \<times> (pool \<Rightarrow> int)" where
  "effective_targets policy pending =
     (case filter (\<lambda>p. 0 < pending p) POOLS of
        [only] \<Rightarrow>
          if rp_borrowable policy
          then ((\<lambda>p. if p = only then rp_target_total policy else 0),
                (\<lambda>p. if p = only then min (rp_target_total policy) (sum_pools (rp_low_water policy)) else 0))
          else (rp_target policy, rp_low_water policy)
      | _ \<Rightarrow> (rp_target policy, rp_low_water policy))"

text \<open>
  The numbers of one recomputation: which pools need refilling, their debt, what may be
  spawned now and the free capacity that bounds it.
\<close>

record refill_inputs =
  in_targets :: "pool \<Rightarrow> int"
  in_low_waters :: "pool \<Rightarrow> int"
  in_pending :: "pool \<Rightarrow> int"
  in_running :: "pool \<Rightarrow> int"
  in_initializing :: "pool \<Rightarrow> int"
  in_demand :: "pool \<Rightarrow> int"
  in_finalized :: bool

definition refill_inputs_of :: "refill_policy \<Rightarrow> refill_env \<Rightarrow> work_queue \<Rightarrow> bool \<Rightarrow> refill_inputs" where
  "refill_inputs_of policy env q finalized =
     (let pending = read_queue q;
          (targets, low_waters) = effective_targets policy pending;
          roster = read_roster_state env;
          limit = (if rf_registry env = [] then 0 else rp_dialogue_target policy) in
      \<lparr>in_targets = targets, in_low_waters = low_waters, in_pending = pending,
       in_running = (\<lambda>p. rs_counts roster p ''running''),
       in_initializing = (\<lambda>p. rs_counts roster p ''initializing''),
       in_demand = parent_demand limit (rf_registry env) (rs_parents roster) (read_parent_queue q),
       in_finalized = finalized\<rparr>)"

definition queue_empty :: "refill_inputs \<Rightarrow> bool" where
  "queue_empty v \<longleftrightarrow> sum_pools (in_pending v) \<le> 0"

definition required :: "refill_inputs \<Rightarrow> pool \<Rightarrow> bool" where
  "required v p \<longleftrightarrow> \<not> queue_empty v \<and> \<not> in_finalized v \<and> 0 < in_pending v p
     \<and> (in_running v p < in_targets v p \<or> 0 < in_demand v p)"

definition required_any :: "refill_inputs \<Rightarrow> bool" where
  "required_any v = list_ex (required v) POOLS"

definition raw_debt :: "refill_inputs \<Rightarrow> pool \<Rightarrow> int" where
  "raw_debt v p =
     (if required v p
      then max (min (in_pending v p) (max 0 (in_targets v p - in_running v p))) (in_demand v p) else 0)"

definition raw_spawn :: "refill_inputs \<Rightarrow> pool \<Rightarrow> int" where
  "raw_spawn v p = max 0 (raw_debt v p - in_initializing v p)"

definition free_capacity :: "refill_policy \<Rightarrow> refill_inputs \<Rightarrow> int" where
  "free_capacity policy v =
     max 0 (rp_target_total policy - sum_pools (in_running v) - sum_pools (in_initializing v))"

definition deficit_total :: "refill_policy \<Rightarrow> refill_inputs \<Rightarrow> int" where
  "deficit_total policy v =
     (if required_any v then min (sum_pools (raw_spawn v)) (free_capacity policy v) else 0)"

definition refill_reason :: "refill_policy \<Rightarrow> refill_inputs \<Rightarrow> string" where
  "refill_reason policy v =
     (if queue_empty v then ''queue_empty''
      else if in_finalized v then ''release_finalize''
      else if required_any v \<and> deficit_total policy v = 0 then ''at_capacity''
      else if required_any v
      then (if list_ex (\<lambda>p. required v p \<and> in_running v p < in_low_waters v p) POOLS
            then ''below_low_water'' else ''below_target'')
      else ''at_or_above_low_water'')"

text \<open>The per-parent view of the state.\<close>

record parent_view =
  pv_active :: bool
  pv_target :: int
  pv_running :: int
  pv_initializing :: int
  pv_deficit :: int
  pv_spawnable :: "pool \<Rightarrow> int"
  pv_reason :: string

definition view_parent ::
  "int \<Rightarrow> int \<Rightarrow> parent_counts dict \<Rightarrow> parent_row dict \<Rightarrow> string \<times> parent_registration \<Rightarrow> parent_view" where
  "view_parent limit capacity counts queued entry =
     (let reg = snd entry;
          target = parent_target limit reg;
          seen = dict_get_or no_counts (fst entry) counts;
          running = max 0 (pc_running seen);
          initializing = max 0 (pc_initializing seen);
          pools = clean (pr_pools (dict_get_or \<lparr>pr_pools = (\<lambda>_. 0), pr_manifest = JNull\<rparr> (fst entry) queued));
          queued_total = sum_pools pools;
          debt = (if rg_active reg then min queued_total (max 0 (target - running)) else 0);
          spawn_total = min (min debt (max 0 (target - running - initializing))) capacity
      in \<lparr>pv_active = rg_active reg, pv_target = target, pv_running = running,
          pv_initializing = initializing, pv_deficit = debt,
          pv_spawnable = split_deficit spawn_total pools,
          pv_reason = (if \<not> rg_active reg then ''parent_inactive''
            else if target \<le> running then ''at_parent_target''
            else if queued_total \<le> 0 then ''parent_backlog_empty''
            else if spawn_total \<le> 0 \<and> initializing \<noteq> 0 then ''parent_initializing''
            else if capacity \<le> 0 then ''global_at_capacity''
            else ''below_parent_target'')\<rparr>)"

definition parent_views ::
  "int \<Rightarrow> int \<Rightarrow> parent_registration dict \<Rightarrow> parent_counts dict \<Rightarrow> parent_row dict \<Rightarrow> (string \<times> parent_view) list" where
  "parent_views limit capacity registry counts queued =
     map (\<lambda>entry. (fst entry, view_parent limit capacity counts queued entry)) (sort_key fst registry)"

record refill_state =
  fs_target :: "pool \<Rightarrow> int"
  fs_low_water :: "pool \<Rightarrow> int"
  fs_pending :: "pool \<Rightarrow> int"
  fs_running :: "pool \<Rightarrow> int"
  fs_initializing :: "pool \<Rightarrow> int"
  fs_required :: "pool \<Rightarrow> bool"
  fs_deficit :: "pool \<Rightarrow> int"
  fs_unfulfilled :: "pool \<Rightarrow> int"
  fs_finalized :: bool
  fs_parents :: "(string \<times> parent_view) list"
  fs_reason :: string

text \<open>
  \<open>recompute\<close>: the state it writes and the event it appends. \<open>finalized\<close> is read from the
  prior state, and \<open>prior_required\<close> is its \<open>refill_required\<close>.
\<close>

datatype refill_event = Refill_required | Refill_clear

definition recompute ::
  "refill_policy \<Rightarrow> refill_env \<Rightarrow> work_queue \<Rightarrow> bool \<Rightarrow> bool \<Rightarrow> refill_state \<times> refill_event option" where
  "recompute policy env q finalized prior_required =
     (let v = refill_inputs_of policy env q finalized in
      (\<lparr>fs_target = in_targets v, fs_low_water = in_low_waters v, fs_pending = in_pending v,
        fs_running = in_running v, fs_initializing = in_initializing v, fs_required = required v,
        fs_deficit = split_deficit (deficit_total policy v) (raw_spawn v),
        fs_unfulfilled = raw_debt v, fs_finalized = finalized,
        fs_parents = parent_views (if rf_registry env = [] then 0 else rp_dialogue_target policy)
           (free_capacity policy v) (rf_registry env) (rs_parents (read_roster_state env)) (read_parent_queue q),
        fs_reason = refill_reason policy v\<rparr>,
       if required_any v then Some Refill_required
       else if prior_required then Some Refill_clear else None))"

text \<open>\<open>release_finalize\<close> and \<open>resume\<close> set the flag and recompute.\<close>

definition release_finalize ::
  "refill_policy \<Rightarrow> refill_env \<Rightarrow> work_queue \<Rightarrow> bool \<Rightarrow> refill_state \<times> refill_event option" where
  "release_finalize policy env q prior_required = recompute policy env q True prior_required"

definition resume ::
  "refill_policy \<Rightarrow> refill_env \<Rightarrow> work_queue \<Rightarrow> bool \<Rightarrow> refill_state \<times> refill_event option" where
  "resume policy env q prior_required = recompute policy env q False prior_required"

text \<open>
  \<open>read_state\<close>: the stored state with the policy version and file time it was computed
  from; a missing state or another version or time forces a recomputation.
\<close>

definition read_state ::
  "refill_policy \<Rightarrow> json \<times> json \<Rightarrow> refill_env \<Rightarrow> work_queue
    \<Rightarrow> (refill_state \<times> bool \<times> json \<times> json) option \<Rightarrow> refill_state \<times> refill_event option" where
  "read_state policy stamp env q stored =
     (case stored of
        None \<Rightarrow> recompute policy env q False False
      | Some (s, prior_required, version, mtime) \<Rightarrow>
          if \<not> py_eq version (fst stamp) \<or> \<not> py_eq mtime (snd stamp) then recompute policy env q (fs_finalized s) prior_required
          else (s, None))"

end
