(* ===== verification/Refill_Properties.thy ===== *)
theory Refill_Properties
  imports Refill
begin

text \<open>
  What the refill controller promises: the Hamilton split hands out exactly what can be
  handed out, the published deficit never exceeds the free capacity nor the pending work of
  its pool, and the sync from the ledger counts every piece of work in one pool.
\<close>

section \<open>The Hamilton split\<close>

lemma POOLS_all [simp]: "p \<in> set POOLS"
  by (cases p) (simp_all add: POOLS_def)

lemma sum_pools_eq: "sum_pools f = f V4 + f K3"
  by (simp add: sum_pools_def POOLS_def)

lemma sum_pools_mono: "(\<And>p. f p \<le> g p) \<Longrightarrow> sum_pools f \<le> sum_pools g"
  by (simp add: sum_pools_eq add_mono)

lemma all_pools: "(\<forall>p. P p) = (P V4 \<and> P K3)"
  by (metis pool.exhaust)

lemma remainder_sum:
  fixes m g r s :: int
  assumes eq: "m * g = r + s" and bounds: "0 \<le> r" "r < g" "0 \<le> s" "s < g"
  shows "m = 0 \<or> m = 1 \<and> 0 < r \<and> 0 < s"
proof -
  have g: "0 < g" using bounds by simp
  have "m * g < 2 * g" "0 \<le> m * g" using eq bounds by simp_all
  then have "m < 2" "0 \<le> m" using g by (simp_all add: zero_le_mult_iff mult_less_cancel_right)
  then have "m = 0 \<or> m = 1" by linarith
  then show ?thesis using eq bounds by auto
qed

lemma quota_remaining:
  fixes A a b :: int
  assumes "0 < a" "0 < b"
  shows "A - A * a div (a + b) - A * b div (a + b) = 0
    \<or> A - A * a div (a + b) - A * b div (a + b) = 1
      \<and> 0 < A * a mod (a + b) \<and> 0 < A * b mod (a + b)"
proof (rule remainder_sum [where g = "a + b"])
  have "(A * a div (a + b)) * (a + b) + A * a mod (a + b) = A * a"
    "(A * b div (a + b)) * (a + b) + A * b mod (a + b) = A * b"
    by (rule div_mult_mod_eq)+
  then show "(A - A * a div (a + b) - A * b div (a + b)) * (a + b)
      = A * a mod (a + b) + A * b mod (a + b)"
    by (simp add: algebra_simps)
qed (use assms in simp_all)

lemma quota_bound:
  fixes A a g :: int
  assumes "0 < a" "0 < g" "A \<le> g"
  shows "A * a div g \<le> a" "0 < A * a mod g \<Longrightarrow> A * a div g < a"
proof -
  have eq: "(A * a div g) * g + A * a mod g = A * a" by (rule div_mult_mod_eq)
  have le: "A * a \<le> a * g" using assms by (simp add: mult.commute mult_left_mono)
  have "0 \<le> A * a mod g" using assms by simp
  then have "(A * a div g) * g \<le> a * g" using eq le by linarith
  then show "A * a div g \<le> a" using assms by (simp add: mult_le_cancel_right)
  assume "0 < A * a mod g"
  then have "(A * a div g) * g < a * g" using eq le by linarith
  then show "A * a div g < a" using assms by (simp add: mult_less_cancel_right)
qed

lemma quota_exceeds:
  fixes A a g :: int
  assumes "0 < a" "0 < g" "g \<le> A"
  shows "a \<le> A * a div g"
proof -
  have "a * g div g \<le> A * a div g"
    using assms by (intro zdiv_mono1) (simp_all add: mult.commute mult_right_mono)
  then show ?thesis using assms by simp
qed

lemma split_order_two:
  "split_order r [V4, K3] = [V4, K3] \<or> split_order r [V4, K3] = [K3, V4]"
  by (simp add: split_order_def)

lemma split_order_one [simp]: "split_order r [p] = [p]"
  by (simp add: split_order_def)

lemma split_both:
  assumes pos: "0 < pending V4" "0 < pending K3" and amount: "0 < amount"
  shows "(\<forall>p. 0 \<le> split_deficit amount pending p \<and> split_deficit amount pending p \<le> pending p)
    \<and> sum_pools (split_deficit amount pending) = min amount (sum_pools pending)"
proof -
  let ?a = "pending V4" and ?b = "pending K3"
  let ?x = "amount * ?a div (?a + ?b)" and ?y = "amount * ?b div (?a + ?b)"
  have nonneg: "0 \<le> ?x" "0 \<le> ?y" using assms by (simp_all add: pos_imp_zdiv_nonneg_iff)
  have rest: "amount - ?x - ?y = 0 \<or> amount - ?x - ?y = 1
      \<and> 0 < amount * ?a mod (?a + ?b) \<and> 0 < amount * ?b mod (?a + ?b)"
    using quota_remaining pos amount by simp
  have small: "?x \<le> ?a \<and> ?y \<le> ?b \<and> (amount - ?x - ?y = 1 \<longrightarrow> ?x < ?a \<and> ?y < ?b)"
    if "amount \<le> ?a + ?b"
    using quota_bound [of ?a "?a + ?b" amount] quota_bound [of ?b "?a + ?b" amount] rest pos that by auto
  have large: "?a \<le> ?x \<and> ?b \<le> ?y" if "\<not> amount \<le> ?a + ?b"
    using quota_exceeds [of ?a "?a + ?b" amount] quota_exceeds [of ?b "?a + ?b" amount] pos that by auto
  show ?thesis
    using split_order_two [of "\<lambda>p. amount * pending p mod (?a + ?b)"] assms nonneg rest small large
    by (cases "amount \<le> ?a + ?b")
       (auto simp: split_deficit_def POOLS_def sum_pools_eq all_pools Let_def)
qed

lemma split_one:
  assumes "0 < pending p" "q \<noteq> p" "pending q = 0" "0 < amount"
  shows "(\<forall>p. 0 \<le> split_deficit amount pending p \<and> split_deficit amount pending p \<le> pending p)
    \<and> sum_pools (split_deficit amount pending) = min amount (sum_pools pending)"
  using assms
  by (cases p; cases q) (auto simp: split_deficit_def POOLS_def sum_pools_eq all_pools Let_def)

lemma split_nothing:
  "amount \<le> 0 \<Longrightarrow> split_deficit amount pending = (\<lambda>_. 0)"
  "(\<And>p. pending p = 0) \<Longrightarrow> split_deficit amount pending = (\<lambda>_. 0)"
  by (simp_all add: split_deficit_def)

lemma split_facts:
  assumes "\<forall>p. 0 \<le> pending p"
  shows "(\<forall>p. 0 \<le> split_deficit amount pending p \<and> split_deficit amount pending p \<le> pending p)
    \<and> sum_pools (split_deficit amount pending) = min (max 0 amount) (sum_pools pending)"
proof (cases "amount \<le> 0")
  case True
  then show ?thesis using assms by (simp add: split_nothing sum_pools_eq)
next
  case False
  have pos: "0 \<le> pending V4" "0 \<le> pending K3" using assms by simp_all
  consider "0 < pending V4" "0 < pending K3" | "0 < pending V4" "pending K3 = 0"
    | "pending V4 = 0" "0 < pending K3" | "pending V4 = 0" "pending K3 = 0"
    using pos by linarith
  then show ?thesis
  proof cases
    case 1 with False show ?thesis using split_both [of pending amount] by simp
  next
    case 2 with False show ?thesis using split_one [of pending V4 K3 amount] by simp
  next
    case 3 with False show ?thesis using split_one [of pending K3 V4 amount] by simp
  next
    case 4
    then have "pending p = 0" for p by (cases p) simp_all
    then show ?thesis by (simp add: split_nothing sum_pools_eq)
  qed
qed

lemma split_sound:
  assumes "\<forall>p. 0 \<le> pending p"
  shows "0 \<le> split_deficit amount pending p" "split_deficit amount pending p \<le> pending p"
    "sum_pools (split_deficit amount pending) = min (max 0 amount) (sum_pools pending)"
  using split_facts [OF assms] by blast+

text \<open>The split of a deficit over the two pools is exact: no pool gets a negative
  share or more than its own pending work, and the shares sum to the deficit, or to the whole
  pending work when the deficit exceeds it; rounding loses no slot.\<close>

theorem split_is_exact:
  assumes "\<forall>p. 0 \<le> pending p"
  shows "(\<forall>p. 0 \<le> split_deficit amount pending p \<and> split_deficit amount pending p \<le> pending p)
    \<and> sum_pools (split_deficit amount pending) = min (max 0 amount) (sum_pools pending)"
  by (rule split_facts [OF assms])

theorem split_is_exact_witness:
  "sum_pools (split_deficit 10 (\<lambda>p. case p of V4 \<Rightarrow> 7 | K3 \<Rightarrow> 8)) = 10"
proof -
  have "\<forall>p. 0 \<le> (case p of V4 \<Rightarrow> 7 | K3 \<Rightarrow> (8::int))" by (simp split: pool.split)
  from split_is_exact [OF this, of 10] show ?thesis by (simp add: sum_pools_eq)
qed

section \<open>The published deficit\<close>

lemma read_queue_nonneg [simp]: "0 \<le> read_queue q p"
  by (simp add: read_queue_def clean_def)

lemma count_row_nonneg:
  "\<forall>p k. 0 \<le> rs_counts rs p k \<Longrightarrow> \<forall>p k. 0 \<le> rs_counts (count_row item q key rs) p k"
  by (simp add: count_row_def)

lemma counters_nonneg:
  assumes "\<forall>p k. 0 \<le> rs_counts rs p k"
  shows "\<forall>p k. 0 \<le> rs_counts (count_native now item rs) p k"
    "\<forall>p k. 0 \<le> rs_counts (count_pending now item rs) p k"
    "\<forall>p k. 0 \<le> rs_counts (count_job token item rs) p k"
  using assms by (auto simp: count_native_def count_pending_def count_job_def Let_def count_row_nonneg
      split: option.split if_splits)

lemma fold_nonneg:
  assumes "\<And>item rs. \<forall>p k. 0 \<le> rs_counts rs p k \<Longrightarrow> \<forall>p k. 0 \<le> rs_counts (f item rs) p k"
    and "\<forall>p k. 0 \<le> rs_counts rs p k"
  shows "\<forall>p k. 0 \<le> rs_counts (fold f items rs) p k"
  using assms(2) by (induction items arbitrary: rs) (simp_all add: assms(1))

lemma overlay_nonneg:
  "\<forall>p k. 0 \<le> rs_counts rs p k \<Longrightarrow> \<forall>p k. 0 \<le> rs_counts (overlay snapshot rs) p k"
  by (simp add: overlay_def split: option.split)

lemma roster_nonneg: "\<forall>p k. 0 \<le> rs_counts (read_roster_state env) p k"
  unfolding read_roster_state_def
  by (intro overlay_nonneg fold_nonneg) (erule counters_nonneg | simp)+

lemma raw_spawn_nonneg [simp]: "0 \<le> raw_spawn v p"
  by (simp add: raw_spawn_def)

lemma deficit_total_bounds [simp]:
  "0 \<le> deficit_total policy v" "deficit_total policy v \<le> free_capacity policy v"
  "deficit_total policy v \<le> sum_pools (raw_spawn v)"
  by (simp_all add: deficit_total_def free_capacity_def sum_pools_eq)

lemma recompute_fields:
  fixes policy env q finalized prior
  defines "v \<equiv> refill_inputs_of policy env q finalized"
    and "s \<equiv> fst (recompute policy env q finalized prior)"
  shows "0 \<le> in_initializing v p" "fs_pending s = read_queue q" "fs_running s = in_running v"
    "fs_initializing s = in_initializing v" "fs_required s = required v"
    "fs_deficit s = split_deficit (deficit_total policy v) (raw_spawn v)"
    "fs_unfulfilled s = raw_debt v" "in_finalized v = finalized" "in_pending v = read_queue q"
  by (simp_all add: s_def v_def recompute_def refill_inputs_of_def Let_def roster_nonneg split: prod.split)

lemma published_deficit:
  "let s = fst (recompute policy env q finalized prior) in
     sum_pools (fs_deficit s)
       \<le> max 0 (rp_target_total policy - sum_pools (fs_running s) - sum_pools (fs_initializing s))
     \<and> (\<forall>p. 0 \<le> fs_deficit s p
          \<and> (fs_deficit s p \<noteq> 0
              \<longrightarrow> 0 < read_queue q p \<and> \<not> finalized \<and> fs_deficit s p \<le> fs_unfulfilled s p))"
proof -
  let ?v = "refill_inputs_of policy env q finalized"
  note split = split_sound [of "raw_spawn ?v" "deficit_total policy ?v"]
  have "sum_pools (split_deficit (deficit_total policy ?v) (raw_spawn ?v)) \<le> free_capacity policy ?v"
    using split(3) by (simp add: min_def)
  moreover have "required ?v p \<and> split_deficit (deficit_total policy ?v) (raw_spawn ?v) p \<le> raw_debt ?v p"
    if "split_deficit (deficit_total policy ?v) (raw_spawn ?v) p \<noteq> 0" for p
    using split(1) [of p] split(2) [of p] that recompute_fields(1) [of policy env q finalized p]
    by (auto simp: raw_spawn_def raw_debt_def split: if_splits)
  ultimately show ?thesis
    using split(1) by (auto simp: Let_def recompute_fields free_capacity_def required_def)
qed

text \<open>Claim C33. The published deficit never oversubscribes: the running and initializing agents
  plus the deficit stay within the total target (when they are already above it the deficit is
  zero), no pool is asked for more than its debt, and a pool gets a share only if it has
  pending work, so zero demand spawns nothing; a finalized release spawns nothing at all.\<close>

theorem refill_never_oversubscribes:
  "let s = fst (recompute policy env q finalized prior) in
     sum_pools (fs_deficit s)
       \<le> max 0 (rp_target_total policy - sum_pools (fs_running s) - sum_pools (fs_initializing s))
     \<and> (\<forall>p. 0 \<le> fs_deficit s p
          \<and> (fs_deficit s p \<noteq> 0
              \<longrightarrow> 0 < read_queue q p \<and> \<not> finalized \<and> fs_deficit s p \<le> fs_unfulfilled s p))"
  by (rule published_deficit)

definition example_policy :: refill_policy where
  "example_policy = \<lparr>rp_target = (\<lambda>p. case p of V4 \<Rightarrow> 60 | K3 \<Rightarrow> 20),
     rp_low_water = (\<lambda>p. case p of V4 \<Rightarrow> 45 | K3 \<Rightarrow> 15), rp_target_total = 80,
     rp_dialogue_target = 20, rp_borrowable = True\<rparr>"

definition example_env :: refill_env where
  "example_env = \<lparr>rf_now = 1000, rf_agents =
       [[(''role'', JStr ''verifier''), (''status'', JStr ''running''), (''updated_at'', JInt 900)],
        [(''model'', JStr ''deepseek-v4''), (''status'', JStr ''initializing''), (''updated_at'', JInt 990)]],
     rf_pending = [], rf_jobs = [], rf_start_token = (\<lambda>_. None), rf_observer = None, rf_registry = []\<rparr>"

definition example_queue :: work_queue where
  "example_queue = \<lparr>wq_pools = (\<lambda>p. case p of V4 \<Rightarrow> 70 | K3 \<Rightarrow> 30), wq_parents = []\<rparr>"

lemma example_deficit:
  "let s = fst (recompute example_policy example_env example_queue False False) in
     fs_deficit s V4 = 59 \<and> fs_deficit s K3 = 19 \<and> fs_running s K3 = 1 \<and> fs_initializing s V4 = 1"
  by code_simp

theorem refill_never_oversubscribes_witness:
  "let s = fst (recompute example_policy example_env example_queue False False) in
     fs_deficit s K3 = 19 \<and> fs_deficit s K3 \<le> fs_unfulfilled s K3 \<and> 0 < read_queue example_queue K3"
  using refill_never_oversubscribes [of example_policy example_env example_queue False False] example_deficit
  unfolding Let_def by (metis zero_neq_numeral)

section \<open>The sync from the ledger\<close>

text \<open>The pool whose demand a packet is, if it is demand at all.\<close>

definition admitted :: "parent_registration dict \<Rightarrow> packet \<Rightarrow> bool" where
  "admitted registered pkt =
     (case parent_key (p_parent_session_id pkt) of
        None \<Rightarrow> True | Some parent \<Rightarrow> parent_admits registered parent pkt)"

definition demand_pool :: "parent_registration dict \<Rightarrow> packet \<Rightarrow> pool option" where
  "demand_pool registered pkt =
     (if p_state pkt = ''DISPATCHABLE''
      then (if admitted registered pkt then Some (pool_for_packet pkt) else None)
      else if p_state pkt \<in> set K3_WORK_STATES then Some K3 else None)"

definition parent_demands :: "parent_registration dict \<Rightarrow> string \<Rightarrow> pool \<Rightarrow> packet \<Rightarrow> bool" where
  "parent_demands registered parent p pkt \<longleftrightarrow>
     p_state pkt = ''DISPATCHABLE'' \<and> parent_key (p_parent_session_id pkt) = Some parent
     \<and> parent_admits registered parent pkt \<and> pool_for_packet pkt = p"

definition queued_for :: "parent_row dict \<Rightarrow> string \<Rightarrow> pool \<Rightarrow> int" where
  "queued_for rows parent p = (case map_of rows parent of None \<Rightarrow> 0 | Some row \<Rightarrow> pr_pools row p)"

definition how_many :: "('a \<Rightarrow> bool) \<Rightarrow> 'a list \<Rightarrow> int" where
  "how_many P xs = int (length (filter P xs))"

lemma how_many_simps [simp]:
  "how_many P [] = 0" "how_many P (x # xs) = (if P x then 1 else 0) + how_many P xs"
  by (simp_all add: how_many_def)

lemma how_many_nonneg [simp]: "0 \<le> how_many P xs"
  by (simp add: how_many_def)

lemma count_packet_ready:
  "fst (count_packet registered pkt acc) p
     = fst acc p + (if demand_pool registered pkt = Some p then 1 else 0)"
  by (auto simp: count_packet_def demand_pool_def admitted_def bump_def Let_def
      split: prod.split option.split)

lemma count_packet_rows:
  "queued_for (snd (count_packet registered pkt acc)) parent p
     = queued_for (snd acc) parent p + (if parent_demands registered parent p pkt then 1 else 0)"
  by (auto simp: count_packet_def parent_demands_def add_parent_demand_def queued_for_def bump_def
      dict_get_or_def Let_def
      split: prod.split option.split)

lemma fold_count_packet:
  "fst (fold (\<lambda>entry. count_packet registered (snd entry)) ledger acc) p
     = fst acc p + how_many (\<lambda>pkt. demand_pool registered pkt = Some p) (map snd ledger)"
  "queued_for (snd (fold (\<lambda>entry. count_packet registered (snd entry)) ledger acc)) parent p
     = queued_for (snd acc) parent p + how_many (parent_demands registered parent p) (map snd ledger)"
  by (induction ledger arbitrary: acc) (simp_all add: count_packet_ready count_packet_rows)

lemma queued_for_clean:
  "queued_for (map (\<lambda>(k, row). (k, row\<lparr>pr_pools := clean (pr_pools row)\<rparr>)) rows) parent p
     = max 0 (queued_for rows parent p)"
  by (induction rows) (auto simp: queued_for_def clean_def)

lemma no_queue: "queued_for [] parent p = 0"
  by (simp add: queued_for_def)

text \<open>The sync from the ledger is total and counts every unit of work once: after it
  each pool's pending count is the number of ledger packets whose work belongs to that pool
  (dispatchable packets by role or hint, unless a registered parent of another manifest or no
  registered parent claims them, and the verification states as K3), and each parent's count
  is the number of its own admitted dispatchable packets in that pool.\<close>

theorem sync_counts_every_packet_once:
  "read_queue (queue_sync_ledger registered ledger) p
     = how_many (\<lambda>pkt. demand_pool registered pkt = Some p) (map snd ledger)
   \<and> queued_for (read_parent_queue (queue_sync_ledger registered ledger)) parent p
     = how_many (parent_demands registered parent p) (map snd ledger)"
  using fold_count_packet(1) [of registered ledger "(\<lambda>_. 0, [])" p]
    fold_count_packet(2) [of registered ledger "(\<lambda>_. 0, [])" parent p]
    no_queue [of parent p]
  by (simp add: queue_sync_ledger_def read_queue_def read_parent_queue_def write_queue_def
      queued_for_clean split_beta del: map_map) (simp add: clean_def)

end
