(* ===== verification/Governor.thy ===== *)
theory Governor
  imports Policy "HOL-Library.Char_ord"
begin

text \<open>
  The root-turn governor, \<open>src/harness/root_turn_governor.py\<close>: the planning lease, the
  hysteresis controller, the attested loop state, the meter and budget inputs, and the
  evaluation of one tool call of the root session, wrapped by the hook entry. Files the
  governor reads and writes are the state \<open>governor_world\<close>; what it only reads, with the
  clock and the environment variable, is \<open>governor_env\<close>. An uncaught exception is
  \<open>Inl\<close>; what was written before it stays written. Reasons of decisions are constructors
  carrying the values their texts render.
\<close>

definition ALLOWED_STATES :: "string list" where
  "ALLOWED_STATES = [''planning'', ''adjudication'', ''release_finalize'']"

definition GATED_TOOLS :: "string list" where
  "GATED_TOOLS = [''shell'', ''shell_command'', ''bash'', ''local_shell'', ''exec_command'',
     ''functions.exec'', ''run_terminal'', ''terminal'', ''web_search'', ''search'', ''grep'', ''glob'',
     ''mcp__'', ''read_mcp_resource'', ''list_mcp'', ''read_many_files'', ''read_file'', ''list_files'',
     ''pytest'', ''test'']"

definition ADJUDICATION_STATES :: "string list" where
  "ADJUDICATION_STATES = [''SOL_ADJUDICATE'', ''DEAD_LETTER'', ''MERGE_CONFLICT'', ''WAVE_DONE'',
     ''WAVE_DONE_READY'', ''SOL_WAKE'']"

definition TERMINAL_STATES :: "string list" where
  "TERMINAL_STATES = [''MERGED'', ''DONE'']"

definition EXECUTION_K3_STATES :: "string list" where
  "EXECUTION_K3_STATES = [''EXPAND_K3'', ''L2_VERIFY'', ''L2_RANK'']"

definition CHILD_ROLES :: "string list" where
  "CHILD_ROLES = [''worker'', ''verifier'', ''reviewer'', ''plan_expander'', ''duty_officer'', ''explorer'']"

section \<open>Decisions\<close>

datatype gate_verdict = Gate_allow | Gate_deny

record planning_lease =
  granted_ts :: rat
  turns_used :: int
  new_tokens_used :: int

datatype gate_reason =
    Tool_not_gated
  | Approved_child_role
  | Dispatch_target_family
  | Model_unknown json
  | Break_glass string
  | Ledger_failed
  | Budget_ladder string
  | Lease_granted
  | Lease_exhausted planning_lease
  | Exempt_state string
  | Meter_failed string
  | High_band rat
  | Delegate string

record governor_decision =
  gd_verdict :: gate_verdict
  gd_reason :: gate_reason
  gd_loop_state :: string
  gd_events :: "string list"

definition hook_output :: "governor_decision \<Rightarrow> gate_reason option" where
  "hook_output d = (if gd_verdict d = Gate_allow then None else Some (gd_reason d))"

definition allow :: "gate_reason \<Rightarrow> string \<Rightarrow> string list \<Rightarrow> governor_decision" where
  "allow reason state events =
     \<lparr>gd_verdict = Gate_allow, gd_reason = reason, gd_loop_state = state, gd_events = events\<rparr>"

definition deny :: "gate_reason \<Rightarrow> string \<Rightarrow> string list \<Rightarrow> governor_decision" where
  "deny reason state events =
     \<lparr>gd_verdict = Gate_deny, gd_reason = reason, gd_loop_state = state, gd_events = events\<rparr>"

section \<open>Planning lease\<close>

definition fresh_lease :: "rat \<Rightarrow> planning_lease" where
  "fresh_lease now = \<lparr>granted_ts = now, turns_used = 0, new_tokens_used = 0\<rparr>"

text \<open>The file's content (\<open>None\<close> when missing or not JSON); a malformed document is a new lease.\<close>

definition lease_load :: "rat \<Rightarrow> json option \<Rightarrow> planning_lease" where
  "lease_load now content =
     (case content of
        Some (JObj d) \<Rightarrow>
          (case map_of d ''granted_ts'' of
             None \<Rightarrow> fresh_lease now
           | Some granted \<Rightarrow>
               (case (py_float granted, py_int (jget_or (JInt 0) d ''turns_used''),
                      py_int (jget_or (JInt 0) d ''new_tokens_used'')) of
                  (Inr g, Inr t, Inr n) \<Rightarrow> \<lparr>granted_ts = g, turns_used = t, new_tokens_used = n\<rparr>
                | _ \<Rightarrow> fresh_lease now))
      | _ \<Rightarrow> fresh_lease now)"

definition lease_save :: "planning_lease \<Rightarrow> json" where
  "lease_save l = JObj [(''granted_ts'', JFloat (granted_ts l)), (''turns_used'', JInt (turns_used l)),
     (''new_tokens_used'', JInt (new_tokens_used l))]"

definition exhausted :: "planning_lease \<Rightarrow> int \<Rightarrow> int \<Rightarrow> bool" where
  "exhausted l max_turns max_new_tokens \<longleftrightarrow>
     max_turns \<le> turns_used l \<or> max_new_tokens \<le> new_tokens_used l"

definition consume_turn :: "int \<Rightarrow> planning_lease \<Rightarrow> planning_lease" where
  "consume_turn new_tokens l =
     l\<lparr>turns_used := turns_used l + 1, new_tokens_used := new_tokens_used l + max 0 new_tokens\<rparr>"

definition lease_renew :: "rat \<Rightarrow> string \<Rightarrow> json" where
  "lease_renew now reason = JObj [(''granted_ts'', JFloat now), (''turns_used'', JInt 0),
     (''new_tokens_used'', JInt 0), (''renewed_for'', JStr reason)]"

section \<open>Hysteresis\<close>

record hysteresis_state =
  hs_band :: string
  hs_above :: int
  hs_below :: int
  hs_last_sample :: "string option"

text \<open>The defaults of a missing file.\<close>

definition fresh_hysteresis :: hysteresis_state where
  "fresh_hysteresis = \<lparr>hs_band = ''NORMAL'', hs_above = 0, hs_below = 0, hs_last_sample = None\<rparr>"

definition observe :: "hysteresis \<Rightarrow> rat \<Rightarrow> string \<Rightarrow> hysteresis_state \<Rightarrow> hysteresis_state" where
  "observe params share sample_id st =
     (if hs_last_sample st = Some sample_id then st
      else if hs_band st = ''NORMAL''
      then (let above = (if enter_high params < share then hs_above st + 1 else 0) in
            if enter_samples params \<le> above
            then \<lparr>hs_band = ''HIGH'', hs_above = 0, hs_below = 0, hs_last_sample = Some sample_id\<rparr>
            else st\<lparr>hs_above := above, hs_last_sample := Some sample_id\<rparr>)
      else (let below = (if share < leave_high params then hs_below st + 1 else 0) in
            if leave_samples params \<le> below
            then \<lparr>hs_band = ''NORMAL'', hs_above = 0, hs_below = 0, hs_last_sample = Some sample_id\<rparr>
            else st\<lparr>hs_below := below, hs_last_sample := Some sample_id\<rparr>))"

text \<open>The decimal rendering \<open>f"{share:.6f}"\<close> of the sample id: rounding half to even.\<close>

definition pad6 :: "string \<Rightarrow> string" where
  "pad6 s = replicate (6 - length s) (CHR ''0'') @ s"

definition round_half_even :: "rat \<Rightarrow> int" where
  "round_half_even x =
     (let n = \<lfloor>x\<rfloor>; d = x - of_int n in
      if d < 1 / 2 then n else if 1 / 2 < d then n + 1 else if even n then n else n + 1)"

definition fixed6 :: "rat \<Rightarrow> string" where
  "fixed6 x =
     (let n = nat (round_half_even (\<bar>x\<bar> * 1000000)) in
      (if x < 0 then ''-'' else []) @ decimal (n div 1000000) @ ''.'' @ pad6 (decimal (n mod 1000000)))"

definition sample_id_of :: "string \<Rightarrow> rat \<Rightarrow> string" where
  "sample_id_of path share = path @ '':'' @ fixed6 share"

section \<open>Files\<close>

text \<open>\<open>read_json(path, None)\<close> with \<open>path.exists()\<close>; a document \<open>null\<close> is \<open>None\<close> too.\<close>

datatype disk_file = Missing | Garbled | Doc json

record governor_env =
  ge_now :: rat
  ge_policy :: "policy_error + jobj"
  ge_meter :: disk_file
  ge_meter_path :: string
  ge_budget :: disk_file
  ge_override :: string

record governor_world =
  gw_ledger :: disk_file
  gw_attestations :: "json list"
  gw_lease :: "json option"
  gw_hysteresis :: hysteresis_state
  gw_events :: "(string \<times> jobj) list"

definition log_event :: "string \<Rightarrow> jobj \<Rightarrow> governor_world \<Rightarrow> governor_world" where
  "log_event name detail w = w\<lparr>gw_events := gw_events w @ [(name, detail)]\<rparr>"

definition doc_of :: "disk_file \<Rightarrow> json" where
  "doc_of content = (case content of Doc v \<Rightarrow> v | _ \<Rightarrow> JNull)"

section \<open>Attested loop state\<close>

text \<open>
  The generator stops at the first matching record; \<open>rec.get\<close> on a line that is not an object
  raises. Lines that are not JSON are skipped by the reader and absent here.
\<close>

fun find_attestation :: "string \<Rightarrow> string \<Rightarrow> json list \<Rightarrow> py_error + bool" where
  "find_attestation key st [] = Inr False"
| "find_attestation key st (r # rs) =
     (case r of
        JObj d \<Rightarrow> if jget d ''idem_key'' = JStr key \<and> jget d ''state'' = JStr st then Inr True
                  else find_attestation key st rs
      | _ \<Rightarrow> Inl AttributeError)"

definition attested_state ::
  "jobj \<Rightarrow> governor_world \<Rightarrow> (py_error + string option) \<times> governor_world" where
  "attested_state led w =
     (case jget led ''loop_state'' of
        JStr explicit \<Rightarrow>
          if explicit = [] then (Inr None, w)
          else (let bare = (Inr None, log_event ''governor.state_key_unattested''
                              [(''claimed_state'', JStr explicit)] w) in
                case jget led ''loop_state_attestation'' of
                  JStr key \<Rightarrow>
                    if key = [] then bare
                    else (case find_attestation key explicit (gw_attestations w) of
                            Inl e \<Rightarrow> (Inl e, w)
                          | Inr True \<Rightarrow> (Inr (Some explicit), w)
                          | Inr False \<Rightarrow> bare)
                | _ \<Rightarrow> bare)
      | _ \<Rightarrow> (Inr None, w))"

text \<open>
  \<open>loop_state_set\<close>. The record's idempotency key comes from \<open>idem_key\<close> over the digest
  \<open>b32digest\<close> and the rendering of the clock; \<open>read_json(\<dots>) or {}\<close> replaces an
  unreadable or empty ledger, and indexing a document that is not an object raises.
\<close>

definition attestation :: "string \<Rightarrow> string \<Rightarrow> string \<Rightarrow> rat \<Rightarrow> json" where
  "attestation key st reason now = JObj [(''ts'', JFloat now), (''event'', JStr ''governor.state_set''),
     (''state'', JStr st), (''reason'', JStr reason), (''idem_key'', JStr key)]"

definition clock_text :: "rat \<Rightarrow> string" where
  "clock_text now = (let n = trunc_rat now in if n < 0 then ''-'' @ decimal (nat (- n)) else decimal (nat n))"

definition loop_state_set ::
  "(string \<Rightarrow> string) \<Rightarrow> rat \<Rightarrow> string \<Rightarrow> string \<Rightarrow> governor_world \<Rightarrow> (py_error + json) \<times> governor_world" where
  "loop_state_set b32digest now st reason w =
     (if st \<notin> set (''execution'' # ALLOWED_STATES) then (Inl ValueError, w)
      else let key = idem_key b32digest ''state_set'' st [reason, clock_text now];
               entry = attestation key st reason now;
               w' = w\<lparr>gw_attestations := gw_attestations w @ [entry]\<rparr>;
               led = py_or (doc_of (gw_ledger w)) (JObj [(''packets'', JObj [])]) in
           case led of
             JObj d \<Rightarrow> (Inr entry, w'\<lparr>gw_ledger := Doc (JObj (dict_set ''loop_state_attestation'' (JStr key)
                         (dict_set ''loop_state'' (JStr st) d)))\<rparr>)
           | _ \<Rightarrow> (Inl TypeError, w'))"

section \<open>Loop state\<close>

text \<open>Membership in a set hashes the value; \<open>any\<close> and \<open>all\<close> stop early.\<close>

fun any_in :: "string list \<Rightarrow> json list \<Rightarrow> py_error + bool" where
  "any_in S [] = Inr False"
| "any_in S (v # vs) =
     (if \<not> hashable v then Inl TypeError
      else if v \<in> JStr ` set S then Inr True else any_in S vs)"

fun all_in :: "string list \<Rightarrow> json list \<Rightarrow> py_error + bool" where
  "all_in S [] = Inr True"
| "all_in S (v # vs) =
     (if \<not> hashable v then Inl TypeError
      else if v \<notin> JStr ` set S then Inr False else all_in S vs)"

definition packet_states :: "jobj \<Rightarrow> py_error + json list" where
  "packet_states led =
     (case jget_or (JObj []) led ''packets'' of
        JObj packets \<Rightarrow>
          if list_all (\<lambda>entry. is_obj (snd entry)) packets
          then Inr (map (\<lambda>entry. jget (obj_of (snd entry)) ''state'') packets)
          else Inl AttributeError
      | _ \<Rightarrow> Inl AttributeError)"

definition derived_state :: "jobj \<Rightarrow> py_error + string" where
  "derived_state led =
     (case packet_states led of
        Inl e \<Rightarrow> Inl e
      | Inr states \<Rightarrow>
          if states = [] then Inr ''planning''
          else (case any_in ADJUDICATION_STATES states of
                  Inl e \<Rightarrow> Inl e
                | Inr True \<Rightarrow> Inr ''adjudication''
                | Inr False \<Rightarrow>
                    (case all_in TERMINAL_STATES states of
                       Inl e \<Rightarrow> Inl e
                     | Inr True \<Rightarrow> Inr ''release_finalize''
                     | Inr False \<Rightarrow> Inr ''execution'')))"

definition with_trust :: "bool \<Rightarrow> py_error + string \<Rightarrow> py_error + (string \<times> bool)" where
  "with_trust trusted r = (case r of Inl e \<Rightarrow> Inl e | Inr st \<Rightarrow> Inr (st, trusted))"

definition loop_state :: "governor_world \<Rightarrow> (py_error + (string \<times> bool)) \<times> governor_world" where
  "loop_state w =
     (case gw_ledger w of
        Missing \<Rightarrow> (Inr (''planning'', True), w)
      | Garbled \<Rightarrow> (Inr (''unknown'', False), w)
      | Doc JNull \<Rightarrow> (Inr (''unknown'', False), w)
      | Doc (JObj led) \<Rightarrow>
          (case attested_state led w of
             (Inl e, w') \<Rightarrow> (Inl e, w')
           | (Inr (Some st), w') \<Rightarrow> (Inr (st, True), w')
           | (Inr None, w') \<Rightarrow> (with_trust True (derived_state led), w'))
      | Doc _ \<Rightarrow> (Inl AttributeError, w))"

section \<open>Meter and budget\<close>

definition meter_status :: "rat \<Rightarrow> rat \<Rightarrow> disk_file \<Rightarrow> rat option \<times> string" where
  "meter_status now stale_after content =
     (case content of
        Missing \<Rightarrow> (None, ''MISSING'')
      | Doc (JObj report) \<Rightarrow>
          (let generated = jget_or (jget report ''generated_ts'') report ''generated_at'' in
           if generated = JNull then (None, ''MALFORMED'')
           else case py_float generated of
             Inl e \<Rightarrow> (None, ''MALFORMED'')
           | Inr g \<Rightarrow>
               if stale_after < now - g then (None, ''STALE'')
               else (case jget_or (JObj []) report ''windows'' of
                       JObj windows \<Rightarrow>
                         (case jget windows ''rolling_5h'' of
                            JObj w5h \<Rightarrow>
                              if jget w5h ''status'' = JStr ''INSUFFICIENT_DATA''
                              then (None, ''INSUFFICIENT_DATA'')
                              else (case py_float (jget_or (jget w5h ''share_effective'') w5h ''sol_share_effective'') of
                                      Inr x \<Rightarrow> (Some x, ''OK'')
                                    | Inl e \<Rightarrow> (None, ''MALFORMED''))
                          | _ \<Rightarrow> (None, ''MALFORMED''))
                     | _ \<Rightarrow> (None, ''MALFORMED'')))
      | _ \<Rightarrow> (None, ''MALFORMED''))"

definition active_budget :: "disk_file \<Rightarrow> string" where
  "active_budget content =
     (case content of
        Doc (JObj d) \<Rightarrow>
          (case jget d ''state'' of
             JStr s \<Rightarrow> if s \<in> {''NORMAL'', ''THROTTLE'', ''DEGRADE'', ''BREAK''} then s else ''NORMAL''
           | _ \<Rightarrow> ''NORMAL'')
      | _ \<Rightarrow> ''NORMAL'')"

section \<open>Model family\<close>

text \<open>\<open>v or ""\<close> used as a string: a truthy value of another type has no string methods.\<close>

definition text_or_empty :: "json \<Rightarrow> py_error + string" where
  "text_or_empty v =
     (if \<not> truthy v then Inr [] else case v of JStr s \<Rightarrow> Inr s | _ \<Rightarrow> Inl AttributeError)"

definition model_family :: "jobj \<Rightarrow> json \<Rightarrow> py_error + string option" where
  "model_family policy model =
     (case text_or_empty model of
        Inl e \<Rightarrow> Inl e
      | Inr raw \<Rightarrow>
          (let value = py_strip raw in
           if value = [] then Inr None
           else case (model_pin policy ''sol'', model_pin policy ''k3'', model_pin policy ''v4'') of
                  (Inr sol, Inr k3, Inr v4) \<Rightarrow>
                    Inr (if value = sol then Some ''sol'' else if value = k3 then Some ''k3''
                         else if value = v4 then Some ''v4'' else None)
                | _ \<Rightarrow> Inr None))"

section \<open>Evaluation\<close>

text \<open>\<open>str(v)\<close> of another type is no role name.\<close>

definition child_role :: "json \<Rightarrow> bool" where
  "child_role role = (case role of JStr s \<Rightarrow> py_lower (py_strip s) \<in> set CHILD_ROLES | _ \<Rightarrow> False)"

type_synonym outcome = "(py_error + governor_decision) \<times> governor_world"

definition evaluate_planning :: "governor_env \<Rightarrow> jobj \<Rightarrow> string \<Rightarrow> int \<Rightarrow> string \<Rightarrow> governor_world \<Rightarrow> outcome" where
  "evaluate_planning env policy tool tokens st w =
     (let l = lease_load (ge_now env) (gw_lease w) in
      case (planning_max_turns policy, planning_max_new_tokens policy) of
        (Inl e, _) \<Rightarrow> (Inl e, w)
      | (Inr _, Inl e) \<Rightarrow> (Inl e, w)
      | (Inr max_turns, Inr max_tokens) \<Rightarrow>
          if exhausted l max_turns max_tokens
          then (Inr (deny (Lease_exhausted l) st []),
                log_event ''governor.lease_denied''
                  [(''tool'', JStr tool), (''turns_used'', JInt (turns_used l)),
                   (''new_tokens_used'', JInt (new_tokens_used l))] w)
          else (Inr (allow Lease_granted st []), w\<lparr>gw_lease := Some (lease_save (consume_turn tokens l))\<rparr>))"

definition evaluate_execution ::
  "governor_env \<Rightarrow> jobj \<Rightarrow> hysteresis \<Rightarrow> string \<Rightarrow> string \<Rightarrow> governor_world \<Rightarrow> outcome" where
  "evaluate_execution env policy params tool st w =
     (if ge_meter env = Missing
      then (Inr (deny (Meter_failed ''MISSING'') st [''governor.fail_closed'']),
            log_event ''governor.fail_closed'' [(''tool'', JStr tool), (''why'', JStr ''meter_missing'')] w)
      else if \<not> is_obj (doc_of (ge_meter env))
      then (Inr (deny (Meter_failed ''MALFORMED'') st [''governor.fail_closed'']),
            log_event ''governor.fail_closed'' [(''tool'', JStr tool), (''why'', JStr ''meter_malformed'')] w)
      else case meter_stale_after_s policy of
        Inl e \<Rightarrow> (Inl e, w)
      | Inr stale_after \<Rightarrow>
          (let (share, status) = meter_status (ge_now env) stale_after (ge_meter env) in
           if status \<in> {''MISSING'', ''MALFORMED'', ''STALE''}
           then (Inr (deny (Meter_failed status) st [''governor.fail_closed'']),
                 log_event ''governor.fail_closed''
                   [(''tool'', JStr tool), (''why'', JStr (''meter_'' @ py_lower status))] w)
           else (case share of
               None \<Rightarrow> (Inr (deny (Delegate st) st []), w)
             | Some x \<Rightarrow>
                 (let h = observe params x (sample_id_of (ge_meter_path env) x) (gw_hysteresis w);
                      w' = w\<lparr>gw_hysteresis := h\<rparr> in
                  if hs_band h = ''HIGH''
                  then (Inr (deny (High_band x) st []),
                        log_event ''governor.share_denied'' [(''tool'', JStr tool), (''share_5h'', JFloat x)] w')
                  else (Inr (deny (Delegate st) st []), w')))))"

text \<open>The decision once the loop state is known.\<close>

definition evaluate_state ::
  "governor_env \<Rightarrow> jobj \<Rightarrow> hysteresis \<Rightarrow> string \<Rightarrow> int \<Rightarrow> string \<Rightarrow> bool \<Rightarrow> governor_world \<Rightarrow> outcome" where
  "evaluate_state env policy params tool tokens st trusted w =
     (if ge_override env \<noteq> []
      then (Inr (allow (Break_glass (ge_override env)) st [''governor.break_glass'']),
            log_event ''governor.break_glass'' [(''tool'', JStr tool),
              (''reason'', JStr (ge_override env)), (''loop_state'', JStr st)] w)
      else if \<not> trusted
      then (Inr (deny Ledger_failed st [''governor.fail_closed'']),
            log_event ''governor.fail_closed'' [(''tool'', JStr tool), (''why'', JStr ''ledger_unreadable'')] w)
      else let budget = active_budget (ge_budget env) in
           if budget \<in> {''DEGRADE'', ''BREAK''}
           then (Inr (deny (Budget_ladder budget) st [''governor.fail_closed'']),
                 log_event ''governor.fail_closed''
                   [(''tool'', JStr tool), (''why'', JStr (''budget_'' @ py_lower budget))] w)
           else if st = ''planning'' then evaluate_planning env policy tool tokens st w
           else if st \<in> {''adjudication'', ''release_finalize''}
           then (Inr (allow (Exempt_state st) st []), w)
           else evaluate_execution env policy params tool st w)"

definition evaluate ::
  "governor_env \<Rightarrow> jobj \<Rightarrow> hysteresis \<Rightarrow> string \<Rightarrow> json \<Rightarrow> int \<Rightarrow> json \<Rightarrow> governor_world \<Rightarrow> outcome" where
  "evaluate env policy params tool_name model tokens role w =
     (let tool = py_lower tool_name in
      if \<not> startswith_any tool GATED_TOOLS then (Inr (allow Tool_not_gated ''-'' []), w)
      else if child_role role then (Inr (allow Approved_child_role ''-'' []), w)
      else case model_family policy model of
        Inl e \<Rightarrow> (Inl e, w)
      | Inr family \<Rightarrow>
          if family = Some ''v4'' \<or> family = Some ''k3''
          then (Inr (allow Dispatch_target_family ''-'' []), w)
          else if family \<noteq> Some ''sol''
          then (Inr (deny (Model_unknown model) ''-'' [''governor.fail_closed'']), w)
          else (case loop_state w of
                  (Inl e, w') \<Rightarrow> (Inl e, w')
                | (Inr (st, trusted), w') \<Rightarrow> evaluate_state env policy params tool tokens st trusted w'))"

section \<open>The hook\<close>

datatype hook_result = Hook_allow | Hook_deny gate_reason | Hook_policy_deny | Hook_crash py_error

definition deliver :: "outcome \<Rightarrow> hook_result \<times> governor_world" where
  "deliver r =
     (case r of
        (Inl e, w) \<Rightarrow> (Hook_crash e, w)
      | (Inr d, w) \<Rightarrow> (case hook_output d of None \<Rightarrow> Hook_allow | Some reason \<Rightarrow> Hook_deny reason, w))"

text \<open>\<open>None\<close> is a payload that is not JSON.\<close>

definition governor_hook :: "governor_env \<Rightarrow> json option \<Rightarrow> governor_world \<Rightarrow> hook_result \<times> governor_world" where
  "governor_hook env payload w =
     (case payload of
        None \<Rightarrow> (Hook_allow, w)
      | Some (JObj p) \<Rightarrow>
          (case ge_policy env of
             Inl e \<Rightarrow>
               (case text_or_empty (jget p ''tool_name'') of
                  Inl err \<Rightarrow> (Hook_crash err, w)
                | Inr tool \<Rightarrow> (if startswith_any (py_lower tool) GATED_TOOLS then Hook_policy_deny else Hook_allow, w))
           | Inr policy \<Rightarrow>
               (case hysteresis_of policy of
                  Inl err \<Rightarrow> (Hook_crash err, w)
                | Inr params \<Rightarrow>
                    (case (py_int (py_or (jget p ''estimated_new_tokens'') (JInt 0)), text_or_empty (jget p ''tool_name'')) of
                       (Inl err, _) \<Rightarrow> (Hook_crash err, w)
                     | (Inr _, Inl err) \<Rightarrow> (Hook_crash err, w)
                     | (Inr tokens, Inr tool) \<Rightarrow>
                         deliver (evaluate env policy params tool (jget p ''model'') tokens
                           (py_or (jget p ''agent_type'') (jget p ''role'')) w))))
      | Some _ \<Rightarrow>
          (case ge_policy env of
             Inr policy \<Rightarrow> (case hysteresis_of policy of Inl err \<Rightarrow> (Hook_crash err, w) | Inr _ \<Rightarrow> (Hook_crash AttributeError, w))
           | Inl e \<Rightarrow> (Hook_crash AttributeError, w)))"

end
