(* ===== verification/Governor_Properties.thy ===== *)
theory Governor_Properties
  imports Governor
begin

text \<open>
  What the root-turn governor promises: gated root calls are allowed only in an exempt
  trusted state or by an audited override, the planning lease bounds the calls it grants,
  the share band changes only after consecutive samples, and the loop state cannot be set
  by writing the ledger key alone.
\<close>

section \<open>The lease file\<close>

lemma lease_load_save [simp]: "lease_load now (Some (lease_save l)) = l"
  by (simp add: lease_load_def lease_save_def jget_or_def dict_get_or_def)

lemma lease_load_renew [simp]: "lease_load now (Some (lease_renew t reason)) = fresh_lease t"
  by (simp add: lease_load_def lease_renew_def fresh_lease_def jget_or_def dict_get_or_def)

lemma consume_turn_turns [simp]: "turns_used (consume_turn n l) = turns_used l + 1"
  by (simp add: consume_turn_def)

section \<open>One evaluation\<close>

lemma decision_simps [simp]:
  "gd_verdict (allow r s e) = Gate_allow" "gd_reason (allow r s e) = r" "gd_loop_state (allow r s e) = s"
  "gd_verdict (deny r s e) = Gate_deny" "gd_reason (deny r s e) = r" "gd_loop_state (deny r s e) = s"
  by (simp_all add: allow_def deny_def)

lemma log_event_simps [simp]:
  "gw_ledger (log_event n d w) = gw_ledger w" "gw_lease (log_event n d w) = gw_lease w"
  "gw_hysteresis (log_event n d w) = gw_hysteresis w" "gw_attestations (log_event n d w) = gw_attestations w"
  "gw_events (log_event n d w) = gw_events w @ [(n, d)]"
  by (simp_all add: log_event_def)

lemma attested_frame:
  "attested_state led w = (r, w') \<Longrightarrow> w' = w \<or> (\<exists>n d. w' = log_event n d w)"
  by (auto simp: attested_state_def Let_def split: json.splits if_splits sum.splits bool.splits)

lemma loop_state_frame:
  "loop_state w = (r, w') \<Longrightarrow> w' = w \<or> (\<exists>n d. w' = log_event n d w)"
  using attested_frame
  by (fastforce simp: loop_state_def split: disk_file.splits json.splits prod.splits sum.splits option.splits)

lemma execution_denies:
  "evaluate_execution env policy params tool st w = (Inr d, w') \<Longrightarrow> gd_verdict d = Gate_deny"
  by (auto simp: evaluate_execution_def Let_def split: if_splits sum.splits prod.splits option.splits)

lemma execution_frame:
  "evaluate_execution env policy params tool st w = (r, w') \<Longrightarrow> gw_lease w' = gw_lease w"
  by (auto simp: evaluate_execution_def Let_def split: if_splits sum.splits prod.splits option.splits)

lemma planning_cases:
  assumes "evaluate_planning env policy tool tokens st w = (r, w')"
  obtains (granted) max_turns max_tokens
      where "planning_max_turns policy = Inr max_turns" "planning_max_new_tokens policy = Inr max_tokens"
        "\<not> exhausted (lease_load (ge_now env) (gw_lease w)) max_turns max_tokens"
        "r = Inr (allow Lease_granted st [])"
        "gw_lease w' = Some (lease_save (consume_turn tokens (lease_load (ge_now env) (gw_lease w))))"
    | (refused) d where "r = Inr d" "gd_verdict d = Gate_deny" "gw_lease w' = gw_lease w"
    | (failed) e where "r = Inl e" "gw_lease w' = gw_lease w"
  using assms by (auto simp: evaluate_planning_def Let_def split: sum.splits if_splits)

text \<open>What allowing a gated call of the root model means once the loop state is known.\<close>

definition allowed_by_state ::
  "governor_env \<Rightarrow> jobj \<Rightarrow> string \<Rightarrow> bool \<Rightarrow> governor_world \<Rightarrow> governor_world \<Rightarrow> bool" where
  "allowed_by_state env policy st trusted w w' \<longleftrightarrow>
     trusted \<and> active_budget (ge_budget env) \<notin> {''DEGRADE'', ''BREAK''}
     \<and> (st \<in> {''adjudication'', ''release_finalize''}
        \<or> st = ''planning''
          \<and> (\<exists>max_turns max_tokens. planning_max_turns policy = Inr max_turns
               \<and> planning_max_new_tokens policy = Inr max_tokens
               \<and> turns_used (lease_load (ge_now env) (gw_lease w)) < max_turns
               \<and> new_tokens_used (lease_load (ge_now env) (gw_lease w)) < max_tokens
               \<and> turns_used (lease_load (ge_now env) (gw_lease w'))
                  = turns_used (lease_load (ge_now env) (gw_lease w)) + 1))"

lemma evaluate_state_allows:
  assumes "evaluate_state env policy params tool tokens st trusted w = (Inr d, w')"
    and "gd_verdict d = Gate_allow"
  shows "if ge_override env \<noteq> []
    then gd_reason d = Break_glass (ge_override env)
         \<and> gw_events w' = gw_events w @ [(''governor.break_glass'', [(''tool'', JStr tool),
              (''reason'', JStr (ge_override env)), (''loop_state'', JStr st)])]
    else allowed_by_state env policy st trusted w w'"
proof (cases "ge_override env \<noteq> []")
  case True
  then show ?thesis using assms by (auto simp: evaluate_state_def)
next
  case no_override: False
  show ?thesis
  proof (cases "st = ''planning'' \<and> trusted \<and> active_budget (ge_budget env) \<notin> {''DEGRADE'', ''BREAK''}")
    case True
    then have "evaluate_planning env policy tool tokens st w = (Inr d, w')"
      using assms(1) no_override by (simp add: evaluate_state_def)
    then show ?thesis
      by (rule planning_cases)
         (use assms(2) no_override True in \<open>auto simp: allowed_by_state_def exhausted_def\<close>)
  next
    case False
    then show ?thesis
      using assms no_override
      by (auto simp: evaluate_state_def allowed_by_state_def Let_def dest: execution_denies split: if_splits)
  qed
qed

text \<open>A gated call of the root model: no child role, no dispatch-target model.\<close>

definition root_call :: "jobj \<Rightarrow> string \<Rightarrow> json \<Rightarrow> json \<Rightarrow> bool" where
  "root_call policy tool_name model role \<longleftrightarrow>
     startswith_any (py_lower tool_name) GATED_TOOLS \<and> \<not> child_role role
     \<and> model_family policy model \<notin> {Inr (Some ''v4''), Inr (Some ''k3'')}"

lemma root_call_allowed:
  assumes "root_call policy tool_name model role"
    and "evaluate env policy params tool_name model tokens role w = (Inr d, w')"
    and "gd_verdict d = Gate_allow"
  obtains st trusted w1
  where "model_family policy model = Inr (Some ''sol'')" "loop_state w = (Inr (st, trusted), w1)"
    "evaluate_state env policy params (py_lower tool_name) tokens st trusted w1 = (Inr d, w')"
  using assms
  by (auto simp: root_call_def evaluate_def Let_def split: if_splits sum.splits option.splits prod.splits)

text \<open>The governor fails closed. Without the override, a gated call that is neither a
  child role's nor a dispatch-target model's is allowed only if the model is the pinned root
  model, the ledger was readable, the budget state is neither degraded nor broken, and the
  loop is in adjudication, in release, or in planning with a lease that is not exhausted and
  has one turn more afterwards; in particular it is never allowed in execution, whatever the
  meter says.\<close>

theorem governor_fails_closed:
  assumes "root_call policy tool_name model role" and "ge_override env = []"
    and "evaluate env policy params tool_name model tokens role w = (Inr d, w')"
    and "gd_verdict d = Gate_allow"
  shows "model_family policy model = Inr (Some ''sol'')
    \<and> (\<exists>st w1. loop_state w = (Inr (st, True), w1) \<and> allowed_by_state env policy st True w w')"
proof -
  obtain st trusted w1 where *: "model_family policy model = Inr (Some ''sol'')"
    "loop_state w = (Inr (st, trusted), w1)"
    "evaluate_state env policy params (py_lower tool_name) tokens st trusted w1 = (Inr d, w')"
    using assms root_call_allowed by metis
  have "allowed_by_state env policy st trusted w1 w'"
    using evaluate_state_allows [OF *(3) assms(4)] assms(2) by simp
  moreover have "gw_lease w1 = gw_lease w" using loop_state_frame [OF *(2)] by auto
  ultimately show ?thesis using *(1,2) by (auto simp: allowed_by_state_def)
qed

definition example_models :: jobj where
  "example_models = [(''models'', JObj [(''sol_model'', JStr ''gpt-sol''), (''k3_model'', JStr ''kimi-k3''),
     (''v4_model'', JStr ''ds-v4'')])]"

definition example_params :: hysteresis where
  "example_params = \<lparr>enter_high = 1 / 4, enter_samples = 2, leave_high = 11 / 50, leave_samples = 2,
     critical_1h_share = 7 / 20\<rparr>"

definition example_world :: "disk_file \<Rightarrow> governor_world" where
  "example_world ledger = \<lparr>gw_ledger = ledger, gw_attestations = [], gw_lease = None,
     gw_hysteresis = fresh_hysteresis, gw_events = []\<rparr>"

definition example_call :: "string \<Rightarrow> governor_world \<Rightarrow> outcome" where
  "example_call override = evaluate
     \<lparr>ge_now = 1000, ge_policy = Inr example_models, ge_meter = Missing, ge_meter_path = ''meter.json'',
      ge_budget = Missing, ge_override = override\<rparr>
     example_models example_params ''Bash'' (JStr ''gpt-sol'') 500 JNull"

lemma example_root_call: "root_call example_models ''Bash'' (JStr ''gpt-sol'') JNull"
  by code_simp

theorem governor_fails_closed_witness:
  "\<exists>d w'. example_call [] (example_world Missing) = (Inr d, w') \<and> gd_verdict d = Gate_allow
     \<and> (\<exists>st w1. loop_state (example_world Missing) = (Inr (st, True), w1))"
proof -
  let ?r = "example_call [] (example_world Missing)"
  have "(case fst ?r of Inr d \<Rightarrow> gd_verdict d = Gate_allow | Inl e \<Rightarrow> False)" by code_simp
  then obtain d w' where r: "?r = (Inr d, w')" "gd_verdict d = Gate_allow"
    by (cases ?r) (auto split: sum.splits)
  from governor_fails_closed [OF example_root_call _ r(1) [unfolded example_call_def] r(2)] r
  show ?thesis by auto
qed

text \<open>There is no silent bypass: a gated root call allowed while the loop is in execution
  (or in any state outside the exempt ones), or while the ledger is unreadable, was allowed by
  the override variable, and the last event logged is the break-glass event with the tool, the
  given reason and the loop state.\<close>

theorem break_glass_is_audited:
  assumes "root_call policy tool_name model role"
    and "evaluate env policy params tool_name model tokens role w = (Inr d, w')"
    and "gd_verdict d = Gate_allow"
    and "loop_state w = (Inr (st, trusted), w1)" and "st \<notin> set ALLOWED_STATES \<or> \<not> trusted"
  shows "ge_override env \<noteq> [] \<and> gd_reason d = Break_glass (ge_override env)
    \<and> gw_events w' = gw_events w1 @ [(''governor.break_glass'', [(''tool'', JStr (py_lower tool_name)),
          (''reason'', JStr (ge_override env)), (''loop_state'', JStr st)])]"
proof -
  have ev: "evaluate_state env policy params (py_lower tool_name) tokens st trusted w1 = (Inr d, w')"
    using assms root_call_allowed by (metis Pair_inject sum.inject(2))
  have "\<not> allowed_by_state env policy st trusted w1 w'"
    using assms(5) by (auto simp: allowed_by_state_def ALLOWED_STATES_def)
  then show ?thesis using evaluate_state_allows [OF ev assms(3)] by (simp split: if_splits)
qed

definition executing_ledger :: disk_file where
  "executing_ledger = Doc (JObj [(''packets'', JObj [(''P1'', JObj [(''state'', JStr ''L2_VERIFY'')])])])"

theorem break_glass_is_audited_witness:
  "\<exists>d w'. example_call ''outage'' (example_world executing_ledger) = (Inr d, w')
     \<and> gw_events w' = [(''governor.break_glass'', [(''tool'', JStr ''bash''),
          (''reason'', JStr ''outage''), (''loop_state'', JStr ''execution'')])]"
proof -
  let ?w = "example_world executing_ledger" let ?r = "example_call ''outage'' ?w"
  have "(case fst ?r of Inr d \<Rightarrow> gd_verdict d = Gate_allow | Inl e \<Rightarrow> False)" by code_simp
  then obtain d w' where r: "?r = (Inr d, w')" "gd_verdict d = Gate_allow"
    by (cases ?r) (auto split: sum.splits)
  have st: "loop_state ?w = (Inr (''execution'', True), ?w)" by code_simp
  have out: "''execution'' \<notin> set ALLOWED_STATES \<or> \<not> True" by code_simp
  have "gw_events ?w = []" "py_lower ''Bash'' = ''bash''" by code_simp+
  with break_glass_is_audited [OF example_root_call r(1) [unfolded example_call_def] r(2) st out] r
  show ?thesis by auto
qed

section \<open>The lease over many calls\<close>

text \<open>
  One hook call as it finds the ledger and the attestations: other programs write those, the
  lease file is the governor's own.
\<close>

record root_attempt =
  at_env :: governor_env
  at_ledger :: disk_file
  at_attestations :: "json list"
  at_tool :: string
  at_model :: json
  at_tokens :: int
  at_role :: json

definition attempt_once :: "jobj \<Rightarrow> hysteresis \<Rightarrow> root_attempt \<Rightarrow> governor_world \<Rightarrow> outcome" where
  "attempt_once policy params a w =
     evaluate (at_env a) policy params (at_tool a) (at_model a) (at_tokens a) (at_role a)
       (w\<lparr>gw_ledger := at_ledger a, gw_attestations := at_attestations a\<rparr>)"

definition lease_grant :: "py_error + governor_decision \<Rightarrow> bool" where
  "lease_grant r = (case r of Inr d \<Rightarrow> gd_reason d = Lease_granted | Inl e \<Rightarrow> False)"

fun attempts :: "jobj \<Rightarrow> hysteresis \<Rightarrow> root_attempt list \<Rightarrow> governor_world \<Rightarrow> nat \<times> governor_world" where
  "attempts policy params [] w = (0, w)"
| "attempts policy params (a # rest) w =
     (let (r, w') = attempt_once policy params a w; (n, w'') = attempts policy params rest w' in
      ((if lease_grant r then 1 else 0) + n, w''))"

definition turns_in :: "governor_world \<Rightarrow> int" where
  "turns_in w = turns_used (lease_load 0 (gw_lease w))"

lemma turns_clock: "turns_used (lease_load now c) = turns_used (lease_load 0 c)"
  by (auto simp: lease_load_def fresh_lease_def split: option.splits json.splits sum.splits)

lemma lease_grant_simps [simp]:
  "lease_grant (Inl failure) = False" "lease_grant (Inr (allow reason st e)) = (reason = Lease_granted)"
  "lease_grant (Inr (deny reason st e)) = (reason = Lease_granted)"
  by (simp_all add: lease_grant_def)

lemma execution_grants_nothing:
  "evaluate_execution env policy params tool st w = (r, w') \<Longrightarrow> \<not> lease_grant r"
  by (auto simp: evaluate_execution_def Let_def split: if_splits sum.splits prod.splits option.splits)

lemma planning_lease_step:
  assumes "evaluate_planning env policy tool tokens st w = (r, w')"
    and "planning_max_turns policy = Inr limit"
  shows "if lease_grant r then turns_in w < limit \<and> turns_in w' = turns_in w + 1
    else gw_lease w' = gw_lease w"
  using assms
  by (auto simp: evaluate_planning_def exhausted_def turns_in_def turns_clock [of "ge_now env"] Let_def
      split: sum.splits if_splits)

lemma evaluate_state_lease:
  assumes "evaluate_state env policy params tool tokens st trusted w = (r, w')"
    and "planning_max_turns policy = Inr limit"
  shows "if lease_grant r then turns_in w < limit \<and> turns_in w' = turns_in w + 1
    else gw_lease w' = gw_lease w"
proof (cases "evaluate_planning env policy tool tokens st w = (r, w')")
  case True
  then show ?thesis using planning_lease_step assms(2) by blast
next
  case False
  then show ?thesis
    using assms(1) execution_frame [of env policy params tool st w r w']
      execution_grants_nothing [of env policy params tool st w r w']
    by (auto simp: evaluate_state_def Let_def split: if_splits)
qed

lemma evaluate_routes:
  assumes "evaluate env policy params tool_name model tokens role w = (r, w')"
  shows "\<not> lease_grant r \<and> w' = w
    \<or> (\<exists>e w1. loop_state w = (Inl e, w1) \<and> r = Inl e \<and> w' = w1)
    \<or> (\<exists>st trusted w1. loop_state w = (Inr (st, trusted), w1)
         \<and> evaluate_state env policy params (py_lower tool_name) tokens st trusted w1 = (r, w'))"
  using assms
  by (auto simp: evaluate_def Let_def split: if_splits sum.splits prod.splits)

lemma turns_in_cong: "gw_lease w1 = gw_lease w \<Longrightarrow> turns_in w1 = turns_in w"
  by (simp add: turns_in_def)

lemma loop_state_lease: "loop_state w = (r, w') \<Longrightarrow> gw_lease w' = gw_lease w"
  by (drule loop_state_frame) auto

lemma evaluate_lease:
  assumes "evaluate env policy params tool_name model tokens role w = (r, w')"
    and "planning_max_turns policy = Inr limit"
  shows "if lease_grant r then turns_in w < limit \<and> turns_in w' = turns_in w + 1
    else gw_lease w' = gw_lease w"
  using evaluate_routes [OF assms(1)]
proof (elim disjE exE conjE)
  fix st trusted w1
  assume "loop_state w = (Inr (st, trusted), w1)"
    and "evaluate_state env policy params (py_lower tool_name) tokens st trusted w1 = (r, w')"
  then show ?thesis
    using evaluate_state_lease [OF _ assms(2)] loop_state_lease turns_in_cong by metis
qed (use loop_state_lease in auto)

lemma attempts_bound:
  assumes "planning_max_turns policy = Inr limit"
  shows "int (fst (attempts policy params as w)) \<le> max 0 (limit - turns_in w)"
proof (induction as arbitrary: w)
  case (Cons a as)
  obtain r w1 where one: "attempt_once policy params a w = (r, w1)" by force
  have "if lease_grant r then turns_in w < limit \<and> turns_in w1 = turns_in w + 1 else turns_in w1 = turns_in w"
    using evaluate_lease [OF one [unfolded attempt_once_def] assms] by (auto simp: turns_in_def split: if_splits)
  then show ?case
    using Cons.IH [of w1] one by (auto simp: split_beta split: if_splits)
qed simp


definition example_attempt :: root_attempt where
  "example_attempt = \<lparr>at_env = \<lparr>ge_now = 1000, ge_policy = Inr example_models, ge_meter = Missing,
       ge_meter_path = ''meter.json'', ge_budget = Missing, ge_override = []\<rparr>,
     at_ledger = Missing, at_attestations = [], at_tool = ''bash'', at_model = JStr ''gpt-sol'',
     at_tokens = 100, at_role = JNull\<rparr>"


section \<open>A readable but malformed ledger\<close>

text \<open>
  A ledger that parses to something other than an object raises in every root call, so the
  hook ends with an exception instead of a deny document.
\<close>

lemma malformed_ledger_raises:
  assumes "root_call policy tool_name model role" and "model_family policy model = Inr (Some ''sol'')"
    and "gw_ledger w = Doc (JList xs)"
  shows "evaluate env policy params tool_name model tokens role w = (Inl AttributeError, w)"
  using assms by (auto simp: root_call_def evaluate_def loop_state_def Let_def)

section \<open>The attested loop state\<close>

definition attests :: "string \<Rightarrow> string \<Rightarrow> json \<Rightarrow> bool" where
  "attests key st r \<longleftrightarrow>
     (case r of JObj d \<Rightarrow> jget d ''idem_key'' = JStr key \<and> jget d ''state'' = JStr st | _ \<Rightarrow> False)"

lemma find_attestation_eq:
  "list_all is_obj rs \<Longrightarrow> find_attestation key st rs = Inr (list_ex (attests key st) rs)"
  by (induction rs) (auto simp: attests_def split: json.splits)

lemma jget_dict_set [simp]: "jget (dict_set k v d) k' = (if k' = k then v else jget d k')"
  by (simp add: jget_def)

declare jget_dict_del [simp]

lemma derived_state_ignores_keys [simp]:
  "derived_state (dict_del ''loop_state'' d) = derived_state d"
  by (simp add: derived_state_def packet_states_def jget_or_def)

text \<open>A loop state set through the harness is honoured: when \<open>loop_state_set\<close>
  succeeds, the loop state read next is the one set, trusted and without an event, whatever
  the packets say (the attestation log holding objects only).\<close>

theorem set_state_is_honoured:
  assumes "loop_state_set b32digest now st reason w = (Inr entry, w')"
    and "list_all is_obj (gw_attestations w)"
  shows "loop_state w' = (Inr (st, True), w')"
proof -
  define key where "key = idem_key b32digest ''state_set'' st [reason, clock_text now]"
  have key: "key \<noteq> []" by (simp add: key_def idem_key_def)
  obtain d where w': "gw_ledger w' = Doc (JObj (dict_set ''loop_state_attestation'' (JStr key)
        (dict_set ''loop_state'' (JStr st) d)))"
    "gw_attestations w' = gw_attestations w @ [attestation key st reason now]" and st: "st \<noteq> []"
    using assms(1)
    by (auto simp: loop_state_set_def Let_def key_def ALLOWED_STATES_def split: if_splits json.splits)
  have "find_attestation key st (gw_attestations w') = Inr True"
    using assms(2) w'(2)
    by (simp add: find_attestation_eq attests_def attestation_def jget_def dict_get_or_def)
  then show ?thesis using w'(1) st key by (simp add: loop_state_def attested_state_def)
qed

theorem set_state_is_honoured_witness:
  "\<exists>entry w'. loop_state_set (\<lambda>_. ''ABCDEFGHIJKLMNOPQRST'') 1000 ''adjudication'' ''triage''
       (example_world executing_ledger) = (Inr entry, w')
     \<and> loop_state w' = (Inr (''adjudication'', True), w')"
proof -
  let ?r = "loop_state_set (\<lambda>_. ''ABCDEFGHIJKLMNOPQRST'') 1000 ''adjudication'' ''triage''
    (example_world executing_ledger)"
  have "(case fst ?r of Inr e \<Rightarrow> True | Inl e \<Rightarrow> False)" by code_simp
  then obtain entry w' where r: "?r = (Inr entry, w')" by (cases ?r) (auto split: sum.splits)
  have objects: "list_all is_obj (gw_attestations (example_world executing_ledger))" by code_simp
  from set_state_is_honoured [OF r objects] r show ?thesis by blast
qed

text \<open>The constrained session does not control its own exemption: a non-empty loop
  state key in the ledger that no attestation record matches (by the ledger's attestation key
  and that state) is flagged with an event and changes nothing, the loop state being the one
  derived from the packets without the key.\<close>

theorem bare_state_key_is_ignored:
  assumes "gw_ledger w = Doc (JObj led)" and "jget led ''loop_state'' = JStr claimed" and "claimed \<noteq> []"
    and "list_all is_obj (gw_attestations w)"
    and "\<forall>key. jget led ''loop_state_attestation'' = JStr key
           \<longrightarrow> \<not> list_ex (attests key claimed) (gw_attestations w)"
  shows "fst (loop_state w) = fst (loop_state (w\<lparr>gw_ledger := Doc (JObj (dict_del ''loop_state'' led))\<rparr>))
    \<and> gw_events (snd (loop_state w)) = gw_events w
        @ [(''governor.state_key_unattested'', [(''claimed_state'', JStr claimed)])]"
proof -
  have "attested_state led w = (Inr None, log_event ''governor.state_key_unattested''
      [(''claimed_state'', JStr claimed)] w)"
    using assms(2-5)
    by (cases "jget led ''loop_state_attestation''")
       (auto simp: attested_state_def find_attestation_eq Let_def)
  then show ?thesis
    using assms(1) by (simp add: loop_state_def attested_state_def)
qed

definition forged_ledger :: jobj where
  "forged_ledger = [(''packets'', JObj [(''P1'', JObj [(''state'', JStr ''RUNNING'')])]),
     (''loop_state'', JStr ''planning''), (''loop_state_attestation'', JStr ''k3:forged'')]"

theorem bare_state_key_is_ignored_witness:
  "fst (loop_state (example_world (Doc (JObj forged_ledger)))) = Inr (''execution'', True)
   \<and> gw_events (snd (loop_state (example_world (Doc (JObj forged_ledger)))))
     = [(''governor.state_key_unattested'', [(''claimed_state'', JStr ''planning'')])]"
proof -
  let ?w = "example_world (Doc (JObj forged_ledger))"
  have doc: "gw_ledger ?w = Doc (JObj forged_ledger)" "gw_attestations ?w = []" "gw_events ?w = []"
    by (simp_all add: example_world_def)
  have key: "jget forged_ledger ''loop_state'' = JStr ''planning''" by code_simp
  have derived: "fst (loop_state (?w\<lparr>gw_ledger := Doc (JObj (dict_del ''loop_state'' forged_ledger))\<rparr>))
      = Inr (''execution'', True)"
    by code_simp
  show ?thesis
    using bare_state_key_is_ignored [OF doc(1) key] derived doc(2,3) by simp
qed

section \<open>Hysteresis\<close>

text \<open>
  The samples that count: an observation repeating the sample id before it is dropped.
  \<open>recent n P xs\<close>: the last \<open>n\<close> of them exist and satisfy \<open>P\<close>.
\<close>

fun counted :: "string option \<Rightarrow> (rat \<times> string) list \<Rightarrow> rat list" where
  "counted prev [] = []"
| "counted prev ((share, i) # rest) = (if prev = Some i then [] else [share]) @ counted (Some i) rest"

definition recent :: "int \<Rightarrow> ('a \<Rightarrow> bool) \<Rightarrow> 'a list \<Rightarrow> bool" where
  "recent n P xs \<longleftrightarrow> nat n \<le> length xs \<and> list_all P (take (nat n) (rev xs))"

definition observe_all :: "hysteresis \<Rightarrow> (rat \<times> string) list \<Rightarrow> hysteresis_state \<Rightarrow> hysteresis_state" where
  "observe_all params xs st = fold (\<lambda>(share, i). observe params share i) xs st"

lemma observe_all_snoc:
  "observe_all params (xs @ [x]) st = observe params (fst x) (snd x) (observe_all params xs st)"
  by (simp add: observe_all_def split_beta)

lemma counted_one [simp]: "counted prev [x] = (if prev = Some (snd x) then [] else [fst x])"
  by (cases x) simp

lemma counted_snoc:
  "counted prev (xs @ [x]) = counted prev xs
     @ (if (if xs = [] then prev else Some (snd (last xs))) = Some (snd x) then [] else [fst x])"
  by (induction prev xs rule: counted.induct) (auto split: prod.split)

lemma recent_snoc: "P x \<Longrightarrow> recent n P xs \<Longrightarrow> 0 \<le> n \<Longrightarrow> recent (n + 1) P (xs @ [x])"
  by (simp add: recent_def nat_add_distrib)

lemma recent_zero [simp]: "recent 0 P xs"
  by (simp add: recent_def)

lemma recent_mono: "recent n P xs \<Longrightarrow> m \<le> n \<Longrightarrow> recent m P xs"
  using set_take_subset_set_take [of "nat m" "nat n" "rev xs"]
  by (auto simp: recent_def list_all_iff nat_mono)

definition hysteresis_inv :: "hysteresis \<Rightarrow> (rat \<times> string) list \<Rightarrow> hysteresis_state \<Rightarrow> bool" where
  "hysteresis_inv params xs st \<longleftrightarrow>
     hs_last_sample st = (if xs = [] then None else Some (snd (last xs)))
     \<and> 0 \<le> hs_above st \<and> 0 \<le> hs_below st
     \<and> (hs_band st = ''NORMAL'' \<longrightarrow> recent (hs_above st) (\<lambda>s. enter_high params < s) (counted None xs))
     \<and> (hs_band st \<noteq> ''NORMAL'' \<longrightarrow> recent (hs_below st) (\<lambda>s. s < leave_high params) (counted None xs))
     \<and> hs_band st \<in> {''NORMAL'', ''HIGH''}"

lemma hysteresis_inv_fresh: "hysteresis_inv params [] fresh_hysteresis"
  by (simp add: hysteresis_inv_def fresh_hysteresis_def)

lemma hysteresis_step:
  assumes "hysteresis_inv params xs st"
  shows "hysteresis_inv params (xs @ [x]) (observe params (fst x) (snd x) st)"
  using assms recent_snoc [of _ "fst x" _ "counted None xs"]
  by (auto simp: hysteresis_inv_def observe_def counted_snoc Let_def)

lemma hysteresis_inv_all: "hysteresis_inv params xs (observe_all params xs fresh_hysteresis)"
proof (induction xs rule: rev_induct)
  case Nil
  then show ?case using hysteresis_inv_fresh by (simp add: observe_all_def)
next
  case (snoc x xs)
  then show ?case by (simp add: observe_all_snoc hysteresis_step)
qed

lemma band_change:
  assumes "hysteresis_inv params xs st" and "hs_band (observe params (fst x) (snd x) st) \<noteq> hs_band st"
  shows "if hs_band st = ''NORMAL''
    then recent (enter_samples params) (\<lambda>s. enter_high params < s) (counted None (xs @ [x]))
    else recent (leave_samples params) (\<lambda>s. s < leave_high params) (counted None (xs @ [x]))"
  using assms recent_snoc [of "\<lambda>s. enter_high params < s" "fst x" "hs_above st" "counted None xs"]
    recent_snoc [of "\<lambda>s. s < leave_high params" "fst x" "hs_below st" "counted None xs"]
    recent_mono [of "hs_above st + 1" _ _ "enter_samples params"]
    recent_mono [of "hs_below st + 1" _ _ "leave_samples params"]
    recent_mono [of 0 _ _ "enter_samples params"] recent_mono [of 0 _ _ "leave_samples params"]
  by (auto simp: hysteresis_inv_def observe_def counted_snoc Let_def split: if_splits)

text \<open>The share band does not flap: from a fresh controller and over any sequence of
  observations, the band enters HIGH only when the last \<open>enter_samples\<close> counted samples
  (repeated sample ids dropped) all lie above the entering threshold, and returns to NORMAL
  only when the last \<open>leave_samples\<close> of them all lie below the leaving threshold.\<close>

theorem hysteresis_needs_consecutive_samples:
  assumes "hs_band (observe_all params (xs @ [x]) fresh_hysteresis)
             \<noteq> hs_band (observe_all params xs fresh_hysteresis)"
  shows "if hs_band (observe_all params xs fresh_hysteresis) = ''NORMAL''
    then recent (enter_samples params) (\<lambda>s. enter_high params < s) (counted None (xs @ [x]))
    else recent (leave_samples params) (\<lambda>s. s < leave_high params) (counted None (xs @ [x]))"
  using assms band_change [OF hysteresis_inv_all] by (simp add: observe_all_snoc)

definition example_samples :: "(rat \<times> string) list" where
  "example_samples = [(3 / 10, ''a''), (3 / 10, ''a''), (1 / 10, ''b''), (2 / 5, ''c'')]"

theorem hysteresis_needs_consecutive_samples_witness:
  "recent 2 (\<lambda>s. enter_high example_params < s) (counted None (example_samples @ [(7 / 20, ''d'')]))"
proof -
  have "hs_band (observe_all example_params example_samples fresh_hysteresis) = ''NORMAL''"
    "hs_band (observe_all example_params (example_samples @ [(7 / 20, ''d'')]) fresh_hysteresis) = ''HIGH''"
    by code_simp+
  moreover have "enter_samples example_params = 2" by (simp add: example_params_def)
  ultimately show ?thesis
    using hysteresis_needs_consecutive_samples [of example_params example_samples "(7 / 20, ''d'')"] by simp
qed

text \<open>
  The sample id names the report's path and the share to six decimals, not the report: equal
  shares of different reports count once, so a steady share never enters HIGH.
\<close>

lemma steady_share_never_enters_high:
  assumes "1 < enter_samples params"
  shows "hs_band (observe_all params (replicate n (share, sample_id_of path share)) fresh_hysteresis) = ''NORMAL''"
proof -
  have "observe_all params (replicate n (share, sample_id_of path share)) st = st"
    if "hs_last_sample st = Some (sample_id_of path share)" for st
    using that by (induction n) (simp_all add: observe_all_def observe_def)
  with assms show ?thesis
    by (cases n) (auto simp: observe_all_def observe_def fresh_hysteresis_def Let_def)
qed

end
