(* ===== verification/Short_Result.thy ===== *)
theory Short_Result
  imports Py_Json "HOL-Library.Char_ord" "HOL-Library.List_Lexorder"
begin

text \<open>
  The short-result contract, \<open>src/harness/short_result_validator.py\<close>, and the publish path
  that enforces it, \<open>src/harness/lifecycle_supervisor_v2.py\<close>. Error texts are constructors;
  the code of a result is its first error's. The offending field, which the code cuts out of
  the rendered text, is not modelled.
\<close>

section \<open>Schema\<close>

definition CHARS_PER_TOKEN :: nat where
  "CHARS_PER_TOKEN = 4"

definition DEFAULT_MAX_TOKENS :: nat where
  "DEFAULT_MAX_TOKENS = 500"

definition DEFAULT_MAX_FINDINGS :: nat where
  "DEFAULT_MAX_FINDINGS = 8"

definition STATUS_ENUM :: "string list" where
  "STATUS_ENUM = [''completed'', ''failed'', ''blocked'', ''cancelled'', ''stale_revision'']"

definition L2_VERDICTS :: "string list" where
  "L2_VERDICTS = [''pass'', ''redo'', ''escalate_l2_5'', ''escalate_l3'']"

datatype py_type = PyStr | PyInt | PyFloat | PyList | PyDict | PyNone

text \<open>\<open>isinstance\<close>: a bool is an int.\<close>

fun instance_of :: "py_type \<Rightarrow> json \<Rightarrow> bool" where
  "instance_of PyStr v = is_str v"
| "instance_of PyInt v = (case v of JInt _ \<Rightarrow> True | JBool _ \<Rightarrow> True | _ \<Rightarrow> False)"
| "instance_of PyFloat v = (case v of JFloat _ \<Rightarrow> True | _ \<Rightarrow> False)"
| "instance_of PyList v = (case v of JList _ \<Rightarrow> True | _ \<Rightarrow> False)"
| "instance_of PyDict v = is_obj v"
| "instance_of PyNone v = (v = JNull)"

definition REQUIRED_FIELDS :: "(string \<times> py_type list) list" where
  "REQUIRED_FIELDS = [(''packet_id'', [PyStr]), (''control_packet_id'', [PyStr]),
     (''control_packet_revision'', [PyInt]), (''status'', [PyStr]), (''conclusion'', [PyStr]),
     (''artifact_paths'', [PyList]), (''finding_ids'', [PyList]), (''needs_decision'', [PyDict, PyNone])]"

definition OPTIONAL_FIELDS :: "(string \<times> py_type list) list" where
  "OPTIONAL_FIELDS = [(''verdict'', [PyStr]), (''idem_key'', [PyStr]), (''score'', [PyInt, PyFloat])]"

definition NEEDS_DECISION_FIELDS :: "(string \<times> py_type list) list" where
  "NEEDS_DECISION_FIELDS = [(''question'', [PyStr]), (''decision_refs'', [PyList]), (''evidence_refs'', [PyList])]"

definition has_type :: "py_type list \<Rightarrow> json \<Rightarrow> bool" where
  "has_type types v = list_ex (\<lambda>t. instance_of t v) types"

definition estimate_tokens :: "string \<Rightarrow> nat" where
  "estimate_tokens text = (length text + CHARS_PER_TOKEN - 1) div CHARS_PER_TOKEN"

section \<open>Validation\<close>

datatype sr_error =
    Not_object
  | Extra_field string
  | Missing_field string
  | Type_mismatch string
  | Bad_status string
  | Bad_verdict string
  | Empty_field string
  | Oversize nat
  | Too_many_findings nat
  | Item_type string nat
  | Bad_needs_decision string
  | Revision_type
  | Stale_revision int int
  | Unreadable_report

fun error_code :: "sr_error \<Rightarrow> string" where
  "error_code Not_object = ''NOT_OBJECT''"
| "error_code (Extra_field _) = ''EXTRA_FIELD''"
| "error_code (Missing_field _) = ''MISSING_FIELD''"
| "error_code (Type_mismatch _) = ''TYPE_ERROR''"
| "error_code (Bad_status _) = ''BAD_STATUS''"
| "error_code (Bad_verdict _) = ''BAD_VERDICT''"
| "error_code (Empty_field _) = ''EMPTY_FIELD''"
| "error_code (Oversize _) = ''OVERSIZE''"
| "error_code (Too_many_findings _) = ''TOO_MANY_FINDINGS''"
| "error_code (Item_type _ _) = ''TYPE_ERROR''"
| "error_code (Bad_needs_decision _) = ''BAD_NEEDS_DECISION''"
| "error_code Revision_type = ''TYPE_ERROR''"
| "error_code (Stale_revision _ _) = ''STALE_REVISION''"
| "error_code Unreadable_report = ''UNREADABLE''"

record validator =
  vd_max_tokens :: nat
  vd_max_findings :: nat
  vd_require_verdict :: bool

text \<open>The constructor refuses a token limit that is not positive and a negative finding limit.\<close>

definition make_validator :: "int \<Rightarrow> int \<Rightarrow> bool \<Rightarrow> py_error + validator" where
  "make_validator max_tokens max_findings require_verdict =
     (if max_tokens \<le> 0 \<or> max_findings < 0 then Inl ValueError
      else Inr \<lparr>vd_max_tokens = nat max_tokens, vd_max_findings = nat max_findings,
                vd_require_verdict = require_verdict\<rparr>)"

definition max_chars :: "validator \<Rightarrow> nat" where
  "max_chars vd = vd_max_tokens vd * CHARS_PER_TOKEN"

definition extra_fields :: "(string \<times> py_type list) list \<Rightarrow> jobj \<Rightarrow> string list" where
  "extra_fields schema d = sort (remdups (filter (\<lambda>k. k \<notin> set (map fst schema)) (map fst d)))"

text \<open>One field against its types; \<open>missing\<close> is what its absence gives.\<close>

definition field_errors :: "sr_error list \<Rightarrow> sr_error \<Rightarrow> py_type list \<Rightarrow> json option \<Rightarrow> sr_error list" where
  "field_errors missing mismatch types value =
     (case value of None \<Rightarrow> missing | Some v \<Rightarrow> if has_type types v then [] else [mismatch])"

definition required_errors :: "jobj \<Rightarrow> sr_error list" where
  "required_errors d = concat (map (\<lambda>(name, types).
     field_errors [Missing_field name] (Type_mismatch name) types (map_of d name)) REQUIRED_FIELDS)"

definition optional_errors :: "jobj \<Rightarrow> sr_error list" where
  "optional_errors d = concat (map (\<lambda>(name, types).
     field_errors [] (Type_mismatch name) types (map_of d name)) OPTIONAL_FIELDS)"

definition status_errors :: "jobj \<Rightarrow> sr_error list" where
  "status_errors d = (case jget d ''status'' of
     JStr s \<Rightarrow> if s \<in> set STATUS_ENUM then [] else [Bad_status s] | _ \<Rightarrow> [])"

definition verdict_errors :: "jobj \<Rightarrow> sr_error list" where
  "verdict_errors d = (case jget d ''verdict'' of
     JStr s \<Rightarrow> if s \<in> set L2_VERDICTS then [] else [Bad_verdict s] | _ \<Rightarrow> [])"

definition conclusion_errors :: "validator \<Rightarrow> jobj \<Rightarrow> sr_error list" where
  "conclusion_errors vd d = (case jget d ''conclusion'' of
     JStr s \<Rightarrow> if py_strip s = [] then [Empty_field ''conclusion'']
               else if max_chars vd < length s then [Oversize (length s)] else []
   | _ \<Rightarrow> [])"

definition blank_errors :: "jobj \<Rightarrow> string \<Rightarrow> sr_error list" where
  "blank_errors d name = (case jget d name of
     JStr s \<Rightarrow> if py_strip s = [] then [Empty_field name] else [] | _ \<Rightarrow> [])"

text \<open>\<open>enumerate\<close>: the positions of the items that are not strings.\<close>

definition item_errors :: "string \<Rightarrow> json list \<Rightarrow> sr_error list" where
  "item_errors name items =
     map (\<lambda>(i, _). Item_type name i) (filter (\<lambda>(i, v). \<not> is_str v) (enumerate 0 items))"

definition finding_list_errors :: "validator \<Rightarrow> jobj \<Rightarrow> sr_error list" where
  "finding_list_errors vd d = (case jget d ''finding_ids'' of
     JList items \<Rightarrow> (if vd_max_findings vd < length items then [Too_many_findings (length items)] else [])
       @ item_errors ''finding_ids'' items
   | _ \<Rightarrow> [])"

definition artifact_errors :: "jobj \<Rightarrow> sr_error list" where
  "artifact_errors d = (case jget d ''artifact_paths'' of
     JList items \<Rightarrow> item_errors ''artifact_paths'' items | _ \<Rightarrow> [])"

definition needs_errors :: "jobj \<Rightarrow> sr_error list" where
  "needs_errors d = (case jget d ''needs_decision'' of
     JObj needs \<Rightarrow> map Bad_needs_decision (extra_fields NEEDS_DECISION_FIELDS needs)
       @ concat (map (\<lambda>(name, types).
           field_errors [Bad_needs_decision name] (Bad_needs_decision name) types (map_of needs name))
             NEEDS_DECISION_FIELDS)
   | _ \<Rightarrow> [])"

definition revision_errors :: "int option \<Rightarrow> jobj \<Rightarrow> sr_error list" where
  "revision_errors expected d = (case jget d ''control_packet_revision'' of
     JBool _ \<Rightarrow> [Revision_type]
   | JInt n \<Rightarrow>
       if n < 1 then [Revision_type]
       else (case expected of
               None \<Rightarrow> []
             | Some m \<Rightarrow> if n \<noteq> m then [Stale_revision n m] else [])
   | _ \<Rightarrow> [])"

definition validation_errors :: "validator \<Rightarrow> int option \<Rightarrow> json \<Rightarrow> sr_error list" where
  "validation_errors vd expected doc =
     (case doc of
        JObj d \<Rightarrow>
          map Extra_field (extra_fields (REQUIRED_FIELDS @ OPTIONAL_FIELDS) d)
          @ required_errors d @ optional_errors d
          @ (if vd_require_verdict vd \<and> \<not> dict_has ''verdict'' d then [Missing_field ''verdict''] else [])
          @ status_errors d @ verdict_errors d @ conclusion_errors vd d
          @ blank_errors d ''packet_id'' @ blank_errors d ''control_packet_id''
          @ finding_list_errors vd d @ artifact_errors d @ needs_errors d @ revision_errors expected d
      | _ \<Rightarrow> [Not_object])"

record validation_result =
  vr_ok :: bool
  vr_code :: string
  vr_errors :: "sr_error list"

definition result_of :: "sr_error list \<Rightarrow> validation_result" where
  "result_of errors =
     (case errors of
        [] \<Rightarrow> \<lparr>vr_ok = True, vr_code = ''OK'', vr_errors = []\<rparr>
      | e # _ \<Rightarrow> \<lparr>vr_ok = False, vr_code = error_code e, vr_errors = errors\<rparr>)"

definition validate :: "validator \<Rightarrow> int option \<Rightarrow> json \<Rightarrow> validation_result" where
  "validate vd expected doc = result_of (validation_errors vd expected doc)"

text \<open>The report file: \<open>None\<close> when it cannot be read or parsed.\<close>

definition validate_short_result_file ::
  "validator \<Rightarrow> int option \<Rightarrow> json option \<Rightarrow> validation_result" where
  "validate_short_result_file vd expected content =
     (case content of
        None \<Rightarrow> result_of [Unreadable_report]
      | Some doc \<Rightarrow> validate vd expected doc)"

section \<open>The publish path\<close>

record receipt =
  rc_packet_id :: string
  rc_status :: json
  rc_report_path :: string

datatype failure = Nonzero_exit int | Missing_report | Short_result_invalid | Stale_report

record finalize_outcome =
  fo_success :: bool
  fo_why :: "failure option"
  fo_receipt :: receipt
  fo_validation :: "validation_result option"
  fo_quarantine :: bool

datatype supervisor_event =
    Exec_failed string failure
  | Subagent_stop string string
  | Duty_missing string
  | Duty_ruling string string

text \<open>
  What a finalization leaves: the event stream, the quarantined and the published documents
  and what was handed to the reducer, each by packet.
\<close>

record supervisor =
  sv_events :: "supervisor_event list"
  sv_quarantined :: "(string \<times> json option) list"
  sv_published :: "(string \<times> string) list"
  sv_reduced :: "json list"

datatype report_state = No_report | Report "json option"

definition failed_receipt :: "string \<Rightarrow> string \<Rightarrow> receipt" where
  "failed_receipt pid path = \<lparr>rc_packet_id = pid, rc_status = JStr ''failed'', rc_report_path = path\<rparr>"

definition fail_closed ::
  "string \<Rightarrow> string \<Rightarrow> failure \<Rightarrow> validation_result option \<Rightarrow> bool \<Rightarrow> finalize_outcome" where
  "fail_closed pid path why result quarantined =
     \<lparr>fo_success = False, fo_why = Some why, fo_receipt = failed_receipt pid path,
      fo_validation = result, fo_quarantine = quarantined\<rparr>"

definition finalize_child ::
  "validator \<Rightarrow> string \<Rightarrow> int \<Rightarrow> string \<Rightarrow> report_state \<Rightarrow> int option \<Rightarrow> string option
    \<Rightarrow> supervisor \<Rightarrow> finalize_outcome \<times> supervisor" where
  "finalize_child vd pid rc path report expected publish_to sv =
     (if rc \<noteq> 0
      then (fail_closed pid path (Nonzero_exit rc) None False,
            sv\<lparr>sv_events := sv_events sv @ [Exec_failed pid (Nonzero_exit rc)]\<rparr>)
      else case report of
        No_report \<Rightarrow>
          (fail_closed pid path Missing_report None False,
           sv\<lparr>sv_events := sv_events sv @ [Exec_failed pid Missing_report]\<rparr>)
      | Report content \<Rightarrow>
          (let result = validate_short_result_file vd expected content in
           if \<not> vr_ok result
           then (let why = (if vr_code result = ''STALE_REVISION'' then Stale_report else Short_result_invalid) in
                 (fail_closed pid path why (Some result) True,
                  sv\<lparr>sv_quarantined := sv_quarantined sv @ [(pid, content)],
                     sv_events := sv_events sv @ [Exec_failed pid why]\<rparr>))
           else (let published = (case publish_to of None \<Rightarrow> path | Some p \<Rightarrow> p);
                     doc = (case content of Some v \<Rightarrow> v | None \<Rightarrow> JNull) in
                 (\<lparr>fo_success = True, fo_why = None,
                   fo_receipt = \<lparr>rc_packet_id = pid,
                     rc_status = jget_or (JStr ''completed'') (obj_of doc) ''status'', rc_report_path = published\<rparr>,
                   fo_validation = Some result, fo_quarantine = False\<rparr>,
                  sv\<lparr>sv_published := sv_published sv @ [(pid, published)],
                     sv_events := sv_events sv @ [Subagent_stop pid published],
                     sv_reduced := sv_reduced sv @ [doc]\<rparr>))))"

section \<open>The CSV path and the verdict channel\<close>

definition bound_csv_summary :: "json \<Rightarrow> nat \<Rightarrow> bool" where
  "bound_csv_summary summary limit = (case summary of JStr s \<Rightarrow> length s \<le> limit | _ \<Rightarrow> False)"

definition finalize_csv_row ::
  "validator \<Rightarrow> string \<Rightarrow> jobj \<Rightarrow> string \<Rightarrow> report_state \<Rightarrow> int option \<Rightarrow> nat
    \<Rightarrow> supervisor \<Rightarrow> finalize_outcome \<times> supervisor" where
  "finalize_csv_row vd pid row path report expected limit sv =
     (let summary = jget_or (JStr []) row ''summary'' in
      if \<not> bound_csv_summary summary limit
      then (fail_closed pid path Short_result_invalid (Some (result_of [Oversize limit])) False,
            sv\<lparr>sv_events := sv_events sv @ [Exec_failed pid Short_result_invalid]\<rparr>)
      else finalize_child vd pid 0 path report expected None sv)"

definition LEGAL_DUTY_RULINGS :: "string list" where
  "LEGAL_DUTY_RULINGS = [''duty_retryable'', ''duty_fixable'', ''duty_terminal'']"

text \<open>A ruling that is not hashable raises when it is looked up in the frozen set.\<close>

definition parse_verdict_from_report :: "json option \<Rightarrow> bool \<Rightarrow> py_error + string option" where
  "parse_verdict_from_report content duty =
     (case content of
        Some (JObj d) \<Rightarrow>
          if duty
          then (if \<not> hashable (jget d ''ruling'') then Inl TypeError
                else Inr (case jget d ''ruling'' of
                            JStr s \<Rightarrow> if s \<in> set LEGAL_DUTY_RULINGS then Some s else None | _ \<Rightarrow> None))
          else Inr (case jget d ''verdict'' of JStr s \<Rightarrow> if s \<noteq> [] then Some s else None | _ \<Rightarrow> None)
      | _ \<Rightarrow> Inr None)"

definition route_duty_ruling ::
  "string \<Rightarrow> json option \<Rightarrow> supervisor \<Rightarrow> (py_error + string option) \<times> supervisor" where
  "route_duty_ruling pid content sv =
     (case parse_verdict_from_report content True of
        Inl e \<Rightarrow> (Inl e, sv)
      | Inr None \<Rightarrow> (Inr None, sv\<lparr>sv_events := sv_events sv @ [Duty_missing pid]\<rparr>)
      | Inr (Some ruling) \<Rightarrow> (Inr (Some ruling), sv\<lparr>sv_events := sv_events sv @ [Duty_ruling pid ruling]\<rparr>))"

section \<open>The contract\<close>

definition nonblank :: "json \<Rightarrow> bool" where
  "nonblank v = (case v of JStr s \<Rightarrow> py_strip s \<noteq> [] | _ \<Rightarrow> False)"

definition strings_up_to :: "nat option \<Rightarrow> json \<Rightarrow> bool" where
  "strings_up_to limit v =
     (case v of JList items \<Rightarrow> list_all is_str items
                  \<and> (case limit of None \<Rightarrow> True | Some n \<Rightarrow> length items \<le> n)
      | _ \<Rightarrow> False)"

definition decision_request :: "json \<Rightarrow> bool" where
  "decision_request v =
     (case v of
        JNull \<Rightarrow> True
      | JObj needs \<Rightarrow> fst ` set needs = {''question'', ''decision_refs'', ''evidence_refs''}
          \<and> is_str (jget needs ''question'')
          \<and> instance_of PyList (jget needs ''decision_refs'') \<and> instance_of PyList (jget needs ''evidence_refs'')
      | _ \<Rightarrow> False)"

definition current_revision :: "int option \<Rightarrow> json \<Rightarrow> bool" where
  "current_revision expected v =
     (case v of JInt n \<Rightarrow> 1 \<le> n \<and> (case expected of None \<Rightarrow> True | Some m \<Rightarrow> n = m) | _ \<Rightarrow> False)"

definition contract_keys :: "string set" where
  "contract_keys = set (map fst REQUIRED_FIELDS)"

definition short_result_contract :: "validator \<Rightarrow> int option \<Rightarrow> jobj \<Rightarrow> bool" where
  "short_result_contract vd expected d \<longleftrightarrow>
     contract_keys \<subseteq> fst ` set d \<and> fst ` set d \<subseteq> contract_keys \<union> {''verdict'', ''idem_key'', ''score''}
     \<and> nonblank (jget d ''packet_id'') \<and> nonblank (jget d ''control_packet_id'')
     \<and> current_revision expected (jget d ''control_packet_revision'')
     \<and> jget d ''status'' \<in> JStr ` set STATUS_ENUM
     \<and> nonblank (jget d ''conclusion'')
     \<and> (\<forall>s. jget d ''conclusion'' = JStr s \<longrightarrow> length s \<le> max_chars vd)
     \<and> strings_up_to None (jget d ''artifact_paths'')
     \<and> strings_up_to (Some (vd_max_findings vd)) (jget d ''finding_ids'')
     \<and> decision_request (jget d ''needs_decision'')
     \<and> (vd_require_verdict vd \<longrightarrow> dict_has ''verdict'' d)
     \<and> (dict_has ''verdict'' d \<longrightarrow> jget d ''verdict'' \<in> JStr ` set L2_VERDICTS)
     \<and> (dict_has ''idem_key'' d \<longrightarrow> is_str (jget d ''idem_key''))
     \<and> (dict_has ''score'' d \<longrightarrow> has_type [PyInt, PyFloat] (jget d ''score''))"

end
