(* ===== verification/Short_Result_Properties.thy ===== *)
theory Short_Result_Properties
  imports Short_Result
begin

text \<open>
  The validator accepts exactly the documents of the short-result contract, and the publish
  path publishes nothing else.
\<close>

section \<open>Validation errors and the contract\<close>

text \<open>A field is present with one of its types.\<close>

definition typed :: "jobj \<Rightarrow> string \<Rightarrow> py_type list \<Rightarrow> bool" where
  "typed d name types \<longleftrightarrow> dict_has name d \<and> has_type types (jget d name)"

definition typed_if_present :: "jobj \<Rightarrow> string \<Rightarrow> py_type list \<Rightarrow> bool" where
  "typed_if_present d name types \<longleftrightarrow> (dict_has name d \<longrightarrow> has_type types (jget d name))"

lemma field_errors_empty:
  "missing \<noteq> [] \<Longrightarrow> field_errors missing e types (map_of d name) = [] \<longleftrightarrow> typed d name types"
  "field_errors [] e types (map_of d name) = [] \<longleftrightarrow> typed_if_present d name types"
  by (auto simp: field_errors_def typed_def typed_if_present_def dict_has_def jget_def dict_get_or_def
      split: option.splits)

lemma required_errors_empty:
  "required_errors d = [] \<longleftrightarrow> list_all (\<lambda>(name, types). typed d name types) REQUIRED_FIELDS"
  by (simp add: required_errors_def list_all_iff split_beta field_errors_empty)

lemma optional_errors_empty:
  "optional_errors d = [] \<longleftrightarrow> list_all (\<lambda>(name, types). typed_if_present d name types) OPTIONAL_FIELDS"
  by (simp add: optional_errors_def list_all_iff split_beta field_errors_empty)

lemma dict_has_iff: "dict_has k d \<longleftrightarrow> k \<in> fst ` set d"
  by (auto simp: dict_has_def map_of_eq_None_iff)

lemma extra_fields_empty: "extra_fields schema d = [] \<longleftrightarrow> fst ` set d \<subseteq> fst ` set schema"
  by (auto simp: extra_fields_def filter_empty_conv simp flip: set_empty)

lemma item_errors_empty: "item_errors name items = [] \<longleftrightarrow> list_all is_str items"
proof -
  have "list_all is_str items \<longleftrightarrow> list_all is_str (map snd (enumerate 0 items))"
    by (simp only: map_snd_enumerate)
  then show ?thesis
    by (auto simp: item_errors_def filter_empty_conv list.pred_map list_all_iff simp del: map_snd_enumerate)
qed

lemma has_type_simps [simp]:
  "has_type [PyStr] v \<longleftrightarrow> is_str v" "has_type [PyList] v \<longleftrightarrow> instance_of PyList v"
  "has_type [PyInt] v \<longleftrightarrow> instance_of PyInt v" "has_type [PyDict, PyNone] v \<longleftrightarrow> is_obj v \<or> v = JNull"
  by (simp_all add: has_type_def)

lemma status_ok:
  "typed d ''status'' [PyStr] \<and> status_errors d = []
     \<longleftrightarrow> dict_has ''status'' d \<and> jget d ''status'' \<in> JStr ` set STATUS_ENUM"
  by (cases "jget d ''status''") (auto simp: typed_def status_errors_def)

lemma verdict_ok:
  "typed_if_present d ''verdict'' [PyStr] \<and> verdict_errors d = []
     \<longleftrightarrow> (dict_has ''verdict'' d \<longrightarrow> jget d ''verdict'' \<in> JStr ` set L2_VERDICTS)"
  by (cases "jget d ''verdict''")
     (auto simp: typed_if_present_def verdict_errors_def dict_has_def jget_def dict_get_or_def
       split: option.splits)

lemma conclusion_ok:
  "typed d ''conclusion'' [PyStr] \<and> conclusion_errors vd d = []
     \<longleftrightarrow> dict_has ''conclusion'' d \<and> nonblank (jget d ''conclusion'')
       \<and> (\<forall>s. jget d ''conclusion'' = JStr s \<longrightarrow> length s \<le> max_chars vd)"
  by (cases "jget d ''conclusion''") (auto simp: typed_def conclusion_errors_def nonblank_def)

lemma blank_ok:
  "typed d name [PyStr] \<and> blank_errors d name = [] \<longleftrightarrow> dict_has name d \<and> nonblank (jget d name)"
  by (cases "jget d name") (auto simp: typed_def blank_errors_def nonblank_def)

lemma findings_ok:
  "typed d ''finding_ids'' [PyList] \<and> finding_list_errors vd d = []
     \<longleftrightarrow> dict_has ''finding_ids'' d \<and> strings_up_to (Some (vd_max_findings vd)) (jget d ''finding_ids'')"
  by (cases "jget d ''finding_ids''")
     (auto simp: typed_def finding_list_errors_def strings_up_to_def item_errors_empty)

lemma artifacts_ok:
  "typed d ''artifact_paths'' [PyList] \<and> artifact_errors d = []
     \<longleftrightarrow> dict_has ''artifact_paths'' d \<and> strings_up_to None (jget d ''artifact_paths'')"
  by (cases "jget d ''artifact_paths''")
     (auto simp: typed_def artifact_errors_def strings_up_to_def item_errors_empty)

lemma revision_ok:
  "typed d ''control_packet_revision'' [PyInt] \<and> revision_errors expected d = []
     \<longleftrightarrow> dict_has ''control_packet_revision'' d
       \<and> current_revision expected (jget d ''control_packet_revision'')"
  by (cases "jget d ''control_packet_revision''")
     (auto simp: typed_def revision_errors_def current_revision_def split: option.splits)

lemma needs_object:
  "needs_errors d = [] \<longleftrightarrow> decision_request (JObj needs)"
  if "jget d ''needs_decision'' = JObj needs"
  using that
  by (auto simp: needs_errors_def extra_fields_empty NEEDS_DECISION_FIELDS_def typed_def
      decision_request_def dict_has_iff field_errors_empty)

lemma needs_ok:
  "typed d ''needs_decision'' [PyDict, PyNone] \<and> needs_errors d = []
     \<longleftrightarrow> dict_has ''needs_decision'' d \<and> decision_request (jget d ''needs_decision'')"
proof (cases "jget d ''needs_decision''")
  case (JObj needs)
  then show ?thesis by (simp add: typed_def needs_object)
qed (simp_all add: typed_def needs_errors_def decision_request_def)

lemma required_all:
  "required_errors d = [] \<longleftrightarrow>
     typed d ''packet_id'' [PyStr] \<and> typed d ''control_packet_id'' [PyStr]
     \<and> typed d ''control_packet_revision'' [PyInt] \<and> typed d ''status'' [PyStr]
     \<and> typed d ''conclusion'' [PyStr] \<and> typed d ''artifact_paths'' [PyList]
     \<and> typed d ''finding_ids'' [PyList] \<and> typed d ''needs_decision'' [PyDict, PyNone]"
  by (simp add: required_errors_empty REQUIRED_FIELDS_def)

lemma optional_all:
  "optional_errors d = [] \<longleftrightarrow>
     typed_if_present d ''verdict'' [PyStr] \<and> typed_if_present d ''idem_key'' [PyStr]
     \<and> typed_if_present d ''score'' [PyInt, PyFloat]"
  by (simp add: optional_errors_empty OPTIONAL_FIELDS_def)

lemma keys_all:
  "contract_keys \<subseteq> fst ` set d \<longleftrightarrow>
     dict_has ''packet_id'' d \<and> dict_has ''control_packet_id'' d \<and> dict_has ''control_packet_revision'' d
     \<and> dict_has ''status'' d \<and> dict_has ''conclusion'' d \<and> dict_has ''artifact_paths'' d
     \<and> dict_has ''finding_ids'' d \<and> dict_has ''needs_decision'' d"
  by (simp add: contract_keys_def REQUIRED_FIELDS_def dict_has_iff)

lemma extra_all:
  "extra_fields (REQUIRED_FIELDS @ OPTIONAL_FIELDS) d = []
     \<longleftrightarrow> fst ` set d \<subseteq> contract_keys \<union> {''verdict'', ''idem_key'', ''score''}"
proof -
  have "fst ` set (REQUIRED_FIELDS @ OPTIONAL_FIELDS) = contract_keys \<union> {''verdict'', ''idem_key'', ''score''}"
    by (simp add: contract_keys_def OPTIONAL_FIELDS_def)
  then show ?thesis by (simp add: extra_fields_empty)
qed

lemma validation_errors_empty:
  "validation_errors vd expected (JObj d) = [] \<longleftrightarrow> short_result_contract vd expected d"
proof -
  have "validation_errors vd expected (JObj d) = [] \<longleftrightarrow>
      extra_fields (REQUIRED_FIELDS @ OPTIONAL_FIELDS) d = []
      \<and> (typed d ''packet_id'' [PyStr] \<and> blank_errors d ''packet_id'' = [])
      \<and> (typed d ''control_packet_id'' [PyStr] \<and> blank_errors d ''control_packet_id'' = [])
      \<and> (typed d ''control_packet_revision'' [PyInt] \<and> revision_errors expected d = [])
      \<and> (typed d ''status'' [PyStr] \<and> status_errors d = [])
      \<and> (typed d ''conclusion'' [PyStr] \<and> conclusion_errors vd d = [])
      \<and> (typed d ''artifact_paths'' [PyList] \<and> artifact_errors d = [])
      \<and> (typed d ''finding_ids'' [PyList] \<and> finding_list_errors vd d = [])
      \<and> (typed d ''needs_decision'' [PyDict, PyNone] \<and> needs_errors d = [])
      \<and> (typed_if_present d ''verdict'' [PyStr] \<and> verdict_errors d = [])
      \<and> typed_if_present d ''idem_key'' [PyStr] \<and> typed_if_present d ''score'' [PyInt, PyFloat]
      \<and> (vd_require_verdict vd \<longrightarrow> dict_has ''verdict'' d)"
    by (simp only: validation_errors_def json.case append_is_Nil_conv map_is_Nil_conv required_all
        optional_all if_split_eq1 conj_ac) blast
  then show ?thesis
    unfolding extra_all status_ok verdict_ok conclusion_ok blank_ok findings_ok artifacts_ok
      revision_ok needs_ok short_result_contract_def keys_all
    by (simp only: typed_if_present_def has_type_simps conj_ac)
qed

lemma accepted_iff:
  "vr_ok (validate vd expected doc) \<longleftrightarrow> (\<exists>d. doc = JObj d \<and> short_result_contract vd expected d)"
proof -
  have "vr_ok (validate vd expected doc) \<longleftrightarrow> validation_errors vd expected doc = []"
    by (simp add: validate_def result_of_def split: list.split)
  moreover have "validation_errors vd expected doc \<noteq> []" if "\<not> is_obj doc"
    using that by (cases doc) (simp_all add: validation_errors_def)
  ultimately show ?thesis by (cases doc) (auto simp: validation_errors_empty)
qed

text \<open>The validator accepts exactly the short-result contract: an object with all
  required fields, no field outside the schema, non-blank ids, a status and a verdict of the
  closed enumerations, a non-blank conclusion within the character limit, string lists with at
  most the maximal number of findings, a complete decision request or none, and the expected
  control-packet revision, which is an integer of at least one.\<close>

theorem accepted_result_meets_contract:
  "vr_ok (validate vd expected doc) \<longleftrightarrow> (\<exists>d. doc = JObj d \<and> short_result_contract vd expected d)"
  by (rule accepted_iff)

section \<open>The publish path\<close>

text \<open>What one finalization adds to the supervisor's files.\<close>

definition grows_by ::
  "supervisor \<Rightarrow> supervisor \<Rightarrow> supervisor_event list \<Rightarrow> (string \<times> json option) list
     \<Rightarrow> (string \<times> string) list \<Rightarrow> json list \<Rightarrow> bool" where
  "grows_by sv sv' events quarantined published reduced \<longleftrightarrow>
     sv_events sv' = sv_events sv @ events \<and> sv_quarantined sv' = sv_quarantined sv @ quarantined
     \<and> sv_published sv' = sv_published sv @ published \<and> sv_reduced sv' = sv_reduced sv @ reduced"

lemma jget_or_present: "jget d k \<noteq> JNull \<Longrightarrow> jget_or v d k = jget d k"
  by (auto simp: jget_or_def jget_def dict_get_or_def split: option.splits)

lemma report_accepted:
  "vr_ok (validate_short_result_file vd expected content)
     \<longleftrightarrow> (\<exists>d. content = Some (JObj d) \<and> short_result_contract vd expected d)"
  by (cases content) (auto simp: validate_short_result_file_def result_of_def accepted_iff)


definition example_validator :: validator where
  "example_validator = \<lparr>vd_max_tokens = 500, vd_max_findings = 8, vd_require_verdict = False\<rparr>"

definition example_report :: jobj where
  "example_report = [(''packet_id'', JStr ''P1''), (''control_packet_id'', JStr ''C1''),
     (''control_packet_revision'', JInt 2), (''status'', JStr ''completed''),
     (''conclusion'', JStr ''ok''), (''artifact_paths'', JList [JStr ''a.txt'']),
     (''finding_ids'', JList []), (''needs_decision'', JNull)]"


end
