(* ===== verification/Reducer.thy ===== *)
theory Reducer
  imports Short_Result Verdicts
begin

text \<open>
  The zero-model reducer, \<open>src/harness/result_reducer.py\<close>: deduplicated collection of short
  results and verifier completions, ranking of candidates, the consolidated verdict, and the
  bounded adjudication packet with its truncation loop. Candidates and verdicts are the typed
  records of the theory of the aggregation gate; timestamps, provenance labels, the rendered
  file and the logging are not modelled. Stored documents have passed the validator, so their
  fields have the types of the contract.
\<close>

definition VERDICT_ORDER :: "string list" where
  "VERDICT_ORDER = [''pass'', ''redo'', ''escalate_l2_5'', ''escalate_l3'']"

definition rank_of :: "string \<Rightarrow> nat option" where
  "rank_of v = index_of v VERDICT_ORDER"

section \<open>Collection\<close>

record completion =
  cm_verdict :: string
  cm_valid :: bool

datatype reduced = Short_doc jobj | Completion completion

record reducer =
  rd_results :: "reduced dict"
  rd_duplicates :: nat
  rd_candidates :: "candidate list dict"

definition empty_reducer :: reducer where
  "empty_reducer = \<lparr>rd_results = [], rd_duplicates = 0, rd_candidates = []\<rparr>"

text \<open>
  The key of a short result: the argument, the document's own key, or the composite of packet,
  revision and status (which the contract types).
\<close>

definition int_text :: "json \<Rightarrow> string" where
  "int_text v = (case v of JInt n \<Rightarrow> if n < 0 then ''-'' @ decimal (nat (- n)) else decimal (nat n) | _ \<Rightarrow> ''None'')"

definition text_of :: "json \<Rightarrow> string" where
  "text_of v = (case v of JStr s \<Rightarrow> s | _ \<Rightarrow> ''?'')"

definition composite_key :: "jobj \<Rightarrow> string" where
  "composite_key doc = ''sr:'' @ text_of (jget doc ''packet_id'') @ '':''
     @ int_text (jget doc ''control_packet_revision'') @ '':'' @ text_of (jget doc ''status'')"

definition short_key :: "string option \<Rightarrow> jobj \<Rightarrow> string" where
  "short_key idem_key doc =
     (let own = (case jget doc ''idem_key'' of JStr s \<Rightarrow> s | _ \<Rightarrow> []);
          given = (case idem_key of Some k \<Rightarrow> k | None \<Rightarrow> []) in
      if given \<noteq> [] then given else if own \<noteq> [] then own else composite_key doc)"

definition insert_result :: "string \<Rightarrow> reduced \<Rightarrow> reducer \<Rightarrow> bool \<times> reducer" where
  "insert_result key r rd =
     (if dict_has key (rd_results rd) then (False, rd\<lparr>rd_duplicates := rd_duplicates rd + 1\<rparr>)
      else (True, rd\<lparr>rd_results := dict_set key r (rd_results rd)\<rparr>))"

definition add_short_result ::
  "validator \<Rightarrow> string option \<Rightarrow> jobj \<Rightarrow> reducer \<Rightarrow> bool \<times> reducer" where
  "add_short_result vd idem_key doc rd =
     (if \<not> vr_ok (validate vd None (JObj doc)) then (False, rd)
      else insert_result (short_key idem_key doc) (Short_doc doc) rd)"

text \<open>A completion marker: its key, its verdict and its validity flag.\<close>

definition add_completion :: "string \<Rightarrow> string \<Rightarrow> bool \<Rightarrow> reducer \<Rightarrow> bool \<times> reducer" where
  "add_completion key verdict valid rd =
     (if key = [] then (False, rd)
      else insert_result key
        (Completion \<lparr>cm_verdict = (if rank_of verdict \<noteq> None then verdict else ''escalate_l3''),
                     cm_valid = valid\<rparr>) rd)"

definition add_candidate :: "string \<Rightarrow> candidate \<Rightarrow> reducer \<Rightarrow> py_error + reducer" where
  "add_candidate packet_id c rd =
     (let bucket = dict_get_or [] packet_id (rd_candidates rd) in
      if 3 \<le> length bucket then Inl ValueError
      else Inr (rd\<lparr>rd_candidates := dict_set packet_id (bucket @ [c]) (rd_candidates rd)\<rparr>))"

section \<open>Reduction\<close>

definition strict_step :: "string \<Rightarrow> string \<Rightarrow> string" where
  "strict_step v worst =
     (case (rank_of v, rank_of worst) of
        (Some i, Some j) \<Rightarrow> if j < i then v else worst
      | _ \<Rightarrow> worst)"

definition strictest :: "string list \<Rightarrow> string" where
  "strictest verdicts = fold strict_step verdicts ''pass''"

definition rank_one :: "candidate \<Rightarrow> ranked" where
  "rank_one c =
     (let vs = filter (\<lambda>v. rank_of (v_verdict v) \<noteq> None) (c_verdicts c);
          (strict, score) =
            (if vs = [] then (''escalate_l3'', 0)
             else (strictest (map v_verdict vs), sum_list (map v_score vs) / of_nat (length vs)))
      in \<lparr>rk_id = c_id c, rk_diff_path = c_diff_path c, rk_verdict = strict, rk_mean = round4 score\<rparr>)"

text \<open>The sort key: verdict rank, negated mean score, candidate id.\<close>

definition ranking_le :: "ranked \<Rightarrow> ranked \<Rightarrow> bool" where
  "ranking_le a b =
     (let i = (case rank_of (rk_verdict a) of Some i \<Rightarrow> i | None \<Rightarrow> 0);
          j = (case rank_of (rk_verdict b) of Some j \<Rightarrow> j | None \<Rightarrow> 0) in
      i < j \<or> (i = j \<and> (rk_mean b < rk_mean a \<or> (rk_mean a = rk_mean b \<and> rk_id a \<le> rk_id b))))"

fun insert_by :: "('a \<Rightarrow> 'a \<Rightarrow> bool) \<Rightarrow> 'a \<Rightarrow> 'a list \<Rightarrow> 'a list" where
  "insert_by le x [] = [x]"
| "insert_by le x (y # ys) = (if le x y then x # y # ys else y # insert_by le x ys)"

definition rank_candidates :: "string \<Rightarrow> reducer \<Rightarrow> ranked list" where
  "rank_candidates packet_id rd =
     foldr (insert_by ranking_le) (map rank_one (dict_get_or [] packet_id (rd_candidates rd))) []"

datatype inconsistency = Invalid_completion string | Closure_violation string string | No_inputs

definition explicit_verdict :: "jobj \<Rightarrow> string option" where
  "explicit_verdict doc =
     (case jget doc ''verdict'' of JStr v \<Rightarrow> if rank_of v \<noteq> None then Some v else None | _ \<Rightarrow> None)"

definition doc_verdicts :: "jobj \<Rightarrow> string list" where
  "doc_verdicts doc =
     (case explicit_verdict doc of
        Some v \<Rightarrow> [v]
      | None \<Rightarrow>
          (let status = jget doc ''status'' in
           if status = JStr ''completed'' then [''pass'']
           else if status \<in> JStr ` {''failed'', ''blocked'', ''stale_revision''} then [''redo'']
           else if status = JStr ''cancelled'' then [''escalate_l3''] else []))
     @ (if truthy (jget doc ''needs_decision'') then [''escalate_l3''] else [])"

definition doc_inconsistencies :: "string \<Rightarrow> jobj \<Rightarrow> inconsistency list" where
  "doc_inconsistencies key doc =
     (case explicit_verdict doc of
        Some v \<Rightarrow> if v \<noteq> ''pass'' \<and> \<not> truthy (jget doc ''finding_ids'') then [Closure_violation key v] else []
      | None \<Rightarrow> [])"

definition record_verdicts :: "string \<times> reduced \<Rightarrow> string list" where
  "record_verdicts entry =
     (case snd entry of Completion c \<Rightarrow> [cm_verdict c] | Short_doc doc \<Rightarrow> doc_verdicts doc)"

definition record_inconsistencies :: "string \<times> reduced \<Rightarrow> inconsistency list" where
  "record_inconsistencies entry =
     (case snd entry of
        Completion c \<Rightarrow> if cm_valid c then [] else [Invalid_completion (fst entry)]
      | Short_doc doc \<Rightarrow> doc_inconsistencies (fst entry) doc)"

record consolidated =
  cn_verdict :: string
  cn_inputs :: nat
  cn_duplicates :: nat
  cn_best :: "ranked option"
  cn_inconsistencies :: "inconsistency list"

text \<open>The event \<open>best_candidate\<close> is emitted for the packet and the winner in \<open>cn_best\<close>.\<close>

definition consolidate :: "reducer \<Rightarrow> consolidated" where
  "consolidate rd =
     (let records = rd_results rd;
          verdicts = concat (map record_verdicts records);
          issues = concat (map record_inconsistencies records) @ (if records = [] then [No_inputs] else []);
          worst = (if verdicts = [] then ''escalate_l3'' else strictest verdicts);
          final = (if issues \<noteq> [] \<and> worst \<noteq> ''escalate_l3'' then ''escalate_l3'' else worst);
          best = (case rd_candidates rd of
                    [] \<Rightarrow> None
                  | (packet_id, _) # _ \<Rightarrow>
                      (case rank_candidates packet_id rd of [] \<Rightarrow> None | r # _ \<Rightarrow> Some r))
      in \<lparr>cn_verdict = final, cn_inputs = length records, cn_duplicates = rd_duplicates rd,
          cn_best = best, cn_inconsistencies = issues\<rparr>)"

section \<open>The adjudication packet\<close>

text \<open>
  The length of \<open>json.dumps\<close> on ASCII strings, escapes counted: two characters for quote,
  backslash and the named controls, six for the others.
\<close>

definition char_width :: "char \<Rightarrow> nat" where
  "char_width c =
     (let n = of_char c :: nat in
      if n = 34 \<or> n = 92 \<or> n \<in> {8, 9, 10, 12, 13} then 2
      else if n < 32 \<or> 126 < n then 6 else 1)"

definition string_width :: "string \<Rightarrow> nat" where
  "string_width s = 2 + sum_list (map char_width s)"

definition items_width :: "nat list \<Rightarrow> nat" where
  "items_width ws = 2 + sum_list ws + 2 * (length ws - 1)"

fun decimal_width :: "nat \<Rightarrow> nat" where
  "decimal_width n = (if n < 10 then 1 else 1 + decimal_width (n div 10))"

text \<open>
  An artifact path, or the sentinel with the number of paths it stands for: an ellipsis
  (escaped to six characters), the open parenthesis with a plus sign, the number, and the
  closing words.
\<close>

datatype artifact = Path_entry string | More nat

fun artifact_width :: "artifact \<Rightarrow> nat" where
  "artifact_width (Path_entry s) = string_width s"
| "artifact_width (More n) = 2 + 6 + 2 + decimal_width n + length '' more, see report files)''"

record adjudication =
  ad_statuses :: "string dict"
  ad_verdict :: string
  ad_findings :: "string list"
  ad_artifacts :: "artifact list"
  ad_question :: string
  ad_tokens :: nat

definition field_width :: "string \<Rightarrow> nat \<Rightarrow> nat" where
  "field_width name w = string_width name + 2 + w"

definition body_width :: "string dict \<Rightarrow> string \<Rightarrow> string list \<Rightarrow> artifact list \<Rightarrow> string \<Rightarrow> nat" where
  "body_width statuses verdict fids arts question =
     items_width
       [field_width ''artifact_paths'' (items_width (map artifact_width arts)),
        field_width ''decision_question'' (string_width question),
        field_width ''finding_ids'' (items_width (map string_width fids)),
        field_width ''packet_ids'' (items_width (map (\<lambda>(k, v). string_width k) statuses)),
        field_width ''schema'' (string_width ''codex-loop-adjudication-packet/v2''),
        field_width ''statuses'' (items_width (map (\<lambda>(k, v). field_width k (string_width v)) statuses)),
        field_width ''token_estimate'' 1,
        field_width ''verdict'' (string_width verdict)]"

definition build_packet ::
  "string dict \<Rightarrow> string \<Rightarrow> string \<Rightarrow> string list \<Rightarrow> artifact list \<Rightarrow> adjudication" where
  "build_packet statuses verdict question fids arts =
     \<lparr>ad_statuses = statuses, ad_verdict = verdict, ad_findings = fids, ad_artifacts = arts,
      ad_question = question,
      ad_tokens = (body_width statuses verdict fids arts question + CHARS_PER_TOKEN - 1) div CHARS_PER_TOKEN\<rparr>"

text \<open>One cut of the artifact list: a quarter at least one, the last one left being the sentinel.\<close>

definition cut_artifacts :: "nat \<Rightarrow> artifact list \<Rightarrow> artifact list" where
  "cut_artifacts all_paths arts =
     (let kept = take (length arts - max 1 (length arts div 4)) arts in
      if kept = [] then [] else kept[length kept - 1 := More (all_paths - length kept + 1)])"

function fit_packet ::
  "nat \<Rightarrow> nat \<Rightarrow> (string list \<Rightarrow> artifact list \<Rightarrow> adjudication) \<Rightarrow> string list \<Rightarrow> artifact list \<Rightarrow> adjudication" where
  "fit_packet max_tokens all_paths build fids arts =
     (if ad_tokens (build fids arts) \<le> max_tokens \<or> (fids = [] \<and> arts = []) then build fids arts
      else if arts \<noteq> [] then fit_packet max_tokens all_paths build fids (cut_artifacts all_paths arts)
      else fit_packet max_tokens all_paths build (take (length fids - 1) fids) arts)"
  by pat_completeness auto

lemma cut_artifacts_length: "arts \<noteq> [] \<Longrightarrow> length (cut_artifacts n arts) < length arts"
  by (cases arts) (auto simp: cut_artifacts_def Let_def)

termination fit_packet
  by (relation "measure (\<lambda>(m, n, build, fids, arts). length fids + length arts)")
     (auto simp: cut_artifacts_length)

declare fit_packet.simps [simp del]

definition json_strings :: "json \<Rightarrow> string list" where
  "json_strings v = (case v of
     JList items \<Rightarrow> concat (map (\<lambda>x. case x of JStr s \<Rightarrow> [s] | _ \<Rightarrow> []) items) | _ \<Rightarrow> [])"

definition add_new :: "string list \<Rightarrow> string list \<Rightarrow> string list" where
  "add_new xs seen = fold (\<lambda>x acc. if x \<in> set acc then acc else acc @ [x]) xs seen"

definition gather :: "string \<times> reduced \<Rightarrow> string dict \<times> string list \<times> string list \<Rightarrow> string dict \<times> string list \<times> string list" where
  "gather entry acc =
     (case (snd entry, acc) of
        (Completion _, _) \<Rightarrow> acc
      | (Short_doc doc, (statuses, fids, arts)) \<Rightarrow>
          (dict_set (text_of (jget doc ''packet_id'')) (text_of (jget doc ''status'')) statuses,
           add_new (json_strings (jget doc ''finding_ids'')) fids,
           add_new (json_strings (jget doc ''artifact_paths'')) arts))"

definition render_adjudication_packet :: "nat \<Rightarrow> string \<Rightarrow> reducer \<Rightarrow> adjudication" where
  "render_adjudication_packet max_tokens question rd =
     (let verdict = cn_verdict (consolidate rd);
          (statuses, fids, arts) = fold gather (rd_results rd) ([], [], []) in
      fit_packet max_tokens (length arts) (build_packet statuses verdict question) fids (map Path_entry arts))"

end
