(* ===== verification/Reducer_Properties.thy ===== *)
theory Reducer_Properties
  imports Reducer Short_Result_Properties
begin

text \<open>
  What the reducer promises: it passes a wave only if every result passed, its ranking is the
  aggregation gate's, and its packet fits the budget or has nothing left to cut.
\<close>

section \<open>Strictest verdicts\<close>

lemma VERDICT_ORDER_is_ORDER: "VERDICT_ORDER = ORDER"
  by (simp add: VERDICT_ORDER_def ORDER_def)

lemma rank_of_values [simp]:
  "rank_of ''pass'' = Some 0" "rank_of ''redo'' = Some 1"
  "rank_of ''escalate_l2_5'' = Some 2" "rank_of ''escalate_l3'' = Some 3"
  by (simp_all add: rank_of_def VERDICT_ORDER_def)

lemma rank_of_zero: "rank_of v = Some 0 \<longleftrightarrow> v = ''pass''"
  by (auto simp: rank_of_def VERDICT_ORDER_def)

lemma rank_of_known: "rank_of v \<noteq> None \<longleftrightarrow> v \<in> set VERDICT_ORDER"
  by (auto simp: rank_of_def VERDICT_ORDER_def)

lemma strict_step_pass: "rank_of v \<noteq> None \<Longrightarrow> strict_step v ''pass'' = v"
  using rank_of_zero [of v] by (auto simp: strict_step_def)

lemma strict_step_known:
  "rank_of v \<noteq> None \<Longrightarrow> rank_of w \<noteq> None \<Longrightarrow>
     strict_step v w = ''pass'' \<longleftrightarrow> v = ''pass'' \<and> w = ''pass''"
  using rank_of_zero [of v] rank_of_zero [of w] by (auto simp: strict_step_def split: if_splits)

lemma strict_step_rank: "rank_of w \<noteq> None \<Longrightarrow> rank_of (strict_step v w) \<noteq> None"
  by (auto simp: strict_step_def split: option.split)

lemma strictest_pass_from:
  assumes "list_all (\<lambda>v. rank_of v \<noteq> None) vs" "rank_of w \<noteq> None"
  shows "fold strict_step vs w = ''pass'' \<longleftrightarrow> w = ''pass'' \<and> list_all (\<lambda>v. v = ''pass'') vs"
  using assms
proof (induction vs arbitrary: w)
  case (Cons v vs)
  then show ?case using strict_step_rank [of w v] strict_step_known [of v w] by auto
qed simp

lemma strictest_pass:
  "list_all (\<lambda>v. rank_of v \<noteq> None) vs \<Longrightarrow> strictest vs = ''pass'' \<longleftrightarrow> list_all (\<lambda>v. v = ''pass'') vs"
  using strictest_pass_from [of vs "''pass''"] by (simp add: strictest_def)

section \<open>Agreement with the aggregation gate\<close>

lemma legal_verdict_rank: "legal_verdict v \<longleftrightarrow> rank_of v \<noteq> None"
  using rank_of_known [of v] by (simp only: legal_verdict_def VERDICT_ORDER_is_ORDER)

lemma RANK_rank_of: "rank_of v = Some i \<Longrightarrow> RANK v = i"
  by (simp add: RANK_def rank_of_def VERDICT_ORDER_is_ORDER)

lemma strict_step_stricter:
  "rank_of v \<noteq> None \<Longrightarrow> rank_of w \<noteq> None \<Longrightarrow> stricter v (Some w) = Some (strict_step v w)"
  by (auto simp: stricter_def strict_step_def RANK_rank_of)

lemma fold_stricter_from:
  "list_all (\<lambda>v. rank_of v \<noteq> None) vs \<Longrightarrow> rank_of w \<noteq> None \<Longrightarrow>
     fold stricter vs (Some w) = Some (fold strict_step vs w)"
proof (induction vs arbitrary: w)
  case (Cons v vs)
  then show ?case using strict_step_rank [of w v] by (simp add: strict_step_stricter)
qed simp

lemma fold_stricter:
  assumes "list_all (\<lambda>v. rank_of v \<noteq> None) vs" "vs \<noteq> []"
  shows "fold stricter vs None = Some (strictest vs)"
proof -
  obtain v rest where "vs = v # rest" using assms(2) by (cases vs) auto
  then show ?thesis
    using assms(1) fold_stricter_from [of rest v] strict_step_pass [of v]
    by (simp add: strictest_def stricter_def)
qed

lemma rank_one_agrees: "rank_one c = rank_candidate c"
proof -
  let ?vs = "filter (\<lambda>v. rank_of (v_verdict v) \<noteq> None) (c_verdicts c)"
  have "judged c = ?vs" by (simp add: judged_def legal_verdict_rank)
  moreover have "list_all (\<lambda>v. rank_of v \<noteq> None) (map v_verdict ?vs)" by (simp add: list_all_iff)
  ultimately show ?thesis
    using fold_stricter [of "map v_verdict ?vs"]
    by (cases "?vs = []") (simp_all add: rank_one_def rank_candidate_def Let_def)
qed

lemma insert_by_set: "set (insert_by le x ys) = insert x (set ys)"
  by (induction ys) auto

lemma fold_insert_by_set: "set (foldr (insert_by le) xs []) = set xs"
  by (induction xs) (simp_all add: insert_by_set)

lemma insert_by_hd:
  assumes tot: "\<And>a b. le a b \<or> le b a" and trans: "\<And>a b c. le a b \<Longrightarrow> le b c \<Longrightarrow> le a c"
    and least: "ys \<noteq> [] \<Longrightarrow> \<forall>y \<in> set ys. le (hd ys) y"
  shows "\<forall>y \<in> insert x (set ys). le (hd (insert_by le x ys)) y"
proof (cases ys)
  case Nil
  then show ?thesis using tot [of x x] by simp
next
  case (Cons a rest)
  then have a: "\<forall>y \<in> set ys. le a y" using least by simp
  have head: "hd (insert_by le x ys) = (if le x a then x else a)" using Cons by simp
  show ?thesis
  proof (cases "le x a")
    case True
    then have "le x y" if "y \<in> set ys" for y using a trans that by blast
    then show ?thesis using True tot [of x x] by (simp add: head)
  next
    case False
    then show ?thesis using a tot [of x a] by (simp add: head)
  qed
qed

lemma fold_insert_by_hd:
  assumes "\<And>a b. le a b \<or> le b a" "\<And>a b c. le a b \<Longrightarrow> le b c \<Longrightarrow> le a c" and "xs \<noteq> []"
  shows "\<forall>y \<in> set xs. le (hd (foldr (insert_by le) xs [])) y"
  using assms(3)
proof (induction xs)
  case (Cons x xs)
  have "foldr (insert_by le) xs [] \<noteq> [] \<Longrightarrow> \<forall>y \<in> set xs. le (hd (foldr (insert_by le) xs [])) y"
    using Cons.IH by (cases xs) auto
  then show ?case
    using insert_by_hd [of le "foldr (insert_by le) xs []" x] assms(1,2)
    by (simp add: fold_insert_by_set)
qed simp

section \<open>What the reducer holds\<close>

text \<open>The calls a reducer serves, in any order.\<close>

datatype reducer_call =
    Add_short "string option" jobj
  | Add_completion string string bool
  | Add_candidate string candidate

definition serve :: "validator \<Rightarrow> reducer_call \<Rightarrow> reducer \<Rightarrow> reducer" where
  "serve vd call rd =
     (case call of
        Add_short key doc \<Rightarrow> snd (add_short_result vd key doc rd)
      | Add_completion key verdict valid \<Rightarrow> snd (add_completion key verdict valid rd)
      | Add_candidate packet_id c \<Rightarrow> (case add_candidate packet_id c rd of Inl e \<Rightarrow> rd | Inr rd' \<Rightarrow> rd'))"

definition serve_all :: "validator \<Rightarrow> reducer_call list \<Rightarrow> reducer" where
  "serve_all vd calls = fold (serve vd) calls empty_reducer"

fun stored_ok :: "validator \<Rightarrow> reduced \<Rightarrow> bool" where
  "stored_ok vd (Short_doc doc) = short_result_contract vd None doc"
| "stored_ok vd (Completion c) = (rank_of (cm_verdict c) \<noteq> None)"

definition reducer_inv :: "validator \<Rightarrow> reducer \<Rightarrow> bool" where
  "reducer_inv vd rd \<longleftrightarrow>
     list_all (\<lambda>entry. stored_ok vd (snd entry)) (rd_results rd) \<and> wf_dict (rd_results rd)
     \<and> list_all (\<lambda>entry. length (snd entry) \<le> 3) (rd_candidates rd) \<and> wf_dict (rd_candidates rd)"

lemma list_all_dict_set:
  "list_all (\<lambda>e. P (snd e)) d \<Longrightarrow> P v \<Longrightarrow> list_all (\<lambda>e. P (snd e)) (dict_set k v d)"
  by (induction d) auto

lemma insert_result_inv:
  "reducer_inv vd rd \<Longrightarrow> stored_ok vd r \<Longrightarrow> reducer_inv vd (snd (insert_result key r rd))"
  by (simp add: insert_result_def reducer_inv_def list_all_dict_set)

lemma candidate_bucket:
  "list_all (\<lambda>e. length (snd e) \<le> n) d \<Longrightarrow> length (dict_get_or [] k d) \<le> n"
  by (induction d) (auto simp: dict_get_or_def)

lemma serve_inv:
  assumes "reducer_inv vd rd"
  shows "reducer_inv vd (serve vd call rd)"
proof (cases call)
  case (Add_short key doc)
  then show ?thesis
    using assms insert_result_inv [of vd rd "Short_doc doc"] accepted_iff [of vd None "JObj doc"]
    by (auto simp: serve_def add_short_result_def)
next
  case (Add_completion key verdict valid)
  then show ?thesis
    using assms insert_result_inv [of vd rd "Completion _"]
    by (auto simp: serve_def add_completion_def)
next
  case (Add_candidate packet_id c)
  then show ?thesis
    using assms by (auto simp: serve_def add_candidate_def reducer_inv_def Let_def intro!: list_all_dict_set)
qed

lemma serve_all_inv: "reducer_inv vd (serve_all vd calls)"
proof -
  have "reducer_inv vd rd \<Longrightarrow> reducer_inv vd (fold (serve vd) calls rd)" for rd
    by (induction calls arbitrary: rd) (simp_all add: serve_inv)
  then show ?thesis by (simp add: serve_all_def empty_reducer_def reducer_inv_def)
qed

section \<open>A pass is a pass of everything\<close>

text \<open>
  A stored result that counts as passed: a valid completion with verdict pass, or a short
  result that asks for no decision and says pass, or says nothing and is completed.
\<close>

fun passes :: "reduced \<Rightarrow> bool" where
  "passes (Completion c) = (cm_valid c \<and> cm_verdict c = ''pass'')"
| "passes (Short_doc doc) =
     (\<not> truthy (jget doc ''needs_decision'')
      \<and> (if dict_has ''verdict'' doc then jget doc ''verdict'' = JStr ''pass''
         else jget doc ''status'' = JStr ''completed''))"

lemma explicit_verdict_contract:
  assumes "short_result_contract vd None doc"
  shows "explicit_verdict doc = (case jget doc ''verdict'' of JStr v \<Rightarrow> Some v | _ \<Rightarrow> None)"
    and "dict_has ''verdict'' doc \<longleftrightarrow> (\<exists>v. jget doc ''verdict'' = JStr v)"
proof -
  have legal: "jget doc ''verdict'' \<in> JStr ` set VERDICT_ORDER" if "dict_has ''verdict'' doc"
    using assms that unfolding short_result_contract_def by (simp add: L2_VERDICTS_def VERDICT_ORDER_def)
  have absent: "jget doc ''verdict'' = JNull" if "\<not> dict_has ''verdict'' doc"
    using that by (simp add: dict_has_def jget_def dict_get_or_def)
  show "explicit_verdict doc = (case jget doc ''verdict'' of JStr v \<Rightarrow> Some v | _ \<Rightarrow> None)"
    using legal absent rank_of_known
    by (cases "dict_has ''verdict'' doc") (fastforce simp: explicit_verdict_def)+
  show "dict_has ''verdict'' doc \<longleftrightarrow> (\<exists>v. jget doc ''verdict'' = JStr v)"
    using legal absent by force
qed

lemma doc_verdicts_known:
  "list_all (\<lambda>v. rank_of v \<noteq> None) (doc_verdicts doc)"
proof -
  have "rank_of v \<noteq> None" if "explicit_verdict doc = Some v" for v
    using that by (auto simp: explicit_verdict_def split: json.splits if_splits)
  then show ?thesis by (auto simp: doc_verdicts_def Let_def split: option.split)
qed

lemma doc_status:
  "short_result_contract vd None doc \<Longrightarrow> jget doc ''status'' \<in> JStr ` set STATUS_ENUM"
  unfolding short_result_contract_def by blast

lemma record_passes:
  assumes "stored_ok vd (snd entry)"
  shows "record_verdicts entry \<noteq> [] \<and> (list_all (\<lambda>v. v = ''pass'') (record_verdicts entry)
      \<and> record_inconsistencies entry = [] \<longleftrightarrow> passes (snd entry))
    \<and> list_all (\<lambda>v. rank_of v \<noteq> None) (record_verdicts entry)"
proof (cases "snd entry")
  case (Completion c)
  then show ?thesis using assms by (auto simp: record_verdicts_def record_inconsistencies_def)
next
  case (Short_doc doc)
  then have contract: "short_result_contract vd None doc" using assms by simp
  note ev = explicit_verdict_contract [OF contract]
  have no_issue: "doc_inconsistencies k doc = []" if "explicit_verdict doc = Some ''pass'' \<or> explicit_verdict doc = None" for k
    using that by (auto simp: doc_inconsistencies_def)
  have none: "doc_verdicts doc \<noteq> []"
    "explicit_verdict doc = None \<Longrightarrow> list_all (\<lambda>v. v = ''pass'') (doc_verdicts doc)
       \<longleftrightarrow> jget doc ''status'' = JStr ''completed'' \<and> \<not> truthy (jget doc ''needs_decision'')"
    using doc_status [OF contract]
    by (auto simp: doc_verdicts_def STATUS_ENUM_def Let_def split: option.split)
  have some: "explicit_verdict doc = Some v \<Longrightarrow> list_all (\<lambda>v. v = ''pass'') (doc_verdicts doc)
       \<longleftrightarrow> v = ''pass'' \<and> \<not> truthy (jget doc ''needs_decision'')" for v
    by (simp add: doc_verdicts_def)
  show ?thesis
  proof (cases "explicit_verdict doc")
    case None
    then have "\<not> dict_has ''verdict'' doc" using ev by (auto split: json.splits)
    then show ?thesis
      using Short_doc None none no_issue doc_verdicts_known
      by (auto simp: record_verdicts_def record_inconsistencies_def)
  next
    case (Some v)
    then have "dict_has ''verdict'' doc" "jget doc ''verdict'' = JStr v" using ev by (auto split: json.splits)
    then show ?thesis
      using Short_doc Some some [OF Some] none(1) no_issue doc_verdicts_known
      by (auto simp: record_verdicts_def record_inconsistencies_def)
  qed
qed

lemma records_pass_all:
  "list_all (\<lambda>entry. stored_ok vd (snd entry)) records \<Longrightarrow>
     (list_all (\<lambda>v. v = ''pass'') (concat (map record_verdicts records))
        \<and> concat (map record_inconsistencies records) = []
      \<longleftrightarrow> list_all (\<lambda>entry. passes (snd entry)) records)
     \<and> list_all (\<lambda>v. rank_of v \<noteq> None) (concat (map record_verdicts records))
     \<and> (concat (map record_verdicts records) = [] \<longleftrightarrow> records = [])"
proof (induction records)
  case (Cons entry records)
  then show ?case using record_passes [of vd entry] by auto
qed simp

lemmas records_pass =
  records_pass_all [THEN conjunct1] records_pass_all [THEN conjunct2, THEN conjunct1]
  records_pass_all [THEN conjunct2, THEN conjunct2]

lemma strictest_known:
  "list_all (\<lambda>v. rank_of v \<noteq> None) vs \<Longrightarrow> rank_of (strictest vs) \<noteq> None"
proof -
  have "list_all (\<lambda>v. rank_of v \<noteq> None) vs \<Longrightarrow> rank_of w \<noteq> None \<Longrightarrow> rank_of (fold strict_step vs w) \<noteq> None" for w
  proof (induction vs arbitrary: w)
    case (Cons v vs)
    then show ?case using strict_step_rank [of w v] by simp
  qed simp
  then show "list_all (\<lambda>v. rank_of v \<noteq> None) vs \<Longrightarrow> rank_of (strictest vs) \<noteq> None"
    by (simp add: strictest_def)
qed

text \<open>The consolidated verdict is a pass exactly when at least one result was collected
  and every collected result passed: completions valid with verdict pass, short results asking
  for no decision whose verdict is pass, or which carry none and are completed. An empty
  collection, one invalid completion or one stricter result never passes, whatever order and
  however often the results came in.\<close>

theorem consolidated_pass_is_unanimous:
  "cn_verdict (consolidate (serve_all vd calls)) = ''pass'' \<longleftrightarrow>
     rd_results (serve_all vd calls) \<noteq> []
     \<and> list_all (\<lambda>entry. passes (snd entry)) (rd_results (serve_all vd calls))"
proof -
  let ?records = "rd_results (serve_all vd calls)"
  have ok: "list_all (\<lambda>entry. stored_ok vd (snd entry)) ?records"
    using serve_all_inv [of vd calls] by (simp add: reducer_inv_def)
  note facts = records_pass [OF ok]
  show ?thesis
  proof (cases "?records = []")
    case True
    then show ?thesis by (simp add: consolidate_def Let_def)
  next
    case False
    then have ne: "concat (map record_verdicts ?records) \<noteq> []" using facts(3) by blast
    show ?thesis
      using False ne facts(1) strictest_pass [OF facts(2)]
      unfolding consolidate_def Let_def by (simp only: consolidated.simps if_False simp_thms) auto
  qed
qed

text \<open>
  A verdict in a short result outweighs its status: a failed result that says pass passes.
\<close>

lemma failed_result_can_pass:
  "passes (Short_doc [(''status'', JStr ''failed''), (''verdict'', JStr ''pass''), (''needs_decision'', JNull)])"
  by (simp add: jget_def dict_get_or_def dict_has_def)

section \<open>One ranking\<close>

lemma ranking_le_total: "ranking_le a b \<or> ranking_le b a"
  by (auto simp: ranking_le_def Let_def)

lemma ranking_le_trans: "ranking_le a b \<Longrightarrow> ranking_le b c \<Longrightarrow> ranking_le a c"
  by (auto simp: ranking_le_def Let_def split: if_splits)

lemma ranking_le_key: "ranking_le a b \<Longrightarrow> key_le (rank_key a) (rank_key b)"
  by (auto simp: ranking_le_def key_le_def rank_key_def RANK_def rank_of_def VERDICT_ORDER_is_ORDER Let_def
      split: option.splits)

lemma rank_candidates_hd:
  assumes "dict_get_or [] packet_id (rd_candidates rd) = cands" "cands \<noteq> []"
  shows "hd (rank_candidates packet_id rd) \<in> rank_candidate ` set cands"
    and "\<forall>c \<in> set cands. key_le (rank_key (hd (rank_candidates packet_id rd))) (rank_key (rank_candidate c))"
proof -
  let ?ranked = "rank_candidates packet_id rd"
  have members: "set ?ranked = rank_candidate ` set cands"
    using assms(1) by (simp add: rank_candidates_def fold_insert_by_set rank_one_agrees)
  then have "?ranked \<noteq> []" using assms(2) by auto
  then show "hd ?ranked \<in> rank_candidate ` set cands" using members hd_in_set by blast
  have "map rank_one cands \<noteq> []" using assms(2) by simp
  from fold_insert_by_hd [of ranking_le, OF ranking_le_total ranking_le_trans this]
  show "\<forall>c \<in> set cands. key_le (rank_key (hd ?ranked)) (rank_key (rank_candidate c))"
    using assms(1) ranking_le_key by (auto simp: rank_candidates_def rank_one_agrees)
qed

lemma key_le_antisym: "key_le a b \<Longrightarrow> key_le b a \<Longrightarrow> a = b"
  by (auto simp: key_le_def prod_eq_iff)

lemma aggregate_best:
  assumes "ag_best (aggregate_verdicts cands) = Some b"
  shows "b \<in> rank_candidate ` set cands" "\<forall>c \<in> set cands. key_le (rank_key b) (rank_key (rank_candidate c))"
proof -
  let ?ordered = "sort_ranked (map rank_candidate cands)"
  have hd: "?ordered \<noteq> []" "b = hd ?ordered"
    using assms by (auto simp: aggregate_verdicts_def Let_def split: if_splits list.splits)
  have "hd ?ordered \<in> set ?ordered" using hd(1) by (rule hd_in_set)
  then show "b \<in> rank_candidate ` set cands" using hd(2) by simp
  show "\<forall>c \<in> set cands. key_le (rank_key b) (rank_key (rank_candidate c))"
    using sort_ranked_head [of "map rank_candidate cands"] hd(2) by simp
qed

text \<open>The reducer and the aggregation gate never disagree about candidates: for a packet
  with registered candidates the reducer's winner and the gate's best candidate over the same
  list carry the same verdict and the same mean score.\<close>

theorem reducer_ranks_like_the_gate:
  assumes "dict_get_or [] packet_id (rd_candidates rd) = cands" and "cands \<noteq> []"
  shows "\<exists>b. ag_best (aggregate_verdicts cands) = Some b
    \<and> RANK (rk_verdict (hd (rank_candidates packet_id rd))) = RANK (rk_verdict b)
    \<and> rk_mean (hd (rank_candidates packet_id rd)) = rk_mean b"
proof -
  have "set (sort_ranked (map rank_candidate cands)) \<noteq> {}" using assms(2) by simp
  then obtain b rest where ordered: "sort_ranked (map rank_candidate cands) = b # rest"
    by (cases "sort_ranked (map rank_candidate cands)") auto
  have b: "ag_best (aggregate_verdicts cands) = Some b"
    using assms(2) by (simp add: aggregate_verdicts_def Let_def ordered)
  have "rank_key (hd (rank_candidates packet_id rd)) = rank_key b"
  proof (rule key_le_antisym)
    show "key_le (rank_key (hd (rank_candidates packet_id rd))) (rank_key b)"
      using rank_candidates_hd(2) [OF assms] aggregate_best(1) [OF b] by auto
    show "key_le (rank_key b) (rank_key (hd (rank_candidates packet_id rd)))"
      using rank_candidates_hd(1) [OF assms] aggregate_best(2) [OF b] by auto
  qed
  then show ?thesis using b by (simp add: rank_key_def)
qed

definition example_candidates :: "candidate list" where
  "example_candidates =
     [\<lparr>c_id = ''a'', c_diff_path = None, c_verdicts = [\<lparr>v_verdict = ''redo'', v_score = 9 / 10\<rparr>]\<rparr>,
      \<lparr>c_id = ''b'', c_diff_path = None, c_verdicts = [\<lparr>v_verdict = ''pass'', v_score = 1 / 2\<rparr>]\<rparr>]"

definition example_reducer :: reducer where
  "example_reducer = empty_reducer\<lparr>rd_candidates := [(''P1'', example_candidates)]\<rparr>"

theorem reducer_ranks_like_the_gate_witness:
  "\<exists>b. ag_best (aggregate_verdicts example_candidates) = Some b
     \<and> RANK (rk_verdict (hd (rank_candidates ''P1'' example_reducer))) = RANK (rk_verdict b)"
proof -
  have one: "dict_get_or [] ''P1'' (rd_candidates example_reducer) = example_candidates"
    by (simp add: example_reducer_def dict_get_or_def)
  have two: "example_candidates \<noteq> []" by (simp add: example_candidates_def)
  from reducer_ranks_like_the_gate [OF one two] show ?thesis by blast
qed

section \<open>The bounded packet\<close>

text \<open>
  The artifact lists the truncation loop goes through: all paths, the first few with the
  sentinel counting the rest, or none.
\<close>

definition shortened :: "string list \<Rightarrow> artifact list \<Rightarrow> bool" where
  "shortened paths arts \<longleftrightarrow>
     arts = [] \<or> arts = map Path_entry paths
     \<or> (\<exists>m < length paths. arts = map Path_entry (take m paths) @ [More (length paths - m)])"

lemma cut_artifacts_eq:
  "k = length arts - max 1 (length arts div 4) \<Longrightarrow> k \<noteq> 0 \<Longrightarrow> cut_artifacts n arts
     = (if arts = [] then [] else (take k arts)[k - 1 := More (n - k + 1)])"
  by (cases arts) (auto simp: cut_artifacts_def Let_def simp del: take_Suc_Cons)

lemma cut_shortened:
  assumes "shortened paths arts" and "arts \<noteq> []"
  shows "shortened paths (cut_artifacts (length paths) arts)"
proof -
  define k where "k = length arts - max 1 (length arts div 4)"
  have k: "k < length arts" using assms(2) by (cases arts) (auto simp: k_def)
  have kept: "\<exists>n. k = Suc n \<and> cut_artifacts (length paths) arts
      = map Path_entry (take n paths) @ [More (length paths - n)] \<and> n < length paths" if "k \<noteq> 0"
  proof -
    obtain n where n: "k = Suc n" using \<open>k \<noteq> 0\<close> by (cases k) auto
    have len: "length arts \<le> length paths" using assms(1) by (auto simp: shortened_def)
    have "take n arts = map Path_entry (take n paths)"
      using assms(1) n k by (auto simp: shortened_def take_map min_def)
    then have "(take k arts)[n := More (length paths - n)] = map Path_entry (take n paths) @ [More (length paths - n)]"
      using n k len by (simp add: take_Suc_conv_app_nth list_update_append min_absorb2)
    moreover have "length paths - k + 1 = length paths - n" using n k len by simp
    moreover have "n < length paths" using n k len by simp
    ultimately show ?thesis
      using cut_artifacts_eq [OF k_def that, of "length paths"] assms(2) n by simp
  qed
  show ?thesis
  proof (cases "k = 0")
    case True
    then have "cut_artifacts (length paths) arts = []" by (simp add: cut_artifacts_def k_def)
    then show ?thesis by (simp add: shortened_def)
  next
    case False
    then show ?thesis using kept by (auto simp: shortened_def)
  qed
qed

lemma fit_packet_result:
  assumes "shortened paths arts" and "prefix fids all_fids"
  shows "\<exists>fids' arts'. fit_packet max_tokens (length paths) build fids arts = build fids' arts'
    \<and> prefix fids' all_fids \<and> shortened paths arts'
    \<and> (ad_tokens (build fids' arts') \<le> max_tokens \<or> fids' = [] \<and> arts' = [])
    \<and> (arts' \<noteq> [] \<longrightarrow> fids' = fids) \<and> (arts = [] \<longrightarrow> arts' = [])"
  using assms
proof (induction max_tokens "length paths" build fids arts rule: fit_packet.induct)
  case (1 max_tokens build fids arts)
  consider (stop) "ad_tokens (build fids arts) \<le> max_tokens \<or> (fids = [] \<and> arts = [])"
    | (cut) "\<not> (ad_tokens (build fids arts) \<le> max_tokens \<or> (fids = [] \<and> arts = []))" "arts \<noteq> []"
    | (drop) "\<not> (ad_tokens (build fids arts) \<le> max_tokens \<or> (fids = [] \<and> arts = []))" "arts = []"
    by blast
  then show ?case
  proof cases
    case stop
    then have "fit_packet max_tokens (length paths) build fids arts = build fids arts"
      by (simp add: fit_packet.simps)
    then show ?thesis using stop 1(3,4) by blast
  next
    case cut
    then have "fit_packet max_tokens (length paths) build fids arts
        = fit_packet max_tokens (length paths) build fids (cut_artifacts (length paths) arts)"
      by (simp add: fit_packet.simps [of _ _ _ _ arts])
    then show ?thesis using 1(1) [OF cut cut_shortened [OF 1(3) cut(2)] 1(4)] cut(2) by auto
  next
    case drop
    have "prefix (take (length fids - 1) fids) all_fids"
      using 1(4) by (meson prefix_order.trans take_is_prefix)
    moreover have "fit_packet max_tokens (length paths) build fids arts
        = fit_packet max_tokens (length paths) build (take (length fids - 1) fids) arts"
      using drop by (simp add: fit_packet.simps [of _ _ _ fids])
    ultimately show ?thesis using 1(2) [OF drop(1) _ 1(3)] drop(2) by auto
  qed
qed


definition crowded_reducer :: reducer where
  "crowded_reducer = empty_reducer\<lparr>rd_results :=
     [(''k'', Short_doc [(''packet_id'', JStr ''P1''), (''status'', JStr ''completed''),
        (''finding_ids'', JList [JStr ''F1'']), (''needs_decision'', JNull),
        (''artifact_paths'', JList (map JStr [''a/1.txt'', ''a/2.txt'', ''a/3.txt'', ''a/4.txt'', ''a/5.txt'']))])]\<rparr>"

lemma crowded_packet:
  "ad_artifacts (render_adjudication_packet 68 ''merge?'' crowded_reducer)
     = map Path_entry [''a/1.txt'', ''a/2.txt'', ''a/3.txt'', ''a/4.txt'', ''a/5.txt'']"
  "ad_artifacts (render_adjudication_packet 67 ''merge?'' crowded_reducer) = [Path_entry ''a/1.txt'', More 4]"
  by code_simp+


end
