(* ===== verification/Diff_Gate.thy ===== *)
theory Diff_Gate
  imports Py_Json "HOL-Library.Char_ord" "HOL-Library.List_Lexorder"
begin

text \<open>
  The mechanical diff gate, \<open>src/harness/diffvalidator.py\<close>: the unified-diff scanner, path
  normalisation as \<open>posixpath.normpath\<close> does it, authorization of the touched paths, the
  two limits a packet states in prose, and the five checks. Texts are ASCII, so the diff
  budget is recognised with the two-character comparison only. The matches of the regular
  expressions are written out; packet fields are typed.
\<close>

section \<open>Lines and tokens\<close>

text \<open>\<open>str.splitlines\<close>: no line after a final line break; CR LF is one break.\<close>

definition line_break :: "char \<Rightarrow> bool" where
  "line_break c = (let n = of_char c :: nat in n \<in> {10, 11, 12, 13, 28, 29, 30})"

fun split_from :: "string \<Rightarrow> string \<Rightarrow> string list" where
  "split_from acc [] = (if acc = [] then [] else [rev acc])"
| "split_from acc (c # cs) =
     (if of_char c = (13 :: nat) \<and> cs \<noteq> [] \<and> of_char (hd cs) = (10 :: nat)
      then rev acc # split_from [] (tl cs)
      else if line_break c then rev acc # split_from [] cs
      else split_from (c # acc) cs)"

definition py_splitlines :: "string \<Rightarrow> string list" where
  "py_splitlines text = split_from [] text"

text \<open>The longest run without white space.\<close>

definition word_of :: "string \<Rightarrow> string" where
  "word_of s = takeWhile (\<lambda>c. \<not> is_space c) s"

definition after_prefix :: "string \<Rightarrow> string \<Rightarrow> string option" where
  "after_prefix p s = (if prefix p s then Some (drop (length p) s) else None)"

text \<open>\<open>^diff --git a/(\S+) b/(\S+)$\<close>\<close>

definition diff_header :: "string \<Rightarrow> (string \<times> string) option" where
  "diff_header line =
     (case after_prefix ''diff --git a/'' line of
        None \<Rightarrow> None
      | Some rest \<Rightarrow>
          (let a = word_of rest in
           case after_prefix '' b/'' (drop (length a) rest) of
             None \<Rightarrow> None
           | Some b \<Rightarrow> if a \<noteq> [] \<and> b \<noteq> [] \<and> word_of b = b then Some (a, b) else None))"

text \<open>\<open>^rename from (.+)$\<close> or \<open>^rename to (.+)$\<close>\<close>

definition rename_path :: "string \<Rightarrow> string option" where
  "rename_path line =
     (case after_prefix ''rename from '' line of
        Some p \<Rightarrow> if p \<noteq> [] then Some p else None
      | None \<Rightarrow> (case after_prefix ''rename to '' line of
                   Some p \<Rightarrow> if p \<noteq> [] then Some p else None
                 | None \<Rightarrow> None))"

text \<open>
  The file named after \<open>---\<close> or \<open>+++\<close>: an optional side prefix, then a word; the prefix is
  given back when no word follows it.
\<close>

definition side_path :: "string \<Rightarrow> string \<Rightarrow> string option" where
  "side_path side rest =
     (case after_prefix side rest of
        Some p \<Rightarrow> if word_of p \<noteq> [] then Some (word_of p) else Some (word_of rest)
      | None \<Rightarrow> if word_of rest \<noteq> [] then Some (word_of rest) else None)"

section \<open>The scanner\<close>

record diff_stats =
  df_touched :: "string list"
  df_added :: nat
  df_removed :: nat
  df_hunks :: nat

definition touch :: "string list \<Rightarrow> diff_stats \<Rightarrow> diff_stats" where
  "touch ps st = st\<lparr>df_touched := fold (\<lambda>p acc. if p \<in> set acc then acc else acc @ [p]) ps (df_touched st)\<rparr>"

definition named_file :: "string \<Rightarrow> string \<Rightarrow> diff_stats \<Rightarrow> diff_stats" where
  "named_file side rest st =
     (case side_path side rest of
        Some p \<Rightarrow> if p \<noteq> ''/dev/null'' then touch [p] st else st
      | None \<Rightarrow> st)"

definition scan_line :: "string \<Rightarrow> diff_stats \<Rightarrow> diff_stats" where
  "scan_line line st =
     (case diff_header line of
        Some (a, b) \<Rightarrow> touch [a, b] st
      | None \<Rightarrow>
          (case rename_path line of
             Some p \<Rightarrow> touch [p] st
           | None \<Rightarrow>
               if prefix ''--- '' line then named_file ''a/'' (drop 4 line) st
               else if prefix ''+++ '' line then named_file ''b/'' (drop 4 line) st
               else if prefix ''@@'' line then st\<lparr>df_hunks := df_hunks st + 1\<rparr>
               else if prefix ''+'' line \<and> \<not> prefix ''+++'' line then st\<lparr>df_added := df_added st + 1\<rparr>
               else if prefix ''-'' line \<and> \<not> prefix ''---'' line then st\<lparr>df_removed := df_removed st + 1\<rparr>
               else st))"

definition parse_diff :: "string \<Rightarrow> diff_stats" where
  "parse_diff text = fold scan_line (py_splitlines text)
     \<lparr>df_touched = [], df_added = 0, df_removed = 0, df_hunks = 0\<rparr>"

section \<open>Paths\<close>

fun split_on :: "char \<Rightarrow> string \<Rightarrow> string list" where
  "split_on sep [] = [[]]"
| "split_on sep (c # cs) =
     (if c = sep then [] # split_on sep cs
      else (case split_on sep cs of [] \<Rightarrow> [[c]] | w # ws \<Rightarrow> (c # w) # ws))"

fun join_path :: "string list \<Rightarrow> string" where
  "join_path [] = []"
| "join_path [c] = c"
| "join_path (c # cs) = c @ ''/'' @ join_path cs"

text \<open>The leading slashes kept: two stay two, more than two become one.\<close>

definition root_slashes :: "string \<Rightarrow> nat" where
  "root_slashes p = (if prefix ''//'' p \<and> \<not> prefix ''///'' p then 2 else if prefix ''/'' p then 1 else 0)"

text \<open>One component, on the stack of those kept (the last one first).\<close>

definition norm_step :: "bool \<Rightarrow> string \<Rightarrow> string list \<Rightarrow> string list" where
  "norm_step rooted c stack =
     (if c = [] \<or> c = ''.'' then stack
      else if c \<noteq> ''..'' \<or> (\<not> rooted \<and> stack = []) \<or> (stack \<noteq> [] \<and> hd stack = ''..'') then c # stack
      else tl stack)"

definition norm_components :: "bool \<Rightarrow> string list \<Rightarrow> string list" where
  "norm_components rooted cs = rev (fold (norm_step rooted) cs [])"

definition normpath :: "string \<Rightarrow> string" where
  "normpath p =
     (if p = [] then ''.''
      else let k = root_slashes p;
               out = replicate k (CHR ''/'') @ join_path (norm_components (0 < k) (split_on (CHR ''/'') p)) in
           if out = [] then ''.'' else out)"

definition isabs :: "string \<Rightarrow> bool" where
  "isabs p = prefix ''/'' p"

definition entry_covers :: "string \<Rightarrow> string \<Rightarrow> bool" where
  "entry_covers resolved auth =
     (let a = normpath auth in
      if auth \<noteq> [] \<and> last auth = CHR ''/'' then resolved = a \<or> prefix (a @ ''/'') resolved
      else resolved = a)"

definition path_authorized :: "string \<Rightarrow> string list \<Rightarrow> bool" where
  "path_authorized path authorized =
     (let resolved = normpath path in
      if prefix ''..'' resolved \<or> isabs resolved then False
      else list_ex (entry_covers resolved) authorized)"

section \<open>The limits of the packet\<close>

definition skip_spaces :: "string \<Rightarrow> string" where
  "skip_spaces s = dropWhile is_space s"

definition digits_of :: "string \<Rightarrow> string" where
  "digits_of s = takeWhile is_digit s"

fun number :: "nat \<Rightarrow> string \<Rightarrow> nat" where
  "number acc [] = acc"
| "number acc (c # cs) = number (10 * acc + digit_val c) cs"

text \<open>\<open>^min_test_count\s*>=\s*(\d+)$\<close> on the stripped item\<close>

definition min_test_item :: "string \<Rightarrow> nat option" where
  "min_test_item item =
     (case after_prefix ''min_test_count'' (py_strip item) of
        None \<Rightarrow> None
      | Some rest \<Rightarrow>
          (case after_prefix ''>='' (skip_spaces rest) of
             None \<Rightarrow> None
           | Some tail \<Rightarrow>
               (let d = skip_spaces tail in
                if d \<noteq> [] \<and> digits_of d = d then Some (number 0 d) else None)))"

text \<open>\<open>diff\s*<=\s*(\d+)\s*lines\<close>, anywhere in the item, letter case ignored\<close>

definition budget_at :: "string \<Rightarrow> nat option" where
  "budget_at s =
     (case after_prefix ''diff'' s of
        None \<Rightarrow> None
      | Some rest \<Rightarrow>
          (case after_prefix ''<='' (skip_spaces rest) of
             None \<Rightarrow> None
           | Some tail \<Rightarrow>
               (let d = skip_spaces tail; ds = digits_of d in
                if ds \<noteq> [] \<and> prefix ''lines'' (skip_spaces (drop (length ds) d)) then Some (number 0 ds) else None)))"

fun budget_search :: "string \<Rightarrow> nat option" where
  "budget_search [] = None"
| "budget_search (c # cs) = (case budget_at (c # cs) of Some n \<Rightarrow> Some n | None \<Rightarrow> budget_search cs)"

fun first_some :: "('a \<Rightarrow> 'b option) \<Rightarrow> 'a list \<Rightarrow> 'b option" where
  "first_some f [] = None"
| "first_some f (x # xs) = (case f x of Some y \<Rightarrow> Some y | None \<Rightarrow> first_some f xs)"

definition packet_min_test_count :: "string list \<Rightarrow> nat option" where
  "packet_min_test_count acceptance = first_some min_test_item acceptance"

definition packet_diff_budget :: "string list \<Rightarrow> nat option" where
  "packet_diff_budget constraints = first_some (\<lambda>item. budget_search (py_lower item)) constraints"

section \<open>The gate\<close>

record diff_packet =
  dp_authorized :: "string list"
  dp_acceptance :: "string list"
  dp_constraints :: "string list"

datatype violation =
    Empty_diff
  | Path_boundary "string list"
  | Test_count_decrease int int
  | Min_test_count nat int
  | Diff_budget nat nat

definition out_of_bounds :: "string list \<Rightarrow> string list \<Rightarrow> string list" where
  "out_of_bounds touched authorized = sort (filter (\<lambda>p. \<not> path_authorized p authorized) touched)"

definition validate_diff :: "diff_packet \<Rightarrow> string \<Rightarrow> int option \<Rightarrow> int option \<Rightarrow> violation list" where
  "validate_diff packet diff_text oracle_tests candidate_tests =
     (let st = parse_diff diff_text;
          out = out_of_bounds (df_touched st) (dp_authorized packet) in
      (if py_strip diff_text = [] \<or> (df_touched st = [] \<and> df_hunks st = 0) then [Empty_diff] else [])
      @ (if out \<noteq> [] then [Path_boundary out] else [])
      @ (case (oracle_tests, candidate_tests) of
           (Some oracle, Some cand) \<Rightarrow> if cand < oracle then [Test_count_decrease oracle cand] else []
         | _ \<Rightarrow> [])
      @ (case (packet_min_test_count (dp_acceptance packet), candidate_tests) of
           (Some least, Some cand) \<Rightarrow> if cand < int least then [Min_test_count least cand] else []
         | _ \<Rightarrow> [])
      @ (case packet_diff_budget (dp_constraints packet) of
           Some budget \<Rightarrow>
             if budget < df_added st + df_removed st then [Diff_budget (df_added st + df_removed st) budget] else []
         | None \<Rightarrow> []))"

definition diff_exit :: "violation list \<Rightarrow> nat" where
  "diff_exit violations = (if violations = [] then 0 else 1)"

end
