(* ===== verification/Diff_Properties.thy ===== *)
theory Diff_Properties
  imports Diff_Gate
begin

text \<open>
  What the diff gate promises: a path it authorizes stays below an authorized directory or is
  an authorized file after normalisation, and a diff that passes touches such paths only.
\<close>

section \<open>Normalised components\<close>

lemma split_on_nonempty [simp]: "split_on sep s \<noteq> []"
  by (induction s) (auto split: list.split)

lemma split_on_no_sep: "c \<in> set (split_on sep s) \<Longrightarrow> sep \<notin> set c"
  by (induction s arbitrary: c) (auto split: list.splits if_splits)

text \<open>
  The stack of kept components: no empty one, no dot, and the double dots all at its bottom,
  none of them under a root.
\<close>

definition stack_ok :: "bool \<Rightarrow> string list \<Rightarrow> bool" where
  "stack_ok rooted stack \<longleftrightarrow>
     list_all (\<lambda>c. c \<noteq> [] \<and> c \<noteq> ''.'' \<and> CHR ''/'' \<notin> set c) stack
     \<and> (\<exists>names ups. stack = names @ ups \<and> ''..'' \<notin> set names \<and> set ups \<subseteq> {''..''} \<and> (rooted \<longrightarrow> ups = []))"

lemma norm_step_ok:
  assumes "stack_ok rooted stack" and "CHR ''/'' \<notin> set c"
  shows "stack_ok rooted (norm_step rooted c stack)"
proof -
  obtain names ups where st: "stack = names @ ups" "''..'' \<notin> set names" "set ups \<subseteq> {''..''}" "rooted \<longrightarrow> ups = []"
    using assms(1) by (auto simp: stack_ok_def)
  have all: "list_all (\<lambda>c. c \<noteq> [] \<and> c \<noteq> ''.'' \<and> CHR ''/'' \<notin> set c) stack"
    using assms(1) by (simp add: stack_ok_def)
  consider (skip) "c = [] \<or> c = ''.''" | (name) "c \<noteq> []" "c \<noteq> ''.''" "c \<noteq> ''..''"
    | (up) "c = ''..''" "stack = [] \<and> \<not> rooted \<or> stack \<noteq> [] \<and> hd stack = ''..''"
    | (pop) "c = ''..''" "\<not> (stack = [] \<and> \<not> rooted \<or> stack \<noteq> [] \<and> hd stack = ''..'')"
    by blast
  then show ?thesis
  proof cases
    case skip
    then show ?thesis using assms(1) by (auto simp: norm_step_def)
  next
    case name
    then have "c # stack = (c # names) @ ups" "''..'' \<notin> set (c # names)" using st by auto
    then have "\<exists>names ups. c # stack = names @ ups \<and> ''..'' \<notin> set names \<and> set ups \<subseteq> {''..''} \<and> (rooted \<longrightarrow> ups = [])"
      using st(3,4) by blast
    then show ?thesis
      using name all assms(2) by (simp add: norm_step_def stack_ok_def)
  next
    case up
    then have "names = []" using st(1,2) by (cases names) auto
    then have "c # stack = [] @ (''..'' # ups)" "set (''..'' # ups) \<subseteq> {''..''}" using up(1) st(1,3) by auto
    moreover have "\<not> rooted" using up st by (auto simp: \<open>names = []\<close>)
    ultimately have "\<exists>names ups. c # stack = names @ ups \<and> ''..'' \<notin> set names \<and> set ups \<subseteq> {''..''} \<and> (rooted \<longrightarrow> ups = [])"
      by (metis empty_iff list.set(1))
    then show ?thesis
      using up all assms(2) by (auto simp: norm_step_def stack_ok_def)
  next
    case pop
    have "\<exists>names' ups'. tl stack = names' @ ups' \<and> ''..'' \<notin> set names' \<and> set ups' \<subseteq> {''..''} \<and> (rooted \<longrightarrow> ups' = [])"
    proof (cases names)
      case Nil
      then have "stack = []" using pop(2) st by (cases ups) auto
      then show ?thesis by (auto intro: exI [of _ "[]"])
    next
      case (Cons x xs)
      then have "tl stack = xs @ ups" "''..'' \<notin> set xs" using st by auto
      then show ?thesis using st(3,4) by blast
    qed
    then show ?thesis
      using pop all by (cases stack) (auto simp: norm_step_def stack_ok_def)
  qed
qed

lemma norm_fold_ok:
  "stack_ok rooted stack \<Longrightarrow> list_all (\<lambda>c. CHR ''/'' \<notin> set c) cs \<Longrightarrow> stack_ok rooted (fold (norm_step rooted) cs stack)"
  by (induction cs arbitrary: stack) (simp_all add: norm_step_ok)

lemma norm_components_ok:
  assumes "list_all (\<lambda>c. CHR ''/'' \<notin> set c) cs"
  shows "\<exists>ups names. norm_components rooted cs = ups @ names \<and> set ups \<subseteq> {''..''} \<and> ''..'' \<notin> set names"
    and "list_all (\<lambda>c. c \<noteq> [] \<and> c \<noteq> ''.'' \<and> CHR ''/'' \<notin> set c) (norm_components rooted cs)"
proof -
  have ok: "stack_ok rooted (fold (norm_step rooted) cs [])"
    by (rule norm_fold_ok [OF _ assms]) (auto simp: stack_ok_def intro: exI [of _ "[]"])
  then obtain names ups where "fold (norm_step rooted) cs [] = names @ ups" "''..'' \<notin> set names" "set ups \<subseteq> {''..''}"
    by (auto simp: stack_ok_def)
  then show "\<exists>ups names. norm_components rooted cs = ups @ names \<and> set ups \<subseteq> {''..''} \<and> ''..'' \<notin> set names"
    by (intro exI [of _ "rev ups"] exI [of _ "rev names"]) (simp add: norm_components_def)
  show "list_all (\<lambda>c. c \<noteq> [] \<and> c \<noteq> ''.'' \<and> CHR ''/'' \<notin> set c) (norm_components rooted cs)"
    using ok by (simp add: norm_components_def stack_ok_def)
qed

lemma split_no_slash: "list_all (\<lambda>c. CHR ''/'' \<notin> set c) (split_on (CHR ''/'') p)"
  by (auto simp: list_all_iff dest: split_on_no_sep)

section \<open>Authorized paths\<close>

text \<open>The components of a path as the file system resolves them, for relative paths.\<close>

definition components :: "string \<Rightarrow> string list" where
  "components p = norm_components (0 < root_slashes p) (split_on (CHR ''/'') p)"

lemma join_path_append:
  "xs \<noteq> [] \<Longrightarrow> ys \<noteq> [] \<Longrightarrow> join_path (xs @ ys) = join_path xs @ ''/'' @ join_path ys"
  by (induction xs rule: join_path.induct) (auto simp: neq_Nil_conv)

lemma join_path_empty: "list_all (\<lambda>c. c \<noteq> []) cs \<Longrightarrow> join_path cs = [] \<longleftrightarrow> cs = []"
  by (cases cs rule: join_path.cases) auto

lemma split_join:
  "cs \<noteq> [] \<Longrightarrow> list_all (\<lambda>c. CHR ''/'' \<notin> set c) cs \<Longrightarrow> split_on (CHR ''/'') (join_path cs) = cs"
proof (induction cs rule: join_path.induct)
  case (2 c)
  then show ?case by (induction c) auto
next
  case (3 c d cs)
  have "split_on (CHR ''/'') (c @ CHR ''/'' # rest) = c # split_on (CHR ''/'') rest" for rest
    using 3(3) by (induction c) auto
  then show ?case using 3 by simp
qed simp

lemma join_path_inj:
  assumes "list_all (\<lambda>c. c \<noteq> [] \<and> CHR ''/'' \<notin> set c) xs" "list_all (\<lambda>c. c \<noteq> [] \<and> CHR ''/'' \<notin> set c) ys"
    and "join_path xs = join_path ys"
  shows "xs = ys"
proof (cases "xs = []")
  case True
  then have "join_path ys = []" using assms(3) by simp
  then show ?thesis using True assms(2) join_path_empty [of ys] by (simp add: list_all_iff)
next
  case False
  then have "join_path xs \<noteq> []" using assms(1) join_path_empty [of xs] by (simp add: list_all_iff)
  then have "ys \<noteq> []" using assms(3) by auto
  have "split_on (CHR ''/'') (join_path xs) = xs" "split_on (CHR ''/'') (join_path ys) = ys"
    using split_join [OF False] split_join [OF \<open>ys \<noteq> []\<close>] assms(1,2) by (simp_all add: list_all_iff)
  with assms(3) show ?thesis by metis
qed

lemma components_ok:
  "list_all (\<lambda>c. c \<noteq> [] \<and> c \<noteq> ''.'' \<and> CHR ''/'' \<notin> set c) (components p)"
  "\<exists>ups names. components p = ups @ names \<and> set ups \<subseteq> {''..''} \<and> ''..'' \<notin> set names"
  using norm_components_ok [OF split_no_slash] by (simp_all add: components_def)

lemma components_names:
  "list_all (\<lambda>c. c \<noteq> []) (components p)"
  "list_all (\<lambda>c. c \<noteq> [] \<and> CHR ''/'' \<notin> set c) (components p)"
  using components_ok(1) [of p] by (auto simp: list_all_iff)

lemma normpath_relative:
  assumes "root_slashes p = 0"
  shows "normpath p = (if components p = [] then ''.'' else join_path (components p))"
proof (cases "p = []")
  case True
  then show ?thesis by (simp add: normpath_def components_def norm_components_def root_slashes_def norm_step_def)
next
  case False
  then show ?thesis
    using assms join_path_empty [OF components_names(1) [of p]] by (simp add: normpath_def components_def Let_def)
qed

lemma normpath_absolute: "0 < root_slashes p \<Longrightarrow> isabs (normpath p)"
  by (cases "root_slashes p")
     (auto simp: normpath_def isabs_def Let_def root_slashes_def split: if_splits)

lemma root_slashes_isabs: "isabs (normpath p) \<longleftrightarrow> 0 < root_slashes p"
proof (cases "0 < root_slashes p")
  case False
  have "\<not> isabs (join_path (components p))"
    using components_names(2) [of p] by (cases "components p" rule: join_path.cases) (auto simp: isabs_def neq_Nil_conv)
  then show ?thesis using False by (simp add: normpath_relative isabs_def)
qed (simp add: normpath_absolute)

text \<open>An authorized entry in components, and whether it names a directory.\<close>

definition below :: "string list \<Rightarrow> string list \<Rightarrow> bool" where
  "below cs dir \<longleftrightarrow> (\<exists>rest. cs = dir @ rest)"

definition is_directory :: "string \<Rightarrow> bool" where
  "is_directory auth \<longleftrightarrow> auth \<noteq> [] \<and> last auth = CHR ''/''"

lemma no_dots_head:
  assumes "\<not> prefix ''..'' (join_path cs)" "list_all (\<lambda>c. c \<noteq> []) cs"
    and "cs = ups @ names" "set ups \<subseteq> {''..''}"
  shows "ups = []"
proof (cases ups)
  case (Cons u us)
  then have "u = ''..''" using assms(4) by auto
  then have "prefix ''..'' (join_path cs)" using Cons assms(3) by (cases "us @ names") auto
  then show ?thesis using assms(1) by blast
qed

lemma join_path_dot: "list_all (\<lambda>c. c \<noteq> [] \<and> CHR ''/'' \<notin> set c) cs \<Longrightarrow> join_path cs = ''.'' \<longleftrightarrow> cs = [''.'']"
  using join_path_inj [of cs "[''.'']"] by auto

lemma join_path_prefix:
  assumes xs: "list_all (\<lambda>c. c \<noteq> [] \<and> CHR ''/'' \<notin> set c) xs" and "xs \<noteq> []"
    and ys: "list_all (\<lambda>c. c \<noteq> [] \<and> CHR ''/'' \<notin> set c) ys" and "ys \<noteq> []"
    and "prefix (join_path xs @ ''/'') (join_path ys)"
  shows "\<exists>rest. ys = xs @ rest"
proof -
  obtain zs where zs: "join_path ys = join_path xs @ CHR ''/'' # zs"
    using assms(5) by (auto simp: prefix_def)
  have "split_on (CHR ''/'') (join_path xs @ CHR ''/'' # zs) = split_on (CHR ''/'') (join_path xs) @ split_on (CHR ''/'') zs"
  proof -
    have "split_on sep (a @ sep # zs) = split_on sep a @ split_on sep zs" for sep :: char and a
    proof (induction a)
      case (Cons c a)
      then show ?case by (auto split: list.split)
    qed simp
    then show ?thesis .
  qed
  moreover have "split_on (CHR ''/'') (join_path xs) = xs" "split_on (CHR ''/'') (join_path ys) = ys"
    using split_join [OF assms(2)] split_join [OF assms(4)] xs ys by (simp_all add: list_all_iff)
  ultimately show ?thesis using zs by metis
qed

lemma authorized_cases:
  assumes "path_authorized path authorized"
  shows "root_slashes path = 0" "components path \<noteq> [] \<Longrightarrow> ''..'' \<notin> set (components path)"
    and "\<exists>auth \<in> set authorized. entry_covers (normpath path) auth"
proof -
  have na: "\<not> isabs (normpath path)" and nd: "\<not> prefix ''..'' (normpath path)"
    using assms by (auto simp: path_authorized_def Let_def split: if_splits)
  show rel: "root_slashes path = 0" using na root_slashes_isabs by blast
  show "\<exists>auth \<in> set authorized. entry_covers (normpath path) auth"
    using assms by (auto simp: path_authorized_def Let_def list_ex_iff split: if_splits)
  assume ne: "components path \<noteq> []"
  obtain ups names where un: "components path = ups @ names" "set ups \<subseteq> {''..''}" "''..'' \<notin> set names"
    using components_ok(2) by blast
  have "\<not> prefix ''..'' (join_path (components path))" using nd ne by (simp add: normpath_relative [OF rel])
  from no_dots_head [OF this components_names(1) un(1,2)] un show "''..'' \<notin> set (components path)" by simp
qed

lemma normpath_same_components:
  assumes "root_slashes p = 0" "root_slashes q = 0" "normpath p = normpath q"
  shows "components p = components q"
proof -
  have dot: "join_path (components r) \<noteq> ''.''" for r
    using join_path_dot [OF components_names(2)] components_ok(1) [of r] by auto
  show ?thesis
    using assms dot join_path_inj [OF components_names(2) components_names(2)]
    by (auto simp: normpath_relative split: if_splits dest: sym)
qed

lemma covered_below:
  assumes "root_slashes p = 0" and "entry_covers (normpath p) auth"
  shows "root_slashes auth = 0 \<and> below (components p) (components auth)
    \<and> (\<not> is_directory auth \<longrightarrow> components p = components auth)"
proof -
  have na: "\<not> isabs (normpath p)" using assms(1) root_slashes_isabs by simp
  have split: "normpath p = normpath auth \<or> is_directory auth \<and> prefix (normpath auth @ ''/'') (normpath p)"
    using assms(2) by (auto simp: entry_covers_def is_directory_def Let_def split: if_splits)
  have rel: "root_slashes auth = 0"
    using split na root_slashes_isabs [of auth] by (auto simp: isabs_def prefix_def)
  show ?thesis
  proof (cases "normpath p = normpath auth")
    case True
    then show ?thesis using normpath_same_components [OF assms(1) rel] rel by (simp add: below_def)
  next
    case False
    then have pre: "is_directory auth" "prefix (normpath auth @ ''/'') (normpath p)" using split by auto
    have nep: "components p \<noteq> []"
    proof
      assume "components p = []"
      then have "prefix (normpath auth @ ''/'') ''.''" using pre(2) by (simp add: normpath_relative [OF assms(1)])
      then show False by (cases "normpath auth") (auto simp: prefix_def)
    qed
    show ?thesis
    proof (cases "components auth = []")
      case True
      then have "prefix ''./'' (join_path (components p))"
        using pre(2) nep by (simp add: normpath_relative [OF rel] normpath_relative [OF assms(1)])
      then obtain zs where zs: "join_path (components p) = CHR ''.'' # CHR ''/'' # zs" by (auto simp: prefix_def)
      have "split_on (CHR ''/'') (join_path (components p)) = components p"
        using split_join [OF nep] components_names(2) [of p] by (simp add: list_all_iff)
      moreover have "split_on (CHR ''/'') (CHR ''.'' # CHR ''/'' # zs) = ''.'' # split_on (CHR ''/'') zs" by simp
      ultimately have "components p = ''.'' # split_on (CHR ''/'') zs" using zs by metis
      then show ?thesis using components_ok(1) [of p] by simp
    next
      case False
      have "prefix (join_path (components auth) @ ''/'') (join_path (components p))"
        using pre(2) False nep by (simp add: normpath_relative [OF rel] normpath_relative [OF assms(1)])
      from join_path_prefix [OF components_names(2) False components_names(2) nep this]
      show ?thesis using rel pre(1) by (simp add: below_def)
    qed
  qed
qed

text \<open>
  Confinement: relative, no double dot left after normalisation, and an authorized entry that
  is the path itself or, when it is written as a directory, a directory above it.
\<close>

definition confined :: "string list \<Rightarrow> string \<Rightarrow> bool" where
  "confined authorized path \<longleftrightarrow>
     root_slashes path = 0 \<and> ''..'' \<notin> set (components path)
     \<and> (\<exists>auth \<in> set authorized. root_slashes auth = 0 \<and> below (components path) (components auth)
          \<and> (is_directory auth \<or> components path = components auth))"

lemma authorized_confined: "path_authorized path authorized \<Longrightarrow> confined authorized path"
  using authorized_cases [of path authorized] covered_below [of path]
  by (fastforce simp: confined_def)

lemma touched_authorized:
  "out_of_bounds touched authorized = [] \<longleftrightarrow> list_all (\<lambda>p. path_authorized p authorized) touched"
proof -
  have "out_of_bounds touched authorized = [] \<longleftrightarrow> set (filter (\<lambda>p. \<not> path_authorized p authorized) touched) = {}"
    by (metis out_of_bounds_def set_empty set_sort)
  then show ?thesis by (auto simp: list_all_iff filter_empty_conv)
qed


definition example_diff :: string where
  "example_diff = concat (map (\<lambda>line. line @ [CHR 0x0A])
     [''diff --git a/src/app/x.py b/src/app/x.py'', ''--- a/src/app/x.py'', ''+++ b/src/app/x.py'',
      ''@@ -1,2 +1,2 @@'', ''-old'', ''+new'', '' same''])"

definition example_diff_packet :: diff_packet where
  "example_diff_packet = \<lparr>dp_authorized = [''./src//app/''], dp_acceptance = [''min_test_count >= 3''],
     dp_constraints = [''Diff <= 40 lines'']\<rparr>"


text \<open>
  The scanner cuts a path at its first blank: a file whose name begins with an authorized
  file's name and a blank counts as that file. And a removed line that starts with two dashes
  and a blank reads as a file header: it is not counted, and its text counts as a path.
\<close>

lemma blank_truncates_path:
  "scan_line ''+++ b/docs secret/key.txt'' st = touch [''docs''] st"
  by (simp add: scan_line_def diff_header_def rename_path_def after_prefix_def named_file_def
      side_path_def word_of_def is_space_def)

lemma dashes_read_as_header:
  "scan_line ''--- comment'' st = touch [''comment''] st"
  by (simp add: scan_line_def diff_header_def rename_path_def after_prefix_def named_file_def
      side_path_def word_of_def is_space_def)

end
