(* ===== verification/L2_Consumer.thy ===== *)
theory L2_Consumer
  imports Short_Result Policy
begin

text \<open>
  The exactly-once consumer of verification requests, \<open>src/harness/l2_consumer.py\<close>: requests
  and their keys, claims, heartbeats, the drain, the reaper of stale claims, the guard against
  a dead consumer, and the return path of verdicts. The queue directory is the state
  \<open>l2_world\<close>; the process that a dispatch launches is the argument \<open>dispatcher\<close>, and the log
  \<open>lw_launches\<close> records each call of it. A record of the pending file that is not an object
  with string fields is malformed here; the text of a packet id that is not a string is left out.
\<close>

section \<open>Requests\<close>

record l2_record =
  lr_key :: string
  lr_packet :: string
  lr_run :: string
  lr_attempt :: int
  lr_reason :: string
  lr_created :: rat
  lr_request :: json
  lr_revision :: json

definition in_range :: "char \<Rightarrow> char \<Rightarrow> char \<Rightarrow> bool" where
  "in_range a b c = ((of_char a :: int) \<le> of_char c \<and> (of_char c :: int) \<le> of_char b)"

definition is_letter :: "char \<Rightarrow> bool" where
  "is_letter c = (in_range (CHR ''a'') (CHR ''z'') c \<or> in_range (CHR ''A'') (CHR ''Z'') c)"

definition l2_pid_char :: "char \<Rightarrow> bool" where
  "l2_pid_char c = (is_letter c \<or> is_digit c \<or> c \<in> {CHR ''.'', CHR ''_'', CHR ''-''})"

definition base32_char :: "char \<Rightarrow> bool" where
  "base32_char c = (is_letter c \<or> in_range (CHR ''2'') (CHR ''7'') c)"

text \<open>\<open>_SAFE_PID_RE.fullmatch\<close>\<close>

definition l2_safe_pid :: "string \<Rightarrow> bool" where
  "l2_safe_pid s = (case s of [] \<Rightarrow> False
     | c # cs \<Rightarrow> (is_letter c \<or> is_digit c) \<and> list_all l2_pid_char cs \<and> length cs \<le> 95)"

definition key_prefix :: string where
  "key_prefix = ''k3:l2req:''"

definition make_idem_key :: "(string \<Rightarrow> string) \<Rightarrow> string \<Rightarrow> string \<Rightarrow> int \<Rightarrow> py_error + string" where
  "make_idem_key b32digest packet_id run_id attempt =
     (if \<not> l2_safe_pid packet_id then Inl ValueError
      else Inr (key_prefix @ packet_id @ '':''
             @ take 16 (py_lower (b32digest (run_id @ ''|''
                 @ (if attempt < 0 then ''-'' @ decimal (nat (- attempt)) else decimal (nat attempt)))))))"

text \<open>\<open>_IDEM_RE\<close>: the prefix, a packet id, and sixteen base-32 letters, which are lowered. The
  pattern ends in a dollar sign, which also matches before a final newline.\<close>

definition canonical_key :: "string \<Rightarrow> string option" where
  "canonical_key key =
     (if \<not> prefix key_prefix key then None
      else let rest = drop (length key_prefix) key;
               pid = takeWhile l2_pid_char rest;
               tail = drop (length pid) rest in
           if pid \<noteq> [] \<and> length pid \<le> 96 \<and> 17 \<le> length tail \<and> hd tail = CHR '':''
              \<and> list_all base32_char (take 16 (tl tail)) \<and> drop 17 tail \<in> {[], [CHR 0x0A]}
           then Some (key_prefix @ pid @ '':'' @ py_lower (tl tail)) else None)"

definition string_field :: "jobj \<Rightarrow> string \<Rightarrow> py_error + string" where
  "string_field d k = (case map_of d k of
     None \<Rightarrow> Inl KeyError | Some (JStr s) \<Rightarrow> Inr s | Some _ \<Rightarrow> Inl TypeError)"

definition from_dict :: "json \<Rightarrow> py_error + l2_record" where
  "from_dict v =
     (case v of
        JObj d \<Rightarrow>
          (case (string_field d ''idem_key'', string_field d ''packet_id'', string_field d ''run_id'',
                 map_of d ''attempt'') of
             (Inr key, Inr pid, Inr run, Some att) \<Rightarrow>
               (case (canonical_key key, py_int att, py_float (jget_or (JInt 0) d ''created_ts'')) of
                  (None, _) \<Rightarrow> Inl ValueError
                | (Some k, Inr n, Inr created) \<Rightarrow>
                    Inr \<lparr>lr_key = k, lr_packet = pid, lr_run = run, lr_attempt = n,
                         lr_reason = (case jget_or (JStr ''send_l2'') d ''reason'' of JStr s \<Rightarrow> s | _ \<Rightarrow> []),
                         lr_created = created, lr_request = jget d ''request_path'', lr_revision = jget d ''revision''\<rparr>
                | (Some k, Inl e, _) \<Rightarrow> Inl e
                | (Some k, Inr n, Inl e) \<Rightarrow> Inl e)
           | (Inl e, _) \<Rightarrow> Inl e
           | _ \<Rightarrow> Inl KeyError)
      | _ \<Rightarrow> Inl TypeError)"

section \<open>The queue directory\<close>

record claim_body =
  cb_packet :: string
  cb_run :: string
  cb_attempt :: int
  cb_claimed :: rat
  cb_heartbeat :: rat
  cb_reclaims :: nat

text \<open>A claim file whose body was never written has only its modification time.\<close>

datatype claim = Claim claim_body | Corrupt_claim rat

datatype marker = Escalated_l3 | Stale_escalated | Published bool json

datatype reap_label = Numbered nat | Corrupt_label

record l2_event =
  le_packet :: string
  le_name :: string
  le_key :: string

record l2_world =
  lw_pending :: "json option list"
  lw_claims :: "claim dict"
  lw_completions :: "marker dict"
  lw_reaped :: "(string \<times> reap_label) list"
  lw_events :: "l2_event list"
  lw_demand :: "string list"
  lw_wakes :: "string list"
  lw_heartbeat :: "rat option"
  lw_launches :: "string list"

record l2_config =
  lc_max_age :: rat
  lc_stale_after :: rat
  lc_max_reclaims :: int
  lc_validator :: validator

definition empty_l2 :: l2_world where
  "empty_l2 = \<lparr>lw_pending = [], lw_claims = [], lw_completions = [], lw_reaped = [], lw_events = [],
     lw_demand = [], lw_wakes = [], lw_heartbeat = None, lw_launches = []\<rparr>"

definition emit_l2 :: "string \<Rightarrow> string \<Rightarrow> string \<Rightarrow> l2_world \<Rightarrow> l2_world" where
  "emit_l2 packet name key w =
     w\<lparr>lw_events := lw_events w @ [\<lparr>le_packet = packet, le_name = name, le_key = key\<rparr>]\<rparr>"

text \<open>Lines that are not JSON (\<open>None\<close>) and records that do not parse are skipped.\<close>

definition iter_pending :: "l2_world \<Rightarrow> l2_record list" where
  "iter_pending w = concat (map (\<lambda>line. case line of
     None \<Rightarrow> [] | Some v \<Rightarrow> (case from_dict v of Inr r \<Rightarrow> [r] | Inl e \<Rightarrow> [])) (lw_pending w))"

definition to_json :: "l2_record \<Rightarrow> json" where
  "to_json r = JObj [(''idem_key'', JStr (lr_key r)), (''packet_id'', JStr (lr_packet r)),
     (''run_id'', JStr (lr_run r)), (''attempt'', JInt (lr_attempt r)), (''reason'', JStr (lr_reason r)),
     (''created_ts'', JFloat (lr_created r)), (''request_path'', lr_request r), (''revision'', lr_revision r)]"

definition enqueue ::
  "(string \<Rightarrow> string) \<Rightarrow> rat \<Rightarrow> string \<Rightarrow> string \<Rightarrow> int \<Rightarrow> string \<Rightarrow> json \<Rightarrow> json \<Rightarrow> l2_world
    \<Rightarrow> (py_error + l2_record option) \<times> l2_world" where
  "enqueue b32digest now packet_id run_id attempt reason request_path revision w =
     (case make_idem_key b32digest packet_id run_id attempt of
        Inl e \<Rightarrow> (Inl e, w)
      | Inr key \<Rightarrow>
          if list_ex (\<lambda>r. lr_key r = key) (iter_pending w) then (Inr None, w)
          else let r = \<lparr>lr_key = key, lr_packet = packet_id, lr_run = run_id, lr_attempt = attempt,
                        lr_reason = reason, lr_created = now, lr_request = request_path, lr_revision = revision\<rparr> in
               (Inr (Some r), w\<lparr>lw_pending := lw_pending w @ [Some (to_json r)]\<rparr>))"

section \<open>Claims\<close>

text \<open>
  Files are named after the key with a colon written as an underscore; distinct canonical keys
  have distinct names, so claims and completions are kept under the key. The count of reclaims is
  that of the files matching \<open>stem.*.json\<close> in the directory of reaped claims.
\<close>

definition stem :: "string \<Rightarrow> string" where
  "stem key = map (\<lambda>c. if c = CHR '':'' then CHR ''_'' else c) key"

definition reaped_file :: "string \<times> reap_label \<Rightarrow> string" where
  "reaped_file entry = stem (fst entry) @ ''.''
     @ (case snd entry of Numbered n \<Rightarrow> decimal n | Corrupt_label \<Rightarrow> ''corrupt'') @ ''.json''"

definition reclaim_count :: "string \<Rightarrow> l2_world \<Rightarrow> nat" where
  "reclaim_count key w = length (filter (\<lambda>entry. prefix (stem key @ ''.'') (reaped_file entry)) (lw_reaped w))"

definition try_claim :: "rat \<Rightarrow> l2_record \<Rightarrow> l2_world \<Rightarrow> bool \<times> l2_world" where
  "try_claim now r w =
     (if dict_has (lr_key r) (lw_claims w) then (False, w)
      else (True, w\<lparr>lw_claims := dict_set (lr_key r) (Claim \<lparr>cb_packet = lr_packet r, cb_run = lr_run r,
              cb_attempt = lr_attempt r, cb_claimed = now, cb_heartbeat = now,
              cb_reclaims = reclaim_count (lr_key r) w\<rparr>) (lw_claims w)\<rparr>))"

text \<open>A crash between creating the claim file and writing it.\<close>

definition crash_claim :: "rat \<Rightarrow> l2_record \<Rightarrow> l2_world \<Rightarrow> l2_world" where
  "crash_claim now r w =
     (if dict_has (lr_key r) (lw_claims w) then w
      else w\<lparr>lw_claims := dict_set (lr_key r) (Corrupt_claim now) (lw_claims w)\<rparr>)"

definition heartbeat :: "rat \<Rightarrow> string \<Rightarrow> l2_world \<Rightarrow> bool \<times> l2_world" where
  "heartbeat now key w =
     (case map_of (lw_claims w) key of
        Some (Claim c) \<Rightarrow> (True, w\<lparr>lw_claims := dict_set key (Claim (c\<lparr>cb_heartbeat := now\<rparr>)) (lw_claims w)\<rparr>)
      | _ \<Rightarrow> (False, w))"

section \<open>Drain\<close>

record drain_stats =
  ds_scanned :: nat
  ds_claimed :: nat
  ds_dispatched :: nat
  ds_already_claimed :: nat
  ds_already_complete :: nat
  ds_stale_escalated :: nat
  ds_backoff :: nat
  ds_errors :: "string list"

definition no_stats :: drain_stats where
  "no_stats = \<lparr>ds_scanned = 0, ds_claimed = 0, ds_dispatched = 0, ds_already_claimed = 0,
     ds_already_complete = 0, ds_stale_escalated = 0, ds_backoff = 0, ds_errors = []\<rparr>"

text \<open>One launch; the guard beats once before it. A raising dispatcher is recorded twice.\<close>

definition launch ::
  "rat \<Rightarrow> (l2_record \<Rightarrow> py_error + bool) \<Rightarrow> l2_record \<Rightarrow> drain_stats \<Rightarrow> l2_world \<Rightarrow> drain_stats \<times> l2_world" where
  "launch now dispatcher r st w =
     (let w' = (snd (heartbeat now (lr_key r) w))\<lparr>lw_launches := lw_launches w @ [lr_key r]\<rparr> in
      (case dispatcher r of
         Inr True \<Rightarrow> st\<lparr>ds_dispatched := ds_dispatched st + 1\<rparr>
       | Inr False \<Rightarrow> st\<lparr>ds_errors := ds_errors st @ [lr_key r]\<rparr>
       | Inl e \<Rightarrow> st\<lparr>ds_errors := ds_errors st @ [lr_key r, lr_key r]\<rparr>, w'))"

definition drain_record ::
  "rat \<Rightarrow> (l2_record \<Rightarrow> py_error + bool) \<Rightarrow> l2_record \<Rightarrow> drain_stats \<times> l2_world \<Rightarrow> drain_stats \<times> l2_world" where
  "drain_record now dispatcher r acc =
     (case acc of (st, w) \<Rightarrow>
        if dict_has (lr_key r) (lw_completions w)
        then (st\<lparr>ds_already_complete := ds_already_complete st + 1\<rparr>, w)
        else (case try_claim now r w of
                (False, w1) \<Rightarrow> (st\<lparr>ds_already_claimed := ds_already_claimed st + 1\<rparr>, w1)
              | (True, w1) \<Rightarrow>
                  (let w2 = emit_l2 (lr_packet r) ''l2_requested'' (lr_key r) w1;
                       w3 = w2\<lparr>lw_demand := lw_demand w2 @ [lr_key r]\<rparr> in
                   launch now dispatcher r (st\<lparr>ds_claimed := ds_claimed st + 1\<rparr>) w3)))"

fun drain_records ::
  "rat \<Rightarrow> (l2_record \<Rightarrow> py_error + bool) \<Rightarrow> nat option \<Rightarrow> l2_record list
    \<Rightarrow> drain_stats \<times> l2_world \<Rightarrow> drain_stats \<times> l2_world" where
  "drain_records now dispatcher limit [] acc = acc"
| "drain_records now dispatcher limit (r # rs) (st, w) =
     (let st1 = st\<lparr>ds_scanned := ds_scanned st + 1\<rparr> in
      if (case limit of None \<Rightarrow> False | Some n \<Rightarrow> n \<le> ds_dispatched st1) then (st1, w)
      else drain_records now dispatcher limit rs (drain_record now dispatcher r (st1, w)))"

text \<open>Requests too old, neither claimed nor completed, are closed and reported.\<close>

definition escalate_stale :: "l2_config \<Rightarrow> rat \<Rightarrow> l2_record \<Rightarrow> nat \<times> l2_world \<Rightarrow> nat \<times> l2_world" where
  "escalate_stale cfg now r acc =
     (case acc of (n, w) \<Rightarrow>
        if now - lr_created r \<le> lc_max_age cfg \<or> dict_has (lr_key r) (lw_claims w)
           \<or> dict_has (lr_key r) (lw_completions w)
        then (n, w)
        else let w1 = w\<lparr>lw_completions := dict_set (lr_key r) Stale_escalated (lw_completions w)\<rparr>;
                 w2 = emit_l2 (lr_packet r) ''l2_consumer_stale'' (lr_key r) w1 in
             (n + 1, w2\<lparr>lw_wakes := lw_wakes w2 @ [''l2_consumer_stale_'' @ lr_packet r]\<rparr>))"

definition check_stale_pending :: "l2_config \<Rightarrow> rat \<Rightarrow> l2_world \<Rightarrow> nat \<times> l2_world" where
  "check_stale_pending cfg now w = fold (escalate_stale cfg now) (iter_pending w) (0, w)"

text \<open>\<open>blocked\<close> is the provider backoff.\<close>

definition drain ::
  "l2_config \<Rightarrow> rat \<Rightarrow> bool \<Rightarrow> (l2_record \<Rightarrow> py_error + bool) \<Rightarrow> nat option \<Rightarrow> l2_world \<Rightarrow> drain_stats \<times> l2_world" where
  "drain cfg now blocked dispatcher limit w =
     (let w0 = w\<lparr>lw_heartbeat := Some now\<rparr>;
          (st, w1) =
            (if blocked
             then (let n = length (filter (\<lambda>r. \<not> dict_has (lr_key r) (lw_completions w0)) (iter_pending w0)) in
                   (no_stats\<lparr>ds_backoff := n, ds_scanned := n\<rparr>, w0))
             else drain_records now dispatcher limit (iter_pending w0) (no_stats, w0));
          (n, w2) = check_stale_pending cfg now w1 in
      (st\<lparr>ds_stale_escalated := n\<rparr>, w2\<lparr>lw_heartbeat := Some now\<rparr>))"

section \<open>Reaping\<close>

definition add_label :: "string \<Rightarrow> reap_label \<Rightarrow> l2_world \<Rightarrow> l2_world" where
  "add_label key label w =
     (if (key, label) \<in> set (lw_reaped w) then w else w\<lparr>lw_reaped := lw_reaped w @ [(key, label)]\<rparr>)"

definition drop_claim :: "string \<Rightarrow> l2_world \<Rightarrow> l2_world" where
  "drop_claim key w = w\<lparr>lw_claims := dict_del key (lw_claims w)\<rparr>"

definition reap_claim :: "l2_config \<Rightarrow> rat \<Rightarrow> string \<Rightarrow> nat \<times> l2_world \<Rightarrow> nat \<times> l2_world" where
  "reap_claim cfg now key acc =
     (case acc of (n, w) \<Rightarrow>
        (case map_of (lw_claims w) key of
           None \<Rightarrow> (n, w)
         | Some (Corrupt_claim mtime) \<Rightarrow>
             if lc_stale_after cfg \<le> now - mtime then (n + 1, add_label key Corrupt_label (drop_claim key w)) else (n, w)
         | Some (Claim c) \<Rightarrow>
             if dict_has key (lw_completions w) then (n, w)
             else if now - cb_heartbeat c < lc_stale_after cfg then (n, w)
             else let reclaims = reclaim_count key w + 1;
                      w1 = add_label key (Numbered reclaims) (drop_claim key w) in
                  if lc_max_reclaims cfg < int reclaims
                  then (let w2 = emit_l2 (cb_packet c) ''verdict_escalate_l3'' key w1;
                            w3 = w2\<lparr>lw_completions := dict_set key Escalated_l3 (lw_completions w2)\<rparr> in
                        (n + 1, w3\<lparr>lw_wakes := lw_wakes w3 @ [''l2_reclaim_exhausted_'' @ cb_packet c]\<rparr>))
                  else (n + 1, emit_l2 (cb_packet c) ''l2_claim_reaped'' key w1)))"

text \<open>The claim files in the order of their names.\<close>

definition reap_stale_claims :: "l2_config \<Rightarrow> rat \<Rightarrow> l2_world \<Rightarrow> nat \<times> l2_world" where
  "reap_stale_claims cfg now w = fold (reap_claim cfg now) (sort_key (\<lambda>key. stem key @ ''.json'') (map fst (lw_claims w))) (0, w)"

definition recover_after_restart ::
  "l2_config \<Rightarrow> rat \<Rightarrow> bool \<Rightarrow> (l2_record \<Rightarrow> py_error + bool) \<Rightarrow> l2_world \<Rightarrow> nat \<times> l2_world" where
  "recover_after_restart cfg now blocked dispatcher w =
     (let (n, w1) = reap_stale_claims cfg now w in (n, snd (drain cfg now blocked dispatcher None w1)))"

section \<open>The return path\<close>

datatype published = Already bool | Fresh validation_result

definition packet_name :: "json \<Rightarrow> string" where
  "packet_name doc = (case doc of
     JObj d \<Rightarrow> (case jget_or (JStr ''?'') d ''packet_id'' of JStr s \<Rightarrow> s | _ \<Rightarrow> ''?'') | _ \<Rightarrow> ''?'')"

definition verdict_field :: "json \<Rightarrow> json" where
  "verdict_field doc = (case doc of JObj d \<Rightarrow> jget d ''verdict'' | _ \<Rightarrow> JNull)"

definition marker_valid :: "marker \<Rightarrow> bool" where
  "marker_valid m = (case m of Published valid v \<Rightarrow> valid | _ \<Rightarrow> False)"

text \<open>The event of a published report; a verdict that is no string is in no vocabulary.\<close>

definition verdict_event :: "validation_result \<Rightarrow> json \<Rightarrow> string" where
  "verdict_event result doc = (case verdict_field doc of
     JStr v \<Rightarrow> if vr_ok result \<and> v \<in> set L2_VERDICTS then ''verdict_'' @ v else ''exec_failed''
   | _ \<Rightarrow> ''exec_failed'')"

definition complete :: "l2_config \<Rightarrow> string \<Rightarrow> json option \<Rightarrow> int option \<Rightarrow> l2_world \<Rightarrow> published \<times> l2_world" where
  "complete cfg key content expected w =
     (case map_of (lw_completions w) key of
        Some m \<Rightarrow> (Already (marker_valid m), w)
      | None \<Rightarrow>
          (let result = validate_short_result_file (lc_validator cfg) expected content;
               doc = (case content of Some v \<Rightarrow> v | None \<Rightarrow> JNull);
               marker = Published (vr_ok result) (verdict_field doc);
               w1 = w\<lparr>lw_completions := dict_set key marker (lw_completions w)\<rparr>;
               w2 = emit_l2 (packet_name doc) (verdict_event result doc) key w1
           in (Fresh result, drop_claim key w2)))"

end
