(* ===== verification/L2_Properties.thy ===== *)
theory L2_Properties
  imports L2_Consumer SM_Machine
begin

text \<open>
  What the consumer of verification requests promises, over any interleaving of drainers,
  reapers, stale checks, published verdicts and crashes. One step is one iteration of a loop of
  the code (one record visited, one claim file examined), so whole passes are runs of steps.
  Two windows are outside the steps: a drainer that has seen no completion and claims after the
  verdict was published, for which there is a counterexample below, and a heartbeat that is
  written after its claim was taken away.
\<close>

section \<open>Steps of any number of processes\<close>

inductive l2_step :: "l2_config \<Rightarrow> l2_world \<Rightarrow> l2_world \<Rightarrow> bool" for cfg :: l2_config where
  enqueued: "enqueue b32digest now pid run att why req revision w = (res, w') \<Longrightarrow> l2_step cfg w w'"
| drained: "drain_record now dispatcher r (st, w) = (st', w') \<Longrightarrow> l2_step cfg w w'"
| crashed_claiming: "l2_step cfg w (crash_claim now r w)"
| crashed_claimed: "\<not> dict_has (lr_key r) (lw_completions w) \<Longrightarrow> l2_step cfg w (snd (try_claim now r w))"
| beat: "l2_step cfg w (snd (heartbeat now key w))"
| reaped: "l2_step cfg w (snd (reap_claim cfg now key (n, w)))"
| aged: "l2_step cfg w (snd (escalate_stale cfg now r (n, w)))"
| published: "complete cfg key content expected w = (res, w') \<Longrightarrow> l2_step cfg w w'"
| noted: "l2_step cfg w (w\<lparr>lw_heartbeat := t\<rparr>)"

inductive_cases l2_stepE: "l2_step cfg w w'"

abbreviation l2_run :: "l2_config \<Rightarrow> l2_world \<Rightarrow> l2_world \<Rightarrow> bool" where
  "l2_run cfg \<equiv> (l2_step cfg)\<^sup>*\<^sup>*"

lemma l2_run_inv:
  assumes "l2_run cfg w w'" and "P w" and "\<And>v v'. P v \<Longrightarrow> l2_step cfg v v' \<Longrightarrow> P v'"
  shows "P w'"
  using assms(1,2) by (induction rule: rtranclp_induct) (auto intro: assms(3))

subsection \<open>The passes of the code are runs\<close>

lemma drain_records_run: "l2_run cfg w (snd (drain_records now dispatcher limit rs (st, w)))"
proof (induction rs arbitrary: st w)
  case Nil
  then show ?case by simp
next
  case (Cons r rs)
  let ?st = "st\<lparr>ds_scanned := ds_scanned st + 1\<rparr>"
  obtain st' w' where visit: "drain_record now dispatcher r (?st, w) = (st', w')"
    by (cases "drain_record now dispatcher r (?st, w)") auto
  have "l2_run cfg w (snd (drain_records now dispatcher limit rs (st', w')))"
    using drained [OF visit] Cons.IH [of w' st'] by (rule converse_rtranclp_into_rtranclp)
  with visit show ?case by (simp add: Let_def del: Suc_eq_plus1)
qed

lemma fold_run:
  assumes "\<And>x n w. l2_step cfg w (snd (f x (n, w)))"
  shows "l2_run cfg w (snd (fold f xs (n, w)))"
proof (induction xs arbitrary: n w)
  case Nil
  then show ?case by simp
next
  case (Cons x xs)
  obtain n' w' where v: "f x (n, w) = (n', w')" by force
  have "l2_step cfg w w'" using assms [of w x n] v by simp
  with Cons.IH [of w' n'] v show ?case by (simp add: converse_rtranclp_into_rtranclp)
qed

lemma stale_run: "l2_run cfg w (snd (check_stale_pending cfg now w))"
  unfolding check_stale_pending_def by (rule fold_run) (rule aged)

lemma reap_run: "l2_run cfg w (snd (reap_stale_claims cfg now w))"
  unfolding reap_stale_claims_def by (rule fold_run) (rule reaped)

lemma drain_run: "l2_run cfg w (snd (drain cfg now blocked dispatcher limit w))"
proof -
  let ?w0 = "w\<lparr>lw_heartbeat := Some now\<rparr>"
  let ?n = "length (filter (\<lambda>r. \<not> dict_has (lr_key r) (lw_completions ?w0)) (iter_pending ?w0))"
  let ?pass = "if blocked then (no_stats\<lparr>ds_backoff := ?n, ds_scanned := ?n\<rparr>, ?w0)
     else drain_records now dispatcher limit (iter_pending ?w0) (no_stats, ?w0)"
  let ?stale = "check_stale_pending cfg now (snd ?pass)"
  have result: "snd (drain cfg now blocked dispatcher limit w) = (snd ?stale)\<lparr>lw_heartbeat := Some now\<rparr>"
    unfolding drain_def Let_def by (simp only: case_prod_unfold snd_conv)
  have "l2_run cfg ?w0 (snd ?pass)" by (simp add: drain_records_run)
  moreover have "l2_run cfg (snd ?pass) (snd ?stale)" by (rule stale_run)
  ultimately have "l2_run cfg ?w0 (snd ?stale)" by (rule rtranclp_trans)
  then have "l2_run cfg ?w0 ((snd ?stale)\<lparr>lw_heartbeat := Some now\<rparr>)"
    by (rule rtranclp.rtrancl_into_rtrancl) (rule noted)
  then show ?thesis unfolding result by (rule converse_rtranclp_into_rtranclp [rotated]) (rule noted)
qed

lemma recover_run: "l2_run cfg w (snd (recover_after_restart cfg now blocked dispatcher w))"
proof -
  obtain n w1 where reap: "reap_stale_claims cfg now w = (n, w1)" by force
  then have "l2_run cfg w w1" using reap_run [of cfg w now] by simp
  also have "l2_run cfg w1 (snd (drain cfg now blocked dispatcher None w1))" by (rule drain_run)
  finally show ?thesis by (simp add: recover_after_restart_def reap)
qed

lemmas passes_are_runs = drain_run reap_run stale_run recover_run

section \<open>Launches\<close>

definition launches :: "string \<Rightarrow> l2_world \<Rightarrow> nat" where
  "launches key w = count_list (lw_launches w) key"

definition numbered :: "string \<Rightarrow> l2_world \<Rightarrow> nat" where
  "numbered key w = length (filter (\<lambda>e. fst e = key \<and> snd e \<noteq> Corrupt_label) (lw_reaped w))"

definition live_claim :: "string \<Rightarrow> l2_world \<Rightarrow> bool" where
  "live_claim key w = (case map_of (lw_claims w) key of Some (Claim c) \<Rightarrow> True | _ \<Rightarrow> False)"

definition completed :: "string \<Rightarrow> l2_world \<Rightarrow> bool" where
  "completed key w = dict_has key (lw_completions w)"

text \<open>Labels of a key never exceed its count of reclaims, so a new label is fresh.\<close>

definition labels_ok :: "l2_world \<Rightarrow> bool" where
  "labels_ok w = (\<forall>key n. (key, Numbered n) \<in> set (lw_reaped w) \<longrightarrow> n \<le> reclaim_count key w)"

definition key_inv :: "l2_config \<Rightarrow> string \<Rightarrow> l2_world \<Rightarrow> bool" where
  "key_inv cfg key w \<longleftrightarrow>
     launches key w \<le> nat (lc_max_reclaims cfg) + 1
     \<and> (completed key w \<or> launches key w \<le> numbered key w + (if live_claim key w then 1 else 0)
          \<and> numbered key w \<le> nat (lc_max_reclaims cfg))"

definition launch_inv :: "l2_config \<Rightarrow> l2_world \<Rightarrow> bool" where
  "launch_inv cfg w \<longleftrightarrow> labels_ok w \<and> (\<forall>key. key_inv cfg key w)"

lemma own_file: "prefix (stem key @ ''.'') (reaped_file (key, label))"
  by (simp add: reaped_file_def)

lemma filter_length_mono: "(\<And>x. P x \<Longrightarrow> Q x) \<Longrightarrow> length (filter P xs) \<le> length (filter Q xs)"
  by (induction xs) (auto simp: le_SucI)

lemma numbered_le_count: "numbered key w \<le> reclaim_count key w"
  unfolding numbered_def reclaim_count_def by (rule filter_length_mono) (auto simp: own_file)

lemmas launch_observables = launches_def numbered_def live_claim_def completed_def labels_ok_def reclaim_count_def

lemma key_inv_mono:
  assumes "key_inv cfg key w" and "lw_launches w' = lw_launches w" and "numbered key w' = numbered key w"
    and "completed key w \<Longrightarrow> completed key w'"
    and "live_claim key w \<Longrightarrow> \<not> completed key w' \<Longrightarrow> live_claim key w'"
  shows "key_inv cfg key w'"
  using assms by (cases "live_claim key w"; cases "completed key w'") (auto simp: key_inv_def launches_def)

lemma launch_inv_mono:
  assumes "launch_inv cfg w" and "lw_launches w' = lw_launches w" and "lw_reaped w' = lw_reaped w"
    and "\<And>key. completed key w \<Longrightarrow> completed key w'"
    and "\<And>key. live_claim key w \<Longrightarrow> \<not> completed key w' \<Longrightarrow> live_claim key w'"
  shows "launch_inv cfg w'"
proof -
  have "labels_ok w' = labels_ok w" using assms(3) by (simp add: labels_ok_def reclaim_count_def)
  moreover have "key_inv cfg key w'" for key
  proof (rule key_inv_mono)
    show "key_inv cfg key w" using assms(1) by (simp add: launch_inv_def)
    show "numbered key w' = numbered key w" using assms(3) by (simp add: numbered_def)
  qed (use assms in blast)+
  ultimately show ?thesis using assms(1) by (simp add: launch_inv_def)
qed

lemma live_set: "live_claim k (w\<lparr>lw_claims := dict_set key c (lw_claims w)\<rparr>)
    = (if k = key then (case c of Claim b \<Rightarrow> True | _ \<Rightarrow> False) else live_claim k w)"
  by (simp add: live_claim_def split: claim.splits)

lemma live_del: "live_claim k (drop_claim key w) = (k \<noteq> key \<and> live_claim k w)"
  by (simp add: live_claim_def drop_claim_def)

lemma heartbeat_keeps [simp]:
  "lw_launches (snd (heartbeat now key w)) = lw_launches w"
  "lw_reaped (snd (heartbeat now key w)) = lw_reaped w"
  "lw_completions (snd (heartbeat now key w)) = lw_completions w"
  "lw_events (snd (heartbeat now key w)) = lw_events w"
  "live_claim k (snd (heartbeat now key w)) = live_claim k w"
  "dict_has k (lw_claims (snd (heartbeat now key w))) = dict_has k (lw_claims w)"
  by (auto simp: heartbeat_def live_claim_def dict_has_def split: option.splits claim.splits)

lemma emit_keeps [simp]:
  "lw_launches (emit_l2 packet name key w) = lw_launches w"
  "lw_reaped (emit_l2 packet name key w) = lw_reaped w"
  "lw_completions (emit_l2 packet name key w) = lw_completions w"
  "lw_claims (emit_l2 packet name key w) = lw_claims w"
  "lw_pending (emit_l2 packet name key w) = lw_pending w"
  by (simp_all add: emit_l2_def)


text \<open>One visited record: skipped, or claimed and launched once.\<close>

lemma drain_record_cases:
  assumes "drain_record now dispatcher r (st, w) = (st', w')"
  obtains (skipped) "w' = w" "dict_has (lr_key r) (lw_completions w) \<or> dict_has (lr_key r) (lw_claims w)"
  | (launched) "\<not> completed (lr_key r) w" "\<not> dict_has (lr_key r) (lw_claims w)"
      "lw_launches w' = lw_launches w @ [lr_key r]" "lw_reaped w' = lw_reaped w"
      "lw_completions w' = lw_completions w" "live_claim (lr_key r) w'"
      "\<And>k. k \<noteq> lr_key r \<Longrightarrow> live_claim k w' = live_claim k w"
      "lw_events w' = lw_events w @ [\<lparr>le_packet = lr_packet r, le_name = ''l2_requested'', le_key = lr_key r\<rparr>]"
proof (cases "dict_has (lr_key r) (lw_completions w) \<or> dict_has (lr_key r) (lw_claims w)")
  case True
  then have "w' = w" using assms by (auto simp: drain_record_def try_claim_def split: if_splits)
  with True skipped show ?thesis by blast
next
  case False
  then have w': "w' = (snd (heartbeat now (lr_key r) v))\<lparr>lw_launches := lw_launches v @ [lr_key r]\<rparr>"
    if "v = (emit_l2 (lr_packet r) ''l2_requested'' (lr_key r) (snd (try_claim now r w)))
        \<lparr>lw_demand := lw_demand w @ [lr_key r]\<rparr>" for v
    using assms that by (auto simp: drain_record_def try_claim_def launch_def Let_def emit_l2_def)
  show ?thesis
    by (rule launched) (use False in \<open>simp_all add: w' [OF refl] completed_def try_claim_def emit_l2_def live_claim_def
      heartbeat_def\<close>)
qed

lemma drained_inv:
  assumes "launch_inv cfg w" and "drain_record now dispatcher r (st, w) = (st', w')"
  shows "launch_inv cfg w'"
  using assms(2)
proof (cases rule: drain_record_cases)
  case skipped
  with assms(1) show ?thesis by simp
next
  case launched
  have labels: "labels_ok w' = labels_ok w" by (simp add: labels_ok_def reclaim_count_def launched)
  have "key_inv cfg key w'" for key
  proof (cases "key = lr_key r")
    case True
    have "\<not> live_claim key w" using launched(2) True by (auto simp: live_claim_def dict_has_def)
    moreover have "key_inv cfg key w" using assms(1) by (simp add: launch_inv_def)
    ultimately show ?thesis using launched True by (simp add: key_inv_def launch_observables)
  next
    case False
    moreover have "key_inv cfg key w" using assms(1) by (simp add: launch_inv_def)
    ultimately show ?thesis using launched
      by (simp add: key_inv_def launches_def numbered_def completed_def)
  qed
  with labels assms(1) show ?thesis by (simp add: launch_inv_def)
qed


text \<open>One examined claim file: kept, or moved away; past the budget of reclaims the request is closed.\<close>

lemma labels_append:
  assumes "labels_ok w" and "lw_reaped w' = lw_reaped w @ [(key, label)]"
    and "label = Corrupt_label \<or> label = Numbered (reclaim_count key w + 1)"
  shows "labels_ok w'"
  unfolding labels_ok_def
proof (intro allI impI)
  fix k n
  assume "(k, Numbered n) \<in> set (lw_reaped w')"
  then consider "(k, Numbered n) \<in> set (lw_reaped w)" | "k = key" "label = Numbered n"
    using assms(2) by auto
  then show "n \<le> reclaim_count k w'"
  proof cases
    case 1
    then have "n \<le> reclaim_count k w" using assms(1) by (simp add: labels_ok_def)
    then show ?thesis using assms(2) by (simp add: reclaim_count_def)
  next
    case 2
    then show ?thesis using assms(2,3) own_file by (auto simp: reclaim_count_def)
  qed
qed

lemma fresh_label: "labels_ok w \<Longrightarrow> (key, Numbered (reclaim_count key w + 1)) \<notin> set (lw_reaped w)"
  by (force simp: labels_ok_def)

lemma reap_claim_cases:
  assumes "labels_ok w"
  obtains (kept) "snd (reap_claim cfg now key (n, w)) = w"
  | (corrupt) "snd (reap_claim cfg now key (n, w)) = add_label key Corrupt_label (drop_claim key w)"
      "\<not> live_claim key w"
  | (again) c where "\<not> completed key w" "map_of (lw_claims w) key = Some (Claim c)"
      "snd (reap_claim cfg now key (n, w)) = emit_l2 (cb_packet c) ''l2_claim_reaped'' key
         (drop_claim key w\<lparr>lw_reaped := lw_reaped w @ [(key, Numbered (reclaim_count key w + 1))]\<rparr>)"
      "int (reclaim_count key w + 1) \<le> lc_max_reclaims cfg"
  | (closed) c v where "\<not> completed key w" "map_of (lw_claims w) key = Some (Claim c)"
      "v = emit_l2 (cb_packet c) ''verdict_escalate_l3'' key
         (drop_claim key w\<lparr>lw_reaped := lw_reaped w @ [(key, Numbered (reclaim_count key w + 1))]\<rparr>)"
      "snd (reap_claim cfg now key (n, w)) = v\<lparr>lw_completions := dict_set key Escalated_l3 (lw_completions v),
         lw_wakes := lw_wakes v @ [''l2_reclaim_exhausted_'' @ cb_packet c]\<rparr>"
      "lc_max_reclaims cfg < int (reclaim_count key w + 1)"
proof (cases "map_of (lw_claims w) key")
  case None
  then show ?thesis by (intro kept) (simp add: reap_claim_def)
next
  case (Some claim)
  show ?thesis
  proof (cases claim)
    case (Corrupt_claim t)
    have dead: "\<not> live_claim key w" using Some Corrupt_claim by (simp add: live_claim_def)
    show ?thesis
    proof (cases "lc_stale_after cfg \<le> now - t")
      case True
      with Some Corrupt_claim dead show ?thesis by (intro corrupt) (simp_all add: reap_claim_def)
    next
      case False
      with Some Corrupt_claim show ?thesis by (intro kept) (simp add: reap_claim_def)
    qed
  next
    case (Claim c)
    have label: "add_label key (Numbered (Suc (reclaim_count key w))) (drop_claim key w)
        = drop_claim key w\<lparr>lw_reaped := lw_reaped w @ [(key, Numbered (Suc (reclaim_count key w)))]\<rparr>"
      using fresh_label [OF assms] by (simp add: add_label_def drop_claim_def)
    show ?thesis
    proof (cases "completed key w \<or> now - cb_heartbeat c < lc_stale_after cfg")
      case True
      with Some Claim show ?thesis by (intro kept) (auto simp: reap_claim_def completed_def)
    next
      case False
      show ?thesis
      proof (cases "lc_max_reclaims cfg < int (reclaim_count key w + 1)")
        case True
        with Some Claim False show ?thesis
          by (intro closed [OF _ _ refl]) (simp_all add: reap_claim_def completed_def label Let_def)
      next
        case less: False
        with Some Claim False show ?thesis
          by (intro again) (simp_all add: reap_claim_def completed_def label Let_def)
      qed
    qed
  qed
qed


lemma reaped_inv:
  assumes "launch_inv cfg w"
  shows "launch_inv cfg (snd (reap_claim cfg now key (n, w)))" (is "launch_inv cfg ?w'")
proof -
  have labels: "labels_ok w" and each: "key_inv cfg k w" for k
    using assms by (simp_all add: launch_inv_def)
  have moved: "launch_inv cfg v"
    if reaped: "lw_reaped v = lw_reaped w @ [(key, Numbered (reclaim_count key w + 1))]"
      and launched: "lw_launches v = lw_launches w" and live: "\<And>k. live_claim k v = (k \<noteq> key \<and> live_claim k w)"
      and open_or_closed: "\<And>k. completed k w \<Longrightarrow> completed k v" "\<not> completed key w"
        "completed key v \<or> int (reclaim_count key w + 1) \<le> lc_max_reclaims cfg"
      and was_live: "live_claim key w"
    for v
  proof -
    have "key_inv cfg k v" for k
    proof (cases "k = key")
      case True
      have more: "numbered key v = numbered key w + 1" "launches key v = launches key w"
        using reaped launched by (simp_all add: numbered_def launches_def)
      have bound: "launches key w \<le> nat (lc_max_reclaims cfg) + 1" "launches key w \<le> numbered key w + 1"
        using each [of key] was_live open_or_closed(2) by (simp_all add: key_inv_def)
      have "completed key v \<or> numbered key w + 1 \<le> nat (lc_max_reclaims cfg)"
        using open_or_closed(3) numbered_le_count [of key w] by linarith
      then show ?thesis using more bound True by (auto simp: key_inv_def)
    next
      case False
      then show ?thesis using key_inv_mono [OF each [of k] launched] reaped open_or_closed(1) live
        by (simp add: numbered_def)
    qed
    moreover have "labels_ok v" using labels_append [OF labels reaped] by simp
    ultimately show ?thesis by (simp add: launch_inv_def)
  qed
  show ?thesis using labels
  proof (cases rule: reap_claim_cases [of w cfg now key n])
    case kept
    then show ?thesis using assms by simp
  next
    case corrupt
    let ?v = "add_label key Corrupt_label (drop_claim key w)"
    have "labels_ok ?v"
      using labels labels_append [OF labels, of ?v key Corrupt_label]
      by (auto simp: add_label_def drop_claim_def labels_ok_def reclaim_count_def)
    moreover have "key_inv cfg k ?v" for k
    proof (rule key_inv_mono [OF each])
      show "live_claim k w \<Longrightarrow> live_claim k ?v" using corrupt(2)
        by (auto simp: add_label_def drop_claim_def live_claim_def)
    qed (auto simp: add_label_def drop_claim_def numbered_def completed_def)
    ultimately show ?thesis using corrupt(1) by (simp add: launch_inv_def)
  next
    case (again c)
    show ?thesis unfolding again(3)
      by (rule moved) (use again in \<open>auto simp: emit_l2_def drop_claim_def live_claim_def completed_def\<close>)
  next
    case (closed c v)
    show ?thesis unfolding closed(4) unfolding closed(3)
      by (rule moved) (use closed(1,2) in \<open>auto simp: emit_l2_def drop_claim_def live_claim_def completed_def\<close>)
  qed
qed

lemma verdict_event_closes:
  "verdict_event result doc = ''exec_failed'' \<or> (\<exists>v \<in> set L2_VERDICTS. verdict_event result doc = ''verdict_'' @ v)"
  by (auto simp: verdict_event_def split: json.splits)

lemma complete_cases:
  assumes "complete cfg key content expected w = (pub, w')"
  obtains (already) "completed key w" "w' = w"
  | (fresh) result doc where "\<not> completed key w"
      "w' = drop_claim key (emit_l2 (packet_name doc) (verdict_event result doc) key
         (w\<lparr>lw_completions := dict_set key (Published (vr_ok result) (verdict_field doc)) (lw_completions w)\<rparr>))"
      "pub = Fresh result" "result = validate_short_result_file (lc_validator cfg) expected content"
      "doc = (case content of Some v \<Rightarrow> v | None \<Rightarrow> JNull)"
proof (cases "map_of (lw_completions w) key")
  case None
  then show ?thesis using assms by (intro fresh [OF _ _ _ refl refl]) (simp_all add: complete_def completed_def dict_has_def Let_def)
next
  case (Some m)
  then show ?thesis using assms by (intro already) (simp_all add: complete_def completed_def dict_has_def)
qed

lemma quiet_inv:
  assumes "launch_inv cfg w"
  shows "enqueue b32digest now pid run att why req revision w = (res, w') \<Longrightarrow> launch_inv cfg w'"
    and "launch_inv cfg (crash_claim now r w)" and "launch_inv cfg (snd (try_claim now r w))"
    and "launch_inv cfg (snd (heartbeat now key w))" and "launch_inv cfg (snd (escalate_stale cfg now r (n, w)))"
    and "complete cfg key content expected w = (pub, w'') \<Longrightarrow> launch_inv cfg w''"
    and "launch_inv cfg (w\<lparr>lw_heartbeat := t\<rparr>)"
proof -
  show "launch_inv cfg w'" if "enqueue b32digest now pid run att why req revision w = (res, w')"
    using that by (intro launch_inv_mono [OF assms])
      (auto simp: enqueue_def Let_def completed_def live_claim_def split: sum.splits if_splits)
  show "launch_inv cfg (crash_claim now r w)"
    by (rule launch_inv_mono [OF assms])
      (auto simp: crash_claim_def completed_def live_claim_def dict_has_def split: option.splits)
  show "launch_inv cfg (snd (try_claim now r w))"
    by (rule launch_inv_mono [OF assms]) (auto simp: try_claim_def completed_def live_claim_def)
  show "launch_inv cfg (snd (heartbeat now key w))"
    by (rule launch_inv_mono [OF assms]) (auto simp: completed_def)
  show "launch_inv cfg (snd (escalate_stale cfg now r (n, w)))"
    by (rule launch_inv_mono [OF assms]) (auto simp: escalate_stale_def Let_def completed_def live_claim_def)
  show "launch_inv cfg w''" if "complete cfg key content expected w = (pub, w'')"
    using that
  proof (cases rule: complete_cases)
    case already
    then show ?thesis using assms by simp
  next
    case (fresh result doc)
    show ?thesis unfolding fresh(2)
      by (rule launch_inv_mono [OF assms]) (auto simp: completed_def live_claim_def drop_claim_def emit_l2_def)
  qed
  show "launch_inv cfg (w\<lparr>lw_heartbeat := t\<rparr>)"
    by (rule launch_inv_mono [OF assms]) (auto simp: completed_def live_claim_def)
qed

lemma launch_inv_step: "launch_inv cfg w \<Longrightarrow> l2_step cfg w w' \<Longrightarrow> launch_inv cfg w'"
  by (erule l2_stepE) (auto intro: quiet_inv drained_inv reaped_inv)

lemma launch_inv_init: "launch_inv cfg empty_l2"
  by (simp add: launch_inv_def key_inv_def labels_ok_def launches_def numbered_def empty_l2_def)



section \<open>Outcomes\<close>

definition closing :: "string \<Rightarrow> bool" where
  "closing name = (prefix ''verdict_'' name \<or> name \<in> {''exec_failed'', ''l2_consumer_stale''})"

definition outcomes :: "string \<Rightarrow> l2_world \<Rightarrow> nat" where
  "outcomes key w = length (filter (\<lambda>e. le_key e = key \<and> closing (le_name e)) (lw_events w))"

text \<open>What one step adds: nothing, an event that closes nothing, or the outcome of one open request.\<close>

inductive outcome_step :: "l2_world \<Rightarrow> l2_world \<Rightarrow> bool" where
  silent: "lw_completions w' = lw_completions w \<Longrightarrow> lw_events w' = lw_events w \<Longrightarrow> outcome_step w w'"
| progress: "lw_completions w' = lw_completions w \<Longrightarrow> lw_events w' = lw_events w @ [e]
    \<Longrightarrow> le_name e \<in> {''l2_requested'', ''l2_claim_reaped''} \<Longrightarrow> outcome_step w w'"
| outcome: "\<not> completed (le_key e) w \<Longrightarrow> lw_completions w' = dict_set (le_key e) m (lw_completions w)
    \<Longrightarrow> lw_events w' = lw_events w @ [e]
    \<Longrightarrow> le_name e \<in> {''exec_failed'', ''l2_consumer_stale''} \<union> (@) ''verdict_'' ` set L2_VERDICTS
    \<Longrightarrow> outcome_step w w'"

lemma drop_claim_keeps [simp]:
  "lw_completions (drop_claim key w) = lw_completions w" "lw_events (drop_claim key w) = lw_events w"
  by (simp_all add: drop_claim_def)

lemma add_label_keeps [simp]:
  "lw_completions (add_label key l w) = lw_completions w" "lw_events (add_label key l w) = lw_events w"
  by (simp_all add: add_label_def)

lemma reaped_outcome: "outcome_step w (snd (reap_claim cfg now key (n, w)))"
proof (cases "map_of (lw_claims w) key")
  case None
  then show ?thesis by (simp add: reap_claim_def silent)
next
  case (Some claim)
  show ?thesis
  proof (cases claim)
    case (Corrupt_claim t)
    with Some show ?thesis by (auto simp: reap_claim_def intro: silent)
  next
    case (Claim c)
    let ?n = "Suc (reclaim_count key w)"
    let ?w = "add_label key (Numbered ?n) (drop_claim key w)"
    consider (kept) "completed key w \<or> now - cb_heartbeat c < lc_stale_after cfg"
      | (closed) "\<not> completed key w" "\<not> now - cb_heartbeat c < lc_stale_after cfg" "lc_max_reclaims cfg < int ?n"
      | (again) "\<not> completed key w" "\<not> now - cb_heartbeat c < lc_stale_after cfg" "\<not> lc_max_reclaims cfg < int ?n"
      by blast
    then show ?thesis
    proof cases
      case kept
      with Some Claim show ?thesis by (auto simp: reap_claim_def completed_def intro: silent)
    next
      case closed
      then have "snd (reap_claim cfg now key (n, w)) =
          (let v = emit_l2 (cb_packet c) ''verdict_escalate_l3'' key ?w in
           v\<lparr>lw_completions := dict_set key Escalated_l3 (lw_completions v),
             lw_wakes := lw_wakes v @ [''l2_reclaim_exhausted_'' @ cb_packet c]\<rparr>)"
        using Some Claim by (simp add: reap_claim_def completed_def Let_def)
      then show ?thesis using closed(1)
        by (intro outcome [of "\<lparr>le_packet = cb_packet c, le_name = ''verdict_escalate_l3'', le_key = key\<rparr>" _ _ Escalated_l3])
          (simp_all add: emit_l2_def Let_def L2_VERDICTS_def)
    next
      case again
      then have "snd (reap_claim cfg now key (n, w)) = emit_l2 (cb_packet c) ''l2_claim_reaped'' key ?w"
        using Some Claim by (simp add: reap_claim_def completed_def Let_def)
      then show ?thesis
        by (intro progress [of _ _ "\<lparr>le_packet = cb_packet c, le_name = ''l2_claim_reaped'', le_key = key\<rparr>"])
          (simp_all add: emit_l2_def)
    qed
  qed
qed

lemma aged_outcome: "outcome_step w (snd (escalate_stale cfg now r (n, w)))"
proof (cases "now - lr_created r \<le> lc_max_age cfg \<or> dict_has (lr_key r) (lw_claims w) \<or> completed (lr_key r) w")
  case True
  then show ?thesis by (auto simp: escalate_stale_def completed_def intro: silent)
next
  case False
  then show ?thesis
    by (intro outcome [of "\<lparr>le_packet = lr_packet r, le_name = ''l2_consumer_stale'', le_key = lr_key r\<rparr>" _ _ Stale_escalated])
      (simp_all add: escalate_stale_def completed_def emit_l2_def Let_def)
qed

lemma drained_outcome:
  assumes "drain_record now dispatcher r (st, w) = (st', w')"
  shows "outcome_step w w'"
  using assms
proof (cases rule: drain_record_cases)
  case skipped
  then show ?thesis by (simp add: silent)
next
  case launched
  show ?thesis
    by (rule progress [of _ _ "\<lparr>le_packet = lr_packet r, le_name = ''l2_requested'', le_key = lr_key r\<rparr>"])
      (use launched in \<open>simp_all\<close>)
qed

lemma published_outcome:
  assumes "complete cfg key content expected w = (pub, w')"
  shows "outcome_step w w'"
  using assms
proof (cases rule: complete_cases)
  case already
  then show ?thesis by (simp add: silent)
next
  case (fresh result doc)
  show ?thesis
    by (rule outcome [of "\<lparr>le_packet = packet_name doc, le_name = verdict_event result doc, le_key = key\<rparr>"])
      (use fresh(1) verdict_event_closes [of result doc] in \<open>auto simp: fresh(2) emit_l2_def\<close>)
qed

lemma l2_step_outcome: "l2_step cfg w w' \<Longrightarrow> outcome_step w w'"
proof (erule l2_stepE)
  show "outcome_step w w'" if "enqueue b32digest now pid run att why req revision w = (res, w')" for b32digest now pid run att why req revision res
    using that by (intro silent) (auto simp: enqueue_def Let_def split: sum.splits if_splits)
qed (auto intro: drained_outcome reaped_outcome aged_outcome published_outcome silent simp: crash_claim_def try_claim_def)


definition outcome_inv :: "l2_world \<Rightarrow> bool" where
  "outcome_inv w \<longleftrightarrow> (\<forall>key. outcomes key w = (if completed key w then 1 else 0))"

lemma closing_simps [simp]:
  "\<not> closing ''l2_requested''" "\<not> closing ''l2_claim_reaped''" "closing ''exec_failed''"
  "closing ''l2_consumer_stale''" "closing (''verdict_'' @ v)"
  "closing (CHR ''v'' # CHR ''e'' # CHR ''r'' # CHR ''d'' # CHR ''i'' # CHR ''c'' # CHR ''t'' # CHR ''_'' # v)"
  by (simp_all add: closing_def)

lemma outcome_inv_step:
  assumes "outcome_step w w'" and "outcome_inv w"
  shows "outcome_inv w'"
  using assms by (cases rule: outcome_step.cases) (auto simp: outcome_inv_def outcomes_def completed_def)

lemma outcome_persists:
  assumes "outcome_step w w'" and "map_of (lw_completions w) key = Some m"
  shows "map_of (lw_completions w') key = Some m"
  using assms by (cases rule: outcome_step.cases) (auto simp: completed_def dict_has_def)


lemma outcome_names:
  assumes "outcome_step w w'" and "\<forall>e \<in> set (lw_events w). le_name e \<in> K"
    and "{''l2_requested'', ''l2_claim_reaped'', ''exec_failed'', ''l2_consumer_stale''}
      \<union> (@) ''verdict_'' ` set L2_VERDICTS \<subseteq> K"
  shows "\<forall>e \<in> set (lw_events w'). le_name e \<in> K"
  using assms(1)
proof (cases rule: outcome_step.cases)
  case (progress e)
  then have "le_name e \<in> K" using assms(3) by blast
  then show ?thesis using assms(2) progress by simp
next
  case (outcome e m)
  then have "le_name e \<in> K" using assms(3) by blast
  then show ?thesis using assms(2) outcome by simp
qed (use assms(2) in simp)

text \<open>Every event the consumer appends to the stream is one the packet state machine
  knows: a name of its table or one of its informational events.\<close>

theorem consumer_speaks_the_table:
  assumes "l2_run cfg empty_l2 w" and "e \<in> set (lw_events w)"
  shows "le_name e \<in> snd ` fst ` set T \<union> set INFO_EVENTS"
proof -
  let ?known = "\<lambda>w. \<forall>e \<in> set (lw_events w). le_name e \<in> snd ` fst ` set T \<union> set INFO_EVENTS"
  have names: "{''l2_requested'', ''l2_claim_reaped'', ''exec_failed'', ''l2_consumer_stale''}
      \<union> (@) ''verdict_'' ` set L2_VERDICTS \<subseteq> snd ` fst ` set T \<union> set INFO_EVENTS"
    by (simp add: T_def INFO_EVENTS_def L2_VERDICTS_def)
  have "?known empty_l2" by (simp add: empty_l2_def)
  with assms(1) have "?known w" by (rule l2_run_inv) (rule outcome_names [OF l2_step_outcome _ names])
  then show ?thesis using assms(2) by blast
qed


section \<open>A drain leaves nothing behind\<close>

definition settled :: "l2_world \<Rightarrow> string \<Rightarrow> bool" where
  "settled w key = (dict_has key (lw_claims w) \<or> dict_has key (lw_completions w))"

lemma drain_record_settles:
  "settled (snd (drain_record now dispatcher r (st, w))) key = (key = lr_key r \<or> settled w key)"
  "lw_pending (snd (drain_record now dispatcher r (st, w))) = lw_pending w"
  by (auto simp: drain_record_def try_claim_def launch_def Let_def settled_def emit_l2_def heartbeat_def)

lemma drain_records_pending: "lw_pending (snd (drain_records now dispatcher limit rs (st, w))) = lw_pending w"
proof (induction rs arbitrary: st w)
  case (Cons r rs)
  let ?v = "drain_record now dispatcher r (st\<lparr>ds_scanned := ds_scanned st + 1\<rparr>, w)"
  have "lw_pending (snd ?v) = lw_pending w" by (rule drain_record_settles(2))
  with Cons.IH [of "fst ?v" "snd ?v"] show ?case by (simp add: Let_def)
qed simp

lemma drain_records_settles:
  "settled w key \<or> (limit = None \<and> key \<in> lr_key ` set rs)
     \<Longrightarrow> settled (snd (drain_records now dispatcher limit rs (st, w))) key"
proof (induction rs arbitrary: st w)
  case (Cons r rs)
  let ?v = "drain_record now dispatcher r (st\<lparr>ds_scanned := ds_scanned st + 1\<rparr>, w)"
  have "settled (snd ?v) key = (key = lr_key r \<or> settled w key)" by (rule drain_record_settles(1))
  with Cons.IH [of "snd ?v" "fst ?v"] Cons.prems show ?case by (auto simp: Let_def)
qed simp

lemma escalate_settles:
  "settled (snd (escalate_stale cfg now r (n, w))) key
     = (settled w key \<or> (key = lr_key r \<and> lc_max_age cfg < now - lr_created r))"
  by (auto simp: escalate_stale_def settled_def Let_def)

lemma fold_escalate_settles:
  "settled (snd (fold (escalate_stale cfg now) rs (n, w))) key
     = (settled w key \<or> (\<exists>r \<in> set rs. key = lr_key r \<and> lc_max_age cfg < now - lr_created r))"
proof (induction rs arbitrary: n w)
  case Nil
  then show ?case by simp
next
  case (Cons r rs)
  obtain n' w' where v: "escalate_stale cfg now r (n, w) = (n', w')" by force
  then have "settled w' key = (settled w key \<or> (key = lr_key r \<and> lc_max_age cfg < now - lr_created r))"
    using escalate_settles [where n = n and w = w] by (metis snd_conv)
  then show ?case by (auto simp: v Cons.IH)
qed

text \<open>Claim C26. After a drain every pending request that is too old is claimed or completed, even
  under provider backoff or a limit; after an unblocked drain without a limit, every pending
  request is, whatever the dispatcher does.\<close>

theorem drain_leaves_nothing_behind:
  assumes "r \<in> set (iter_pending w)"
    and "lc_max_age cfg < now - lr_created r \<or> (\<not> blocked \<and> limit = None)"
  shows "settled (snd (drain cfg now blocked dispatcher limit w)) (lr_key r)"
proof -
  let ?w0 = "w\<lparr>lw_heartbeat := Some now\<rparr>"
  let ?n = "length (filter (\<lambda>r. \<not> dict_has (lr_key r) (lw_completions ?w0)) (iter_pending ?w0))"
  let ?pass = "if blocked then (no_stats\<lparr>ds_backoff := ?n, ds_scanned := ?n\<rparr>, ?w0)
     else drain_records now dispatcher limit (iter_pending ?w0) (no_stats, ?w0)"
  let ?stale = "check_stale_pending cfg now (snd ?pass)"
  have result: "snd (drain cfg now blocked dispatcher limit w) = (snd ?stale)\<lparr>lw_heartbeat := Some now\<rparr>"
    unfolding drain_def Let_def by (simp only: case_prod_unfold snd_conv)
  have same: "iter_pending ?w0 = iter_pending w" by (simp add: iter_pending_def)
  have pending: "iter_pending (snd ?pass) = iter_pending w"
    using drain_records_pending by (simp add: iter_pending_def)
  have passed: "settled (snd ?pass) (lr_key r)" if "\<not> blocked \<and> limit = None"
    using that assms(1) same by (simp add: drain_records_settles)
  have "settled (snd ?stale) (lr_key r)"
    unfolding check_stale_pending_def fold_escalate_settles pending using assms passed by blast
  then show ?thesis unfolding result by (simp add: settled_def)
qed


section \<open>A request over its life\<close>

definition demo_digest :: "string \<Rightarrow> string" where
  "demo_digest s = ''ABCDEFGHIJKLMNOPQRST''"

definition demo_l2_config :: l2_config where
  "demo_l2_config = \<lparr>lc_max_age = 900, lc_stale_after = 120, lc_max_reclaims = 2,
     lc_validator = \<lparr>vd_max_tokens = 500, vd_max_findings = 8, vd_require_verdict = True\<rparr>\<rparr>"

definition demo_queued :: l2_world where
  "demo_queued = snd (enqueue demo_digest 0 ''p1'' ''r1'' 1 ''send_l2'' JNull JNull empty_l2)"

definition demo_key :: string where
  "demo_key = ''k3:l2req:p1:abcdefghijklmnop''"

text \<open>A dispatcher that fails, and a reaper that runs after the claim went stale.\<close>

definition demo_round :: "rat \<Rightarrow> l2_world \<Rightarrow> l2_world" where
  "demo_round t w = snd (reap_stale_claims demo_l2_config (t + 200)
     (snd (drain demo_l2_config t False (\<lambda>r. Inr False) None w)))"

definition demo_spent :: l2_world where
  "demo_spent = demo_round 600 (demo_round 300 (demo_round 0 demo_queued))"

lemma demo_round_run: "l2_run demo_l2_config w (demo_round t w)"
  unfolding demo_round_def using drain_run reap_run by (rule rtranclp_trans)

lemma demo_queued_run: "l2_run demo_l2_config empty_l2 demo_queued"
  unfolding demo_queued_def by (intro r_into_rtranclp enqueued [OF surjective_pairing])

lemma demo_spent_run: "l2_run demo_l2_config empty_l2 demo_spent"
  unfolding demo_spent_def by (meson demo_queued_run demo_round_run rtranclp_trans)

lemma demo_spent_result:
  "launches demo_key demo_spent = 3 \<and> completed demo_key demo_spent \<and> outcomes demo_key demo_spent = 1"
  by code_simp




theorem consumer_speaks_the_table_witness:
  "lw_events demo_spent \<noteq> [] \<and> le_name (last (lw_events demo_spent)) \<in> snd ` fst ` set T \<union> set INFO_EVENTS"
proof -
  have "lw_events demo_spent \<noteq> []" using demo_spent_result by (auto simp: outcomes_def)
  then show ?thesis using consumer_speaks_the_table [OF demo_spent_run last_in_set] by blast
qed

definition demo_record :: l2_record where
  "demo_record = \<lparr>lr_key = demo_key, lr_packet = ''p1'', lr_run = ''r1'', lr_attempt = 1, lr_reason = ''send_l2'',
     lr_created = 0, lr_request = JNull, lr_revision = JNull\<rparr>"

lemma demo_pending: "iter_pending demo_queued = [demo_record]"
  by code_simp

theorem drain_leaves_nothing_behind_witness:
  "settled (snd (drain demo_l2_config 1000 True (\<lambda>r. Inr True) None demo_queued)) demo_key
   \<and> settled (snd (drain demo_l2_config 10 False (\<lambda>r. Inl ValueError) None demo_queued)) demo_key"
proof -
  have "demo_record \<in> set (iter_pending demo_queued)" "lr_key demo_record = demo_key"
    by (simp_all add: demo_pending demo_record_def)
  moreover have "lc_max_age demo_l2_config < 1000 - lr_created demo_record"
    by (simp add: demo_l2_config_def demo_record_def)
  ultimately show ?thesis using drain_leaves_nothing_behind [of demo_record demo_queued] by metis
qed

section \<open>Two windows\<close>

text \<open>
  Publishing a verdict removes the claim. A drainer that looked for the marker before it was
  written finds the claim free and launches a completed request again.
\<close>

lemma claim_is_free_after_completion:
  assumes "complete cfg key content expected w = (Fresh result, w')" and "lr_key r = key"
  shows "completed key w' \<and> fst (try_claim now r w')"
  using assms(1)
  by (cases rule: complete_cases) (use assms in \<open>auto simp: complete_def completed_def dict_has_def try_claim_def
      drop_claim_def emit_l2_def split: option.splits\<close>)

text \<open>
  A request that was launched and reaped, and then aged while the provider is in backoff, is
  closed by the report of a stale consumer, which the packet state machine ignores: the packet
  stays where the verification left it.
\<close>

lemma stale_report_moves_nothing:
  "apply_event env (JObj [(''packet_id'', JStr pid), (''event'', JStr ''l2_consumer_stale''),
     (''source'', JStr ''l2_consumer'')]) st = Inr (None, st)"
  proof -
  have "JStr ''l2_consumer_stale'' \<in> JStr ` set INFO_EVENTS" by (simp add: INFO_EVENTS_def)
  then show ?thesis by (simp add: apply_event_def jget_or_def dict_get_or_def Let_def)
qed

lemma launched_request_is_aged_out:
  "let w = snd (drain demo_l2_config 1000 True (\<lambda>r. Inr True) None (demo_round 0 demo_queued)) in
   map le_name (lw_events w) = [''l2_requested'', ''l2_claim_reaped'', ''l2_consumer_stale'']
   \<and> map_of (lw_completions w) demo_key = Some Stale_escalated"
  by code_simp

section \<open>Enqueueing\<close>

lemma lower_idem [simp]: "py_lower (py_lower s) = py_lower s"
  by (auto simp: py_lower_def lower_char_def Let_def of_char_of)

lemma in_range_nat: "in_range a b c = ((of_char a :: nat) \<le> of_char c \<and> (of_char c :: nat) \<le> of_char b)"
proof -
  have "(of_char c :: int) = int (of_char c)" for c by (rule of_nat_of_char [symmetric])
  then show ?thesis unfolding in_range_def by (metis of_nat_le_iff)
qed

lemma base32_lower: "list_all base32_char s \<Longrightarrow> list_all base32_char (py_lower s)"
  by (auto simp: py_lower_def list_all_iff base32_char_def is_letter_def in_range_nat lower_char_def Let_def)


lemma safe_pid_chars: "l2_safe_pid pid \<Longrightarrow> list_all l2_pid_char pid \<and> pid \<noteq> [] \<and> length pid \<le> 96"
  by (auto simp: l2_safe_pid_def l2_pid_char_def split: list.splits)

lemma colon_ends_pid: "\<not> l2_pid_char CHR '':''"
  by code_simp

definition base32_digest :: "(string \<Rightarrow> string) \<Rightarrow> bool" where
  "base32_digest d = (\<forall>s. list_all base32_char (d s) \<and> 16 \<le> length (d s))"

lemma made_key_is_canonical:
  assumes "make_idem_key d pid run att = Inr key" and "base32_digest d"
  shows "canonical_key key = Some key"
proof -
  obtain s where key: "key = key_prefix @ pid @ '':'' @ take 16 (py_lower (d s))" and pid: "l2_safe_pid pid"
    using assms(1) by (auto simp: make_idem_key_def simp del: decimal.simps split: if_splits)
  let ?suffix = "take 16 (py_lower (d s))"
  have long: "16 \<le> length (py_lower (d s))" and chars: "list_all base32_char (py_lower (d s))"
    using assms(2) base32_lower [of "d s"] by (simp_all add: base32_digest_def py_lower_def)
  have "py_lower ?suffix = take 16 (py_lower (py_lower (d s)))"
    unfolding py_lower_def by (simp only: take_map)
  then have "py_lower ?suffix = ?suffix" by (simp only: lower_idem)
  moreover have "length ?suffix = 16" using long by simp
  moreover have "list_all base32_char ?suffix"
    using chars by (meson in_set_takeD list_all_iff)
  ultimately have suffix: "py_lower ?suffix = ?suffix" "length ?suffix = 16" "list_all base32_char ?suffix" by blast+
  have "takeWhile l2_pid_char (pid @ CHR '':'' # ?suffix) = pid"
    using safe_pid_chars [OF pid] colon_ends_pid by (simp add: list_all_iff takeWhile_tail)
  then show ?thesis
    using safe_pid_chars [OF pid] suffix unfolding key canonical_key_def Let_def by simp
qed

lemma from_dict_to_json: "canonical_key (lr_key r) = Some (lr_key r) \<Longrightarrow> from_dict (to_json r) = Inr r"
  by (simp add: from_dict_def to_json_def string_field_def jget_or_def jget_def dict_get_or_def py_float.simps py_int.simps)

text \<open>Enqueueing puts exactly the request on the queue, as every later reader of the file
  parses it; enqueueing the same packet, run and attempt again, at any time and for any reason, adds
  nothing. The digest is base 32 and at least sixteen characters long.\<close>

theorem enqueue_is_idempotent:
  assumes "base32_digest d" and "enqueue d now pid run att why req revision w = (Inr (Some r), w')"
  shows "iter_pending w' = iter_pending w @ [r]
    \<and> lr_packet r = pid \<and> lr_run r = run \<and> lr_attempt r = att \<and> lr_created r = now
    \<and> enqueue d now' pid run att why' req' revision' w' = (Inr None, w')"
proof -
  obtain key where key: "make_idem_key d pid run att = Inr key"
    using assms(2) by (auto simp: enqueue_def split: sum.splits)
  have r: "r = \<lparr>lr_key = key, lr_packet = pid, lr_run = run, lr_attempt = att, lr_reason = why,
      lr_created = now, lr_request = req, lr_revision = revision\<rparr>"
    and w': "w' = w\<lparr>lw_pending := lw_pending w @ [Some (to_json r)]\<rparr>"
    using assms(2) by (auto simp: enqueue_def key Let_def split: if_splits)
  have "from_dict (to_json r) = Inr r"
    by (rule from_dict_to_json) (simp add: r made_key_is_canonical [OF key assms(1)])
  then have "iter_pending w' = iter_pending w @ [r]"
    by (simp add: w' iter_pending_def)
  then show ?thesis by (simp add: r enqueue_def key)
qed

theorem enqueue_is_idempotent_witness:
  "iter_pending demo_queued = [demo_record]
   \<and> enqueue demo_digest 77 ''p1'' ''r1'' 1 ''retry'' JNull JNull demo_queued = (Inr None, demo_queued)"
proof -
  have digest: "base32_digest demo_digest" by (simp add: base32_digest_def demo_digest_def) code_simp
  have "fst (enqueue demo_digest 0 ''p1'' ''r1'' 1 ''send_l2'' JNull JNull empty_l2) = Inr (Some demo_record)"
    by code_simp
  then have "enqueue demo_digest 0 ''p1'' ''r1'' 1 ''send_l2'' JNull JNull empty_l2
      = (Inr (Some demo_record), demo_queued)"
    unfolding demo_queued_def by (metis prod.collapse)
  from enqueue_is_idempotent [OF digest this] show ?thesis
    by (simp add: iter_pending_def empty_l2_def)
qed

text \<open>Distinct canonical keys have distinct file names.\<close>

lemma canonical_shape:
  assumes "canonical_key key = Some key"
  obtains pid tail where "key = key_prefix @ pid @ CHR '':'' # tail" "list_all l2_pid_char pid"
    "list_all (\<lambda>c. base32_char c \<or> c = CHR 0x0A) tail" 
  using assms
proof -
  define rest where "rest = drop (length key_prefix) key"
  define pid where "pid = takeWhile l2_pid_char rest"
  define tail where "tail = drop (length pid) rest"
  have shape: "prefix key_prefix key" "17 \<le> length tail" "hd tail = CHR '':''"
      "list_all base32_char (take 16 (tl tail))" "drop 17 tail = [] \<or> drop 17 tail = [CHR 0x0A]"
    using assms unfolding canonical_key_def Let_def rest_def [symmetric] pid_def [symmetric] tail_def [symmetric]
    by (auto split: if_splits)
  have "pid @ tail = rest" by (simp add: pid_def tail_def flip: dropWhile_eq_drop)
  then have "key = key_prefix @ pid @ tail" using shape(1) by (auto simp: rest_def elim: prefixE)
  moreover obtain rest' where tail: "tail = CHR '':'' # rest'" using shape(2,3) by (cases tail) auto
  moreover have "list_all (\<lambda>c. base32_char c \<or> c = CHR 0x0A) rest'"
  proof -
    have "rest' = take 16 rest' @ drop 16 rest'" by simp
    moreover have "list_all base32_char (take 16 rest')" "drop 16 rest' = [] \<or> drop 16 rest' = [CHR 0x0A]"
      using shape(4,5) tail by simp_all
    ultimately show ?thesis unfolding list_all_iff by (metis UnE empty_iff empty_set list.set_intros(1) set_ConsD set_append)
  qed
  moreover have "list_all l2_pid_char pid" by (auto simp: pid_def list_all_iff dest: set_takeWhileD)
  ultimately show ?thesis using that by blast
qed


lemma colon_absent:
  "list_all l2_pid_char pid \<Longrightarrow> CHR '':'' \<notin> set pid"
  "list_all (\<lambda>c. base32_char c \<or> c = CHR 0x0A) tail \<Longrightarrow> CHR '':'' \<notin> set tail"
proof -
  have "\<not> base32_char CHR '':''" by code_simp
  then show "list_all (\<lambda>c. base32_char c \<or> c = CHR 0x0A) tail \<Longrightarrow> CHR '':'' \<notin> set tail"
    by (auto simp: list_all_iff)
  show "list_all l2_pid_char pid \<Longrightarrow> CHR '':'' \<notin> set pid"
    using colon_ends_pid by (auto simp: list_all_iff)
qed


lemma append_sep_eq:
  assumes "x \<notin> set a" and "x \<notin> set b" and "a @ x # s = b @ x # t"
  shows "a = b \<and> s = t"
  using assms
proof (induction a arbitrary: b)
  case Nil
  then show ?case by (cases b) auto
next
  case (Cons c a)
  then show ?case by (cases b) auto
qed

lemma stem_parts: "stem (xs @ ys) = stem xs @ stem ys" "CHR '':'' \<notin> set xs \<Longrightarrow> stem xs = xs"
  by (auto simp: stem_def intro!: map_idI)

text \<open>The suffix has no underscore, so the last one ends the packet id, whatever that holds.\<close>

lemma stem_injective:
  assumes "canonical_key k = Some k" and "canonical_key k' = Some k'" and "stem k = stem k'"
  shows "k = k'"
proof -
  obtain pid tail where k: "k = key_prefix @ pid @ CHR '':'' # tail" "CHR '':'' \<notin> set pid" "CHR '':'' \<notin> set tail"
      and tail: "list_all (\<lambda>c. base32_char c \<or> c = CHR 0x0A) tail"
    using canonical_shape [OF assms(1)] colon_absent by metis
  obtain pid' tail' where k': "k' = key_prefix @ pid' @ CHR '':'' # tail'" "CHR '':'' \<notin> set pid'" "CHR '':'' \<notin> set tail'"
      and tail': "list_all (\<lambda>c. base32_char c \<or> c = CHR 0x0A) tail'"
    using canonical_shape [OF assms(2)] colon_absent by metis
  have bar: "\<not> base32_char CHR ''_''" by code_simp
  have "stem (CHR '':'' # xs) = CHR ''_'' # stem xs" for xs by (simp add: stem_def)
  then have "pid @ CHR ''_'' # tail = pid' @ CHR ''_'' # tail'"
    using assms(3) k k' by (simp add: stem_parts)
  then have "rev tail @ CHR ''_'' # rev pid = rev tail' @ CHR ''_'' # rev pid'"
    by (metis append_assoc append_Cons append_Nil rev.simps(2) rev_append)
  then have "rev tail = rev tail' \<and> rev pid = rev pid'"
    using tail tail' bar by (intro append_sep_eq) (auto simp: list_all_iff)
  then show ?thesis using k(1) k'(1) by simp
qed

end
