(* ===== verification/Duty.thy ===== *)
theory Duty
  imports SM_Machine
begin

text \<open>
  The duty officer's lane: the whitelist gate of a ruling, \<open>src/harness/duty_gate.py\<close>, the
  adjudication of a packet in duty review, \<open>src/harness/duty_route.py\<close>, and the drain of the
  tickets that the retry script left, \<open>src/harness/duty_driver.py\<close>. The officer is a process
  the lane starts, hence the argument \<open>de_officer\<close>; the texts of rejection reasons, which
  render arbitrary values, are the argument \<open>de_render\<close>.
\<close>

section \<open>The gate\<close>

datatype gate_reason =
    Free_text
  | Off_whitelist "string list"
  | Illegal_class json
  | Evidence_missing
  | Evidence_no_lines
  | Hint_class_illegal json
  | Hint_not_string
  | Hint_too_long nat
  | Confidence_illegal json
  | Confidence_below rat

definition LEGAL_CLASSES :: "string list" where
  "LEGAL_CLASSES = [''retryable'', ''fixable'', ''terminal'']"

definition ALLOWED_KEYS :: "string list" where
  "ALLOWED_KEYS = [''class'', ''evidence'', ''confidence'', ''progress_ledger_delta'', ''fix_hint'']"

definition FIX_HINT_MAX :: nat where
  "FIX_HINT_MAX = 200"

definition safe_pid_filename :: "json \<Rightarrow> bool" where
  "safe_pid_filename pid = (case pid of JStr s \<Rightarrow> valid_pid s | _ \<Rightarrow> False)"

text \<open>\<open>LINE_PTR_RE.search\<close> finds a digit.\<close>

definition line_pointer :: "json \<Rightarrow> bool" where
  "line_pointer e = (case e of JStr s \<Rightarrow> list_ex is_digit s | _ \<Rightarrow> False)"

definition evidence_reasons :: "json \<Rightarrow> gate_reason list" where
  "evidence_reasons ev = (case ev of
     JList xs \<Rightarrow> if xs = [] then [Evidence_missing]
                else if list_all line_pointer xs then [] else [Evidence_no_lines]
   | _ \<Rightarrow> [Evidence_missing])"

definition hint_reasons :: "jobj \<Rightarrow> gate_reason list" where
  "hint_reasons d =
     (if \<not> dict_has ''fix_hint'' d then []
      else (if jget d ''class'' \<noteq> JStr ''fixable'' then [Hint_class_illegal (jget d ''class'')] else [])
         @ (case jget d ''fix_hint'' of
              JStr s \<Rightarrow> if py_strip s = [] then [Hint_not_string]
                        else if FIX_HINT_MAX < length s then [Hint_too_long (length s)] else []
            | _ \<Rightarrow> [Hint_not_string]))"

definition confidence_reasons :: "rat \<Rightarrow> json \<Rightarrow> gate_reason list" where
  "confidence_reasons theta conf =
     (case conf of
        JInt n \<Rightarrow> if n < 0 \<or> 1 < n then [Confidence_illegal conf]
                  else if of_int n < theta then [Confidence_below (of_int n)] else []
      | JFloat x \<Rightarrow> if x < 0 \<or> 1 < x then [Confidence_illegal conf]
                    else if x < theta then [Confidence_below x] else []
      | _ \<Rightarrow> [Confidence_illegal conf])"

text \<open>An empty object skips every check; a class that is a list or an object raises.\<close>

definition gate_reasons :: "rat \<Rightarrow> json option \<Rightarrow> py_error + gate_reason list" where
  "gate_reasons theta raw =
     (case raw of
        Some (JObj d) \<Rightarrow>
          if d = [] then Inr []
          else if \<not> hashable (jget d ''class'') then Inl TypeError
          else (let extra = filter (\<lambda>k. k \<notin> set ALLOWED_KEYS) (map fst d) in
                Inr ((if extra = [] then [] else [Off_whitelist extra])
                   @ (if jget d ''class'' \<in> JStr ` set LEGAL_CLASSES then [] else [Illegal_class (jget d ''class'')])
                   @ evidence_reasons (jget d ''evidence'')
                   @ hint_reasons d
                   @ confidence_reasons theta (jget d ''confidence'')))
      | _ \<Rightarrow> Inr [Free_text])"

text \<open>The line the gate prints; a gate that raises prints none and exits with 1.\<close>

datatype gate_output =
    Rejected "gate_reason list"
  | Recorded json json
  | Valid json json
  | No_output

type_synonym hint_store = "(string \<times> json) dict"

text \<open>\<open>None\<close> is an exception or the exit of \<open>safe_pid_filename\<close>.\<close>

definition persist_fix_hint :: "bool \<Rightarrow> jobj \<Rightarrow> hint_store \<Rightarrow> hint_store option" where
  "persist_fix_hint io d store =
     (case py_or (jget d ''progress_ledger_delta'') (JObj []) of
        JObj delta \<Rightarrow>
          (let pid = jget delta ''packet_id'' in
           if \<not> truthy pid \<or> jget d ''class'' \<noteq> JStr ''fixable'' \<or> \<not> dict_has ''fix_hint'' d then Some store
           else (case pid of
                   JStr s \<Rightarrow>
                     if \<not> safe_pid_filename pid then None
                     else if io then Some (dict_set s (''fixable'', jget d ''fix_hint'') store) else Some store
                 | _ \<Rightarrow> None))
      | _ \<Rightarrow> None)"

definition duty_gate :: "rat \<Rightarrow> bool \<Rightarrow> bool \<Rightarrow> json option \<Rightarrow> hint_store \<Rightarrow> nat \<times> gate_output \<times> hint_store" where
  "duty_gate theta enforce io raw store =
     (case gate_reasons theta raw of
        Inl e \<Rightarrow> (1, No_output, store)
      | Inr (r # rs) \<Rightarrow> (1, Rejected (r # rs), store)
      | Inr [] \<Rightarrow>
          (let d = (case raw of Some (JObj d) \<Rightarrow> d | _ \<Rightarrow> []) in
           if \<not> enforce
           then (if d = [] then (1, No_output, store)
                 else (3, Recorded (jget d ''class'') (jget d ''confidence''), store))
           else (case persist_fix_hint io d store of
                   None \<Rightarrow> (1, No_output, store)
                 | Some store' \<Rightarrow> if d = [] then (1, No_output, store')
                                  else (0, Valid (jget d ''class'') (jget d ''confidence''), store'))))"

section \<open>Adjudication\<close>

definition OUTCOMES :: "(string \<times> string) list" where
  "OUTCOMES = [(''retryable'', ''duty_retryable''), (''fixable'', ''duty_fixable''), (''terminal'', ''duty_terminal'')]"

record duty_world =
  dw_ledger :: "packet dict"
  dw_events :: "json option list"
  dw_hints :: hint_store

text \<open>
  The officer gets the packet id and the failure text and returns an error message, or the lines of
  its last message with the model and effort it ran with. A ruling file or a file of failure text is an
  error message or its content.
\<close>

record duty_env =
  de_now :: rat
  de_enforce :: bool
  de_hint_io :: bool
  de_officer :: "string \<Rightarrow> string \<Rightarrow> string + (json option list \<times> string \<times> string)"
  de_render :: "gate_reason \<Rightarrow> string"

text \<open>A line that is not JSON is skipped; one that is no object raises.\<close>

fun prior_outcome :: "string \<Rightarrow> json option list \<Rightarrow> py_error + string option" where
  "prior_outcome pid [] = Inr None"
| "prior_outcome pid (line # rest) =
     (case line of
        None \<Rightarrow> prior_outcome pid rest
      | Some (JObj ev) \<Rightarrow>
          (case jget ev ''event'' of
             JStr e \<Rightarrow> if jget ev ''packet_id'' = JStr pid \<and> e \<in> set (map snd OUTCOMES) then Inr (Some e)
                       else prior_outcome pid rest
           | _ \<Rightarrow> prior_outcome pid rest)
      | Some _ \<Rightarrow> Inl AttributeError)"

definition extract_ruling :: "json option list \<Rightarrow> string + jobj" where
  "extract_ruling lines =
     (case List.find (\<lambda>v. case v of Some (JObj d) \<Rightarrow> True | _ \<Rightarrow> False) (rev lines) of
        Some (Some (JObj d)) \<Rightarrow> Inr d
      | _ \<Rightarrow> Inl ''duty officer output contains no JSON object'')"

definition spawn_ruling :: "duty_env \<Rightarrow> string \<Rightarrow> string \<Rightarrow> string + (jobj \<times> jobj)" where
  "spawn_ruling env pid error_text =
     (case de_officer env pid (take_last 8000 error_text) of
        Inl message \<Rightarrow> Inl message
      | Inr (lines, model, effort) \<Rightarrow>
          (case extract_ruling lines of
             Inl message \<Rightarrow> Inl message
           | Inr ruling \<Rightarrow> Inr (ruling,
               [(''model'', JStr model), (''reasoning_effort'', JStr effort),
                (''events_path'', JStr (''data/duty_rulings/'' @ pid @ ''.events.jsonl'')),
                (''last_message_path'', JStr (''data/duty_rulings/'' @ pid @ ''.last_message.txt''))])))"

definition gate_json :: "duty_env \<Rightarrow> gate_output \<Rightarrow> json" where
  "gate_json env out = (case out of
     Rejected rs \<Rightarrow> JObj [(''gate'', JStr ''DEAD_LETTER''), (''reasons'', JList (map (JStr \<circ> de_render env) rs))]
   | Recorded c conf \<Rightarrow> JObj [(''gate'', JStr ''RECORDED_NOT_ENFORCED''), (''class'', c), (''confidence'', conf)]
   | Valid c conf \<Rightarrow> JObj [(''gate'', JStr ''VALID''), (''class'', c), (''confidence'', conf)]
   | No_output \<Rightarrow> JObj [(''gate'', JStr ''DEAD_LETTER''), (''reasons'', JList [JStr ''gate output invalid''])])"

definition with_packet_id :: "string \<Rightarrow> jobj \<Rightarrow> jobj" where
  "with_packet_id pid ruling =
     dict_set ''progress_ledger_delta''
       (JObj (dict_set ''packet_id'' (JStr pid) (obj_of (jget ruling ''progress_ledger_delta'')))) ruling"

definition gate_ruling :: "duty_env \<Rightarrow> string \<Rightarrow> jobj \<Rightarrow> bool \<Rightarrow> rat \<Rightarrow> hint_store \<Rightarrow> string \<times> json \<times> hint_store" where
  "gate_ruling env pid ruling enforce theta store =
     (let ruling' = with_packet_id pid ruling;
          (code, out, store') = duty_gate theta enforce (de_hint_io env) (Some (JObj ruling')) store;
          event = (if code \<in> {0, 3}
                   then (case jget ruling' ''class'' of
                           JStr c \<Rightarrow> (case map_of OUTCOMES c of Some e \<Rightarrow> e | None \<Rightarrow> ''duty_terminal'')
                         | _ \<Rightarrow> ''duty_terminal'')
                   else ''duty_terminal'')
      in (event, gate_json env out, store'))"

definition duty_event :: "rat \<Rightarrow> string \<Rightarrow> string \<Rightarrow> jobj \<Rightarrow> json" where
  "duty_event now pid event detail =
     JObj [(''ts'', JFloat now), (''packet_id'', JStr pid), (''event'', JStr event), (''detail'', JObj detail)]"

text \<open>The append under the lock, after a second look for a prior outcome.\<close>

definition commit_outcome ::
  "rat \<Rightarrow> string \<Rightarrow> string \<Rightarrow> jobj \<Rightarrow> duty_world \<Rightarrow> py_error + (bool \<times> duty_world)" where
  "commit_outcome now pid event detail w =
     (case prior_outcome pid (dw_events w) of
        Inl e \<Rightarrow> Inl e
      | Inr (Some _) \<Rightarrow> Inr (False, w)
      | Inr None \<Rightarrow> Inr (True, w\<lparr>dw_events := dw_events w @ [Some (duty_event now pid event detail)]\<rparr>))"

definition state_in :: "packet dict \<Rightarrow> string \<Rightarrow> string option" where
  "state_in ledger pid = map_option p_state (map_of ledger pid)"

datatype ruling_source = Ruling_file string "string + json" | Officer "(string + string) option"

text \<open>
  What becomes of the ruling: \<open>None\<close> is the usage error of a missing failure text; a ruling file
  that is no object raises.
\<close>

definition obtain_ruling :: "duty_env \<Rightarrow> string \<Rightarrow> ruling_source \<Rightarrow> py_error + (string + (jobj \<times> jobj)) option" where
  "obtain_ruling env pid src =
     (case src of
        Ruling_file path (Inl message) \<Rightarrow> Inr (Some (Inl message))
      | Ruling_file path (Inr (JObj d)) \<Rightarrow> Inr (Some (Inr (d, [(''ruling_path'', JStr path)])))
      | Ruling_file path (Inr v) \<Rightarrow> Inl AttributeError
      | Officer None \<Rightarrow> Inr None
      | Officer (Some (Inl message)) \<Rightarrow> Inr (Some (Inl message))
      | Officer (Some (Inr text)) \<Rightarrow> Inr (Some (spawn_ruling env pid text)))"

text \<open>
  \<open>adjudicate\<close>: the function \<open>between\<close> is what other processes do to the files from the first look
  at the event stream until the lock is taken.
\<close>

definition adjudicate ::
  "duty_env \<Rightarrow> (duty_world \<Rightarrow> duty_world) \<Rightarrow> string \<Rightarrow> ruling_source \<Rightarrow> rat \<Rightarrow> bool option \<Rightarrow> duty_world
     \<Rightarrow> py_error + (nat \<times> duty_world)" where
  "adjudicate env between pid src theta enforce_arg w =
     (if state_in (dw_ledger w) pid \<noteq> Some ''DUTY_REVIEW'' then Inr (2, w)
      else case prior_outcome pid (dw_events w) of
        Inl e \<Rightarrow> Inl e
      | Inr (Some _) \<Rightarrow> Inr (3, w)
      | Inr None \<Rightarrow>
          (let enforce = (case enforce_arg of Some b \<Rightarrow> b | None \<Rightarrow> de_enforce env) in
           case obtain_ruling env pid src of
             Inl e \<Rightarrow> Inl e
           | Inr None \<Rightarrow> Inr (2, w)
           | Inr (Some got) \<Rightarrow>
               (let (event, detail, hints) =
                      (case got of
                         Inl message \<Rightarrow>
                           (''duty_terminal'',
                            [(''class'', JNull), (''confidence'', JNull),
                             (''gate'', JObj [(''gate'', JStr ''DEAD_LETTER''), (''reasons'', JList [JStr message])]),
                             (''enforce'', JBool enforce), (''theta'', JFloat theta), (''error'', JStr message)],
                            dw_hints w)
                       | Inr (ruling, source) \<Rightarrow>
                           (let (event, gate, hints) = gate_ruling env pid ruling enforce theta (dw_hints w) in
                            (event,
                             [(''class'', jget ruling ''class''), (''confidence'', jget ruling ''confidence''),
                              (''gate'', gate), (''enforce'', JBool enforce), (''theta'', JFloat theta)] @ source,
                             hints)));
                    w1 = between (w\<lparr>dw_hints := hints\<rparr>)
                in case commit_outcome (de_now env) pid event detail w1 of
                     Inl e \<Rightarrow> Inl e
                   | Inr (False, w2) \<Rightarrow> Inr (3, w2)
                   | Inr (True, w2) \<Rightarrow> Inr (if event \<noteq> ''duty_terminal'' then 0 else 1, w2))))"

text \<open>\<open>record_terminal\<close>: the same gates, for a ticket without a failure text.\<close>

definition record_terminal ::
  "duty_env \<Rightarrow> (duty_world \<Rightarrow> duty_world) \<Rightarrow> string \<Rightarrow> string \<Rightarrow> duty_world \<Rightarrow> py_error + (nat \<times> duty_world)" where
  "record_terminal env between pid reason w =
     (if state_in (dw_ledger w) pid \<noteq> Some ''DUTY_REVIEW'' then Inr (2, w)
      else case prior_outcome pid (dw_events w) of
        Inl e \<Rightarrow> Inl e
      | Inr (Some _) \<Rightarrow> Inr (3, w)
      | Inr None \<Rightarrow>
          (let gate = JObj [(''gate'', JStr ''DEAD_LETTER''), (''reasons'', JList [JStr reason])] in
           case commit_outcome (de_now env) pid ''duty_terminal''
                  [(''class'', JNull), (''confidence'', JNull), (''gate'', gate), (''error'', JStr reason)] (between w) of
             Inl e \<Rightarrow> Inl e
           | Inr (False, w2) \<Rightarrow> Inr (3, w2)
           | Inr (True, w2) \<Rightarrow> Inr (1, w2)))"

section \<open>The driver\<close>

text \<open>
  A ticket file parses to a value or is unreadable (\<open>None\<close>). Tickets whose packet id is not a
  string are left out. The failure text is written to a file, which may fail.
\<close>

definition load_tickets :: "json option list \<Rightarrow> (string \<times> jobj) list" where
  "load_tickets files = concat (map (\<lambda>f. case f of
     Some (JObj d) \<Rightarrow> (case jget d ''packet_id'' of JStr pid \<Rightarrow> if pid = [] then [] else [(pid, d)] | _ \<Rightarrow> [])
   | _ \<Rightarrow> []) files)"

definition materialize_error :: "bool \<Rightarrow> jobj \<Rightarrow> string option" where
  "materialize_error io ticket =
     (case jget ticket ''error'' of JStr s \<Rightarrow> if s = [] \<or> \<not> io then None else Some s | _ \<Rightarrow> None)"

definition drain_ticket ::
  "duty_env \<Rightarrow> (duty_world \<Rightarrow> duty_world) \<Rightarrow> bool \<Rightarrow> (string \<times> (string + json)) option \<Rightarrow> rat \<Rightarrow> bool option
     \<Rightarrow> string \<times> jobj \<Rightarrow> nat \<times> duty_world \<Rightarrow> py_error + (nat \<times> duty_world)" where
  "drain_ticket env between io ruling theta enforce_arg ticket acc =
     (case acc of (worst, w) \<Rightarrow>
        (let pid = fst ticket;
             error_text = materialize_error io (snd ticket);
             result = (case ruling of
                 Some (path, content) \<Rightarrow> adjudicate env between pid (Ruling_file path content) theta enforce_arg w
               | None \<Rightarrow> (if error_text = None then record_terminal env between pid ''duty ticket has no failure text'' w
                         else adjudicate env between pid (Officer (map_option Inr error_text)) theta enforce_arg w))
         in case result of
              Inl e \<Rightarrow> Inl e
            | Inr (rc, w') \<Rightarrow>
                Inr (if rc = 1 then 1 else if rc = 2 then max worst 2 else if rc = 3 then max worst 3 else worst, w')))"

definition drain_tickets ::
  "duty_env \<Rightarrow> (duty_world \<Rightarrow> duty_world) \<Rightarrow> bool \<Rightarrow> (string \<times> (string + json)) option \<Rightarrow> rat \<Rightarrow> bool option
     \<Rightarrow> json option list \<Rightarrow> duty_world \<Rightarrow> py_error + (nat \<times> duty_world)" where
  "drain_tickets env between io ruling theta enforce_arg files w =
     run_steps (drain_ticket env between io ruling theta enforce_arg) (load_tickets files) (0, w)"

end
