(* ===== verification/Duty_Properties.thy ===== *)
theory Duty_Properties
  imports Duty Retry_Routing
begin

text \<open>
  The duty lane: what the gate lets through, that a packet is ruled on at most once whatever
  runs at the same time, how the exit codes report what was appended, and what the packet
  state machine makes of an outcome.
\<close>

section \<open>The whitelist\<close>

definition ruling_contract :: "rat \<Rightarrow> jobj \<Rightarrow> bool" where
  "ruling_contract theta d \<longleftrightarrow>
     d \<noteq> [] \<and> fst ` set d \<subseteq> {''class'', ''evidence'', ''confidence'', ''progress_ledger_delta'', ''fix_hint''}
     \<and> jget d ''class'' \<in> {JStr ''retryable'', JStr ''fixable'', JStr ''terminal''}
     \<and> (\<exists>xs. jget d ''evidence'' = JList xs \<and> xs \<noteq> []
          \<and> (\<forall>x \<in> set xs. \<exists>s. x = JStr s \<and> (\<exists>c \<in> set s. is_digit c)))
     \<and> (dict_has ''fix_hint'' d \<longrightarrow> jget d ''class'' = JStr ''fixable''
          \<and> (\<exists>s. jget d ''fix_hint'' = JStr s \<and> py_strip s \<noteq> [] \<and> length s \<le> 200))
     \<and> (\<exists>q. (jget d ''confidence'' = JFloat q \<or> (\<exists>n. jget d ''confidence'' = JInt n \<and> q = of_int n))
          \<and> 0 \<le> q \<and> q \<le> 1 \<and> theta \<le> q)"

lemma evidence_ok:
  "evidence_reasons ev = [] \<longleftrightarrow>
     (\<exists>xs. ev = JList xs \<and> xs \<noteq> [] \<and> (\<forall>x \<in> set xs. \<exists>s. x = JStr s \<and> (\<exists>c \<in> set s. is_digit c)))"
proof -
  have "line_pointer x \<longleftrightarrow> (\<exists>s. x = JStr s \<and> (\<exists>c \<in> set s. is_digit c))" for x
    by (cases x) (simp_all add: line_pointer_def list_ex_iff)
  then show ?thesis by (cases ev) (simp_all add: evidence_reasons_def list_all_iff)
qed

lemma hint_ok:
  "hint_reasons d = [] \<longleftrightarrow>
     (dict_has ''fix_hint'' d \<longrightarrow> jget d ''class'' = JStr ''fixable''
          \<and> (\<exists>s. jget d ''fix_hint'' = JStr s \<and> py_strip s \<noteq> [] \<and> length s \<le> 200))"
  by (auto simp: hint_reasons_def FIX_HINT_MAX_def split: json.splits)

lemma confidence_ok:
  "confidence_reasons theta conf = [] \<longleftrightarrow>
     (\<exists>q. (conf = JFloat q \<or> (\<exists>n. conf = JInt n \<and> q = of_int n)) \<and> 0 \<le> q \<and> q \<le> 1 \<and> theta \<le> q)"
  by (auto simp: confidence_reasons_def not_less split: json.splits if_splits)

lemma class_ok: "c \<in> JStr ` set LEGAL_CLASSES \<longleftrightarrow> c \<in> {JStr ''retryable'', JStr ''fixable'', JStr ''terminal''}"
  by (auto simp: LEGAL_CLASSES_def)

lemma keys_ok: "filter (\<lambda>k. k \<notin> set ALLOWED_KEYS) (map fst d) = [] \<longleftrightarrow>
    fst ` set d \<subseteq> {''class'', ''evidence'', ''confidence'', ''progress_ledger_delta'', ''fix_hint''}"
  unfolding ALLOWED_KEYS_def filter_empty_conv set_map by auto

lemma if_nil: "(if P then [] else [x]) = [] \<longleftrightarrow> P"
  by simp

lemma gate_reasons_none:
  "gate_reasons theta raw = Inr [] \<longleftrightarrow> raw = Some (JObj []) \<or> (\<exists>d. raw = Some (JObj d) \<and> ruling_contract theta d)"
proof (cases "\<exists>d. raw = Some (JObj d) \<and> d \<noteq> []")
  case False
  then show ?thesis by (auto simp: gate_reasons_def ruling_contract_def split: option.splits json.splits)
next
  case True
  then obtain d where raw: "raw = Some (JObj d)" "d \<noteq> []" by blast
  show ?thesis
  proof (cases "hashable (jget d ''class'')")
    case True
    then show ?thesis using raw
      by (simp add: gate_reasons_def ruling_contract_def Let_def class_ok evidence_ok hint_ok confidence_ok keys_ok
          if_nil split del: if_split)
  next
    case False
    then show ?thesis using raw by (auto simp: gate_reasons_def ruling_contract_def)
  qed
qed


lemma gate_codes:
  "let (code, out, store') = duty_gate theta enforce io raw store in
     (code \<in> {0, 3} \<longleftrightarrow> (\<exists>d. raw = Some (JObj d) \<and> ruling_contract theta d
        \<and> (enforce \<longrightarrow> persist_fix_hint io d store \<noteq> None)))
     \<and> (code \<in> {0, 3} \<longrightarrow> code = (if enforce then 0 else 3))
     \<and> (code \<notin> {0, 3} \<longrightarrow> code = 1) \<and> (code \<noteq> 0 \<longrightarrow> store' = store)"
proof (cases "gate_reasons theta raw")
  case (Inl e)
  then have "\<not> (\<exists>d. raw = Some (JObj d) \<and> ruling_contract theta d)"
    using gate_reasons_none [of theta raw] by auto
  then show ?thesis by (auto simp: duty_gate_def Inl)
next
  case (Inr rs)
  show ?thesis
  proof (cases rs)
    case Cons
    then have "\<not> (\<exists>d. raw = Some (JObj d) \<and> ruling_contract theta d)"
      using gate_reasons_none [of theta raw] Inr by auto
    then show ?thesis by (auto simp: duty_gate_def Inr Cons)
  next
    case Nil
    then consider (empty) "raw = Some (JObj [])" | (ruling) d where "raw = Some (JObj d)" "ruling_contract theta d"
      using gate_reasons_none [of theta raw] Inr by blast
    then show ?thesis
    proof cases
      case empty
      have "gate_reasons theta (Some (JObj [])) = Inr []" using Inr Nil empty by simp
      then show ?thesis
        by (simp add: empty duty_gate_def ruling_contract_def persist_fix_hint_def jget_def dict_get_or_def py_or_def)
    next
      case ruling
      then have "d \<noteq> []" by (simp add: ruling_contract_def)
      moreover have "gate_reasons theta (Some (JObj d)) = Inr []" using Inr Nil ruling by simp
      ultimately show ?thesis using ruling by (auto simp: duty_gate_def split: option.splits)
    qed
  qed
qed


definition example_ruling :: jobj where
  "example_ruling = [(''class'', JStr ''fixable''), (''evidence'', JList [JStr ''report.md:41'']),
     (''confidence'', JFloat (9 / 10)), (''fix_hint'', JStr ''pin the version'')]"


lemma outcome_classes:
  "map_of OUTCOMES c = Some e \<longleftrightarrow> (c, e) \<in> set OUTCOMES"
  by (simp add: OUTCOMES_def) blast

section \<open>One ruling per packet\<close>

definition is_outcome :: "string \<Rightarrow> json option \<Rightarrow> bool" where
  "is_outcome pid line = (\<exists>ev. line = Some (JObj ev) \<and> jget ev ''packet_id'' = JStr pid
     \<and> jget ev ''event'' \<in> {JStr ''duty_retryable'', JStr ''duty_fixable'', JStr ''duty_terminal''})"

definition rulings_of :: "string \<Rightarrow> duty_world \<Rightarrow> json option list" where
  "rulings_of pid w = filter (is_outcome pid) (dw_events w)"

lemma outcome_line:
  "is_outcome pid (Some (JObj ev)) \<longleftrightarrow> jget ev ''packet_id'' = JStr pid
     \<and> (\<exists>e \<in> set (map snd OUTCOMES). jget ev ''event'' = JStr e)"
  by (auto simp: is_outcome_def OUTCOMES_def)

lemma prior_outcome_sound:
  "prior_outcome pid lines = Inr r \<Longrightarrow> r = None \<longleftrightarrow> filter (is_outcome pid) lines = []"
proof (induction lines)
  case Nil
  then show ?case by simp
next
  case (Cons line rest)
  show ?case
  proof (cases line)
    case None
    with Cons show ?thesis by (simp add: is_outcome_def)
  next
    case (Some v)
    show ?thesis
    proof (cases "\<exists>ev. v = JObj ev")
      case False
      with Cons.prems Some show ?thesis by (cases v) auto
    next
      case True
      then obtain ev where ev: "v = JObj ev" by blast
      show ?thesis
      proof (cases "is_outcome pid line")
        case True
        with Cons.prems Some ev show ?thesis by (force simp: outcome_line split: if_splits)
      next
        case False
        then have "prior_outcome pid (line # rest) = prior_outcome pid rest"
          using Some ev by (auto simp: outcome_line split: json.splits)
        with Cons False show ?thesis by simp
      qed
    qed
  qed
qed

text \<open>
  What any process does to the stream: a line that is no outcome, written by another component, or
  the locked append of an outcome.
\<close>

inductive duty_step :: "duty_world \<Rightarrow> duty_world \<Rightarrow> bool" where
  foreign: "(\<forall>pid. \<not> is_outcome pid line) \<Longrightarrow> duty_step w (w\<lparr>dw_events := dw_events w @ [line], dw_ledger := ledger\<rparr>)"
| hints: "duty_step w (w\<lparr>dw_hints := store\<rparr>)"
| committed: "commit_outcome now pid event detail w = Inr (written, w')
    \<Longrightarrow> event \<in> snd ` set OUTCOMES \<Longrightarrow> duty_step w w'"

abbreviation duty_run :: "duty_world \<Rightarrow> duty_world \<Rightarrow> bool" where
  "duty_run \<equiv> duty_step\<^sup>*\<^sup>*"

lemma commit_appends:
  assumes "commit_outcome now pid event detail w = Inr (written, w')"
  shows "if written then rulings_of pid w = [] \<and> dw_events w' = dw_events w @ [Some (duty_event now pid event detail)]
      else w' = w \<and> rulings_of pid w \<noteq> []"
  using assms prior_outcome_sound [of pid "dw_events w"]
  by (auto simp: commit_outcome_def rulings_of_def split: sum.splits option.splits)

lemma duty_event_outcome:
  "is_outcome pid' (Some (duty_event now pid event detail)) \<longleftrightarrow>
     pid' = pid \<and> event \<in> {''duty_retryable'', ''duty_fixable'', ''duty_terminal''}"
  by (auto simp: is_outcome_def duty_event_def jget_def dict_get_or_def)

lemma one_ruling_step:
  assumes "duty_step w w'" and "\<forall>pid. length (rulings_of pid w) \<le> 1"
  shows "length (rulings_of pid w') \<le> 1"
  using assms(1)
proof cases
  case (committed now pid' event detail written)
  show ?thesis
  proof (cases written)
    case True
    then have "rulings_of pid' w = []" "dw_events w' = dw_events w @ [Some (duty_event now pid' event detail)]"
      using commit_appends [OF committed(1)] by simp_all
    then show ?thesis using assms(2) by (cases "pid = pid'") (auto simp: rulings_of_def duty_event_outcome)
  next
    case False
    then show ?thesis using commit_appends [OF committed(1)] assms(2) by simp
  qed
qed (use assms(2) in \<open>simp_all add: rulings_of_def\<close>)


lemma gate_event:
  "fst (gate_ruling env pid ruling enforce theta store) \<in> snd ` set OUTCOMES"
proof -
  have "''duty_terminal'' \<in> snd ` set OUTCOMES" by (simp add: OUTCOMES_def)
  then show ?thesis
    by (auto simp: gate_ruling_def Let_def split_beta split: json.splits option.splits dest!: map_of_SomeD intro: rev_image_eqI)
qed

lemma source_attempt:
  "obtain_ruling env pid src = Inr (Some (Inr (ruling, source))) \<Longrightarrow> map_of source ''attempt'' = None"
  by (auto simp: obtain_ruling_def spawn_ruling_def split: ruling_source.splits sum.splits json.splits option.splits prod.splits)

text \<open>What an adjudication did: nothing, or one locked append of an outcome.\<close>

lemma adjudicate_cases:
  assumes "adjudicate env between pid src theta enforce_arg w = Inr (rc, w')"
  obtains (refused) "rc \<in> {2, 3}" "w' = w"
      "state_in (dw_ledger w) pid \<noteq> Some ''DUTY_REVIEW'' \<or> rulings_of pid w \<noteq> [] \<or> src = Officer None"
  | (ruled) event detail hints written where
      "state_in (dw_ledger w) pid = Some ''DUTY_REVIEW''" "rulings_of pid w = []" "event \<in> snd ` set OUTCOMES"
      "commit_outcome (de_now env) pid event detail (between (w\<lparr>dw_hints := hints\<rparr>)) = Inr (written, w')"
      "rc = (if written then if event = ''duty_terminal'' then 1 else 0 else 3)" "jget detail ''attempt'' = JNull"
      "event \<noteq> ''duty_terminal'' \<Longrightarrow> \<exists>ruling source. obtain_ruling env pid src = Inr (Some (Inr (ruling, source)))
         \<and> event = fst (gate_ruling env pid ruling (case enforce_arg of Some b \<Rightarrow> b | None \<Rightarrow> de_enforce env) theta (dw_hints w))"
proof (cases "state_in (dw_ledger w) pid = Some ''DUTY_REVIEW''")
  case False
  then show ?thesis using assms by (intro refused) (simp_all add: adjudicate_def)
next
  case state: True
  show ?thesis
  proof (cases "prior_outcome pid (dw_events w)")
    case (Inl e)
    then show ?thesis using assms state by (simp add: adjudicate_def)
  next
    case (Inr prior)
    show ?thesis
    proof (cases prior)
      case (Some e)
      then have "rulings_of pid w \<noteq> []" using prior_outcome_sound [OF Inr] by (simp add: rulings_of_def)
      then show ?thesis using assms state Inr Some by (intro refused) (simp_all add: adjudicate_def)
    next
      case None
      then have none: "rulings_of pid w = []" using prior_outcome_sound [OF Inr] by (simp add: rulings_of_def)
      let ?enforce = "case enforce_arg of Some b \<Rightarrow> b | None \<Rightarrow> de_enforce env"
      consider (usage) "obtain_ruling env pid src = Inr None"
        | (failed) message where "obtain_ruling env pid src = Inr (Some (Inl message))"
        | (got) ruling source where "obtain_ruling env pid src = Inr (Some (Inr (ruling, source)))"
        | (raised) e where "obtain_ruling env pid src = Inl e"
        by (metis obj_sumE option.exhaust surj_pair)
      then show ?thesis
      proof cases
        case usage
        then have "src = Officer None" by (auto simp: obtain_ruling_def split: ruling_source.splits sum.splits json.splits option.splits)
        then show ?thesis using assms state Inr None usage by (intro refused) (simp_all add: adjudicate_def Let_def)
      next
        case raised
        then show ?thesis using assms state Inr None by (simp add: adjudicate_def Let_def)
      next
        case failed
        have "''duty_terminal'' \<in> snd ` set OUTCOMES" by (simp add: OUTCOMES_def)
        with state none show ?thesis using assms Inr None failed
          by (auto simp: adjudicate_def Let_def split: sum.splits prod.splits if_splits bool.splits intro!: ruled [of "''duty_terminal''" _ "dw_hints w"]
            simp: jget_def dict_get_or_def)
      next
        case got
        obtain event gate hints where gated: "gate_ruling env pid ruling ?enforce theta (dw_hints w) = (event, gate, hints)"
          by (metis prod_cases3)
        have "event \<in> snd ` set OUTCOMES" using gate_event [of env pid ruling ?enforce theta "dw_hints w"] gated by simp
        with state none show ?thesis using assms Inr None got gated
          by (auto simp: adjudicate_def Let_def split: sum.splits prod.splits if_splits bool.splits intro!: ruled [of event]
            simp: jget_def dict_get_or_def source_attempt [OF got] map_add_def)
      qed
    qed
  qed
qed


lemma adjudicate_run:
  assumes "adjudicate env between pid src theta enforce_arg w = Inr (rc, w')" and "\<And>v. duty_run v (between v)"
  shows "duty_run w w'"
  using assms(1)
proof (cases rule: adjudicate_cases)
  case refused
  then show ?thesis by simp
next
  case (ruled event detail hints written)
  have "duty_run w (between (w\<lparr>dw_hints := hints\<rparr>))"
    using hints [of w hints] assms(2) by (rule converse_rtranclp_into_rtranclp)
  then show ?thesis using committed [OF ruled(4,3)] by (rule rtranclp.rtrancl_into_rtrancl)
qed

lemma record_terminal_run:
  assumes "record_terminal env between pid reason w = Inr (rc, w')" and "\<And>v. duty_run v (between v)"
  shows "duty_run w w'"
proof -
  have terminal: "''duty_terminal'' \<in> snd ` set OUTCOMES" by (simp add: OUTCOMES_def)
  show ?thesis
  proof (cases "w' = w")
    case True
    then show ?thesis by simp
  next
    case False
    then obtain detail written where "commit_outcome (de_now env) pid ''duty_terminal'' detail (between w) = Inr (written, w')"
      using assms(1) by (auto simp: record_terminal_def Let_def split: sum.splits option.splits if_splits bool.splits)
    then show ?thesis using assms(2) [of w] committed terminal by (meson rtranclp.rtrancl_into_rtrancl)
  qed
qed

lemma ticket_drain_run:
  assumes "\<And>v. duty_run v (between v)"
    and "run_steps (drain_ticket env between io ruling theta enforce_arg) tickets (worst, w) = Inr (rc, w')"
  shows "duty_run w w'"
  using assms(2)
proof (induction tickets arbitrary: worst w)
  case Nil
  then show ?case by simp
next
  case (Cons t ts)
  obtain worst1 w1 where step: "drain_ticket env between io ruling theta enforce_arg t (worst, w) = Inr (worst1, w1)"
    and rest: "run_steps (drain_ticket env between io ruling theta enforce_arg) ts (worst1, w1) = Inr (rc, w')"
    using Cons.prems by (auto split: sum.splits)
  have "duty_run w w1"
    using step by (auto simp: drain_ticket_def Let_def split: option.splits sum.splits prod.splits if_splits
        dest: adjudicate_run [OF _ assms(1)] record_terminal_run [OF _ assms(1)])
  then show ?case using Cons.IH [OF rest] by (rule rtranclp_trans)
qed

text \<open>Claim C25. A packet is ruled on at most once: whatever adjudications, terminal records, ticket
  drains and writers of other events run at the same time, the stream never holds two outcomes of
  one packet, if it held no two at the start; a whole drain of the tickets, with anything of that
  kind happening while an officer works, keeps that.\<close>

theorem one_ruling_per_packet:
  assumes "\<forall>pid. length (rulings_of pid w) \<le> 1" and "duty_run w w1" and "\<And>v. duty_run v (between v)"
    and "drain_tickets env between io ruling theta enforce_arg files w1 = Inr (rc, w')"
  shows "length (rulings_of pid w') \<le> 1"
proof -
  have "duty_run w1 w'" using ticket_drain_run [OF assms(3)] assms(4) unfolding drain_tickets_def by blast
  then have "duty_run w w'" using assms(2) by (rule rtranclp_trans [rotated])
  then have "\<forall>pid. length (rulings_of pid w') \<le> 1" using assms(1)
  proof (induction rule: rtranclp_induct)
    case (step y z)
    then show ?case using one_ruling_step [OF step(2)] by blast
  qed blast
  then show ?thesis ..
qed


section \<open>What gets a packet back to work\<close>

lemma with_packet_id_keeps: "jget (with_packet_id pid d) ''class'' = jget d ''class''"
  by (simp add: with_packet_id_def jget_def)

lemma gate_event_valid:
  assumes "fst (gate_ruling env pid ruling enforce theta store) \<noteq> ''duty_terminal''"
  shows "ruling_contract theta (with_packet_id pid ruling)
    \<and> (\<exists>c. jget ruling ''class'' = JStr c \<and> c \<in> {''retryable'', ''fixable''}
         \<and> fst (gate_ruling env pid ruling enforce theta store) = ''duty_'' @ c)"
proof -
  let ?raw = "Some (JObj (with_packet_id pid ruling))"
  obtain code out store' where gate: "duty_gate theta enforce (de_hint_io env) ?raw store = (code, out, store')"
    by (metis prod_cases3)
  have accepted: "code \<in> {0, 3}" using assms gate by (auto simp: gate_ruling_def Let_def split: if_splits)
  then have contract: "ruling_contract theta (with_packet_id pid ruling)"
    using gate gate_codes [of theta enforce "de_hint_io env" ?raw store] by auto
  have "\<exists>c. jget ruling ''class'' = JStr c \<and> c \<in> {''retryable'', ''fixable'', ''terminal''}"
    using contract unfolding ruling_contract_def with_packet_id_keeps by auto
  then obtain c where c: "jget ruling ''class'' = JStr c" "c \<in> {''retryable'', ''fixable'', ''terminal''}" by blast
  have "fst (gate_ruling env pid ruling enforce theta store) = ''duty_'' @ c"
    using accepted c gate by (auto simp: gate_ruling_def Let_def with_packet_id_keeps OUTCOMES_def)
  then show ?thesis using contract c assms by auto
qed


text \<open>A packet is sent back to work only on a ruling that meets the whitelist contract and
  calls it retryable or fixable: an adjudication that returns 0 appended exactly the event of that
  class, whatever happened while the officer worked.\<close>

theorem only_valid_rulings_reroute:
  assumes "adjudicate env between pid src theta enforce_arg w = Inr (0, w')"
  shows "\<exists>ruling source c detail. obtain_ruling env pid src = Inr (Some (Inr (ruling, source)))
    \<and> ruling_contract theta (with_packet_id pid ruling)
    \<and> jget ruling ''class'' = JStr c \<and> c \<in> {''retryable'', ''fixable''}
    \<and> last (dw_events w') = Some (duty_event (de_now env) pid (''duty_'' @ c) detail)
    \<and> state_in (dw_ledger w) pid = Some ''DUTY_REVIEW'' \<and> rulings_of pid w = []"
  using assms
proof (cases rule: adjudicate_cases)
  case refused
  then show ?thesis by simp
next
  case (ruled event detail hints written)
  then have written: "written" "event \<noteq> ''duty_terminal''" by (auto split: if_splits)
  then obtain ruling source where got: "obtain_ruling env pid src = Inr (Some (Inr (ruling, source)))"
    and event: "event = fst (gate_ruling env pid ruling (case enforce_arg of Some b \<Rightarrow> b | None \<Rightarrow> de_enforce env) theta (dw_hints w))"
    using ruled(7) by blast
  have "last (dw_events w') = Some (duty_event (de_now env) pid event detail)"
    using commit_appends [OF ruled(4)] written by simp
  moreover obtain c where "ruling_contract theta (with_packet_id pid ruling)" "jget ruling ''class'' = JStr c"
      "c \<in> {''retryable'', ''fixable''}" "event = ''duty_'' @ c"
    using gate_event_valid [of env pid ruling _ theta "dw_hints w"] written(2) unfolding event by blast
  ultimately show ?thesis using got ruled(1,2) by blast
qed

lemma ruled_event_applies:
  assumes "map_of (packets st) pid = Some pkt" and "p_state pkt = ''DUTY_REVIEW''" and "valid_pid pid"
    and "\<not> startswith_any pid [''l2v-'', ''v2job-'']"
    and "event \<in> snd ` set OUTCOMES" and "jget detail ''attempt'' = JNull"
  shows "\<exists>st'. apply_event senv (duty_event now pid event detail) st
    = Inr (Some (if event \<noteq> ''duty_terminal'' \<and> e_enforce_duty senv then ''RUNNING'' else ''DEAD_LETTER''), st')"
proof -
  let ?ev = "[(''ts'', JFloat now), (''packet_id'', JStr pid), (''event'', JStr event), (''detail'', JObj detail)]"
  have event: "event = ''duty_retryable'' \<or> event = ''duty_fixable'' \<or> event = ''duty_terminal''"
    using assms(5) by (auto simp: OUTCOMES_def)
  have "ev_attempt ?ev = None" using assms(6) by simp
  then have "local_rules senv pid (JStr event) ?ev pkt = None"
    using event assms(2) by (auto simp: local_rules_def stale_generation_def stale_run_id_def duplicate_generation_def
        pre_spawn_failure_def late_stop_def dispatch_confirmed_def timeout_confirmed_def release_review_failed_def)
  moreover have "event \<notin> set INFO_EVENTS" using event by (auto simp: INFO_EVENTS_def)
  ultimately have step: "apply_event senv (JObj ?ev) st =
    (case table_step senv pid (JStr event) ?ev pkt st of
       Inl e \<Rightarrow> Inl e
     | Inr st' \<Rightarrow> Inr (Some (p_state (dict_get_or new_packet pid (packets st'))), st'))"
    using assms(1,4) by (intro apply_known) simp_all
  have lookup: "T_lookup ''DUTY_REVIEW'' (JStr ''duty_retryable'') = Some (''RUNNING'', 11)"
    "T_lookup ''DUTY_REVIEW'' (JStr ''duty_fixable'') = Some (''RUNNING'', 12)"
    "T_lookup ''DUTY_REVIEW'' (JStr ''duty_terminal'') = Some (''DEAD_LETTER'', 13)" by code_simp+
  have "\<exists>st'. table_step senv pid (JStr event) ?ev pkt st = Inr st'
      \<and> p_state (dict_get_or new_packet pid (packets st'))
        = (if event \<noteq> ''duty_terminal'' \<and> e_enforce_duty senv then ''RUNNING'' else ''DEAD_LETTER'')"
    using event assms(2,3)
    by (elim disjE) (simp_all add: table_step_def lookup to_dead_letter_def put_packet_def sol_wake_def Let_def
        take_transition_def enter_def add_history_def)
  then obtain st' where "table_step senv pid (JStr event) ?ev pkt st = Inr st'"
    "p_state (dict_get_or new_packet pid (packets st'))
      = (if event \<noteq> ''duty_terminal'' \<and> e_enforce_duty senv then ''RUNNING'' else ''DEAD_LETTER'')" by blast
  with step have "apply_event senv (JObj ?ev) st
    = Inr (Some (if event \<noteq> ''duty_terminal'' \<and> e_enforce_duty senv then ''RUNNING'' else ''DEAD_LETTER''), st')"
    by (simp only: sum.case)
  then show ?thesis unfolding duty_event_def by blast
qed

text \<open>What the state machine makes of a ruling: the event an adjudication appended takes a
  packet in duty review back to running exactly if it is a rerouting one (exit code 0) and the state
  machine enforces rulings, and to the dead letters otherwise; it is never stale or off the table.\<close>

theorem ruling_moves_the_packet:
  assumes "adjudicate env between pid src theta enforce_arg w = Inr (rc, w')" and "rc \<in> {0, 1}"
    and "map_of (packets st) pid = Some pkt" and "p_state pkt = ''DUTY_REVIEW''" and "valid_pid pid"
    and "\<not> startswith_any pid [''l2v-'', ''v2job-'']"
  shows "\<exists>ev st'. last (dw_events w') = Some ev
    \<and> apply_event senv ev st = Inr (Some (if rc = 0 \<and> e_enforce_duty senv then ''RUNNING'' else ''DEAD_LETTER''), st')"
  using assms(1)
proof (cases rule: adjudicate_cases)
  case refused
  then show ?thesis using assms(2) by auto
next
  case (ruled event detail hints written)
  then have written: "written" using assms(2) by (auto split: if_splits)
  let ?ev = "duty_event (de_now env) pid event detail"
  have "last (dw_events w') = Some ?ev" using commit_appends [OF ruled(4)] written by simp
  moreover have "\<exists>st'. apply_event senv ?ev st = Inr (Some (if rc = 0 \<and> e_enforce_duty senv then ''RUNNING'' else ''DEAD_LETTER''), st')"
    using ruled_event_applies [OF assms(3-6) ruled(3,6), of senv "de_now env"] written ruled(5) by (auto split: if_splits)
  ultimately show ?thesis by blast
qed


section \<open>An example\<close>

definition example_duty_env :: duty_env where
  "example_duty_env = \<lparr>de_now = 50, de_enforce = True, de_hint_io = True,
     de_officer = (\<lambda>pid text. Inr ([None, Some (JObj example_ruling)], ''model'', ''high'')),
     de_render = (\<lambda>r. ''rejected'')\<rparr>"

definition example_duty_world :: duty_world where
  "example_duty_world = \<lparr>dw_ledger = [(''p1'', new_packet\<lparr>p_state := ''DUTY_REVIEW''\<rparr>)], dw_events = [], dw_hints = []\<rparr>"

definition example_adjudicated :: "nat \<times> duty_world" where
  "example_adjudicated = right_or (9, example_duty_world) (adjudicate example_duty_env (\<lambda>w. w) ''p1''
     (Officer (Some (Inr ''boom''))) (7 / 10) None example_duty_world)"

lemma example_adjudicated_run:
  "adjudicate example_duty_env (\<lambda>w. w) ''p1'' (Officer (Some (Inr ''boom''))) (7 / 10) None example_duty_world
     = Inr (0, snd example_adjudicated)"
proof -
  have "fst example_adjudicated = 0" by code_simp
  then show ?thesis
    unfolding example_adjudicated_def
    by (cases "adjudicate example_duty_env (\<lambda>w. w) ''p1'' (Officer (Some (Inr ''boom''))) (7 / 10) None example_duty_world") auto
qed

theorem only_valid_rulings_reroute_witness:
  "last (dw_events (snd example_adjudicated)) \<noteq> None"
  using only_valid_rulings_reroute [OF example_adjudicated_run] by auto

theorem ruling_moves_the_packet_witness:
  "\<exists>ev st'. last (dw_events (snd example_adjudicated)) = Some ev
     \<and> apply_event demo_env ev (sm_init\<lparr>packets := [(''p1'', new_packet\<lparr>p_state := ''DUTY_REVIEW''\<rparr>)]\<rparr>)
       = Inr (Some (if e_enforce_duty demo_env then ''RUNNING'' else ''DEAD_LETTER''), st')"
proof -
  have "valid_pid ''p1''" "\<not> startswith_any ''p1'' [''l2v-'', ''v2job-'']" by code_simp+
  then show ?thesis
    using ruling_moves_the_packet [OF example_adjudicated_run, of _ "new_packet\<lparr>p_state := ''DUTY_REVIEW''\<rparr>" demo_env]
    by simp
qed

theorem one_ruling_per_packet_witness:
  "\<exists>rc w'. drain_tickets example_duty_env (\<lambda>w. w) True None (7 / 10) None
       [Some (JObj [(''packet_id'', JStr ''p1''), (''error'', JStr ''boom'')]), None] example_duty_world = Inr (rc, w')
     \<and> length (rulings_of ''p1'' w') \<le> 1"
proof -
  let ?files = "[Some (JObj [(''packet_id'', JStr ''p1''), (''error'', JStr ''boom'')]), None]"
  have "opt_of (map_sum id fst (drain_tickets example_duty_env (\<lambda>w. w) True None (7 / 10) None ?files example_duty_world)) = Some 0"
    by code_simp
  then obtain w' where "drain_tickets example_duty_env (\<lambda>w. w) True None (7 / 10) None ?files example_duty_world = Inr (0, w')"
    by (cases "drain_tickets example_duty_env (\<lambda>w. w) True None (7 / 10) None ?files example_duty_world") auto
  moreover have "\<forall>pid. length (rulings_of pid example_duty_world) \<le> 1"
    by (simp add: rulings_of_def example_duty_world_def)
  ultimately show ?thesis
    using one_ruling_per_packet [of example_duty_world example_duty_world "\<lambda>w. w"] by blast
qed

section \<open>What the lane does not do\<close>

text \<open>
  The look for a prior outcome does not tell one review of a packet from the next: a packet that
  comes back to duty review, after a reroute that failed again or by the triage of a dead letter, is
  skipped by every adjudication and every drain and stays there.
\<close>

lemma second_review_is_skipped:
  assumes "prior_outcome pid (dw_events w) = Inr (Some e)" and "state_in (dw_ledger w) pid = Some ''DUTY_REVIEW''"
  shows "adjudicate env between pid src theta enforce_arg w = Inr (3, w)"
    and "record_terminal env between pid reason w = Inr (3, w)"
  using assms by (simp_all add: adjudicate_def record_terminal_def)

text \<open>The exit code of a drain depends on the order of the tickets: a terminal ruling hides an
  earlier skip and is hidden by a later one.\<close>

lemma drain_code_depends_on_order:
  assumes "adjudicate env between (fst t) (Ruling_file path content) theta arg w = Inr (rc, w')"
  shows "rc = 1 \<Longrightarrow> drain_ticket env between io (Some (path, content)) theta arg t (3, w) = Inr (1, w')"
    and "rc = 3 \<Longrightarrow> drain_ticket env between io (Some (path, content)) theta arg t (1, w) = Inr (3, w')"
  using assms by (simp_all add: drain_ticket_def Let_def)

end
