(* ===== verification/Refill_Consumer.thy ===== *)
theory Refill_Consumer
  imports Refill SM_Step
begin

text \<open>
  The actuator of the refill controller, \<open>src/harness/refill_consumer_v2.py\<close>: the choice of
  packets within the global and the per-parent debt, one actuator transaction, the drain of
  refill requests and the scheduling of detached runs. The transport that starts the packets is
  the argument \<open>wave\<close>, the packet files and the text of values that are not strings are arguments
  too. Parent ids are strings, as in the controller.
\<close>

section \<open>Roles and packets\<close>

datatype consumer_error =
    Invalid_packet_id
  | Packet_file string
  | Packet_lacks string string
  | No_role
  | Pool_role_conflict string pool string

definition K3_ROLE_BY_STATE :: "(string \<times> string) list" where
  "K3_ROLE_BY_STATE = [(''EXPAND_K3'', ''plan_expander''), (''L2_VERIFY'', ''verifier''),
     (''L2_VERIFY_PENDING'', ''verifier''), (''L2_RANK'', ''verifier'')]"

definition role_for_entry :: "packet \<Rightarrow> consumer_error + string" where
  "role_for_entry entry =
     (case map_of K3_ROLE_BY_STATE (p_state entry) of
        Some role \<Rightarrow> Inr role
      | None \<Rightarrow> (case p_role entry of
            JStr role \<Rightarrow> if role \<in> {''worker'', ''verifier'', ''reviewer'', ''plan_expander''} then Inr role else Inl No_role
          | _ \<Rightarrow> Inl No_role))"

record selection_env =
  se_files :: "string \<Rightarrow> json option"
  se_task_names :: "string \<Rightarrow> json"
  se_str :: "json \<Rightarrow> string"

fun first_missing :: "jobj \<Rightarrow> string list \<Rightarrow> string option" where
  "first_missing d [] = None"
| "first_missing d (k # ks) = (if dict_has k d then first_missing d ks else Some k)"

definition validate_packet :: "selection_env \<Rightarrow> string \<Rightarrow> consumer_error + jobj" where
  "validate_packet env pid =
     (if \<not> valid_pid pid then Inl Invalid_packet_id
      else case se_files env pid of
        Some (JObj d) \<Rightarrow>
          if \<not> py_eq (jget d ''packet_id'') (JStr pid) then Inl (Packet_file pid)
          else (case first_missing d [''goal'', ''authorized_paths'', ''acceptance''] of
                  Some k \<Rightarrow> Inl (Packet_lacks pid k) | None \<Rightarrow> Inr d)
      | _ \<Rightarrow> Inl (Packet_file pid))"

section \<open>Selection\<close>

record candidate =
  cd_packet :: string
  cd_entry :: packet
  cd_pool :: pool
  cd_parent :: "string option"

record task =
  tk_packet :: string
  tk_name :: string
  tk_role :: string
  tk_parent :: "string option"
  tk_manifest :: json

record selection =
  sl_remaining :: "pool \<Rightarrow> int"
  sl_parents :: "(pool \<Rightarrow> int) dict"
  sl_buckets :: "candidate list dict"
  sl_tasks :: "task list"
  sl_progressed :: bool

text \<open>The entries the lane owns: dispatchable, no release review, and admitted by a parent in view.\<close>

definition admissible :: "parent_registration dict \<Rightarrow> (pool \<Rightarrow> int) dict \<Rightarrow> packet \<Rightarrow> bool" where
  "admissible registered spawnable entry =
     (p_state entry = ''DISPATCHABLE'' \<and> \<not> p_release_review entry
      \<and> (case parent_key (p_parent_session_id entry) of
           None \<Rightarrow> True
         | Some parent \<Rightarrow> parent_admits registered parent entry \<and> dict_has parent spawnable))"

definition bucket_key :: "string option \<Rightarrow> string" where
  "bucket_key parent = (case parent of None \<Rightarrow> ''legacy'' | Some p \<Rightarrow> ''parent:'' @ p)"

definition add_candidate ::
  "parent_registration dict \<Rightarrow> (pool \<Rightarrow> int) dict \<Rightarrow> string \<times> packet \<Rightarrow> candidate list dict \<Rightarrow> candidate list dict" where
  "add_candidate registered spawnable entry buckets =
     (if \<not> admissible registered spawnable (snd entry) then buckets
      else let parent = parent_key (p_parent_session_id (snd entry));
               key = bucket_key parent in
           dict_set key (dict_get_or [] key buckets
             @ [\<lparr>cd_packet = fst entry, cd_entry = snd entry, cd_pool = pool_for_packet (snd entry), cd_parent = parent\<rparr>])
             buckets)"

definition start_selection ::
  "parent_registration dict \<Rightarrow> packet dict \<Rightarrow> (pool \<Rightarrow> int) \<Rightarrow> (string \<times> parent_view) list \<Rightarrow> selection" where
  "start_selection registered ledger deficit views =
     (let spawnable = map (\<lambda>(parent, v). (parent, clean (pv_spawnable v))) views in
      \<lparr>sl_remaining = clean deficit, sl_parents = spawnable,
       sl_buckets = fold (add_candidate registered spawnable) (sort_key fst ledger) [],
       sl_tasks = [], sl_progressed = False\<rparr>)"

definition eligible :: "(pool \<Rightarrow> int) \<Rightarrow> (pool \<Rightarrow> int) dict \<Rightarrow> candidate \<Rightarrow> bool" where
  "eligible remaining parents c =
     (0 < remaining (cd_pool c)
      \<and> (case cd_parent c of None \<Rightarrow> True | Some p \<Rightarrow> 0 < dict_get_or (\<lambda>_. 0) p parents (cd_pool c)))"

text \<open>The first eligible row of a bucket and the rows without it.\<close>

fun pop_first :: "('a \<Rightarrow> bool) \<Rightarrow> 'a list \<Rightarrow> ('a \<times> 'a list) option" where
  "pop_first P [] = None"
| "pop_first P (x # xs) =
     (if P x then Some (x, xs) else map_option (\<lambda>(y, ys). (y, x # ys)) (pop_first P xs))"

definition str_of :: "selection_env \<Rightarrow> json \<Rightarrow> string" where
  "str_of env v = (case v of JStr s \<Rightarrow> s | _ \<Rightarrow> se_str env v)"

definition make_task :: "selection_env \<Rightarrow> candidate \<Rightarrow> consumer_error + task" where
  "make_task env c =
     (case validate_packet env (cd_packet c) of
        Inl e \<Rightarrow> Inl e
      | Inr packet \<Rightarrow>
          (case role_for_entry (cd_entry c) of
             Inl e \<Rightarrow> Inl e
           | Inr role \<Rightarrow>
               if (if role \<in> set K3_ROLES then K3 else V4) \<noteq> cd_pool c
               then Inl (Pool_role_conflict (cd_packet c) (cd_pool c) role)
               else Inr \<lparr>tk_packet = cd_packet c,
                         tk_name = take 160 (str_of env (py_or (se_task_names env (cd_packet c))
                           (py_or (jget packet ''goal'') (JStr (cd_packet c))))),
                         tk_role = role, tk_parent = cd_parent c, tk_manifest = p_manifest_id (cd_entry c)\<rparr>))"

definition charge :: "candidate \<Rightarrow> (pool \<Rightarrow> int) dict \<Rightarrow> (pool \<Rightarrow> int) dict" where
  "charge c parents =
     (case cd_parent c of
        None \<Rightarrow> parents
      | Some p \<Rightarrow> (let left = dict_get_or (\<lambda>_. 0) p parents in
                   dict_set p (left(cd_pool c := left (cd_pool c) - 1)) parents))"

definition visit_bucket :: "selection_env \<Rightarrow> string \<Rightarrow> selection \<Rightarrow> consumer_error + selection" where
  "visit_bucket env key s =
     (case pop_first (eligible (sl_remaining s) (sl_parents s)) (dict_get_or [] key (sl_buckets s)) of
        None \<Rightarrow> Inr s
      | Some (c, rows) \<Rightarrow>
          (case make_task env c of
             Inl e \<Rightarrow> Inl e
           | Inr t \<Rightarrow>
               Inr \<lparr>sl_remaining = (sl_remaining s)(cd_pool c := sl_remaining s (cd_pool c) - 1),
                    sl_parents = charge c (sl_parents s),
                    sl_buckets = dict_set key rows (sl_buckets s),
                    sl_tasks = sl_tasks s @ [t], sl_progressed = True\<rparr>))"

definition selection_pass :: "selection_env \<Rightarrow> selection \<Rightarrow> consumer_error + selection" where
  "selection_pass env s =
     run_steps (visit_bucket env) (sort (map fst (sl_buckets s))) (s\<lparr>sl_progressed := False\<rparr>)"

text \<open>Every chosen row costs one unit of the remaining deficit, so the passes end.\<close>

lemma pop_first_Some: "pop_first P xs = Some (x, ys) \<Longrightarrow> P x \<and> (\<exists>us vs. xs = us @ x # vs \<and> ys = us @ vs \<and> (\<forall>u \<in> set us. \<not> P u))"
proof (induction xs arbitrary: ys)
  case Nil
  then show ?case by simp
next
  case (Cons z zs)
  show ?case
  proof (cases "P z")
    case True
    with Cons.prems show ?thesis by (auto intro: exI [of _ "[]"])
  next
    case False
    then obtain ws where "pop_first P zs = Some (x, ws)" "ys = z # ws" using Cons.prems by auto
    with Cons.IH [of ws] False show ?thesis by (metis append_Cons set_ConsD)
  qed
qed

lemma sum_pools_dec: "sum_pools (f(p := f p - 1)) = sum_pools f - 1"
  by (cases p) (simp_all add: sum_pools_def POOLS_def)

lemma visit_bucket_remaining:
  assumes "visit_bucket env key s = Inr s'"
  shows "sum_pools (sl_remaining s') \<le> sum_pools (sl_remaining s)
    \<and> (sl_progressed s' \<longrightarrow> sl_progressed s \<or> sum_pools (sl_remaining s') < sum_pools (sl_remaining s))"
  using assms
  by (auto simp: visit_bucket_def sum_pools_dec split: option.splits sum.splits)

lemma selection_pass_shrinks:
  assumes "selection_pass env s = Inr s'" and "sl_progressed s'"
  shows "sum_pools (sl_remaining s') < sum_pools (sl_remaining s)"
proof -
  have "run_steps (visit_bucket env) ks t = Inr t' \<Longrightarrow> sum_pools (sl_remaining t) \<le> n
      \<Longrightarrow> sl_progressed t \<longrightarrow> sum_pools (sl_remaining t) < n
      \<Longrightarrow> sl_progressed t' \<longrightarrow> sum_pools (sl_remaining t') < n" for ks t t' n
  proof (induction ks arbitrary: t)
    case Nil
    then show ?case by simp
  next
    case (Cons k ks)
    then obtain u where "visit_bucket env k t = Inr u" "run_steps (visit_bucket env) ks u = Inr t'"
      by (auto split: sum.splits)
    with Cons.IH [of u] visit_bucket_remaining [of env k t u] Cons.prems show ?case by force
  qed
  from this [of _ "s\<lparr>sl_progressed := False\<rparr>" s' "sum_pools (sl_remaining s)"] assms show ?thesis
    by (simp add: selection_pass_def)
qed

function select_rounds :: "selection_env \<Rightarrow> selection \<Rightarrow> consumer_error + selection" where
  "select_rounds env s =
     (if sum_pools (sl_remaining s) \<le> 0 then Inr s
      else case selection_pass env s of
             Inl e \<Rightarrow> Inl e
           | Inr s' \<Rightarrow> if sl_progressed s' then select_rounds env s' else Inr s')"
  by pat_completeness auto
termination
  by (relation "measure (\<lambda>(env, s). nat (sum_pools (sl_remaining s)))") (auto dest: selection_pass_shrinks)

declare select_rounds.simps [simp del]

definition select_tasks ::
  "selection_env \<Rightarrow> parent_registration dict \<Rightarrow> packet dict \<Rightarrow> refill_state \<Rightarrow> consumer_error + task list" where
  "select_tasks env registered ledger state =
     (case select_rounds env (start_selection registered ledger (fs_deficit state) (fs_parents state)) of
        Inl e \<Rightarrow> Inl e
      | Inr s \<Rightarrow> Inr (sl_tasks s))"

section \<open>One transaction\<close>

text \<open>
  What a transaction reads and writes: the rosters with the registry, the state machine with its
  event file, the queue and the flags of the refill state, and the refill events.
\<close>

record consumer_world =
  cw_rosters :: refill_env
  cw_machine :: sm_state
  cw_stream :: string
  cw_queue :: work_queue
  cw_finalized :: bool
  cw_required :: bool
  cw_refill_events :: "refill_event list"

definition sync_and_recompute :: "refill_policy \<Rightarrow> consumer_world \<Rightarrow> refill_state \<times> consumer_world" where
  "sync_and_recompute policy w =
     (let q = queue_sync_ledger (rf_registry (cw_rosters w)) (packets (cw_machine w));
          (state, ev) = recompute policy (cw_rosters w) q (cw_finalized w) (cw_required w) in
      (state, w\<lparr>cw_queue := q, cw_required := list_ex (fs_required state) POOLS,
          cw_refill_events := cw_refill_events w @ (case ev of None \<Rightarrow> [] | Some e \<Rightarrow> [e])\<rparr>))"

datatype followup = Backoff_wake | Second_wake

definition schedule_followup_if_debt :: "refill_state \<Rightarrow> bool \<Rightarrow> followup option" where
  "schedule_followup_if_debt state failed =
     (if sum_pools (fs_deficit state) \<le> 0 then None else Some (if failed then Backoff_wake else Second_wake))"

datatype wave_result =
    Idle refill_state
  | Ran bool "task list" refill_state refill_state "followup option"

definition run_once ::
  "refill_policy \<Rightarrow> selection_env \<Rightarrow> (string \<Rightarrow> json option) \<Rightarrow> sm_env
    \<Rightarrow> (bool \<Rightarrow> task list \<Rightarrow> consumer_world \<Rightarrow> int \<times> consumer_world) \<Rightarrow> bool \<Rightarrow> consumer_world
    \<Rightarrow> consumer_error + (int \<times> wave_result \<times> consumer_world)" where
  "run_once policy env parse menv wave dry_run w =
     (let (before, w1) = sync_and_recompute policy w in
      case select_tasks env (rf_registry (cw_rosters w1)) (packets (cw_machine w1)) before of
        Inl e \<Rightarrow> Inl e
      | Inr [] \<Rightarrow> Inr (0, Idle before, w1)
      | Inr tasks \<Rightarrow>
          (let (rc, w2) = wave dry_run tasks w1;
               (rc', w3) = (case sm_step parse menv (cw_stream w2) (cw_machine w2) of
                   Inl e \<Rightarrow> (if rc \<noteq> 0 then rc else 3, w2)
                 | Inr (machine, evs) \<Rightarrow> (rc, w2\<lparr>cw_machine := machine\<rparr>));
               (after, w4) = sync_and_recompute policy w3 in
           Inr (rc', Ran dry_run tasks before after
                  (if dry_run then None else schedule_followup_if_debt after (rc' \<noteq> 0)), w4)))"

section \<open>Requests\<close>

record requests =
  rq_requested :: int
  rq_consumed :: int

text \<open>A request that is zero counts as one.\<close>

definition open_request :: "requests \<Rightarrow> int" where
  "open_request rq = (if rq_requested rq = 0 then 1 else rq_requested rq)"

definition consume :: "int \<Rightarrow> requests \<Rightarrow> requests" where
  "consume requested rq = rq\<lparr>rq_consumed := max (rq_consumed rq) requested\<rparr>"

text \<open>
  The drain: \<open>arrivals\<close> gives, pass by pass, how many requests other processes record while the
  pass runs; after its end none do. The result is the first exit code that is not zero, the results
  of the passes and the request file.
\<close>

fun drain_requested ::
  "('w \<Rightarrow> consumer_error + (int \<times> 'r \<times> 'w)) \<Rightarrow> nat list \<Rightarrow> requests \<Rightarrow> 'w
    \<Rightarrow> consumer_error + (int \<times> 'r list \<times> requests \<times> 'w)" where
  "drain_requested run arrivals rq w =
     (let requested = open_request rq;
          came = (case arrivals of [] \<Rightarrow> 0 | n # ns \<Rightarrow> n) in
      case run w of
        Inl e \<Rightarrow> Inl e
      | Inr (rc, result, w') \<Rightarrow>
          (let latest = consume requested (rq\<lparr>rq_requested := rq_requested rq + int came\<rparr>) in
           if rq_requested latest \<le> requested then Inr (rc, [result], latest, w')
           else (case arrivals of
                   [] \<Rightarrow> Inr (rc, [result], latest, w')
                 | n # ns \<Rightarrow>
                     (case drain_requested run ns latest w' of
                        Inl e \<Rightarrow> Inl e
                      | Inr (rc', results, rq', w'') \<Rightarrow>
                          Inr (if rc \<noteq> 0 then rc else rc', result # results, rq', w'')))))"

section \<open>Scheduling\<close>

record marker_file =
  mk_pid :: int
  mk_ticks :: "int option"
  mk_wake :: rat

text \<open>\<open>start_token\<close> gives the start ticks of a live process.\<close>

definition generation_alive :: "(int \<Rightarrow> int option) \<Rightarrow> marker_file \<Rightarrow> bool" where
  "generation_alive start_token m =
     (case mk_ticks m of None \<Rightarrow> False | Some ticks \<Rightarrow> start_token (mk_pid m) = Some ticks)"

datatype scheduled = Coalesced int | Scheduled int

definition schedule_run ::
  "(int \<Rightarrow> int option) \<Rightarrow> int \<Rightarrow> marker_file option \<Rightarrow> requests \<Rightarrow> scheduled \<times> marker_file option \<times> requests" where
  "schedule_run start_token new_pid marker rq =
     (let rq' = rq\<lparr>rq_requested := rq_requested rq + 1\<rparr> in
      case marker of
        Some m \<Rightarrow>
          if mk_pid m \<noteq> 0 \<and> generation_alive start_token m then (Coalesced (mk_pid m), marker, rq')
          else (Scheduled new_pid, Some \<lparr>mk_pid = new_pid, mk_ticks = start_token new_pid, mk_wake = 0\<rparr>, rq')
      | None \<Rightarrow> (Scheduled new_pid, Some \<lparr>mk_pid = new_pid, mk_ticks = start_token new_pid, mk_wake = 0\<rparr>, rq'))"

definition schedule_delayed_run ::
  "(int \<Rightarrow> int option) \<Rightarrow> int \<Rightarrow> rat \<Rightarrow> marker_file option \<Rightarrow> scheduled \<times> marker_file option" where
  "schedule_delayed_run start_token new_pid wake_at marker =
     (case marker of
        Some m \<Rightarrow>
          if mk_pid m \<noteq> 0 \<and> generation_alive start_token m \<and> mk_wake m \<le> wake_at
          then (Coalesced (mk_pid m), marker)
          else (Scheduled new_pid, Some \<lparr>mk_pid = new_pid, mk_ticks = start_token new_pid, mk_wake = wake_at\<rparr>)
      | None \<Rightarrow> (Scheduled new_pid, Some \<lparr>mk_pid = new_pid, mk_ticks = start_token new_pid, mk_wake = wake_at\<rparr>))"

text \<open>The wake after a failure: thirty seconds, or one second past the last provider backoff.\<close>

definition retry_wake_at :: "rat \<Rightarrow> json list \<Rightarrow> rat" where
  "retry_wake_at now healths =
     fold (\<lambda>doc wake. case doc of
         JObj d \<Rightarrow> (case py_float (py_or (jget d ''backoff_until'') (JInt 0)) of
             Inr until \<Rightarrow> if now < until then max wake (until + 1) else wake
           | Inl e \<Rightarrow> wake)
       | _ \<Rightarrow> wake) healths (now + 30)"

end
