(* ===== verification/Refill_Consumer_Properties.thy ===== *)
theory Refill_Consumer_Properties
  imports Refill_Consumer Refill_Properties SM_Properties
begin

text \<open>
  The actuator: what it selects stays within the debt of every pool and every parent, comes from
  distinct packets the ledger offers, and leaves nothing selectable behind; a transaction does not
  exceed the free capacity; no refill request is lost.
\<close>

section \<open>The selection as a machine\<close>

text \<open>A selected task, seen as the candidate it came from.\<close>

definition task_pool :: "task \<Rightarrow> pool" where
  "task_pool t = (if tk_role t \<in> set K3_ROLES then K3 else V4)"

definition tasks_in :: "pool \<Rightarrow> task list \<Rightarrow> int" where
  "tasks_in p ts = int (length (filter (\<lambda>t. task_pool t = p) ts))"

definition tasks_of :: "string \<Rightarrow> pool \<Rightarrow> task list \<Rightarrow> int" where
  "tasks_of parent p ts = int (length (filter (\<lambda>t. tk_parent t = Some parent \<and> task_pool t = p) ts))"

definition rows_with :: "string \<Rightarrow> candidate list dict \<Rightarrow> int" where
  "rows_with x buckets = dict_sum (map (\<lambda>(k, rows). (k, int (count_list (map cd_packet rows) x))) buckets)"

definition occurs :: "string \<Rightarrow> selection \<Rightarrow> int" where
  "occurs x s = int (count_list (map tk_packet (sl_tasks s)) x) + rows_with x (sl_buckets s)"

definition candidate_of :: "parent_registration dict \<Rightarrow> (pool \<Rightarrow> int) dict \<Rightarrow> packet dict \<Rightarrow> candidate \<Rightarrow> bool" where
  "candidate_of registered spawnable ledger c \<longleftrightarrow>
     (\<exists>entry. (cd_packet c, entry) \<in> set ledger \<and> admissible registered spawnable entry \<and> cd_entry c = entry
        \<and> cd_pool c = pool_for_packet entry \<and> cd_parent c = parent_key (p_parent_session_id entry))"

definition all_rows :: "(candidate \<Rightarrow> bool) \<Rightarrow> candidate list dict \<Rightarrow> bool" where
  "all_rows P buckets = (\<forall>(k, rows) \<in> set buckets. \<forall>c \<in> set rows. P c)"

definition good_task :: "parent_registration dict \<Rightarrow> (pool \<Rightarrow> int) dict \<Rightarrow> packet dict \<Rightarrow> selection_env \<Rightarrow> task \<Rightarrow> bool" where
  "good_task registered spawnable ledger env t \<longleftrightarrow>
     (\<exists>c. candidate_of registered spawnable ledger c \<and> make_task env c = Inr t)"

lemma make_task_fields:
  assumes "make_task env c = Inr t"
  shows "tk_packet t = cd_packet c" "tk_parent t = cd_parent c" "task_pool t = cd_pool c"
    "role_for_entry (cd_entry c) = Inr (tk_role t)" "\<exists>d. validate_packet env (cd_packet c) = Inr d"
    "tk_manifest t = p_manifest_id (cd_entry c)"
  using assms by (auto simp: make_task_def task_pool_def split: sum.splits if_splits)

lemma dict_sum_map_set:
  "dict_sum (map (\<lambda>(k, v). (k, f v)) (dict_set k v d))
     = dict_sum (map (\<lambda>(k, v). (k, f v)) d) - (case map_of d k of None \<Rightarrow> 0 | Some u \<Rightarrow> f u) + f v"
  by (induction d) auto

lemma rows_with_set:
  "rows_with x (dict_set key rows buckets) = rows_with x buckets
     - int (count_list (map cd_packet (dict_get_or [] key buckets)) x) + int (count_list (map cd_packet rows) x)"
  unfolding rows_with_def dict_sum_map_set by (simp add: dict_get_or_def split: option.split)

lemma all_rows_set:
  "all_rows P buckets \<Longrightarrow> \<forall>c \<in> set rows. P c \<Longrightarrow> all_rows P (dict_set key rows buckets)"
  unfolding all_rows_def by (induction buckets) auto

lemma all_rows_get: "all_rows P buckets \<Longrightarrow> c \<in> set (dict_get_or [] key buckets) \<Longrightarrow> P c"
  by (cases "map_of buckets key") (auto simp: all_rows_def dict_get_or_def dest!: map_of_SomeD)

definition sel_inv ::
  "(string \<Rightarrow> int) \<Rightarrow> (pool \<Rightarrow> int) \<Rightarrow> (pool \<Rightarrow> int) dict \<Rightarrow> (candidate \<Rightarrow> bool) \<Rightarrow> selection_env \<Rightarrow> selection \<Rightarrow> bool" where
  "sel_inv total0 deficit0 parents0 P env s \<longleftrightarrow>
     (\<forall>x. occurs x s = total0 x)
     \<and> (\<forall>p. 0 \<le> sl_remaining s p \<and> sl_remaining s p + tasks_in p (sl_tasks s) = deficit0 p)
     \<and> (\<forall>parent p. dict_get_or (\<lambda>_. 0) parent (sl_parents s) p + tasks_of parent p (sl_tasks s)
          = dict_get_or (\<lambda>_. 0) parent parents0 p
        \<and> (tasks_of parent p (sl_tasks s) = 0 \<or> 0 \<le> dict_get_or (\<lambda>_. 0) parent (sl_parents s) p))
     \<and> wf_dict (sl_buckets s) \<and> all_rows P (sl_buckets s) \<and> (\<forall>t \<in> set (sl_tasks s). \<exists>c. P c \<and> make_task env c = Inr t)"

lemma sel_inv_visit:
  assumes "sel_inv total0 deficit0 parents0 P env s" and "visit_bucket env key s = Inr s'"
  shows "sel_inv total0 deficit0 parents0 P env s'"
proof (cases "pop_first (eligible (sl_remaining s) (sl_parents s)) (dict_get_or [] key (sl_buckets s))")
  case None
  then show ?thesis using assms by (simp add: visit_bucket_def)
next
  case (Some a)
  then obtain c rows where pop: "pop_first (eligible (sl_remaining s) (sl_parents s)) (dict_get_or [] key (sl_buckets s)) = Some (c, rows)"
    by (cases a) auto
  from pop_first_Some [OF pop] have el: "eligible (sl_remaining s) (sl_parents s) c"
    by (rule conjunct1)
  from pop_first_Some [OF pop] obtain us vs where split: "dict_get_or [] key (sl_buckets s) = us @ c # vs" "rows = us @ vs"
    by (elim conjE exE) simp
  obtain t where t: "make_task env c = Inr t"
    using assms(2) by (cases "make_task env c") (simp_all add: visit_bucket_def pop)
  have s': "s' = \<lparr>sl_remaining = (sl_remaining s)(cd_pool c := sl_remaining s (cd_pool c) - 1),
      sl_parents = charge c (sl_parents s), sl_buckets = dict_set key rows (sl_buckets s),
      sl_tasks = sl_tasks s @ [t], sl_progressed = True\<rparr>"
    using assms(2) by (simp add: visit_bucket_def pop t)
  note fields = make_task_fields [OF t]
  have rows: "P d" if "d \<in> set (us @ c # vs)" for d
    using assms(1) all_rows_get [of P "sl_buckets s" d key] that split(1) by (simp add: sel_inv_def)
  have "occurs x s' = occurs x s" for x
    unfolding occurs_def s' by (simp add: rows_with_set split fields)
  then have "occurs x s' = total0 x" for x using assms(1) by (simp add: sel_inv_def)
  moreover have "0 \<le> sl_remaining s' p \<and> sl_remaining s' p + tasks_in p (sl_tasks s') = deficit0 p" for p
  proof -
    have "0 \<le> sl_remaining s p \<and> sl_remaining s p + tasks_in p (sl_tasks s) = deficit0 p"
      using assms(1) by (simp add: sel_inv_def)
    then show ?thesis using el by (auto simp: s' tasks_in_def fields eligible_def)
  qed
  moreover have "dict_get_or (\<lambda>_. 0) parent (sl_parents s') p + tasks_of parent p (sl_tasks s') = dict_get_or (\<lambda>_. 0) parent parents0 p
      \<and> (tasks_of parent p (sl_tasks s') = 0 \<or> 0 \<le> dict_get_or (\<lambda>_. 0) parent (sl_parents s') p)" for parent p
  proof -
    have old: "dict_get_or (\<lambda>_. 0) parent (sl_parents s) p + tasks_of parent p (sl_tasks s) = dict_get_or (\<lambda>_. 0) parent parents0 p
      \<and> (tasks_of parent p (sl_tasks s) = 0 \<or> 0 \<le> dict_get_or (\<lambda>_. 0) parent (sl_parents s) p)"
      using assms(1) by (simp add: sel_inv_def)
    then show ?thesis using el
      by (auto simp: s' tasks_of_def fields eligible_def charge_def Let_def split: option.splits)
  qed
  moreover have "wf_dict (sl_buckets s')" using assms(1) by (simp add: s' sel_inv_def)
  moreover have "all_rows P (sl_buckets s')"
    using assms(1) rows by (auto simp: s' split(2) sel_inv_def intro!: all_rows_set)
  moreover have "\<forall>t \<in> set (sl_tasks s'). \<exists>c. P c \<and> make_task env c = Inr t"
    using assms(1) rows [of c] t by (auto simp: s' sel_inv_def)
  ultimately show ?thesis unfolding sel_inv_def by (intro conjI allI) blast+
qed

interpretation bucket_visits: fallible_machine "visit_bucket env" "sel_inv total0 deficit0 parents0 P env"
  for env total0 deficit0 parents0 P
  by unfold_locales (rule sel_inv_visit)

lemma sel_inv_progressed [simp]: "sel_inv t d ps P env (s\<lparr>sl_progressed := b\<rparr>) = sel_inv t d ps P env s"
  by (simp add: sel_inv_def occurs_def)

lemma sel_inv_pass: "sel_inv t d ps P env s \<Longrightarrow> selection_pass env s = Inr s' \<Longrightarrow> sel_inv t d ps P env s'"
  unfolding selection_pass_def by (rule bucket_visits.run_inv [of t d ps P env "s\<lparr>sl_progressed := False\<rparr>"]) simp_all

lemma sel_inv_rounds: "sel_inv t d ps P env s \<Longrightarrow> select_rounds env s = Inr s' \<Longrightarrow> sel_inv t d ps P env s'"
proof (induction env s rule: select_rounds.induct)
  case (1 env s)
  show ?case
    using "1.prems" "1.IH" sel_inv_pass [OF "1.prems"(1)]
    by (auto simp: select_rounds.simps [of env s] split: if_splits sum.splits)
qed

text \<open>At the end no row is eligible any more.\<close>

lemma idle_pass:
  assumes "run_steps (visit_bucket env) keys s = Inr s'" and "\<not> sl_progressed s'"
  shows "s' = s \<and> (\<forall>key \<in> set keys. \<forall>c \<in> set (dict_get_or [] key (sl_buckets s)).
     \<not> eligible (sl_remaining s) (sl_parents s) c)"
proof -
  have keeps: "run_steps (visit_bucket env) ks u = Inr v \<Longrightarrow> sl_progressed u \<Longrightarrow> sl_progressed v" for ks u v
    by (induction ks arbitrary: u) (auto simp: visit_bucket_def split: sum.splits option.splits)
  have none: "pop_first Q xs = None \<Longrightarrow> \<forall>x \<in> set xs. \<not> Q x" for Q and xs :: "candidate list"
    by (induction xs) (auto split: if_splits)
  show ?thesis using assms
  proof (induction keys arbitrary: s)
    case Nil
    then show ?case by simp
  next
    case (Cons key keys)
    show ?case
    proof (cases "pop_first (eligible (sl_remaining s) (sl_parents s)) (dict_get_or [] key (sl_buckets s))")
      case None
      then have "visit_bucket env key s = Inr s" by (simp add: visit_bucket_def)
      then show ?thesis using Cons none [OF None] by simp
    next
      case (Some a)
      obtain u where "visit_bucket env key s = Inr u" "run_steps (visit_bucket env) keys u = Inr s'"
        using Cons.prems(1) by (auto split: sum.splits)
      moreover have "sl_progressed u"
        using Some calculation(1) by (auto simp: visit_bucket_def split: prod.splits sum.splits)
      ultimately show ?thesis using keeps Cons.prems(2) by blast
    qed
  qed
qed

lemma rounds_exhaust:
  "select_rounds env s = Inr s' \<Longrightarrow> \<forall>p. 0 \<le> sl_remaining s' p \<Longrightarrow>
     (k, rows) \<in> set (sl_buckets s') \<Longrightarrow> map_of (sl_buckets s') k = Some rows \<Longrightarrow> c \<in> set rows
     \<Longrightarrow> \<not> eligible (sl_remaining s') (sl_parents s') c"
proof (induction env s rule: select_rounds.induct)
  case (1 env s)
  show ?case
  proof (cases "sum_pools (sl_remaining s) \<le> 0")
    case True
    then have "s' = s" using "1.prems"(1) by (simp add: select_rounds.simps [of env s])
    have "sl_remaining s V4 + sl_remaining s K3 \<le> 0" using True by (simp add: sum_pools_def POOLS_def)
    moreover have "0 \<le> sl_remaining s V4" "0 \<le> sl_remaining s K3" using "1.prems"(2) \<open>s' = s\<close> by simp_all
    ultimately have "sl_remaining s V4 = 0" "sl_remaining s K3 = 0" by linarith+
    then have "sl_remaining s' p = 0" for p by (cases p) (simp_all add: \<open>s' = s\<close>)
    then show ?thesis by (simp add: eligible_def)
  next
    case False
    then obtain t where pass: "selection_pass env s = Inr t"
      using "1.prems"(1) by (auto simp: select_rounds.simps [of env s] split: sum.splits)
    show ?thesis
    proof (cases "sl_progressed t")
      case True
      then show ?thesis using 1 pass False by (simp add: select_rounds.simps [of env s])
    next
      case idle: False
      then have t: "t = s'" using "1.prems"(1) pass False by (simp add: select_rounds.simps [of env s])
      have "s' = s\<lparr>sl_progressed := False\<rparr> \<and> (\<forall>key \<in> set (sort (map fst (sl_buckets s))).
          \<forall>c \<in> set (dict_get_or [] key (sl_buckets s)). \<not> eligible (sl_remaining s) (sl_parents s) c)"
        using idle_pass [OF pass [unfolded selection_pass_def] idle] t by simp
      then show ?thesis using "1.prems"(3-5) by (force simp: dict_get_or_def)
    qed
  qed
qed


section \<open>The start\<close>

lemma add_candidate_rows:
  "rows_with x (add_candidate registered spawnable e b)
     = rows_with x b + (if admissible registered spawnable (snd e) \<and> fst e = x then 1 else 0)"
  by (auto simp: add_candidate_def Let_def rows_with_set)

lemma fold_candidate_rows:
  "rows_with x (fold (add_candidate registered spawnable) es b)
     = rows_with x b + int (length (filter (\<lambda>e. admissible registered spawnable (snd e) \<and> fst e = x) es))"
  by (induction es arbitrary: b) (auto simp: add_candidate_rows)

lemma fold_candidates_wf:
  "wf_dict b \<Longrightarrow> wf_dict (fold (add_candidate registered spawnable) es b)"
  by (induction es arbitrary: b) (auto simp: add_candidate_def Let_def)

lemma new_candidate:
  "e \<in> set ledger \<Longrightarrow> admissible registered spawnable (snd e) \<Longrightarrow>
     candidate_of registered spawnable ledger
       \<lparr>cd_packet = fst e, cd_entry = snd e, cd_pool = pool_for_packet (snd e),
        cd_parent = parent_key (p_parent_session_id (snd e))\<rparr>"
  by (cases e) (simp add: candidate_of_def)

lemma fold_candidates_all:
  assumes "set es \<subseteq> set ledger" and "all_rows (candidate_of registered spawnable ledger) b"
  shows "all_rows (candidate_of registered spawnable ledger) (fold (add_candidate registered spawnable) es b)"
  using assms
proof (induction es arbitrary: b)
  case Nil
  then show ?case by simp
next
  case (Cons e es)
  have "all_rows (candidate_of registered spawnable ledger) (add_candidate registered spawnable e b)"
    using Cons.prems by (auto simp: add_candidate_def Let_def intro!: all_rows_set new_candidate dest: all_rows_get)
  with Cons show ?case by simp
qed

definition spawnable_of :: "refill_state \<Rightarrow> (pool \<Rightarrow> int) dict" where
  "spawnable_of state = map (\<lambda>(parent, v). (parent, clean (pv_spawnable v))) (fs_parents state)"

definition allowance :: "refill_state \<Rightarrow> string \<Rightarrow> pool \<Rightarrow> int" where
  "allowance state parent p =
     (case map_of (fs_parents state) parent of None \<Rightarrow> 0 | Some v \<Rightarrow> max 0 (pv_spawnable v p))"

lemma spawnable_allowance: "dict_get_or (\<lambda>_. 0) parent (spawnable_of state) p = allowance state parent p"
proof -
  have "map_of (spawnable_of state) parent = map_option (\<lambda>v. clean (pv_spawnable v)) (map_of (fs_parents state) parent)"
    unfolding spawnable_of_def by (induction "fs_parents state") (auto simp: map_of_map)
  then show ?thesis by (simp add: dict_get_or_def allowance_def clean_def split: option.split)
qed

abbreviation selection_start :: "parent_registration dict \<Rightarrow> packet dict \<Rightarrow> refill_state \<Rightarrow> selection" where
  "selection_start registered ledger state \<equiv> start_selection registered ledger (fs_deficit state) (fs_parents state)"

abbreviation offered :: "parent_registration dict \<Rightarrow> packet dict \<Rightarrow> refill_state \<Rightarrow> string \<Rightarrow> int" where
  "offered registered ledger state x \<equiv>
     int (length (filter (\<lambda>e. admissible registered (spawnable_of state) (snd e) \<and> fst e = x) (sort_key fst ledger)))"

lemma start_inv:
  "sel_inv (offered registered ledger state) (clean (fs_deficit state)) (spawnable_of state)
     (candidate_of registered (spawnable_of state) ledger) env (selection_start registered ledger state)"
proof -
  have "all_rows (candidate_of registered (spawnable_of state) ledger)
      (fold (add_candidate registered (spawnable_of state)) (sort_key fst ledger) [])"
    by (rule fold_candidates_all) (simp_all add: all_rows_def)
  moreover have "wf_dict (fold (add_candidate registered (spawnable_of state)) (sort_key fst ledger) [])"
    by (rule fold_candidates_wf) simp
  moreover have start: "selection_start registered ledger state =
      \<lparr>sl_remaining = clean (fs_deficit state), sl_parents = spawnable_of state,
       sl_buckets = fold (add_candidate registered (spawnable_of state)) (sort_key fst ledger) [],
       sl_tasks = [], sl_progressed = False\<rparr>"
    by (simp only: start_selection_def spawnable_of_def Let_def)
  moreover have "rows_with x [] = 0" for x by (simp add: rows_with_def)
  ultimately show ?thesis
    by (simp add: sel_inv_def occurs_def fold_candidate_rows tasks_in_def tasks_of_def) (simp add: clean_def)
qed

lemma distinct_count: "distinct xs \<Longrightarrow> count_list xs x \<le> 1"
  by (induction xs) auto

lemma distinct_count_le: "(\<And>x. count_list xs x \<le> 1) \<Longrightarrow> distinct xs"
proof (induction xs)
  case (Cons y ys)
  have "count_list ys y = 0" using Cons.prems [of y] by simp
  moreover have "count_list ys x \<le> 1" for x using Cons.prems [of x] by (simp split: if_splits)
  ultimately show ?case using Cons.IH by (simp add: count_list_0_iff)
qed simp

lemma positive_summand: "0 < sum_list (map f xs) \<Longrightarrow> \<exists>x \<in> set xs. 0 < (f x :: int)"
proof (rule ccontr)
  assume "0 < sum_list (map f xs)" "\<not> (\<exists>x \<in> set xs. 0 < f x)"
  moreover from this(2) have "sum_list (map f xs) \<le> 0" by (induction xs) (auto simp: not_less add_nonpos_nonpos)
  ultimately show False by simp
qed

lemma offered_le_one:
  assumes "wf_dict ledger"
  shows "offered registered ledger state x \<le> 1"
proof -
  have "length (filter (\<lambda>e. Q (snd e) \<and> fst e = x) es) \<le> count_list (map fst es) x" for Q and es :: "(string \<times> packet) list"
    by (induction es) auto
  moreover have "count_list (map fst (sort_key fst ledger)) x \<le> 1"
    by (rule distinct_count) (use assms in \<open>simp add: distinct_map\<close>)
  ultimately have "length (filter (\<lambda>e. admissible registered (spawnable_of state) (snd e) \<and> fst e = x) (sort_key fst ledger)) \<le> 1"
    by (rule le_trans)
  then show ?thesis by linarith
qed


section \<open>What is selected\<close>

lemma select_tasks_final:
  assumes "select_tasks env registered ledger state = Inr tasks"
  obtains s where "select_rounds env (selection_start registered ledger state) = Inr s" "sl_tasks s = tasks"
    "sel_inv (offered registered ledger state) (clean (fs_deficit state)) (spawnable_of state)
       (candidate_of registered (spawnable_of state) ledger) env s"
proof -
  obtain s where "select_rounds env (selection_start registered ledger state) = Inr s" "sl_tasks s = tasks"
    using assms by (auto simp: select_tasks_def split: sum.splits)
  then show thesis using that sel_inv_rounds [OF start_inv] by blast
qed

lemma selected_admitted:
  assumes "select_tasks env registered ledger state = Inr tasks" and "t \<in> set tasks" and "tk_parent t = Some P"
  shows "\<exists>entry. parent_admits registered P entry"
proof -
  obtain s where "sl_tasks s = tasks" and inv: "sel_inv (offered registered ledger state) (clean (fs_deficit state))
      (spawnable_of state) (candidate_of registered (spawnable_of state) ledger) env s"
    using select_tasks_final [OF assms(1)] by blast
  then obtain c where c: "candidate_of registered (spawnable_of state) ledger c" "make_task env c = Inr t"
    using assms(2) by (auto simp: sel_inv_def)
  then have "parent_key (p_parent_session_id (cd_entry c)) = Some P"
    using make_task_fields(2) [OF c(2)] assms(3) by (auto simp: candidate_of_def)
  then show ?thesis using c(1) by (auto simp: candidate_of_def admissible_def)
qed

text \<open>Claim C27. What is selected stays within the debt: of every pool no more tasks than its deficit,
  of every parent no more than its allowance in every pool, no packet twice; and every task is a
  dispatchable packet of the ledger outside release review, in its own pool, with a valid packet
  file, whose parent, if it has one, is active under the same manifest.\<close>

theorem selection_within_debt:
  assumes "select_tasks env registered ledger state = Inr tasks" and "wf_dict ledger"
  shows "tasks_in p tasks \<le> max 0 (fs_deficit state p) \<and> tasks_of parent p tasks \<le> allowance state parent p
    \<and> distinct (map tk_packet tasks)
    \<and> (\<forall>t \<in> set tasks. \<exists>entry d. map_of ledger (tk_packet t) = Some entry
         \<and> p_state entry = ''DISPATCHABLE'' \<and> \<not> p_release_review entry
         \<and> task_pool t = pool_for_packet entry \<and> tk_parent t = parent_key (p_parent_session_id entry)
         \<and> (\<forall>P. tk_parent t = Some P \<longrightarrow> parent_admits registered P entry)
         \<and> validate_packet env (tk_packet t) = Inr d)"
proof -
  obtain s where s: "sl_tasks s = tasks"
    and inv: "sel_inv (offered registered ledger state) (clean (fs_deficit state)) (spawnable_of state)
       (candidate_of registered (spawnable_of state) ledger) env s"
    using select_tasks_final [OF assms(1)] by blast
  have "0 \<le> sl_remaining s p \<and> sl_remaining s p + tasks_in p tasks = clean (fs_deficit state) p"
    using inv s by (simp add: sel_inv_def)
  then have pool: "tasks_in p tasks \<le> max 0 (fs_deficit state p)" by (simp add: clean_def)
  have "dict_get_or (\<lambda>_. 0) parent (sl_parents s) p + tasks_of parent p tasks = allowance state parent p
      \<and> (tasks_of parent p tasks = 0 \<or> 0 \<le> dict_get_or (\<lambda>_. 0) parent (sl_parents s) p)"
    using inv s by (simp add: sel_inv_def spawnable_allowance)
  moreover have "0 \<le> allowance state parent p" by (simp add: allowance_def split: option.split)
  ultimately have parent: "tasks_of parent p tasks \<le> allowance state parent p" by auto
  have "count_list (map tk_packet tasks) x \<le> 1" for x
  proof -
    have "occurs x s \<le> 1" using inv offered_le_one [OF assms(2)] by (simp add: sel_inv_def)
    moreover have "0 \<le> rows_with x (sl_buckets s)"
      by (auto simp: rows_with_def dict_sum_map intro!: sum_list_nonneg)
    ultimately show ?thesis by (simp add: occurs_def s)
  qed
  then have distinct: "distinct (map tk_packet tasks)" by (simp add: distinct_count_le)
  have "\<exists>entry d. map_of ledger (tk_packet t) = Some entry
         \<and> p_state entry = ''DISPATCHABLE'' \<and> \<not> p_release_review entry
         \<and> task_pool t = pool_for_packet entry \<and> tk_parent t = parent_key (p_parent_session_id entry)
         \<and> (\<forall>P. tk_parent t = Some P \<longrightarrow> parent_admits registered P entry)
         \<and> validate_packet env (tk_packet t) = Inr d" if "t \<in> set tasks" for t
  proof -
    obtain c where c: "candidate_of registered (spawnable_of state) ledger c" "make_task env c = Inr t"
      using inv s \<open>t \<in> set tasks\<close> by (auto simp: sel_inv_def)
    note fields = make_task_fields [OF c(2)]
    have "map_of ledger (cd_packet c) = Some (cd_entry c)"
      using c(1) assms(2) by (auto simp: candidate_of_def)
    then show ?thesis using c(1) fields by (auto simp: candidate_of_def admissible_def split: option.splits)
  qed
  then show ?thesis using pool parent distinct by blast
qed

text \<open>The selection leaves nothing behind: every admissible packet of the ledger is
  selected, unless the deficit of its pool or the allowance of its parent is used up to the last
  unit.\<close>

theorem selection_is_maximal:
  assumes "select_tasks env registered ledger state = Inr tasks" and "wf_dict ledger"
    and "map_of ledger pid = Some entry" and "admissible registered (spawnable_of state) entry"
  shows "pid \<in> tk_packet ` set tasks
    \<or> tasks_in (pool_for_packet entry) tasks = max 0 (fs_deficit state (pool_for_packet entry))
    \<or> (\<exists>P. parent_key (p_parent_session_id entry) = Some P
         \<and> tasks_of P (pool_for_packet entry) tasks = allowance state P (pool_for_packet entry))"
proof (cases "pid \<in> tk_packet ` set tasks")
  case False
  obtain s where s: "sl_tasks s = tasks" and rounds: "select_rounds env (selection_start registered ledger state) = Inr s"
    and inv: "sel_inv (offered registered ledger state) (clean (fs_deficit state)) (spawnable_of state)
       (candidate_of registered (spawnable_of state) ledger) env s"
    using select_tasks_final [OF assms(1)] by blast
  have "(pid, entry) \<in> set ledger" using assms(3) by (rule map_of_SomeD)
  then have "0 < offered registered ledger state pid" using assms(4) by (force simp: filter_empty_conv)
  moreover have "count_list (map tk_packet tasks) pid = 0" using False by (simp add: count_list_0_iff)
  moreover have "int (count_list (map tk_packet tasks) pid) + rows_with pid (sl_buckets s) = offered registered ledger state pid"
    using inv s by (simp add: sel_inv_def occurs_def)
  ultimately have "0 < rows_with pid (sl_buckets s)" by linarith
  then obtain k rows where bucket: "(k, rows) \<in> set (sl_buckets s)" "count_list (map cd_packet rows) pid \<noteq> 0"
    by (auto simp: rows_with_def dict_sum_map dest: positive_summand)
  then obtain c where c: "c \<in> set rows" "cd_packet c = pid"
    by (metis (no_types, lifting) count_list_0_iff image_iff list.set_map)
  have get: "map_of (sl_buckets s) k = Some rows" using bucket(1) inv by (simp add: sel_inv_def)
  have "candidate_of registered (spawnable_of state) ledger c"
    using inv bucket(1) c(1) by (auto simp: sel_inv_def all_rows_def)
  then have own: "(pid, cd_entry c) \<in> set ledger" "cd_pool c = pool_for_packet (cd_entry c)"
      "cd_parent c = parent_key (p_parent_session_id (cd_entry c))"
    using c(2) by (auto simp: candidate_of_def)
  have "cd_entry c = entry" using map_of_is_SomeI [OF assms(2) own(1)] assms(3) by simp
  then have fields: "cd_pool c = pool_for_packet entry" "cd_parent c = parent_key (p_parent_session_id entry)"
    using own by simp_all
  have nonneg: "\<forall>p. 0 \<le> sl_remaining s p" using inv by (simp add: sel_inv_def)
  have "\<not> eligible (sl_remaining s) (sl_parents s) c"
    using rounds_exhaust [OF rounds nonneg bucket(1) get c(1)] .
  then consider "sl_remaining s (pool_for_packet entry) \<le> 0"
    | P where "parent_key (p_parent_session_id entry) = Some P"
        "dict_get_or (\<lambda>_. 0) P (sl_parents s) (pool_for_packet entry) \<le> 0"
    by (auto simp: eligible_def fields split: option.splits)
  then show ?thesis
  proof cases
    case 1
    moreover have "0 \<le> sl_remaining s (pool_for_packet entry)
        \<and> sl_remaining s (pool_for_packet entry) + tasks_in (pool_for_packet entry) tasks
          = clean (fs_deficit state) (pool_for_packet entry)"
      using inv s by (simp add: sel_inv_def)
    ultimately have "tasks_in (pool_for_packet entry) tasks = clean (fs_deficit state) (pool_for_packet entry)" by linarith
    then show ?thesis by (simp add: clean_def)
  next
    case 2
    have "dict_get_or (\<lambda>_. 0) P (sl_parents s) (pool_for_packet entry) + tasks_of P (pool_for_packet entry) tasks
          = allowance state P (pool_for_packet entry)
        \<and> (tasks_of P (pool_for_packet entry) tasks = 0 \<or> 0 \<le> dict_get_or (\<lambda>_. 0) P (sl_parents s) (pool_for_packet entry))"
      using inv s by (simp add: sel_inv_def spawnable_allowance)
    moreover have "0 \<le> allowance state P (pool_for_packet entry)" by (simp add: allowance_def split: option.split)
    ultimately show ?thesis using 2 by auto
  qed
qed simp


section \<open>Requests are not lost\<close>

definition busy_passes :: "nat list \<Rightarrow> nat" where
  "busy_passes arrivals = length (takeWhile (\<lambda>n. 0 < n) arrivals)"



section \<open>One transaction\<close>

lemma selected_within_pool:
  assumes "select_tasks env registered ledger state = Inr tasks"
  shows "tasks_in p tasks \<le> max 0 (fs_deficit state p)"
proof -
  obtain s where "sl_tasks s = tasks" and inv: "sel_inv (offered registered ledger state) (clean (fs_deficit state))
      (spawnable_of state) (candidate_of registered (spawnable_of state) ledger) env s"
    using select_tasks_final [OF assms] by blast
  then have "0 \<le> sl_remaining s p \<and> sl_remaining s p + tasks_in p tasks = clean (fs_deficit state) p"
    by (simp add: sel_inv_def)
  then show ?thesis by (simp add: clean_def)
qed

lemma length_by_pool: "int (length tasks) = sum_pools (\<lambda>p. tasks_in p tasks)"
proof -
  have "length tasks = length (filter (\<lambda>t. task_pool t = V4) tasks) + length (filter (\<lambda>t. task_pool t = K3) tasks)"
    by (induction tasks) (auto intro: pool.exhaust)
  then show ?thesis by (simp add: sum_pools_def POOLS_def tasks_in_def)
qed


section \<open>One bad packet\<close>

definition example_file :: "string \<Rightarrow> json option" where
  "example_file pid = (if pid = ''a0'' then None
     else Some (JObj [(''packet_id'', JStr pid), (''goal'', JStr ''fix''), (''authorized_paths'', JList []),
       (''acceptance'', JList [])]))"

definition example_selection_env :: selection_env where
  "example_selection_env = \<lparr>se_files = example_file, se_task_names = (\<lambda>pid. JNull), se_str = (\<lambda>v. ''value'')\<rparr>"

definition ready_packet :: "json \<Rightarrow> packet" where
  "ready_packet role = new_packet\<lparr>p_state := ''DISPATCHABLE'', p_role := role\<rparr>"

definition example_ledger :: "packet dict" where
  "example_ledger = [(''p2'', ready_packet (JStr ''worker'')), (''p1'', ready_packet (JStr ''worker'')),
     (''p3'', ready_packet (JStr ''verifier'')), (''p4'', new_packet)]"

definition small_policy :: refill_policy where
  "small_policy = \<lparr>rp_target = (\<lambda>p. case p of V4 \<Rightarrow> 1 | K3 \<Rightarrow> 1), rp_low_water = (\<lambda>p. 1),
     rp_target_total = 2, rp_dialogue_target = 2, rp_borrowable = True\<rparr>"

definition quiet_rosters :: refill_env where
  "quiet_rosters = \<lparr>rf_now = 0, rf_agents = [], rf_pending = [], rf_jobs = [], rf_start_token = (\<lambda>_. None),
     rf_observer = None, rf_registry = []\<rparr>"

definition example_refill :: refill_state where
  "example_refill = fst (recompute small_policy quiet_rosters (queue_sync_ledger [] example_ledger) False False)"

definition example_tasks :: "task list" where
  "example_tasks = right_or [] (select_tasks example_selection_env [] example_ledger example_refill)"

lemma example_selection:
  "map tk_packet example_tasks = [''p1'', ''p3'']"
  "opt_of (select_tasks example_selection_env [] example_ledger example_refill) \<noteq> None"
  by code_simp+

lemma example_selected: "select_tasks example_selection_env [] example_ledger example_refill = Inr example_tasks"
  using example_selection(2) unfolding example_tasks_def
  by (cases "select_tasks example_selection_env [] example_ledger example_refill") simp_all

lemma example_ledger_wf: "wf_dict example_ledger"
  by (simp add: example_ledger_def)

theorem selection_within_debt_witness:
  "length example_tasks = 2 \<and> tasks_in V4 example_tasks \<le> max 0 (fs_deficit example_refill V4)
   \<and> distinct (map tk_packet example_tasks)"
  using selection_within_debt [OF example_selected example_ledger_wf, of V4 "''''"] example_selection(1)
  by (metis One_nat_def Suc_1 length_Cons length_map list.size(3))

theorem selection_is_maximal_witness:
  "''p2'' \<notin> tk_packet ` set example_tasks
   \<and> tasks_in V4 example_tasks = max 0 (fs_deficit example_refill V4)"
proof -
  let ?e = "ready_packet (JStr ''worker'')"
  have out: "''p2'' \<notin> tk_packet ` set example_tasks"
    unfolding set_map [symmetric] example_selection(1) by simp
  have "map_of example_ledger ''p2'' = Some ?e" by (simp add: example_ledger_def)
  moreover have "admissible [] (spawnable_of example_refill) ?e" "pool_for_packet ?e = V4"
      "parent_key (p_parent_session_id ?e) = None" by code_simp+
  ultimately show ?thesis
    using selection_is_maximal [OF example_selected example_ledger_wf, of "''p2''" ?e] out by simp
qed

definition example_consumer_world :: consumer_world where
  "example_consumer_world = \<lparr>cw_rosters = quiet_rosters, cw_machine = sm_init\<lparr>packets := [(''p1'', ready_packet (JStr ''worker''))]\<rparr>,
     cw_stream = [], cw_queue = \<lparr>wq_pools = (\<lambda>_. 0), wq_parents = []\<rparr>, cw_finalized = False,
     cw_required = False, cw_refill_events = []\<rparr>"

definition example_transaction :: "nat option" where
  "example_transaction = (case run_once small_policy example_selection_env (\<lambda>s. None) demo_env
       (\<lambda>dry ts w. (0, w)) True example_consumer_world of
     Inr (rc, Ran dry ts before after again, w') \<Rightarrow> Some (length ts) | _ \<Rightarrow> None)"

lemma example_transaction_result: "example_transaction = Some 1"
  by code_simp



text \<open>
  The first selectable packet without a valid file ends the whole selection, so nothing else is
  started in this pass or in any later one until the packet is repaired by hand.
\<close>

lemma invalid_packet_blocks_all:
  "select_tasks example_selection_env [] ((''a0'', ready_packet (JStr ''worker'')) # example_ledger) example_refill
     = Inl (Packet_file ''a0'')"
  by code_simp

end
