(* ===== verification/Once_Log.thy ===== *)
theory Once_Log
  imports Py_Prelude
begin

text \<open>
  The contract of the append-only files that double as a record of what was already done: the
  writer looks for a row of the same key under the lock and appends only when there is none.
  The native hook's event streams and its ledger of close requests follow it.
\<close>

locale once_log =
  fixes emit :: "'k \<Rightarrow> 'a \<Rightarrow> 'l \<Rightarrow> bool \<times> 'l"
    and hits :: "'k \<Rightarrow> 'l \<Rightarrow> nat"
  assumes emitted: "emit k x l = (True, l') \<Longrightarrow> hits k l = 0 \<and> hits k l' = 1"
    and refused: "emit k x l = (False, l') \<Longrightarrow> l' = l \<and> 0 < hits k l"
    and others: "emit k x l = (b, l') \<Longrightarrow> j \<noteq> k \<Longrightarrow> hits j l' = hits j l"
begin

lemma emit_cases:
  "(hits k l = 0 \<and> hits k (snd (emit k x l)) = 1) \<or> (snd (emit k x l) = l \<and> 0 < hits k l)"
proof (cases "emit k x l")
  case (Pair b l')
  then show ?thesis using emitted [of k x l l'] refused [of k x l l'] by (cases b) auto
qed

lemma emit_frame: "j \<noteq> k \<Longrightarrow> hits j (snd (emit k x l)) = hits j l"
  using others [of k x l "fst (emit k x l)" "snd (emit k x l)" j] by simp

lemma emit_present: "0 < hits k (snd (emit k x l))"
  using emit_cases [of k l x] by (elim disjE conjE) simp_all

lemma emit_at_most_once: "hits j l \<le> 1 \<Longrightarrow> hits j (snd (emit k x l)) \<le> 1"
  using emit_cases [of k l x] emit_frame [of j k x l] by (cases "j = k") auto

lemma emit_mono: "hits j l \<le> hits j (snd (emit k x l))"
  using emit_cases [of k l x] emit_frame [of j k x l] by (cases "j = k") auto

lemma emits_at_most_once: "hits j l \<le> 1 \<Longrightarrow> hits j (fold (\<lambda>p l. snd (emit (fst p) (snd p) l)) ks l) \<le> 1"
  by (induction ks arbitrary: l) (auto simp del: One_nat_def intro: emit_at_most_once)

end

text \<open>Looking for a row with the property of its key and appending one that has it.\<close>

definition append_once :: "('r \<Rightarrow> bool) \<Rightarrow> 'r \<Rightarrow> 'r list \<Rightarrow> bool \<times> 'r list" where
  "append_once found row lg = (if list_ex found lg then (False, lg) else (True, lg @ [row]))"

definition rows_of :: "('r \<Rightarrow> bool) \<Rightarrow> 'r list \<Rightarrow> nat" where
  "rows_of found lg = length (filter found lg)"

lemma rows_of_append [simp]: "rows_of found (xs @ ys) = rows_of found xs + rows_of found ys"
  by (simp add: rows_of_def)

lemma rows_of_Nil [simp]: "rows_of found [] = 0"
  by (simp add: rows_of_def)

lemma rows_of_Cons [simp]: "rows_of found (x # xs) = (if found x then 1 else 0) + rows_of found xs"
  by (simp add: rows_of_def)

lemma rows_of_zero: "rows_of found lg = 0 \<longleftrightarrow> \<not> list_ex found lg"
  by (auto simp: rows_of_def filter_empty_conv list_ex_iff)

lemma append_once_emitted: "found row \<Longrightarrow> append_once found row lg = (True, lg') \<Longrightarrow>
    rows_of found lg = 0 \<and> rows_of found lg' = 1"
  by (auto simp: append_once_def rows_of_zero split: if_splits)

lemma append_once_refused: "append_once found row lg = (False, lg') \<Longrightarrow> lg' = lg \<and> 0 < rows_of found lg"
  using rows_of_zero [of found lg] by (auto simp: append_once_def split: if_splits)

lemma append_once_others: "append_once found row lg = (b, lg') \<Longrightarrow> \<not> other row \<Longrightarrow>
    rows_of other lg' = rows_of other lg"
  by (auto simp: append_once_def split: if_splits)

end
