(* ===== verification/Lifecycle.thy ===== *)
theory Lifecycle
  imports Once_Log Refill
begin

text \<open>
  The lifecycle hook of native subagents, \<open>src/hooks/subagent_lifecycle.py\<close>: the identity of a
  payload, the roster of pending and started agents, the ledger of close requests, the stop of a
  parent session and the reconciliation at session start. Rows of the roster are JSON objects; rows
  and lines that are not objects are absent, and ids are strings. The clock, the rollout files, the
  processes, the pattern of a task line and \<open>json.loads\<close> are arguments.
\<close>

section \<open>Constants and state\<close>

definition PENDING_TTL_SECONDS :: rat where
  "PENDING_TTL_SECONDS = 600"

definition ROSTER_PRUNE_AFTER_S :: rat where
  "ROSTER_PRUNE_AFTER_S = 48 * 3600"

definition TERMINAL_MARKERS :: "string list" where
  "TERMINAL_MARKERS = [''task_complete'', ''turn_aborted'', ''turn_failed'', ''thread_closed'']"

definition NAME_FALLBACK_SOURCE :: string where
  "NAME_FALLBACK_SOURCE = ''agent_id_fallback''"

text \<open>
  \<open>he_rollouts\<close> gives the rollout files whose name contains an id, newest first, as their parsed
  lines; \<open>he_proc\<close> the start ticks of a live process; \<open>he_reaped\<close> whether the process group of a lost
  job is gone after it was signalled. The two readable flags say whether reading the close ledger
  and the event stream succeeds.
\<close>

record hook_env =
  he_now :: rat
  he_close_readable :: bool
  he_main_readable :: bool
  he_rollouts :: "string \<Rightarrow> jobj option list list"
  he_task :: "string \<Rightarrow> string option"
  he_legacy :: "string list"
  he_parse :: "string \<Rightarrow> json option"
  he_str :: "json \<Rightarrow> string"
  he_proc :: "int \<Rightarrow> int option"
  he_reaped :: "jobj \<Rightarrow> bool"

record native_roster =
  nr_pending :: "jobj list"
  nr_agents :: "jobj dict"

datatype roster_file = Absent | Unreadable | Stored native_roster

datatype hook_action = Recompute_refill | Schedule_refill string | Refresh_meter

text \<open>
  The files the hook keeps: the native roster, the close requests, the event stream of the harness,
  the audit, the name map, the registered parents, the exec roster, the cancel files, and the
  controllers it triggers. A line of the two ledgers that is not JSON is \<open>None\<close>.
\<close>

record hook_world =
  hw_roster :: roster_file
  hw_close :: "jobj option list"
  hw_main :: "jobj option list"
  hw_audit :: "(string \<times> jobj) list"
  hw_names :: "jobj list"
  hw_parents :: "jobj dict"
  hw_jobs :: "jobj dict"
  hw_cancel :: "jobj dict"
  hw_actions :: "hook_action list"

definition audit :: "string \<Rightarrow> jobj \<Rightarrow> hook_world \<Rightarrow> hook_world" where
  "audit event detail w = w\<lparr>hw_audit := hw_audit w @ [(event, detail)]\<rparr>"

definition trigger :: "hook_action list \<Rightarrow> hook_world \<Rightarrow> hook_world" where
  "trigger actions w = w\<lparr>hw_actions := hw_actions w @ actions\<rparr>"

text \<open>\<open>dict.update\<close>\<close>

definition dict_update :: "jobj \<Rightarrow> jobj \<Rightarrow> jobj" where
  "dict_update kvs d = fold (\<lambda>(k, v). dict_set k v) kvs d"

definition opt_json :: "string option \<Rightarrow> json" where
  "opt_json v = (case v of None \<Rightarrow> JNull | Some s \<Rightarrow> JStr s)"

text \<open>A roster that cannot be read is never overwritten: the hook raises.\<close>

definition transact ::
  "(native_roster \<Rightarrow> hook_world \<Rightarrow> 'a \<times> native_roster \<times> hook_world) \<Rightarrow> hook_world \<Rightarrow> 'a option \<times> hook_world" where
  "transact fn w =
     (case hw_roster w of
        Unreadable \<Rightarrow> (None, w)
      | Absent \<Rightarrow> (case fn \<lparr>nr_pending = [], nr_agents = []\<rparr> w of (x, r, w') \<Rightarrow> (Some x, w'\<lparr>hw_roster := Stored r\<rparr>))
      | Stored r0 \<Rightarrow> (case fn r0 w of (x, r, w') \<Rightarrow> (Some x, w'\<lparr>hw_roster := Stored r\<rparr>)))"

section \<open>Ledgers\<close>

definition line_is :: "(jobj \<Rightarrow> bool) \<Rightarrow> jobj option \<Rightarrow> bool" where
  "line_is P line = (case line of None \<Rightarrow> False | Some row \<Rightarrow> P row)"

definition main_row :: "string \<times> string \<Rightarrow> jobj option \<Rightarrow> bool" where
  "main_row key = line_is (\<lambda>row. py_eq (jget row ''event'') (JStr (fst key)) \<and> py_eq (jget row ''agent_id'') (JStr (snd key)))"

definition main_event :: "string \<times> string \<Rightarrow> rat \<times> jobj \<Rightarrow> jobj option list \<Rightarrow> bool \<times> jobj option list" where
  "main_event key x lg = append_once (main_row key)
     (Some ([(''ts'', JFloat (fst x)), (''event'', JStr (fst key)), (''agent_id'', JStr (snd key))] @ snd x)) lg"

text \<open>An event stream that cannot be read counts as empty.\<close>

definition main_event_once :: "hook_env \<Rightarrow> string \<Rightarrow> string \<Rightarrow> jobj \<Rightarrow> hook_world \<Rightarrow> hook_world" where
  "main_event_once env event agent_id detail w =
     w\<lparr>hw_main := (if he_main_readable env
        then snd (main_event (event, agent_id) (he_now env, detail) (hw_main w))
        else hw_main w @ snd (main_event (event, agent_id) (he_now env, detail) []))\<rparr>"

definition exec_row :: "string \<times> json \<times> string \<Rightarrow> jobj option \<Rightarrow> bool" where
  "exec_row key = line_is (\<lambda>row. py_eq (jget row ''packet_id'') (JStr (fst key))
      \<and> py_eq (jget row ''run_id'') (fst (snd key)) \<and> py_eq (jget row ''event'') (JStr (snd (snd key))))"

definition exec_event :: "string \<times> json \<times> string \<Rightarrow> rat \<times> int \<times> jobj \<Rightarrow> jobj option list \<Rightarrow> bool \<times> jobj option list" where
  "exec_event key x lg = append_once (exec_row key)
     (Some [(''ts'', JFloat (fst x)), (''packet_id'', JStr (fst key)), (''run_id'', fst (snd key)),
        (''attempt'', JInt (fst (snd x))), (''event'', JStr (snd (snd key))), (''detail'', JObj (snd (snd x)))]) lg"

definition exec_event_once ::
  "hook_env \<Rightarrow> string \<Rightarrow> json \<Rightarrow> int \<Rightarrow> string \<Rightarrow> jobj \<Rightarrow> hook_world \<Rightarrow> hook_world" where
  "exec_event_once env pid run_id attempt event detail w =
     w\<lparr>hw_main := (if he_main_readable env
        then snd (exec_event (pid, run_id, event) (he_now env, attempt, detail) (hw_main w))
        else hw_main w @ snd (exec_event (pid, run_id, event) (he_now env, attempt, detail) []))\<rparr>"

definition close_row :: "json \<Rightarrow> jobj option \<Rightarrow> bool" where
  "close_row agent_id = line_is (\<lambda>row. py_eq (jget row ''agent_id'') agent_id
      \<and> py_eq (jget row ''action'') (JStr ''host_close_agent_required''))"

definition close_request :: "json \<Rightarrow> rat \<times> jobj \<times> string \<Rightarrow> jobj option list \<Rightarrow> bool \<times> jobj option list" where
  "close_request agent_id x lg = append_once (close_row agent_id)
     (Some [(''ts'', JFloat (fst x)), (''agent_id'', agent_id), (''task_name'', jget (fst (snd x)) ''task_name''),
        (''parent_session_id'', jget (fst (snd x)) ''parent_session_id''), (''reason'', JStr (snd (snd x))),
        (''action'', JStr ''host_close_agent_required'')]) lg"

text \<open>The ledger decides; the flags of the roster row spare the look or stand in for it.\<close>

definition queue_close_locked :: "hook_env \<Rightarrow> string \<Rightarrow> jobj \<Rightarrow> hook_world \<Rightarrow> bool \<times> jobj \<times> hook_world" where
  "queue_close_locked env reason agent w =
     (if truthy (jget agent ''close_request_emitted'') \<or> truthy (jget agent ''close_request_consumed'')
      then (False, agent, w)
      else case (if he_close_readable env then close_request (jget agent ''agent_id'') (he_now env, agent, reason) (hw_close w)
                 else (True, hw_close w @ snd (close_request (jget agent ''agent_id'') (he_now env, agent, reason) []))) of
        (False, lg) \<Rightarrow> (False, dict_set ''close_request_emitted'' (JBool True) agent, w)
      | (True, lg) \<Rightarrow> (True, dict_update [(''close_request_emitted'', JBool True), (''close_request_reason'', JStr reason)] agent,
                        w\<lparr>hw_close := lg\<rparr>))"

section \<open>Payloads\<close>

definition sid :: "json \<Rightarrow> string option" where
  "sid v = (case v of JStr s \<Rightarrow> if s = [] then None else Some s | _ \<Rightarrow> None)"

definition text_of :: "hook_env \<Rightarrow> json \<Rightarrow> string" where
  "text_of env v = (case v of JStr s \<Rightarrow> s | _ \<Rightarrow> he_str env v)"

definition first_of :: "jobj \<Rightarrow> string list \<Rightarrow> json" where
  "first_of d ks = fold (\<lambda>k v. py_or v (jget d k)) (tl ks) (jget d (hd ks))"

definition raw_tool_input :: "jobj \<Rightarrow> json" where
  "raw_tool_input payload = py_or (first_of payload [''tool_input'', ''input'', ''arguments'']) (JObj [])"

definition tool_arguments :: "hook_env \<Rightarrow> jobj \<Rightarrow> jobj" where
  "tool_arguments env payload =
     (case raw_tool_input payload of
        JObj d \<Rightarrow> d
      | JStr s \<Rightarrow> (case he_parse env s of Some (JObj d) \<Rightarrow> d | _ \<Rightarrow> [])
      | _ \<Rightarrow> [])"

text \<open>
  The search for a task line: the values still to visit form a stack, the last one pushed is
  visited first.
\<close>

fun weight :: "json \<Rightarrow> nat" where
  "weight (JList xs) = Suc (sum_list (map weight xs))"
| "weight (JObj d) = Suc (sum_list (map (\<lambda>p. weight (snd p)) d))"
| "weight _ = 1"

function find_task :: "(string \<Rightarrow> string option) \<Rightarrow> json list \<Rightarrow> string option" where
  "find_task matcher [] = None"
| "find_task matcher (v # stack) =
     (case v of
        JStr s \<Rightarrow> (case matcher s of Some name \<Rightarrow> Some (take 160 (py_strip name)) | None \<Rightarrow> find_task matcher stack)
      | JObj d \<Rightarrow> find_task matcher (rev (map snd d) @ stack)
      | JList xs \<Rightarrow> find_task matcher (rev xs @ stack)
      | _ \<Rightarrow> find_task matcher stack)"
  by pat_completeness auto
termination
  by (relation "measure (\<lambda>(m, stack). sum_list (map weight stack))")
    (auto simp: sum_list_rev rev_map [symmetric] o_def)

definition payload_task_name :: "hook_env \<Rightarrow> jobj \<Rightarrow> string option" where
  "payload_task_name env payload =
     (let tool_input = (case raw_tool_input payload of
          JObj d \<Rightarrow> d
        | JStr s \<Rightarrow> (case he_parse env s of Some (JObj d) \<Rightarrow> d | Some v \<Rightarrow> [] | None \<Rightarrow> [(''message'', JStr s)])
        | _ \<Rightarrow> []) in
      case first_of tool_input [''task_name'', ''name''] of
        JStr s \<Rightarrow> if py_strip s \<noteq> [] then Some (take 160 (py_strip s)) else find_task (he_task env) [JObj tool_input]
      | _ \<Rightarrow> find_task (he_task env) [JObj tool_input])"

definition is_alnum :: "char \<Rightarrow> bool" where
  "is_alnum c = (let n = of_char c :: nat in 48 \<le> n \<and> n \<le> 57 \<or> 65 \<le> n \<and> n \<le> 90 \<or> 97 \<le> n \<and> n \<le> 122)"

definition tool_is_spawn_agent :: "string \<Rightarrow> bool" where
  "tool_is_spawn_agent tool =
     (let value = py_lower tool; folded = filter is_alnum value in
      sublist ''spawn_agent'' value \<or> folded = ''agent'' \<or> sublist ''spawnagent'' folded)"

text \<open>
  The agent and its parent. Two fields that name the same thing differently are a conflict, and
  the hook then does nothing but record it.
\<close>

definition resolve_identity :: "jobj \<Rightarrow> string + (string option \<times> string option)" where
  "resolve_identity payload =
     (let agent_id = sid (jget payload ''agent_id''); thread_id = sid (jget payload ''thread_id'');
          session_id = sid (jget payload ''session_id''); parent_thread_id = sid (jget payload ''parent_thread_id'');
          raw_id = sid (jget payload ''id'');
          parent = (if session_id \<noteq> None then session_id else parent_thread_id);
          agent = (if agent_id \<noteq> None then agent_id else thread_id) in
      if agent_id \<noteq> None \<and> thread_id \<noteq> None \<and> agent_id \<noteq> thread_id then Inl ''agent_id/thread_id''
      else if session_id \<noteq> None \<and> parent_thread_id \<noteq> None \<and> session_id \<noteq> parent_thread_id
      then Inl ''session_id/parent_thread_id''
      else if agent \<noteq> None \<and> raw_id \<noteq> None \<and> raw_id \<noteq> parent \<and> agent \<noteq> raw_id then Inl ''agent_id/id''
      else Inr (if agent = None \<and> raw_id \<noteq> parent then raw_id else agent, parent))"

definition conflict :: "string \<Rightarrow> string \<Rightarrow> hook_world \<Rightarrow> hook_world" where
  "conflict hook pair w = audit ''identity_conflict''
     [(''context'', JStr hook), (''pair'', JStr pair), (''action'', JStr ''fail_closed'')] w"

section \<open>The rollout of the parent\<close>

definition valid_id :: "string \<Rightarrow> bool" where
  "valid_id s = (case s of [] \<Rightarrow> False
     | c # cs \<Rightarrow> is_alnum c \<and> length cs \<le> 127 \<and> list_all (\<lambda>d. is_alnum d \<or> d = CHR ''_'' \<or> d = CHR ''-'') cs)"

definition call_payload :: "string \<Rightarrow> string \<Rightarrow> jobj option \<Rightarrow> jobj option" where
  "call_payload kind call_id line =
     (case line of
        None \<Rightarrow> None
      | Some row \<Rightarrow> (let payload = obj_of (jget row ''payload'') in
          if py_eq (jget payload ''type'') (JStr kind) \<and> py_eq (jget payload ''call_id'') (JStr call_id)
          then Some payload else None))"

fun first_found :: "('a \<Rightarrow> 'b option) \<Rightarrow> 'a list \<Rightarrow> 'b option" where
  "first_found f [] = None"
| "first_found f (x # xs) = (case f x of None \<Rightarrow> first_found f xs | Some y \<Rightarrow> Some y)"

text \<open>The arguments of the first matching call; arguments that are no object end the search.\<close>

definition recover_arguments_from_parent_rollout ::
  "hook_env \<Rightarrow> string option \<Rightarrow> string option \<Rightarrow> jobj option" where
  "recover_arguments_from_parent_rollout env parent tool_use_id =
     (case (parent, tool_use_id) of
        (Some p, Some t) \<Rightarrow>
          if \<not> valid_id p \<or> \<not> valid_id t then None
          else (case first_found (call_payload ''function_call'' t) (concat (he_rollouts env p)) of
                  None \<Rightarrow> None
                | Some payload \<Rightarrow>
                    (case py_or (jget payload ''arguments'') (JObj []) of
                       JObj d \<Rightarrow> Some d
                     | JStr s \<Rightarrow> (case he_parse env s of Some (JObj d) \<Rightarrow> Some d | Some v \<Rightarrow> None
                                  | None \<Rightarrow> Some [(''message'', JStr s)])
                     | _ \<Rightarrow> None))
      | _ \<Rightarrow> None)"

text \<open>An output that is not JSON is skipped; the first other output decides.\<close>

definition spawn_output :: "hook_env \<Rightarrow> string \<Rightarrow> jobj option \<Rightarrow> json option" where
  "spawn_output env call_id line =
     (case call_payload ''function_call_output'' call_id line of
        None \<Rightarrow> None
      | Some payload \<Rightarrow>
          (case py_or (jget payload ''output'') (JObj []) of JStr s \<Rightarrow> he_parse env s | v \<Rightarrow> Some v))"

definition recover_spawn_agent_id :: "hook_env \<Rightarrow> string option \<Rightarrow> string option \<Rightarrow> string option" where
  "recover_spawn_agent_id env parent tool_use_id =
     (case (parent, tool_use_id) of
        (Some p, Some t) \<Rightarrow>
          if \<not> valid_id p \<or> \<not> valid_id t then None
          else (case first_found (spawn_output env t) (concat (he_rollouts env p)) of
                  Some (JObj d) \<Rightarrow> (case sid (jget d ''agent_id'') of
                      Some c \<Rightarrow> if valid_id c then Some c else None | None \<Rightarrow> None)
                | _ \<Rightarrow> None)
      | _ \<Rightarrow> None)"

definition recover_task_from_parent_rollout :: "hook_env \<Rightarrow> string option \<Rightarrow> string option \<Rightarrow> string option" where
  "recover_task_from_parent_rollout env parent tool_use_id =
     payload_task_name env [(''tool_input'', JObj (case recover_arguments_from_parent_rollout env parent tool_use_id of
        None \<Rightarrow> [] | Some d \<Rightarrow> d))]"

section \<open>Spawns\<close>

definition expired :: "rat \<Rightarrow> jobj \<Rightarrow> bool" where
  "expired now item = (PENDING_TTL_SECONDS < now - right_or 0 (py_float (py_or (jget item ''created_at'') (JInt 0))))"

definition prune_pending :: "rat \<Rightarrow> native_roster \<Rightarrow> jobj list \<times> native_roster" where
  "prune_pending now r =
     (let waiting = filter (\<lambda>item. py_eq (jget item ''status'') (JStr ''pending_start'')) (nr_pending r) in
      (filter (expired now) waiting, r\<lparr>nr_pending := filter (\<lambda>item. \<not> expired now item) waiting\<rparr>))"

definition audit_expired :: "jobj list \<Rightarrow> hook_world \<Rightarrow> hook_world" where
  "audit_expired gone w = (if gone = [] then w
     else audit ''pending_expired'' [(''count'', JInt (int (length gone))),
       (''tool_use_ids'', JList (map (\<lambda>x. jget x ''tool_use_id'') gone))] w)"

definition close_target :: "hook_env \<Rightarrow> string option \<Rightarrow> jobj \<Rightarrow> string option" where
  "close_target env parent payload =
     (let ks = [''target'', ''agent_id'', ''id'']; direct = first_of (tool_arguments env payload) ks in
      if truthy direct then Some (text_of env direct)
      else (case recover_arguments_from_parent_rollout env parent (sid (jget payload ''tool_use_id'')) of
              None \<Rightarrow> None
            | Some d \<Rightarrow> if truthy (first_of d ks) then Some (text_of env (first_of d ks)) else None))"

text \<open>The host closed an agent: its request, if any, is consumed.\<close>

definition confirm_close :: "hook_env \<Rightarrow> string \<Rightarrow> native_roster \<Rightarrow> hook_world \<Rightarrow> jobj option \<times> native_roster \<times> hook_world" where
  "confirm_close env target r w =
     (case map_of (nr_agents r) target of
        None \<Rightarrow> (None, r, w)
      | Some item \<Rightarrow>
          if item = [] then (None, r, w)
          else if truthy (jget item ''host_close_confirmed_at'') then (Some item, r, w)
          else (let item' = dict_update [(''host_close_confirmed_at'', JFloat (he_now env)),
                    (''close_request_consumed'', JBool True),
                    (''close_observed_before_request'', JBool (\<not> truthy (jget item ''close_request_emitted''))),
                    (''updated_at'', JFloat (he_now env))] item in
                (Some item', r\<lparr>nr_agents := dict_set target item' (nr_agents r)\<rparr>, w)))"

definition spawn_item :: "hook_env \<Rightarrow> string option \<Rightarrow> jobj \<Rightarrow> jobj" where
  "spawn_item env parent payload =
     [(''task_name'', opt_json (payload_task_name env payload)), (''parent_session_id'', opt_json parent),
      (''tool_use_id'', jget payload ''tool_use_id''), (''created_at'', JFloat (he_now env)),
      (''status'', JStr ''pending_start''), (''model'', jget (tool_arguments env payload) ''model'')]"

text \<open>A spawn with the same parent and tool use is recorded once.\<close>

definition add_pending :: "rat \<Rightarrow> jobj \<Rightarrow> native_roster \<Rightarrow> hook_world \<Rightarrow> (bool \<times> jobj list) \<times> native_roster \<times> hook_world" where
  "add_pending now item r w =
     (let (gone, r') = prune_pending now r in
      if truthy (jget item ''tool_use_id'')
         \<and> list_ex (\<lambda>x. py_eq (jget x ''parent_session_id'') (jget item ''parent_session_id'')
             \<and> py_eq (jget x ''tool_use_id'') (jget item ''tool_use_id'')) (nr_pending r')
      then ((False, gone), r', w)
      else ((True, gone), r'\<lparr>nr_pending := nr_pending r' @ [item]\<rparr>, w))"

text \<open>Every operation returns whether it ended without an exception.\<close>

definition pre_tool :: "hook_env \<Rightarrow> jobj \<Rightarrow> hook_world \<Rightarrow> bool \<times> hook_world" where
  "pre_tool env payload w =
     (let tool = text_of env (py_or (first_of payload [''tool_name'', ''tool'', ''name'']) (JStr [])) in
      case resolve_identity payload of
        Inl pair \<Rightarrow> (True, conflict ''PreToolUse'' pair w)
      | Inr (agent, parent) \<Rightarrow>
          if sublist ''close_agent'' tool then
            (case close_target env parent payload of
               None \<Rightarrow> (True, w)
             | Some target \<Rightarrow>
                 (case transact (confirm_close env target) w of
                    (None, w') \<Rightarrow> (False, w')
                  | (Some None, w') \<Rightarrow> (True, w')
                  | (Some (Some item), w') \<Rightarrow>
                      (True, trigger [Recompute_refill, Schedule_refill ''desktop_close_observed'']
                        (audit ''host_close_observed'' [(''agent_id'', JStr target), (''task_name'', jget item ''task_name''),
                           (''tool_use_id'', jget payload ''tool_use_id'')] w'))))
          else if \<not> tool_is_spawn_agent tool then (True, w)
          else (let item = spawn_item env parent payload in
                case transact (add_pending (he_now env) item) w of
                  (None, w') \<Rightarrow> (False, w')
                | (Some (added, gone), w') \<Rightarrow>
                    (True, (if added then audit ''spawn_pending'' item else id) (audit_expired gone w'))))"

section \<open>Start of an agent\<close>

definition created :: "jobj \<Rightarrow> rat" where
  "created item = (case num_of (jget_or (JInt 0) item ''created_at'') of Some x \<Rightarrow> x | None \<Rightarrow> 0)"

fun earliest :: "jobj \<Rightarrow> jobj list \<Rightarrow> jobj" where
  "earliest x [] = x"
| "earliest x (y # ys) = (if created y < created x then earliest y ys else earliest x ys)"

text \<open>
  The pending spawn of an agent: one whose call returned the agent's id, or the only candidate.
  The flag says that the call's output matched.
\<close>

definition choose_pending :: "hook_env \<Rightarrow> string option \<Rightarrow> string \<Rightarrow> jobj list \<Rightarrow> (jobj \<times> bool) option" where
  "choose_pending env parent agent_id pending =
     (let candidates = filter (\<lambda>x. py_eq (jget x ''status'') (JStr ''pending_start'')
            \<and> (parent = None \<or> \<not> truthy (jget x ''parent_session_id'')
               \<or> py_eq (jget x ''parent_session_id'') (opt_json parent))) pending;
          exact = filter (\<lambda>x. recover_spawn_agent_id env parent (sid (jget x ''tool_use_id'')) = Some agent_id) candidates in
      case exact of
        x # xs \<Rightarrow> Some (earliest x xs, True)
      | [] \<Rightarrow> (case candidates of [x] \<Rightarrow> Some (x, False) | _ \<Rightarrow> None))"

definition known_name :: "hook_env \<Rightarrow> json \<Rightarrow> json" where
  "known_name env name = (if name \<in> JStr ` set (he_legacy env) then JNull else name)"

text \<open>The task name and whether the rollout supplied the name or the mapping.\<close>

definition started_name :: "hook_env \<Rightarrow> string option \<Rightarrow> (jobj \<times> bool) option \<Rightarrow> json \<times> bool" where
  "started_name env parent chosen =
     (case chosen of
        None \<Rightarrow> (JNull, False)
      | Some (x, is_exact) \<Rightarrow>
          (let name = known_name env (jget x ''task_name'') in
           if name \<noteq> JNull then (name, is_exact \<or> truthy (jget x ''mapping_source''))
           else (case recover_task_from_parent_rollout env parent (sid (jget x ''tool_use_id'')) of
                   Some task \<Rightarrow> if task = [] then (JNull, is_exact \<or> truthy (jget x ''mapping_source''))
                                else (JStr task, True)
                 | None \<Rightarrow> (JNull, is_exact \<or> truthy (jget x ''mapping_source'')))))"

definition start_item :: "hook_env \<Rightarrow> jobj \<Rightarrow> string \<Rightarrow> string option \<Rightarrow> (jobj \<times> bool) option \<Rightarrow> jobj" where
  "start_item env payload agent_id parent chosen =
     (let (name, mapped) = started_name env parent chosen; degraded = \<not> truthy name in
      [(''agent_id'', JStr agent_id), (''task_name'', if degraded then JStr agent_id else name),
       (''name_degraded'', JBool degraded),
       (''name_source'', if degraded then JStr NAME_FALLBACK_SOURCE else JNull),
       (''parent_session_id'', opt_json parent),
       (''agent_role'', py_or (jget payload ''agent_type'') (jget payload ''agent_role'')),
       (''model'', py_or (py_or (jget payload ''model'') (jget payload ''agent_model''))
          (case chosen of None \<Rightarrow> JNull | Some (x, e) \<Rightarrow> jget x ''model'')),
       (''nickname'', jget payload ''agent_nickname''), (''status'', JStr ''running''),
       (''started_at'', JFloat (he_now env)), (''updated_at'', JFloat (he_now env)),
       (''mapping_confidence'', JStr (case chosen of None \<Rightarrow> ''unmapped''
          | Some (x, e) \<Rightarrow> if mapped then ''tool_use+rollout''
                          else if truthy (jget x ''tool_use_id'') then ''tool_use'' else ''parent_fifo''))])"

definition register_start ::
  "hook_env \<Rightarrow> jobj \<Rightarrow> string \<Rightarrow> string option \<Rightarrow> native_roster \<Rightarrow> hook_world
    \<Rightarrow> (jobj \<times> jobj list) \<times> native_roster \<times> hook_world" where
  "register_start env payload agent_id parent r w =
     (case map_of (nr_agents r) agent_id of
        Some item \<Rightarrow> ((item, []), r, w)
      | None \<Rightarrow>
          (let (gone, r') = prune_pending (he_now env) r;
               chosen = choose_pending env parent agent_id (nr_pending r');
               item = start_item env payload agent_id parent chosen in
           ((item, gone),
            r'\<lparr>nr_pending := (case chosen of None \<Rightarrow> nr_pending r' | Some (x, e) \<Rightarrow> remove1 x (nr_pending r')),
               nr_agents := dict_set agent_id item (nr_agents r')\<rparr>,
            w\<lparr>hw_names := hw_names w @ [dict_set ''source'' (JStr ''SubagentStart'') item]\<rparr>)))"

definition subagent_start :: "hook_env \<Rightarrow> jobj \<Rightarrow> hook_world \<Rightarrow> bool \<times> hook_world" where
  "subagent_start env payload w =
     (case resolve_identity payload of
        Inl pair \<Rightarrow> (True, conflict ''SubagentStart'' pair w)
      | Inr (None, parent) \<Rightarrow> (True, audit ''subagent_start_degraded'' [(''reason'', JStr ''missing_agent_id'')] w)
      | Inr (Some agent_id, parent) \<Rightarrow>
          (case transact (register_start env payload agent_id parent) w of
             (None, w') \<Rightarrow> (False, w')
           | (Some (item, gone), w') \<Rightarrow>
               (True, audit ''subagent_started'' item
                 (main_event_once env ''SubagentStart'' agent_id
                    [(''agent_role'', jget item ''agent_role''), (''model'', jget item ''model''),
                     (''session_id'', jget item ''parent_session_id''), (''task_name'', jget item ''task_name'')]
                    (audit_expired gone w')))))"

section \<open>Stop of an agent and of a parent\<close>

definition stop_agent ::
  "hook_env \<Rightarrow> string \<Rightarrow> native_roster \<Rightarrow> hook_world \<Rightarrow> (jobj \<times> bool) \<times> native_roster \<times> hook_world" where
  "stop_agent env agent_id r w =
     (let old = dict_get_or [(''agent_id'', JStr agent_id), (''task_name'', JStr agent_id), (''started_at'', JNull),
            (''name_degraded'', JBool True), (''name_source'', JStr NAME_FALLBACK_SOURCE)] agent_id (nr_agents r);
          item = dict_update [(''status'', JStr ''terminal''), (''terminal_reason'', JStr ''SubagentStop''),
            (''stopped_at'', JFloat (he_now env)), (''updated_at'', JFloat (he_now env))] old;
          (queued, item', w') = queue_close_locked env ''subagent_terminal'' item w in
      ((item', queued), r\<lparr>nr_agents := dict_set agent_id item' (nr_agents r)\<rparr>, w'))"

definition subagent_stop :: "hook_env \<Rightarrow> jobj \<Rightarrow> hook_world \<Rightarrow> bool \<times> hook_world" where
  "subagent_stop env payload w =
     (case resolve_identity payload of
        Inl pair \<Rightarrow> (True, conflict ''SubagentStop'' pair w)
      | Inr (None, parent) \<Rightarrow> (True, audit ''subagent_stop_degraded'' [(''reason'', JStr ''missing_agent_id'')] w)
      | Inr (Some agent_id, parent) \<Rightarrow>
          (case transact (stop_agent env agent_id) w of
             (None, w') \<Rightarrow> (False, w')
           | (Some (item, queued), w') \<Rightarrow>
               (True, trigger [Recompute_refill, Schedule_refill ''desktop_subagent_stop'']
                 (audit ''subagent_stopped'' [(''agent_id'', JStr agent_id), (''task_name'', jget item ''task_name''),
                    (''close_queued'', JBool queued)]
                   (main_event_once env ''SubagentStop'' agent_id
                     [(''session_id'', jget item ''parent_session_id''), (''task_name'', jget item ''task_name'')] w')))))"

definition runs_for :: "string \<Rightarrow> jobj \<Rightarrow> bool" where
  "runs_for parent item \<longleftrightarrow> py_eq (jget item ''status'') (JStr ''running'')
     \<and> py_eq (jget item ''parent_session_id'') (JStr parent)"

text \<open>The running agents of the parent are interrupted one after the other.\<close>

fun interrupt_agents :: "hook_env \<Rightarrow> string \<Rightarrow> jobj dict \<Rightarrow> hook_world \<Rightarrow> json list \<times> jobj dict \<times> hook_world" where
  "interrupt_agents env parent [] w = ([], [], w)"
| "interrupt_agents env parent ((k, item) # rest) w =
     (if \<not> runs_for parent item
      then (case interrupt_agents env parent rest w of (changed, rest', w') \<Rightarrow> (changed, (k, item) # rest', w'))
      else (case queue_close_locked env ''parent_stop''
              (dict_update [(''status'', JStr ''interrupted''), (''terminal_reason'', JStr ''parent_stop''),
                 (''stopped_at'', JFloat (he_now env)), (''updated_at'', JFloat (he_now env))] item) w of
              (queued, item', w1) \<Rightarrow>
                (case interrupt_agents env parent rest w1 of
                   (changed, rest', w') \<Rightarrow> (jget item ''agent_id'' # changed, (k, item') # rest', w'))))"

definition interrupt_parent ::
  "hook_env \<Rightarrow> string \<Rightarrow> native_roster \<Rightarrow> hook_world \<Rightarrow> json list \<times> native_roster \<times> hook_world" where
  "interrupt_parent env parent r w =
     (case interrupt_agents env parent (nr_agents r) w of
        (changed, agents, w') \<Rightarrow> (changed, r\<lparr>nr_agents := agents\<rparr>, w'))"

definition live_state :: "jobj \<Rightarrow> bool" where
  "live_state item \<longleftrightarrow> jget item ''state'' \<in> {JStr ''starting'', JStr ''running''}"

definition cancels :: "string \<Rightarrow> jobj \<Rightarrow> bool" where
  "cancels parent item \<longleftrightarrow> live_state item \<and> py_eq (jget item ''parent_session_id'') (JStr parent)
     \<and> jget item ''run_id'' \<noteq> JNull"

definition cancel_file :: "rat \<Rightarrow> string \<Rightarrow> jobj \<Rightarrow> jobj" where
  "cancel_file now parent item =
     [(''ts'', JFloat now), (''reason'', JStr ''parent_stop''), (''parent_session_id'', JStr parent),
      (''run_id'', jget item ''run_id''), (''attempt'', jget_or (JInt 0) item ''attempt'')]"

definition cancel_jobs :: "rat \<Rightarrow> string \<Rightarrow> jobj dict \<Rightarrow> jobj dict \<Rightarrow> jobj dict" where
  "cancel_jobs now parent jobs files =
     fold (\<lambda>(pid, item). dict_set pid (cancel_file now parent item)) (filter (\<lambda>(pid, item). cancels parent item) jobs) files"

definition deactivate_parent :: "rat \<Rightarrow> string \<Rightarrow> jobj dict \<Rightarrow> jobj dict" where
  "deactivate_parent now parent parents =
     dict_set parent (dict_update [(''active'', JBool False), (''stopped_at'', JFloat now),
         (''source'', JStr ''parent_stop'')] (dict_get_or [] parent parents)) parents"

text \<open>The registration is written before the roster is touched, and stays if that raises.\<close>

definition parent_stop :: "hook_env \<Rightarrow> jobj \<Rightarrow> hook_world \<Rightarrow> bool \<times> hook_world" where
  "parent_stop env payload w =
     (case resolve_identity payload of
        Inl pair \<Rightarrow> (True, conflict ''Stop'' pair w)
      | Inr (agent, None) \<Rightarrow> (True, audit ''parent_stop_degraded'' [(''reason'', JStr ''missing_session_id''),
            (''native_agents'', JList []), (''exec_packets'', JList [])] w)
      | Inr (agent, Some parent) \<Rightarrow>
          (let w1 = w\<lparr>hw_parents := deactivate_parent (he_now env) parent (hw_parents w)\<rparr> in
           case transact (interrupt_parent env parent) w1 of
             (None, w') \<Rightarrow> (False, w')
           | (Some changed, w') \<Rightarrow>
               (True, trigger [Recompute_refill, Schedule_refill ''desktop_parent_stop'']
                 (audit ''parent_stop'' [(''parent_session_id'', JStr parent), (''native_agents'', JList changed),
                     (''exec_packets'', JList (map (\<lambda>e. JStr (fst e)) (filter (\<lambda>(pid, item). cancels parent item) (hw_jobs w'))))]
                   (w'\<lparr>hw_cancel := cancel_jobs (he_now env) parent (hw_jobs w') (hw_cancel w')\<rparr>)))))"

section \<open>Session start\<close>

definition rollout_meta :: "jobj \<Rightarrow> jobj" where
  "rollout_meta payload =
     (let spawn = obj_of (jget (obj_of (jget (obj_of (jget payload ''source'')) ''subagent'')) ''thread_spawn'') in
      [(''nickname'', py_or (jget payload ''agent_nickname'') (jget spawn ''agent_nickname'')),
       (''agent_role'', py_or (jget payload ''agent_role'') (jget spawn ''agent_role'')),
       (''agent_path'', py_or (jget payload ''agent_path'') (jget spawn ''agent_path''))])"

definition terminal_marker :: "jobj \<Rightarrow> string option" where
  "terminal_marker row =
     (let payload = obj_of (jget row ''payload'') in
      first_found (\<lambda>v. case v of JStr s \<Rightarrow> if s \<in> set TERMINAL_MARKERS then Some s else None | _ \<Rightarrow> None)
        [jget row ''type'', jget payload ''type'', jget payload ''event''])"

text \<open>The last session header and the last terminal marker of a rollout.\<close>

definition rollout_line :: "jobj option \<Rightarrow> jobj \<times> string option \<Rightarrow> jobj \<times> string option" where
  "rollout_line line acc =
     (case line of
        None \<Rightarrow> acc
      | Some row \<Rightarrow>
          (if py_eq (jget row ''type'') (JStr ''session_meta'') then rollout_meta (obj_of (jget row ''payload'')) else fst acc,
           if terminal_marker row \<noteq> None then terminal_marker row else snd acc))"

definition rollout_info :: "jobj option list \<Rightarrow> jobj \<times> string option" where
  "rollout_info lines = fold rollout_line lines ([], None)"

definition store_meta :: "jobj \<Rightarrow> jobj \<Rightarrow> jobj" where
  "store_meta meta item = dict_update (filter (\<lambda>e. truthy (snd e)) meta) item"

definition reconcile_agent ::
  "hook_env \<Rightarrow> string \<Rightarrow> jobj \<times> string option \<Rightarrow> native_roster \<Rightarrow> hook_world \<Rightarrow> bool \<times> native_roster \<times> hook_world" where
  "reconcile_agent env agent_id info r w =
     (case map_of (nr_agents r) agent_id of
        None \<Rightarrow> (False, r, w)
      | Some item0 \<Rightarrow>
          if item0 = [] then (False, r, w)
          else (let item = store_meta (fst info) item0 in
                case snd info of
                  None \<Rightarrow> (False, r\<lparr>nr_agents := dict_set agent_id item (nr_agents r)\<rparr>, w)
                | Some term \<Rightarrow>
                    (case queue_close_locked env ''cold_start_terminal_reconcile''
                        (dict_update [(''status'', JStr ''terminal''), (''terminal_reason'', JStr (''rollout_'' @ term)),
                           (''stopped_at'', JFloat (he_now env)), (''updated_at'', JFloat (he_now env))] item) w of
                       (queued, item', w') \<Rightarrow> (True, r\<lparr>nr_agents := dict_set agent_id item' (nr_agents r)\<rparr>, w'))))"

definition active_agents :: "native_roster \<Rightarrow> string list" where
  "active_agents r = map fst (filter (\<lambda>e. jget (snd e) ''status'' \<in> {JStr ''running'', JStr ''interrupted''}) (nr_agents r))"

text \<open>An agent is reconciled from the newest rollout file with its id, if there is one.\<close>

fun reconcile_all :: "hook_env \<Rightarrow> string list \<Rightarrow> nat \<Rightarrow> hook_world \<Rightarrow> nat option \<times> hook_world" where
  "reconcile_all env [] found w = (Some found, w)"
| "reconcile_all env (a # as) found w =
     (case he_rollouts env a of
        [] \<Rightarrow> reconcile_all env as found w
      | newest # others \<Rightarrow>
          (case transact (reconcile_agent env a (rollout_info newest)) w of
             (None, w') \<Rightarrow> (None, w')
           | (Some hit, w') \<Rightarrow> reconcile_all env as (if hit then Suc found else found) w'))"

definition cold_reconcile :: "hook_env \<Rightarrow> hook_world \<Rightarrow> bool \<times> hook_world" where
  "cold_reconcile env w =
     (case transact (\<lambda>r w. (active_agents r, r, w)) w of
        (None, w') \<Rightarrow> (False, w')
      | (Some active, w') \<Rightarrow>
          (case reconcile_all env active 0 w' of
             (None, w'') \<Rightarrow> (False, w'')
           | (Some found, w'') \<Rightarrow>
               (True, audit ''cold_start_reconcile'' [(''candidates'', JInt (int (length active))),
                  (''terminal_recovered'', JInt (int found))] w'')))"

text \<open>Terminal rows older than two days are dropped; a stamp that is no number keeps its row.\<close>

definition doomed :: "rat \<Rightarrow> jobj \<Rightarrow> bool" where
  "doomed now item \<longleftrightarrow> jget item ''status'' \<in> {JStr ''terminal'', JStr ''lost''}
     \<and> (case py_float (py_or (first_of item [''stopped_at'', ''updated_at'']) (JInt 0)) of
          Inl e \<Rightarrow> False
        | Inr stamp \<Rightarrow> stamp \<noteq> 0 \<and> stamp < now - ROSTER_PRUNE_AFTER_S)"

definition drop_doomed :: "rat \<Rightarrow> native_roster \<Rightarrow> hook_world \<Rightarrow> nat \<times> native_roster \<times> hook_world" where
  "drop_doomed now r w =
     (length (filter (\<lambda>e. doomed now (snd e)) (nr_agents r)),
      r\<lparr>nr_agents := filter (\<lambda>e. \<not> doomed now (snd e)) (nr_agents r)\<rparr>, w)"

definition prune_native_roster :: "hook_env \<Rightarrow> hook_world \<Rightarrow> bool \<times> hook_world" where
  "prune_native_roster env w =
     (case transact (drop_doomed (he_now env)) w of
        (None, w') \<Rightarrow> (False, w')
      | (Some n, w') \<Rightarrow> (True, if n = 0 then w'
            else audit ''native_roster_pruned'' [(''dropped'', JInt (int n))] w'))"

definition job_doomed :: "rat \<Rightarrow> jobj \<Rightarrow> bool" where
  "job_doomed now item \<longleftrightarrow> \<not> live_state item
     \<and> (let stamp = timestamp_or_zero (first_of item [''updated_at'', ''started_at'']) in
        stamp \<noteq> 0 \<and> stamp < now - ROSTER_PRUNE_AFTER_S)"

definition prune_exec_roster :: "hook_env \<Rightarrow> hook_world \<Rightarrow> hook_world" where
  "prune_exec_roster env w =
     (let kept = filter (\<lambda>e. \<not> job_doomed (he_now env) (snd e)) (hw_jobs w);
          dropped = length (filter (\<lambda>e. job_doomed (he_now env) (snd e)) (hw_jobs w)) in
      if dropped = 0 then w
      else audit ''exec_roster_pruned'' [(''kept'', JInt (int (length kept))), (''dropped'', JInt (int dropped))]
             (w\<lparr>hw_jobs := kept\<rparr>))"

section \<open>Lost jobs\<close>

text \<open>A live process with the expected start ticks; no ticks accept any live process.\<close>

definition process_matches :: "(int \<Rightarrow> int option) \<Rightarrow> json \<Rightarrow> json \<Rightarrow> bool" where
  "process_matches proc pid expected_start_ticks =
     (case py_int pid of
        Inl e \<Rightarrow> False
      | Inr n \<Rightarrow> (case proc n of
            None \<Rightarrow> False
          | Some actual \<Rightarrow> expected_start_ticks = JNull \<or> py_int expected_start_ticks = Inr actual))"

definition supervisor_alive :: "(int \<Rightarrow> int option) \<Rightarrow> jobj \<Rightarrow> bool" where
  "supervisor_alive proc item = process_matches proc (jget item ''supervisor_pid'') (jget item ''supervisor_proc_start_ticks'')"

definition orphaned :: "(int \<Rightarrow> int option) \<Rightarrow> jobj \<Rightarrow> bool" where
  "orphaned proc item \<longleftrightarrow> live_state item \<and> \<not> supervisor_alive proc item"

text \<open>
  Whether no process of the job's generation is left: the leader's process id was taken by another
  process, or the group is gone after it was signalled.
\<close>

definition cleaned :: "hook_env \<Rightarrow> jobj \<Rightarrow> bool" where
  "cleaned env item =
     (case py_int (jget item ''os_pid'') of
        Inl e \<Rightarrow> False
      | Inr pid \<Rightarrow>
          (he_proc env pid \<noteq> None \<and> \<not> process_matches (he_proc env) (JInt pid) (jget item ''worker_proc_start_ticks''))
          \<or> he_reaped env item)"

definition append_history :: "json \<Rightarrow> jobj \<Rightarrow> jobj" where
  "append_history entry item =
     dict_set ''history'' (JList ((case jget item ''history'' of JList xs \<Rightarrow> xs | _ \<Rightarrow> []) @ [entry])) item"

text \<open>
  The second look at one candidate under the lock: the job must still be the same run, live in the
  roster and without its supervisor.
\<close>

definition settle_job :: "hook_env \<Rightarrow> string \<times> jobj \<Rightarrow> jobj dict \<Rightarrow> (jobj \<times> bool) option \<times> jobj dict" where
  "settle_job env candidate jobs =
     (case map_of jobs (fst candidate) of
        None \<Rightarrow> (None, jobs)
      | Some current \<Rightarrow>
          if \<not> py_eq (jget current ''run_id'') (jget (snd candidate) ''run_id'') \<or> \<not> orphaned (he_proc env) current
          then (None, jobs)
          else if cleaned env (snd candidate) then
            (let job = append_history (JObj [(''ts'', JFloat (he_now env)), (''state'', JStr ''lost''),
                     (''run_id'', jget current ''run_id''), (''attempt'', jget current ''attempt'')])
                   (dict_update [(''state'', JStr ''lost''), (''stop_reason'', JStr ''supervisor_lost''),
                     (''cleanup_status'', JStr ''confirmed_gone''), (''updated_at'', JFloat (he_now env))] current) in
             (Some (job, True), dict_set (fst candidate) job jobs))
          else
            (let job = dict_update [(''cleanup_status'', JStr ''cleanup_failed_live''), (''cleanup_failed_at'', JFloat (he_now env)),
                     (''updated_at'', JFloat (he_now env))] current in
             (Some (job, False), dict_set (fst candidate) job jobs)))"

fun settle_jobs :: "hook_env \<Rightarrow> (string \<times> jobj) list \<Rightarrow> jobj dict \<Rightarrow> (string \<times> jobj \<times> bool) list \<times> jobj dict" where
  "settle_jobs env [] jobs = ([], jobs)"
| "settle_jobs env (c # cs) jobs =
     (case settle_job env c jobs of
        (None, jobs') \<Rightarrow> settle_jobs env cs jobs'
      | (Some r, jobs') \<Rightarrow> (case settle_jobs env cs jobs' of (rs, jobs'') \<Rightarrow> ((fst c, r) # rs, jobs'')))"

definition report_lost :: "hook_env \<Rightarrow> string \<times> jobj \<times> bool \<Rightarrow> hook_world \<Rightarrow> hook_world" where
  "report_lost env entry w =
     (case entry of (pid, job, lost) \<Rightarrow>
        if \<not> lost then w
        else exec_event_once env pid (py_or (jget job ''run_id'') (JStr ''legacy''))
               (right_or 0 (py_int (py_or (jget job ''attempt'') (JInt 0)))) ''exec_failed''
               [(''why'', JStr ''supervisor_lost''), (''cancelled'', JBool False), (''cold_start'', JBool True)] w)"

definition cold_reconcile_exec :: "hook_env \<Rightarrow> hook_world \<Rightarrow> hook_world" where
  "cold_reconcile_exec env w =
     (let candidates = filter (\<lambda>e. orphaned (he_proc env) (snd e)) (hw_jobs w);
          (settled, jobs) = settle_jobs env candidates (hw_jobs w) in
      audit ''cold_start_exec_reconcile'' [(''candidates'', JInt (int (length candidates))),
          (''lost'', JInt (int (length (filter (\<lambda>(pid, job, lost). lost) settled)))),
          (''cleanup_failed'', JInt (int (length (filter (\<lambda>(pid, job, lost). \<not> lost) settled))))]
        (fold (report_lost env) settled (w\<lparr>hw_jobs := jobs\<rparr>)))"

section \<open>The hook\<close>

datatype hook_event = Pre_tool_use | Subagent_start | Subagent_stop | Stop | Session_start

definition session_start :: "hook_env \<Rightarrow> hook_world \<Rightarrow> bool \<times> hook_world" where
  "session_start env w =
     (case cold_reconcile env w of
        (False, w1) \<Rightarrow> (False, w1)
      | (True, w1) \<Rightarrow>
          (case prune_native_roster env (cold_reconcile_exec env w1) of
             (False, w2) \<Rightarrow> (False, w2)
           | (True, w2) \<Rightarrow> (True, trigger [Recompute_refill, Schedule_refill ''desktop_session_start'']
                              (prune_exec_roster env w2))))"

definition hook_body :: "hook_env \<Rightarrow> hook_event \<Rightarrow> jobj \<Rightarrow> hook_world \<Rightarrow> bool \<times> hook_world" where
  "hook_body env event payload w =
     (case event of
        Pre_tool_use \<Rightarrow> pre_tool env payload w
      | Subagent_start \<Rightarrow> subagent_start env payload w
      | Subagent_stop \<Rightarrow> subagent_stop env payload w
      | Stop \<Rightarrow> parent_stop env payload w
      | Session_start \<Rightarrow> session_start env w)"

text \<open>An exception ends the hook with an audit row; its exit code is always 0.\<close>

definition handle :: "hook_env \<Rightarrow> hook_event \<Rightarrow> jobj \<Rightarrow> hook_world \<Rightarrow> hook_world" where
  "handle env event payload w =
     (case hook_body env event payload w of
        (False, w') \<Rightarrow> audit ''hook_degraded'' [] w'
      | (True, w') \<Rightarrow> if event \<in> {Session_start, Subagent_stop, Stop} then trigger [Refresh_meter] w' else w')"

text \<open>The registration the refill controller reads.\<close>

definition registration_of :: "jobj \<Rightarrow> parent_registration" where
  "registration_of row = \<lparr>rg_active = (jget row ''active'' = JBool True), rg_manifest = jget row ''manifest_id'',
     rg_target = jget row ''target_active''\<rparr>"
end
