(* ===== verification/Lifecycle_Contract.thy ===== *)
theory Lifecycle_Contract
  imports Lifecycle
begin

text \<open>
  The ledgers of the lifecycle hook meet the contract of a once-only log, and a contract of its own for
  invariants of the hook: what every mutation of the roster and every write to the other files keeps,
  every hook keeps.
\<close>

section \<open>The ledgers keep the contract\<close>

abbreviation closes_of :: "string \<Rightarrow> jobj option list \<Rightarrow> nat" where
  "closes_of a \<equiv> rows_of (close_row (JStr a))"

abbreviation mains_of :: "string \<times> string \<Rightarrow> jobj option list \<Rightarrow> nat" where
  "mains_of key \<equiv> rows_of (main_row key)"

interpretation closing: once_log "\<lambda>a. close_request (JStr a)" closes_of
proof unfold_locales
  fix a x l l'
  assume "close_request (JStr a) x l = (True, l')"
  then show "closes_of a l = 0 \<and> closes_of a l' = 1"
    unfolding close_request_def
    by (rule append_once_emitted [rotated]) (simp add: close_row_def line_is_def py_simps)
next
  fix a x l l'
  assume "close_request (JStr a) x l = (False, l')"
  then show "l' = l \<and> 0 < closes_of a l"
    unfolding close_request_def by (rule append_once_refused)
next
  fix a x l b l' j
  assume "close_request (JStr a) x l = (b, l')" and "j \<noteq> a"
  then show "closes_of j l' = closes_of j l"
    unfolding close_request_def
    by (elim append_once_others) (simp add: close_row_def line_is_def py_simps)
qed

interpretation announcing: once_log main_event mains_of
proof unfold_locales
  fix k x l l'
  assume "main_event k x l = (True, l')"
  then show "mains_of k l = 0 \<and> mains_of k l' = 1"
    unfolding main_event_def
    by (rule append_once_emitted [rotated]) (simp add: main_row_def line_is_def py_simps)
next
  fix k x l l'
  assume "main_event k x l = (False, l')"
  then show "l' = l \<and> 0 < mains_of k l"
    unfolding main_event_def by (rule append_once_refused)
next
  fix k x l b l' j
  assume "main_event k x l = (b, l')" and "j \<noteq> k"
  then show "mains_of j l' = mains_of j l"
    unfolding main_event_def
    by (elim append_once_others) (cases j; cases k; auto simp add: main_row_def line_is_def py_simps)
qed

interpretation failing: once_log "\<lambda>k. exec_event (fst k, JStr (fst (snd k)), snd (snd k))"
  "\<lambda>k. rows_of (exec_row (fst k, JStr (fst (snd k)), snd (snd k)))"
proof unfold_locales
  fix k x l l'
  assume "exec_event (fst k, JStr (fst (snd k)), snd (snd k)) x l = (True, l')"
  then show "rows_of (exec_row (fst k, JStr (fst (snd k)), snd (snd k))) l = 0
      \<and> rows_of (exec_row (fst k, JStr (fst (snd k)), snd (snd k))) l' = 1"
    unfolding exec_event_def
    by (rule append_once_emitted [rotated]) (simp add: exec_row_def line_is_def py_simps)
next
  fix k x l l'
  assume "exec_event (fst k, JStr (fst (snd k)), snd (snd k)) x l = (False, l')"
  then show "l' = l \<and> 0 < rows_of (exec_row (fst k, JStr (fst (snd k)), snd (snd k))) l"
    unfolding exec_event_def by (rule append_once_refused)
next
  fix k x l b l' j
  assume "exec_event (fst k, JStr (fst (snd k)), snd (snd k)) x l = (b, l')" and "j \<noteq> k"
  then show "rows_of (exec_row (fst j, JStr (fst (snd j)), snd (snd j))) l'
      = rows_of (exec_row (fst j, JStr (fst (snd j)), snd (snd j))) l"
    unfolding exec_event_def
    by (elim append_once_others) (cases j; cases k; auto simp add: exec_row_def line_is_def py_simps)
qed

section \<open>Close requests\<close>

lemma append_once_refused_eq: "append_once found row lg = (False, lg') \<Longrightarrow> lg' = lg"
  by (simp add: append_once_refused)

lemma jget_set [simp]: "jget (dict_set k v d) k' = (if k' = k then v else jget d k')"
  by (simp add: jget_def)

lemma jget_simps [simp]: "jget [] k = JNull" "jget ((k', v) # d) k = (if k = k' then v else jget d k)"
  by (simp_all add: jget_def dict_get_or_def)

lemma jget_update_Nil [simp]: "dict_update [] d = d"
  by (simp add: dict_update_def)

lemma dict_update_Cons [simp]: "dict_update ((k, v) # kvs) d = dict_update kvs (dict_set k v d)"
  by (simp add: dict_update_def)

lemma jget_dict_update_other: "k \<notin> fst ` set kvs \<Longrightarrow> jget (dict_update kvs d) k = jget d k"
  by (induction kvs arbitrary: d) auto

lemma close_request_other:
  assumes "k \<noteq> JStr a"
  shows "closes_of a (snd (close_request k x l)) = closes_of a l"
proof (cases "close_request k x l")
  case (Pair b l')
  then have "closes_of a l' = closes_of a l"
    unfolding close_request_def
    by (rule append_once_others) (use assms in \<open>simp add: close_row_def line_is_def py_simps\<close>)
  then show ?thesis using Pair by simp
qed

lemma close_request_mono: "closes_of a l \<le> closes_of a (snd (close_request k x l))"
  using closing.emit_mono [of a l a x] close_request_other [of k a x l] by (cases "k = JStr a") simp_all

lemma close_request_le: "closes_of a l \<le> 1 \<Longrightarrow> closes_of a (snd (close_request k x l)) \<le> 1"
  using closing.emit_at_most_once [of a l a x] close_request_other [of k a x l] by (cases "k = JStr a") simp_all

definition close_flags :: "jobj \<Rightarrow> bool" where
  "close_flags item \<longleftrightarrow> truthy (jget item ''close_request_emitted'') \<or> truthy (jget item ''close_request_consumed'')"

lemma queue_close_facts:
  assumes "queue_close_locked env reason agent w = (q, agent', w')" and "he_close_readable env"
  shows "w' = w\<lparr>hw_close := hw_close w'\<rparr>"
    and "closes_of a (hw_close w) \<le> closes_of a (hw_close w')"
    and "closes_of a (hw_close w) \<le> 1 \<Longrightarrow> closes_of a (hw_close w') \<le> 1"
    and "jget agent ''agent_id'' = JStr a \<Longrightarrow> \<not> close_flags agent \<Longrightarrow> 0 < closes_of a (hw_close w')"
    and "k \<notin> {''close_request_emitted'', ''close_request_reason''} \<Longrightarrow> jget agent' k = jget agent k"
    and "close_flags agent \<Longrightarrow> agent' = agent \<and> w' = w"
proof -
  let ?c = "close_request (jget agent ''agent_id'') (he_now env, agent, reason) (hw_close w)"
  have cases: "(close_flags agent \<and> agent' = agent \<and> w' = w)
      \<or> (\<not> close_flags agent \<and> w' = w\<lparr>hw_close := snd ?c\<rparr>
         \<and> (\<forall>k. k \<notin> {''close_request_emitted'', ''close_request_reason''} \<longrightarrow> jget agent' k = jget agent k))"
  proof (cases "close_flags agent")
    case True
    then show ?thesis using assms by (auto simp: queue_close_locked_def close_flags_def)
  next
    case False
    then have flags: "\<not> (truthy (jget agent ''close_request_emitted'') \<or> truthy (jget agent ''close_request_consumed''))"
      by (simp add: close_flags_def)
    obtain b lg where c: "?c = (b, lg)" by (cases ?c)
    have "\<not> b \<Longrightarrow> lg = hw_close w"
      using c unfolding close_request_def by (cases b) (simp_all add: append_once_refused_eq)
    then have keep: "\<not> b \<Longrightarrow> w\<lparr>hw_close := lg\<rparr> = w" by simp
    show ?thesis
    proof (cases b)
      case True
      then have "agent' = dict_update [(''close_request_emitted'', JBool True), (''close_request_reason'', JStr reason)] agent"
          "w' = w\<lparr>hw_close := lg\<rparr>"
        using assms flags c by (simp_all add: queue_close_locked_def)
      then show ?thesis using False c by simp
    next
      case False
      then have "agent' = dict_set ''close_request_emitted'' (JBool True) agent" "w' = w"
        using assms flags c by (simp_all add: queue_close_locked_def)
      then show ?thesis using \<open>\<not> close_flags agent\<close> c keep False by simp
    qed
  qed
  show "w' = w\<lparr>hw_close := hw_close w'\<rparr>" using cases by (elim disjE conjE) simp_all
  show "closes_of a (hw_close w) \<le> closes_of a (hw_close w')"
    using cases close_request_mono [of a "hw_close w" "jget agent ''agent_id''" "(he_now env, agent, reason)"]
    by (elim disjE conjE) simp_all
  show "closes_of a (hw_close w) \<le> 1 \<Longrightarrow> closes_of a (hw_close w') \<le> 1"
    using cases close_request_le [of a "hw_close w" "jget agent ''agent_id''" "(he_now env, agent, reason)"]
    by (elim disjE conjE) simp_all
  show "jget agent ''agent_id'' = JStr a \<Longrightarrow> \<not> close_flags agent \<Longrightarrow> 0 < closes_of a (hw_close w')"
    using cases closing.emit_present [of a "(he_now env, agent, reason)" "hw_close w"]
    by (elim disjE conjE) simp_all
  show "k \<notin> {''close_request_emitted'', ''close_request_reason''} \<Longrightarrow> jget agent' k = jget agent k"
    using cases by (elim disjE conjE) blast+
  show "close_flags agent \<Longrightarrow> agent' = agent \<and> w' = w" using cases by (elim disjE conjE) simp_all
qed

section \<open>Invariants of the hook\<close>

lemma transact_cases:
  assumes "transact fn w = (y, w')"
  obtains "hw_roster w = Unreadable" "y = None" "w' = w"
  | r x r' w1 where "hw_roster w = Absent \<and> r = \<lparr>nr_pending = [], nr_agents = []\<rparr> \<or> hw_roster w = Stored r"
      "fn r w = (x, r', w1)" "y = Some x" "w' = w1\<lparr>hw_roster := Stored r'\<rparr>"
proof (cases "hw_roster w")
  case Absent
  obtain x r' w1 where "fn \<lparr>nr_pending = [], nr_agents = []\<rparr> w = (x, r', w1)" by (cases "fn \<lparr>nr_pending = [], nr_agents = []\<rparr> w")
  then show thesis using assms Absent that(2) by (simp add: transact_def)
next
  case Unreadable
  then have "y = None \<and> w' = w" using assms by (auto simp: transact_def)
  then show thesis using Unreadable that(1) by blast
next
  case (Stored r)
  obtain x r' w1 where "fn r w = (x, r', w1)" by (cases "fn r w")
  then show thesis using assms Stored that(2) by (simp add: transact_def)
qed


text \<open>
  \<open>rinv\<close> is the invariant while the roster is open, \<open>inv\<close> the one between hooks; \<open>ok\<close> is what the
  environment must meet.
\<close>

locale hook_contract =
  fixes ok :: "hook_env \<Rightarrow> bool"
    and inv :: "hook_world \<Rightarrow> bool"
    and rinv :: "native_roster \<Rightarrow> hook_world \<Rightarrow> bool"
  assumes opened: "inv w \<Longrightarrow> hw_roster w = Absent \<and> r = \<lparr>nr_pending = [], nr_agents = []\<rparr> \<or> hw_roster w = Stored r \<Longrightarrow> rinv r w"
    and stored: "rinv r w \<Longrightarrow> inv (w\<lparr>hw_roster := Stored r\<rparr>)"
    and audits: "inv w \<Longrightarrow> inv (audit e d w)"
    and triggers: "inv w \<Longrightarrow> inv (trigger xs w)"
    and parents: "inv w \<Longrightarrow> inv (w\<lparr>hw_parents := ps\<rparr>)"
    and cancelled: "inv w \<Longrightarrow> inv (w\<lparr>hw_cancel := cs\<rparr>)"
    and jobs: "inv w \<Longrightarrow> inv (w\<lparr>hw_jobs := js\<rparr>)"
    and announced: "inv w \<Longrightarrow> ok env \<Longrightarrow> inv (main_event_once env e a d w)"
    and failed: "inv w \<Longrightarrow> ok env \<Longrightarrow> inv (exec_event_once env pid rid n e d w)"
    and confirmed: "rinv r w \<Longrightarrow> ok env \<Longrightarrow> confirm_close env t r w = (x1, r', w') \<Longrightarrow> rinv r' w'"
    and added: "rinv r w \<Longrightarrow> ok env \<Longrightarrow> add_pending (he_now env) item r w = (x2, r', w') \<Longrightarrow> rinv r' w'"
    and started: "rinv r w \<Longrightarrow> ok env \<Longrightarrow> register_start env payload a parent r w = (x3, r', w') \<Longrightarrow> rinv r' w'"
    and stopped: "rinv r w \<Longrightarrow> ok env \<Longrightarrow> stop_agent env a r w = (x4, r', w') \<Longrightarrow> rinv r' w'"
    and interrupted: "rinv r w \<Longrightarrow> ok env \<Longrightarrow> interrupt_parent env p r w = (x5, r', w') \<Longrightarrow> rinv r' w'"
    and reconciled: "rinv r w \<Longrightarrow> ok env \<Longrightarrow> reconcile_agent env a (rollout_info lines) r w = (x6, r', w') \<Longrightarrow> rinv r' w'"
    and dropped: "rinv r w \<Longrightarrow> ok env \<Longrightarrow> drop_doomed (he_now env) r w = (x7, r', w') \<Longrightarrow> rinv r' w'"
begin

lemma transacted:
  assumes "transact fn w = (y, w')" and "inv w"
    and "\<And>r x r' w'. rinv r w \<Longrightarrow> fn r w = (x, r', w') \<Longrightarrow> rinv r' w'"
  shows "inv w'"
  using assms(1)
proof (cases rule: transact_cases)
  case 1
  then show ?thesis using assms(2) by simp
next
  case (2 r x r' w1)
  show ?thesis using stored [OF assms(3) [OF opened [OF assms(2) 2(1)] 2(2)]] 2(4) by simp
qed

lemma expired_kept: "inv w \<Longrightarrow> inv (audit_expired gone w)"
  by (simp add: audit_expired_def audits)

lemma conflict_kept: "inv w \<Longrightarrow> inv (conflict h pr w)"
  by (simp add: conflict_def audits)

lemma pre_tool_kept:
  assumes "pre_tool env payload w = (b, w')" and "inv w" and "ok env"
  shows "inv w'"
proof -
  have "inv w1" if "transact (confirm_close env t) w = (y, w1)" for t y w1
    by (rule transacted [OF that assms(2)]) (erule confirmed [OF _ assms(3)])
  moreover have "inv w1" if "transact (add_pending (he_now env) item) w = (y, w1)" for item y w1
    by (rule transacted [OF that assms(2)]) (erule added [OF _ assms(3)])
  ultimately show ?thesis using assms(1,2)
    by (auto simp: pre_tool_def Let_def audits triggers expired_kept conflict_kept
        split: sum.splits prod.splits option.splits if_splits)
qed

lemma subagent_start_kept:
  assumes "subagent_start env payload w = (b, w')" and "inv w" and "ok env"
  shows "inv w'"
proof -
  have "inv w1" if "transact (register_start env payload a parent) w = (y, w1)" for a parent y w1
    by (rule transacted [OF that assms(2)]) (erule started [OF _ assms(3)])
  then show ?thesis using assms
    by (auto simp: subagent_start_def audits announced expired_kept conflict_kept
        split: sum.splits prod.splits option.splits)
qed

lemma subagent_stop_kept:
  assumes "subagent_stop env payload w = (b, w')" and "inv w" and "ok env"
  shows "inv w'"
proof -
  have "inv w1" if "transact (stop_agent env a) w = (y, w1)" for a y w1
    by (rule transacted [OF that assms(2)]) (erule stopped [OF _ assms(3)])
  then show ?thesis using assms
    by (auto simp: subagent_stop_def audits triggers announced conflict_kept
        split: sum.splits prod.splits option.splits)
qed

lemma parent_stop_kept:
  assumes "parent_stop env payload w = (b, w')" and "inv w" and "ok env"
  shows "inv w'"
proof -
  have "inv w1" if "transact (interrupt_parent env parent) (w\<lparr>hw_parents := ps\<rparr>) = (y, w1)" for parent ps y w1
    by (rule transacted [OF that parents [OF assms(2)]]) (erule interrupted [OF _ assms(3)])
  then show ?thesis using assms
    by (auto simp: parent_stop_def Let_def audits triggers cancelled parents conflict_kept
        split: sum.splits prod.splits option.splits)
qed

lemma reconcile_all_kept: "reconcile_all env as n w = (m, w') \<Longrightarrow> inv w \<Longrightarrow> ok env \<Longrightarrow> inv w'"
proof (induction as arbitrary: n w)
  case Nil
  then show ?case by simp
next
  case (Cons a as)
  show ?case
  proof (cases "he_rollouts env a")
    case Nil
    then show ?thesis using Cons by simp
  next
    case (Cons newest others)
    obtain y w1 where run: "transact (reconcile_agent env a (rollout_info newest)) w = (y, w1)"
      by (cases "transact (reconcile_agent env a (rollout_info newest)) w")
    have "inv w1" by (rule transacted [OF run Cons.prems(2)]) (erule reconciled [OF _ Cons.prems(3)])
    then show ?thesis
      using Cons.prems \<open>he_rollouts env a = newest # others\<close> run Cons.IH [of _ w1] by (cases y) (simp_all split: if_splits)
  qed
qed

lemma cold_reconcile_kept:
  assumes "cold_reconcile env w = (b, w')" and "inv w" and "ok env"
  shows "inv w'"
proof -
  obtain y w1 where run: "transact (\<lambda>r w. (active_agents r, r, w)) w = (y, w1)"
    by (cases "transact (\<lambda>r w. (active_agents r, r, w)) w")
  have kept: "inv w1" by (rule transacted [OF run assms(2)]) simp
  show ?thesis
  proof (cases y)
    case None
    then show ?thesis using assms(1) run kept by (simp add: cold_reconcile_def)
  next
    case (Some active)
    obtain m w2 where rest: "reconcile_all env active 0 w1 = (m, w2)" by (cases "reconcile_all env active 0 w1")
    have "inv w2" by (rule reconcile_all_kept [OF rest kept assms(3)])
    then show ?thesis using assms(1) run rest Some by (auto simp: cold_reconcile_def audits split: option.splits)
  qed
qed

lemma prune_native_kept:
  assumes "prune_native_roster env w = (b, w')" and "inv w" and "ok env"
  shows "inv w'"
proof -
  obtain y w1 where run: "transact (drop_doomed (he_now env)) w = (y, w1)" by (cases "transact (drop_doomed (he_now env)) w")
  have "inv w1" by (rule transacted [OF run assms(2)]) (erule dropped [OF _ assms(3)])
  then show ?thesis using assms(1) run by (auto simp: prune_native_roster_def audits split: option.splits if_splits)
qed

lemma report_lost_kept: "inv w \<Longrightarrow> ok env \<Longrightarrow> inv (report_lost env e w)"
  by (simp add: report_lost_def failed split: prod.split)

lemma fold_report_kept: "inv w \<Longrightarrow> ok env \<Longrightarrow> inv (fold (report_lost env) es w)"
  by (induction es arbitrary: w) (simp_all add: report_lost_kept)

lemma cold_reconcile_exec_kept: "inv w \<Longrightarrow> ok env \<Longrightarrow> inv (cold_reconcile_exec env w)"
  by (simp add: cold_reconcile_exec_def Let_def audits fold_report_kept jobs split: prod.split)

lemma prune_exec_kept: "inv w \<Longrightarrow> inv (prune_exec_roster env w)"
  by (simp add: prune_exec_roster_def Let_def audits jobs)

lemma session_start_kept:
  assumes "session_start env w = (b, w')" and "inv w" and "ok env"
  shows "inv w'"
proof -
  obtain b1 w1 where first: "cold_reconcile env w = (b1, w1)" by (cases "cold_reconcile env w")
  obtain b2 w2 where second: "prune_native_roster env (cold_reconcile_exec env w1) = (b2, w2)"
    by (cases "prune_native_roster env (cold_reconcile_exec env w1)")
  have kept: "inv w1" by (rule cold_reconcile_kept [OF first assms(2,3)])
  have "inv w2" by (rule prune_native_kept [OF second cold_reconcile_exec_kept [OF kept assms(3)] assms(3)])
  then show ?thesis using assms(1) first second kept
    by (cases b1; cases b2) (auto simp: session_start_def triggers prune_exec_kept)
qed

lemma handle_kept: "inv w \<Longrightarrow> ok env \<Longrightarrow> inv (handle env event payload w)"
  by (cases event)
    (auto simp: handle_def hook_body_def audits triggers split: prod.splits bool.splits
      dest: pre_tool_kept subagent_start_kept subagent_stop_kept parent_stop_kept session_start_kept)

end

end
