(* ===== verification/Lifecycle_Properties.thy ===== *)
theory Lifecycle_Properties
  imports Lifecycle_Contract
begin

text \<open>
  Properties of the native lifecycle hook: the close request and the two lifecycle events of an agent
  are written once, agents never come back to life, and lost jobs are settled without touching
  living ones.
\<close>

section \<open>Close requests\<close>

definition agent_ok :: "string \<Rightarrow> jobj \<Rightarrow> jobj option list \<Rightarrow> bool" where
  "agent_ok a item l \<longleftrightarrow> jget item ''agent_id'' = JStr a
     \<and> (truthy (jget item ''close_request_emitted'') \<longrightarrow> 0 < closes_of a l)
     \<and> (jget item ''status'' \<in> {JStr ''terminal'', JStr ''interrupted''} \<and> \<not> truthy (jget item ''close_request_consumed'')
        \<longrightarrow> 0 < closes_of a l)"

definition agents_ok :: "jobj dict \<Rightarrow> jobj option list \<Rightarrow> bool" where
  "agents_ok agents l \<longleftrightarrow> (\<forall>(a, item) \<in> set agents. agent_ok a item l)"

text \<open>
  A ledger with at most one request per agent that serves the agents of the open roster and those
  of an older one, to which a hook that dies falls back.
\<close>

definition closing_ok :: "jobj dict \<Rightarrow> native_roster \<Rightarrow> hook_world \<Rightarrow> bool" where
  "closing_ok old r w \<longleftrightarrow> (\<forall>a. closes_of a (hw_close w) \<le> 1) \<and> agents_ok old (hw_close w)
     \<and> agents_ok (nr_agents r) (hw_close w)"

definition closing_inv :: "jobj dict \<Rightarrow> hook_world \<Rightarrow> bool" where
  "closing_inv old w \<longleftrightarrow> (\<forall>a. closes_of a (hw_close w) \<le> 1) \<and> agents_ok old (hw_close w)
     \<and> (case hw_roster w of Stored r \<Rightarrow> agents_ok (nr_agents r) (hw_close w) | _ \<Rightarrow> True)"

lemma closing_inv_frame [simp]:
  "closing_inv old (audit e d w) = closing_inv old w"
  "closing_inv old (trigger xs w) = closing_inv old w"
  "closing_inv old (main_event_once env e a d w) = closing_inv old w"
  "closing_inv old (exec_event_once env pid rid n e d w) = closing_inv old w"
  "closing_inv old (w\<lparr>hw_parents := ps\<rparr>) = closing_inv old w"
  "closing_inv old (w\<lparr>hw_cancel := cs\<rparr>) = closing_inv old w"
  "closing_inv old (w\<lparr>hw_jobs := js\<rparr>) = closing_inv old w"
  "closing_inv old (audit_expired gone w) = closing_inv old w"
  "closing_inv old (conflict h pr w) = closing_inv old w"
  by (simp_all add: closing_inv_def audit_def trigger_def main_event_once_def exec_event_once_def audit_expired_def conflict_def
      split: roster_file.split)

lemma agent_ok_mono: "agent_ok a item l \<Longrightarrow> closes_of a l \<le> closes_of a l' \<Longrightarrow> agent_ok a item l'"
  by (auto simp: agent_ok_def)

lemma agents_ok_mono: "agents_ok agents l \<Longrightarrow> (\<And>a. closes_of a l \<le> closes_of a l') \<Longrightarrow> agents_ok agents l'"
  by (auto simp: agents_ok_def intro: agent_ok_mono)

lemma agents_ok_get: "agents_ok agents l \<Longrightarrow> map_of agents a = Some item \<Longrightarrow> agent_ok a item l"
  by (auto simp: agents_ok_def dest: map_of_SomeD)

lemma agents_ok_set: "agents_ok agents l \<Longrightarrow> agent_ok a item l \<Longrightarrow> agents_ok (dict_set a item agents) l"
  by (induction agents) (auto simp: agents_ok_def)

lemma queue_agent_ok:
  assumes "queue_close_locked env reason agent w = (q, agent', w')" and "he_close_readable env"
    and "jget agent ''agent_id'' = JStr a"
    and "truthy (jget agent ''close_request_emitted'') \<Longrightarrow> 0 < closes_of a (hw_close w)"
  shows "agent_ok a agent' (hw_close w')"
proof (cases "close_flags agent")
  case True
  then have "agent' = agent" "w' = w" using queue_close_facts(6) [OF assms(1,2)] by simp_all
  then show ?thesis using True assms(3,4) by (auto simp: agent_ok_def close_flags_def)
next
  case False
  then have "0 < closes_of a (hw_close w')" using queue_close_facts(4) [OF assms(1,2,3)] by simp
  moreover have "jget agent' ''agent_id'' = JStr a" using queue_close_facts(5) [OF assms(1,2), of "''agent_id''"] assms(3) by simp
  ultimately show ?thesis by (simp add: agent_ok_def)
qed

lemma queue_closing_ok:
  assumes "queue_close_locked env reason agent w = (q, agent', w')" and "he_close_readable env" and "closing_ok old r w"
  shows "closing_ok old r w'"
  using assms(3) queue_close_facts(2,3) [OF assms(1,2)] unfolding closing_ok_def by (auto intro: agents_ok_mono)

lemma closing_ok_pending: "closing_ok old r w \<Longrightarrow> closing_ok old (r\<lparr>nr_pending := ps\<rparr>) w"
  by (simp add: closing_ok_def)

lemma prune_pending_agents: "prune_pending now r = (gone, r') \<Longrightarrow> nr_agents r' = nr_agents r"
  by (auto simp: prune_pending_def Let_def)

lemma confirm_close_ok: "closing_ok old r w \<Longrightarrow> confirm_close env t r w = (x, r', w') \<Longrightarrow> closing_ok old r' w'"
proof -
  assume ok: "closing_ok old r w" and step: "confirm_close env t r w = (x, r', w')"
  show ?thesis
  proof (cases "map_of (nr_agents r) t")
    case None
    then show ?thesis using ok step by (simp add: confirm_close_def)
  next
    case (Some item)
    then have "agent_ok t item (hw_close w)" using ok by (auto simp: closing_ok_def dest: agents_ok_get)
    then show ?thesis using ok step Some
      by (auto simp: confirm_close_def closing_ok_def Let_def agent_ok_def intro!: agents_ok_set split: if_splits)
  qed
qed

lemma add_pending_ok: "closing_ok old r w \<Longrightarrow> add_pending now item r w = (x, r', w') \<Longrightarrow> closing_ok old r' w'"
  by (auto simp: add_pending_def closing_ok_def split: prod.splits if_splits dest!: prune_pending_agents)

lemma start_item_fields:
  "jget (start_item env payload a parent chosen) ''agent_id'' = JStr a"
  "jget (start_item env payload a parent chosen) ''status'' = JStr ''running''"
  "jget (start_item env payload a parent chosen) ''close_request_emitted'' = JNull"
  by (simp_all add: start_item_def Let_def split: prod.split)

lemma register_start_ok: "closing_ok old r w \<Longrightarrow> register_start env payload a parent r w = (x, r', w') \<Longrightarrow> closing_ok old r' w'"
  by (auto simp: register_start_def closing_ok_def agent_ok_def start_item_fields Let_def intro!: agents_ok_set
      split: prod.splits option.splits dest!: prune_pending_agents)

lemma stop_agent_ok:
  assumes "closing_ok old r w" and "stop_agent env a r w = (x, r', w')" and "he_close_readable env"
  shows "closing_ok old r' w'"
proof -
  define known where "known = dict_get_or [(''agent_id'', JStr a), (''task_name'', JStr a), (''started_at'', JNull),
            (''name_degraded'', JBool True), (''name_source'', JStr NAME_FALLBACK_SOURCE)] a (nr_agents r)"
  let ?item = "dict_update [(''status'', JStr ''terminal''), (''terminal_reason'', JStr ''SubagentStop''),
            (''stopped_at'', JFloat (he_now env)), (''updated_at'', JFloat (he_now env))] known"
  have "jget known ''agent_id'' = JStr a \<and> (truthy (jget known ''close_request_emitted'') \<longrightarrow> 0 < closes_of a (hw_close w))"
  proof (cases "map_of (nr_agents r) a")
    case None
    then show ?thesis by (simp add: known_def py_simps)
  next
    case (Some item)
    then have "agent_ok a item (hw_close w)" using assms(1) by (auto simp: closing_ok_def dest: agents_ok_get)
    then show ?thesis using Some by (simp add: known_def dict_get_or_def agent_ok_def)
  qed
  moreover obtain q item' w1 where queue: "queue_close_locked env ''subagent_terminal'' ?item w = (q, item', w1)"
    by (cases "queue_close_locked env ''subagent_terminal'' ?item w")
  ultimately have "agent_ok a item' (hw_close w1)" by (intro queue_agent_ok [OF queue assms(3)]) simp_all
  moreover have "closing_ok old r w1" by (rule queue_closing_ok [OF queue assms(3,1)])
  ultimately show ?thesis using assms(2) queue
    by (auto simp: stop_agent_def known_def [symmetric] closing_ok_def intro: agents_ok_set)
qed

lemma interrupt_agents_ok:
  assumes "agents_ok agents (hw_close w)" and "\<forall>a. closes_of a (hw_close w) \<le> 1"
    and "interrupt_agents env parent agents w = (changed, agents', w')" and "he_close_readable env"
  shows "agents_ok agents' (hw_close w') \<and> (\<forall>a. closes_of a (hw_close w') \<le> 1)
    \<and> (\<forall>a. closes_of a (hw_close w) \<le> closes_of a (hw_close w')) \<and> w' = w\<lparr>hw_close := hw_close w'\<rparr>
    \<and> map fst agents' = map fst agents"
  using assms
proof (induction agents arbitrary: w changed agents' w')
  case Nil
  then show ?case by (simp add: agents_ok_def)
next
  case (Cons e rest)
  obtain a item where e: "e = (a, item)" by (cases e)
  have item: "agent_ok a item (hw_close w)" and rest: "agents_ok rest (hw_close w)"
    using Cons.prems(1) e by (simp_all add: agents_ok_def)
  show ?case
  proof (cases "runs_for parent item")
    case False
    obtain c2 r2 w2 where run: "interrupt_agents env parent rest w = (c2, r2, w2)" by (cases "interrupt_agents env parent rest w")
    note ih = Cons.IH [OF rest Cons.prems(2) run assms(4)]
    moreover have "agent_ok a item (hw_close w2)" using item ih by (auto intro: agent_ok_mono)
    ultimately show ?thesis using Cons.prems(3) e False run by (auto simp: agents_ok_def)
  next
    case True
    let ?item = "dict_update [(''status'', JStr ''interrupted''), (''terminal_reason'', JStr ''parent_stop''),
                 (''stopped_at'', JFloat (he_now env)), (''updated_at'', JFloat (he_now env))] item"
    obtain q item' w1 where queue: "queue_close_locked env ''parent_stop'' ?item w = (q, item', w1)"
      by (cases "queue_close_locked env ''parent_stop'' ?item w")
    have new: "agent_ok a item' (hw_close w1)"
      by (rule queue_agent_ok [OF queue assms(4)]) (use item in \<open>simp_all add: agent_ok_def\<close>)
    have mono: "closes_of b (hw_close w) \<le> closes_of b (hw_close w1)" for b by (rule queue_close_facts(2) [OF queue assms(4)])
    have once: "\<forall>b. closes_of b (hw_close w1) \<le> 1" using queue_close_facts(3) [OF queue assms(4)] Cons.prems(2) by blast
    obtain c2 r2 w2 where run: "interrupt_agents env parent rest w1 = (c2, r2, w2)" by (cases "interrupt_agents env parent rest w1")
    note ih = Cons.IH [OF agents_ok_mono [OF rest mono] once run assms(4)]
    have frame: "w2 = w\<lparr>hw_close := hw_close w2\<rparr>"
    proof -
      have "w1 = w\<lparr>hw_close := hw_close w1\<rparr>" by (rule queue_close_facts(1) [OF queue assms(4)])
      moreover have "w2 = w1\<lparr>hw_close := hw_close w2\<rparr>" using ih by blast
      ultimately show ?thesis by (metis hook_world.surjective hook_world.update_convs(2))
    qed
    have "agent_ok a item' (hw_close w2)" using new ih by (auto intro: agent_ok_mono)
    moreover have "closes_of b (hw_close w) \<le> closes_of b (hw_close w2)" for b using mono ih le_trans by blast
    moreover have "agents' = (a, item') # r2" "w' = w2" using Cons.prems(3) e True run queue by simp_all
    ultimately show ?thesis using e ih frame by (simp add: agents_ok_def)
  qed
qed

lemma interrupt_parent_ok:
  "closing_ok old r w \<Longrightarrow> interrupt_parent env parent r w = (x, r', w') \<Longrightarrow> he_close_readable env \<Longrightarrow> closing_ok old r' w'"
  using interrupt_agents_ok [of "nr_agents r" w env parent]
  by (auto simp: interrupt_parent_def closing_ok_def split: prod.splits intro: agents_ok_mono)

lemma store_meta_keeps:
  assumes "k \<notin> {''nickname'', ''agent_role'', ''agent_path''}" and "fst ` set meta \<subseteq> {''nickname'', ''agent_role'', ''agent_path''}"
  shows "jget (store_meta meta item) k = jget item k"
  unfolding store_meta_def using assms by (intro jget_dict_update_other) auto

lemma rollout_info_keys: "fst ` set (fst (rollout_info lines)) \<subseteq> {''nickname'', ''agent_role'', ''agent_path''}"
proof -
  have "fst ` set (fst acc) \<subseteq> {''nickname'', ''agent_role'', ''agent_path''} \<Longrightarrow>
      fst ` set (fst (fold rollout_line lines acc)) \<subseteq> {''nickname'', ''agent_role'', ''agent_path''}" for acc
    by (induction lines arbitrary: acc) (auto simp: rollout_line_def rollout_meta_def Let_def split: option.split)
  then show ?thesis by (simp add: rollout_info_def)
qed

lemma reconcile_agent_ok:
  assumes "closing_ok old r w" and "reconcile_agent env a (rollout_info lines) r w = (x, r', w')" and "he_close_readable env"
  shows "closing_ok old r' w'"
proof (cases "map_of (nr_agents r) a")
  case None
  then show ?thesis using assms by (simp add: reconcile_agent_def)
next
  case (Some item0)
  define item where "item = store_meta (fst (rollout_info lines)) item0"
  have old: "agent_ok a item0 (hw_close w)" using assms(1) Some by (auto simp: closing_ok_def dest: agents_ok_get)
  have keeps: "jget item k = jget item0 k" if "k \<notin> {''nickname'', ''agent_role'', ''agent_path''}" for k
    unfolding item_def by (rule store_meta_keeps [OF that rollout_info_keys])
  have ok: "agent_ok a item (hw_close w)" using old by (simp add: agent_ok_def keeps)
  show ?thesis
  proof (cases "snd (rollout_info lines)")
    case None
    then show ?thesis using assms Some ok
      by (auto simp: reconcile_agent_def item_def [symmetric] closing_ok_def intro: agents_ok_set split: if_splits)
  next
    case (Some marker)
    let ?item = "dict_update [(''status'', JStr ''terminal''), (''terminal_reason'', JStr (''rollout_'' @ marker)),
                           (''stopped_at'', JFloat (he_now env)), (''updated_at'', JFloat (he_now env))] item"
    obtain q item' w1 where queue: "queue_close_locked env ''cold_start_terminal_reconcile'' ?item w = (q, item', w1)"
      by (cases "queue_close_locked env ''cold_start_terminal_reconcile'' ?item w")
    have "agent_ok a item' (hw_close w1)"
      by (rule queue_agent_ok [OF queue assms(3)]) (use ok in \<open>simp_all add: agent_ok_def\<close>)
    moreover have "closing_ok old r w1" by (rule queue_closing_ok [OF queue assms(3,1)])
    ultimately show ?thesis using assms(1,2) \<open>map_of (nr_agents r) a = Some item0\<close> Some queue
      by (auto simp: reconcile_agent_def item_def [symmetric] closing_ok_def intro: agents_ok_set split: if_splits)
  qed
qed

lemma drop_doomed_ok: "closing_ok old r w \<Longrightarrow> drop_doomed now r w = (x, r', w') \<Longrightarrow> closing_ok old r' w'"
  by (auto simp: drop_doomed_def closing_ok_def agents_ok_def)


interpretation closing_hooks: hook_contract he_close_readable "closing_inv old" "closing_ok old" for old
proof unfold_locales
  show "\<And>w r. closing_inv old w \<Longrightarrow> hw_roster w = Absent \<and> r = \<lparr>nr_pending = [], nr_agents = []\<rparr> \<or> hw_roster w = Stored r
      \<Longrightarrow> closing_ok old r w"
    by (auto simp: closing_ok_def closing_inv_def agents_ok_def)
  show "\<And>r w. closing_ok old r w \<Longrightarrow> closing_inv old (w\<lparr>hw_roster := Stored r\<rparr>)"
    by (simp add: closing_ok_def closing_inv_def)
qed (simp_all, (blast intro: confirm_close_ok add_pending_ok register_start_ok stop_agent_ok
      interrupt_parent_ok reconcile_agent_ok drop_doomed_ok)+)

section \<open>Lifecycle events\<close>

definition announced_inv :: "hook_world \<Rightarrow> bool" where
  "announced_inv w \<longleftrightarrow> (\<forall>key. mains_of key (hw_main w) \<le> 1)"

lemma announce_once: "announced_inv w \<Longrightarrow> he_main_readable env \<Longrightarrow> announced_inv (main_event_once env e a d w)"
  using announcing.emit_at_most_once by (simp add: announced_inv_def main_event_once_def)

lemma exec_event_main: "mains_of key (snd (exec_event k x l)) = mains_of key l"
proof (cases "exec_event k x l")
  case (Pair b l')
  then have "mains_of key l' = mains_of key l"
    unfolding exec_event_def by (rule append_once_others) (simp add: main_row_def line_is_def)
  then show ?thesis using Pair by simp
qed

lemma exec_announced [simp]: "announced_inv (exec_event_once env pid rid n e d w) = announced_inv w"
  using exec_event_main [of _ "(pid, rid, e)" "(he_now env, n, d)" "[]"] exec_event_main [of _ "(pid, rid, e)" "(he_now env, n, d)" "hw_main w"]
  by (simp add: announced_inv_def exec_event_once_def)

lemma queue_close_main: "queue_close_locked env reason agent w = (q, agent', w') \<Longrightarrow> hw_main w' = hw_main w"
  by (auto simp: queue_close_locked_def split: if_splits prod.splits bool.splits)

lemma interrupt_agents_main: "interrupt_agents env parent agents w = (changed, agents', w') \<Longrightarrow> hw_main w' = hw_main w"
proof (induction agents arbitrary: w changed agents' w')
  case Nil
  then show ?case by simp
next
  case (Cons e rest)
  then show ?case by (cases e) (auto split: if_splits prod.splits dest!: queue_close_main)
qed

lemma mutations_main:
  "confirm_close env t r w = (x1, r', w') \<Longrightarrow> hw_main w' = hw_main w"
  "add_pending now item r w = (x2, r', w') \<Longrightarrow> hw_main w' = hw_main w"
  "register_start env payload a parent r w = (x3, r', w') \<Longrightarrow> hw_main w' = hw_main w"
  "stop_agent env a r w = (x4, r', w') \<Longrightarrow> hw_main w' = hw_main w"
  "interrupt_parent env p r w = (x5, r', w') \<Longrightarrow> hw_main w' = hw_main w"
  "reconcile_agent env a info r w = (x6, r', w') \<Longrightarrow> hw_main w' = hw_main w"
  "drop_doomed now r w = (x7, r', w') \<Longrightarrow> hw_main w' = hw_main w"
  by (auto simp: confirm_close_def add_pending_def register_start_def stop_agent_def interrupt_parent_def
      reconcile_agent_def drop_doomed_def Let_def
      split: option.splits if_splits prod.splits dest: queue_close_main interrupt_agents_main)


lemma announced_same: "announced_inv w \<Longrightarrow> hw_main w' = hw_main w \<Longrightarrow> announced_inv w'"
  by (simp add: announced_inv_def)

interpretation announcing_hooks: hook_contract he_main_readable announced_inv "\<lambda>r. announced_inv"
proof unfold_locales
  fix w r env pid rid n e d a
  show "announced_inv w \<Longrightarrow> he_main_readable env \<Longrightarrow> announced_inv (main_event_once env e a d w)" by (rule announce_once)
  show "announced_inv w \<Longrightarrow> announced_inv (exec_event_once env pid rid n e d w)" by simp
qed (auto simp: audit_def trigger_def elim: announced_same dest: mutations_main)

section \<open>Any number of hooks\<close>

text \<open>
  What happens to the files: a hook runs; a hook dies after its close requests are appended and
  before the roster is replaced; the roster file is lost or damaged; other processes append to the
  event stream and rewrite the parents and the exec roster.
\<close>

datatype hook_step =
    Hook hook_env hook_event jobj
  | Torn hook_env hook_event jobj
  | Roster_lost
  | Roster_damaged
  | Others "jobj option list" "jobj dict" "jobj dict"

fun apply_hook :: "hook_step \<Rightarrow> hook_world \<Rightarrow> hook_world" where
  "apply_hook (Hook env event payload) w = handle env event payload w"
| "apply_hook (Torn env event payload) w = w\<lparr>hw_close := hw_close (handle env event payload w)\<rparr>"
| "apply_hook Roster_lost w = w\<lparr>hw_roster := Absent\<rparr>"
| "apply_hook Roster_damaged w = w\<lparr>hw_roster := Unreadable\<rparr>"
| "apply_hook (Others rows parents jobs) w = w\<lparr>hw_main := hw_main w @ rows, hw_parents := parents, hw_jobs := jobs\<rparr>"

text \<open>The ledgers can be read, and no one else writes lifecycle events.\<close>

fun fair_step :: "hook_step \<Rightarrow> bool" where
  "fair_step (Hook env event payload) = (he_close_readable env \<and> he_main_readable env)"
| "fair_step (Torn env event payload) = he_close_readable env"
| "fair_step (Others rows parents jobs) = list_all (\<lambda>row. case row of None \<Rightarrow> True | Some r \<Rightarrow> \<not> is_str (jget r ''agent_id'')) rows"
| "fair_step step = True"

definition new_hooks :: hook_world where
  "new_hooks = \<lparr>hw_roster = Absent, hw_close = [], hw_main = [], hw_audit = [], hw_names = [], hw_parents = [],
     hw_jobs = [], hw_cancel = [], hw_actions = []\<rparr>"

definition hooks_inv :: "hook_world \<Rightarrow> bool" where
  "hooks_inv w \<longleftrightarrow> closing_inv [] w"

lemma hooks_inv_step:
  assumes "hooks_inv w" and "fair_step step"
  shows "hooks_inv (apply_hook step w)"
proof (cases step)
  case (Hook env event payload)
  then show ?thesis using assms closing_hooks.handle_kept [of "[]" w env event payload] by (simp add: hooks_inv_def)
next
  case (Torn env event payload)
  define old where "old = (case hw_roster w of Stored r \<Rightarrow> nr_agents r | _ \<Rightarrow> [])"
  have "closing_inv old w" using assms(1) by (simp add: hooks_inv_def closing_inv_def old_def split: roster_file.splits)
  then have "closing_inv old (handle env event payload w)"
    using assms(2) Torn by (intro closing_hooks.handle_kept) simp_all
  then have "\<forall>a. closes_of a (hw_close (handle env event payload w)) \<le> 1" "agents_ok old (hw_close (handle env event payload w))"
    by (simp_all add: closing_inv_def)
  then show ?thesis
    by (cases "hw_roster w") (simp_all add: Torn hooks_inv_def closing_inv_def old_def agents_ok_def)
next
  case Roster_lost
  then show ?thesis using assms(1) by (simp add: hooks_inv_def closing_inv_def)
next
  case Roster_damaged
  then show ?thesis using assms(1) by (simp add: hooks_inv_def closing_inv_def)
next
  case (Others rows parents jobs)
  then show ?thesis using assms(1) by (simp add: hooks_inv_def closing_inv_def split: roster_file.splits)
qed

lemma foreign_rows:
  "list_all (\<lambda>row. case row of None \<Rightarrow> True | Some r \<Rightarrow> \<not> is_str (jget r ''agent_id'')) rows \<Longrightarrow> mains_of key rows = 0"
  by (induction rows) (auto simp: main_row_def line_is_def split: option.splits)

lemma announced_step:
  assumes "announced_inv w" and "fair_step step"
  shows "announced_inv (apply_hook step w)"
proof (cases step)
  case (Hook env event payload)
  then show ?thesis using assms announcing_hooks.handle_kept [of w env event payload] by simp
next
  case (Others rows parents jobs)
  then show ?thesis using assms by (simp add: announced_inv_def foreign_rows)
qed (use assms in \<open>simp_all add: announced_inv_def\<close>)

lemma hooks_run:
  "list_all fair_step steps \<Longrightarrow> hooks_inv w \<Longrightarrow> announced_inv w \<Longrightarrow>
    hooks_inv (fold apply_hook steps w) \<and> announced_inv (fold apply_hook steps w)"
  by (induction steps arbitrary: w) (simp_all add: hooks_inv_step announced_step)


section \<open>Agents do not come back\<close>

definition rank :: "jobj \<Rightarrow> nat" where
  "rank item = (if jget item ''status'' \<in> {JStr ''terminal'', JStr ''lost''} then 2
     else if jget item ''status'' = JStr ''interrupted'' then 1 else 0)"

lemma rank_set: "key \<noteq> ''status'' \<Longrightarrow> rank (dict_set key v item) = rank item"
  by (simp add: rank_def)

definition held :: "rat \<Rightarrow> string \<Rightarrow> nat \<Rightarrow> native_roster \<Rightarrow> bool" where
  "held t a k r \<longleftrightarrow> wf_dict (nr_agents r)
     \<and> (\<exists>item. map_of (nr_agents r) a = Some item \<and> k \<le> rank item \<and> \<not> doomed t item)"

definition held_inv :: "rat \<Rightarrow> string \<Rightarrow> nat \<Rightarrow> hook_world \<Rightarrow> bool" where
  "held_inv t a k w \<longleftrightarrow> (\<exists>r. hw_roster w = Stored r \<and> held t a k r)"

lemma held_get: "held t a k r \<Longrightarrow> map_of (nr_agents r) a = Some item \<Longrightarrow> k \<le> rank item \<and> \<not> doomed t item"
  unfolding held_def by (metis option.inject)

lemma held_set:
  assumes "held t a k r" and "b = a \<Longrightarrow> k \<le> rank item \<and> \<not> doomed t item"
  shows "held t a k (r\<lparr>nr_agents := dict_set b item (nr_agents r)\<rparr>)"
  using assms by (auto simp: held_def)

lemma held_pending: "held t a k r \<Longrightarrow> nr_agents r' = nr_agents r \<Longrightarrow> held t a k r'"
  by (simp only: held_def)

lemma doomed_cong:
  assumes "jget item' ''status'' = jget item ''status''" and "jget item' ''stopped_at'' = jget item ''stopped_at''"
    and "jget item' ''updated_at'' = jget item ''updated_at''"
  shows "doomed t item' = doomed t item"
  using assms by (simp add: doomed_def first_of_def)

lemma fresh_not_doomed:
  assumes "jget item ''stopped_at'' = JFloat t" and "jget item ''updated_at'' = JFloat t"
  shows "\<not> doomed t item"
  using assms by (simp add: doomed_def first_of_def py_or_def ROSTER_PRUNE_AFTER_S_def)

lemma touched_not_doomed:
  assumes "\<not> doomed t item" and "jget item' ''status'' = jget item ''status''"
    and "jget item' ''stopped_at'' = jget item ''stopped_at''" and "jget item' ''updated_at'' = JFloat t"
  shows "\<not> doomed t item'"
  using assms by (auto simp: doomed_def first_of_def py_or_def ROSTER_PRUNE_AFTER_S_def split: sum.splits)

lemma confirm_held:
  assumes "held t a k r" and "he_now env = t" and "confirm_close env b r w = (x, r', w')"
  shows "held t a k r'"
proof -
  show ?thesis
  proof (cases "map_of (nr_agents r) b")
    case None
    then show ?thesis using assms by (simp add: confirm_close_def)
  next
    case (Some other)
    let ?item = "dict_update [(''host_close_confirmed_at'', JFloat (he_now env)),
                    (''close_request_consumed'', JBool True),
                    (''close_observed_before_request'', JBool (\<not> truthy (jget other ''close_request_emitted''))),
                    (''updated_at'', JFloat (he_now env))] other"
    have "b = a \<Longrightarrow> k \<le> rank ?item \<and> \<not> doomed t ?item"
      using held_get [OF assms(1), of other] Some assms(2) touched_not_doomed [of t other ?item] by (simp add: rank_set)
    then show ?thesis using assms(1,3) Some held_set [OF assms(1), of b ?item]
      by (auto simp: confirm_close_def Let_def split: if_splits)
  qed
qed

lemma add_pending_held: "held t a k r \<Longrightarrow> add_pending now item r w = (x, r', w') \<Longrightarrow> held t a k r'"
  by (rule held_pending, assumption)
    (auto simp: add_pending_def split: prod.splits if_splits dest!: prune_pending_agents)

lemma register_start_held:
  assumes "held t a k r" and "register_start env payload b parent r w = (x, r', w')"
  shows "held t a k r'"
proof (cases "map_of (nr_agents r) b")
  case None
  then have "b \<noteq> a" using assms(1) by (auto simp: held_def)
  moreover obtain gone r1 where prune: "prune_pending (he_now env) r = (gone, r1)" by (cases "prune_pending (he_now env) r")
  have "held t a k r1" by (rule held_pending [OF assms(1) prune_pending_agents [OF prune]])
  ultimately show ?thesis using assms(2) None prune
    by (auto simp: register_start_def held_def Let_def split: option.splits)
next
  case (Some item)
  then show ?thesis using assms by (simp add: register_start_def)
qed

lemma queue_keeps:
  assumes "queue_close_locked env reason agent w = (q, agent', w')" and "he_close_readable env"
  shows "rank agent' = rank agent" and "doomed t agent' = doomed t agent"
  using queue_close_facts(5) [OF assms] by (simp_all add: rank_def doomed_def first_of_def)

lemma stop_agent_held:
  assumes "held t a k r" and "he_now env = t" and "he_close_readable env" and "stop_agent env b r w = (x, r', w')"
  shows "held t a k r'"
proof -
  define old where "old = dict_get_or [(''agent_id'', JStr b), (''task_name'', JStr b), (''started_at'', JNull),
            (''name_degraded'', JBool True), (''name_source'', JStr NAME_FALLBACK_SOURCE)] b (nr_agents r)"
  let ?item = "dict_update [(''status'', JStr ''terminal''), (''terminal_reason'', JStr ''SubagentStop''),
            (''stopped_at'', JFloat (he_now env)), (''updated_at'', JFloat (he_now env))] old"
  obtain q item' w1 where queue: "queue_close_locked env ''subagent_terminal'' ?item w = (q, item', w1)"
    by (cases "queue_close_locked env ''subagent_terminal'' ?item w")
  have "rank item' = 2" "\<not> doomed t item'"
    using queue_keeps [OF queue assms(3)] fresh_not_doomed [of ?item t] assms(2) by (simp_all add: rank_def)
  moreover have "k \<le> 2" using assms(1) by (auto simp: held_def rank_def split: if_splits)
  ultimately have "held t a k (r\<lparr>nr_agents := dict_set b item' (nr_agents r)\<rparr>)" by (intro held_set [OF assms(1)]) simp
  then show ?thesis using assms(4) queue by (auto simp: stop_agent_def old_def [symmetric])
qed

lemma interrupt_agents_held:
  assumes "interrupt_agents env parent agents w = (changed, agents', w')" and "he_close_readable env"
  shows "map fst agents' = map fst agents
    \<and> (map_of agents a = Some item \<longrightarrow> \<not> doomed t item \<longrightarrow>
        (\<exists>item'. map_of agents' a = Some item' \<and> rank item \<le> rank item' \<and> \<not> doomed t item'))"
  using assms(1)
proof (induction agents arbitrary: w changed agents' w')
  case Nil
  then show ?case by simp
next
  case (Cons e rest)
  obtain b other where e: "e = (b, other)" by (cases e)
  show ?case
  proof (cases "runs_for parent other")
    case False
    obtain c2 r2 w2 where run: "interrupt_agents env parent rest w = (c2, r2, w2)" by (cases "interrupt_agents env parent rest w")
    show ?thesis using Cons.IH [OF run] Cons.prems e False run by auto
  next
    case True
    let ?item = "dict_update [(''status'', JStr ''interrupted''), (''terminal_reason'', JStr ''parent_stop''),
                 (''stopped_at'', JFloat (he_now env)), (''updated_at'', JFloat (he_now env))] other"
    obtain q item' w1 where queue: "queue_close_locked env ''parent_stop'' ?item w = (q, item', w1)"
      by (cases "queue_close_locked env ''parent_stop'' ?item w")
    obtain c2 r2 w2 where run: "interrupt_agents env parent rest w1 = (c2, r2, w2)" by (cases "interrupt_agents env parent rest w1")
    have "rank other = 0" using True by (simp add: runs_for_def rank_def)
    moreover have "\<not> doomed t item'" using queue_keeps(2) [OF queue assms(2)] by (simp add: doomed_def)
    ultimately show ?thesis using Cons.IH [OF run] Cons.prems e True run queue by auto
  qed
qed

lemma interrupt_parent_held:
  assumes "held t a k r" and "he_close_readable env" and "interrupt_parent env p r w = (x, r', w')"
  shows "held t a k r'"
proof -
  obtain item where item: "map_of (nr_agents r) a = Some item" "k \<le> rank item" "\<not> doomed t item" and wf: "wf_dict (nr_agents r)"
    using assms(1) by (auto simp: held_def)
  obtain changed agents w1 where run: "interrupt_agents env p (nr_agents r) w = (changed, agents, w1)"
    by (cases "interrupt_agents env p (nr_agents r) w")
  from interrupt_agents_held [OF run assms(2), of a item t] item wf show ?thesis
    using assms(3) run le_trans by (fastforce simp: interrupt_parent_def held_def)
qed

lemma reconcile_held:
  assumes "held t a k r" and "he_now env = t" and "he_close_readable env"
    and "reconcile_agent env b (rollout_info lines) r w = (x, r', w')"
  shows "held t a k r'"
proof (cases "map_of (nr_agents r) b")
  case None
  then show ?thesis using assms(1,4) by (simp add: reconcile_agent_def)
next
  case (Some item0)
  define item where "item = store_meta (fst (rollout_info lines)) item0"
  have keeps: "jget item j = jget item0 j" if "j \<notin> {''nickname'', ''agent_role'', ''agent_path''}" for j
    unfolding item_def by (rule store_meta_keeps [OF that rollout_info_keys])
  have same: "rank item = rank item0" "doomed t item = doomed t item0"
    by (simp_all add: rank_def doomed_def first_of_def keeps)
  have "k \<le> rank item \<and> \<not> doomed t item" if "b = a" using held_get [OF assms(1)] that Some same by simp
  note plain = held_set [OF assms(1) this]
  show ?thesis
  proof (cases "snd (rollout_info lines)")
    case None
    then show ?thesis using assms(1,4) Some plain by (auto simp: reconcile_agent_def item_def [symmetric] split: if_splits)
  next
    case (Some marker)
    let ?item = "dict_update [(''status'', JStr ''terminal''), (''terminal_reason'', JStr (''rollout_'' @ marker)),
                           (''stopped_at'', JFloat (he_now env)), (''updated_at'', JFloat (he_now env))] item"
    obtain q item' w1 where queue: "queue_close_locked env ''cold_start_terminal_reconcile'' ?item w = (q, item', w1)"
      by (cases "queue_close_locked env ''cold_start_terminal_reconcile'' ?item w")
    have "rank item' = 2" "\<not> doomed t item'"
      using queue_keeps [OF queue assms(3)] fresh_not_doomed [of ?item t] assms(2) by (simp_all add: rank_def)
    moreover have "k \<le> 2" using assms(1) by (auto simp: held_def rank_def split: if_splits)
    ultimately have "held t a k (r\<lparr>nr_agents := dict_set b item' (nr_agents r)\<rparr>)" by (intro held_set [OF assms(1)]) simp
    then show ?thesis using assms(1,4) \<open>map_of (nr_agents r) b = Some item0\<close> Some queue
      by (auto simp: reconcile_agent_def item_def [symmetric] split: if_splits)
  qed
qed

lemma drop_doomed_held: "held t a k r \<Longrightarrow> drop_doomed t r w = (x, r', w') \<Longrightarrow> held t a k r'"
  by (auto simp: drop_doomed_def held_def distinct_map_filter)

interpretation held_hooks: hook_contract "\<lambda>env. he_now env = t \<and> he_close_readable env" "held_inv t a k" "\<lambda>r w. held t a k r"
  for t a k
proof unfold_locales
  fix env and r r' :: native_roster and w w' :: hook_world and x
  show "held t a k r \<Longrightarrow> he_now env = t \<and> he_close_readable env \<Longrightarrow> drop_doomed (he_now env) r w = (x, r', w') \<Longrightarrow> held t a k r'"
    by (auto intro: drop_doomed_held)
qed (auto simp: held_inv_def audit_def trigger_def main_event_once_def exec_event_once_def
    intro: confirm_held add_pending_held register_start_held stop_agent_held interrupt_parent_held reconcile_held)

text \<open>Claim C31. No hook brings an agent back: an agent in the roster whose row is not old enough to be
  dropped is still there after any hook, and has gone from running to interrupted to ended, never the
  other way.\<close>

theorem agents_never_revive:
  assumes "hw_roster w = Stored r" and "wf_dict (nr_agents r)" and "map_of (nr_agents r) a = Some item"
    and "\<not> doomed (he_now env) item" and "he_close_readable env"
  shows "\<exists>r' item'. hw_roster (handle env event payload w) = Stored r' \<and> map_of (nr_agents r') a = Some item'
    \<and> rank item \<le> rank item'"
proof -
  have "held_inv (he_now env) a (rank item) w"
    unfolding held_inv_def held_def using assms(1-4) by blast
  then have "held_inv (he_now env) a (rank item) (handle env event payload w)"
    by (rule held_hooks.handle_kept) (simp add: assms(5))
  then show ?thesis unfolding held_inv_def held_def by blast
qed

section \<open>Lost jobs\<close>

text \<open>What a settled job keeps.\<close>

lemma settle_job_cases:
  assumes "settle_job env c jobs = (res, jobs')"
  obtains "res = None" "jobs' = jobs"
    "\<And>job. map_of jobs (fst c) = Some job \<Longrightarrow> py_eq (jget job ''run_id'') (jget (snd c) ''run_id'') \<Longrightarrow> \<not> orphaned (he_proc env) job"
  | job job' lost where "res = Some (job', lost)" "jobs' = dict_set (fst c) job' jobs" "map_of jobs (fst c) = Some job"
      "orphaned (he_proc env) job" "py_eq (jget job ''run_id'') (jget (snd c) ''run_id'')"
      "lost = cleaned env (snd c)" "jget job' ''run_id'' = jget job ''run_id''"
      "if lost then jget job' ''state'' = JStr ''lost'' else jget job' ''state'' = jget job ''state''"
proof (cases "map_of jobs (fst c)")
  case None
  then show thesis using assms that(1) by (simp add: settle_job_def)
next
  case (Some job)
  show thesis
  proof (cases "py_eq (jget job ''run_id'') (jget (snd c) ''run_id'') \<and> orphaned (he_proc env) job")
    case False
    then show thesis using assms Some that(1) by (auto simp: settle_job_def)
  next
    case True
    then show thesis using assms Some
      by (cases "cleaned env (snd c)")
        (auto simp: settle_job_def Let_def append_history_def intro!: that(2))
  qed
qed

definition settled_as :: "hook_env \<Rightarrow> jobj \<Rightarrow> jobj \<Rightarrow> bool" where
  "settled_as env job job' \<longleftrightarrow> jget job' ''run_id'' = jget job ''run_id''
     \<and> (if cleaned env job then jget job' ''state'' = JStr ''lost'' else jget job' ''state'' = jget job ''state'')"

lemma settle_jobs_get:
  assumes "settle_jobs env cs jobs = (rs, jobs')" and "wf_dict cs"
    and "\<forall>(pid, job) \<in> set cs. map_of jobs pid = Some job \<and> orphaned (he_proc env) job"
  shows "(pid \<notin> fst ` set cs \<longrightarrow> map_of jobs' pid = map_of jobs pid)
    \<and> (\<forall>job. (pid, job) \<in> set cs \<longrightarrow> (\<exists>job'. map_of jobs' pid = Some job' \<and> settled_as env job job'
         \<and> (pid, job', cleaned env job) \<in> set rs))"
  using assms
proof (induction cs arbitrary: jobs rs jobs')
  case Nil
  then show ?case by simp
next
  case (Cons c cs)
  obtain res jobs1 where step: "settle_job env c jobs = (res, jobs1)" by (cases "settle_job env c jobs")
  obtain rs2 jobs2 where rest: "settle_jobs env cs jobs1 = (rs2, jobs2)" by (cases "settle_jobs env cs jobs1")
  have own: "map_of jobs (fst c) = Some (snd c)" "orphaned (he_proc env) (snd c)" using Cons.prems(3) by (auto split: prod.splits)
  from step obtain job' where new: "res = Some (job', cleaned env (snd c))" "jobs1 = dict_set (fst c) job' jobs"
      "settled_as env (snd c) job'"
    by (cases rule: settle_job_cases) (use own in \<open>auto simp: settled_as_def split: if_splits\<close>)
  have result: "rs = (fst c, job', cleaned env (snd c)) # rs2" "jobs' = jobs2"
    using Cons.prems(1) step rest new(1) by simp_all
  have "map_of jobs1 q = Some j \<and> orphaned (he_proc env) j" if "(q, j) \<in> set cs" for q j
  proof -
    have "q \<noteq> fst c" using that Cons.prems(2) by (force simp: image_iff)
    moreover have "map_of jobs q = Some j \<and> orphaned (he_proc env) j" using that Cons.prems(3) by auto
    ultimately show ?thesis using new(2) by simp
  qed
  then have "\<forall>(pid, job) \<in> set cs. map_of jobs1 pid = Some job \<and> orphaned (he_proc env) job" by auto
  note ih = Cons.IH [OF rest _ this]
  have distinct: "wf_dict cs" "fst c \<notin> fst ` set cs" using Cons.prems(2) by simp_all
  show ?case
  proof (cases "pid = fst c")
    case True
    then have "map_of jobs' pid = Some job'" using ih [OF distinct(1)] distinct(2) result(2) new(2) by simp
    moreover have "job = snd c" if "(pid, job) \<in> set (c # cs)" for job
      using that True distinct(2) by (cases c) force
    ultimately show ?thesis using True new(3) result(1) by auto
  next
    case False
    then show ?thesis using ih [OF distinct(1)] result new(2) by (cases c) auto
  qed
qed

lemma report_jobs [simp]: "hw_jobs (report_lost env e w) = hw_jobs w"
  by (simp add: report_lost_def exec_event_once_def split: prod.split)

lemma fold_report_jobs [simp]: "hw_jobs (fold (report_lost env) es w) = hw_jobs w"
  by (induction es arbitrary: w) simp_all

abbreviation failures_of :: "string \<Rightarrow> string \<Rightarrow> jobj option list \<Rightarrow> nat" where
  "failures_of pid run \<equiv> rows_of (exec_row (pid, JStr run, ''exec_failed''))"

lemma exec_event_rows:
  "failures_of pid run l \<le> 1 \<Longrightarrow> failures_of pid run (snd (exec_event (p, r, ev) x l)) \<le> 1"
  "failures_of pid run l \<le> failures_of pid run (snd (exec_event (p, r, ev) x l))"
proof -
  have "(failures_of pid run l \<le> 1 \<longrightarrow> failures_of pid run (snd (exec_event (p, r, ev) x l)) \<le> 1)
      \<and> failures_of pid run l \<le> failures_of pid run (snd (exec_event (p, r, ev) x l))"
  proof (cases "r = JStr run")
    case True
    then show ?thesis
      using failing.emit_at_most_once [of "(pid, run, ''exec_failed'')" l "(p, run, ev)" x]
        failing.emit_mono [of "(pid, run, ''exec_failed'')" l "(p, run, ev)" x] by simp
  next
    case False
    have "failures_of pid run (snd (exec_event (p, r, ev) x l)) = failures_of pid run l"
    proof (cases "exec_event (p, r, ev) x l")
      case (Pair b l')
      then have "failures_of pid run l' = failures_of pid run l"
        unfolding exec_event_def
        by (rule append_once_others) (use False in \<open>simp add: exec_row_def line_is_def\<close>)
      then show ?thesis using Pair by simp
    qed
    then show ?thesis by simp
  qed
  then show "failures_of pid run l \<le> 1 \<Longrightarrow> failures_of pid run (snd (exec_event (p, r, ev) x l)) \<le> 1"
    "failures_of pid run l \<le> failures_of pid run (snd (exec_event (p, r, ev) x l))" by blast+
qed

lemma report_rows:
  assumes "he_main_readable env"
  shows "failures_of pid run (hw_main w) \<le> 1 \<Longrightarrow> failures_of pid run (hw_main (report_lost env e w)) \<le> 1"
    and "failures_of pid run (hw_main w) \<le> failures_of pid run (hw_main (report_lost env e w))"
  using assms exec_event_rows by (auto simp: report_lost_def exec_event_once_def split: prod.split)

lemma report_own:
  assumes "he_main_readable env" and "jget job ''run_id'' = JStr run" and "run \<noteq> []"
  shows "0 < failures_of pid run (hw_main (report_lost env (pid, job, True) w))"
  using assms failing.emit_present [of "(pid, run, ''exec_failed'')"]
  by (simp add: report_lost_def exec_event_once_def py_or_def)

lemma fold_report_rows:
  assumes "he_main_readable env"
  shows "(failures_of pid run (hw_main w) \<le> 1 \<longrightarrow> failures_of pid run (hw_main (fold (report_lost env) es w)) \<le> 1)
    \<and> failures_of pid run (hw_main w) \<le> failures_of pid run (hw_main (fold (report_lost env) es w))
    \<and> ((pid, job, True) \<in> set es \<longrightarrow> jget job ''run_id'' = JStr run \<longrightarrow> run \<noteq> []
        \<longrightarrow> 0 < failures_of pid run (hw_main (fold (report_lost env) es w)))"
proof (induction es arbitrary: w)
  case Nil
  then show ?case by simp
next
  case (Cons e es)
  note ih = Cons.IH [of "report_lost env e w"]
  have "failures_of pid run (hw_main w) \<le> failures_of pid run (hw_main (report_lost env e w))"
    by (rule report_rows(2) [OF assms])
  moreover have "failures_of pid run (hw_main w) \<le> 1 \<longrightarrow> failures_of pid run (hw_main (report_lost env e w)) \<le> 1"
    using report_rows(1) [OF assms] by blast
  moreover have "e = (pid, job, True) \<longrightarrow> jget job ''run_id'' = JStr run \<longrightarrow> run \<noteq> []
      \<longrightarrow> 0 < failures_of pid run (hw_main (report_lost env e w))"
    using report_own [OF assms] by blast
  ultimately show ?case using ih by (auto simp del: One_nat_def)
qed

text \<open>Claim C32. At session start a job is given up exactly if it is live in the roster, its supervisor is gone
  and no process of its group is left; its failure is then in the event stream, once. A job whose
  group could not be stopped keeps its state and its place. The second look under the lock leaves a
  job alone whose supervisor lives or which is another run, whatever happened since the first.\<close>

theorem lost_jobs_are_settled:
  assumes "wf_dict (hw_jobs w)" and "map_of (hw_jobs w) pid = Some job" and "he_main_readable env"
    and "failures_of pid run (hw_main w) \<le> 1"
  shows "(\<not> orphaned (he_proc env) job \<longrightarrow> map_of (hw_jobs (cold_reconcile_exec env w)) pid = Some job)
    \<and> (orphaned (he_proc env) job \<longrightarrow> (\<exists>job'. map_of (hw_jobs (cold_reconcile_exec env w)) pid = Some job'
         \<and> jget job' ''run_id'' = jget job ''run_id''
         \<and> (if cleaned env job then jget job' ''state'' = JStr ''lost'' else jget job' ''state'' = jget job ''state'')))
    \<and> (orphaned (he_proc env) job \<and> cleaned env job \<and> jget job ''run_id'' = JStr run \<and> run \<noteq> []
         \<longrightarrow> failures_of pid run (hw_main (cold_reconcile_exec env w)) = 1)
    \<and> (supervisor_alive (he_proc env) job \<or> \<not> py_eq (jget job ''run_id'') (jget (snd c) ''run_id'')
         \<longrightarrow> map_of jobs pid = Some job \<longrightarrow> map_of (snd (settle_job env c jobs)) pid = Some job)"
proof -
  let ?cs = "filter (\<lambda>e. orphaned (he_proc env) (snd e)) (hw_jobs w)"
  obtain rs jobs' where run: "settle_jobs env ?cs (hw_jobs w) = (rs, jobs')" by (cases "settle_jobs env ?cs (hw_jobs w)")
  have wf: "wf_dict ?cs" using assms(1) by (simp add: distinct_map_filter)
  have "\<forall>(p, j) \<in> set ?cs. map_of (hw_jobs w) p = Some j \<and> orphaned (he_proc env) j" using assms(1) by auto
  note got = settle_jobs_get [OF run wf this, of pid]
  have jobs: "hw_jobs (cold_reconcile_exec env w) = jobs'" by (simp add: cold_reconcile_exec_def run audit_def)
  have main: "hw_main (cold_reconcile_exec env w) = hw_main (fold (report_lost env) rs (w\<lparr>hw_jobs := jobs'\<rparr>))"
    by (simp add: cold_reconcile_exec_def run audit_def)
  have mem: "(pid, job) \<in> set (hw_jobs w)" using assms(2) by (rule map_of_SomeD)
  have same: "j = job" if "(pid, j) \<in> set (hw_jobs w)" for j using map_of_is_SomeI [OF assms(1) that] assms(2) by simp
  have kept: "map_of jobs' pid = Some job" if "\<not> orphaned (he_proc env) job"
    using got same that assms(2) by (force simp: image_iff)
  have settled: "\<exists>job'. map_of jobs' pid = Some job' \<and> settled_as env job job' \<and> (pid, job', cleaned env job) \<in> set rs"
    if "orphaned (he_proc env) job"
    using got mem that by auto
  have failed: "failures_of pid run (hw_main (cold_reconcile_exec env w)) = 1"
    if hyps: "orphaned (he_proc env) job" "cleaned env job" "jget job ''run_id'' = JStr run" "run \<noteq> []"
  proof -
    obtain job' where "(pid, job', True) \<in> set rs" "jget job' ''run_id'' = JStr run"
      using settled [OF hyps(1)] hyps(2,3) by (auto simp: settled_as_def)
    then show ?thesis
      using fold_report_rows [OF assms(3), of pid run "w\<lparr>hw_jobs := jobs'\<rparr>" rs job'] assms(4) hyps(4) unfolding main by simp
  qed
  have second: "map_of (snd (settle_job env c jobs)) pid = Some job"
    if "supervisor_alive (he_proc env) job \<or> \<not> py_eq (jget job ''run_id'') (jget (snd c) ''run_id'')" "map_of jobs pid = Some job"
  proof -
    obtain res jobs1 where step: "settle_job env c jobs = (res, jobs1)" by (cases "settle_job env c jobs")
    then show ?thesis
    proof (cases rule: settle_job_cases)
      case 1
      then show ?thesis using step that(2) by simp
    next
      case (2 current job' lost)
      then have "pid \<noteq> fst c" using that by (auto simp: orphaned_def)
      then show ?thesis using 2(2) step that(2) by simp
    qed
  qed
  have outcome: "\<exists>job'. map_of jobs' pid = Some job' \<and> jget job' ''run_id'' = jget job ''run_id''
         \<and> (if cleaned env job then jget job' ''state'' = JStr ''lost'' else jget job' ''state'' = jget job ''state'')"
    if "orphaned (he_proc env) job"
    using settled [OF that] unfolding settled_as_def by blast
  show ?thesis unfolding jobs
  proof (intro conjI impI)
    assume "orphaned (he_proc env) job \<and> cleaned env job \<and> jget job ''run_id'' = JStr run \<and> run \<noteq> []"
    then show "failures_of pid run (hw_main (cold_reconcile_exec env w)) = 1" using failed by blast
  qed (fact kept outcome second)+
qed

section \<open>Examples\<close>

definition quiet_env :: hook_env where
  "quiet_env = \<lparr>he_now = 200000, he_close_readable = True, he_main_readable = True, he_rollouts = (\<lambda>_. []), he_task = (\<lambda>_. None),
     he_legacy = [], he_parse = (\<lambda>_. None), he_str = (\<lambda>_. []), he_proc = (\<lambda>pid. if pid = 7 then Some 1 else None),
     he_reaped = (\<lambda>_. True)\<rparr>"

definition agent_payload :: "string \<Rightarrow> jobj" where
  "agent_payload a = [(''agent_id'', JStr a), (''session_id'', JStr ''p1'')]"

definition busy_steps :: "hook_step list" where
  "busy_steps = [Hook quiet_env Subagent_start (agent_payload ''a1''), Torn quiet_env Subagent_stop (agent_payload ''a1''),
     Hook quiet_env Stop [(''session_id'', JStr ''p1'')], Roster_lost,
     Hook quiet_env Subagent_stop (agent_payload ''a1''), Hook quiet_env Subagent_stop (agent_payload ''a1'')]"

lemma busy_run:
  "list_all fair_step busy_steps"
  "0 < closes_of ''a1'' (hw_close (fold apply_hook busy_steps new_hooks))"
  "0 < mains_of (''SubagentStop'', ''a1'') (hw_main (fold apply_hook busy_steps new_hooks))"
  by code_simp+


definition started_item :: jobj where
  "started_item = [(''agent_id'', JStr ''a1''), (''status'', JStr ''running''), (''parent_session_id'', JStr ''p1'')]"

definition started_world :: hook_world where
  "started_world = new_hooks\<lparr>hw_roster := Stored \<lparr>nr_pending = [], nr_agents = [(''a1'', started_item)]\<rparr>\<rparr>"

theorem agents_never_revive_witness:
  "\<exists>r' item'. hw_roster (handle quiet_env Stop [(''session_id'', JStr ''p1'')] started_world) = Stored r'
     \<and> map_of (nr_agents r') ''a1'' = Some item' \<and> rank started_item \<le> rank item'"
  by (rule agents_never_revive [where r = "\<lparr>nr_pending = [], nr_agents = [(''a1'', started_item)]\<rparr>"])
    (simp_all add: started_world_def quiet_env_def doomed_def started_item_def)

definition lost_job :: "json \<Rightarrow> jobj" where
  "lost_job pid = [(''state'', JStr ''running''), (''run_id'', JStr ''r1''), (''os_pid'', JInt 9),
     (''supervisor_pid'', pid), (''supervisor_proc_start_ticks'', JInt 1)]"

definition lost_world :: hook_world where
  "lost_world = new_hooks\<lparr>hw_jobs := [(''k1'', lost_job (JInt 8)), (''k2'', lost_job (JInt 7))]\<rparr>"

lemma lost_state: "orphaned (he_proc quiet_env) (lost_job (JInt 8))" "cleaned quiet_env (lost_job (JInt 8))"
  "\<not> orphaned (he_proc quiet_env) (lost_job (JInt 7))"
  by code_simp+

theorem lost_jobs_are_settled_witness:
  "failures_of ''k1'' ''r1'' (hw_main (cold_reconcile_exec quiet_env lost_world)) = 1
   \<and> map_of (hw_jobs (cold_reconcile_exec quiet_env lost_world)) ''k2'' = Some (lost_job (JInt 7))"
proof -
  have jobs: "wf_dict (hw_jobs lost_world)" "map_of (hw_jobs lost_world) ''k1'' = Some (lost_job (JInt 8))"
      "map_of (hw_jobs lost_world) ''k2'' = Some (lost_job (JInt 7))" "he_main_readable quiet_env"
      "failures_of ''k1'' ''r1'' (hw_main lost_world) \<le> 1" "failures_of ''k2'' ''r1'' (hw_main lost_world) \<le> 1"
    by (simp_all add: lost_world_def new_hooks_def quiet_env_def)
  have run: "jget (lost_job (JInt 8)) ''run_id'' = JStr ''r1''" by (simp add: lost_job_def)
  show ?thesis
    using lost_jobs_are_settled [OF jobs(1,2,4,5)] lost_jobs_are_settled [OF jobs(1,3,4,6)] lost_state run by simp
qed

end
