(* ===== verification/Lifecycle_Composition.thy ===== *)
theory Lifecycle_Composition
  imports Lifecycle_Properties Refill_Consumer_Properties
begin

text \<open>
  The lifecycle hook together with the refill controller and its actuator: what a stopped parent
  leaves behind, and the spawn that never starts.
\<close>

definition registry :: "hook_world \<Rightarrow> parent_registration dict" where
  "registry w = map (\<lambda>(k, row). (k, registration_of row)) (hw_parents w)"

lemma map_of_registry: "map_of (registry w) P = map_option registration_of (map_of (hw_parents w) P)"
  by (simp add: registry_def map_of_map)

lemma inactive_admits_nothing:
  assumes "map_of (hw_parents w) P = Some row" and "jget row ''active'' \<noteq> JBool True"
  shows "\<not> parent_admits (registry w) P entry"
  using assms by (simp add: parent_admits_def map_of_registry registration_of_def)

lemma sync_needs_admission:
  assumes "\<And>entry. \<not> parent_admits registered P entry"
  shows "map_of (wq_parents (queue_sync_ledger registered ledger)) P = None"
proof -
  have "map_of (snd acc) P = None \<Longrightarrow> map_of (snd (fold (\<lambda>entry. count_packet registered (snd entry)) ledger acc)) P = None" for acc
  proof (induction ledger arbitrary: acc)
    case Nil
    then show ?case by simp
  next
    case (Cons e ledger)
    have "map_of (snd (count_packet registered (snd e) acc)) P = None"
      using Cons.prems assms by (auto simp: count_packet_def add_parent_demand_def Let_def split: prod.splits option.splits)
    then show ?case using Cons.IH by simp
  qed
  from this [of "((\<lambda>_. 0), [])"] show ?thesis
    by (auto simp: queue_sync_ledger_def write_queue_def map_of_map split: prod.splits)
qed

lemma interrupted_run_nothing:
  assumes "interrupt_agents env parent agents w = (changed, agents', w')" and "he_close_readable env"
  shows "\<forall>(a, item) \<in> set agents'. \<not> runs_for parent item"
  using assms(1)
proof (induction agents arbitrary: w changed agents' w')
  case Nil
  then show ?case by simp
next
  case (Cons e rest)
  obtain a item where e: "e = (a, item)" by (cases e)
  show ?case
  proof (cases "runs_for parent item")
    case False
    obtain c2 r2 w2 where run: "interrupt_agents env parent rest w = (c2, r2, w2)" by (cases "interrupt_agents env parent rest w")
    show ?thesis using Cons.IH [OF run] Cons.prems e False run by auto
  next
    case True
    let ?item = "dict_update [(''status'', JStr ''interrupted''), (''terminal_reason'', JStr ''parent_stop''),
                 (''stopped_at'', JFloat (he_now env)), (''updated_at'', JFloat (he_now env))] item"
    obtain q item' w1 where queue: "queue_close_locked env ''parent_stop'' ?item w = (q, item', w1)"
      by (cases "queue_close_locked env ''parent_stop'' ?item w")
    obtain c2 r2 w2 where run: "interrupt_agents env parent rest w1 = (c2, r2, w2)" by (cases "interrupt_agents env parent rest w1")
    have "jget item' ''status'' = JStr ''interrupted''" using queue_close_facts(5) [OF queue assms(2), of "''status''"] by simp
    then show ?thesis using Cons.IH [OF run] Cons.prems e True run queue by (auto simp: runs_for_def)
  qed
qed

lemma interrupt_agents_jobs: "interrupt_agents env parent agents w = (changed, agents', w') \<Longrightarrow>
    hw_jobs w' = hw_jobs w \<and> hw_parents w' = hw_parents w"
proof (induction agents arbitrary: w changed agents' w')
  case Nil
  then show ?case by simp
next
  case (Cons e rest)
  have "queue_close_locked env r a w = (q, a', w1) \<Longrightarrow> hw_jobs w1 = hw_jobs w \<and> hw_parents w1 = hw_parents w" for r a q a' w1
    by (auto simp: queue_close_locked_def split: if_splits prod.splits bool.splits)
  with Cons show ?case by (cases e) (fastforce split: if_splits prod.splits)
qed

lemma cancel_jobs_get:
  assumes "wf_dict jobs" and "map_of jobs pid = Some job" and "cancels parent job"
  shows "map_of (cancel_jobs now parent jobs files) pid = Some (cancel_file now parent job)"
proof -
  have "map_of (fold (\<lambda>(pid, item). dict_set pid (cancel_file now parent item)) js files) pid
      = (case map_of (rev js) pid of None \<Rightarrow> map_of files pid | Some job \<Rightarrow> Some (cancel_file now parent job))" for js files
    by (induction js arbitrary: files) (auto simp: map_add_def split: option.splits)
  moreover have "map_of (rev (filter (\<lambda>(pid, item). cancels parent item) jobs)) pid = Some job"
  proof (rule map_of_is_SomeI)
    show "distinct (map fst (rev (filter (\<lambda>(pid, item). cancels parent item) jobs)))"
      using assms(1) by (simp add: rev_map [symmetric] distinct_map_filter)
    show "(pid, job) \<in> set (rev (filter (\<lambda>(pid, item). cancels parent item) jobs))"
      using map_of_SomeD [OF assms(2)] assms(3) by simp
  qed
  ultimately show ?thesis by (simp add: cancel_jobs_def)
qed


text \<open>
  A spawn that never starts holds its slot: its row carries \<open>created_at\<close>, while the controller ages
  pending rows by \<open>queued_at\<close> or \<open>ts\<close> and so never drops it.
\<close>

lemma silent_spawn_never_ages:
  "count_pending now (spawn_item env parent payload) rs
    = count_row (spawn_item env parent payload) (classify_pool (jget (tool_arguments env payload) ''model'')) ''initializing'' rs"
  by (simp add: count_pending_def spawn_item_def timestamp_or_zero_def role_pool_def py_or_def)

section \<open>An example\<close>

definition stop_payload :: jobj where
  "stop_payload = [(''session_id'', JStr ''p1'')]"

definition stop_world :: hook_world where
  "stop_world = new_hooks\<lparr>hw_parents := [(''p1'', [(''active'', JBool True)])],
     hw_jobs := [(''k1'', [(''state'', JStr ''running''), (''parent_session_id'', JStr ''p1''), (''run_id'', JStr ''r1'')])]\<rparr>"

definition stop_ledger :: "packet dict" where
  "stop_ledger = [(''k1'', new_packet\<lparr>p_state := ''DISPATCHABLE'', p_parent_session_id := JStr ''p1''\<rparr>)]"

lemma stop_runs: "fst (parent_stop quiet_env stop_payload stop_world) = True"
  "resolve_identity stop_payload = Inr (None, Some ''p1'')"
  by code_simp+

lemma stop_demand_before: "map_of (wq_parents (queue_sync_ledger (registry stop_world) stop_ledger)) ''p1'' \<noteq> None"
  by code_simp


end
