(* ===== verification/Provider_Health.thy ===== *)
theory Provider_Health
  imports Py_Json
begin

text \<open>
  The health record of a provider route, \<open>src/harness/provider_health.py\<close>: which models are tracked,
  the file a model's record lives in, the classification of a failure from the text of a run, and
  the backoff. Texts are ASCII; the SHA-256 of a model name is an argument.
\<close>

section \<open>Tracked models\<close>

definition is_k3 :: "string \<Rightarrow> bool" where
  "is_k3 model = sublist ''k3'' (py_lower model)"

text \<open>The review pin of the policy file; no file, or no string, gives the empty one.\<close>

definition policy_review_model :: "jobj option \<Rightarrow> string" where
  "policy_review_model policy =
     (case policy of
        None \<Rightarrow> []
      | Some doc \<Rightarrow> (case jget (obj_of (jget doc ''models'')) ''k3_model'' of JStr s \<Rightarrow> py_strip s | _ \<Rightarrow> []))"

definition is_tracked :: "jobj option \<Rightarrow> string \<Rightarrow> bool" where
  "is_tracked policy model =
     (let m = py_strip model in m \<noteq> [] \<and> (is_k3 m \<or> m = policy_review_model policy))"

definition health_path :: "(string \<Rightarrow> string) \<Rightarrow> string \<Rightarrow> string" where
  "health_path sha256 model =
     (if is_k3 model then ''k3.json'' else ''route-'' @ take 16 (sha256 (py_lower model)) @ ''.json'')"

section \<open>Classification of a failure\<close>

definition word_char :: "char \<Rightarrow> bool" where
  "word_char c = (let n = of_char c :: int in
     48 \<le> n \<and> n \<le> 57 \<or> 65 \<le> n \<and> n \<le> 90 \<or> 97 \<le> n \<and> n \<le> 122 \<or> n = 95)"

text \<open>\<open>\b(50[234])\b\<close> at a position, the character before it given.\<close>

definition code_at :: "char \<Rightarrow> string \<Rightarrow> int option" where
  "code_at before s =
     (case s of
        a # b # c # rest \<Rightarrow>
          if a = CHR ''5'' \<and> b = CHR ''0'' \<and> \<not> word_char before \<and> (rest = [] \<or> \<not> word_char (hd rest))
          then (if c = CHR ''2'' then Some 502 else if c = CHR ''3'' then Some 503
                else if c = CHR ''4'' then Some 504 else None)
          else None
      | _ \<Rightarrow> None)"

text \<open>\<open>[^\n]{0,n}\<close> takes as many characters as it can.\<close>

fun code_after :: "nat \<Rightarrow> char \<Rightarrow> string \<Rightarrow> int option" where
  "code_after 0 before s = code_at before s"
| "code_after (Suc n) before [] = None"
| "code_after (Suc n) before (c # cs) =
     (case (if c = CHR 0x0A then None else code_after n c cs) of
        Some k \<Rightarrow> Some k
      | None \<Rightarrow> code_at before (c # cs))"

definition code_after_word :: "string \<Rightarrow> string \<Rightarrow> int option" where
  "code_after_word s word =
     (if prefix word s then code_after 40 (last word) (drop (length word) s) else None)"

fun first_code :: "string list \<Rightarrow> string \<Rightarrow> int option" where
  "first_code [] s = None"
| "first_code (w # ws) s = (case code_after_word s w of Some k \<Rightarrow> Some k | None \<Rightarrow> first_code ws s)"

fun http_5xx :: "string \<Rightarrow> int option" where
  "http_5xx [] = None"
| "http_5xx (c # cs) =
     (case first_code [''status'', ''error'', ''provider error''] (c # cs) of
        Some k \<Rightarrow> Some k
      | None \<Rightarrow> http_5xx cs)"

definition TRANSPORT :: "string list" where
  "TRANSPORT = [''upstream'', ''bad gateway'', ''gateway timeout'', ''service unavailable'',
     ''stream disconnected'', ''socket connection was closed'', ''econnreset'', ''connection reset'',
     ''connection refused'', ''timed out before first'', ''timed out before the first'', ''no first response'']"

definition transport_text :: "string \<Rightarrow> bool" where
  "transport_text s = list_ex (\<lambda>w. sublist w s) TRANSPORT"

record failure_class =
  fc_kind :: string
  fc_transport :: bool
  fc_status :: "int option"
  fc_backoff :: rat

definition classify_failure :: "string \<Rightarrow> string \<Rightarrow> bool \<Rightarrow> failure_class" where
  "classify_failure stderr events timed_out =
     (let s = py_lower (stderr @ [CHR 0x0A] @ events) in
      case http_5xx s of
        Some k \<Rightarrow> \<lparr>fc_kind = ''upstream_5xx'', fc_transport = True, fc_status = Some k, fc_backoff = 300\<rparr>
      | None \<Rightarrow>
          if transport_text s
          then \<lparr>fc_kind = ''transport_error'', fc_transport = True, fc_status = None, fc_backoff = 180\<rparr>
          else if timed_out \<and> py_strip events = []
          then \<lparr>fc_kind = ''provider_stall_no_first_response'', fc_transport = True, fc_status = None, fc_backoff = 300\<rparr>
          else \<lparr>fc_kind = ''local_failure'', fc_transport = False, fc_status = None, fc_backoff = 0\<rparr>)"

section \<open>The record\<close>

definition put :: "jobj \<Rightarrow> jobj \<Rightarrow> jobj" where
  "put kvs d = fold (\<lambda>(k, v). dict_set k v) kvs d"

record health_env =
  hh_policy :: "jobj option"
  hh_sha256 :: "string \<Rightarrow> string"
  hh_windows :: bool

definition update_health ::
  "health_env \<Rightarrow> string \<Rightarrow> rat \<Rightarrow> (jobj \<Rightarrow> jobj) \<Rightarrow> jobj dict \<Rightarrow> jobj dict" where
  "update_health env model now mutate files =
     (if \<not> is_tracked (hh_policy env) model then files
      else let name = health_path (hh_sha256 env) model in
           dict_set name
             (put [(''schema'', JStr ''codex-loop-provider-health/v2''),
                (''provider'', JStr (takeWhile (\<lambda>c. c \<noteq> CHR ''/'') model)), (''model'', JStr model),
                (''logical_pool'', JStr ''k3''), (''plane'', JStr (if hh_windows env then ''windows'' else ''wsl'')),
                (''ts'', JFloat now)] (mutate (dict_get_or [] name files))) files)"

definition record_success :: "health_env \<Rightarrow> string \<Rightarrow> rat \<Rightarrow> string \<Rightarrow> jobj dict \<Rightarrow> jobj dict" where
  "record_success env model now run_id files =
     update_health env model now
       (put [(''status'', JStr ''healthy''), (''backoff_until'', JInt 0), (''last_error_kind'', JNull),
          (''http_status'', JNull), (''last_rc'', JInt 0), (''last_task_outcome'', JStr ''success''),
          (''last_run_id'', JStr run_id)]) files"

definition record_failure ::
  "health_env \<Rightarrow> string \<Rightarrow> rat \<Rightarrow> string \<Rightarrow> int \<Rightarrow> string \<Rightarrow> string \<Rightarrow> bool \<Rightarrow> jobj dict \<Rightarrow> jobj dict" where
  "record_failure env model now run_id rc stderr events timed_out files =
     (let c = classify_failure stderr events timed_out in
      update_health env model now
        (\<lambda>old. let d = put [(''last_task_outcome'', JStr (fc_kind c)), (''last_run_id'', JStr run_id), (''last_rc'', JInt rc)] old in
           if \<not> fc_transport c then d
           else put [(''status'', JStr ''unhealthy''), (''last_error_kind'', JStr (fc_kind c)),
                  (''http_status'', case fc_status c of None \<Rightarrow> JNull | Some k \<Rightarrow> JInt k),
                  (''backoff_until'', JFloat (now + fc_backoff c))] d) files)"

definition backoff_active :: "health_env \<Rightarrow> string \<Rightarrow> rat \<Rightarrow> jobj dict \<Rightarrow> py_error + bool" where
  "backoff_active env model now files =
     (if \<not> is_tracked (hh_policy env) model then Inr False
      else case py_float (py_or (jget (dict_get_or [] (health_path (hh_sha256 env) model) files) ''backoff_until'') (JInt 0)) of
             Inl e \<Rightarrow> Inl e
           | Inr until \<Rightarrow> Inr (now < until))"

section \<open>The backoff follows the last verdict\<close>

datatype run_outcome = Success | Failure int string string bool

record run_report =
  rr_model :: string
  rr_time :: rat
  rr_run :: string
  rr_outcome :: run_outcome

definition report_run :: "health_env \<Rightarrow> run_report \<Rightarrow> jobj dict \<Rightarrow> jobj dict" where
  "report_run env r files =
     (case rr_outcome r of
        Success \<Rightarrow> record_success env (rr_model r) (rr_time r) (rr_run r) files
      | Failure rc stderr events timed_out \<Rightarrow>
          record_failure env (rr_model r) (rr_time r) (rr_run r) rc stderr events timed_out files)"

text \<open>
  What the record of a model promises: the end of the backoff set by the last report about its
  file that was a success or a transport failure. Local failures say nothing about the provider.
\<close>

definition verdict :: "run_report \<Rightarrow> rat option" where
  "verdict r =
     (case rr_outcome r of
        Success \<Rightarrow> Some 0
      | Failure rc stderr events timed_out \<Rightarrow>
          (let c = classify_failure stderr events timed_out in
           if fc_transport c then Some (rr_time r + fc_backoff c) else None))"

fun last_verdict :: "(run_report \<Rightarrow> bool) \<Rightarrow> run_report list \<Rightarrow> rat" where
  "last_verdict about [] = 0"
| "last_verdict about (r # earlier) =
     (case (if about r then verdict r else None) of Some until \<Rightarrow> until | None \<Rightarrow> last_verdict about earlier)"

definition about_file :: "health_env \<Rightarrow> string \<Rightarrow> run_report \<Rightarrow> bool" where
  "about_file env model r \<longleftrightarrow> is_tracked (hh_policy env) (rr_model r)
     \<and> health_path (hh_sha256 env) (rr_model r) = health_path (hh_sha256 env) model"

lemma jget_put_other: "k \<notin> fst ` set kvs \<Longrightarrow> jget (put kvs d) k = jget d k"
proof (induction kvs arbitrary: d)
  case Nil
  then show ?case by (simp add: put_def)
next
  case (Cons e kvs)
  then show ?case by (cases e) (simp add: put_def jget_def)
qed

lemma jget_put_Cons: "jget (put ((k, v) # kvs) d) k' = jget (put kvs (dict_set k v d)) k'"
  by (simp add: put_def)

definition stored_until :: "health_env \<Rightarrow> string \<Rightarrow> jobj dict \<Rightarrow> py_error + rat" where
  "stored_until env model files =
     py_float (py_or (jget (dict_get_or [] (health_path (hh_sha256 env) model) files) ''backoff_until'') (JInt 0))"

lemma update_until:
  "stored_until env model (update_health env m now mutate files) =
     (if is_tracked (hh_policy env) m \<and> health_path (hh_sha256 env) m = health_path (hh_sha256 env) model
      then py_float (py_or (jget (mutate (dict_get_or [] (health_path (hh_sha256 env) model) files)) ''backoff_until'') (JInt 0))
      else stored_until env model files)"
  by (auto simp: stored_until_def update_health_def Let_def jget_put_other)

lemma until_value: "py_float (py_or (JFloat x) (JInt 0)) = Inr x" "py_float (py_or (JInt 0) (JInt 0)) = Inr 0"
  by (simp_all add: py_or_def)

lemma report_until:
  assumes "stored_until env model files = Inr u"
  shows "stored_until env model (report_run env r files) =
    Inr (case (if about_file env model r then verdict r else None) of Some until \<Rightarrow> until | None \<Rightarrow> u)"
proof (cases "rr_outcome r")
  case Success
  then show ?thesis using assms
    by (simp add: report_run_def record_success_def update_until about_file_def verdict_def jget_put_Cons jget_put_other
        jget_def [of "dict_set _ _ _"] until_value split: if_splits)
next
  case (Failure rc stderr events timed_out)
  let ?c = "classify_failure stderr events timed_out"
  have keep: "jget (put [(''last_task_outcome'', JStr (fc_kind ?c)), (''last_run_id'', JStr (rr_run r)), (''last_rc'', JInt rc)] old)
      ''backoff_until'' = jget old ''backoff_until''" for old
    by (simp add: jget_put_other)
  have set: "jget (put [(''status'', JStr ''unhealthy''), (''last_error_kind'', JStr (fc_kind ?c)), (''http_status'', h),
      (''backoff_until'', v)] old) ''backoff_until'' = v" for h v old
    by (simp add: put_def jget_def)
  note old = assms [unfolded stored_until_def]
  show ?thesis
    by (cases "fc_transport ?c")
      (simp_all add: Failure report_run_def record_failure_def update_until about_file_def verdict_def Let_def keep set
        until_value assms old)
qed

lemma reports_until:
  "stored_until env model (fold (report_run env) rs []) = Inr (last_verdict (about_file env model) (rev rs))"
proof (induction rs rule: rev_induct)
  case Nil
  then show ?case by (simp add: stored_until_def py_or_def py_simps)
next
  case (snoc r rs)
  from report_until [OF snoc.IH, of r] show ?case by (simp split: option.split)
qed

text \<open>After any reports about any models, the backoff of a tracked model is active exactly until the
  end set by the last success or transport failure recorded in its file; a local failure, a report
  about an untracked model and reports about other files change nothing.\<close>

theorem backoff_follows_last_verdict:
  assumes "is_tracked (hh_policy env) model"
  shows "backoff_active env model now (fold (report_run env) rs [])
    = Inr (now < last_verdict (about_file env model) (rev rs))"
  using reports_until [of env model rs] assms by (simp add: backoff_active_def stored_until_def)

definition health_demo :: health_env where
  "health_demo = \<lparr>hh_policy = None, hh_sha256 = (\<lambda>s. s), hh_windows = False\<rparr>"

definition demo_report :: "rat \<Rightarrow> run_outcome \<Rightarrow> run_report" where
  "demo_report t x = \<lparr>rr_model = ''k3'', rr_time = t, rr_run = ''r'', rr_outcome = x\<rparr>"

definition demo_reports :: "run_report list" where
  "demo_reports = [demo_report 0 Success, demo_report 10 (Failure 1 ''ECONNRESET'' [] False), demo_report 20 (Failure 1 ''no such file'' [] False)]"

lemma demo_facts: "is_tracked None ''k3''" "fc_transport (classify_failure ''ECONNRESET'' [] False)"
  "fc_backoff (classify_failure ''ECONNRESET'' [] False) = 180" "\<not> fc_transport (classify_failure ''no such file'' [] False)"
  "http_5xx ''error 502'' = Some 502" "http_5xx ''error 5020'' = None"
  by code_simp+

theorem backoff_follows_last_verdict_witness:
  "backoff_active health_demo ''k3'' 100 (fold (report_run health_demo) demo_reports []) = Inr True
   \<and> backoff_active health_demo ''k3'' 190 (fold (report_run health_demo) demo_reports []) = Inr False"
proof -
  have tracked: "is_tracked (hh_policy health_demo) ''k3''" by (simp add: health_demo_def demo_facts)
  have "about_file health_demo ''k3'' (demo_report t x)" for t x
    using tracked by (simp add: about_file_def demo_report_def)
  moreover have "verdict (demo_report 20 (Failure 1 ''no such file'' [] False)) = None"
      "verdict (demo_report 10 (Failure 1 ''ECONNRESET'' [] False)) = Some 190"
    by (simp_all add: verdict_def demo_report_def demo_facts)
  ultimately have "last_verdict (about_file health_demo ''k3'') (rev demo_reports) = 190"
    by (simp add: demo_reports_def)
  then show ?thesis
    unfolding backoff_follows_last_verdict [OF tracked] by simp
qed

end
