(* ===== verification/Dispatch.thy ===== *)
theory Dispatch
  imports Router Budget Governor Refill Provider_Health
begin

text \<open>
  The dispatcher, \<open>src/harness/dispatch_v2.py\<close>: the pins of a role, the ipybox policy, the block on
  Sol-bound work, the decision for a packet and the spawn with its reservation. It composes the
  router, the budget controller, the governor, the health record of the provider and the refill
  queue. The physical dispatcher (\<open>dispatch.py\<close>), the packet and agent files and the run ids are
  arguments; the text of the prompt is not modelled.
\<close>

section \<open>Environment and state\<close>

datatype plane = Wsl_headless | Desktop_native

datatype agent_file = No_toml | Bad_toml | Toml jobj

record birth =
  bi_packet :: string
  bi_role :: string
  bi_model :: string
  bi_effort :: string
  bi_overrides :: "string list"
  bi_sandbox :: string
  bi_ipybox :: bool
  bi_run :: string
  bi_capture :: bool
  bi_parent :: json
  bi_cwd :: json

text \<open>What the physical dispatcher does with a request: a run id, none, a throttle, or an error.\<close>

datatype birth_result = Born string | Throttled | Spawn_error

text \<open>\<open>de_agents\<close> gives the first agent file of a role that exists, \<open>de_uuid\<close> the hexadecimal part of a run id.\<close>

record dispatch_env =
  de_policy :: jobj
  de_guards :: guard_env
  de_agents :: "string \<Rightarrow> agent_file"
  de_packets :: "string \<Rightarrow> json option"
  de_plane :: plane
  de_health :: health_env
  de_now :: rat
  de_meter :: disk_file
  de_stale_after :: rat
  de_budget_config :: budget_config
  de_history :: json
  de_uuid :: "nat \<Rightarrow> string"
  de_birth :: "birth \<Rightarrow> birth_result"
  de_role_map_ok :: bool
  de_str :: "json \<Rightarrow> string"

record dispatch_world =
  dp_router :: router_state
  dp_budget :: budget_doc
  dp_governor :: governor_world
  dp_health :: "jobj dict"
  dp_queue :: work_queue
  dp_events :: "(string \<times> string \<times> string) list"
  dp_debt :: "(string \<times> string option \<times> route) list"
  dp_roles :: "(string \<times> string \<times> string) dict"
  dp_births :: "birth list"
  dp_uuids :: nat

datatype dispatch_error = Refused string | Policy_refused policy_error | Crashed py_error | Unbound_name

text \<open>The exceptions the dispatch loop catches; the others end it.\<close>

fun caught :: "dispatch_error \<Rightarrow> bool" where
  "caught (Refused why) = True"
| "caught (Policy_refused e) = True"
| "caught _ = False"

definition emit :: "string \<Rightarrow> string \<Rightarrow> string \<Rightarrow> dispatch_world \<Rightarrow> dispatch_world" where
  "emit pid event why w = w\<lparr>dp_events := dp_events w @ [(pid, event, why)]\<rparr>"

section \<open>Pins\<close>

definition ROLE_FAMILY :: "(string \<times> string) list" where
  "ROLE_FAMILY = [(''worker'', ''v4''), (''scout'', ''v4''), (''duty_officer'', ''v4''), (''verifier'', ''k3''),
     (''reviewer'', ''k3''), (''plan_expander'', ''k3''), (''sol'', ''sol'')]"

record role_pin =
  pn_role :: string
  pn_family :: string
  pn_model :: string
  pn_effort :: string
  pn_sandbox :: string
  pn_context :: json
  pn_compaction :: json

definition opt_int :: "int option \<Rightarrow> json" where
  "opt_int v = (case v of None \<Rightarrow> JNull | Some n \<Rightarrow> JInt n)"

definition text_of_json :: "dispatch_env \<Rightarrow> json \<Rightarrow> string" where
  "text_of_json env v = (case v of JStr s \<Rightarrow> s | JInt n \<Rightarrow> show_int n | _ \<Rightarrow> de_str env v)"

text \<open>The model of the agent file must agree with the policy pin of the role's family.\<close>

definition resolve_role_pin :: "dispatch_env \<Rightarrow> string \<Rightarrow> policy_error + role_pin" where
  "resolve_role_pin env role =
     (case map_of ROLE_FAMILY role of
        None \<Rightarrow> Inl ModelPinError
      | Some family \<Rightarrow>
          (case model_pin (de_policy env) family of
             Inl e \<Rightarrow> Inl e
           | Inr pin \<Rightarrow>
               (if de_agents env role = Bad_toml then Inl ModelPinError
                else
                  let toml = (case de_agents env role of Toml d \<Rightarrow> d | _ \<Rightarrow> []);
                      effort = py_or (jget toml ''model_reasoning_effort'')
                        (case model_reasoning (de_policy env) family of None \<Rightarrow> JNull | Some s \<Rightarrow> JStr s) in
                  if jget toml ''model'' \<noteq> JNull \<and> \<not> py_eq (jget toml ''model'') (JStr pin) then Inl ModelPinError
                  else if \<not> truthy effort then Inl ModelPinError
                  else Inr \<lparr>pn_role = role, pn_family = family, pn_model = pin, pn_effort = text_of_json env effort,
                    pn_sandbox = text_of_json env (jget_or (JStr (if family = ''k3'' then ''read-only'' else ''workspace-write''))
                      toml ''sandbox_mode''),
                    pn_context = py_or (jget toml ''model_context_window'')
                      (opt_int (model_context (de_policy env) family ''context_window'')),
                    pn_compaction = py_or (jget toml ''model_auto_compact_token_limit'')
                      (opt_int (model_context (de_policy env) family ''compaction''))\<rparr>)))"

definition cli_overrides :: "dispatch_env \<Rightarrow> role_pin \<Rightarrow> string list" where
  "cli_overrides env pin =
     [''-m'', pn_model pin, ''-c'', ''model_reasoning_effort='' @ pn_effort pin]
     @ (if truthy (pn_context pin) then [''-c'', ''model_context_window='' @ text_of_json env (pn_context pin)] else [])
     @ (if truthy (pn_compaction pin)
        then [''-c'', ''model_auto_compact_token_limit='' @ text_of_json env (pn_compaction pin)] else [])"

definition ipybox_enabled_for :: "dispatch_env \<Rightarrow> string \<Rightarrow> jobj \<Rightarrow> bool" where
  "ipybox_enabled_for env role packet =
     (let flag = (\<lambda>key dflt. truthy (policy_value (de_policy env) ''ipybox'' key (JBool dflt))) in
      if de_plane env = Desktop_native then flag ''desktop_native_enabled'' False
      else if role \<in> set K3_ROLES
      then flag ''k3_planning_verifying_enabled'' False
        \<or> (truthy (jget packet ''needs_code_execution'') \<and> flag ''k3_code_execution_exception'' True)
      else if role \<noteq> ''worker'' then False
      else flag ''wsl_headless_worker_enabled'' True)"

section \<open>The block on Sol-bound work\<close>

datatype block = Task_break | Meter_closed string | Share_high | Task_state budget_state

definition lease_turns :: "json option \<Rightarrow> py_error + int" where
  "lease_turns content =
     (case content of
        None \<Rightarrow> Inr 0
      | Some v \<Rightarrow>
          if \<not> truthy v then Inr 0
          else (case v of JObj d \<Rightarrow> py_int (jget_or (JInt 0) d ''turns_used'') | _ \<Rightarrow> Inl AttributeError))"

definition planning_exempt :: "dispatch_env \<Rightarrow> governor_world \<Rightarrow> string \<Rightarrow> bool \<Rightarrow> py_error + bool" where
  "planning_exempt env g state trusted =
     (if \<not> trusted \<or> state \<notin> {''planning'', ''adjudication'', ''release_finalize''} then Inr False
      else if state \<noteq> ''planning'' then Inr True
      else (case (lease_turns (gw_lease g), planning_max_turns (de_policy env)) of
              (Inl e, _) \<Rightarrow> Inl e
            | (Inr n, Inl e) \<Rightarrow> Inl e
            | (Inr turns, Inr limit) \<Rightarrow> Inr (\<not> limit \<le> turns)))"

definition sol_budget_block ::
  "dispatch_env \<Rightarrow> role_pin \<Rightarrow> route \<Rightarrow> budget_doc \<Rightarrow> governor_world \<Rightarrow> (py_error + block option) \<times> governor_world" where
  "sol_budget_block env pin route doc g =
     (case loop_state g of
        (Inl e, g1) \<Rightarrow> (Inl e, g1)
      | (Inr (state, trusted), g1) \<Rightarrow>
          if \<not> (pn_family pin = ''sol'' \<or> route = SOL_ADJUDICATE_R)
          then (Inr (if b_state doc = BREAK then Some Task_break else None), g1)
          else (case planning_exempt env g1 state trusted of
                  Inl e \<Rightarrow> (Inl e, g1)
                | Inr True \<Rightarrow> (Inr None, g1)
                | Inr False \<Rightarrow>
                    (let status = snd (meter_status (de_now env) (de_stale_after env) (de_meter env)) in
                     (Inr (if status \<in> {''STALE'', ''MISSING'', ''MALFORMED''} then Some (Meter_closed status)
                           else if hs_band (gw_hysteresis g1) = ''HIGH'' then Some Share_high
                           else if b_state doc \<in> {DEGRADE, BREAK} then Some (Task_state (b_state doc))
                           else None), g1))))"

section \<open>The decision\<close>

definition load_packet :: "dispatch_env \<Rightarrow> string \<Rightarrow> dispatch_error + jobj" where
  "load_packet env pid =
     (if \<not> valid_pid pid then Inl (Refused ''packet_id_invalid'')
      else case de_packets env pid of
        Some (JObj packet) \<Rightarrow>
          if list_all (\<lambda>k. dict_has k packet) [''packet_id'', ''goal'', ''authorized_paths'', ''acceptance'']
          then Inr packet else Inl (Refused ''packet_invalid'')
      | _ \<Rightarrow> Inl (Refused ''packet_missing''))"

fun role_for_route :: "route \<Rightarrow> string option" where
  "role_for_route V4_DIRECT = Some ''worker''"
| "role_for_route K3_EXPAND = Some ''plan_expander''"
| "role_for_route K3_VERIFY = Some ''verifier''"
| "role_for_route K3_RANK = Some ''verifier''"
| "role_for_route _ = None"

definition K3_ROUTES :: "route list" where
  "K3_ROUTES = [K3_VERIFY, K3_EXPAND, K3_RANK]"

definition k3_available :: "dispatch_env \<Rightarrow> dispatch_world \<Rightarrow> dispatch_error + bool" where
  "k3_available env w =
     (case resolve_role_pin env ''verifier'' of
        Inl e \<Rightarrow> Inl (Policy_refused e)
      | Inr pin \<Rightarrow>
          (case backoff_active (de_health env) (pn_model pin) (de_now env) (dp_health w) of
             Inl e \<Rightarrow> Inl (Crashed e)
           | Inr blocked \<Rightarrow> Inr (\<not> blocked)))"

text \<open>The debt of a K3 packet is written down before the refusal.\<close>

definition require_k3 ::
  "dispatch_env \<Rightarrow> string \<Rightarrow> string option \<Rightarrow> route \<Rightarrow> dispatch_world \<Rightarrow> (dispatch_error + unit) \<times> dispatch_world" where
  "require_k3 env pid role route w =
     (if route \<notin> set K3_ROUTES then (Inr (), w)
      else case k3_available env w of
        Inl e \<Rightarrow> (Inl e, w)
      | Inr True \<Rightarrow> (Inr (), w)
      | Inr False \<Rightarrow> (Inl (Refused ''k3_unavailable''), w\<lparr>dp_debt := dp_debt w @ [(pid, role, route)]\<rparr>))"

definition explicit_route :: "string \<Rightarrow> route \<Rightarrow> route" where
  "explicit_route role route =
     (if role = ''worker'' then V4_DIRECT
      else if role = ''verifier'' \<or> role = ''reviewer'' then K3_VERIFY
      else if role = ''plan_expander'' then K3_EXPAND else route)"

definition decide ::
  "dispatch_env \<Rightarrow> string \<Rightarrow> string option \<Rightarrow> string \<Rightarrow> dispatch_world
    \<Rightarrow> (dispatch_error + (string \<times> route \<times> route_reason)) \<times> dispatch_world" where
  "decide env pid requested action w =
     (case load_packet env pid of
        Inl e \<Rightarrow> (Inl e, w)
      | Inr packet \<Rightarrow>
          (case route_action (de_guards env) (de_policy env) pid action [] []
              [(''class'', jget_or (JStr []) packet ''class''), (''risk_tags'', jget_or (JList []) packet ''risk_tags'')]
              (truthy (jget packet ''high_risk'')) (dp_router w) of
             Inl e \<Rightarrow> (Inl (Crashed e), w)
           | Inr (d, st) \<Rightarrow>
               (let w1 = w\<lparr>dp_router := st\<rparr>; route = rd_route d in
                case requested of
                  Some role \<Rightarrow> (Inr (role, explicit_route role route, rd_reason d), w1)
                | None \<Rightarrow>
                    (case require_k3 env pid (role_for_route route) route w1 of
                       (Inl e, w2) \<Rightarrow> (Inl e, w2)
                     | (Inr _, w2) \<Rightarrow>
                         (Inr (case role_for_route route of None \<Rightarrow> ''worker'' | Some role \<Rightarrow> role, route, rd_reason d), w2)))))"

section \<open>The spawn\<close>

definition packet_attempt :: "governor_world \<Rightarrow> string \<Rightarrow> py_error + int" where
  "packet_attempt g pid =
     (case (if truthy (doc_of (gw_ledger g)) then doc_of (gw_ledger g) else JObj []) of
        JObj led \<Rightarrow>
          (case jget_or (JObj []) led ''packets'' of
             JObj ps \<Rightarrow>
               (case jget_or (JObj []) ps pid of
                  JObj p \<Rightarrow> Inr (right_or 0 (py_int (py_or (jget p ''attempts'') (JInt 0))))
                | _ \<Rightarrow> Inl AttributeError)
           | _ \<Rightarrow> Inl AttributeError)
      | _ \<Rightarrow> Inl AttributeError)"

definition run_id_for :: "dispatch_env \<Rightarrow> string \<Rightarrow> int \<Rightarrow> nat \<Rightarrow> string" where
  "run_id_for env pid attempt n = pid @ ''-a'' @ show_int attempt @ ''-'' @ de_uuid env n"

text \<open>Packets of a parent manifest run read-only, whatever the role's sandbox.\<close>

definition effective_sandbox :: "jobj \<Rightarrow> role_pin \<Rightarrow> dispatch_error + string" where
  "effective_sandbox packet pin =
     (if truthy (jget packet ''parent_enabled'')
      then (if jget packet ''sandbox'' = JStr ''read-only'' then Inr ''read-only''
            else Inl (Refused ''parent_sandbox_invalid''))
      else Inr (pn_sandbox pin))"

definition birth_request :: "dispatch_env \<Rightarrow> string \<Rightarrow> string \<Rightarrow> role_pin \<Rightarrow> string \<Rightarrow> jobj \<Rightarrow> string \<Rightarrow> birth" where
  "birth_request env pid role pin sandbox packet run_id =
     \<lparr>bi_packet = pid, bi_role = role, bi_model = pn_model pin, bi_effort = pn_effort pin,
      bi_overrides = cli_overrides env pin, bi_sandbox = sandbox,
      bi_ipybox = ipybox_enabled_for env role packet, bi_run = run_id,
      bi_capture = (role \<in> set K3_ROLES \<or> truthy (jget packet ''parent_enabled'')),
      bi_parent = (if truthy (jget packet ''parent_session_id'') then JStr (text_of_json env (jget packet ''parent_session_id''))
         else JNull),
      bi_cwd = (if truthy (jget packet ''parent_enabled'') \<and> truthy (jget packet ''cwd'')
         then JStr (text_of_json env (jget packet ''cwd'')) else JNull)\<rparr>"

definition release :: "dispatch_env \<Rightarrow> string \<Rightarrow> dispatch_world \<Rightarrow> dispatch_world" where
  "release env run_id w = w\<lparr>dp_budget := snd (reclaim (de_budget_config env) (de_now env) run_id (dp_budget w))\<rparr>"

text \<open>
  The reservation, the birth and what follows it. A reservation that the budget refuses raises while
  the local name of the physical dispatcher is not bound yet, and the handler that names it raises in
  turn.
\<close>

definition give_birth ::
  "dispatch_env \<Rightarrow> birth \<Rightarrow> string \<Rightarrow> dispatch_world \<Rightarrow> (dispatch_error + int) \<times> dispatch_world" where
  "give_birth env b family w =
     (case register_agent (de_budget_config env) (de_history env) (bi_run b) (bi_role b) (dp_budget w) of
        (Inl e, doc) \<Rightarrow> (Inl Unbound_name, w\<lparr>dp_budget := doc\<rparr>)
      | (Inr granted, doc) \<Rightarrow>
          (let w1 = w\<lparr>dp_budget := doc\<rparr> in
           case de_birth env b of
             Throttled \<Rightarrow> (Inl (Refused ''spawn_throttled''), release env (bi_run b) w1)
           | Spawn_error \<Rightarrow>
               (Inl (Refused ''spawn_failed''), emit (bi_packet b) ''exec_failed'' ''spawn_failed'' (release env (bi_run b) w1))
           | Born run \<Rightarrow>
               if run = [] then (Inl (Refused ''spawn_failed''), release env (bi_run b) w1)
               else
                 let w2 = w1\<lparr>dp_births := dp_births w1 @ [b]\<rparr>;
                     w3 = (if de_role_map_ok env
                           then w2\<lparr>dp_roles := dict_set run (bi_role b, bi_model b, bi_packet b) (dp_roles w2)\<rparr>
                           else emit (bi_packet b) ''post_spawn_accounting_degraded'' ''run_role_map'' w2) in
                 (Inr 0, if family = ''k3'' then w3\<lparr>dp_queue := queue_add 1 K3 (dp_queue w3)\<rparr> else w3)))"

definition block_text :: "block \<Rightarrow> string" where
  "block_text b = (case b of Task_break \<Rightarrow> ''task budget BREAK'' | Meter_closed s \<Rightarrow> ''meter '' @ s
     | Share_high \<Rightarrow> ''HIGH band'' | Task_state s \<Rightarrow> ''task budget state'')"

definition spawn ::
  "dispatch_env \<Rightarrow> string \<Rightarrow> string \<Rightarrow> route \<Rightarrow> bool \<Rightarrow> dispatch_world \<Rightarrow> (dispatch_error + int) \<times> dispatch_world" where
  "spawn env pid role route dry_run w =
     (case load_packet env pid of
        Inl e \<Rightarrow> (Inl e, w)
      | Inr packet \<Rightarrow>
          (case (if dry_run then (Inr (), w) else require_k3 env pid (Some role) route w) of
             (Inl e, w1) \<Rightarrow> (Inl e, w1)
           | (Inr _, w1) \<Rightarrow>
               (case resolve_role_pin env role of
                  Inl e \<Rightarrow> (Inl (Policy_refused e), w1)
                | Inr pin \<Rightarrow>
                    (case effective_sandbox packet pin of
                       Inl e \<Rightarrow> (Inl e, w1)
                     | Inr sandbox \<Rightarrow>
                         (case sol_budget_block env pin route (dp_budget w1) (dp_governor w1) of
                            (Inl e, g) \<Rightarrow> (Inl (Crashed e), w1\<lparr>dp_governor := g\<rparr>)
                          | (Inr (Some b), g) \<Rightarrow>
                              (Inl (Refused (block_text b)), emit pid ''sol_budget_blocked'' (block_text b) (w1\<lparr>dp_governor := g\<rparr>))
                          | (Inr None, g) \<Rightarrow>
                              (case packet_attempt g pid of
                                 Inl e \<Rightarrow> (Inl (Crashed e), w1\<lparr>dp_governor := g\<rparr>)
                               | Inr attempt \<Rightarrow>
                                   (let w2 = w1\<lparr>dp_governor := g, dp_uuids := Suc (dp_uuids w1)\<rparr>;
                                        b = birth_request env pid role pin sandbox packet
                                              (run_id_for env pid attempt (dp_uuids w1)) in
                                    if dry_run then (Inr 0, emit pid ''dispatch_dry_run'' (bi_run b) w2)
                                    else give_birth env b (pn_family pin) w2)))))))"

definition refuse :: "string \<Rightarrow> dispatch_error \<Rightarrow> dispatch_world \<Rightarrow> (dispatch_error + int) \<times> dispatch_world" where
  "refuse pid e w =
     (if caught e then (Inr 3, emit pid ''dispatch_refused'' (case e of Refused why \<Rightarrow> why | _ \<Rightarrow> ''policy'') w)
      else (Inl e, w))"

definition dispatch_one ::
  "dispatch_env \<Rightarrow> string option \<Rightarrow> bool \<Rightarrow> string \<Rightarrow> string \<Rightarrow> dispatch_world \<Rightarrow> (dispatch_error + int) \<times> dispatch_world" where
  "dispatch_one env requested dry_run action pid w =
     (case decide env pid requested action w of
        (Inl e, w1) \<Rightarrow> refuse pid e w1
      | (Inr (role, route, reason), w1) \<Rightarrow>
          if route = MERGE_QUEUE then (Inr 0, emit pid ''merge_queue_enqueued'' [] w1)
          else if route = L4_HUMAN then (Inr 0, emit pid ''l4_queued'' [] w1)
          else if role = ''sol'' \<or> route = SOL_ADJUDICATE_R then (Inr 0, emit pid ''sol_adjudication_requested'' [] w1)
          else (case spawn env pid role route dry_run w1 of
                  (Inl e, w2) \<Rightarrow> refuse pid e w2
                | (Inr rc, w2) \<Rightarrow> (Inr rc, w2)))"

fun dispatch ::
  "dispatch_env \<Rightarrow> string option \<Rightarrow> bool \<Rightarrow> string \<Rightarrow> string list \<Rightarrow> int \<Rightarrow> dispatch_world
    \<Rightarrow> (dispatch_error + int) \<times> dispatch_world" where
  "dispatch env requested dry_run action [] rc w = (Inr rc, w)"
| "dispatch env requested dry_run action (pid # pids) rc w =
     (case dispatch_one env requested dry_run action pid w of
        (Inl e, w1) \<Rightarrow> (Inl e, w1)
      | (Inr n, w1) \<Rightarrow> dispatch env requested dry_run action pids (max rc n) w1)"

end
