(* ===== verification/Dispatch_Properties.thy ===== *)
theory Dispatch_Properties
  imports Dispatch Budget_Properties
begin

text \<open>
  The dispatcher: every token it reserves belongs to a child that was born, and every child runs
  under the pins of its role, with the sandbox of its packet, while its provider is available.
\<close>

declare map_of_eq_Some_iff [simp del]

section \<open>Reservations\<close>

definition total_tokens :: "budget_doc \<Rightarrow> int" where
  "total_tokens doc = dict_sum (allocated doc) + pool_returned doc"

definition role_key :: "string \<Rightarrow> bool" where
  "role_key k \<longleftrightarrow> prefix ''role:'' k"

lemma role_key_pref [simp]: "role_key (''role:'' @ role)"
  by (simp add: role_key_def)

lemmas role_key_cons [simp] = role_key_pref [simplified]

text \<open>What one registration does for an id that is not in the document.\<close>

lemma register_fresh:
  assumes "register_agent cfg history agent role doc = (Inr granted, doc')" and "sane_history history"
    and "wf_dict (allocated doc)" and "map_of (allocated doc) agent = None" and "map_of (consumed doc) agent = None"
    and "\<not> role_key agent"
  shows "total_tokens doc' = total_tokens doc" and "wf_dict (allocated doc')"
    and "map_of (allocated doc') agent = Some granted"
    and "k \<noteq> agent \<Longrightarrow> \<not> role_key k \<Longrightarrow> map_of (allocated doc') k = map_of (allocated doc) k"
    and "dict_get_or 0 agent (consumed doc') = 0"
    and "k \<noteq> agent \<Longrightarrow> map_of (consumed doc') k = map_of (consumed doc) k"
    and "0 \<le> granted"
proof -
  obtain want where want: "wanted (headroom cfg) history role = Inr want"
    using assms(1) by (cases "wanted (headroom cfg) history role") (auto simp: register_agent_def)
  let ?r = "''role:'' @ role"
  let ?pool = "dict_get_or 0 ?r (allocated doc)"
  let ?grant = "if 0 < ?pool + pool_returned doc then min want (?pool + pool_returned doc) else want"
  have doc': "granted = ?grant" "doc' = doc\<lparr>allocated := dict_set agent ?grant (dict_set ?r (?pool - min ?grant ?pool) (allocated doc)),
      pool_returned := pool_returned doc - (?grant - min ?grant ?pool), consumed := dict_setdefault agent 0 (consumed doc)\<rparr>"
    using assms(1,4) want by (auto simp: register_agent_def Let_def split: if_splits)
  have ne: "agent \<noteq> ?r" using assms(6) by auto
  have zero: "dict_get_or 0 agent (allocated doc) = 0" using assms(4) by (simp add: dict_get_or_def)
  show "total_tokens doc' = total_tokens doc"
    using ne zero by (simp add: total_tokens_def doc'(2) dict_sum_set)
  show "wf_dict (allocated doc')" using assms(3) by (simp add: doc'(2))
  show "map_of (allocated doc') agent = Some granted" by (simp add: doc')
  show "k \<noteq> agent \<Longrightarrow> \<not> role_key k \<Longrightarrow> map_of (allocated doc') k = map_of (allocated doc) k"
    by (auto simp: doc'(2))
  show "dict_get_or 0 agent (consumed doc') = 0" using assms(5) by (simp add: doc'(2) dict_get_or_def)
  show "k \<noteq> agent \<Longrightarrow> map_of (consumed doc') k = map_of (consumed doc) k" by (simp add: doc'(2))
  show "0 \<le> granted" using wanted_nonneg [OF assms(2) want] by (simp add: doc'(1))
qed

lemma register_refused: "register_agent cfg history agent role doc = (Inl e, doc') \<Longrightarrow> doc' = doc"
  by (auto simp: register_agent_def Let_def split: sum.splits option.splits if_splits)

text \<open>Releasing an id without use gives everything back.\<close>

lemma reclaim_unused:
  assumes "wf_dict (allocated doc)" and "map_of (allocated doc) agent = Some granted" and "0 \<le> granted"
    and "dict_get_or 0 agent (consumed doc) = 0"
  shows "total_tokens (snd (reclaim cfg now agent doc)) = total_tokens doc"
    and "wf_dict (allocated (snd (reclaim cfg now agent doc)))"
    and "map_of (allocated (snd (reclaim cfg now agent doc))) k = (if k = agent then None else map_of (allocated doc) k)"
    and "consumed (snd (reclaim cfg now agent doc)) = consumed doc"
proof -
  have g: "dict_get_or 0 agent (allocated doc) = granted" using assms(2) by (simp add: dict_get_or_def)
  show "total_tokens (snd (reclaim cfg now agent doc)) = total_tokens doc"
    using assms(3,4) g dict_sum_del [OF assms(1), of agent]
    by (simp add: reclaim_def Let_def total_tokens_def recompute_keeps)
  show "wf_dict (allocated (snd (reclaim cfg now agent doc)))"
    using assms(1) by (simp add: reclaim_def Let_def recompute_keeps)
  show "map_of (allocated (snd (reclaim cfg now agent doc))) k = (if k = agent then None else map_of (allocated doc) k)"
    by (simp add: reclaim_def Let_def recompute_keeps)
  show "consumed (snd (reclaim cfg now agent doc)) = consumed doc"
    by (simp add: reclaim_def Let_def recompute_keeps)
qed

lemma run_id_no_role: "valid_pid pid \<Longrightarrow> \<not> role_key (run_id_for env pid attempt n)"
proof
  assume "valid_pid pid" and "role_key (run_id_for env pid attempt n)"
  then obtain rest where eq: "pid @ ''-a'' @ show_int attempt @ ''-'' @ de_uuid env n = ''role:'' @ rest"
    by (auto simp: role_key_def run_id_for_def prefix_def)
  have at: "(pid @ ''-a'' @ show_int attempt @ ''-'' @ de_uuid env n) ! i = ''role:'' ! i" if "i < 5" for i
  proof -
    have "(''role:'' @ rest) ! i = ''role:'' ! i" using that by (subst nth_append) simp
    then show ?thesis unfolding eq .
  qed
  show False
  proof (cases "length pid < 5")
    case True
    then have "CHR ''-'' = ''role:'' ! length pid" using at [of "length pid"] by (simp add: nth_append)
    moreover have "length pid = 0 \<or> length pid = 1 \<or> length pid = 2 \<or> length pid = 3 \<or> length pid = 4" using True by linarith
    ultimately show False by (elim disjE) simp_all
  next
    case False
    then have "pid ! 4 = CHR '':''" using at [of 4] by (simp add: nth_append)
    moreover have "pid ! 4 \<in> set pid" using False by (intro nth_mem) simp
    moreover have "\<forall>c \<in> set pid. pid_tail_char c"
      using \<open>valid_pid pid\<close> by (cases pid) (auto simp: valid_pid_def pid_tail_char_def list_all_iff)
    ultimately have "pid_tail_char (CHR '':'')" by metis
    moreover have "\<not> pid_tail_char (CHR '':'')" by code_simp
    ultimately show False by simp
  qed
qed

text \<open>Run ids that were never used: each number gives ids of its own.\<close>

definition unused_ids :: "dispatch_env \<Rightarrow> nat \<Rightarrow> budget_doc \<Rightarrow> bool" where
  "unused_ids env n doc \<longleftrightarrow> (\<forall>m pid attempt. n \<le> m \<longrightarrow> valid_pid pid \<longrightarrow>
     map_of (allocated doc) (run_id_for env pid attempt m) = None \<and> map_of (consumed doc) (run_id_for env pid attempt m) = None)"

definition distinct_ids :: "dispatch_env \<Rightarrow> bool" where
  "distinct_ids env \<longleftrightarrow> (\<forall>p q a b n m. run_id_for env p a n = run_id_for env q b m \<longrightarrow> n = m)"

definition books :: "dispatch_env \<Rightarrow> budget_doc \<Rightarrow> nat \<Rightarrow> dispatch_world \<Rightarrow> bool" where
  "books env doc0 n0 w \<longleftrightarrow> wf_dict (allocated (dp_budget w)) \<and> total_tokens (dp_budget w) = total_tokens doc0
     \<and> n0 \<le> length (dp_births w) \<and> unused_ids env (dp_uuids w) (dp_budget w)
     \<and> (\<forall>k. \<not> role_key k \<longrightarrow> (map_of (allocated (dp_budget w)) k \<noteq> None \<longleftrightarrow>
          map_of (allocated doc0) k \<noteq> None \<or> k \<in> bi_run ` set (drop n0 (dp_births w))))"

lemma books_frame [simp]:
  "books env doc0 n0 (w\<lparr>dp_router := st\<rparr>) = books env doc0 n0 w"
  "books env doc0 n0 (w\<lparr>dp_governor := g\<rparr>) = books env doc0 n0 w"
  "books env doc0 n0 (w\<lparr>dp_debt := d\<rparr>) = books env doc0 n0 w"
  "books env doc0 n0 (w\<lparr>dp_roles := r\<rparr>) = books env doc0 n0 w"
  "books env doc0 n0 (w\<lparr>dp_queue := q\<rparr>) = books env doc0 n0 w"
  "books env doc0 n0 (emit pid ev why w) = books env doc0 n0 w"
  by (simp_all add: books_def emit_def)

lemma give_birth_books:
  assumes "books env doc0 n0 w" and "distinct_ids env" and "sane_history (de_history env)"
    and "bi_run b = run_id_for env (bi_packet b) attempt n" and "valid_pid (bi_packet b)" and "n = dp_uuids w"
    and "give_birth env b family (w\<lparr>dp_uuids := Suc (dp_uuids w)\<rparr>) = (res, w')"
  shows "books env doc0 n0 w'"
proof -
  let ?doc = "dp_budget w"
  have inv: "wf_dict (allocated ?doc)" "total_tokens ?doc = total_tokens doc0" "n0 \<le> length (dp_births w)"
    "unused_ids env n ?doc" using assms(1,6) by (simp_all add: books_def)
  have keys: "map_of (allocated ?doc) k \<noteq> None \<longleftrightarrow> map_of (allocated doc0) k \<noteq> None \<or> k \<in> bi_run ` set (drop n0 (dp_births w))"
    if "\<not> role_key k" for k
    using assms(1) that unfolding books_def by blast
  have fresh: "map_of (allocated ?doc) (bi_run b) = None" "map_of (consumed ?doc) (bi_run b) = None"
    using inv(4) assms(4,5) by (simp_all add: unused_ids_def)
  have norole: "\<not> role_key (bi_run b)" using assms(4,5) run_id_no_role by simp
  have later: "run_id_for env p a m \<noteq> bi_run b" if "Suc n \<le> m" for p a m
    using assms(2,4) that unfolding distinct_ids_def by (metis Suc_n_not_le_n)
  obtain r doc1 where reg: "register_agent (de_budget_config env) (de_history env) (bi_run b) (bi_role b) ?doc = (r, doc1)"
    by (cases "register_agent (de_budget_config env) (de_history env) (bi_run b) (bi_role b) ?doc")
  show ?thesis
  proof (cases r)
    case (Inl e)
    then have "w' = w\<lparr>dp_uuids := Suc n\<rparr>" using assms(6,7) reg register_refused [of _ _ _ _ ?doc e doc1]
      by (auto simp: give_birth_def)
    then show ?thesis using assms(1,6) by (auto simp: books_def unused_ids_def)
  next
    case (Inr granted)
    note facts = register_fresh [OF reg [unfolded Inr] assms(3) inv(1) fresh norole]
    have unused1: "unused_ids env (Suc n) doc1"
      unfolding unused_ids_def
    proof (intro allI impI)
      fix m p a assume "Suc n \<le> m" "valid_pid p"
      then show "map_of (allocated doc1) (run_id_for env p a m) = None \<and> map_of (consumed doc1) (run_id_for env p a m) = None"
        using facts(4,6) later [of m p a] run_id_no_role [of p env a m] inv(4) by (simp add: unused_ids_def)
    qed
    define doc2 where "doc2 = snd (reclaim (de_budget_config env) (de_now env) (bi_run b) doc1)"
    note undo = reclaim_unused [of _ _ _ "de_budget_config env" "de_now env", OF facts(2,3,7,5), folded doc2_def]
    have unused2: "unused_ids env (Suc n) doc2"
      using unused1 undo(3,4) by (simp add: unused_ids_def)
    have released: "books env doc0 n0 (w\<lparr>dp_uuids := Suc n, dp_budget := doc2\<rparr>)"
    proof -
      have "map_of (allocated doc2) k = map_of (allocated ?doc) k" if "\<not> role_key k" for k
        using undo(3) [of k] facts(4) [of k] fresh(1) that by (cases "k = bi_run b") simp_all
      then show ?thesis using inv facts(1) undo(1,2) unused2 keys by (simp add: books_def)
    qed
    have born: "books env doc0 n0 (w\<lparr>dp_uuids := Suc n, dp_budget := doc1, dp_births := dp_births w @ [b]\<rparr>)"
    proof -
      have "map_of (allocated doc1) k \<noteq> None \<longleftrightarrow>
          map_of (allocated doc0) k \<noteq> None \<or> k \<in> bi_run ` set (drop n0 (dp_births w @ [b]))" if "\<not> role_key k" for k
      proof (cases "k = bi_run b")
        case True
        then show ?thesis using facts(3) inv(3) by simp
      next
        case False
        then show ?thesis using facts(4) [OF False that] keys [OF that] inv(3) by simp
      qed
      then show ?thesis using inv facts(1,2) unused1 by (simp add: books_def)
    qed
    show ?thesis using assms(6,7) reg Inr released born
      by (auto simp: give_birth_def Let_def release_def doc2_def [symmetric] split: birth_result.splits if_splits)
  qed
qed

lemma require_k3_books: "require_k3 env pid role route w = (r, w') \<Longrightarrow> books env doc0 n0 w' = books env doc0 n0 w"
  by (auto simp: require_k3_def split: if_splits sum.splits bool.splits)

lemma require_k3_uuids: "require_k3 env pid role route w = (r, w') \<Longrightarrow> dp_uuids w' = dp_uuids w"
  by (auto simp: require_k3_def split: if_splits sum.splits bool.splits)

lemma decide_books: "decide env pid requested action w = (r, w') \<Longrightarrow> books env doc0 n0 w' = books env doc0 n0 w"
  by (auto simp: decide_def Let_def split: sum.splits prod.splits option.splits dest!: require_k3_books)

lemma load_packet_valid: "load_packet env pid = Inr packet \<Longrightarrow> valid_pid pid"
  by (simp add: load_packet_def split: if_splits)

lemma books_next: "books env doc0 n0 w \<Longrightarrow> books env doc0 n0 (w\<lparr>dp_uuids := Suc (dp_uuids w)\<rparr>)"
  by (simp add: books_def unused_ids_def)

lemma spawn_books:
  assumes "spawn env pid role route dry_run w = (res, w')" and "books env doc0 n0 w" and "distinct_ids env"
    and "sane_history (de_history env)"
  shows "books env doc0 n0 w'"
proof (cases "load_packet env pid")
  case (Inl e)
  then show ?thesis using assms(1,2) by (simp add: spawn_def)
next
  case (Inr packet)
  obtain r w1 where k3: "(if dry_run then (Inr (), w) else require_k3 env pid (Some role) route w) = (r, w1)"
    by (cases "if dry_run then (Inr (), w) else require_k3 env pid (Some role) route w")
  have kept: "books env doc0 n0 w1" using k3 assms(2) require_k3_books by (cases dry_run) auto
  note unfolded = assms(1) [unfolded spawn_def Inr sum.case k3 prod.case]
  show ?thesis
  proof (cases r)
    case (Inl e)
    then show ?thesis using unfolded kept by simp
  next
    case ok: (Inr u)
    show ?thesis
    proof (cases "resolve_role_pin env role")
      case (Inl e)
      then show ?thesis using unfolded ok kept by simp
    next
      case pin: (Inr pin)
      show ?thesis
      proof (cases "effective_sandbox packet pin")
        case (Inl e)
        then show ?thesis using unfolded ok pin kept by simp
      next
        case box: (Inr sandbox)
        obtain v g where gate: "sol_budget_block env pin route (dp_budget w1) (dp_governor w1) = (v, g)"
          by (cases "sol_budget_block env pin route (dp_budget w1) (dp_governor w1)")
        let ?w = "w1\<lparr>dp_governor := g\<rparr>"
        have kept': "books env doc0 n0 ?w" using kept by simp
        show ?thesis
        proof (cases "v = Inr None")
          case False
          then show ?thesis using unfolded ok pin box gate kept'
            by (cases v) (auto split: option.splits)
        next
          case True
          show ?thesis
          proof (cases "packet_attempt g pid")
            case (Inl e)
            then show ?thesis using unfolded ok pin box gate kept' True by simp
          next
            case attempt: (Inr attempt)
            define b where "b = birth_request env pid role pin sandbox packet (run_id_for env pid attempt (dp_uuids ?w))"
            have run: "(if dry_run then (Inr 0, emit pid ''dispatch_dry_run'' (bi_run b) (?w\<lparr>dp_uuids := Suc (dp_uuids ?w)\<rparr>))
                else give_birth env b (pn_family pin) (?w\<lparr>dp_uuids := Suc (dp_uuids ?w)\<rparr>)) = (res, w')"
              using unfolded ok pin box gate True attempt by (cases dry_run) (simp_all add: b_def Let_def)
            show ?thesis
            proof (cases dry_run)
              case True
              then show ?thesis using run books_next [OF kept'] by auto
            next
              case False
              have "valid_pid pid" by (rule load_packet_valid [OF \<open>load_packet env pid = Inr packet\<close>])
              then show ?thesis
                using run False
                by (intro give_birth_books [OF kept' assms(3,4), of b attempt "dp_uuids ?w" "pn_family pin"])
                  (simp_all add: b_def birth_request_def)
            qed
          qed
        qed
      qed
    qed
  qed
qed

lemma dispatch_one_books:
  assumes "dispatch_one env requested dry_run action pid w = (res, w')" and "books env doc0 n0 w" and "distinct_ids env"
    and "sane_history (de_history env)"
  shows "books env doc0 n0 w'"
proof -
  have refused: "books env doc0 n0 w2" if "refuse pid e w1 = (r, w2)" "books env doc0 n0 w1" for e w1 w2 and r :: "dispatch_error + int"
    using that by (auto simp: refuse_def split: if_splits)
  obtain d w1 where decided: "decide env pid requested action w = (d, w1)" by (cases "decide env pid requested action w")
  have kept: "books env doc0 n0 w1" using decide_books [OF decided] assms(2) by simp
  show ?thesis
  proof (cases d)
    case (Inl e)
    then show ?thesis using assms(1) decided kept refused by (simp add: dispatch_one_def)
  next
    case (Inr choice)
    obtain role route reason where choice: "choice = (role, route, reason)" by (cases choice)
    obtain v w2 where spawned: "spawn env pid role route dry_run w1 = (v, w2)" by (cases "spawn env pid role route dry_run w1")
    have "books env doc0 n0 w2" by (rule spawn_books [OF spawned kept assms(3,4)])
    then show ?thesis using assms(1) decided Inr choice spawned kept refused
      by (cases v) (auto simp: dispatch_one_def split: if_splits)
  qed
qed

lemma dispatch_books:
  assumes "dispatch env requested dry_run action pids rc w = (res, w')" and "books env doc0 n0 w" and "distinct_ids env"
    and "sane_history (de_history env)"
  shows "books env doc0 n0 w'"
  using assms(1,2)
proof (induction pids arbitrary: rc w)
  case Nil
  then show ?case by simp
next
  case (Cons pid pids)
  obtain r w1 where one: "dispatch_one env requested dry_run action pid w = (r, w1)"
    by (cases "dispatch_one env requested dry_run action pid w")
  have "books env doc0 n0 w1" by (rule dispatch_one_books [OF one Cons.prems(2) assms(3,4)])
  then show ?case using Cons one by (cases r) auto
qed


section \<open>Births\<close>

text \<open>What every child that is born satisfies.\<close>

definition pinned :: "dispatch_env \<Rightarrow> dispatch_world \<Rightarrow> birth \<Rightarrow> bool" where
  "pinned env w b \<longleftrightarrow> (\<exists>packet pin. load_packet env (bi_packet b) = Inr packet
     \<and> resolve_role_pin env (bi_role b) = Inr pin \<and> bi_model b = pn_model pin \<and> bi_overrides b = cli_overrides env pin
     \<and> (bi_sandbox b = (if truthy (jget packet ''parent_enabled'') then ''read-only'' else pn_sandbox pin))
     \<and> bi_ipybox b = ipybox_enabled_for env (bi_role b) packet
     \<and> (\<exists>run. b = birth_request env (bi_packet b) (bi_role b) pin (bi_sandbox b) packet run)
     \<and> bi_role b \<noteq> ''sol'' \<and> (pn_family pin = ''k3'' \<longrightarrow> k3_available env w = Inr True))"

lemma give_birth_births:
  "give_birth env b family w = (res, w') \<Longrightarrow> dp_health w' = dp_health w \<and> (dp_births w' = dp_births w \<or> dp_births w' = dp_births w @ [b])"
  by (auto simp: give_birth_def Let_def release_def emit_def split: birth_result.splits if_splits sum.splits prod.splits)

lemma require_k3_births: "require_k3 env pid role route w = (r, w') \<Longrightarrow>
    dp_births w' = dp_births w \<and> dp_health w' = dp_health w \<and> (r = Inr () \<and> route \<in> set K3_ROUTES \<longrightarrow> k3_available env w = Inr True)"
  by (auto simp: require_k3_def split: if_splits sum.splits bool.splits)

lemma k3_available_health: "dp_health w' = dp_health w \<Longrightarrow> k3_available env w' = k3_available env w"
  by (simp add: k3_available_def split: sum.split)

text \<open>A role of the K3 family is only ever decided together with a K3 route.\<close>

definition routed :: "string \<Rightarrow> route \<Rightarrow> bool" where
  "routed role route \<longleftrightarrow> (role \<in> {''verifier'', ''reviewer'', ''plan_expander''} \<longrightarrow> route \<in> set K3_ROUTES)"

lemma decide_routed:
  "decide env pid requested action w = (Inr (role, route, reason), w') \<Longrightarrow>
    routed role route \<and> dp_births w' = dp_births w \<and> dp_health w' = dp_health w"
  by (cases "requested")
    (auto simp: decide_def Let_def routed_def explicit_route_def K3_ROUTES_def split: sum.splits prod.splits option.splits
      elim: role_for_route.elims dest!: require_k3_births)

lemma decide_births:
  "decide env pid requested action w = (d, w') \<Longrightarrow> dp_births w' = dp_births w \<and> dp_health w' = dp_health w"
  by (cases "requested")
    (auto simp: decide_def Let_def split: sum.splits prod.splits dest!: require_k3_births)

lemma k3_role: "resolve_role_pin env role = Inr pin \<Longrightarrow> pn_family pin = ''k3'' \<Longrightarrow> role \<in> {''verifier'', ''reviewer'', ''plan_expander''}"
  by (auto simp: resolve_role_pin_def ROLE_FAMILY_def Let_def split: sum.splits if_splits)

lemma spawn_pinned:
  assumes "spawn env pid role route dry_run w = (res, w')" and "routed role route" and "role \<noteq> ''sol''"
  shows "dp_health w' = dp_health w" and "dp_births w' = dp_births w \<or> (\<exists>b. pinned env w b \<and> dp_births w' = dp_births w @ [b])"
proof -
  obtain r w1 where k3: "(if dry_run then (Inr (), w) else require_k3 env pid (Some role) route w) = (r, w1)"
    by (cases "if dry_run then (Inr (), w) else require_k3 env pid (Some role) route w")
  have w1: "dp_births w1 = dp_births w" "dp_health w1 = dp_health w"
    and avail: "\<not> dry_run \<Longrightarrow> r = Inr () \<Longrightarrow> route \<in> set K3_ROUTES \<Longrightarrow> k3_available env w = Inr True"
    using k3 require_k3_births [of env pid "Some role" route w r w1] by (auto split: if_splits)
  note body = assms(1) [unfolded spawn_def k3]
  have "dp_health w' = dp_health w \<and> (dp_births w' = dp_births w \<or> (\<exists>b. pinned env w b \<and> dp_births w' = dp_births w @ [b]))"
  proof (cases "\<exists>packet pin sandbox n g attempt w2. \<not> dry_run \<and> r = Inr () \<and> load_packet env pid = Inr packet
      \<and> resolve_role_pin env role = Inr pin \<and> effective_sandbox packet pin = Inr sandbox
      \<and> give_birth env (birth_request env pid role pin sandbox packet (run_id_for env pid attempt n)) (pn_family pin) w2 = (res, w')
      \<and> dp_births w2 = dp_births w1 \<and> dp_health w2 = dp_health w1")
    case True
    then obtain packet pin sandbox n g attempt w2 where live: "\<not> dry_run" "r = Inr ()" and packet: "load_packet env pid = Inr packet"
      and pin: "resolve_role_pin env role = Inr pin" and box: "effective_sandbox packet pin = Inr sandbox"
      and birth: "give_birth env (birth_request env pid role pin sandbox packet (run_id_for env pid attempt n)) (pn_family pin) w2 = (res, w')"
      and same: "dp_births w2 = dp_births w1" "dp_health w2 = dp_health w1" by blast
    let ?b = "birth_request env pid role pin sandbox packet (run_id_for env pid attempt n)"
    have "pinned env w ?b"
      unfolding pinned_def
    proof (intro exI conjI impI)
      show "bi_sandbox ?b = (if truthy (jget packet ''parent_enabled'') then ''read-only'' else pn_sandbox pin)"
        using box by (auto simp: birth_request_def effective_sandbox_def split: if_splits)
      assume "pn_family pin = ''k3''"
      then show "k3_available env w = Inr True"
        using k3_role [OF pin] assms(2) avail live by (auto simp: routed_def)
    next
      show "?b = birth_request env (bi_packet ?b) (bi_role ?b) pin (bi_sandbox ?b) packet (run_id_for env pid attempt n)"
        by (simp add: birth_request_def)
    qed (use packet pin assms(3) in \<open>simp_all add: birth_request_def\<close>)
    with give_birth_births [OF birth] same w1 show ?thesis by auto
  next
    case False
    then have none: "False" if "give_birth env (birth_request env pid role pin sandbox packet (run_id_for env pid attempt n)) (pn_family pin)
           (w1\<lparr>dp_governor := g, dp_uuids := m\<rparr>) = (res, w')" "\<not> dry_run" "r = Inr ()" "load_packet env pid = Inr packet"
        "resolve_role_pin env role = Inr pin" "effective_sandbox packet pin = Inr sandbox"
      for packet pin sandbox n g attempt m
      using that by (metis dispatch_world.select_convs(4,9) dispatch_world.update_convs(3,10) dispatch_world.surjective)
    show ?thesis
      using body w1
      by (auto simp: emit_def Let_def split: sum.splits prod.splits option.splits if_splits dest: none)
  qed
  then show "dp_health w' = dp_health w" "dp_births w' = dp_births w \<or> (\<exists>b. pinned env w b \<and> dp_births w' = dp_births w @ [b])"
    by auto
qed

lemma dispatch_one_pinned:
  assumes "dispatch_one env requested dry_run action pid w = (res, w')"
  shows "dp_health w' = dp_health w" and "dp_births w' = dp_births w \<or> (\<exists>b. pinned env w b \<and> dp_births w' = dp_births w @ [b])"
proof -
  have quiet [simp]: "dp_births (emit p e y v) = dp_births v" "dp_health (emit p e y v) = dp_health v" for p e y v
    by (simp_all add: emit_def)
  have refused: "dp_births v' = dp_births v \<and> dp_health v' = dp_health v" if "refuse pid e v = (r, v')" for e v v' and r :: "dispatch_error + int"
    using that by (auto simp: refuse_def split: if_splits)
  obtain d w1 where decided: "decide env pid requested action w = (d, w1)" by (cases "decide env pid requested action w")
  note same = decide_births [OF decided]
  have "dp_health w' = dp_health w \<and> (dp_births w' = dp_births w \<or> (\<exists>b. pinned env w b \<and> dp_births w' = dp_births w @ [b]))"
  proof (cases d)
    case (Inl e)
    then show ?thesis using assms decided same refused by (fastforce simp: dispatch_one_def)
  next
    case (Inr choice)
    obtain role route reason where choice: "choice = (role, route, reason)" by (cases choice)
    obtain v w2 where spawned: "spawn env pid role route dry_run w1 = (v, w2)" by (cases "spawn env pid role route dry_run w1")
    have routed: "routed role route" using decided Inr choice decide_routed by blast
    show ?thesis
    proof (cases "route = MERGE_QUEUE \<or> route = L4_HUMAN \<or> role = ''sol'' \<or> route = SOL_ADJUDICATE_R")
      case True
      then show ?thesis using assms decided Inr choice same by (auto simp: dispatch_one_def split: if_splits)
    next
      case False
      have same_pins: "pinned env w1 b = pinned env w b" for b
        using k3_available_health [of w1 w env] same by (simp add: pinned_def)
      have "dp_births w' = dp_births w2 \<and> dp_health w' = dp_health w2"
        using assms decided Inr choice spawned False refused
        by (cases v) (auto simp: dispatch_one_def dest: refused split: if_splits)
      then show ?thesis using spawn_pinned [OF spawned routed] False same same_pins by auto
    qed
  qed
  then show "dp_health w' = dp_health w" "dp_births w' = dp_births w \<or> (\<exists>b. pinned env w b \<and> dp_births w' = dp_births w @ [b])"
    by auto
qed

lemma dispatch_pinned:
  assumes "dispatch env requested dry_run action pids rc w = (res, w')"
  shows "\<exists>born. dp_births w' = dp_births w @ born \<and> list_all (pinned env w) born \<and> length born \<le> length pids"
  using assms
proof (induction pids arbitrary: rc w)
  case Nil
  then show ?case by simp
next
  case (Cons pid pids)
  obtain r w1 where one: "dispatch_one env requested dry_run action pid w = (r, w1)"
    by (cases "dispatch_one env requested dry_run action pid w")
  note step = dispatch_one_pinned [OF one]
  obtain first where first: "dp_births w1 = dp_births w @ first" "list_all (pinned env w) first" "length first \<le> 1"
    using step(2) by (elim disjE exE) auto
  show ?case
  proof (cases r)
    case (Inl e)
    then show ?thesis using Cons.prems one first by (intro exI [of _ first]) simp
  next
    case (Inr n)
    then have "dispatch env requested dry_run action pids (max rc n) w1 = (res, w')" using Cons.prems one by simp
    from Cons.IH [OF this] obtain born where born: "dp_births w' = dp_births w1 @ born" "list_all (pinned env w1) born"
      "length born \<le> length pids" by blast
    have "pinned env w1 b = pinned env w b" for b
      using k3_available_health [of w1 w env] step(1) by (simp add: pinned_def)
    then show ?thesis using first born by (intro exI [of _ "first @ born"]) (simp add: list_all_iff ball_Un)
  qed
qed

text \<open>Claim C17. Every child the dispatcher starts runs a packet that loads, under the model, the effort and the
  overrides its role is pinned to by the policy and its agent file, read-only if the packet comes
  from a parent manifest; no child runs as Sol; and no child of the K3 family is born while its
  provider is backed off. At most one child is born for each packet.\<close>

theorem births_are_pinned:
  assumes "dispatch env requested dry_run action pids rc w = (res, w')"
  shows "\<exists>born. dp_births w' = dp_births w @ born \<and> length born \<le> length pids
    \<and> (\<forall>b. b \<in> set born \<longrightarrow> (\<exists>packet pin. load_packet env (bi_packet b) = Inr packet \<and> resolve_role_pin env (bi_role b) = Inr pin
         \<and> bi_model b = pn_model pin \<and> bi_overrides b = cli_overrides env pin
         \<and> bi_sandbox b = (if truthy (jget packet ''parent_enabled'') then ''read-only'' else pn_sandbox pin)
         \<and> bi_role b \<noteq> ''sol'' \<and> (pn_family pin = ''k3'' \<longrightarrow> k3_available env w = Inr True)))"
proof -
  obtain born where born: "dp_births w' = dp_births w @ born" "list_all (pinned env w) born" "length born \<le> length pids"
    using dispatch_pinned [OF assms] by blast
  have "pinned env w b" if "b \<in> set born" for b using born(2) that by (simp add: list_all_iff)
  then show ?thesis unfolding pinned_def using born(1,3) by blast
qed

section \<open>A run\<close>

definition demo_dispatch_policy :: jobj where
  "demo_dispatch_policy = [(''models'', JObj [(''sol_model'', JStr ''gpt/sol''), (''k3_model'', JStr ''kimi/k3''),
     (''v4_model'', JStr ''ds/v4''), (''k3_reasoning'', JStr ''high'')])]"

definition demo_packet :: "string \<Rightarrow> json" where
  "demo_packet pid = JObj [(''packet_id'', JStr pid), (''goal'', JStr ''g''), (''authorized_paths'', JList []),
     (''acceptance'', JStr ''a''), (''parent_enabled'', JBool True), (''sandbox'', JStr ''read-only'')]"

definition demo_dispatch_env :: dispatch_env where
  "demo_dispatch_env = \<lparr>de_policy = demo_dispatch_policy, de_guards = demo_guard_env, de_agents = (\<lambda>role. No_toml),
     de_packets = (\<lambda>pid. Some (demo_packet pid)), de_plane = Wsl_headless,
     de_health = \<lparr>hh_policy = Some demo_dispatch_policy, hh_sha256 = (\<lambda>s. ''d''), hh_windows = False\<rparr>,
     de_now = 0, de_meter = Missing, de_stale_after = 600, de_budget_config = demo_budget_config, de_history = JNull,
     de_uuid = (\<lambda>n. replicate n (CHR ''a'')),
     de_birth = (\<lambda>b. if bi_packet b = ''p1'' then Born (bi_run b) else Throttled), de_role_map_ok = True, de_str = (\<lambda>v. [])\<rparr>"

definition demo_dispatch_world :: dispatch_world where
  "demo_dispatch_world = \<lparr>dp_router = router_init, dp_budget = budget_load 0 None,
     dp_governor = \<lparr>gw_ledger = Missing, gw_attestations = [], gw_lease = None, gw_hysteresis = fresh_hysteresis, gw_events = []\<rparr>,
     dp_health = [], dp_queue = \<lparr>wq_pools = (\<lambda>p. 0), wq_parents = []\<rparr>, dp_events = [], dp_debt = [], dp_roles = [],
     dp_births = [], dp_uuids = 0\<rparr>"

definition demo_dispatch :: "(dispatch_error + int) \<times> dispatch_world" where
  "demo_dispatch = dispatch demo_dispatch_env (Some ''verifier'') False ''pass'' [''p1'', ''p2''] 0 demo_dispatch_world"

lemma demo_dispatch_run:
  "(fst demo_dispatch, map (\<lambda>b. (bi_packet b, bi_run b, bi_role b)) (dp_births (snd demo_dispatch)))
     = (Inr 3, [(''p1'', ''p1-a0-'', ''verifier'')])"
  by code_simp

lemma demo_dispatch_ends:
  obtains w' b where "demo_dispatch = (Inr 3, w')" and "dp_births w' = [b]" and "bi_packet b = ''p1''"
    and "bi_run b = ''p1-a0-''" and "bi_role b = ''verifier''"
proof -
  from demo_dispatch_run obtain b where "fst demo_dispatch = Inr 3" and b: "dp_births (snd demo_dispatch) = [b]"
    "bi_packet b = ''p1''" "bi_run b = ''p1-a0-''" "bi_role b = ''verifier''" by auto
  then have "demo_dispatch = (Inr 3, snd demo_dispatch)" by (metis prod.collapse)
  then show thesis using b by (rule that)
qed

lemma distinct_a_tails:
  assumes "xs @ ''-'' @ replicate n (CHR ''a'') = ys @ ''-'' @ replicate m (CHR ''a'')"
  shows "n = m"
proof -
  have "takeWhile (\<lambda>c. c = CHR ''a'') (rev (zs @ ''-'' @ replicate k (CHR ''a''))) = replicate k (CHR ''a'')" for zs k
    by (simp add: takeWhile_append)
  from this [of xs n] this [of ys m] assms have "replicate n (CHR ''a'') = replicate m (CHR ''a'')" by metis
  then show ?thesis by (metis length_replicate)
qed

lemma demo_distinct: "distinct_ids demo_dispatch_env"
  unfolding distinct_ids_def run_id_for_def
proof (intro allI impI)
  fix p q :: string and a b n m
  assume "p @ ''-a'' @ show_int a @ ''-'' @ de_uuid demo_dispatch_env n = q @ ''-a'' @ show_int b @ ''-'' @ de_uuid demo_dispatch_env m"
  then have "(p @ ''-a'' @ show_int a) @ ''-'' @ replicate n (CHR ''a'') = (q @ ''-a'' @ show_int b) @ ''-'' @ replicate m (CHR ''a'')"
    by (simp add: demo_dispatch_env_def)
  then show "n = m" by (rule distinct_a_tails)
qed


theorem births_are_pinned_witness:
  "\<exists>w' b. demo_dispatch = (Inr 3, w') \<and> dp_births w' = [b] \<and> bi_role b = ''verifier'' \<and> bi_sandbox b = ''read-only''
     \<and> k3_available demo_dispatch_env demo_dispatch_world = Inr True"
proof -
  obtain w' b where run: "demo_dispatch = (Inr 3, w')" and b: "dp_births w' = [b]" "bi_packet b = ''p1''"
    and role: "bi_role b = ''verifier''"
    by (rule demo_dispatch_ends)
  have start: "dp_births demo_dispatch_world = []" by (simp add: demo_dispatch_world_def)
  from births_are_pinned [OF run [unfolded demo_dispatch_def]] start b
  obtain packet pin where packet: "load_packet demo_dispatch_env ''p1'' = Inr packet"
    and pin: "resolve_role_pin demo_dispatch_env (bi_role b) = Inr pin"
    and box: "bi_sandbox b = (if truthy (jget packet ''parent_enabled'') then ''read-only'' else pn_sandbox pin)"
    and avail: "pn_family pin = ''k3'' \<longrightarrow> k3_available demo_dispatch_env demo_dispatch_world = Inr True"
    by auto
  have "(case load_packet demo_dispatch_env ''p1'' of Inr d \<Rightarrow> truthy (jget d ''parent_enabled'') | Inl e \<Rightarrow> False)"
    "(case resolve_role_pin demo_dispatch_env ''verifier'' of Inr x \<Rightarrow> pn_family x = ''k3'' | Inl e \<Rightarrow> False)" by code_simp+
  then show ?thesis using packet pin role box avail run b by auto
qed

section \<open>What the code does not do\<close>

text \<open>A route to Sol is answered by an adjudication request whatever the budget says: the block is
  consulted in the spawn alone, which such a route never reaches.\<close>

lemma sol_route_is_not_gated:
  "decide env pid requested action w = (Inr (role, SOL_ADJUDICATE_R, reason), w1) \<Longrightarrow>
    dispatch_one env requested dry_run action pid w = (Inr 0, emit pid ''sol_adjudication_requested'' [] w1)"
  by (simp add: dispatch_one_def)

text \<open>A reservation the budget refuses ends the whole run: the packets after it are not looked at.\<close>

lemma exhausted_budget_crashes:
  assumes "register_agent (de_budget_config env) (de_history env) (bi_run b) (bi_role b) (dp_budget w) = (Inl (Budget_exceeded a n), doc)"
  shows "fst (give_birth env b family w) = Inl Unbound_name" and "refuse pid Unbound_name w = (Inl Unbound_name, w)"
  using assms by (simp_all add: give_birth_def refuse_def)
end
