(* ===== verification/Spawn_Gates.thy ===== *)
theory Spawn_Gates
  imports Lifecycle_Properties
begin

text \<open>
  The two gates in front of a child birth: \<open>src/hooks/leaf_agent_spawn_gate.py\<close>, which denies every
  birth by a session that is itself a child, and \<open>src/hooks/root_agent_spawn_gate.py\<close>, which pins
  role, model and effort of a root's birth to the active profile. The session files, the parsed
  profile and quarantine files, the leaf marker of the process and the text of a value that is no
  string are arguments; texts are ASCII.
\<close>

section \<open>Which tools give birth\<close>

definition SPAWN_NAMES :: "string list" where
  "SPAWN_NAMES = [''spawn_agent'', ''create_thread'', ''fork_thread'']"

definition fold_name :: "string \<Rightarrow> string" where
  "fold_name name = filter is_alnum (py_lower name)"

definition is_spawn_tool :: "string \<Rightarrow> bool" where
  "is_spawn_tool name \<longleftrightarrow>
     list_ex (\<lambda>item. sublist item (py_lower name)) SPAWN_NAMES
     \<or> fold_name name \<in> {''spawnagent'', ''createthread'', ''forkthread'', ''agent''}
     \<or> sublist ''spawnagent'' (fold_name name)"

definition is_spawn_agent_tool :: "string \<Rightarrow> bool" where
  "is_spawn_agent_tool name \<longleftrightarrow>
     is_spawn_tool name \<and> fold_name name \<notin> {''createthread'', ''forkthread''}
     \<and> \<not> ((sublist ''createthread'' (fold_name name) \<or> sublist ''forkthread'' (fold_name name))
          \<and> \<not> sublist ''spawnagent'' (fold_name name))"

section \<open>Who asks\<close>

text \<open>
  \<open>sg_sessions\<close> gives the rollout files of a session id, newest first, each as its lines: a file that
  cannot be read is \<open>None\<close>, and so is a line that is not JSON.
\<close>

datatype profile_file = Profile_unreadable | Profiles jobj

record spawn_env =
  sg_leaf :: string
  sg_sessions :: "string \<Rightarrow> json option list option list"
  sg_profiles :: profile_file
  sg_quarantine :: "json option"
  sg_str :: "json \<Rightarrow> string"

definition str_of :: "spawn_env \<Rightarrow> json \<Rightarrow> string" where
  "str_of env v = (case v of JStr s \<Rightarrow> s | _ \<Rightarrow> sg_str env v)"

definition dict_or_empty :: "json \<Rightarrow> jobj" where
  "dict_or_empty v = (case v of JObj d \<Rightarrow> d | _ \<Rightarrow> [])"

definition parent_of_meta :: "jobj \<Rightarrow> json" where
  "parent_of_meta row =
     (let payload = dict_or_empty (jget row ''payload'') in
      if truthy (jget payload ''parent_thread_id'') then jget payload ''parent_thread_id''
      else let source = dict_or_empty (jget payload ''source'');
               subagent = dict_or_empty (jget source ''subagent'');
               spawn = dict_or_empty (jget subagent ''thread_spawn'')
           in py_or (jget spawn ''parent_thread_id'') (jget spawn ''parent_session_id''))"

text \<open>The first header of a file decides; a line that is JSON but no object raises.\<close>

fun child_in_file :: "json option list \<Rightarrow> py_error + bool option" where
  "child_in_file [] = Inr None"
| "child_in_file (None # lines) = child_in_file lines"
| "child_in_file (Some (JObj row) # lines) =
     (if py_eq (jget row ''type'') (JStr ''session_meta'') then Inr (Some (truthy (parent_of_meta row)))
      else child_in_file lines)"
| "child_in_file (Some v # lines) = Inl AttributeError"

fun child_in_files :: "json option list option list \<Rightarrow> py_error + bool" where
  "child_in_files [] = Inr False"
| "child_in_files (None # files) = child_in_files files"
| "child_in_files (Some lines # files) =
     (case child_in_file lines of
        Inl e \<Rightarrow> Inl e
      | Inr (Some child) \<Rightarrow> Inr child
      | Inr None \<Rightarrow> child_in_files files)"

definition session_is_child :: "spawn_env \<Rightarrow> json \<Rightarrow> py_error + bool" where
  "session_is_child env session_id =
     (let value = py_strip (str_of env (py_or session_id (JStr []))) in
      if value = [] then Inr False else child_in_files (sg_sessions env value))"

definition marked_leaf :: "spawn_env \<Rightarrow> bool" where
  "marked_leaf env \<longleftrightarrow> py_strip (sg_leaf env) = ''1''"

definition tool_of :: "spawn_env \<Rightarrow> jobj \<Rightarrow> string" where
  "tool_of env payload = str_of env (py_or (first_of payload [''tool_name'', ''tool'', ''name'']) (JStr []))"

definition session_of :: "jobj \<Rightarrow> json" where
  "session_of payload = py_or (jget payload ''session_id'') (jget payload ''thread_id'')"

section \<open>The gate of the leaves\<close>

datatype spawn_denial =
    Recursive_birth | Input_malformed | Role_missing | Role_unknown string | Profile_invalid
  | Model_quarantined string | Model_not_pinned string | Effort_not_pinned string | Context_forked | Gate_crashed

definition leaf_decision :: "spawn_env \<Rightarrow> jobj \<Rightarrow> py_error + spawn_denial option" where
  "leaf_decision env payload =
     (if \<not> is_spawn_tool (tool_of env payload) then Inr None
      else if marked_leaf env then Inr (Some Recursive_birth)
      else case session_is_child env (session_of payload) of
        Inl e \<Rightarrow> Inl e
      | Inr child \<Rightarrow> Inr (if child then Some Recursive_birth else None))"

text \<open>An exception denies; a payload that is no object counts as empty.\<close>

definition gate_main :: "(jobj \<Rightarrow> py_error + spawn_denial option) \<Rightarrow> json option \<Rightarrow> spawn_denial option" where
  "gate_main decide payload =
     (case decide (case payload of Some (JObj p) \<Rightarrow> p | _ \<Rightarrow> []) of Inl e \<Rightarrow> Some Gate_crashed | Inr d \<Rightarrow> d)"

definition leaf_gate :: "spawn_env \<Rightarrow> json option \<Rightarrow> spawn_denial option" where
  "leaf_gate env = gate_main (leaf_decision env)"

section \<open>The gate of the roots\<close>

definition EXECUTION_ROLES :: "string list" where
  "EXECUTION_ROLES = [''worker'', ''duty_officer'']"

definition REVIEW_ROLES :: "string list" where
  "REVIEW_ROLES = [''verifier'', ''reviewer'', ''plan_expander'']"

definition APPROVED_EFFORTS :: "string list" where
  "APPROVED_EFFORTS = [''low'', ''medium'', ''high'', ''xhigh'', ''max'', ''ultra'']"

definition approved_route :: "profile_file \<Rightarrow> string \<Rightarrow> (string \<times> string) option" where
  "approved_route profiles role =
     (case profiles of
        Profile_unreadable \<Rightarrow> None
      | Profiles doc \<Rightarrow>
          (case (jget doc ''active_profile'', jget doc ''profiles'') of
             (JStr active, JObj table) \<Rightarrow>
               (if py_strip active = [] then None
                else case jget table active of
                  JObj profile \<Rightarrow>
                    (let pins = (if role \<in> set EXECUTION_ROLES then Some (''execution_model'', ''execution_reasoning'')
                                 else if role \<in> set REVIEW_ROLES then Some (''review_model'', ''review_reasoning'') else None) in
                     case pins of
                       None \<Rightarrow> None
                     | Some (model_key, effort_key) \<Rightarrow>
                         (case (jget profile model_key, jget profile effort_key) of
                            (JStr model, JStr effort) \<Rightarrow>
                              if CHR ''/'' \<in> set model \<and> py_strip model \<noteq> [] \<and> py_lower effort \<in> set APPROVED_EFFORTS
                              then Some (py_strip model, py_lower effort) else None
                          | _ \<Rightarrow> None))
                | _ \<Rightarrow> None)
           | _ \<Rightarrow> None))"

text \<open>A quarantine file that is missing or malformed quarantines nothing.\<close>

definition model_is_quarantined :: "json option \<Rightarrow> string \<Rightarrow> bool" where
  "model_is_quarantined content model =
     (case content of
        Some (JObj doc) \<Rightarrow>
          (case py_or (jget doc ''models'') (JObj []) of
             JObj models \<Rightarrow>
               (case py_or (jget models model) (JObj []) of
                  JObj item \<Rightarrow> py_eq (jget item ''status'') (JStr ''quarantined'')
                | _ \<Rightarrow> False)
           | _ \<Rightarrow> False)
      | _ \<Rightarrow> False)"

definition argument_text :: "spawn_env \<Rightarrow> jobj \<Rightarrow> string \<Rightarrow> string" where
  "argument_text env arguments key = py_strip (str_of env (py_or (jget arguments key) (JStr [])))"

definition birth_denial :: "spawn_env \<Rightarrow> jobj \<Rightarrow> spawn_denial option" where
  "birth_denial env arguments =
     (let role = py_lower (argument_text env arguments ''agent_type'') in
      if role = [] \<or> role = ''default'' then Some Role_missing
      else if role \<notin> set (EXECUTION_ROLES @ REVIEW_ROLES) then Some (Role_unknown role)
      else case approved_route (sg_profiles env) role of
        None \<Rightarrow> Some Profile_invalid
      | Some (approved_model, approved_effort) \<Rightarrow>
          (let model = argument_text env arguments ''model'' in
           if model_is_quarantined (sg_quarantine env) model then Some (Model_quarantined model)
           else if model \<noteq> approved_model then Some (Model_not_pinned approved_model)
           else if py_lower (argument_text env arguments ''reasoning_effort'') \<noteq> approved_effort
           then Some (Effort_not_pinned approved_effort)
           else if jget arguments ''fork_context'' = JBool True then Some Context_forked
           else None))"

definition root_decision :: "spawn_env \<Rightarrow> jobj \<Rightarrow> py_error + spawn_denial option" where
  "root_decision env payload =
     (if \<not> is_spawn_tool (tool_of env payload) \<or> \<not> is_spawn_agent_tool (tool_of env payload) then Inr None
      else if marked_leaf env then Inr None
      else case session_is_child env (session_of payload) of
        Inl e \<Rightarrow> Inl e
      | Inr True \<Rightarrow> Inr None
      | Inr False \<Rightarrow>
          (case jget payload ''tool_input'' of
             JObj arguments \<Rightarrow> Inr (birth_denial env arguments)
           | _ \<Rightarrow> Inr (Some Input_malformed)))"

definition root_gate :: "spawn_env \<Rightarrow> json option \<Rightarrow> spawn_denial option" where
  "root_gate env = gate_main (root_decision env)"

end
