(* ===== verification/Spawn_Properties.thy ===== *)
theory Spawn_Properties
  imports Spawn_Gates
begin

text \<open>
  The spawn gates and the lifecycle hook read a tool name alike, so that every birth the hook
  registers went through the pins of the active profile.
\<close>

section \<open>Names\<close>

lemma sublist_filter: "sublist xs ys \<Longrightarrow> sublist (filter P xs) (filter P ys)"
  by (metis filter_append sublist_def)

lemma folded_names:
  "sublist ''spawn_agent'' v \<Longrightarrow> sublist ''spawnagent'' (filter is_alnum v)"
  "sublist ''create_thread'' v \<Longrightarrow> sublist ''createthread'' (filter is_alnum v)"
  "sublist ''fork_thread'' v \<Longrightarrow> sublist ''forkthread'' (filter is_alnum v)"
proof -
  have "filter is_alnum ''spawn_agent'' = ''spawnagent''" "filter is_alnum ''create_thread'' = ''createthread''"
    "filter is_alnum ''fork_thread'' = ''forkthread''" by code_simp+
  then show "sublist ''spawn_agent'' v \<Longrightarrow> sublist ''spawnagent'' (filter is_alnum v)"
    "sublist ''create_thread'' v \<Longrightarrow> sublist ''createthread'' (filter is_alnum v)"
    "sublist ''fork_thread'' v \<Longrightarrow> sublist ''forkthread'' (filter is_alnum v)"
    by (metis sublist_filter)+
qed

text \<open>The hook registers exactly the tools whose arguments the root gate checks.\<close>

lemma gate_and_roster_agree: "tool_is_spawn_agent tool \<longleftrightarrow> is_spawn_agent_tool tool"
proof -
  let ?f = "fold_name tool"
  have names: "sublist ''spawn_agent'' (py_lower tool) \<Longrightarrow> sublist ''spawnagent'' ?f"
    "sublist ''create_thread'' (py_lower tool) \<Longrightarrow> sublist ''createthread'' ?f"
    "sublist ''fork_thread'' (py_lower tool) \<Longrightarrow> sublist ''forkthread'' ?f"
    by (simp_all add: fold_name_def folded_names)
  have facts: "\<not> sublist ''spawnagent'' ''createthread''" "\<not> sublist ''spawnagent'' ''forkthread''"
    "\<not> sublist ''createthread'' ''agent''" "\<not> sublist ''forkthread'' ''agent''" by code_simp+
  have "tool_is_spawn_agent tool \<longleftrightarrow> ?f = ''agent'' \<or> sublist ''spawnagent'' ?f"
    using names(1) by (auto simp: tool_is_spawn_agent_def Let_def fold_name_def)
  also have "\<dots> \<longleftrightarrow> is_spawn_agent_tool tool"
    using names facts by (auto simp: is_spawn_agent_tool_def is_spawn_tool_def SPAWN_NAMES_def)
  finally show ?thesis .
qed

section \<open>Births\<close>

text \<open>A birth by a root session, with the role, the model and the effort of the active profile.\<close>

definition authorized_birth :: "spawn_env \<Rightarrow> jobj \<Rightarrow> jobj \<Rightarrow> string \<Rightarrow> string \<Rightarrow> string \<Rightarrow> bool" where
  "authorized_birth env payload arguments role model effort \<longleftrightarrow>
     \<not> marked_leaf env \<and> session_is_child env (session_of payload) = Inr False
     \<and> jget payload ''tool_input'' = JObj arguments
     \<and> role = py_lower (argument_text env arguments ''agent_type'') \<and> role \<in> set (EXECUTION_ROLES @ REVIEW_ROLES)
     \<and> approved_route (sg_profiles env) role = Some (model, effort)
     \<and> argument_text env arguments ''model'' = model \<and> \<not> model_is_quarantined (sg_quarantine env) model
     \<and> py_lower (argument_text env arguments ''reasoning_effort'') = effort
     \<and> jget arguments ''fork_context'' \<noteq> JBool True"

lemma birth_denial_none:
  assumes "birth_denial env arguments = None"
  obtains role model effort where "role = py_lower (argument_text env arguments ''agent_type'')"
    "role \<in> set (EXECUTION_ROLES @ REVIEW_ROLES)" "approved_route (sg_profiles env) role = Some (model, effort)"
    "argument_text env arguments ''model'' = model" "\<not> model_is_quarantined (sg_quarantine env) model"
    "py_lower (argument_text env arguments ''reasoning_effort'') = effort" "jget arguments ''fork_context'' \<noteq> JBool True"
  using assms by (auto simp: birth_denial_def Let_def split: if_splits option.splits)

lemma leaf_gate_passes:
  assumes "leaf_gate env (Some (JObj p)) = None" and "is_spawn_tool (tool_of env p)"
  shows "\<not> marked_leaf env" and "session_is_child env (session_of p) = Inr False"
  using assms by (auto simp: leaf_gate_def gate_main_def leaf_decision_def split: if_splits sum.splits)

lemma gates_authorize:
  assumes "leaf_gate env (Some (JObj p)) = None" and "root_gate env (Some (JObj p)) = None"
    and "is_spawn_agent_tool (tool_of env p)"
  obtains arguments role model effort where "authorized_birth env p arguments role model effort"
proof -
  have spawn: "is_spawn_tool (tool_of env p)" using assms(3) by (simp add: is_spawn_agent_tool_def)
  note root = leaf_gate_passes [OF assms(1) spawn]
  then obtain arguments where arguments: "jget p ''tool_input'' = JObj arguments" "birth_denial env arguments = None"
    using assms(2,3) spawn by (cases "jget p ''tool_input''") (auto simp: root_gate_def gate_main_def root_decision_def)
  then show thesis using that root by (elim birth_denial_none) (auto simp: authorized_birth_def)
qed

section \<open>What the hook registers\<close>

lemma add_pending_new:
  "add_pending now item r w = (x, r', w') \<Longrightarrow> set (nr_pending r') \<subseteq> insert item (set (nr_pending r))"
  by (auto simp: add_pending_def prune_pending_def Let_def split: if_splits prod.splits)

definition pending_rows :: "hook_world \<Rightarrow> jobj set" where
  "pending_rows w = (case hw_roster w of Stored r \<Rightarrow> set (nr_pending r) | _ \<Rightarrow> {})"

lemma pending_frame [simp]: "pending_rows (audit e d w) = pending_rows w" "pending_rows (trigger as w) = pending_rows w"
    "pending_rows (audit_expired gone w) = pending_rows w"
  by (simp_all add: pending_rows_def audit_def trigger_def audit_expired_def)

lemma transact_pending:
  assumes "transact fn w = (y, w')"
    and "\<And>r x r' w1. fn r w = (x, r', w1) \<Longrightarrow> set (nr_pending r') \<subseteq> insert item (set (nr_pending r))"
  shows "pending_rows w' \<subseteq> insert item (pending_rows w)"
  using assms(1)
proof (cases rule: transact_cases)
  case 1
  then show ?thesis by auto
next
  case (2 r x r' w1)
  from assms(2) [OF 2(2)] 2(1) show ?thesis by (auto simp: 2(4) pending_rows_def)
qed

lemma confirm_close_pending: "confirm_close env target r w = (x, r', w') \<Longrightarrow> nr_pending r' = nr_pending r"
  by (auto simp: confirm_close_def Let_def split: option.splits if_splits)

text \<open>The hook's reading of a tool call adds at most one row, and only for a tool that starts an agent.\<close>

lemma pre_tool_pending:
  assumes "pre_tool env payload w = (done1, w')" and "item \<in> pending_rows w'" and "item \<notin> pending_rows w"
  shows "tool_is_spawn_agent (text_of env (py_or (first_of payload [''tool_name'', ''tool'', ''name'']) (JStr [])))
    \<and> (\<exists>parent. item = spawn_item env parent payload)"
proof -
  let ?tool = "text_of env (py_or (first_of payload [''tool_name'', ''tool'', ''name'']) (JStr []))"
  obtain agent parent where ident: "resolve_identity payload = Inr (agent, parent)"
    using assms by (cases "resolve_identity payload") (auto simp: pre_tool_def conflict_def split: prod.splits)
  have closing: "pending_rows w1 \<subseteq> pending_rows w" if "transact (confirm_close env target) w = (y, w1)" for target y w1
  proof -
    have "pending_rows w1 \<subseteq> insert x (pending_rows w)" for x
      by (rule transact_pending [OF that]) (auto dest: confirm_close_pending)
    from this [of "[]"] this [of "[([], JNull)]"] show ?thesis by auto
  qed
  have adding: "pending_rows w1 \<subseteq> insert (spawn_item env parent payload) (pending_rows w)"
    if "transact (add_pending (he_now env) (spawn_item env parent payload)) w = (y, w1)" for y w1
    by (rule transact_pending [OF that]) (rule add_pending_new)
  show ?thesis
  proof (cases "sublist ''close_agent'' ?tool")
    case True
    then have "pending_rows w' \<subseteq> pending_rows w" using assms(1) ident
      by (auto simp: pre_tool_def Let_def dest!: closing split: option.splits prod.splits)
    then show ?thesis using assms(2,3) by blast
  next
    case False
    then have "tool_is_spawn_agent ?tool" using assms ident by (auto simp: pre_tool_def Let_def split: if_splits)
    moreover have "pending_rows w' \<subseteq> insert (spawn_item env parent payload) (pending_rows w)"
      using assms(1) ident False calculation
      by (auto simp: pre_tool_def Let_def dest!: adding split: option.splits prod.splits if_splits)
    ultimately show ?thesis using assms(2,3) by blast
  qed
qed

lemma authorized_model:
  assumes "authorized_birth senv p arguments role model effort" and "he_str henv = sg_str senv"
  shows "py_strip (str_of senv (py_or (jget (spawn_item henv parent p) ''model'') (JStr []))) = model"
proof -
  have args: "jget p ''tool_input'' = JObj arguments" "argument_text senv arguments ''model'' = model"
    "argument_text senv arguments ''agent_type'' \<noteq> []"
    using assms(1) by (auto simp: authorized_birth_def EXECUTION_ROLES_def REVIEW_ROLES_def py_lower_def)
  have "arguments \<noteq> []" using args(3)
    by (auto simp: argument_text_def jget_def dict_get_or_def py_or_def py_strip_def py_lstrip_def str_of_def)
  then have "tool_arguments henv p = arguments"
    using args(1) by (simp add: tool_arguments_def raw_tool_input_def first_of_def py_or_def)
  then show ?thesis using args(2) by (simp add: spawn_item_def jget_def dict_get_or_def argument_text_def)
qed

text \<open>Claim C29. Whatever the lifecycle hook registers as a coming agent, after both spawn gates let the call
  pass, was asked for by a root session with an approved role, and carries the model and the effort
  the active profile pins that role to, not quarantined and without the parent's context.\<close>

theorem registered_births_are_authorized:
  assumes "leaf_gate senv (Some (JObj p)) = None" and "root_gate senv (Some (JObj p)) = None"
    and "he_str henv = sg_str senv"
    and "item \<in> pending_rows (handle henv Pre_tool_use p w)" and "item \<notin> pending_rows w"
  shows "\<exists>arguments role model effort. jget p ''tool_input'' = JObj arguments
    \<and> \<not> marked_leaf senv \<and> session_is_child senv (session_of p) = Inr False
    \<and> role = py_lower (argument_text senv arguments ''agent_type'')
    \<and> approved_route (sg_profiles senv) role = Some (model, effort)
    \<and> py_strip (str_of senv (py_or (jget item ''model'') (JStr []))) = model
    \<and> \<not> model_is_quarantined (sg_quarantine senv) model
    \<and> py_lower (argument_text senv arguments ''reasoning_effort'') = effort
    \<and> jget arguments ''fork_context'' \<noteq> JBool True"
proof -
  obtain done1 w' where pre: "pre_tool henv p w = (done1, w')" by (cases "pre_tool henv p w")
  then have "pending_rows (handle henv Pre_tool_use p w) = pending_rows w'"
    by (cases done1) (simp_all add: handle_def hook_body_def)
  with pre_tool_pending [OF pre] assms(4,5) obtain parent
    where tool: "tool_is_spawn_agent (text_of henv (py_or (first_of p [''tool_name'', ''tool'', ''name'']) (JStr [])))"
      and item: "item = spawn_item henv parent p" by auto
  have "text_of henv v = str_of senv v" for v using assms(3) by (simp add: text_of_def str_of_def split: json.split)
  then have "is_spawn_agent_tool (tool_of senv p)" using tool by (simp add: tool_of_def gate_and_roster_agree)
  from gates_authorize [OF assms(1,2) this] obtain arguments role model effort
    where birth: "authorized_birth senv p arguments role model effort" by blast
  have "py_strip (str_of senv (py_or (jget item ''model'') (JStr []))) = model"
    unfolding item by (rule authorized_model [OF birth assms(3)])
  then show ?thesis using birth unfolding authorized_birth_def by blast
qed

definition demo_spawn_env :: spawn_env where
  "demo_spawn_env = \<lparr>sg_leaf = [], sg_sessions = (\<lambda>v. [Some [None, Some (JObj [(''type'', JStr ''session_meta''), (''payload'', JObj [])])]]),
     sg_profiles = Profiles [(''active_profile'', JStr ''p''), (''profiles'', JObj [(''p'', JObj [(''execution_model'', JStr ''ds/v4''),
        (''execution_reasoning'', JStr ''High'')])])], sg_quarantine = None, sg_str = he_str quiet_env\<rparr>"

definition demo_spawn_call :: jobj where
  "demo_spawn_call = [(''tool_name'', JStr ''Agent''), (''session_id'', JStr ''s1''), (''tool_input'', JObj [(''agent_type'', JStr ''Worker''),
     (''model'', JStr ''ds/v4''), (''reasoning_effort'', JStr ''high'')])]"

lemma demo_spawn_passes:
  "leaf_gate demo_spawn_env (Some (JObj demo_spawn_call)) = None" "root_gate demo_spawn_env (Some (JObj demo_spawn_call)) = None"
  by code_simp+

lemma demo_spawn_registers:
  "(case hw_roster (handle quiet_env Pre_tool_use demo_spawn_call new_hooks) of Stored r \<Rightarrow> map (\<lambda>x. jget x ''model'') (nr_pending r) | _ \<Rightarrow> [])
     = [JStr ''ds/v4'']"
  by code_simp

theorem registered_births_are_authorized_witness:
  "\<exists>item. item \<in> pending_rows (handle quiet_env Pre_tool_use demo_spawn_call new_hooks) \<and> jget item ''model'' = JStr ''ds/v4''
     \<and> session_is_child demo_spawn_env (JStr ''s1'') = Inr False"
proof -
  obtain item where item: "item \<in> pending_rows (handle quiet_env Pre_tool_use demo_spawn_call new_hooks)" "jget item ''model'' = JStr ''ds/v4''"
    using demo_spawn_registers by (auto simp: pending_rows_def map_eq_Cons_conv split: roster_file.splits)
  have "pending_rows new_hooks = {}" by (simp add: pending_rows_def new_hooks_def)
  with registered_births_are_authorized [OF demo_spawn_passes, of quiet_env item new_hooks] item
  have "session_is_child demo_spawn_env (session_of demo_spawn_call) = Inr False" by (auto simp: demo_spawn_env_def)
  moreover have "session_of demo_spawn_call = JStr ''s1''" by code_simp
  ultimately show ?thesis using item by auto
qed

text \<open>No birth at all for a child: neither an agent nor a thread.\<close>

lemma children_never_spawn:
  assumes "session_is_child env (session_of p) = Inr True \<or> marked_leaf env" and "is_spawn_tool (tool_of env p)"
  shows "leaf_gate env (Some (JObj p)) \<noteq> None"
  using assms by (auto simp: leaf_gate_def gate_main_def leaf_decision_def)
end
