(* ===== verification/Tool_Gates.thy ===== *)
theory Tool_Gates
  imports Governor Spawn_Gates
begin

text \<open>
  The gate in front of every tool call of the root session: the first gate,
  \<open>src/hooks/sol_tool_gate.py\<close>, with its counter of serial reads while planning, the router between
  it and the governor, \<open>src/hooks/sol_tool_gate_router.py\<close>, and the app-wide wrapper,
  \<open>src/hooks/global_loop_mode.py\<close>. The router runs both gates as processes; whether one can be run
  at all, the search for the root directory and the text of a value that is no string are arguments.
  The instructions the wrapper injects at session start are texts and not modelled.
\<close>

section \<open>The first gate\<close>

definition RECON_THRESHOLD :: int where "RECON_THRESHOLD = 5"

definition RECON_HARD_CAP :: int where "RECON_HARD_CAP = 8"

definition RECON_WINDOW :: rat where "RECON_WINDOW = 900"

text \<open>The counter file, which this gate alone writes; a file that is missing or garbled is empty.\<close>

record recon =
  rn_count :: int
  rn_window :: rat

definition no_recon :: recon where
  "no_recon = \<lparr>rn_count = 0, rn_window = 0\<rparr>"

datatype tool_denial =
    Role_not_known string | Serial_reads int "(string \<times> string) option" | Loop_state_gated string
  | Layered_unauthorized | Governor_failed | Governor_unavailable | Governor_denied hook_result

text \<open>The route of a worker under the active profile, for the text of the order.\<close>

definition pinned_worker_route :: "profile_file \<Rightarrow> (string \<times> string) option" where
  "pinned_worker_route profiles =
     (case profiles of
        Profile_unreadable \<Rightarrow> None
      | Profiles doc \<Rightarrow>
          (case (py_or (jget doc ''profiles'') (JObj []), jget doc ''active_profile'') of
             (JObj table, JStr active) \<Rightarrow>
               (case py_or (jget table active) (JObj []) of
                  JObj profile \<Rightarrow>
                    (case (jget profile ''execution_model'', jget profile ''execution_reasoning'') of
                       (JStr model, JStr effort) \<Rightarrow>
                         if CHR ''/'' \<in> set model \<and> py_strip effort \<noteq> [] then Some (py_strip model, py_strip effort) else None
                     | _ \<Rightarrow> None)
                | _ \<Rightarrow> None)
           | _ \<Rightarrow> None))"

definition recon_enforce :: "rat \<Rightarrow> profile_file \<Rightarrow> recon \<Rightarrow> tool_denial option \<times> recon" where
  "recon_enforce now profiles st =
     (let st0 = (if RECON_WINDOW < now - rn_window st then no_recon else st);
          count = rn_count st0 + 1;
          st1 = \<lparr>rn_count = count, rn_window = (if rn_window st0 = 0 then now else rn_window st0)\<rparr> in
      (if RECON_HARD_CAP < count then None
       else if RECON_THRESHOLD \<le> count then Some (Serial_reads count (pinned_worker_route profiles)) else None, st1))"

text \<open>The state of the loop as this gate reads it: the key in the ledger wins, whoever wrote it.\<close>

definition plain_loop_state :: "json \<Rightarrow> py_error + string" where
  "plain_loop_state ledger =
     (case ledger of
        JObj led \<Rightarrow>
          (case jget led ''loop_state'' of
             JStr s \<Rightarrow> if s \<noteq> [] then Inr s else derived_state led
           | _ \<Rightarrow> derived_state led)
      | _ \<Rightarrow> Inl AttributeError)"

definition gives_birth :: "string \<Rightarrow> bool" where
  "gives_birth tool \<longleftrightarrow> sublist ''spawn'' tool \<or> sublist ''subagent'' tool \<or> sublist ''dispatch'' tool"

record first_env =
  fe_now :: rat
  fe_ledger :: disk_file
  fe_profiles :: profile_file
  fe_str :: "json \<Rightarrow> string"

definition role_text :: "first_env \<Rightarrow> jobj \<Rightarrow> string" where
  "role_text env p =
     (case py_or (py_or (jget p ''agent_type'') (jget p ''role'')) (JStr []) of
        JStr s \<Rightarrow> py_lower (py_strip s) | v \<Rightarrow> py_lower (py_strip (fe_str env v)))"

text \<open>\<open>Inl\<close> is a run that ends with a traceback; \<open>None\<close> an input that is not JSON.\<close>

definition first_gate ::
  "first_env \<Rightarrow> json option \<Rightarrow> recon \<Rightarrow> (py_error + tool_denial option) \<times> recon" where
  "first_gate env payload st =
     (case payload of
        None \<Rightarrow> (Inr None, st)
      | Some (JObj p) \<Rightarrow>
          (case text_or_empty (jget p ''tool_name'') of
             Inl e \<Rightarrow> (Inl e, st)
           | Inr name \<Rightarrow>
               (let tool = py_lower name; role = role_text env p in
                if gives_birth tool then (Inr None, no_recon)
                else if \<not> startswith_any tool GATED_TOOLS then (Inr None, st)
                else if role \<in> set CHILD_ROLES then (Inr None, st)
                else if role \<noteq> [] \<and> role \<notin> {''sol'', ''root'', ''default''} then (Inr (Some (Role_not_known role)), st)
                else case fe_ledger env of
                  Missing \<Rightarrow> (Inr None, st)
                | Garbled \<Rightarrow> (Inr None, st)
                | Doc ledger \<Rightarrow>
                    (case plain_loop_state ledger of
                       Inl e \<Rightarrow> (Inl e, st)
                     | Inr state \<Rightarrow>
                         if state \<notin> set ALLOWED_STATES then (Inr (Some (Loop_state_gated state)), st)
                         else if state \<noteq> ''planning'' then (Inr None, st)
                         else (case recon_enforce (fe_now env) (fe_profiles env) st of (d, st') \<Rightarrow> (Inr d, st')))))
      | Some v \<Rightarrow> (Inl AttributeError, st))"

section \<open>The router\<close>

text \<open>
  \<open>re_found\<close> says whether a directory with a policy is found for the payload, \<open>re_mode_policy\<close> is the
  policy file (\<open>None\<close>: unreadable), the two \<open>runs\<close> flags whether a gate's process can be started and
  ends in time.
\<close>

record router_env =
  re_found :: "jobj \<Rightarrow> bool"
  re_mode_policy :: "jobj option"
  re_first :: first_env
  re_first_runs :: bool
  re_governor :: governor_env
  re_governor_runs :: bool
  re_marker :: "json option"
  re_policy_hash :: "string option"
  re_shadow_writable :: bool
  re_str :: "json \<Rightarrow> string"

record router_world =
  rw_recon :: recon
  rw_governor :: governor_world
  rw_shadow :: "(json \<times> bool \<times> bool \<times> bool \<times> bool) list"

definition read_mode :: "jobj option \<Rightarrow> string" where
  "read_mode policy =
     (case policy of
        None \<Rightarrow> ''cold_start''
      | Some doc \<Rightarrow>
          (case jget_or (JObj []) doc ''routing'' of
             JObj routing \<Rightarrow>
               (case jget_or (JStr ''cold_start'') routing ''mode'' of
                  JStr mode \<Rightarrow> if mode \<in> {''cold_start'', ''shadow'', ''layered''} then mode else ''cold_start''
                | _ \<Rightarrow> ''cold_start'')
           | _ \<Rightarrow> ''cold_start''))"

text \<open>A process that cannot be run raises; one that crashed printed nothing.\<close>

datatype gate_run = Not_run | Crashed_run | Ended "tool_denial option"

definition run_first :: "router_env \<Rightarrow> jobj \<Rightarrow> router_world \<Rightarrow> gate_run \<times> router_world" where
  "run_first env p w =
     (if \<not> re_first_runs env then (Not_run, w)
      else case first_gate (re_first env) (Some (JObj p)) (rw_recon w) of
        (Inl e, st) \<Rightarrow> (Crashed_run, w\<lparr>rw_recon := st\<rparr>)
      | (Inr d, st) \<Rightarrow> (Ended d, w\<lparr>rw_recon := st\<rparr>))"

definition run_governor :: "router_env \<Rightarrow> jobj \<Rightarrow> router_world \<Rightarrow> gate_run \<times> router_world" where
  "run_governor env p w =
     (if \<not> re_governor_runs env then (Not_run, w)
      else case governor_hook (re_governor env) (Some (JObj p)) (rw_governor w) of
        (Hook_crash e, g) \<Rightarrow> (Crashed_run, w\<lparr>rw_governor := g\<rparr>)
      | (Hook_allow, g) \<Rightarrow> (Ended None, w\<lparr>rw_governor := g\<rparr>)
      | (result, g) \<Rightarrow> (Ended (Some (Governor_denied result)), w\<lparr>rw_governor := g\<rparr>))"

definition denied_run :: "gate_run \<Rightarrow> bool" where
  "denied_run r = (case r of Ended (Some d) \<Rightarrow> True | _ \<Rightarrow> False)"

definition printed :: "gate_run \<Rightarrow> tool_denial option" where
  "printed r = (case r of Ended d \<Rightarrow> d | _ \<Rightarrow> None)"

definition append_shadow :: "jobj \<Rightarrow> gate_run \<Rightarrow> gate_run \<Rightarrow> router_world \<Rightarrow> router_world" where
  "append_shadow p v1 v2 w = w\<lparr>rw_shadow := rw_shadow w @
     [(jget p ''tool_name'', denied_run v1, denied_run v2, v1 = Crashed_run, v2 = Crashed_run)]\<rparr>"

definition cold_start_gate :: "router_env \<Rightarrow> jobj \<Rightarrow> router_world \<Rightarrow> tool_denial option \<times> router_world" where
  "cold_start_gate env p w = (case run_first env p w of (r, w') \<Rightarrow> (printed r, w'))"

definition shadow_gate :: "router_env \<Rightarrow> jobj \<Rightarrow> router_world \<Rightarrow> tool_denial option \<times> router_world" where
  "shadow_gate env p w =
     (case run_first env p w of
        (Not_run, w1) \<Rightarrow> (None, w1)
      | (v1, w1) \<Rightarrow>
          (case run_governor env p w1 of
             (Not_run, w2) \<Rightarrow> (None, w2)
           | (v2, w2) \<Rightarrow> if re_shadow_writable env then (printed v1, append_shadow p v1 v2 w2) else (None, w2)))"

definition gated_call :: "router_env \<Rightarrow> jobj \<Rightarrow> bool" where
  "gated_call env p \<longleftrightarrow>
     startswith_any (py_lower (case py_or (jget p ''tool_name'') (JStr []) of JStr s \<Rightarrow> s | v \<Rightarrow> re_str env v)) GATED_TOOLS"

definition layered_authorized :: "router_env \<Rightarrow> bool" where
  "layered_authorized env = fst (layered_authorization (re_marker env) (ge_now (re_governor env)) 3600 (re_policy_hash env))"

definition layered_gate :: "router_env \<Rightarrow> jobj \<Rightarrow> router_world \<Rightarrow> tool_denial option \<times> router_world" where
  "layered_gate env p w =
     (if gated_call env p \<and> \<not> layered_authorized env then (Some Layered_unauthorized, w)
      else case run_governor env p w of
        (Not_run, w') \<Rightarrow> (Some Governor_unavailable, w')
      | (Crashed_run, w') \<Rightarrow> (Some Governor_failed, w')
      | (Ended d, w') \<Rightarrow> (d, w'))"

text \<open>The outer \<open>None\<close> is a traceback, which denies nothing either.\<close>

definition route_gate :: "router_env \<Rightarrow> json option \<Rightarrow> router_world \<Rightarrow> tool_denial option option \<times> router_world" where
  "route_gate env payload w =
     (case payload of
        None \<Rightarrow> (Some None, w)
      | Some (JObj p) \<Rightarrow>
          (if p = [] \<or> \<not> re_found env p then (Some None, w)
           else case (if read_mode (re_mode_policy env) = ''cold_start'' then cold_start_gate env p w
                      else if read_mode (re_mode_policy env) = ''shadow'' then shadow_gate env p w
                      else layered_gate env p w) of (d, w') \<Rightarrow> (Some d, w'))
      | Some v \<Rightarrow> (if truthy v then None else Some None, w))"

section \<open>The wrapper\<close>

definition MODE_SCHEMA :: string where
  "MODE_SCHEMA = ''codex-loop-global-mode/v1''"

text \<open>\<open>resolve\<close> is the resolution of a path by the file system, \<open>None\<close> where it raises.\<close>

definition marker_active :: "(json \<Rightarrow> string option) \<Rightarrow> string \<Rightarrow> json option \<Rightarrow> bool" where
  "marker_active resolve home marker =
     (case marker of
        Some (JObj doc) \<Rightarrow>
          jget doc ''schema'' = JStr MODE_SCHEMA \<and> jget doc ''active'' = JBool True
          \<and> dict_has ''control_root'' doc \<and> resolve (jget doc ''control_root'') = Some home
      | _ \<Rightarrow> False)"

text \<open>The decision of the tool gate as the application sees it; \<open>runs\<close>: the router's process ends in time.\<close>

definition loop_mode_gate ::
  "(json \<Rightarrow> string option) \<Rightarrow> string \<Rightarrow> json option \<Rightarrow> bool \<Rightarrow> router_env \<Rightarrow> json option \<Rightarrow> router_world
    \<Rightarrow> tool_denial option \<times> router_world" where
  "loop_mode_gate resolve home marker runs env payload w =
     (if \<not> marker_active resolve home marker \<or> \<not> runs then (None, w)
      else case route_gate env payload w of
        (None, w') \<Rightarrow> (None, w')
      | (Some d, w') \<Rightarrow> (d, w'))"

end
