(* ===== verification/Tool_Properties.thy ===== *)
theory Tool_Properties
  imports Tool_Gates Governor_Properties
begin

text \<open>
  The tool gates: in layered mode nothing passes that the governor did not allow under a current
  authorization; shadow mode decides as cold start does; serial reads while planning are refused
  within fixed bounds.
\<close>

section \<open>Layered mode\<close>

lemma governor_hook_allows:
  assumes "governor_hook env (Some (JObj p)) w = (Hook_allow, w')" and "ge_policy env = Inr policy"
    and "jget p ''tool_name'' = JStr name"
  obtains params tokens d where "evaluate env policy params name (jget p ''model'') tokens (py_or (jget p ''agent_type'') (jget p ''role'')) w = (Inr d, w')"
    and "gd_verdict d = Gate_allow"
proof -
  have name: "text_or_empty (JStr name) = Inr name" by (cases name) (simp_all add: text_or_empty_def)
  have passed: "\<exists>d. r = (Inr d, w') \<and> gd_verdict d = Gate_allow" if "deliver r = (Hook_allow, w')" for r
    using that by (auto simp: deliver_def hook_output_def split: prod.splits sum.splits option.splits if_splits gate_verdict.splits)
  show thesis
    using assms that by (auto simp: governor_hook_def name split: sum.splits prod.splits dest!: passed)
qed

lemma run_governor_allows:
  assumes "run_governor env p w = (Ended None, w')"
  shows "\<exists>g. governor_hook (re_governor env) (Some (JObj p)) (rw_governor w) = (Hook_allow, g) \<and> w' = w\<lparr>rw_governor := g\<rparr>"
  using assms by (auto simp: run_governor_def split: if_splits prod.splits hook_result.splits)

lemma layered_gate_allows:
  assumes "layered_gate env p w = (None, w')"
  shows "\<not> (gated_call env p \<and> \<not> layered_authorized env)" and "run_governor env p w = (Ended None, w')"
  using assms by (auto simp: layered_gate_def split: if_splits prod.splits gate_run.splits)

lemma mode_gate_routes:
  assumes "loop_mode_gate resolve home marker True env (Some (JObj p)) w = (d, w')" and "marker_active resolve home marker"
    and "p \<noteq> []" and "re_found env p" and "read_mode (re_mode_policy env) = ''layered''"
  shows "layered_gate env p w = (d, w')"
  using assms by (auto simp: loop_mode_gate_def route_gate_def split: prod.splits)


section \<open>Shadow mode\<close>

lemma run_first_frame: "run_first env p w = (r, w') \<Longrightarrow> rw_governor w' = rw_governor w"
  by (auto simp: run_first_def split: if_splits prod.splits sum.splits)

lemma run_governor_frame: "run_governor env p w = (r, w') \<Longrightarrow> rw_recon w' = rw_recon w"
  by (auto simp: run_governor_def split: if_splits prod.splits hook_result.splits)

lemma run_governor_ends: "re_governor_runs env \<Longrightarrow> fst (run_governor env p w) \<noteq> Not_run"
  by (auto simp: run_governor_def split: prod.splits hook_result.splits)

text \<open>Claim C39. Shadow mode decides every call as cold start does and leaves the counter of serial reads
  the same, whatever the governor answers, provided the governor ends and its comparison can be
  written down.\<close>

theorem shadow_decides_like_cold_start:
  assumes "re_governor_runs env" and "re_shadow_writable env"
    and "read_mode shadow = ''shadow''" and "read_mode cold = ''cold_start''"
  shows "fst (route_gate (env\<lparr>re_mode_policy := shadow\<rparr>) payload w) = fst (route_gate (env\<lparr>re_mode_policy := cold\<rparr>) payload w)
    \<and> rw_recon (snd (route_gate (env\<lparr>re_mode_policy := shadow\<rparr>) payload w))
      = rw_recon (snd (route_gate (env\<lparr>re_mode_policy := cold\<rparr>) payload w))"
proof -
  have same: "fst (shadow_gate (env\<lparr>re_mode_policy := shadow\<rparr>) p w) = fst (cold_start_gate (env\<lparr>re_mode_policy := cold\<rparr>) p w)
      \<and> rw_recon (snd (shadow_gate (env\<lparr>re_mode_policy := shadow\<rparr>) p w))
        = rw_recon (snd (cold_start_gate (env\<lparr>re_mode_policy := cold\<rparr>) p w))" for p
  proof -
    let ?env = "env\<lparr>re_mode_policy := shadow\<rparr>"
    have first: "run_first (env\<lparr>re_mode_policy := m\<rparr>) p w = run_first env p w" for m by (simp add: run_first_def)
    have second: "run_governor (env\<lparr>re_mode_policy := m\<rparr>) p v = run_governor env p v" for m v by (simp add: run_governor_def)
    obtain r w1 where v1: "run_first env p w = (r, w1)" by (cases "run_first env p w")
    obtain q w2 where v2: "run_governor env p w1 = (q, w2)" by (cases "run_governor env p w1")
    have "q \<noteq> Not_run" using run_governor_ends [OF assms(1), of p w1] v2 by simp
    then show ?thesis
      using run_governor_frame [OF v2] assms(2)
      by (cases r; cases q) (simp_all add: shadow_gate_def cold_start_gate_def first second v1 v2 printed_def append_shadow_def)
  qed
  show ?thesis
  proof (cases "\<exists>p. payload = Some (JObj p)")
    case True
    then obtain p where p: "payload = Some (JObj p)" by blast
    show ?thesis using same [of p] assms(3,4) by (auto simp: p route_gate_def split: prod.splits)
  next
    case False
    then show ?thesis by (cases payload) (auto simp: route_gate_def split: json.splits)
  qed
qed

text \<open>Without that proviso the first gate's denial is lost: the router runs the governor before it prints,
  and ends without a word when that process cannot be run.\<close>

lemma shadow_loses_denials:
  assumes "\<not> re_governor_runs env" and "read_mode (re_mode_policy env) = ''shadow''"
  shows "fst (route_gate env (Some (JObj p)) w) = Some None"
  using assms by (auto simp: route_gate_def shadow_gate_def run_governor_def split: prod.splits gate_run.splits)

section \<open>Serial reads\<close>

definition planning_read :: "rat \<Rightarrow> first_env \<times> jobj \<Rightarrow> bool" where
  "planning_read t call = (case call of (env, p) \<Rightarrow>
     (\<exists>name ledger. jget p ''tool_name'' = JStr name \<and> \<not> gives_birth (py_lower name)
        \<and> startswith_any (py_lower name) GATED_TOOLS \<and> role_text env p \<in> {[], ''sol'', ''root'', ''default''}
        \<and> fe_ledger env = Doc ledger \<and> plain_loop_state ledger = Inr ''planning'')
     \<and> t \<le> fe_now env \<and> fe_now env \<le> t + RECON_WINDOW)"

fun serial_reads :: "(first_env \<times> jobj) list \<Rightarrow> recon \<Rightarrow> (py_error + tool_denial option) list" where
  "serial_reads [] st = []"
| "serial_reads ((env, p) # calls) st =
     (case first_gate env (Some (JObj p)) st of (d, st') \<Rightarrow> d # serial_reads calls st')"

lemma planning_read_gate:
  assumes "planning_read t (env, p)"
  shows "first_gate env (Some (JObj p)) st = (case recon_enforce (fe_now env) (fe_profiles env) st of (d, st') \<Rightarrow> (Inr d, st'))"
proof -
  obtain name ledger where p: "jget p ''tool_name'' = JStr name" "\<not> gives_birth (py_lower name)"
    "startswith_any (py_lower name) GATED_TOOLS" "role_text env p \<in> {[], ''sol'', ''root'', ''default''}"
    "fe_ledger env = Doc ledger" "plain_loop_state ledger = Inr ''planning''"
    using assms by (auto simp: planning_read_def)
  have "role_text env p \<notin> set CHILD_ROLES" using p(4) by (auto simp: CHILD_ROLES_def)
  moreover have "text_or_empty (JStr name) = Inr name" by (cases name) (simp_all add: text_or_empty_def)
  moreover have "''planning'' \<in> set ALLOWED_STATES" by (simp add: ALLOWED_STATES_def)
  ultimately show ?thesis using p by (auto simp: first_gate_def Let_def)
qed

lemma recon_next:
  assumes "0 < t" and "t \<le> now" and "now \<le> t + RECON_WINDOW" and "rn_count st = int k"
    and "st = no_recon \<or> t \<le> rn_window st"
  shows "\<exists>st'. rn_count st' = int (Suc k) \<and> t \<le> rn_window st'
    \<and> recon_enforce now profiles st
        = (if 5 \<le> Suc k \<and> Suc k \<le> 8 then Some (Serial_reads (int (Suc k)) (pinned_worker_route profiles)) else None, st')"
  using assms
  by (auto simp: recon_enforce_def Let_def no_recon_def RECON_WINDOW_def RECON_HARD_CAP_def RECON_THRESHOLD_def)

lemma serial_from:
  assumes "0 < t" and "list_all (planning_read t) calls" and "rn_count st = int k" and "st = no_recon \<or> t \<le> rn_window st"
  shows "map (\<lambda>r. r \<noteq> Inr None) (serial_reads calls st) = map (\<lambda>n. 5 \<le> n \<and> n \<le> 8) [Suc k..<Suc (k + length calls)]
    \<and> list_all (\<lambda>r. \<exists>d. r = Inr d) (serial_reads calls st)"
  using assms(2-4)
proof (induction calls arbitrary: st k)
  case Nil
  then show ?case by simp
next
  case (Cons call calls)
  obtain env p where call: "call = (env, p)" by (cases call)
  have read: "planning_read t (env, p)" using Cons.prems(1) call by simp
  then have now: "t \<le> fe_now env" "fe_now env \<le> t + RECON_WINDOW" by (auto simp: planning_read_def)
  obtain st' where st': "rn_count st' = int (Suc k)" "t \<le> rn_window st'"
    and step: "recon_enforce (fe_now env) (fe_profiles env) st
      = (if 5 \<le> Suc k \<and> Suc k \<le> 8 then Some (Serial_reads (int (Suc k)) (pinned_worker_route (fe_profiles env))) else None, st')"
    using recon_next [OF assms(1) now Cons.prems(2,3)] by blast
  have "list_all (planning_read t) calls" using Cons.prems(1) by simp
  note rest = Cons.IH [OF this st'(1)]
  have range: "[Suc k..<Suc (k + length (call # calls))] = Suc k # [Suc (Suc k)..<Suc (Suc k + length calls)]"
    by (simp add: upt_conv_Cons del: upt_Suc)
  show ?case
    unfolding range using rest st'(2) by (simp add: call planning_read_gate [OF read] step)
qed

text \<open>While planning, in one window of fifteen minutes and without a birth in between, the fifth
  to the eighth serial read of the root are refused, each with an order to delegate, and every
  other one passes; from the ninth on the gate lets everything through.\<close>

theorem serial_reads_are_refused:
  assumes "0 < t" and "list_all (planning_read t) calls"
  shows "map (\<lambda>r. r \<noteq> Inr None) (serial_reads calls no_recon) = map (\<lambda>n. 5 \<le> n \<and> n \<le> 8) [1..<Suc (length calls)]
    \<and> list_all (\<lambda>r. \<exists>d. r = Inr d) (serial_reads calls no_recon)"
proof -
  have "rn_count no_recon = int 0" "no_recon = no_recon \<or> t \<le> rn_window no_recon" by (simp_all add: no_recon_def)
  from serial_from [OF assms this] show ?thesis unfolding add_0 One_nat_def .
qed

lemma birth_resets_reads:
  assumes "jget p ''tool_name'' = JStr name" and "gives_birth (py_lower name)"
  shows "first_gate env (Some (JObj p)) st = (Inr None, no_recon)"
proof -
  have "text_or_empty (JStr name) = Inr name" by (cases name) (simp_all add: text_or_empty_def)
  then show ?thesis using assms by (simp add: first_gate_def Let_def)
qed

text \<open>The first gate lets a session choose its own state: the key in the ledger wins, attested or not.\<close>

lemma bare_key_opens_first_gate:
  assumes "fe_ledger env = Doc (JObj led)" and "jget led ''loop_state'' = JStr ''adjudication''"
    and "jget p ''tool_name'' = JStr name" and "role_text env p \<in> {[], ''sol'', ''root'', ''default''}"
  shows "fst (first_gate env (Some (JObj p)) st) = Inr None"
proof -
  have "text_or_empty (JStr name) = Inr name" by (cases name) (simp_all add: text_or_empty_def)
  moreover have "''adjudication'' \<in> set ALLOWED_STATES" by (simp add: ALLOWED_STATES_def)
  ultimately show ?thesis using assms by (auto simp: first_gate_def Let_def plain_loop_state_def)
qed

section \<open>Examples\<close>

definition demo_first_env :: first_env where
  "demo_first_env = \<lparr>fe_now = 1000, fe_ledger = Doc (JObj []), fe_profiles = Profile_unreadable, fe_str = (\<lambda>v. [])\<rparr>"

definition demo_call :: jobj where
  "demo_call = [(''tool_name'', JStr ''Bash''), (''model'', JStr ''gpt-sol'')]"

definition demo_layered_policy :: jobj where
  "demo_layered_policy = (''routing'', JObj [(''mode'', JStr ''layered'')]) # example_models"

definition demo_router_env :: router_env where
  "demo_router_env = \<lparr>re_found = (\<lambda>p. True), re_mode_policy = Some demo_layered_policy, re_first = demo_first_env, re_first_runs = True,
     re_governor = \<lparr>ge_now = 150, ge_policy = Inr demo_layered_policy, ge_meter = Missing, ge_meter_path = ''meter.json'',
       ge_budget = Missing, ge_override = []\<rparr>,
     re_governor_runs = True, re_marker = Some demo_marker, re_policy_hash = Some ''abc'', re_shadow_writable = True, re_str = (\<lambda>v. [])\<rparr>"

definition demo_router_world :: router_world where
  "demo_router_world = \<lparr>rw_recon = no_recon, rw_governor = example_world Missing, rw_shadow = []\<rparr>"

definition mode_marker :: json where
  "mode_marker = JObj [(''schema'', JStr MODE_SCHEMA), (''active'', JBool True), (''control_root'', JStr ''/loop'')]"

lemma demo_call_passes:
  "fst (loop_mode_gate (\<lambda>v. Some ''/loop'') ''/loop'' (Some mode_marker) True demo_router_env (Some (JObj demo_call)) demo_router_world) = None"
  by code_simp


theorem shadow_decides_like_cold_start_witness:
  "fst (route_gate (demo_router_env\<lparr>re_mode_policy := Some [(''routing'', JObj [(''mode'', JStr ''shadow'')])]\<rparr>) (Some (JObj demo_call)) demo_router_world)
    = fst (route_gate (demo_router_env\<lparr>re_mode_policy := None\<rparr>) (Some (JObj demo_call)) demo_router_world)"
proof -
  have "read_mode (Some [(''routing'', JObj [(''mode'', JStr ''shadow'')])]) = ''shadow''" "read_mode None = ''cold_start''" by code_simp+
  moreover have "re_governor_runs demo_router_env" "re_shadow_writable demo_router_env" by (simp_all add: demo_router_env_def)
  ultimately show ?thesis using shadow_decides_like_cold_start by blast
qed

theorem serial_reads_are_refused_witness:
  "map (\<lambda>r. r \<noteq> Inr None) (serial_reads (replicate 9 (demo_first_env, demo_call)) no_recon)
     = [False, False, False, False, True, True, True, True, False]"
proof -
  have "jget demo_call ''tool_name'' = JStr ''Bash''" "\<not> gives_birth (py_lower ''Bash'')" "startswith_any (py_lower ''Bash'') GATED_TOOLS"
    "role_text demo_first_env demo_call = []" "plain_loop_state (JObj []) = Inr ''planning''" by code_simp+
  then have "planning_read 1000 (demo_first_env, demo_call)"
    by (simp add: planning_read_def demo_first_env_def RECON_WINDOW_def)
  then have "list_all (planning_read 1000) (replicate 9 (demo_first_env, demo_call))" by (simp add: list_all_iff)
  from serial_reads_are_refused [OF _ this] show ?thesis by (simp add: upt_rec)
qed
end
