(* ===== verification/Parent_Import.thy ===== *)
theory Parent_Import
  imports Dispatch Diff_Gate Refill_Consumer
begin

text \<open>
  The importer of parent manifests, \<open>src/harness/parent_manifest_importer.py\<close>: the validation of a
  manifest, the two checks of its parent, the batch that creates packet files and ledger entries,
  and the wake of the actuator. A manifest is admitted in four phases with other processes between
  them: the first look at the parent, the batch under the lock of the ledger, the registration of
  the parent under its own lock, and the announcement. Path resolution, the directories that exist,
  the digest and the actuator are arguments; texts are ASCII.
\<close>

section \<open>Equality of documents\<close>

lemma member_smaller: "p \<in> set d \<Longrightarrow> size (snd p) < size (JObj d)"
  by (induction d) auto

lemma item_smaller: "x \<in> set xs \<Longrightarrow> size x < size (JList xs)"
  by (induction xs) auto

text \<open>\<open>==\<close> of nested documents: the order of an object's members does not count.\<close>

function json_eq :: "json \<Rightarrow> json \<Rightarrow> bool" where
  "json_eq a b =
     (case (a, b) of
        (JObj d, JObj e) \<Rightarrow> fst ` set d = fst ` set e
          \<and> list_all (\<lambda>p. case map_of e (fst p) of None \<Rightarrow> False | Some v \<Rightarrow> json_eq (snd p) v) d
      | (JList xs, JList ys) \<Rightarrow> length xs = length ys \<and> list_all (\<lambda>p. json_eq (fst p) (snd p)) (zip xs ys)
      | _ \<Rightarrow> py_eq a b)"
  by pat_completeness auto

termination
  by (relation "measure (\<lambda>(a, b). size a)") (auto dest!: set_zip_leftD intro: member_smaller item_smaller)

declare json_eq.simps [simp del]

section \<open>Validation\<close>

datatype import_error = Rejected string | Policy_failed policy_error | Raised py_error

record import_env =
  ie_policy :: "policy_error + jobj"
  ie_resolve :: "string \<Rightarrow> string option"
  ie_ancestors :: "string \<Rightarrow> string list"
  ie_roots :: "string list"
  ie_is_dir :: "string \<Rightarrow> bool"
  ie_digest :: "string \<Rightarrow> string \<Rightarrow> string"
  ie_now :: rat
  ie_start_token :: "int \<Rightarrow> int option"
  ie_new_pid :: int
  ie_wake_ok :: bool

definition PARENT_ROLES :: "string list" where
  "PARENT_ROLES = [''worker'', ''verifier'', ''reviewer'', ''plan_expander'']"

definition PARENT_K3_ROLES :: "string list" where
  "PARENT_K3_ROLES = [''verifier'', ''reviewer'', ''plan_expander'']"

definition ACTIVE_PARENT_STATES :: "string list" where
  "ACTIVE_PARENT_STATES = [''active'', ''running'', ''loaded'', ''execution'', ''in_progress'', ''pending'']"

definition TERMINAL_PARENT_STATES :: "string list" where
  "TERMINAL_PARENT_STATES = [''completed'', ''complete'', ''done'', ''failed'', ''cancelled'', ''canceled'',
     ''stopped'', ''terminated'', ''terminal'', ''dead_letter'']"

definition text_field :: "json \<Rightarrow> string \<Rightarrow> nat \<Rightarrow> import_error + string" where
  "text_field v field maximum =
     (case v of
        JStr s \<Rightarrow> if py_strip s = [] \<or> maximum < length (py_strip s) then Inl (Rejected field) else Inr (py_strip s)
      | _ \<Rightarrow> Inl (Rejected field))"

definition id_field :: "json \<Rightarrow> string \<Rightarrow> import_error + string" where
  "id_field v field =
     (case text_field v field 96 of
        Inl e \<Rightarrow> Inl e
      | Inr s \<Rightarrow> if valid_pid s then Inr s else Inl (Rejected field))"

fun text_items :: "json list \<Rightarrow> string \<Rightarrow> import_error + string list" where
  "text_items [] field = Inr []"
| "text_items (v # vs) field =
     (case text_field v field 4000 of
        Inl e \<Rightarrow> Inl e
      | Inr s \<Rightarrow> (case text_items vs field of Inl e \<Rightarrow> Inl e | Inr ss \<Rightarrow> Inr (s # ss)))"

definition list_of_text :: "json \<Rightarrow> string \<Rightarrow> import_error + string list" where
  "list_of_text v field =
     (case v of
        JList vs \<Rightarrow> if vs = [] then Inl (Rejected field) else text_items vs field
      | _ \<Rightarrow> Inl (Rejected field))"

definition slashes :: "string \<Rightarrow> string" where
  "slashes s = map (\<lambda>c. if c = CHR 0x5C then CHR ''/'' else c) s"

definition is_letter :: "char \<Rightarrow> bool" where
  "is_letter c = (let n = of_char c :: int in 65 \<le> n \<and> n \<le> 90 \<or> 97 \<le> n \<and> n \<le> 122)"

definition has_drive :: "string \<Rightarrow> bool" where
  "has_drive s = (case s of a # b # c # cs \<Rightarrow> is_letter a \<and> b = CHR '':'' \<and> c = CHR ''/'' | _ \<Rightarrow> False)"

definition stays_below :: "string \<Rightarrow> bool" where
  "stays_below item =
     (let path = slashes item in
      \<not> prefix ''/'' path \<and> \<not> has_drive path \<and> ''..'' \<notin> set (split_on (CHR ''/'') path))"

definition relative_authorized_paths :: "json \<Rightarrow> string \<Rightarrow> import_error + string list" where
  "relative_authorized_paths v field =
     (case list_of_text v field of
        Inl e \<Rightarrow> Inl e
      | Inr paths \<Rightarrow> if list_all stays_below paths then Inr paths else Inl (Rejected field))"

definition allowed_cwd :: "import_env \<Rightarrow> string \<Rightarrow> bool" where
  "allowed_cwd env cwd \<longleftrightarrow> (\<exists>r \<in> set (filter (ie_is_dir env) (ie_roots env)). cwd = r \<or> r \<in> set (ie_ancestors env cwd))"

definition safe_cwd :: "import_env \<Rightarrow> json \<Rightarrow> import_error + string" where
  "safe_cwd env v =
     (case text_field v ''cwd'' 1000 of
        Inl e \<Rightarrow> Inl e
      | Inr raw \<Rightarrow>
          if ''..'' \<in> set (split_on (CHR ''/'') (slashes raw)) then Inl (Rejected ''cwd'')
          else (case ie_resolve env raw of
                  None \<Rightarrow> Inl (Rejected ''cwd'')
                | Some cwd \<Rightarrow> if allowed_cwd env cwd \<and> ie_is_dir env cwd then Inr cwd else Inl (Rejected ''cwd'')))"

definition parent_state :: "jobj \<Rightarrow> import_error + unit" where
  "parent_state doc =
     (let v = jget_or (jget_or (jget doc ''state'') doc ''status'') doc ''parent_state'' in
      if v = JNull then Inr ()
      else case text_field v ''parent_state'' 64 of
        Inl e \<Rightarrow> Inl e
      | Inr s \<Rightarrow> if py_lower s \<in> set TERMINAL_PARENT_STATES \<or> py_lower s \<notin> set ACTIVE_PARENT_STATES
                then Inl (Rejected ''parent_inactive'') else Inr ())"

definition hex_char :: "char \<Rightarrow> bool" where
  "hex_char c = (let n = of_char c :: int in 48 \<le> n \<and> n \<le> 57 \<or> 65 \<le> n \<and> n \<le> 70 \<or> 97 \<le> n \<and> n \<le> 102)"

definition is_uuid :: "string \<Rightarrow> bool" where
  "is_uuid s = (map length (split_on (CHR ''-'') s) = [8, 4, 4, 4, 12] \<and> list_all (list_all hex_char) (split_on (CHR ''-'') s))"

record parent_task =
  pt_id :: string
  pt_name :: string
  pt_goal :: string
  pt_paths :: "string list"
  pt_acceptance :: "string list"
  pt_role :: string
  pt_cwd :: string

record manifest =
  mf_id :: string
  mf_parent :: string
  mf_target :: int
  mf_cwd :: string
  mf_tasks :: "parent_task list"

text \<open>A role that is no scalar cannot be looked up in a set.\<close>

definition role_field :: "json \<Rightarrow> import_error + string" where
  "role_field v =
     (if \<not> hashable v then Inl (Raised TypeError)
      else case v of JStr s \<Rightarrow> if s \<in> set PARENT_ROLES then Inr s else Inl (Rejected ''role'') | _ \<Rightarrow> Inl (Rejected ''role''))"

definition task_fields :: "import_env \<Rightarrow> string \<Rightarrow> string \<Rightarrow> jobj \<Rightarrow> import_error + parent_task" where
  "task_fields env cwd task_id task =
     (case text_field (jget task ''task_name'') ''task_name'' 160 of Inl e \<Rightarrow> Inl e | Inr name \<Rightarrow>
     (case role_field (jget task ''role'') of Inl e \<Rightarrow> Inl e | Inr role \<Rightarrow>
      if jget task ''sandbox'' \<noteq> JStr ''read-only'' then Inl (Rejected ''sandbox'')
      else if jget task ''allow_write'' = JBool True \<or> jget task ''workspace_write'' = JBool True then Inl (Rejected ''write'')
      else
     (case text_field (jget_or (jget task ''prompt'') task ''goal'') ''goal'' 20000 of Inl e \<Rightarrow> Inl e | Inr goal \<Rightarrow>
     (case relative_authorized_paths (jget task ''authorized_paths'') ''authorized_paths'' of Inl e \<Rightarrow> Inl e | Inr paths \<Rightarrow>
     (case list_of_text (jget task ''acceptance'') ''acceptance'' of Inl e \<Rightarrow> Inl e | Inr acceptance \<Rightarrow>
     (case safe_cwd env (jget_or (JStr cwd) task ''cwd'') of Inl e \<Rightarrow> Inl e | Inr task_cwd \<Rightarrow>
      Inr \<lparr>pt_id = task_id, pt_name = name, pt_goal = goal, pt_paths = paths, pt_acceptance = acceptance,
        pt_role = role, pt_cwd = task_cwd\<rparr>))))))"

fun task_list :: "import_env \<Rightarrow> string \<Rightarrow> string list \<Rightarrow> json list \<Rightarrow> import_error + parent_task list" where
  "task_list env cwd taken [] = Inr []"
| "task_list env cwd taken (v # vs) =
     (case v of
        JObj task \<Rightarrow>
          (case id_field (jget task ''task_id'') ''task_id'' of
             Inl e \<Rightarrow> Inl e
           | Inr task_id \<Rightarrow>
               if task_id \<in> set taken then Inl (Rejected ''task_id'')
               else (case task_fields env cwd task_id task of
                       Inl e \<Rightarrow> Inl e
                     | Inr t \<Rightarrow> (case task_list env cwd (task_id # taken) vs of Inl e \<Rightarrow> Inl e | Inr ts \<Rightarrow> Inr (t # ts))))
      | _ \<Rightarrow> Inl (Rejected ''task''))"

definition validate_manifest :: "import_env \<Rightarrow> json \<Rightarrow> import_error + manifest" where
  "validate_manifest env content =
     (case content of JObj doc \<Rightarrow>
      if jget doc ''schema'' \<noteq> JStr ''codex-loop-parent-refill/v1'' then Inl (Rejected ''schema'')
      else
     (case id_field (jget doc ''manifest_id'') ''manifest_id'' of Inl e \<Rightarrow> Inl e | Inr manifest_id \<Rightarrow>
     (case text_field (jget doc ''parent_session_id'') ''parent_session_id'' 64 of Inl e \<Rightarrow> Inl e | Inr parent \<Rightarrow>
      if \<not> is_uuid parent then Inl (Rejected ''parent_session_id'')
      else if jget doc ''enabled'' \<noteq> JBool True then Inl (Rejected ''parent_inactive'')
      else if jget doc ''mode'' \<noteq> JStr ''read-only'' then Inl (Rejected ''mode'')
      else
     (case parent_state doc of Inl e \<Rightarrow> Inl e | Inr u \<Rightarrow>
     (case ie_policy env of Inl e \<Rightarrow> Inl (Policy_failed e) | Inr policy \<Rightarrow>
     (case (dialogue_target policy, target_total policy) of
        (Inl e, _) \<Rightarrow> Inl (Policy_failed e)
      | (Inr _, Inl e) \<Rightarrow> Inl (Policy_failed e)
      | (Inr max_active, Inr max_backlog) \<Rightarrow>
     (case jget doc ''target_active'' of
        JInt target \<Rightarrow>
          if target < 1 \<or> max_active < target then Inl (Rejected ''target_active'')
          else
         (case safe_cwd env (jget doc ''cwd'') of Inl e \<Rightarrow> Inl e | Inr cwd \<Rightarrow>
         (case jget doc ''tasks'' of
            JList tasks \<Rightarrow>
              if tasks = [] \<or> max_backlog < int (length tasks) then Inl (Rejected ''tasks'')
              else (case task_list env cwd [] tasks of Inl e \<Rightarrow> Inl e | Inr ts \<Rightarrow>
                Inr \<lparr>mf_id = manifest_id, mf_parent = parent, mf_target = target, mf_cwd = cwd, mf_tasks = ts\<rparr>)
          | _ \<Rightarrow> Inl (Rejected ''tasks'')))
      | _ \<Rightarrow> Inl (Rejected ''target_active'')))))))
      | _ \<Rightarrow> Inl (Rejected ''manifest''))"

section \<open>Packets and entries\<close>

definition packet_id_for :: "import_env \<Rightarrow> string \<Rightarrow> string \<Rightarrow> string" where
  "packet_id_for env manifest_id task_id = ''parent-'' @ take 48 (ie_digest env manifest_id task_id)"

definition jtexts :: "string list \<Rightarrow> json" where
  "jtexts ss = JList (map JStr ss)"

definition packet_doc :: "manifest \<Rightarrow> parent_task \<Rightarrow> string \<Rightarrow> jobj" where
  "packet_doc mf t pid =
     [(''packet_id'', JStr pid), (''goal'', JStr (pt_goal t)),
      (''authorized_paths'', jtexts (pt_paths t)),
      (''acceptance'', jtexts (pt_acceptance t)), (''constraints'', JList [JStr ''read-only'']),
      (''task_name'', JStr (pt_name t)), (''role'', JStr (pt_role t)),
      (''sandbox'', JStr ''read-only''), (''cwd'', JStr (pt_cwd t)),
      (''parent_session_id'', JStr (mf_parent mf)),
      (''manifest_id'', JStr (mf_id mf)), (''parent_enabled'', JBool True),
      (''created_by'', JStr ''parent_manifest_importer'')]"

definition immutable_entry :: "manifest \<Rightarrow> parent_task \<Rightarrow> jobj" where
  "immutable_entry mf t =
     [(''role'', JStr (pt_role t)),
      (''pool_hint'', JStr (if pt_role t \<in> set PARENT_K3_ROLES then ''k3'' else ''v4'')),
      (''task_name'', JStr (pt_name t)), (''goal'', JStr (pt_goal t)),
      (''parent_session_id'', JStr (mf_parent mf)),
      (''manifest_id'', JStr (mf_id mf)), (''parent_enabled'', JBool True),
      (''created_by'', JStr ''parent_manifest_importer''), (''sandbox'', JStr ''read-only''),
      (''cwd'', JStr (pt_cwd t)), (''authorized_paths'', jtexts (pt_paths t)),
      (''acceptance'', jtexts (pt_acceptance t))]"

text \<open>The whole entry: the immutable part and the three fields that evolve.\<close>

definition entry_doc :: "manifest \<Rightarrow> parent_task \<Rightarrow> jobj" where
  "entry_doc mf t =
     [(''state'', JStr ''DISPATCHABLE''), (''history'', JList []), (''attempts'', JInt 0)] @ immutable_entry mf t"

definition prior_immutable :: "json \<Rightarrow> jobj \<Rightarrow> json" where
  "prior_immutable prior fresh =
     (case prior of JObj d \<Rightarrow> JObj (map (\<lambda>p. (fst p, jget d (fst p))) fresh) | _ \<Rightarrow> JNull)"

section \<open>The batch\<close>

record import_row =
  ir_packet_id :: string
  ir_packet :: jobj
  ir_entry :: jobj
  ir_write_packet :: bool
  ir_write_entry :: bool

text \<open>\<open>None\<close> when both files have the task already. A packet file that cannot be read counts as missing.\<close>

definition plan_task ::
  "import_env \<Rightarrow> manifest \<Rightarrow> json dict \<Rightarrow> jobj \<Rightarrow> parent_task \<Rightarrow> import_error + import_row option" where
  "plan_task env mf files entries t =
     (let pid = packet_id_for env (mf_id mf) (pt_id t);
          packet = packet_doc mf t pid;
          prior_packet = dict_get_or JNull pid files;
          prior_entry = jget entries pid in
      if prior_packet \<noteq> JNull \<and> \<not> json_eq prior_packet (JObj packet)
        \<or> prior_entry \<noteq> JNull \<and> \<not> json_eq (prior_immutable prior_entry (immutable_entry mf t)) (JObj (immutable_entry mf t))
      then Inl (Rejected ''collision'')
      else if prior_packet \<noteq> JNull \<and> prior_entry \<noteq> JNull then Inr None
      else Inr (Some \<lparr>ir_packet_id = pid, ir_packet = packet, ir_entry = entry_doc mf t,
             ir_write_packet = (prior_packet = JNull), ir_write_entry = (prior_entry = JNull)\<rparr>))"

fun plan_tasks ::
  "import_env \<Rightarrow> manifest \<Rightarrow> json dict \<Rightarrow> jobj \<Rightarrow> parent_task list \<Rightarrow> import_error + (import_row list \<times> nat)" where
  "plan_tasks env mf files entries [] = Inr ([], 0)"
| "plan_tasks env mf files entries (t # ts) =
     (case plan_task env mf files entries t of
        Inl e \<Rightarrow> Inl e
      | Inr row \<Rightarrow>
          (case plan_tasks env mf files entries ts of
             Inl e \<Rightarrow> Inl e
           | Inr (rows, existing) \<Rightarrow>
               (case row of None \<Rightarrow> Inr (rows, Suc existing) | Some r \<Rightarrow> Inr (r # rows, existing))))"

definition write_packet :: "import_row \<Rightarrow> json dict \<Rightarrow> json dict" where
  "write_packet r files = (if ir_write_packet r then dict_set (ir_packet_id r) (JObj (ir_packet r)) files else files)"

definition write_entry :: "import_row \<Rightarrow> jobj \<Rightarrow> jobj" where
  "write_entry r entries = (if ir_write_entry r then dict_set (ir_packet_id r) (JObj (ir_entry r)) entries else entries)"

text \<open>The files on disk and the documents in them; an unreadable or missing one is \<open>None\<close>.\<close>

record import_world =
  iw_sessions :: "json option"
  iw_packets :: "json dict"
  iw_ledger :: "json option"
  iw_events :: "(string \<times> string \<times> nat \<times> nat) list"
  iw_marker :: "marker_file option"
  iw_requests :: requests

text \<open>\<open>read_json(path, d) or d\<close>\<close>

definition read_or :: "json \<Rightarrow> json option \<Rightarrow> json" where
  "read_or d content = (case content of None \<Rightarrow> d | Some v \<Rightarrow> py_or v d)"

definition ledger_packets :: "json \<Rightarrow> import_error + (jobj \<times> jobj)" where
  "ledger_packets v =
     (case v of
        JObj ledger \<Rightarrow>
          (case jget_or (JObj []) ledger ''packets'' of
             JObj entries \<Rightarrow> if dict_has ''packets'' ledger then Inr (ledger, entries) else Inl (Raised KeyError)
           | _ \<Rightarrow> Inl (Rejected ''ledger''))
      | _ \<Rightarrow> Inl (Rejected ''ledger''))"

definition stored_ledger :: "jobj \<Rightarrow> jobj \<Rightarrow> json" where
  "stored_ledger ledger entries =
     JObj (dict_set ''schema'' (jget_or (JStr ''codex-loop-statemachine/v2'') ledger ''schema'')
       (dict_set ''packets'' (JObj entries) ledger))"

text \<open>Under the lock of the ledger: everything is checked before the first write.\<close>

definition import_packets ::
  "import_env \<Rightarrow> manifest \<Rightarrow> import_world \<Rightarrow> (import_error + (nat \<times> nat)) \<times> import_world" where
  "import_packets env mf w =
     (case ledger_packets (read_or (JObj [(''packets'', JObj [])]) (iw_ledger w)) of
        Inl e \<Rightarrow> (Inl e, w)
      | Inr (ledger, entries) \<Rightarrow>
          (case plan_tasks env mf (iw_packets w) entries (mf_tasks mf) of
             Inl e \<Rightarrow> (Inl e, w)
           | Inr (rows, existing) \<Rightarrow>
               (Inr (length rows, existing),
                w\<lparr>iw_packets := fold write_packet rows (iw_packets w),
                  iw_ledger := Some (stored_ledger ledger (fold write_entry rows entries))\<rparr>)))"

text \<open>The same phase, ended by a crash after \<open>n\<close> rows of the batch: the ledger is not written.\<close>

definition import_crashed :: "import_env \<Rightarrow> manifest \<Rightarrow> nat \<Rightarrow> import_world \<Rightarrow> import_world" where
  "import_crashed env mf n w =
     (case ledger_packets (read_or (JObj [(''packets'', JObj [])]) (iw_ledger w)) of
        Inl e \<Rightarrow> w
      | Inr (ledger, entries) \<Rightarrow>
          (case plan_tasks env mf (iw_packets w) entries (mf_tasks mf) of
             Inl e \<Rightarrow> w
           | Inr (rows, existing) \<Rightarrow> w\<lparr>iw_packets := fold write_packet (take n rows) (iw_packets w)\<rparr>))"

section \<open>The parent\<close>

definition is_stopped :: "json \<Rightarrow> bool" where
  "is_stopped row = (case row of JObj d \<Rightarrow> jget d ''active'' = JBool False | _ \<Rightarrow> False)"

text \<open>The first look: a parent that is on record as stopped ends the import.\<close>

definition admit_parent :: "manifest \<Rightarrow> json option \<Rightarrow> import_error + unit" where
  "admit_parent mf content =
     (case read_or (JObj [(''parents'', JObj [])]) content of
        JObj sessions \<Rightarrow>
          (case py_or (jget sessions ''parents'') (JObj []) of
             JObj parents \<Rightarrow> if is_stopped (jget parents (mf_parent mf)) then Inl (Rejected ''parent_inactive'') else Inr ()
           | _ \<Rightarrow> Inl (Raised AttributeError))
      | _ \<Rightarrow> Inl (Raised AttributeError))"

definition parent_row :: "import_env \<Rightarrow> manifest \<Rightarrow> json" where
  "parent_row env mf =
     JObj [(''active'', JBool True), (''manifest_id'', JStr (mf_id mf)), (''target_active'', JInt (mf_target mf)),
       (''cwd'', JStr (mf_cwd mf)), (''mode'', JStr ''read-only''), (''updated_at'', JFloat (ie_now env)),
       (''source'', JStr ''parent_manifest_importer'')]"

text \<open>The registration looks again: the parent may have stopped while the batch was written.\<close>

definition register_parent :: "import_env \<Rightarrow> manifest \<Rightarrow> import_world \<Rightarrow> (import_error + unit) \<times> import_world" where
  "register_parent env mf w =
     (case read_or (JObj [(''parents'', JObj [])]) (iw_sessions w) of
        JObj sessions \<Rightarrow>
          (case jget_or (JObj []) sessions ''parents'' of
             JObj parents \<Rightarrow>
               if is_stopped (jget parents (mf_parent mf)) then (Inl (Rejected ''parent_inactive''), w)
               else (Inr (), w\<lparr>iw_sessions := Some (JObj (dict_set ''parents''
                       (JObj (dict_set (mf_parent mf) (parent_row env mf) parents)) sessions))\<rparr>)
           | _ \<Rightarrow> (Inl (Raised AttributeError), w))
      | _ \<Rightarrow> (Inl (Raised AttributeError), w))"

section \<open>The import\<close>

datatype actuator = Woken scheduled | Wake_failed

record import_report =
  rp_imported :: nat
  rp_existing :: nat
  rp_ids :: "string list"
  rp_actuator :: actuator

definition wake_actuator :: "import_env \<Rightarrow> manifest \<Rightarrow> import_world \<Rightarrow> actuator \<times> import_world" where
  "wake_actuator env mf w =
     (if ie_wake_ok env
      then (let (result, marker, rq) = schedule_run (ie_start_token env) (ie_new_pid env) (iw_marker w) (iw_requests w) in
            (Woken result, w\<lparr>iw_marker := marker, iw_requests := rq\<rparr>))
      else (Wake_failed, w\<lparr>iw_events := iw_events w @ [(''refill_actuator_failed'', mf_id mf, 0, 0)]\<rparr>))"

definition announce :: "import_env \<Rightarrow> manifest \<Rightarrow> nat \<Rightarrow> nat \<Rightarrow> import_world \<Rightarrow> import_report \<times> import_world" where
  "announce env mf imported existing w =
     (let (actuator, w') = wake_actuator env mf
            (w\<lparr>iw_events := iw_events w @ [(''parent_manifest_imported'', mf_id mf, imported, existing)]\<rparr>) in
      (\<lparr>rp_imported = imported, rp_existing = existing,
         rp_ids = map (\<lambda>t. packet_id_for env (mf_id mf) (pt_id t)) (mf_tasks mf), rp_actuator = actuator\<rparr>, w'))"

definition run_import ::
  "import_env \<Rightarrow> manifest \<Rightarrow> import_world \<Rightarrow> (import_error + import_report) \<times> import_world" where
  "run_import env mf w =
     (case admit_parent mf (iw_sessions w) of
        Inl e \<Rightarrow> (Inl e, w)
      | Inr _ \<Rightarrow>
          (case import_packets env mf w of
             (Inl e, w1) \<Rightarrow> (Inl e, w1)
           | (Inr (imported, existing), w1) \<Rightarrow>
               (case register_parent env mf w1 of
                  (Inl e, w2) \<Rightarrow> (Inl e, w2)
                | (Inr _, w2) \<Rightarrow> (let (report, w3) = announce env mf imported existing w2 in (Inr report, w3)))))"

definition import_manifest ::
  "import_env \<Rightarrow> json option \<Rightarrow> import_world \<Rightarrow> (import_error + import_report) \<times> import_world" where
  "import_manifest env content w =
     (case content of
        None \<Rightarrow> (Inl (Rejected ''manifest''), w)
      | Some v \<Rightarrow> (case validate_manifest env v of Inl e \<Rightarrow> (Inl e, w) | Inr mf \<Rightarrow> run_import env mf w))"

text \<open>The exit code: an admission error is reported, anything else ends the program with a traceback.\<close>

fun exit_code :: "import_error + import_report \<Rightarrow> int option" where
  "exit_code (Inr report) = Some 0"
| "exit_code (Inl (Rejected field)) = Some 3"
| "exit_code (Inl (Policy_failed e)) = None"
| "exit_code (Inl (Raised ValueError)) = Some 3"
| "exit_code (Inl (Raised e)) = None"

end
