(* ===== verification/Import_Batch.thy ===== *)
theory Import_Batch
  imports Parent_Import
begin

text \<open>
  The batch of the importer of parent manifests: its closed form, what a crash in the middle of it
  leaves and how the next import of the manifest finishes it, and that importing again changes nothing.
\<close>

section \<open>Equality of the documents that are written\<close>

lemma json_eq_list: "\<forall>x \<in> set xs. json_eq x x \<Longrightarrow> json_eq (JList xs) (JList xs)"
  by (subst json_eq.simps) (auto simp: list_all_iff zip_same)

lemma json_eq_obj: "wf_dict d \<Longrightarrow> \<forall>p \<in> set d. json_eq (snd p) (snd p) \<Longrightarrow> json_eq (JObj d) (JObj d)"
  by (subst json_eq.simps) (auto simp: list_all_iff)

lemma json_eq_atoms [simp]: "json_eq (JStr s) (JStr s)" "json_eq (JBool b) (JBool b)" "json_eq (JInt n) (JInt n)"
  by (simp_all add: json_eq.simps)

lemma json_eq_texts [simp]: "json_eq (jtexts ss) (jtexts ss)"
  by (auto simp: jtexts_def intro!: json_eq_list)

lemma packet_doc_eq [simp]: "json_eq (JObj (packet_doc mf t pid)) (JObj (packet_doc mf t pid))"
  by (rule json_eq_obj) (auto simp: packet_doc_def intro!: json_eq_list)

lemma immutable_entry_eq [simp]: "json_eq (JObj (immutable_entry mf t)) (JObj (immutable_entry mf t))"
  by (rule json_eq_obj) (auto simp: immutable_entry_def)

text \<open>What an entry may become while its packet runs: any document with the same admission contract.\<close>

definition evolved :: "manifest \<Rightarrow> parent_task \<Rightarrow> json \<Rightarrow> bool" where
  "evolved mf t v \<longleftrightarrow> (\<exists>d. v = JObj d \<and> (\<forall>p \<in> set (immutable_entry mf t). jget d (fst p) = snd p))"

lemma evolved_prior: "evolved mf t v \<Longrightarrow> prior_immutable v (immutable_entry mf t) = JObj (immutable_entry mf t)"
  by (force simp: evolved_def prior_immutable_def intro!: map_idI)

lemma entry_doc_evolved [simp]: "evolved mf t (JObj (entry_doc mf t))"
  unfolding evolved_def
  by (intro exI [of _ "entry_doc mf t"] conjI refl) (simp add: entry_doc_def immutable_entry_def jget_def dict_get_or_def)

section \<open>The batch in closed form\<close>

definition task_pid :: "import_env \<Rightarrow> manifest \<Rightarrow> parent_task \<Rightarrow> string" where
  "task_pid env mf t = packet_id_for env (mf_id mf) (pt_id t)"

abbreviation no_file :: "import_env \<Rightarrow> manifest \<Rightarrow> json dict \<Rightarrow> parent_task \<Rightarrow> bool" where
  "no_file env mf files t \<equiv> dict_get_or JNull (task_pid env mf t) files = JNull"

abbreviation no_entry :: "import_env \<Rightarrow> manifest \<Rightarrow> jobj \<Rightarrow> parent_task \<Rightarrow> bool" where
  "no_entry env mf entries t \<equiv> jget entries (task_pid env mf t) = JNull"

definition compatible :: "import_env \<Rightarrow> manifest \<Rightarrow> json dict \<Rightarrow> jobj \<Rightarrow> parent_task \<Rightarrow> bool" where
  "compatible env mf files entries t \<longleftrightarrow>
     (no_file env mf files t
       \<or> json_eq (dict_get_or JNull (task_pid env mf t) files) (JObj (packet_doc mf t (task_pid env mf t))))
     \<and> (no_entry env mf entries t
       \<or> json_eq (prior_immutable (jget entries (task_pid env mf t)) (immutable_entry mf t)) (JObj (immutable_entry mf t)))"

definition missing :: "import_env \<Rightarrow> manifest \<Rightarrow> json dict \<Rightarrow> jobj \<Rightarrow> parent_task \<Rightarrow> bool" where
  "missing env mf files entries t \<longleftrightarrow> no_file env mf files t \<or> no_entry env mf entries t"

definition row_of :: "import_env \<Rightarrow> manifest \<Rightarrow> json dict \<Rightarrow> jobj \<Rightarrow> parent_task \<Rightarrow> import_row" where
  "row_of env mf files entries t =
     \<lparr>ir_packet_id = task_pid env mf t, ir_packet = packet_doc mf t (task_pid env mf t), ir_entry = entry_doc mf t,
      ir_write_packet = no_file env mf files t, ir_write_entry = no_entry env mf entries t\<rparr>"

lemma plan_task_closed:
  "plan_task env mf files entries t =
     (if \<not> compatible env mf files entries t then Inl (Rejected ''collision'')
      else Inr (if missing env mf files entries t then Some (row_of env mf files entries t) else None))"
  by (simp add: plan_task_def compatible_def missing_def row_of_def task_pid_def Let_def)

lemma plan_tasks_closed:
  "plan_tasks env mf files entries ts =
     (if list_all (compatible env mf files entries) ts
      then Inr (map (row_of env mf files entries) (filter (missing env mf files entries) ts),
        length (filter (\<lambda>t. \<not> missing env mf files entries t) ts))
      else Inl (Rejected ''collision''))"
  by (induction ts) (auto simp: plan_task_closed)

lemma filter_split_length: "length (filter P xs) + length (filter (\<lambda>x. \<not> P x) xs) = length xs"
  by (induction xs) auto

text \<open>The entries that a batch leaves do not depend on which packet files were there.\<close>

lemma write_entry_row:
  "write_entry (row_of env mf files entries t) acc
    = (if no_entry env mf entries t then dict_set (task_pid env mf t) (JObj (entry_doc mf t)) acc else acc)"
  by (simp add: write_entry_def row_of_def)

lemma write_packet_row:
  "write_packet (row_of env mf files entries t) acc
    = (if no_file env mf files t then dict_set (task_pid env mf t) (JObj (packet_doc mf t (task_pid env mf t))) acc else acc)"
  by (simp add: write_packet_def row_of_def)

lemma fold_write_entry:
  "fold write_entry (map (row_of env mf files entries) (filter (missing env mf files entries) ts)) acc
    = fold (\<lambda>t acc. if no_entry env mf entries t then dict_set (task_pid env mf t) (JObj (entry_doc mf t)) acc else acc) ts acc"
  by (induction ts arbitrary: acc) (auto simp: write_entry_row missing_def)

lemma fold_write_packet_other:
  "p \<notin> task_pid env mf ` set ts \<Longrightarrow> map_of (fold write_packet (map (row_of env mf files entries) ts) acc) p = map_of acc p"
  by (induction ts arbitrary: acc) (auto simp: write_packet_row)

lemma fold_write_packet_get:
  assumes "inj_on (task_pid env mf) (set ts)" and "t \<in> set ts"
  shows "map_of (fold write_packet (map (row_of env mf files entries) ts) acc) (task_pid env mf t) =
    (if no_file env mf files t then Some (JObj (packet_doc mf t (task_pid env mf t))) else map_of acc (task_pid env mf t))"
  using assms
proof (induction ts arbitrary: acc)
  case Nil
  then show ?case by simp
next
  case (Cons u ts)
  show ?case
  proof (cases "t \<in> set ts")
    case True
    then have "t = u \<or> task_pid env mf t \<noteq> task_pid env mf u" using Cons.prems(1) by (auto simp: inj_on_def)
    then show ?thesis using Cons.IH Cons.prems(1) True by (auto simp: write_packet_row)
  next
    case False
    then have "t = u" "task_pid env mf t \<notin> task_pid env mf ` set ts" using Cons.prems by (auto simp: inj_on_def)
    then show ?thesis by (simp add: fold_write_packet_other write_packet_row)
  qed
qed

text \<open>The files after a batch: every task has one, the other files are as they were.\<close>

lemma batch_files_get:
  assumes "inj_on (task_pid env mf) (set ts)" and "t \<in> set ts"
  shows "map_of (fold write_packet (map (row_of env mf files entries) (filter (missing env mf files entries) ts)) files)
      (task_pid env mf t) =
    (if no_file env mf files t then Some (JObj (packet_doc mf t (task_pid env mf t))) else map_of files (task_pid env mf t))"
proof (cases "missing env mf files entries t")
  case True
  moreover have "inj_on (task_pid env mf) (set (filter (missing env mf files entries) ts))"
    by (rule inj_on_subset [OF assms(1)]) auto
  ultimately show ?thesis using assms(2) by (subst fold_write_packet_get) auto
next
  case False
  then have "task_pid env mf t \<notin> task_pid env mf ` set (filter (missing env mf files entries) ts)"
    using assms by (auto simp: inj_on_def)
  then show ?thesis using False by (simp add: fold_write_packet_other missing_def)
qed

lemma part_files_get:
  assumes "inj_on (task_pid env mf) (set ts)" and "t \<in> set ts"
  shows "map_of (fold write_packet (map (row_of env mf files entries) (take n (filter (missing env mf files entries) ts))) files)
      (task_pid env mf t) \<in>
    (if no_file env mf files t then {Some (JObj (packet_doc mf t (task_pid env mf t))), map_of files (task_pid env mf t)}
     else {map_of files (task_pid env mf t)})"
proof -
  define part where "part = take n (filter (missing env mf files entries) ts)"
  have sub: "set part \<subseteq> set ts" using set_take_subset [of n "filter (missing env mf files entries) ts"] by (auto simp: part_def)
  show ?thesis
  proof (cases "t \<in> set part")
    case True
    then show ?thesis using inj_on_subset [OF assms(1) sub] by (simp add: fold_write_packet_get part_def [symmetric])
  next
    case False
    then have "task_pid env mf t \<notin> task_pid env mf ` set part" using assms sub by (auto simp: inj_on_def)
    then show ?thesis by (simp add: fold_write_packet_other part_def [symmetric])
  qed
qed

lemma no_file_get: "no_file env mf files t \<longleftrightarrow> map_of files (task_pid env mf t) \<in> {None, Some JNull}"
  by (auto simp: dict_get_or_def split: option.splits)

text \<open>Compatibility and the finished batch after a part of the files was written.\<close>

lemma part_compatible:
  assumes "inj_on (task_pid env mf) (set ts)" and "t \<in> set ts" and "compatible env mf files entries t"
  shows "compatible env mf
    (fold write_packet (map (row_of env mf files entries) (take n (filter (missing env mf files entries) ts))) files) entries t"
proof -
  have step: "compatible env mf files' entries t"
    if "map_of files' (task_pid env mf t) \<in> {Some (JObj (packet_doc mf t (task_pid env mf t))), map_of files (task_pid env mf t)}"
    for files'
    using that assms(3) unfolding compatible_def dict_get_or_def by (elim insertE emptyE) (simp_all del: map_of_eq_Some_iff)
  show ?thesis
    by (rule step) (use part_files_get [OF assms(1,2), of files entries n] in \<open>simp del: map_of_eq_Some_iff split: if_splits\<close>)
qed

lemma part_then_batch:
  assumes "inj_on (task_pid env mf) (set ts)"
  defines "part files entries n \<equiv>
    fold write_packet (map (row_of env mf files entries) (take n (filter (missing env mf files entries) ts))) files"
  defines "batch files entries \<equiv> fold write_packet (map (row_of env mf files entries) (filter (missing env mf files entries) ts)) files"
  shows "map_of (batch (part files entries n) entries) = map_of (batch files entries)"
proof
  fix p
  show "map_of (batch (part files entries n) entries) p = map_of (batch files entries) p"
  proof (cases "p \<in> task_pid env mf ` set ts")
    case True
    then obtain t where t: "t \<in> set ts" "p = task_pid env mf t" by blast
    show ?thesis
      using part_files_get [OF assms(1) t(1), of files entries n]
      unfolding batch_def t(2) batch_files_get [OF assms(1) t(1)] part_def [symmetric] no_file_get
      by (auto split: if_splits)
  next
    case False
    then have "p \<notin> task_pid env mf ` set (filter P ts)" "p \<notin> task_pid env mf ` set (take n (filter P ts))" for P
      using set_take_subset [of n "filter P ts"] by auto
    then show ?thesis by (simp add: batch_def part_def fold_write_packet_other)
  qed
qed

section \<open>The batch under the lock\<close>

abbreviation ledger_of :: "import_world \<Rightarrow> import_error + (jobj \<times> jobj)" where
  "ledger_of w \<equiv> ledger_packets (read_or (JObj [(''packets'', JObj [])]) (iw_ledger w))"

abbreviation batch_files :: "import_env \<Rightarrow> manifest \<Rightarrow> json dict \<Rightarrow> jobj \<Rightarrow> json dict" where
  "batch_files env mf files entries \<equiv>
     fold write_packet (map (row_of env mf files entries) (filter (missing env mf files entries) (mf_tasks mf))) files"

definition batch_entries :: "import_env \<Rightarrow> manifest \<Rightarrow> jobj \<Rightarrow> parent_task list \<Rightarrow> jobj \<Rightarrow> jobj" where
  "batch_entries env mf entries ts acc =
     fold (\<lambda>t acc. if no_entry env mf entries t then dict_set (task_pid env mf t) (JObj (entry_doc mf t)) acc else acc) ts acc"

lemma batch_entries_other: "p \<notin> task_pid env mf ` set ts \<Longrightarrow> map_of (batch_entries env mf entries ts acc) p = map_of acc p"
  by (induction ts arbitrary: acc) (auto simp: batch_entries_def)

lemma batch_entries_get:
  assumes "inj_on (task_pid env mf) (set ts)" and "t \<in> set ts"
  shows "map_of (batch_entries env mf entries ts acc) (task_pid env mf t) =
    (if no_entry env mf entries t then Some (JObj (entry_doc mf t)) else map_of acc (task_pid env mf t))"
  using assms
proof (induction ts arbitrary: acc)
  case Nil
  then show ?case by simp
next
  case (Cons u ts)
  have step: "batch_entries env mf entries (u # ts) acc
      = batch_entries env mf entries ts (if no_entry env mf entries u then dict_set (task_pid env mf u) (JObj (entry_doc mf u)) acc else acc)"
    by (simp add: batch_entries_def)
  show ?case
  proof (cases "t \<in> set ts")
    case True
    then have "t = u \<or> task_pid env mf t \<noteq> task_pid env mf u" using Cons.prems(1) by (auto simp: inj_on_def)
    then show ?thesis using Cons.IH Cons.prems(1) True unfolding step by auto
  next
    case False
    then have "t = u" "task_pid env mf t \<notin> task_pid env mf ` set ts" using Cons.prems by (auto simp: inj_on_def)
    then show ?thesis unfolding step by (simp add: batch_entries_other)
  qed
qed

lemma import_packets_closed:
  assumes "ledger_of w = Inr (ledger, entries)"
  shows "import_packets env mf w =
    (if list_all (compatible env mf (iw_packets w) entries) (mf_tasks mf)
     then (Inr (length (filter (missing env mf (iw_packets w) entries) (mf_tasks mf)),
             length (filter (\<lambda>t. \<not> missing env mf (iw_packets w) entries t) (mf_tasks mf))),
           w\<lparr>iw_packets := batch_files env mf (iw_packets w) entries,
             iw_ledger := Some (stored_ledger ledger (batch_entries env mf entries (mf_tasks mf) entries))\<rparr>)
     else (Inl (Rejected ''collision''), w))"
  by (simp add: import_packets_def assms plan_tasks_closed fold_write_entry batch_entries_def)

lemma import_packets_cases:
  assumes "import_packets env mf w = (Inr (imported, existing), w')"
  obtains ledger entries where "ledger_of w = Inr (ledger, entries)"
    and "\<forall>t \<in> set (mf_tasks mf). compatible env mf (iw_packets w) entries t"
    and "imported + existing = length (mf_tasks mf)"
    and "w' = w\<lparr>iw_packets := batch_files env mf (iw_packets w) entries,
             iw_ledger := Some (stored_ledger ledger (batch_entries env mf entries (mf_tasks mf) entries))\<rparr>"
proof (cases "ledger_of w")
  case (Inl e)
  then show ?thesis using assms by (simp add: import_packets_def)
next
  case (Inr pair)
  then obtain ledger entries where ledger: "ledger_of w = Inr (ledger, entries)" by (cases pair) auto
  show ?thesis
    using assms import_packets_closed [OF ledger, of env mf] that [OF ledger] filter_split_length
    by (auto simp: list_all_iff split: if_splits)
qed

lemma unique_ids: "distinct (map (\<lambda>t. packet_id_for env (mf_id mf) (pt_id t)) (mf_tasks mf)) \<Longrightarrow>
    inj_on (task_pid env mf) (set (mf_tasks mf))"
  by (simp add: distinct_map task_pid_def inj_on_def)

text \<open>Claim C20. An import that was cut off after any number of packet files, before the ledger was replaced, is finished by
  the next import of the same manifest: it succeeds, every task is accounted for, the ledger is the
  one the uninterrupted import would have written and so is the content of every packet file.\<close>

theorem import_recovers:
  assumes "import_packets env mf w = (Inr (imported, existing), w')"
    and "distinct (map (\<lambda>t. packet_id_for env (mf_id mf) (pt_id t)) (mf_tasks mf))"
  shows "\<exists>i e w2. import_packets env mf (import_crashed env mf n w) = (Inr (i, e), w2)
    \<and> i + e = imported + existing \<and> iw_ledger w2 = iw_ledger w'
    \<and> map_of (iw_packets w2) = map_of (iw_packets w')"
proof -
  note inj = unique_ids [OF assms(2)]
  obtain ledger entries where ledger: "ledger_of w = Inr (ledger, entries)"
    and ok: "\<forall>t \<in> set (mf_tasks mf). compatible env mf (iw_packets w) entries t"
    and total: "imported + existing = length (mf_tasks mf)"
    and w': "w' = w\<lparr>iw_packets := batch_files env mf (iw_packets w) entries,
             iw_ledger := Some (stored_ledger ledger (batch_entries env mf entries (mf_tasks mf) entries))\<rparr>"
    using assms(1) by (rule import_packets_cases)
  define part where "part = fold write_packet (map (row_of env mf (iw_packets w) entries)
    (take n (filter (missing env mf (iw_packets w) entries) (mf_tasks mf)))) (iw_packets w)"
  have "list_all (compatible env mf (iw_packets w) entries) (mf_tasks mf)" using ok by (simp add: list_all_iff)
  then have crashed: "import_crashed env mf n w = w\<lparr>iw_packets := part\<rparr>"
    by (simp add: import_crashed_def ledger plan_tasks_closed part_def take_map)
  have fits: "list_all (compatible env mf (iw_packets (w\<lparr>iw_packets := part\<rparr>)) entries) (mf_tasks mf)"
    using part_compatible [OF inj] ok by (simp add: list_all_iff part_def)
  have "ledger_of (w\<lparr>iw_packets := part\<rparr>) = Inr (ledger, entries)" using ledger by simp
  note import_packets_closed [OF this, of env mf, unfolded if_P [OF fits]]
  then have "import_packets env mf (w\<lparr>iw_packets := part\<rparr>) =
      (Inr (length (filter (missing env mf part entries) (mf_tasks mf)), length (filter (\<lambda>t. \<not> missing env mf part entries t) (mf_tasks mf))),
       w\<lparr>iw_packets := batch_files env mf part entries,
         iw_ledger := Some (stored_ledger ledger (batch_entries env mf entries (mf_tasks mf) entries))\<rparr>)"
    by simp
  moreover have "map_of (batch_files env mf part entries) = map_of (batch_files env mf (iw_packets w) entries)"
    unfolding part_def by (rule part_then_batch [OF inj])
  ultimately show ?thesis
    unfolding crashed using total filter_split_length by (auto simp: w')
qed

section \<open>Importing again\<close>

lemma ledger_of_stored:
  "iw_ledger w = Some (stored_ledger ledger entries) \<Longrightarrow>
    ledger_of w = Inr (obj_of (stored_ledger ledger entries), entries)"
  by (auto simp: stored_ledger_def ledger_packets_def read_or_def py_or_def jget_or_def dict_has_def dict_get_or_def
      dest: arg_cong [where f = "map_of"] split: if_splits)

lemma stored_again:
  assumes "map_of ledger ''packets'' = Some (JObj entries)" and "dict_has ''schema'' ledger"
  shows "stored_ledger ledger entries = JObj ledger"
proof -
  have "dict_set ''packets'' (JObj entries) ledger = ledger" using assms(1) by (rule update_triv)
  moreover obtain v where "map_of ledger ''schema'' = Some v" using assms(2) by (auto simp: dict_has_def)
  then have "dict_set ''schema'' (jget_or x ledger ''schema'') ledger = ledger" for x
    by (auto simp: jget_or_def dict_get_or_def intro: update_triv)
  ultimately show ?thesis by (simp add: stored_ledger_def)
qed

lemma import_nothing_missing:
  assumes "ledger_of w = Inr (ledger, entries)" and "iw_ledger w = Some (JObj ledger)"
    and "map_of ledger ''packets'' = Some (JObj entries)" and "dict_has ''schema'' ledger"
    and "\<And>t. t \<in> set (mf_tasks mf) \<Longrightarrow> compatible env mf (iw_packets w) entries t \<and> \<not> missing env mf (iw_packets w) entries t"
  shows "import_packets env mf w = (Inr (0, length (mf_tasks mf)), w)"
proof -
  have none: "filter (missing env mf (iw_packets w) entries) (mf_tasks mf) = []" using assms(5) by simp
  have all: "filter (\<lambda>t. \<not> missing env mf (iw_packets w) entries t) (mf_tasks mf) = mf_tasks mf" using assms(5) by simp
  have "batch_entries env mf entries ts acc = acc" if "set ts \<subseteq> set (mf_tasks mf)" for ts acc
    using that assms(5) by (induction ts arbitrary: acc) (auto simp: batch_entries_def missing_def)
  then show ?thesis
    using assms stored_again [OF assms(3,4)]
    by (subst import_packets_closed [OF assms(1)]) (simp add: none all list_all_iff)
qed

lemma jget_eq: "jget d k = (case map_of d k of None \<Rightarrow> JNull | Some v \<Rightarrow> v)"
  by (simp add: jget_def dict_get_or_def)

text \<open>After a batch every task of it is there, with the content the manifest gives it.\<close>

lemma settled_file:
  assumes "inj_on (task_pid env mf) (set (mf_tasks mf))" and "t \<in> set (mf_tasks mf)"
    and "compatible env mf files entries t" and "map_of files' = map_of (batch_files env mf files entries)"
  shows "\<not> no_file env mf files' t
    \<and> json_eq (dict_get_or JNull (task_pid env mf t) files') (JObj (packet_doc mf t (task_pid env mf t)))"
proof -
  have get: "map_of files' (task_pid env mf t) =
      (if no_file env mf files t then Some (JObj (packet_doc mf t (task_pid env mf t))) else map_of files (task_pid env mf t))"
    unfolding assms(4) by (rule batch_files_get [OF assms(1,2)])
  show ?thesis
  proof (cases "no_file env mf files t")
    case True
    then show ?thesis using get by (simp add: dict_get_or_def del: map_of_eq_Some_iff)
  next
    case False
    then have "dict_get_or JNull (task_pid env mf t) files' = dict_get_or JNull (task_pid env mf t) files"
      using get by (simp add: dict_get_or_def del: map_of_eq_Some_iff)
    then show ?thesis using False assms(3) by (simp add: compatible_def)
  qed
qed

lemma settled_entry:
  assumes "inj_on (task_pid env mf) (set (mf_tasks mf))" and "t \<in> set (mf_tasks mf)"
    and "compatible env mf files entries t"
  shows "jget (batch_entries env mf entries (mf_tasks mf) entries) (task_pid env mf t) \<noteq> JNull
    \<and> json_eq (prior_immutable (jget (batch_entries env mf entries (mf_tasks mf) entries) (task_pid env mf t)) (immutable_entry mf t))
        (JObj (immutable_entry mf t))"
proof -
  let ?pid = "task_pid env mf t"
  have get: "jget (batch_entries env mf entries (mf_tasks mf) entries) ?pid
      = (if no_entry env mf entries t then JObj (entry_doc mf t) else jget entries ?pid)"
    unfolding jget_eq [of "batch_entries env mf entries (mf_tasks mf) entries"] batch_entries_get [OF assms(1,2)]
    by (split if_split) (simp add: jget_eq)
  have fresh: "json_eq (prior_immutable (JObj (entry_doc mf t)) (immutable_entry mf t)) (JObj (immutable_entry mf t))"
    unfolding evolved_prior [OF entry_doc_evolved] by (rule immutable_entry_eq)
  show ?thesis
  proof (cases "no_entry env mf entries t")
    case True
    show ?thesis unfolding get if_P [OF True] using fresh by blast
  next
    case False
    then show ?thesis unfolding get if_not_P [OF False] using assms(3) by (simp add: compatible_def)
  qed
qed

text \<open>Importing a manifest again changes nothing: neither right after the import, nor when its packets have
  moved on, whatever their entries hold beside the admission contract. Every task counts as existing.\<close>

theorem reimport_changes_nothing:
  assumes "import_packets env mf w = (Inr (imported, existing), w')"
    and "distinct (map (\<lambda>t. packet_id_for env (mf_id mf) (pt_id t)) (mf_tasks mf))"
  shows "import_packets env mf w' = (Inr (0, length (mf_tasks mf)), w')
    \<and> (map_of (iw_packets w2) = map_of (iw_packets w') \<and> iw_ledger w2 = Some (JObj ledger)
      \<and> map_of ledger ''packets'' = Some (JObj entries) \<and> dict_has ''schema'' ledger
      \<and> (\<forall>t \<in> set (mf_tasks mf). evolved mf t (jget entries (packet_id_for env (mf_id mf) (pt_id t))))
      \<longrightarrow> import_packets env mf w2 = (Inr (0, length (mf_tasks mf)), w2))"
proof -
  note inj = unique_ids [OF assms(2)]
  obtain ledger0 entries0 where ledger0: "ledger_of w = Inr (ledger0, entries0)"
    and ok: "\<forall>t \<in> set (mf_tasks mf). compatible env mf (iw_packets w) entries0 t"
    and w': "w' = w\<lparr>iw_packets := batch_files env mf (iw_packets w) entries0,
             iw_ledger := Some (stored_ledger ledger0 (batch_entries env mf entries0 (mf_tasks mf) entries0))\<rparr>"
    using assms(1) by (rule import_packets_cases)
  let ?e = "batch_entries env mf entries0 (mf_tasks mf) entries0" and ?l = "obj_of (stored_ledger ledger0 (batch_entries env mf entries0 (mf_tasks mf) entries0))"
  have "import_packets env mf w' = (Inr (0, length (mf_tasks mf)), w')"
  proof (rule import_nothing_missing)
    show "ledger_of w' = Inr (?l, ?e)" by (rule ledger_of_stored) (simp add: w')
    show "iw_ledger w' = Some (JObj ?l)" "map_of ?l ''packets'' = Some (JObj ?e)" "dict_has ''schema'' ?l"
      by (simp_all add: w' stored_ledger_def dict_has_def del: map_of_eq_Some_iff)
    fix t assume t: "t \<in> set (mf_tasks mf)"
    then have c: "compatible env mf (iw_packets w) entries0 t" using ok by blast
    have "iw_packets w' = batch_files env mf (iw_packets w) entries0" by (simp add: w')
    then show "compatible env mf (iw_packets w') ?e t \<and> \<not> missing env mf (iw_packets w') ?e t"
      using settled_file [OF inj t c refl] settled_entry [OF inj t c] unfolding compatible_def missing_def by (simp only:) blast
  qed
  moreover have "import_packets env mf w2 = (Inr (0, length (mf_tasks mf)), w2)"
    if "map_of (iw_packets w2) = map_of (iw_packets w')" "iw_ledger w2 = Some (JObj ledger)"
      "map_of ledger ''packets'' = Some (JObj entries)" "dict_has ''schema'' ledger"
      "\<forall>t \<in> set (mf_tasks mf). evolved mf t (jget entries (packet_id_for env (mf_id mf) (pt_id t)))"
  proof (rule import_nothing_missing [OF _ that(2-4)])
    have "ledger \<noteq> []" using that(3) by auto
    then show "ledger_of w2 = Inr (ledger, entries)"
      using that(2,3) by (simp add: ledger_packets_def read_or_def py_or_def jget_or_def dict_get_or_def dict_has_def del: map_of_eq_Some_iff)
    show "compatible env mf (iw_packets w2) entries t \<and> \<not> missing env mf (iw_packets w2) entries t" if t: "t \<in> set (mf_tasks mf)" for t
    proof -
      have ev: "evolved mf t (jget entries (task_pid env mf t))" using \<open>\<forall>t \<in> _. evolved mf t _\<close> t by (simp add: task_pid_def)
      then have "jget entries (task_pid env mf t) \<noteq> JNull" by (auto simp: evolved_def)
      moreover note evolved_prior [OF ev]
      moreover have "map_of (iw_packets w2) = map_of (batch_files env mf (iw_packets w) entries0)"
        using \<open>map_of (iw_packets w2) = _\<close> by (simp add: w')
      moreover have "compatible env mf (iw_packets w) entries0 t" using ok t by blast
      moreover note immutable_entry_eq [of mf t]
      ultimately show ?thesis
        using settled_file [OF inj t, of "iw_packets w" entries0 "iw_packets w2"] unfolding compatible_def missing_def
        by (simp only: simp_thms)
    qed
  qed
  ultimately show ?thesis by blast
qed

text \<open>A batch with one collision leaves no file and no entry.\<close>

lemma failed_batch_leaves_nothing: "import_packets env mf w = (Inl e, w') \<Longrightarrow> w' = w"
  by (auto simp: import_packets_def split: sum.splits prod.splits)

text \<open>
  A ledger that cannot be parsed is not refused but replaced: the text of the error speaks of an
  unreadable ledger, and the read gives an empty one.
\<close>

lemma unreadable_ledger_is_replaced:
  assumes "iw_ledger w = None" and "\<forall>t \<in> set (mf_tasks mf). no_file env mf (iw_packets w) t"
  shows "\<exists>n w'. import_packets env mf w = (Inr n, w') \<and> iw_ledger w' \<noteq> None"
proof -
  have "ledger_of w = Inr ([(''packets'', JObj [])], [])"
    using assms(1) by (simp add: ledger_packets_def read_or_def jget_or_def dict_get_or_def dict_has_def)
  from import_packets_closed [OF this, of env mf] show ?thesis
    using assms(2) by (simp add: compatible_def list_all_iff jget_def dict_get_or_def)
qed

section \<open>An example\<close>

definition import_parent :: string where
  "import_parent = ''0a000000-0000-0000-0000-00000000000B''"

definition import_demo_env :: import_env where
  "import_demo_env = \<lparr>ie_policy = Inr [(''concurrency'', JObj [(''target_total'', JInt 8), (''dialogue_target'', JInt 4)])],
     ie_resolve = (\<lambda>raw. Some (''/w/'' @ raw)), ie_ancestors = (\<lambda>p. [''/w'', ''/'']),
     ie_roots = [''/w''], ie_is_dir = (\<lambda>p. p \<in> {''/w'', ''/w/a'', ''/w/b''}), ie_digest = (\<lambda>m t. t), ie_now = 0,
     ie_start_token = (\<lambda>n. None), ie_new_pid = 7, ie_wake_ok = True\<rparr>"

definition import_task :: "string \<Rightarrow> json" where
  "import_task task_id = JObj [(''task_id'', JStr task_id), (''task_name'', JStr ''n''), (''role'', JStr ''verifier''),
     (''sandbox'', JStr ''read-only''), (''goal'', JStr ''g''), (''authorized_paths'', JList [JStr ''src/x'']),
     (''acceptance'', JList [JStr ''t'']), (''cwd'', JStr ''b'')]"

definition import_content :: json where
  "import_content = JObj [(''schema'', JStr ''codex-loop-parent-refill/v1''), (''manifest_id'', JStr ''m''),
     (''parent_session_id'', JStr import_parent), (''enabled'', JBool True), (''mode'', JStr ''read-only''),
     (''target_active'', JInt 1), (''cwd'', JStr ''a''), (''tasks'', JList [import_task ''1'', import_task ''2''])]"

definition new_import :: import_world where
  "new_import = \<lparr>iw_sessions = None, iw_packets = [], iw_ledger = None, iw_events = [], iw_marker = None,
     iw_requests = \<lparr>rq_requested = 0, rq_consumed = 0\<rparr>\<rparr>"

definition demo_task :: "string \<Rightarrow> parent_task" where
  "demo_task task_id = \<lparr>pt_id = task_id, pt_name = ''n'', pt_goal = ''g'', pt_paths = [''src/x''], pt_acceptance = [''t''],
     pt_role = ''verifier'', pt_cwd = ''/w/b''\<rparr>"

definition demo_manifest :: manifest where
  "demo_manifest = \<lparr>mf_id = ''m'', mf_parent = import_parent, mf_target = 1, mf_cwd = ''/w/a'',
     mf_tasks = [demo_task ''1'', demo_task ''2'']\<rparr>"

lemma demo_manifest_valid: "validate_manifest import_demo_env import_content = Inr demo_manifest"
  by code_simp

lemma demo_manifest_parent: "mf_parent demo_manifest = import_parent"
  by (simp add: demo_manifest_def)

lemma demo_ids: "distinct (map (\<lambda>t. packet_id_for import_demo_env (mf_id demo_manifest) (pt_id t)) (mf_tasks demo_manifest))"
  by code_simp

lemma demo_import_packets: "fst (import_packets import_demo_env demo_manifest new_import) = Inr (2, 0)"
  by code_simp

theorem import_recovers_witness:
  "\<exists>w' i e w2. import_packets import_demo_env demo_manifest new_import = (Inr (2, 0), w')
    \<and> import_packets import_demo_env demo_manifest (import_crashed import_demo_env demo_manifest 1 new_import) = (Inr (i, e), w2)
    \<and> i + e = 2 \<and> iw_ledger w2 = iw_ledger w'
    \<and> length (iw_packets (import_crashed import_demo_env demo_manifest 1 new_import)) = 1"
proof -
  obtain w' where w': "import_packets import_demo_env demo_manifest new_import = (Inr (2, 0), w')"
    using demo_import_packets by (cases "import_packets import_demo_env demo_manifest new_import") simp
  have "length (iw_packets (import_crashed import_demo_env demo_manifest 1 new_import)) = 1" by code_simp
  then show ?thesis using w' import_recovers [OF w' demo_ids, of 1] by auto
qed

theorem reimport_changes_nothing_witness:
  "\<exists>w'. import_packets import_demo_env demo_manifest new_import = (Inr (2, 0), w')
    \<and> import_packets import_demo_env demo_manifest w' = (Inr (0, 2), w')"
proof -
  obtain w' where w': "import_packets import_demo_env demo_manifest new_import = (Inr (2, 0), w')"
    using demo_import_packets by (cases "import_packets import_demo_env demo_manifest new_import") simp
  have "length (mf_tasks demo_manifest) = 2" by (simp add: demo_manifest_def)
  then show ?thesis using w' reimport_changes_nothing [OF w' demo_ids] by simp
qed

end
