(* ===== verification/Import_Composition.thy ===== *)
theory Import_Composition
  imports Import_Batch Dispatch_Properties Lifecycle_Composition
begin

text \<open>
  The importer together with the lifecycle hook and the dispatcher: what a stopped parent gets, and
  how the packets of a manifest are run.
\<close>

section \<open>What a validated manifest promises\<close>

definition confined_task :: "import_env \<Rightarrow> parent_task \<Rightarrow> bool" where
  "confined_task env t \<longleftrightarrow> pt_role t \<in> set PARENT_ROLES \<and> pt_paths t \<noteq> [] \<and> list_all stays_below (pt_paths t)
     \<and> allowed_cwd env (pt_cwd t) \<and> ie_is_dir env (pt_cwd t) \<and> (\<exists>raw. ie_resolve env raw = Some (pt_cwd t))"

lemma safe_cwd_allowed:
  "safe_cwd env v = Inr cwd \<Longrightarrow> allowed_cwd env cwd \<and> ie_is_dir env cwd \<and> (\<exists>raw. ie_resolve env raw = Some cwd)"
  by (auto simp: safe_cwd_def split: sum.splits if_splits option.splits)

lemma text_items_length: "text_items vs field = Inr ss \<Longrightarrow> length ss = length vs"
  by (induction vs arbitrary: ss) (auto split: sum.splits)

lemma authorized_paths_below:
  "relative_authorized_paths v field = Inr ps \<Longrightarrow> ps \<noteq> [] \<and> list_all stays_below ps"
  by (auto simp: relative_authorized_paths_def list_of_text_def split: sum.splits if_splits json.splits dest!: text_items_length)

lemma role_field_allowed: "role_field v = Inr r \<Longrightarrow> r \<in> set PARENT_ROLES"
  by (auto simp: role_field_def split: if_splits json.splits)

lemma task_fields_confined: "task_fields env cwd task_id task = Inr t \<Longrightarrow> confined_task env t \<and> pt_id t = task_id"
  by (auto simp: task_fields_def confined_task_def split: sum.splits if_splits
      dest!: safe_cwd_allowed authorized_paths_below role_field_allowed)

lemma task_list_confined:
  "task_list env cwd taken vs = Inr ts \<Longrightarrow>
    list_all (confined_task env) ts \<and> distinct (map pt_id ts) \<and> set (map pt_id ts) \<inter> set taken = {}"
proof (induction vs arbitrary: taken ts)
  case Nil
  then show ?case by simp
next
  case (Cons v vs)
  then obtain task task_id t rest where "id_field (jget task ''task_id'') ''task_id'' = Inr task_id" "task_id \<notin> set taken"
    and t: "task_fields env cwd task_id task = Inr t" and rest: "task_list env cwd (task_id # taken) vs = Inr rest" and ts: "ts = t # rest"
    by (auto split: json.splits sum.splits if_splits)
  then show ?case using Cons.IH [OF rest] task_fields_confined [OF t] by auto
qed

lemma validate_manifest_cases:
  assumes "validate_manifest env content = Inr mf"
  shows "list_all (confined_task env) (mf_tasks mf)" and "distinct (map pt_id (mf_tasks mf))" and "is_uuid (mf_parent mf)"
proof -
  have "list_all (confined_task env) (mf_tasks mf) \<and> distinct (map pt_id (mf_tasks mf)) \<and> is_uuid (mf_parent mf)"
    using assms unfolding validate_manifest_def
    by (auto split: json.splits if_splits sum.splits prod.splits dest!: task_list_confined)
  then show "list_all (confined_task env) (mf_tasks mf)" and "distinct (map pt_id (mf_tasks mf))" and "is_uuid (mf_parent mf)"
    by blast+
qed

section \<open>A stopped parent\<close>

definition on_record :: "import_world \<Rightarrow> string \<Rightarrow> jobj \<Rightarrow> bool" where
  "on_record w parent row \<longleftrightarrow> (\<exists>sessions parents. iw_sessions w = Some (JObj sessions)
     \<and> map_of sessions ''parents'' = Some (JObj parents) \<and> map_of parents parent = Some (JObj row))"

lemma read_or_object: "d' \<noteq> [] \<Longrightarrow> read_or d (Some (JObj d')) = JObj d'"
  by (simp add: read_or_def py_or_def)

lemma stopped_not_admitted:
  assumes "on_record w P row" and "jget row ''active'' = JBool False" and "mf_parent mf = P"
  shows "admit_parent mf (iw_sessions w) = Inl (Rejected ''parent_inactive'')"
    and "register_parent env mf w = (Inl (Rejected ''parent_inactive''), w)"
proof -
  from assms(1) obtain sessions parents where disk: "iw_sessions w = Some (JObj sessions)"
    "map_of sessions ''parents'' = Some (JObj parents)" "map_of parents P = Some (JObj row)" by (auto simp: on_record_def)
  have "sessions \<noteq> []" "parents \<noteq> []" using disk by auto
  moreover have "jget sessions ''parents'' = JObj parents" "jget_or d sessions ''parents'' = JObj parents" "jget parents P = JObj row" for d
    using disk by (simp_all add: jget_eq jget_or_def dict_get_or_def del: map_of_eq_Some_iff)
  ultimately show "admit_parent mf (iw_sessions w) = Inl (Rejected ''parent_inactive'')"
    "register_parent env mf w = (Inl (Rejected ''parent_inactive''), w)"
    using assms(2,3) disk(1) by (simp_all add: admit_parent_def register_parent_def read_or_object py_or_def is_stopped_def)
qed

lemma register_keeps_others:
  assumes "on_record w P row" and "mf_parent mf \<noteq> P" and "register_parent env mf w = (r, w')"
  shows "on_record w' P row \<and> iw_packets w' = iw_packets w"
proof -
  from assms(1) obtain sessions parents where disk: "iw_sessions w = Some (JObj sessions)"
    "map_of sessions ''parents'' = Some (JObj parents)" "map_of parents P = Some (JObj row)" by (auto simp: on_record_def)
  have "sessions \<noteq> []" using disk by auto
  moreover have "jget_or d sessions ''parents'' = JObj parents" for d
    using disk by (simp add: jget_or_def dict_get_or_def del: map_of_eq_Some_iff)
  ultimately have "w' = w \<or> w' = w\<lparr>iw_sessions := Some (JObj (dict_set ''parents''
      (JObj (dict_set (mf_parent mf) (parent_row env mf) parents)) sessions))\<rparr>"
    using assms(3) disk(1) by (auto simp: register_parent_def read_or_object split: if_splits)
  then show ?thesis using assms(1,2) disk(3) by (elim disjE) (simp_all add: on_record_def del: map_of_eq_Some_iff)
qed

lemma announce_keeps: "announce env mf i e w = (report, w') \<Longrightarrow> iw_sessions w' = iw_sessions w \<and> iw_packets w' = iw_packets w"
  by (auto simp: announce_def wake_actuator_def Let_def split: if_splits prod.splits)

lemma fold_write_packet_source:
  "map_of (fold write_packet rows files) p = map_of files p
    \<or> (\<exists>r \<in> set rows. map_of (fold write_packet rows files) p = Some (JObj (ir_packet r)))"
proof (induction rows arbitrary: files)
  case Nil
  then show ?case by simp
next
  case (Cons r rows)
  show ?case using Cons.IH [of "write_packet r files"] by (auto simp: write_packet_def split: if_splits)
qed

lemma import_packets_writes:
  assumes "import_packets env mf w = (r, w')"
  shows "iw_sessions w' = iw_sessions w"
    and "map_of (iw_packets w') pid = map_of (iw_packets w) pid
      \<or> (\<exists>t. map_of (iw_packets w') pid = Some (JObj (packet_doc mf t (task_pid env mf t))))"
proof -
  have "iw_sessions w' = iw_sessions w \<and> (map_of (iw_packets w') pid = map_of (iw_packets w) pid
      \<or> (\<exists>t. map_of (iw_packets w') pid = Some (JObj (packet_doc mf t (task_pid env mf t)))))"
  proof (cases r)
    case (Inl e)
    then show ?thesis using assms failed_batch_leaves_nothing by blast
  next
    case (Inr counts)
    with assms obtain ledger entries where w': "w' = w\<lparr>iw_packets := batch_files env mf (iw_packets w) entries,
             iw_ledger := Some (stored_ledger ledger (batch_entries env mf entries (mf_tasks mf) entries))\<rparr>"
      by (cases counts) (metis import_packets_cases)
    show ?thesis
      using fold_write_packet_source [of "map (row_of env mf (iw_packets w) entries)
        (filter (missing env mf (iw_packets w) entries) (mf_tasks mf))" "iw_packets w" pid]
      by (auto simp: w' row_of_def)
  qed
  then show "iw_sessions w' = iw_sessions w"
    and "map_of (iw_packets w') pid = map_of (iw_packets w) pid
      \<or> (\<exists>t. map_of (iw_packets w') pid = Some (JObj (packet_doc mf t (task_pid env mf t))))" by blast+
qed

text \<open>What an import leaves of the record of a stopped parent, and of the packets that are not its own.\<close>

definition foreign :: "string \<Rightarrow> json option \<Rightarrow> bool" where
  "foreign parent content \<longleftrightarrow> (\<exists>d. content = Some (JObj d) \<and> jget d ''parent_session_id'' \<noteq> JStr parent)"

lemma import_keeps_stopped:
  assumes "on_record w P row" and "jget row ''active'' = JBool False" and "import_manifest env content w = (r, w')"
  shows "on_record w' P row \<and> (map_of (iw_packets w') pid = map_of (iw_packets w) pid \<or> foreign P (map_of (iw_packets w') pid))"
proof (cases "\<exists>v mf. content = Some v \<and> validate_manifest env v = Inr mf")
  case False
  then have "w' = w" using assms(3) by (auto simp: import_manifest_def split: option.splits sum.splits)
  then show ?thesis using assms(1) by simp
next
  case True
  then obtain v mf where "content = Some v" "validate_manifest env v = Inr mf" by blast
  then have run: "run_import env mf w = (r, w')" using assms(3) by (simp add: import_manifest_def)
  show ?thesis
  proof (cases "mf_parent mf = P")
    case True
    then have "w' = w" using run stopped_not_admitted [OF assms(1,2)] by (simp add: run_import_def)
    then show ?thesis using assms(1) by simp
  next
    case False
    obtain c w1 where batch: "import_packets env mf w = (c, w1)" by (cases "import_packets env mf w")
    note writes = import_packets_writes [OF batch]
    have kept: "on_record w1 P row" using assms(1) writes(1) by (simp add: on_record_def)
    obtain c2 w2 where reg: "register_parent env mf w1 = (c2, w2)" by (cases "register_parent env mf w1")
    note others = register_keeps_others [OF kept False reg]
    have "w' = w \<or> w' = w1 \<or> (iw_sessions w' = iw_sessions w2 \<and> iw_packets w' = iw_packets w2)"
      using run batch reg by (auto simp: run_import_def split: sum.splits prod.splits dest!: announce_keeps)
    moreover have "foreign P (Some (JObj (packet_doc mf t (task_pid env mf t))))" for t
      using False by (simp add: foreign_def packet_doc_def jget_def dict_get_or_def)
    ultimately show ?thesis using assms(1) kept others writes(2) [of pid] by (auto simp: on_record_def)
  qed
qed

text \<open>Imports one after the other, each with its own clock, policy and directories.\<close>

fun import_all :: "(import_env \<times> json option) list \<Rightarrow> import_world \<Rightarrow> import_world" where
  "import_all [] w = w"
| "import_all (run # runs) w = import_all runs (snd (import_manifest (fst run) (snd run) w))"

lemma import_all_keeps_stopped:
  assumes "on_record w P row" and "jget row ''active'' = JBool False"
  shows "on_record (import_all runs w) P row
    \<and> (map_of (iw_packets (import_all runs w)) pid = map_of (iw_packets w) pid \<or> foreign P (map_of (iw_packets (import_all runs w)) pid))"
  using assms(1)
proof (induction runs arbitrary: w)
  case Nil
  then show ?case by simp
next
  case (Cons run runs)
  obtain r w1 where one: "import_manifest (fst run) (snd run) w = (r, w1)" by (cases "import_manifest (fst run) (snd run) w")
  note step = import_keeps_stopped [OF Cons.prems assms(2) one, of pid]
  moreover have "import_all (run # runs) w = import_all runs w1" using one by simp
  ultimately show ?case using Cons.IH [of w1] by metis
qed

lemma parent_stop_parents:
  assumes "parent_stop env payload w = (ok, w')" and "resolve_identity payload = Inr (agent, Some P)"
  shows "\<exists>row. map_of (hw_parents w') P = Some row \<and> jget row ''active'' = JBool False"
proof -
  let ?w1 = "w\<lparr>hw_parents := deactivate_parent (he_now env) P (hw_parents w)\<rparr>"
  obtain y w2 where step: "transact (interrupt_parent env P) ?w1 = (y, w2)" by (cases "transact (interrupt_parent env P) ?w1")
  have "hw_parents w2 = deactivate_parent (he_now env) P (hw_parents w)"
    using step
  proof (cases rule: transact_cases)
    case (2 r x r' w3)
    obtain changed agents w4 where run: "interrupt_agents env P (nr_agents r) ?w1 = (changed, agents, w4)"
      by (cases "interrupt_agents env P (nr_agents r) ?w1")
    with 2 show ?thesis using interrupt_agents_jobs [OF run] by (auto simp: interrupt_parent_def)
  qed auto
  moreover have "hw_parents w' = hw_parents w2"
    using assms step by (auto simp: parent_stop_def Let_def trigger_def audit_def split: option.splits)
  ultimately show ?thesis by (simp add: deactivate_parent_def)
qed


section \<open>The packets of a manifest and the dispatcher\<close>

lemma json_eq_member:
  assumes "json_eq (JObj d) (JObj e)" and "map_of e k = Some v"
  shows "\<exists>u. map_of d k = Some u \<and> json_eq u v"
proof -
  have eqs: "fst ` set d = fst ` set e" "list_all (\<lambda>p. case map_of e (fst p) of None \<Rightarrow> False | Some v \<Rightarrow> json_eq (snd p) v) d"
    using assms(1) by (subst (asm) json_eq.simps, simp)+
  have "k \<in> fst ` set e" using assms(2) by (metis map_of_eq_None_iff option.distinct(1))
  then obtain u where u: "map_of d k = Some u" using eqs(1) by (metis map_of_eq_None_iff not_None_eq)
  then have "(k, u) \<in> set d" by (rule map_of_SomeD)
  with eqs(2) assms(2) have "json_eq u v" by (fastforce simp: list_all_iff simp del: map_of_eq_Some_iff)
  with u show ?thesis by blast
qed

lemma json_eq_to_str [simp]: "json_eq a (JStr s) \<longleftrightarrow> a = JStr s"
  by (subst json_eq.simps) (cases a; simp)

lemma json_eq_to_true: "json_eq a (JBool True) \<Longrightarrow> truthy a"
  by (subst (asm) json_eq.simps) (cases a; auto simp: py_eq_def split: if_splits)

lemma json_eq_object: "json_eq a (JObj e) \<Longrightarrow> is_obj a"
  by (subst (asm) json_eq.simps) (cases a; auto simp: py_eq_def)

lemma packet_fields:
  assumes "json_eq (JObj d) (JObj (packet_doc mf t pid))"
  shows "jget d ''sandbox'' = JStr ''read-only''" "truthy (jget d ''parent_enabled'')" "jget d ''cwd'' = JStr (pt_cwd t)"
    "jget d ''parent_session_id'' = JStr (mf_parent mf)" "jget d ''role'' = JStr (pt_role t)"
proof -
  have member: "map_of (packet_doc mf t pid) k = Some v \<Longrightarrow> json_eq (jget d k) v" for k v
    using json_eq_member [OF assms] by (fastforce simp: jget_eq simp del: map_of_eq_Some_iff)
  have "map_of (packet_doc mf t pid) ''sandbox'' = Some (JStr ''read-only'')"
    "map_of (packet_doc mf t pid) ''parent_enabled'' = Some (JBool True)"
    "map_of (packet_doc mf t pid) ''cwd'' = Some (JStr (pt_cwd t))"
    "map_of (packet_doc mf t pid) ''parent_session_id'' = Some (JStr (mf_parent mf))"
    "map_of (packet_doc mf t pid) ''role'' = Some (JStr (pt_role t))"
    by (simp_all add: packet_doc_def del: map_of_eq_Some_iff)
  from this [THEN member] show "jget d ''sandbox'' = JStr ''read-only''" "truthy (jget d ''parent_enabled'')"
    "jget d ''cwd'' = JStr (pt_cwd t)" "jget d ''parent_session_id'' = JStr (mf_parent mf)" "jget d ''role'' = JStr (pt_role t)"
    by (simp_all add: json_eq_to_true)
qed

lemma imported_file:
  assumes "run_import env mf w = (Inr report, w')" and "inj_on (task_pid env mf) (set (mf_tasks mf))" and "t \<in> set (mf_tasks mf)"
  shows "\<exists>d. map_of (iw_packets w') (task_pid env mf t) = Some (JObj d) \<and> json_eq (JObj d) (JObj (packet_doc mf t (task_pid env mf t)))"
proof -
  obtain c w1 where batch: "import_packets env mf w = (c, w1)" by (cases "import_packets env mf w")
  obtain r2 w2 where reg: "register_parent env mf w1 = (r2, w2)" by (cases "register_parent env mf w1")
  from assms(1) batch reg obtain i e where c: "c = Inr (i, e)" and "iw_packets w' = iw_packets w2"
    by (auto simp: run_import_def split: sum.splits prod.splits dest!: announce_keeps)
  moreover have "iw_packets w2 = iw_packets w1"
    using reg by (auto simp: register_parent_def split: json.splits if_splits)
  ultimately have files: "iw_packets w' = iw_packets w1" by simp
  obtain entries where ok: "compatible env mf (iw_packets w) entries t" and "iw_packets w1 = batch_files env mf (iw_packets w) entries"
    using batch [unfolded c] assms(3) by (elim import_packets_cases) auto
  then have "map_of (iw_packets w') = map_of (batch_files env mf (iw_packets w) entries)" using files by simp
  from settled_file [OF assms(2,3) ok this] obtain v where v: "map_of (iw_packets w') (task_pid env mf t) = Some v"
    "json_eq v (JObj (packet_doc mf t (task_pid env mf t)))"
    by (cases "map_of (iw_packets w') (task_pid env mf t)") (auto simp: dict_get_or_def simp del: map_of_eq_Some_iff)
  with json_eq_object [OF v(2)] show ?thesis by (cases v) auto
qed

text \<open>Claim C18. A packet of a parent manifest is run the way the manifest was admitted. When the dispatcher reads the files the
  importer left, every child it starts for a task of the manifest runs read-only, in the directory
  the task was admitted for, which lies in an allowed root, for the parent of the manifest, with its
  output captured, and never as Sol.\<close>

theorem imported_packets_run_read_only:
  assumes "validate_manifest ienv content = Inr mf" and "import_manifest ienv (Some content) w = (Inr report, w')"
    and "distinct (map (\<lambda>t. packet_id_for ienv (mf_id mf) (pt_id t)) (mf_tasks mf))"
    and "\<And>raw cwd. ie_resolve ienv raw = Some cwd \<Longrightarrow> cwd \<noteq> []"
    and "de_packets denv = map_of (iw_packets w')"
    and "dispatch denv requested dry_run action pids rc dw = (res, dw')"
  shows "\<exists>born. dp_births dw' = dp_births dw @ born
    \<and> (\<forall>b \<in> set born. \<forall>t \<in> set (mf_tasks mf). bi_packet b = packet_id_for ienv (mf_id mf) (pt_id t)
      \<longrightarrow> bi_sandbox b = ''read-only'' \<and> bi_capture b \<and> bi_parent b = JStr (mf_parent mf)
        \<and> bi_cwd b = JStr (pt_cwd t) \<and> allowed_cwd ienv (pt_cwd t) \<and> bi_role b \<noteq> ''sol'')"
proof -
  obtain born where born: "dp_births dw' = dp_births dw @ born" "list_all (pinned denv dw) born"
    using dispatch_pinned [OF assms(6)] by blast
  have run: "run_import ienv mf w = (Inr report, w')" using assms(1,2) by (simp add: import_manifest_def)
  have "bi_sandbox b = ''read-only'' \<and> bi_capture b \<and> bi_parent b = JStr (mf_parent mf)
        \<and> bi_cwd b = JStr (pt_cwd t) \<and> allowed_cwd ienv (pt_cwd t) \<and> bi_role b \<noteq> ''sol''"
    if b: "b \<in> set born" and t: "t \<in> set (mf_tasks mf)" and pid: "bi_packet b = packet_id_for ienv (mf_id mf) (pt_id t)" for b t
  proof -
    obtain d where d: "de_packets denv (bi_packet b) = Some (JObj d)" "json_eq (JObj d) (JObj (packet_doc mf t (bi_packet b)))"
      using imported_file [OF run unique_ids [OF assms(3)] t] by (auto simp: assms(5) pid task_pid_def simp del: map_of_eq_Some_iff)
    note fields = packet_fields [OF d(2)]
    from born(2) b have "pinned denv dw b" by (simp add: list_all_iff)
    then obtain packet pin run_id where "load_packet denv (bi_packet b) = Inr packet"
      and birth: "b = birth_request denv (bi_packet b) (bi_role b) pin (bi_sandbox b) packet run_id"
      and box: "bi_sandbox b = (if truthy (jget packet ''parent_enabled'') then ''read-only'' else pn_sandbox pin)"
      and role: "bi_role b \<noteq> ''sol''" unfolding pinned_def by blast
    then have packet: "packet = d" using d(1) by (auto simp: load_packet_def split: if_splits)
    have task: "confined_task ienv t" using validate_manifest_cases(1) [OF assms(1)] t by (simp add: list_all_iff)
    then have cwd: "pt_cwd t \<noteq> []" "allowed_cwd ienv (pt_cwd t)" using assms(4) by (auto simp: confined_task_def)
    have parent: "mf_parent mf \<noteq> []" using validate_manifest_cases(3) [OF assms(1)] by (auto simp: is_uuid_def)
    have "bi_capture b" "bi_parent b = JStr (mf_parent mf)" "bi_cwd b = JStr (pt_cwd t)"
      by (subst birth, simp add: birth_request_def packet fields cwd parent text_of_json_def)+
    then show ?thesis using box fields(2) role cwd(2) by (simp add: packet)
  qed
  then show ?thesis using born(1) by blast
qed

section \<open>An example\<close>

definition import_stop_payload :: jobj where
  "import_stop_payload = [(''session_id'', JStr import_parent)]"

lemma import_stop_identity: "resolve_identity import_stop_payload = Inr (None, Some import_parent)"
  by code_simp

definition stopped_import :: "jobj \<Rightarrow> import_world" where
  "stopped_import row = new_import\<lparr>iw_sessions := Some (JObj [(''parents'', JObj [(import_parent, JObj row)])])\<rparr>"


definition imported_world :: import_world where
  "imported_world = snd (import_manifest import_demo_env (Some import_content) new_import)"

definition import_dispatch_env :: dispatch_env where
  "import_dispatch_env = demo_dispatch_env\<lparr>de_packets := map_of (iw_packets imported_world), de_birth := (\<lambda>b. Born (bi_run b))\<rparr>"

definition import_dispatch :: "(dispatch_error + int) \<times> dispatch_world" where
  "import_dispatch = dispatch import_dispatch_env (Some ''verifier'') False ''pass'' [''parent-1''] 0 demo_dispatch_world"

lemma import_dispatch_births: "map bi_packet (dp_births (snd import_dispatch)) = [''parent-1'']"
  by code_simp

theorem imported_packets_run_read_only_witness:
  "\<exists>b. dp_births (snd import_dispatch) = [b] \<and> bi_sandbox b = ''read-only'' \<and> bi_cwd b = JStr ''/w/b''
    \<and> bi_parent b = JStr import_parent"
proof -
  have "(case fst (import_manifest import_demo_env (Some import_content) new_import) of Inr report \<Rightarrow> True | Inl e \<Rightarrow> False)"
    by code_simp
  then have ok: "\<exists>report. fst (import_manifest import_demo_env (Some import_content) new_import) = Inr report"
    by (simp split: sum.splits)
  then obtain report where run: "import_manifest import_demo_env (Some import_content) new_import = (Inr report, imported_world)"
    unfolding imported_world_def by (metis prod.collapse)
  have resolves: "ie_resolve import_demo_env raw = Some cwd \<Longrightarrow> cwd \<noteq> []" for raw cwd by (auto simp: import_demo_env_def)
  have files: "de_packets import_dispatch_env = map_of (iw_packets imported_world)" by (simp add: import_dispatch_env_def)
  have dispatched: "dispatch import_dispatch_env (Some ''verifier'') False ''pass'' [''parent-1''] 0 demo_dispatch_world
      = (fst import_dispatch, snd import_dispatch)" by (simp add: import_dispatch_def)
  obtain b where b: "dp_births (snd import_dispatch) = [b]" "bi_packet b = ''parent-1''" using import_dispatch_births by auto
  have "demo_task ''1'' \<in> set (mf_tasks demo_manifest)" "packet_id_for import_demo_env (mf_id demo_manifest) (pt_id (demo_task ''1'')) = ''parent-1''"
    "dp_births demo_dispatch_world = []" "pt_cwd (demo_task ''1'') = ''/w/b''" "mf_parent demo_manifest = import_parent"
    by (simp_all add: demo_manifest_def demo_task_def packet_id_for_def import_demo_env_def demo_dispatch_world_def)
  then show ?thesis
    using imported_packets_run_read_only [OF demo_manifest_valid run demo_ids resolves files dispatched] b by auto
qed

end
