(* ===== verification/Mode_Switch.thy ===== *)
theory Mode_Switch
  imports Policy "HOL-Library.Sublist"
begin

text \<open>
  The switch of the routing mode, \<open>src/harness/routing_mode.py\<close>: the mode word of the policy file is
  found by a pattern and replaced in the text, everything else stays. The policy file is its text, the digest an
  argument. Texts are ASCII.
\<close>

section \<open>Reading a text\<close>

text \<open>\<open>read_text\<close> turns every line ending into a newline.\<close>

fun newlines_after :: "bool \<Rightarrow> string \<Rightarrow> string" where
  "newlines_after return [] = []"
| "newlines_after return (c # cs) =
     (if c = CHR 0x0D then CHR 0x0A # newlines_after True cs
      else if c = CHR 0x0A \<and> return then newlines_after False cs
      else c # newlines_after False cs)"

definition universal_newlines :: "string \<Rightarrow> string" where
  "universal_newlines s = newlines_after False s"

section \<open>The pattern\<close>

text \<open>
  \<open>MODE_RE\<close> from a line start: \<open>mode\<close>, blanks, an equals sign, blanks and a quote; one of the modes; a quote and
  then nothing or a comment up to the end of the line. Blanks include newlines, so the first two runs may
  cross lines; the last one need not, because the end of a line already matches.
\<close>

definition MODES :: "string list" where
  "MODES = [''cold_start'', ''shadow'', ''layered'']"

fun eat :: "string \<Rightarrow> string \<Rightarrow> string option" where
  "eat [] s = Some s"
| "eat (c # cs) [] = None"
| "eat (c # cs) (d # ds) = (if c = d then eat cs ds else None)"

definition eat_blanks :: "string \<Rightarrow> string" where
  "eat_blanks s = dropWhile is_space s"

definition line_rest :: "string \<Rightarrow> bool" where
  "line_rest s =
     (case dropWhile (\<lambda>c. is_space c \<and> c \<noteq> CHR 0x0A) s of [] \<Rightarrow> True | c # cs \<Rightarrow> c = CHR 0x0A \<or> c = CHR ''#'')"

definition eat_mode :: "string \<Rightarrow> (string \<times> string) option" where
  "eat_mode s =
     (case filter (\<lambda>m. eat (m @ [CHR 0x22]) s \<noteq> None) MODES of
        m # ms \<Rightarrow> (if line_rest (drop (Suc (length m)) s) then Some (m, drop (length m) s) else None)
      | [] \<Rightarrow> None)"

definition after_assign :: "string \<Rightarrow> string option" where
  "after_assign s =
     (case eat ''mode'' s of None \<Rightarrow> None | Some s1 \<Rightarrow>
     (case eat ''='' (eat_blanks s1) of None \<Rightarrow> None | Some s2 \<Rightarrow> eat [CHR 0x22] (eat_blanks s2)))"

text \<open>The text up to the mode, the mode, and the text from the closing quote on.\<close>

definition match_mode :: "string \<Rightarrow> (string \<times> string \<times> string) option" where
  "match_mode s =
     (case after_assign s of None \<Rightarrow> None | Some s1 \<Rightarrow>
     (case eat_mode s1 of None \<Rightarrow> None | Some (m, s2) \<Rightarrow> Some (take (length s - length s1) s, m, s2)))"

text \<open>The first match at the start of a line.\<close>

fun find_mode :: "bool \<Rightarrow> string \<Rightarrow> (string \<times> string \<times> string) option" where
  "find_mode start [] = None"
| "find_mode start (c # cs) =
     (case (if start then match_mode (c # cs) else None) of
        Some r \<Rightarrow> Some r
      | None \<Rightarrow> map_option (\<lambda>(before, m, after). (c # before, m, after)) (find_mode (c = CHR 0x0A) cs))"

definition replace_mode :: "string \<Rightarrow> string \<Rightarrow> py_error + string" where
  "replace_mode text mode =
     (case find_mode True text of None \<Rightarrow> Inl ValueError | Some (before, m, after) \<Rightarrow> Inr (before @ mode @ after))"

definition current_mode :: "string \<Rightarrow> py_error + string" where
  "current_mode text =
     (case find_mode True (universal_newlines text) of None \<Rightarrow> Inl ValueError | Some (before, m, after) \<Rightarrow> Inr m)"

section \<open>The commands\<close>

definition set_mode :: "string \<Rightarrow> string \<Rightarrow> py_error + string" where
  "set_mode bytes mode = replace_mode (universal_newlines bytes) mode"

text \<open>The authorization as the switch itself checks it: bound to the text the switch would write.\<close>

definition layered_authorized :: "(string \<Rightarrow> string) \<Rightarrow> json option \<Rightarrow> rat \<Rightarrow> string \<Rightarrow> bool" where
  "layered_authorized sha256 marker_file now bytes =
     (case (marker_file, replace_mode (universal_newlines bytes) ''layered'') of
        (Some (JObj marker), Inr candidate) \<Rightarrow>
          (case (map_of marker ''ts'', map_of marker ''conditions'') of
             (Some ts, Some conditions) \<Rightarrow>
               (case py_float ts of
                  Inl e \<Rightarrow> False
                | Inr t \<Rightarrow> jget marker ''status'' = JStr ''PASS'' \<and> jget marker ''authorized_mode'' = JStr ''layered''
                    \<and> 0 \<le> now - t \<and> now - t \<le> 3600 \<and> jget marker ''policy_sha256'' = JStr (sha256 candidate)
                    \<and> conditions_complete conditions)
           | _ \<Rightarrow> False)
      | _ \<Rightarrow> False)"

text \<open>The command \<open>set\<close>: only the layered mode needs an authorization.\<close>

definition set_command :: "(string \<Rightarrow> string) \<Rightarrow> json option \<Rightarrow> rat \<Rightarrow> string \<Rightarrow> string \<Rightarrow> py_error + string" where
  "set_command sha256 marker_file now mode bytes =
     (if mode = ''layered'' \<and> \<not> layered_authorized sha256 marker_file now bytes then Inl ValueError
      else set_mode bytes mode)"

datatype rehearsal_error = No_mode | Not_switched | Not_restored

text \<open>The rehearsal: the marker it writes or the error, and the policy file it leaves.\<close>

definition rehearse :: "(string \<Rightarrow> string) \<Rightarrow> rat \<Rightarrow> string \<Rightarrow> (rehearsal_error + jobj) \<times> string" where
  "rehearse sha256 now bytes =
     (let original = universal_newlines bytes in
      case current_mode bytes of
        Inl e \<Rightarrow> (Inl No_mode, bytes)
      | Inr mode \<Rightarrow>
          (case replace_mode original ''cold_start'' of
             Inl e \<Rightarrow> (Inl No_mode, original)
           | Inr switched \<Rightarrow>
               if current_mode switched \<noteq> Inr ''cold_start'' then (Inl Not_switched, original)
               else let restored = universal_newlines original in
                 if restored \<noteq> original \<or> current_mode original \<noteq> Inr mode then (Inl Not_restored, original)
                 else (Inr [(''schema'', JStr ''codex-loop-rollback-rehearsal/v2''), (''status'', JStr ''PASS''),
                     (''ts'', JFloat now), (''original_mode'', JStr mode), (''policy_sha256'', JStr (sha256 original)),
                     (''restored_sha256'', JStr (sha256 restored))], original)))"

section \<open>Finding the mode again\<close>

lemma eat_Some: "eat p s = Some r \<longleftrightarrow> s = p @ r"
  by (induction p s rule: eat.induct) auto

lemma eat_app [simp]: "eat p (p @ r) = Some r"
  by (simp add: eat_Some)

lemma modes_apart: "m \<in> set MODES \<Longrightarrow> m' \<in> set MODES \<Longrightarrow> m @ [CHR 0x22] @ s = m' @ [CHR 0x22] @ s' \<Longrightarrow> m = m'"
  by (auto simp: MODES_def)

lemma eat_mode_Some:
  "eat_mode s = Some (m, r) \<longleftrightarrow> m \<in> set MODES \<and> (\<exists>t. r = CHR 0x22 # t \<and> line_rest t) \<and> s = m @ r"
proof -
  have one: "m' = m" if "m \<in> set MODES" "m' \<in> set MODES" "eat (m' @ [CHR 0x22]) (m @ CHR 0x22 # t) \<noteq> None" for m m' t
    using that modes_apart [of m m' t] by (auto simp: eat_Some)
  show ?thesis
  proof
    assume "eat_mode s = Some (m, r)"
    then obtain ms where f: "filter (\<lambda>m. eat (m @ [CHR 0x22]) s \<noteq> None) MODES = m # ms" "line_rest (drop (Suc (length m)) s)"
      "r = drop (length m) s"
      by (auto simp: eat_mode_def split: list.splits if_splits)
    have "m \<in> set (filter (\<lambda>m. eat (m @ [CHR 0x22]) s \<noteq> None) MODES)" unfolding f(1) by simp
    then have m: "m \<in> set MODES" "eat (m @ [CHR 0x22]) s \<noteq> None" by simp_all
    then obtain t where "s = m @ CHR 0x22 # t" by (auto simp: eat_Some)
    then show "m \<in> set MODES \<and> (\<exists>t. r = CHR 0x22 # t \<and> line_rest t) \<and> s = m @ r" using f m by simp
  next
    assume "m \<in> set MODES \<and> (\<exists>t. r = CHR 0x22 # t \<and> line_rest t) \<and> s = m @ r"
    then obtain t where m: "m \<in> set MODES" and t: "r = CHR 0x22 # t" "line_rest t" "s = m @ CHR 0x22 # t" by auto
    have "filter (\<lambda>m. eat (m @ [CHR 0x22]) s \<noteq> None) MODES = filter (\<lambda>m'. m' = m) MODES"
      by (rule filter_cong [OF refl]) (use one [OF m] t(3) in \<open>auto simp: eat_Some\<close>)
    also have "\<dots> = [m]" using m by (auto simp: MODES_def)
    finally show "eat_mode s = Some (m, r)" using t by (simp add: eat_mode_def)
  qed
qed


lemma after_assign_Some:
  "after_assign s = Some r \<longleftrightarrow>
    (\<exists>b1 b2. list_all is_space b1 \<and> list_all is_space b2 \<and> s = ''mode'' @ b1 @ ''='' @ b2 @ [CHR 0x22] @ r)"
proof
  assume "after_assign s = Some r"
  then obtain s1 s2 where "s = ''mode'' @ s1" "dropWhile is_space s1 = ''='' @ s2" "dropWhile is_space s2 = [CHR 0x22] @ r"
    by (auto simp: after_assign_def eat_Some eat_blanks_def split: option.splits)
  moreover have "x = takeWhile is_space x @ dropWhile is_space x" "list_all is_space (takeWhile is_space x)" for x
    by (auto simp: list_all_iff dest: set_takeWhileD)
  ultimately show "\<exists>b1 b2. list_all is_space b1 \<and> list_all is_space b2 \<and> s = ''mode'' @ b1 @ ''='' @ b2 @ [CHR 0x22] @ r" by metis
next
  assume "\<exists>b1 b2. list_all is_space b1 \<and> list_all is_space b2 \<and> s = ''mode'' @ b1 @ ''='' @ b2 @ [CHR 0x22] @ r"
  then obtain b1 b2 where b: "list_all is_space b1" "list_all is_space b2" and s: "s = ''mode'' @ b1 @ ''='' @ b2 @ [CHR 0x22] @ r" by blast
  have "dropWhile is_space (b1 @ CHR ''='' # x) = CHR ''='' # x" "dropWhile is_space (b2 @ CHR 0x22 # y) = CHR 0x22 # y" for x y
    using b by (auto simp: list_all_iff dropWhile_append is_space_def)
  then show "after_assign s = Some r" by (simp add: s after_assign_def eat_blanks_def)
qed

definition mode_line :: "string \<Rightarrow> string \<Rightarrow> string \<Rightarrow> bool" where
  "mode_line before m after \<longleftrightarrow> (\<exists>b1 b2 t. list_all is_space b1 \<and> list_all is_space b2
     \<and> before = ''mode'' @ b1 @ ''='' @ b2 @ [CHR 0x22] \<and> m \<in> set MODES \<and> after = CHR 0x22 # t \<and> line_rest t)"

lemma match_mode_Some: "match_mode s = Some (before, m, after) \<longleftrightarrow> mode_line before m after \<and> s = before @ m @ after"
proof -
  have *: "match_mode s = Some (before, m, after) \<longleftrightarrow>
      (\<exists>r. after_assign s = Some r \<and> eat_mode r = Some (m, after) \<and> before = take (length s - length r) s)"
    by (auto simp: match_mode_def split: option.splits prod.splits)
  have len: "take (length (x @ r) - length r) (x @ r) = x" for x r :: string by simp
  show ?thesis
  proof
    assume "match_mode s = Some (before, m, after)"
    then obtain r b1 b2 where r: "eat_mode r = Some (m, after)" "before = take (length s - length r) s"
      and s: "list_all is_space b1" "list_all is_space b2" "s = ''mode'' @ b1 @ ''='' @ b2 @ [CHR 0x22] @ r"
      unfolding * after_assign_Some by blast
    have "before = ''mode'' @ b1 @ ''='' @ b2 @ [CHR 0x22]"
      using r(2) len [of "''mode'' @ b1 @ ''='' @ b2 @ [CHR 0x22]" r] s(3) by (metis append_assoc)
    then show "mode_line before m after \<and> s = before @ m @ after" using r(1) s unfolding mode_line_def eat_mode_Some by auto
  next
    assume "mode_line before m after \<and> s = before @ m @ after"
    then obtain b1 b2 t where b: "list_all is_space b1" "list_all is_space b2" "before = ''mode'' @ b1 @ ''='' @ b2 @ [CHR 0x22]"
      and m: "m \<in> set MODES" "after = CHR 0x22 # t" "line_rest t" and s: "s = before @ (m @ after)"
      unfolding mode_line_def by auto
    have "after_assign s = Some (m @ after)" unfolding after_assign_Some using b s by auto
    moreover have "eat_mode (m @ after) = Some (m, after)" using m by (simp add: eat_mode_Some)
    moreover have "before = take (length s - length (m @ after)) s" unfolding s by (rule len [symmetric])
    ultimately show "match_mode s = Some (before, m, after)" unfolding * by blast
  qed
qed

text \<open>Whether there is a match before a line that begins with \<open>mode\<close> does not depend on that line.\<close>

lemma split_newline: "CHR 0x0A \<notin> set p \<Longrightarrow> p @ r = u @ CHR 0x0A # z \<Longrightarrow> \<exists>u'. u = p @ u' \<and> r = u' @ CHR 0x0A # z"
  by (auto simp: append_eq_append_conv2 append_eq_Cons_conv)

lemma line_rest_newline: "line_rest (u @ CHR 0x0A # z) = line_rest (u @ CHR 0x0A # z')"
  by (induction u) (auto simp: line_rest_def)


lemma blanks_local:
  assumes "list_all is_space b" and "b @ c # x = u @ CHR 0x0A # CHR ''m'' # z" and "c \<noteq> CHR 0x0A" and "c \<noteq> CHR ''m''"
  shows "\<exists>u'. u = b @ c # u' \<and> x = u' @ CHR 0x0A # CHR ''m'' # z"
  using assms(1,2)
proof (induction b arbitrary: u)
  case Nil
  then show ?case using assms(3) by (cases u) auto
next
  case (Cons d b)
  show ?case
  proof (cases u)
    case Nil
    then have "b @ c # x = CHR ''m'' # z" using Cons.prems by simp
    then show ?thesis using Cons.prems(1) assms(4) by (cases b) (auto simp: is_space_def)
  next
    case (Cons e u')
    then show ?thesis using Cons.IH [of u'] Cons.prems by auto
  qed
qed

lemma match_local:
  assumes "mode_line before m after" and "before @ m @ after = u @ CHR 0x0A # CHR ''m'' # z"
  shows "\<exists>before' after'. mode_line before' m after' \<and> u @ CHR 0x0A # CHR ''m'' # z' = before' @ m @ after'"
proof -
  obtain b1 b2 t where b: "list_all is_space b1" "list_all is_space b2" "before = ''mode'' @ b1 @ ''='' @ b2 @ [CHR 0x22]"
    and m: "m \<in> set MODES" "after = CHR 0x22 # t" "line_rest t" using assms(1) unfolding mode_line_def by auto
  have plain: "CHR 0x0A \<notin> set ''mode''" "CHR 0x0A \<notin> set (m @ [CHR 0x22])" using m(1) by (auto simp: MODES_def)
  have "''mode'' @ (b1 @ CHR ''='' # (b2 @ CHR 0x22 # (m @ CHR 0x22 # t))) = u @ CHR 0x0A # CHR ''m'' # z"
    using assms(2) b(3) m(2) by simp
  from split_newline [OF plain(1) this] obtain u1 where u1: "u = ''mode'' @ u1"
    "b1 @ CHR ''='' # (b2 @ CHR 0x22 # (m @ CHR 0x22 # t)) = u1 @ CHR 0x0A # CHR ''m'' # z" by blast
  from blanks_local [OF b(1) u1(2)] obtain u2 where u2: "u1 = b1 @ CHR ''='' # u2"
    "b2 @ CHR 0x22 # (m @ CHR 0x22 # t) = u2 @ CHR 0x0A # CHR ''m'' # z" by auto
  from blanks_local [OF b(2) u2(2)] obtain u3 where u3: "u2 = b2 @ CHR 0x22 # u3"
    "m @ CHR 0x22 # t = u3 @ CHR 0x0A # CHR ''m'' # z" by auto
  have "(m @ [CHR 0x22]) @ t = u3 @ CHR 0x0A # CHR ''m'' # z" using u3(2) by simp
  from split_newline [OF plain(2) this] obtain u4 where u4: "u3 = (m @ [CHR 0x22]) @ u4" "t = u4 @ CHR 0x0A # CHR ''m'' # z" by blast
  have "line_rest (u4 @ CHR 0x0A # CHR ''m'' # z')" using m(3) u4(2) line_rest_newline by metis
  then have "mode_line before m (CHR 0x22 # u4 @ CHR 0x0A # CHR ''m'' # z')" unfolding mode_line_def using b m(1) by blast
  moreover have "u @ CHR 0x0A # CHR ''m'' # z' = before @ m @ (CHR 0x22 # u4 @ CHR 0x0A # CHR ''m'' # z')"
    by (simp add: u1(1) u2(1) u3(1) u4(1) b(3))
  ultimately show ?thesis by blast
qed

lemma no_match_local:
  "match_mode (u @ CHR 0x0A # CHR ''m'' # z) = None \<Longrightarrow> match_mode (u @ CHR 0x0A # CHR ''m'' # z') = None"
proof (rule ccontr)
  assume none: "match_mode (u @ CHR 0x0A # CHR ''m'' # z) = None" and "match_mode (u @ CHR 0x0A # CHR ''m'' # z') \<noteq> None"
  then obtain before m after where "match_mode (u @ CHR 0x0A # CHR ''m'' # z') = Some (before, m, after)" by auto
  then have "mode_line before m after" "before @ m @ after = u @ CHR 0x0A # CHR ''m'' # z'" by (simp_all add: match_mode_Some)
  from match_local [OF this] obtain before' after' where "mode_line before' m after'"
    "u @ CHR 0x0A # CHR ''m'' # z = before' @ m @ after'" by blast
  then have "match_mode (u @ CHR 0x0A # CHR ''m'' # z) = Some (before', m, after')" by (simp add: match_mode_Some)
  with none show False by simp
qed

lemma find_mode_parts:
  "find_mode start s = Some (before, m, after) \<Longrightarrow>
    s = before @ m @ after \<and> m \<in> set MODES
    \<and> ((start \<and> (\<exists>v. before = CHR ''m'' # v)) \<or> (\<exists>u v. before = u @ CHR 0x0A # CHR ''m'' # v))"
proof (induction start s arbitrary: before rule: find_mode.induct)
  case (1 start)
  then show ?case by simp
next
  case (2 start c cs)
  show ?case
  proof (cases "if start then match_mode (c # cs) else None")
    case (Some r)
    then have "start" "match_mode (c # cs) = Some (before, m, after)" using 2 by (auto split: if_splits)
    then show ?thesis by (auto simp: match_mode_Some mode_line_def)
  next
    case None
    then obtain before' where sub: "find_mode (c = CHR 0x0A) cs = Some (before', m, after)" "before = c # before'"
      using "2.prems" by auto
    from "2.IH" [OF None sub(1)] show ?thesis unfolding sub(2)
      by (auto intro: exI [of _ "[]"]) (metis append_Cons append_Nil)+
  qed
qed

lemma find_mode_again:
  "find_mode start s = Some (before, m, after) \<Longrightarrow> m' \<in> set MODES \<Longrightarrow> find_mode start (before @ m' @ after) = Some (before, m', after)"
proof (induction start s arbitrary: before rule: find_mode.induct)
  case (1 start)
  then show ?case by simp
next
  case (2 start c cs)
  show ?case
  proof (cases "if start then match_mode (c # cs) else None")
    case (Some r)
    then have start: "start" and found: "match_mode (c # cs) = Some (before, m, after)" using 2 by (auto split: if_splits)
    then have "match_mode (before @ m' @ after) = Some (before, m', after)"
      using "2.prems"(2) by (auto simp: match_mode_Some mode_line_def)
    moreover obtain d ds where "before @ m' @ after = d # ds" using found by (auto simp: match_mode_Some mode_line_def)
    ultimately show ?thesis using start by simp
  next
    case None
    then obtain before' where sub: "find_mode (c = CHR 0x0A) cs = Some (before', m, after)" "before = c # before'"
      using "2.prems"(1) by auto
    have parts: "cs = before' @ m @ after" using find_mode_parts [OF sub(1)] by blast
    obtain u v where uv: "c # before' = u @ CHR 0x0A # CHR ''m'' # v"
      using find_mode_parts [OF sub(1)] by (metis append_Cons append_Nil)
    have "(if start then match_mode (c # before' @ m' @ after) else None) = None"
    proof (cases start)
      case True
      then have "match_mode (u @ CHR 0x0A # CHR ''m'' # (v @ m @ after)) = None" using None parts uv by (metis append_Cons append_assoc)
      from no_match_local [OF this, of "v @ m' @ after"] show ?thesis using uv by (metis append_Cons append_assoc)
    qed simp
    then show ?thesis using "2.IH" [OF None sub(1) "2.prems"(2)] by (simp add: sub(2))
  qed
qed


section \<open>Switching back\<close>

lemma newlines_after_plain: "CHR 0x0D \<notin> set (newlines_after return s)"
  by (induction return s rule: newlines_after.induct) auto

lemma newlines_plain: "CHR 0x0D \<notin> set s \<Longrightarrow> newlines_after False s = s"
  by (induction s) auto

lemma universal_newlines_idem [simp]: "universal_newlines (universal_newlines s) = universal_newlines s"
  unfolding universal_newlines_def by (rule newlines_plain [OF newlines_after_plain])

lemma modes_plain: "m \<in> set MODES \<Longrightarrow> CHR 0x0D \<notin> set m"
  by (auto simp: MODES_def)

text \<open>A policy text in which the mode can be switched: the mode and what surrounds it.\<close>

definition switchable :: "string \<Rightarrow> string \<Rightarrow> string \<Rightarrow> string \<Rightarrow> bool" where
  "switchable text before m after \<longleftrightarrow> find_mode True text = Some (before, m, after) \<and> CHR 0x0D \<notin> set text"

lemma switchable_current: "current_mode bytes = Inr m \<Longrightarrow> \<exists>before after. switchable (universal_newlines bytes) before m after"
  by (auto simp: current_mode_def switchable_def universal_newlines_def newlines_after_plain split: option.splits)

lemma switchable_newlines: "switchable text before m after \<Longrightarrow> universal_newlines text = text"
  by (simp add: switchable_def universal_newlines_def newlines_plain)

lemma switchable_mode: "switchable text before m after \<Longrightarrow> current_mode text = Inr m"
  using switchable_newlines by (fastforce simp: switchable_def current_mode_def)

lemma switchable_set:
  assumes "switchable text before m after" and "m' \<in> set MODES"
  shows "set_mode text m' = Inr (before @ m' @ after)" and "switchable (before @ m' @ after) before m' after"
    and "text = before @ m @ after" and "m \<in> set MODES"
proof -
  have found: "find_mode True text = Some (before, m, after)" using assms(1) by (simp add: switchable_def)
  then show "set_mode text m' = Inr (before @ m' @ after)"
    using switchable_newlines [OF assms(1)] by (simp add: set_mode_def replace_mode_def)
  show "text = before @ m @ after" "m \<in> set MODES" using find_mode_parts [OF found] by blast+
  then show "switchable (before @ m' @ after) before m' after"
    using assms find_mode_again [OF found assms(2)] modes_plain [OF assms(2)] by (auto simp: switchable_def)
qed

lemma rehearse_switchable:
  assumes "switchable text before m after"
  shows "rehearse sha256 now text = (Inr [(''schema'', JStr ''codex-loop-rollback-rehearsal/v2''), (''status'', JStr ''PASS''),
      (''ts'', JFloat now), (''original_mode'', JStr m), (''policy_sha256'', JStr (sha256 text)),
      (''restored_sha256'', JStr (sha256 text))], text)"
proof -
  have "''cold_start'' \<in> set MODES" by (simp add: MODES_def)
  note there = switchable_set [OF assms this]
  have "replace_mode text ''cold_start'' = Inr (before @ ''cold_start'' @ after)"
    using there(1) switchable_newlines [OF assms] by (simp add: set_mode_def)
  then show ?thesis
    using switchable_newlines [OF assms] switchable_mode [OF assms] switchable_mode [OF there(2)] by (simp add: rehearse_def Let_def)
qed

fun switches :: "string list \<Rightarrow> string \<Rightarrow> py_error + string" where
  "switches [] bytes = Inr bytes"
| "switches (m # ms) bytes = (case set_mode bytes m of Inl e \<Rightarrow> Inl e | Inr text \<Rightarrow> switches ms text)"

lemma switches_text:
  "switchable body before m after \<Longrightarrow> set ms \<subseteq> set MODES \<Longrightarrow>
    \<exists>body'. switches ms body = Inr body' \<and> switchable body' before (last (m # ms)) after"
proof (induction ms arbitrary: body m)
  case Nil
  then show ?case by simp
next
  case (Cons m' ms)
  then have m': "m' \<in> set MODES" "set ms \<subseteq> set MODES" by auto
  note set = switchable_set [OF Cons.prems(1) m'(1)]
  show ?case using Cons.IH [OF set(2) m'(2)] set(1) by simp
qed

text \<open>Claim C24. The mode can always be switched back. If the policy file names a mode, then after any sequence of switches it
  names the last one, and switching to the mode it had gives the text it had, with the line endings a
  text file is read with; a rehearsal succeeds, leaves this text, and binds its marker to it.\<close>

theorem rollback_restores_policy:
  assumes "current_mode bytes = Inr m0" and "set ms \<subseteq> set MODES"
  shows "(\<exists>body. switches ms (universal_newlines bytes) = Inr body \<and> current_mode body = Inr (last (m0 # ms))
      \<and> set_mode body m0 = Inr (universal_newlines bytes))
    \<and> (\<exists>marker. rehearse sha256 now bytes = (Inr marker, universal_newlines bytes)
      \<and> jget marker ''status'' = JStr ''PASS'' \<and> jget marker ''original_mode'' = JStr m0
      \<and> jget marker ''restored_sha256'' = JStr (sha256 (universal_newlines bytes)))"
proof -
  obtain before after where start: "switchable (universal_newlines bytes) before m0 after"
    using switchable_current [OF assms(1)] by blast
  obtain body where body: "switches ms (universal_newlines bytes) = Inr body" "switchable body before (last (m0 # ms)) after"
    using switches_text [OF start assms(2)] by blast
  have "''cold_start'' \<in> set MODES" by (simp add: MODES_def)
  note there = switchable_set [OF start this]
  have m0: "m0 \<in> set MODES" by (rule there(4))
  have "set_mode body m0 = Inr (universal_newlines bytes)"
    using switchable_set(1) [OF body(2) m0] there(3) by simp
  moreover have "rehearse sha256 now bytes = rehearse sha256 now (universal_newlines bytes)"
    using assms(1) switchable_mode [OF start] by (simp add: rehearse_def)
  then have "\<exists>marker. rehearse sha256 now bytes = (Inr marker, universal_newlines bytes)
      \<and> jget marker ''status'' = JStr ''PASS'' \<and> jget marker ''original_mode'' = JStr m0
      \<and> jget marker ''restored_sha256'' = JStr (sha256 (universal_newlines bytes))"
    by (simp add: rehearse_switchable [OF start] jget_def dict_get_or_def)
  ultimately show ?thesis using body switchable_mode [OF body(2)] by blast
qed

definition demo_policy_text :: string where
  "demo_policy_text = ''[routing]'' @ [CHR 0x0A] @ ''mode = '' @ [CHR 0x22] @ ''shadow'' @ [CHR 0x22] @ ''  # one key'' @ [CHR 0x0A] @ ''x = 1''"

theorem rollback_restores_policy_witness:
  "current_mode demo_policy_text = Inr ''shadow''
    \<and> (\<exists>text. switches [''layered'', ''cold_start''] demo_policy_text = Inr text \<and> current_mode text = Inr ''cold_start''
        \<and> set_mode text ''shadow'' = Inr demo_policy_text)"
proof -
  have mode: "current_mode demo_policy_text = Inr ''shadow''" by code_simp
  have plain: "universal_newlines demo_policy_text = demo_policy_text" by code_simp
  have "set [''layered'', ''cold_start''] \<subseteq> set MODES" by (simp add: MODES_def)
  from rollback_restores_policy [OF mode this, unfolded plain] show ?thesis using mode by simp
qed

text \<open>
  The rehearsal promises exact bytes and hashes a text: a file with other line endings is rewritten by
  the rehearsal, which reports success.
\<close>

lemma rehearsal_rewrites_line_endings:
  "(let bytes = demo_policy_text @ [CHR 0x0D, CHR 0x0A] in
    case rehearse (\<lambda>s. s) 0 bytes of (Inr marker, left) \<Rightarrow> left \<noteq> bytes \<and> jget marker ''status'' = JStr ''PASS'' | _ \<Rightarrow> False)"
  by code_simp

text \<open>Only the first line of the form is looked at, in whatever table it is.\<close>

lemma second_mode_is_ignored:
  "(let other = ''[log]'' @ [CHR 0x0A] @ ''mode = '' @ [CHR 0x22] @ ''shadow'' @ [CHR 0x22, CHR 0x0A] in
    set_mode (other @ demo_policy_text) ''layered'' = Inr (''[log]'' @ [CHR 0x0A] @ ''mode = '' @ [CHR 0x22] @ ''layered''
      @ [CHR 0x22, CHR 0x0A] @ demo_policy_text))"
  by code_simp

end
