(* ===== verification/Layered_Gate.thy ===== *)
theory Layered_Gate
  imports Mode_Switch Provider_Health Router
begin

text \<open>
  The gate before layered routing, \<open>src/harness/layered_gate.py\<close>: its conditions, the check of all of
  them, and the flip, which switches the mode and writes the authorization that the router and the
  tool gates read. The canary, the import of the validator and the digest are arguments, as are the
  texts of the details; a document that cannot be read is \<open>None\<close>. Texts are ASCII.
\<close>

section \<open>Environment and state\<close>

datatype condition =
    Consumer_heartbeat | Exactly_once_canary | K3_model_pinned | Validator_enabled | Statemachine_schema
  | Rollback_key | Default_adapter | Meter_v2_fresh | Plan_pipeline | Provider_healthy | Lifecycle_roster
  | Rollback_rehearsal | Dual_plane_hash

text \<open>\<open>lg_canary\<close> is \<open>None\<close> when the canary raises; \<open>lg_files\<close> holds the texts of source files.\<close>

record layered_env =
  lg_policy :: jobj
  lg_now :: rat
  lg_heartbeat :: "json option"
  lg_canary :: "bool option"
  lg_importable :: bool
  lg_schema :: "json option"
  lg_files :: "string \<Rightarrow> string option"
  lg_adapter_marker :: "json option"
  lg_meter :: "json option"
  lg_role :: "jobj option"
  lg_pipeline_marker :: "json option"
  lg_health :: "jobj dict"
  lg_roster :: "json option"
  lg_rehearsal :: "json option"
  lg_dual_plane :: "json option"
  lg_sha256 :: "string \<Rightarrow> string"
  lg_str :: "json \<Rightarrow> string"
  lg_detail :: "condition \<Rightarrow> bool \<Rightarrow> string"

record layered_world =
  lw_policy_file :: string
  lw_canary :: "json option"
  lw_validator :: "json option"
  lw_authorization :: "json option"
  lw_log :: "(string \<times> condition list) list"

definition text_of :: "layered_env \<Rightarrow> json \<Rightarrow> string" where
  "text_of env v = (case v of JStr s \<Rightarrow> s | _ \<Rightarrow> lg_str env v)"

text \<open>\<open>policy.get(name, {})\<close>, on which the code calls \<open>get\<close>.\<close>

definition policy_section :: "layered_env \<Rightarrow> string \<Rightarrow> py_error + jobj" where
  "policy_section env name =
     (case jget_or (JObj []) (lg_policy env) name of JObj d \<Rightarrow> Inr d | _ \<Rightarrow> Inl AttributeError)"

text \<open>\<open>marker.get\<close> of a document; one that cannot be read counts as empty.\<close>

definition marker_of :: "json option \<Rightarrow> py_error + jobj" where
  "marker_of content = (case content of None \<Rightarrow> Inr [] | Some (JObj d) \<Rightarrow> Inr d | Some v \<Rightarrow> Inl AttributeError)"

definition passes :: "jobj \<Rightarrow> bool" where
  "passes marker \<longleftrightarrow> jget marker ''status'' = JStr ''PASS''"

text \<open>\<open>t in v\<close>\<close>

definition member_of :: "json \<Rightarrow> json \<Rightarrow> py_error + bool" where
  "member_of t v =
     (case v of
        JObj d \<Rightarrow> if hashable t then Inr (case t of JStr s \<Rightarrow> dict_has s d | _ \<Rightarrow> False) else Inl TypeError
      | JList xs \<Rightarrow> Inr (list_ex (py_eq t) xs)
      | JStr s \<Rightarrow> (case t of JStr p \<Rightarrow> Inr (sublist p s) | _ \<Rightarrow> Inl TypeError)
      | _ \<Rightarrow> Inl TypeError)"

text \<open>\<open>[t for t in ts if t not in v]\<close>\<close>

fun missing_from :: "json list \<Rightarrow> json \<Rightarrow> py_error + json list" where
  "missing_from [] v = Inr []"
| "missing_from (t # ts) v =
     (case member_of t v of
        Inl e \<Rightarrow> Inl e
      | Inr b \<Rightarrow> (case missing_from ts v of Inl e \<Rightarrow> Inl e | Inr rest \<Rightarrow> Inr (if b then rest else t # rest)))"

section \<open>The conditions\<close>

definition check_consumer_heartbeat :: "layered_env \<Rightarrow> py_error + bool" where
  "check_consumer_heartbeat env =
     (case policy_section env ''l2_queue'' of
        Inl e \<Rightarrow> Inl e
      | Inr q \<Rightarrow>
          (case py_float (jget_or (JInt 300) q ''consumer_heartbeat_max_age_s'') of
             Inl e \<Rightarrow> Inl e
           | Inr max_age \<Rightarrow>
               Inr (case lg_heartbeat env of
                      Some (JObj hb) \<Rightarrow>
                        (case map_option py_float (map_of hb ''ts'') of
                           Some (Inr ts) \<Rightarrow> \<not> max_age < lg_now env - ts | _ \<Rightarrow> False)
                    | _ \<Rightarrow> False)))"

text \<open>The two conditions that leave a marker when they hold.\<close>

definition check_exactly_once_canary :: "layered_env \<Rightarrow> layered_world \<Rightarrow> (py_error + bool) \<times> layered_world" where
  "check_exactly_once_canary env w =
     (case lg_canary env of
        Some True \<Rightarrow>
          (Inr True, w\<lparr>lw_canary := Some (JObj [(''schema'', JStr ''codex-loop-layered-guard/v2''),
             (''status'', JStr ''PASS''), (''ts'', JFloat (lg_now env)),
             (''detail'', JStr (lg_detail env Exactly_once_canary True))])\<rparr>)
      | _ \<Rightarrow> (Inr False, w))"

definition check_k3_model_pinned :: "layered_env \<Rightarrow> py_error + bool" where
  "check_k3_model_pinned env =
     (case policy_section env ''models'' of
        Inl e \<Rightarrow> Inl e
      | Inr models \<Rightarrow> Inr (py_strip (text_of env (jget_or (JStr []) models ''k3_model'')) \<noteq> []))"

definition check_validator_enabled :: "layered_env \<Rightarrow> layered_world \<Rightarrow> (py_error + bool) \<times> layered_world" where
  "check_validator_enabled env w =
     (case policy_section env ''validator'' of
        Inl e \<Rightarrow> (Inl e, w)
      | Inr v \<Rightarrow>
          if \<not> truthy (jget_or (JBool False) v ''enabled'') \<or> \<not> lg_importable env then (Inr False, w)
          else (Inr True, w\<lparr>lw_validator := Some (JObj [(''schema'', JStr ''codex-loop-layered-guard/v2''),
             (''enabled'', JBool True), (''ts'', JFloat (lg_now env)), (''validator'', JStr ''short_result_validator'')])\<rparr>))"

definition default_transitions :: "json list" where
  "default_transitions = map JStr [''t27'', ''t28'', ''t29'', ''t30'', ''t31'', ''t32'',
     ''t33'', ''t34'', ''t35'', ''t36'', ''t37'', ''t38'']"

definition required_transitions :: "layered_env \<Rightarrow> py_error + json list" where
  "required_transitions env =
     (case policy_section env ''gate_guard'' of
        Inl e \<Rightarrow> Inl e
      | Inr guard \<Rightarrow>
          (case jget_or (JList default_transitions) guard ''statemachine_required_transitions'' of
             JList ts \<Rightarrow> Inr ts
           | JStr s \<Rightarrow> Inr (map (\<lambda>c. JStr [c]) s)
           | JObj d \<Rightarrow> Inr (map (\<lambda>p. JStr (fst p)) d)
           | _ \<Rightarrow> Inl TypeError))"

definition check_statemachine_schema :: "layered_env \<Rightarrow> py_error + bool" where
  "check_statemachine_schema env =
     (case required_transitions env of
        Inl e \<Rightarrow> Inl e
      | Inr required \<Rightarrow>
          (case lg_schema env of
             None \<Rightarrow> Inr False
           | Some (JObj manifest) \<Rightarrow>
               (case missing_from required (jget_or (JObj []) manifest ''transitions'') of
                  Inl e \<Rightarrow> Inl e
                | Inr absent \<Rightarrow>
                    if absent \<noteq> [] then Inr False
                    else (case member_of (JStr ''SOL_ADJUDICATE'') (jget_or (JList []) manifest ''terminal_states'') of
                            Inl e \<Rightarrow> Inl e | Inr terminal \<Rightarrow> Inr (\<not> terminal)))
           | Some v \<Rightarrow> Inl AttributeError))"

definition check_rollback_key :: "layered_env \<Rightarrow> py_error + bool" where
  "check_rollback_key env =
     (case policy_section env ''routing'' of
        Inl e \<Rightarrow> Inl e
      | Inr routing \<Rightarrow> Inr (py_strip (text_of env (jget_or (JStr []) routing ''rollback_mode'')) = ''cold_start''))"

definition ADAPTERS :: "(string \<times> string list) list" where
  "ADAPTERS =
     [(''harness/dispatch_v2.py'', [''import dispatch as dispatch_v1'', ''orchestration_v2_adapter'']),
      (''harness/trigger_eval.py'', [''trigger_eval_v2'', ''routing_mode'']),
      (''harness/statemachine.py'', [''statemachine_v2'', ''routing_mode'']),
      (''hooks/sol_tool_gate_router.py'', [''cold_start'', ''shadow'', ''layered''])]"

definition adapter_present :: "layered_env \<Rightarrow> string \<times> string list \<Rightarrow> bool" where
  "adapter_present env row =
     (case lg_files env (fst row) of None \<Rightarrow> False | Some body \<Rightarrow> list_all (\<lambda>marker. sublist marker body) (snd row))"

definition check_default_adapter :: "layered_env \<Rightarrow> py_error + bool" where
  "check_default_adapter env =
     (if list_all (adapter_present env) ADAPTERS then Inr True
      else case marker_of (lg_adapter_marker env) of Inl e \<Rightarrow> Inl e | Inr marker \<Rightarrow> Inr (passes marker))"

text \<open>The figures of the meter: when it was made, its status and its denominator; \<open>None\<close> for what the code catches.\<close>

definition primary_meter :: "layered_env \<Rightarrow> jobj \<Rightarrow> (rat \<times> string \<times> int) option" where
  "primary_meter env report =
     (case py_float (jget_or (jget_or (JInt 0) report ''generated_ts'') report ''generated_at'') of
        Inl e \<Rightarrow> None
      | Inr generated \<Rightarrow>
          (case map_of report ''windows'' of
             Some (JObj windows) \<Rightarrow>
               (case map_of windows (text_of env (jget_or (JStr ''rolling_5h'') report ''primary_window'')) of
                  Some (JObj primary) \<Rightarrow>
                    (case (map_of primary ''status'', map_option py_int (map_of primary ''production_effective_tokens'')) of
                       (Some status, Some (Inr n)) \<Rightarrow> Some (generated, text_of env status, n)
                     | _ \<Rightarrow> None)
                | _ \<Rightarrow> None)
           | _ \<Rightarrow> None))"

definition check_meter_v2_fresh :: "layered_env \<Rightarrow> py_error + bool" where
  "check_meter_v2_fresh env =
     (case lg_meter env of
        None \<Rightarrow> Inr False
      | Some (JObj report) \<Rightarrow>
          (case primary_meter env report of
             None \<Rightarrow> Inr False
           | Some (generated, status, denominator) \<Rightarrow>
               (case policy_section env ''tokens'' of
                  Inl e \<Rightarrow> Inl e
                | Inr tokens \<Rightarrow>
                    (case (py_int (jget_or (JInt 2000000) tokens ''minimum_denominator''),
                           py_float (jget_or (JInt 7200) tokens ''stale_after_s'')) of
                       (Inr minimum, Inr stale_after) \<Rightarrow>
                         Inr (\<not> stale_after < lg_now env - generated \<and> status = ''OK'' \<and> minimum \<le> denominator)
                     | _ \<Rightarrow> Inr False)))
      | Some v \<Rightarrow> Inl AttributeError)"

definition check_plan_pipeline :: "layered_env \<Rightarrow> py_error + bool" where
  "check_plan_pipeline env =
     (case (lg_files env ''harness/orchestration/plan_pipeline.py'', lg_role env, policy_section env ''models'') of
        (Some source, Some role, Inr models) \<Rightarrow>
          Inr (jget role ''model'' = JStr (text_of env (jget_or (JStr []) models ''k3_model''))
            \<and> sublist ''lifecycle_supervisor.py'' source \<and> sublist ''load_plan_settings'' source)
      | (Some source, Some role, Inl e) \<Rightarrow> Inl e
      | (_, _, models) \<Rightarrow>
          (case marker_of (lg_pipeline_marker env) of
             Inl e \<Rightarrow> Inl e
           | Inr marker \<Rightarrow>
               if \<not> passes marker then Inr False
               else (case models of Inl e \<Rightarrow> Inl e | Inr d \<Rightarrow> Inr (py_eq (jget marker ''model'') (jget d ''k3_model'')))))"

definition check_provider_health :: "layered_env \<Rightarrow> py_error + bool" where
  "check_provider_health env =
     (case policy_section env ''models'' of
        Inl e \<Rightarrow> Inl e
      | Inr models \<Rightarrow>
          (let expected = text_of env (jget_or (JStr []) models ''k3_model'') in
           case map_of (lg_health env) (health_path (lg_sha256 env) expected) of
             None \<Rightarrow> Inr False
           | Some health \<Rightarrow>
               (case (map_of health ''status'', py_float (jget_or (JInt 0) health ''backoff_until''),
                      map_option py_float (map_of health ''ts'')) of
                  (Some status, Inr backoff, Some (Inr ts)) \<Rightarrow>
                    Inr (text_of env status = ''healthy'' \<and> \<not> lg_now env < backoff \<and> \<not> 3600 < lg_now env - ts
                      \<and> jget health ''model'' = JStr expected)
                | _ \<Rightarrow> Inr False)))"

definition check_lifecycle_roster :: "layered_env \<Rightarrow> py_error + bool" where
  "check_lifecycle_roster env =
     (case lg_roster env of
        None \<Rightarrow> Inr False
      | Some (JObj roster) \<Rightarrow> Inr (is_obj (jget roster ''jobs''))
      | Some v \<Rightarrow> Inl AttributeError)"

text \<open>A marker with a readable time stamp, and its age.\<close>

definition dated :: "layered_env \<Rightarrow> json option \<Rightarrow> (jobj \<times> rat) option" where
  "dated env content =
     (case content of
        Some (JObj marker) \<Rightarrow>
          (case map_option py_float (map_of marker ''ts'') of Some (Inr ts) \<Rightarrow> Some (marker, lg_now env - ts) | _ \<Rightarrow> None)
      | _ \<Rightarrow> None)"

definition check_rollback_rehearsal :: "layered_env \<Rightarrow> layered_world \<Rightarrow> bool" where
  "check_rollback_rehearsal env w =
     (case dated env (lg_rehearsal env) of
        None \<Rightarrow> False
      | Some (marker, age) \<Rightarrow> passes marker \<and> \<not> 86400 < age
          \<and> jget marker ''restored_sha256'' = JStr (lg_sha256 env (lw_policy_file w)))"

definition check_dual_plane_hash :: "layered_env \<Rightarrow> layered_world \<Rightarrow> bool" where
  "check_dual_plane_hash env w =
     (case dated env (lg_dual_plane env) of
        None \<Rightarrow> False
      | Some (marker, age) \<Rightarrow>
          passes marker \<and> py_eq (jget marker ''windows_manifest_sha256'') (jget marker ''wsl_manifest_sha256'')
          \<and> \<not> 3600 < age \<and> jget marker ''policy_sha256'' = JStr (lg_sha256 env (lw_policy_file w)))"

section \<open>The gate\<close>

fun check :: "layered_env \<Rightarrow> condition \<Rightarrow> layered_world \<Rightarrow> (py_error + bool) \<times> layered_world" where
  "check env Consumer_heartbeat w = (check_consumer_heartbeat env, w)"
| "check env Exactly_once_canary w = check_exactly_once_canary env w"
| "check env K3_model_pinned w = (check_k3_model_pinned env, w)"
| "check env Validator_enabled w = check_validator_enabled env w"
| "check env Statemachine_schema w = (check_statemachine_schema env, w)"
| "check env Rollback_key w = (check_rollback_key env, w)"
| "check env Default_adapter w = (check_default_adapter env, w)"
| "check env Meter_v2_fresh w = (check_meter_v2_fresh env, w)"
| "check env Plan_pipeline w = (check_plan_pipeline env, w)"
| "check env Provider_healthy w = (check_provider_health env, w)"
| "check env Lifecycle_roster w = (check_lifecycle_roster env, w)"
| "check env Rollback_rehearsal w = (Inr (check_rollback_rehearsal env w), w)"
| "check env Dual_plane_hash w = (Inr (check_dual_plane_hash env w), w)"

fun condition_name :: "condition \<Rightarrow> string" where
  "condition_name Consumer_heartbeat = ''consumer_heartbeat''"
| "condition_name Exactly_once_canary = ''exactly_once_canary''"
| "condition_name K3_model_pinned = ''k3_model_pinned''"
| "condition_name Validator_enabled = ''validator_enabled''"
| "condition_name Statemachine_schema = ''statemachine_schema''"
| "condition_name Rollback_key = ''rollback_key''"
| "condition_name Default_adapter = ''default_adapter''"
| "condition_name Meter_v2_fresh = ''meter_v2_fresh''"
| "condition_name Plan_pipeline = ''plan_pipeline''"
| "condition_name Provider_healthy = ''provider_health''"
| "condition_name Lifecycle_roster = ''lifecycle_roster''"
| "condition_name Rollback_rehearsal = ''rollback_rehearsal''"
| "condition_name Dual_plane_hash = ''dual_plane_hash''"

definition CONDITIONS :: "condition list" where
  "CONDITIONS = [Consumer_heartbeat, Exactly_once_canary, K3_model_pinned, Validator_enabled, Statemachine_schema,
     Rollback_key, Default_adapter, Meter_v2_fresh, Plan_pipeline, Provider_healthy, Lifecycle_roster,
     Rollback_rehearsal, Dual_plane_hash]"

definition required :: "jobj \<Rightarrow> condition \<Rightarrow> bool" where
  "required guard c = truthy (jget_or (JBool True) guard (''require_'' @ condition_name c))"

text \<open>A condition the policy does not require counts as met.\<close>

fun run_checks :: "layered_env \<Rightarrow> jobj \<Rightarrow> condition list \<Rightarrow> layered_world
    \<Rightarrow> (py_error + (condition \<times> bool) list) \<times> layered_world" where
  "run_checks env guard [] w = (Inr [], w)"
| "run_checks env guard (c # cs) w =
     (case (if required guard c then check env c w else (Inr True, w)) of
        (Inl e, w1) \<Rightarrow> (Inl e, w1)
      | (Inr ok, w1) \<Rightarrow>
          (case run_checks env guard cs w1 of
             (Inl e, w2) \<Rightarrow> (Inl e, w2)
           | (Inr rest, w2) \<Rightarrow> (Inr ((c, ok) # rest), w2)))"

definition failed :: "(condition \<times> bool) list \<Rightarrow> condition list" where
  "failed results = map fst (filter (\<lambda>r. \<not> snd r) results)"

text \<open>The required transitions are read when the gate is made, whether or not the condition is required.\<close>

definition check_all :: "layered_env \<Rightarrow> layered_world \<Rightarrow> (py_error + (condition \<times> bool) list) \<times> layered_world" where
  "check_all env w =
     (case (policy_section env ''gate_guard'', required_transitions env) of
        (Inl e, _) \<Rightarrow> (Inl e, w)
      | (Inr guard, Inl e) \<Rightarrow> (Inl e, w)
      | (Inr guard, Inr transitions) \<Rightarrow>
          (case run_checks env guard CONDITIONS w of
             (Inl e, w1) \<Rightarrow> (Inl e, w1)
           | (Inr results, w1) \<Rightarrow> (Inr results, w1\<lparr>lw_log := lw_log w1 @ [(''gate_check'', failed results)]\<rparr>)))"

definition condition_doc :: "layered_env \<Rightarrow> condition \<times> bool \<Rightarrow> json" where
  "condition_doc env r =
     JObj [(''name'', JStr (condition_name (fst r))), (''ok'', JBool (snd r)), (''detail'', JStr (lg_detail env (fst r) (snd r)))]"

definition authorization_doc :: "layered_env \<Rightarrow> (condition \<times> bool) list \<Rightarrow> string \<Rightarrow> json" where
  "authorization_doc env results bytes =
     JObj [(''schema'', JStr ''codex-loop-layered-authorization/v2''), (''status'', JStr ''PASS''),
       (''ts'', JFloat (lg_now env)), (''authorized_mode'', JStr ''layered''),
       (''policy_sha256'', JStr (lg_sha256 env bytes)), (''conditions'', JList (map (condition_doc env) results))]"

definition enable :: "layered_env \<Rightarrow> layered_world \<Rightarrow> (py_error + (condition \<times> bool) list) \<times> layered_world" where
  "enable env w =
     (case check_all env w of
        (Inl e, w1) \<Rightarrow> (Inl e, w1)
      | (Inr results, w1) \<Rightarrow>
          if failed results \<noteq> []
          then (Inr results, w1\<lparr>lw_log := lw_log w1 @ [(''layered_mode_refused'', failed results)]\<rparr>)
          else (case set_mode (lw_policy_file w1) ''layered'' of
                  Inl e \<Rightarrow> (Inl e, w1)
                | Inr bytes \<Rightarrow>
                    (Inr results, w1\<lparr>lw_policy_file := bytes, lw_authorization := Some (authorization_doc env results bytes),
                       lw_log := lw_log w1 @ [(''layered_mode_authorized'', [])]\<rparr>)))"

end
