(* ===== verification/Layered_Properties.thy ===== *)
theory Layered_Properties
  imports Layered_Gate
begin

text \<open>
  The gate before layered routing: what an enabled flip leaves, how long it authorizes, what it needs
  to be repeated, and what the router finds after it.
\<close>

section \<open>What a run of the checks leaves\<close>

lemma check_frame: "check env c w = (r, w') \<Longrightarrow>
    lw_policy_file w' = lw_policy_file w \<and> lw_authorization w' = lw_authorization w \<and> lw_log w' = lw_log w"
  by (cases c) (auto simp: check_exactly_once_canary_def check_validator_enabled_def split: option.splits bool.splits sum.splits if_splits)

definition marks_pass :: "json option \<Rightarrow> bool" where
  "marks_pass content \<longleftrightarrow> (\<exists>d. content = Some (JObj d) \<and> passes d)"

definition marks_enabled :: "json option \<Rightarrow> bool" where
  "marks_enabled content \<longleftrightarrow> (\<exists>d. content = Some (JObj d) \<and> truthy (jget d ''enabled''))"

lemma marks_object [simp]: "marks_pass (Some (JObj d)) = passes d" "marks_enabled (Some (JObj d)) = truthy (jget d ''enabled'')"
  by (simp_all add: marks_pass_def marks_enabled_def)

lemma jget_cons [simp]: "jget ((k, v) # d) k' = (if k' = k then v else jget d k')"
  by (simp add: jget_def dict_get_or_def)

lemma check_markers: "check env c w = (r, w') \<Longrightarrow>
    (marks_pass (lw_canary w) \<or> (c = Exactly_once_canary \<and> r = Inr True) \<longrightarrow> marks_pass (lw_canary w'))
    \<and> (marks_enabled (lw_validator w) \<or> (c = Validator_enabled \<and> r = Inr True) \<longrightarrow> marks_enabled (lw_validator w'))"
  by (cases c) (auto simp: check_exactly_once_canary_def check_validator_enabled_def passes_def
      split: option.splits bool.splits sum.splits if_splits)

text \<open>What a run of the checks leaves, for the conditions that it ran.\<close>

lemma run_checks_cases:
  assumes "run_checks env guard cs w = (Inr results, w')"
  shows "map fst results = cs" and "lw_policy_file w' = lw_policy_file w" and "lw_authorization w' = lw_authorization w"
    and "\<forall>(c, ok) \<in> set results. required guard c \<longrightarrow>
      (\<exists>w0 w1. lw_policy_file w0 = lw_policy_file w \<and> check env c w0 = (Inr ok, w1))"
    and "marks_pass (lw_canary w) \<or> (required guard Exactly_once_canary \<and> (Exactly_once_canary, True) \<in> set results)
      \<longrightarrow> marks_pass (lw_canary w')"
    and "marks_enabled (lw_validator w) \<or> (required guard Validator_enabled \<and> (Validator_enabled, True) \<in> set results)
      \<longrightarrow> marks_enabled (lw_validator w')"
proof -
  have "map fst results = cs \<and> lw_policy_file w' = lw_policy_file w \<and> lw_authorization w' = lw_authorization w
    \<and> (\<forall>(c, ok) \<in> set results. required guard c \<longrightarrow>
      (\<exists>w0 w1. lw_policy_file w0 = lw_policy_file w \<and> check env c w0 = (Inr ok, w1)))
    \<and> (marks_pass (lw_canary w) \<or> (required guard Exactly_once_canary \<and> (Exactly_once_canary, True) \<in> set results)
      \<longrightarrow> marks_pass (lw_canary w'))
    \<and> (marks_enabled (lw_validator w) \<or> (required guard Validator_enabled \<and> (Validator_enabled, True) \<in> set results)
      \<longrightarrow> marks_enabled (lw_validator w'))"
    using assms
  proof (induction cs arbitrary: w results)
    case Nil
    then show ?case by simp
  next
    case (Cons c cs)
    obtain r w1 where one: "(if required guard c then check env c w else (Inr True, w)) = (r, w1)"
      by (cases "if required guard c then check env c w else (Inr True, w)")
    with Cons.prems obtain ok rest where r: "r = Inr ok" and rest: "run_checks env guard cs w1 = (Inr rest, w')"
      and results: "results = (c, ok) # rest"
      by (auto split: sum.splits prod.splits)
    note IH = Cons.IH [OF rest]
    show ?case
    proof (cases "required guard c")
      case True
      then have run: "check env c w = (Inr ok, w1)" using one r by simp
      have "\<exists>w0 w1. lw_policy_file w0 = lw_policy_file w \<and> check env c w0 = (Inr ok, w1)" using run by blast
      then show ?thesis
        using IH check_frame [OF run] check_markers [OF run] by (simp add: results True split: prod.splits) blast
    next
      case False
      then have "w1 = w" using one by simp
      moreover have "required guard c' \<Longrightarrow> c' \<noteq> c" for c' using False by auto
      note this [of Exactly_once_canary] this [of Validator_enabled]
      ultimately show ?thesis using IH by (auto simp: results False)
    qed
  qed
  then show "map fst results = cs" and "lw_policy_file w' = lw_policy_file w" and "lw_authorization w' = lw_authorization w"
    and "\<forall>(c, ok) \<in> set results. required guard c \<longrightarrow>
      (\<exists>w0 w1. lw_policy_file w0 = lw_policy_file w \<and> check env c w0 = (Inr ok, w1))"
    and "marks_pass (lw_canary w) \<or> (required guard Exactly_once_canary \<and> (Exactly_once_canary, True) \<in> set results)
      \<longrightarrow> marks_pass (lw_canary w')"
    and "marks_enabled (lw_validator w) \<or> (required guard Validator_enabled \<and> (Validator_enabled, True) \<in> set results)
      \<longrightarrow> marks_enabled (lw_validator w')" by blast+
qed


lemma check_all_cases:
  assumes "check_all env w = (Inr results, w')"
  obtains guard w1 where "policy_section env ''gate_guard'' = Inr guard"
    and "run_checks env guard CONDITIONS w = (Inr results, w1)"
    and "w' = w1\<lparr>lw_log := lw_log w1 @ [(''gate_check'', failed results)]\<rparr>"
  using assms by (auto simp: check_all_def split: sum.splits prod.splits)

lemma failed_none: "failed results = [] \<longleftrightarrow> (\<forall>(c, ok) \<in> set results. ok)"
  by (auto simp: failed_def filter_empty_conv)

lemma enable_cases:
  assumes "enable env w = (Inr results, w')"
  obtains guard w1 where "policy_section env ''gate_guard'' = Inr guard"
    and "run_checks env guard CONDITIONS w = (Inr results, w1)"
    and "failed results \<noteq> [] \<Longrightarrow> lw_policy_file w' = lw_policy_file w1 \<and> lw_authorization w' = lw_authorization w1"
    and "failed results = [] \<Longrightarrow> set_mode (lw_policy_file w1) ''layered'' = Inr (lw_policy_file w')
      \<and> lw_authorization w' = Some (authorization_doc env results (lw_policy_file w'))"
    and "lw_canary w' = lw_canary w1" and "lw_validator w' = lw_validator w1"
proof -
  obtain w2 where all: "check_all env w = (Inr results, w2)"
    using assms by (auto simp: enable_def split: sum.splits prod.splits if_splits)
  from all obtain guard w1 where g: "policy_section env ''gate_guard'' = Inr guard"
    "run_checks env guard CONDITIONS w = (Inr results, w1)"
    "w2 = w1\<lparr>lw_log := lw_log w1 @ [(''gate_check'', failed results)]\<rparr>" by (rule check_all_cases)
  show thesis
    by (rule that [OF g(1,2)]) (use assms all g(3) in \<open>auto simp: enable_def split: sum.splits if_splits\<close>)
qed

section \<open>The flip\<close>

lemma conditions_of_results:
  "conditions_complete (JList (map (condition_doc env) results)) \<longleftrightarrow> results \<noteq> [] \<and> failed results = []"
  by (auto simp: conditions_complete_def condition_met_def condition_doc_def list_all_iff failed_def filter_empty_conv
      jget_def dict_get_or_def)

lemma authorization_fields:
  "map_of (obj_of (authorization_doc env results bytes)) ''ts'' = Some (JFloat (lg_now env))"
  "map_of (obj_of (authorization_doc env results bytes)) ''conditions'' = Some (JList (map (condition_doc env) results))"
  "jget (obj_of (authorization_doc env results bytes)) ''status'' = JStr ''PASS''"
  "jget (obj_of (authorization_doc env results bytes)) ''authorized_mode'' = JStr ''layered''"
  "jget (obj_of (authorization_doc env results bytes)) ''policy_sha256'' = JStr (lg_sha256 env bytes)"
  by (simp_all add: authorization_doc_def jget_def dict_get_or_def del: map_of_eq_Some_iff)

lemma authorization_accepted:
  assumes "failed results = []" and "results \<noteq> []"
  shows "fst (layered_authorization (Some (authorization_doc env results bytes)) now 3600 (Some h))
    \<longleftrightarrow> h = lg_sha256 env bytes \<and> lg_now env \<le> now \<and> now \<le> lg_now env + 3600"
proof -
  have doc: "authorization_doc env results bytes = JObj (obj_of (authorization_doc env results bytes))"
    by (simp add: authorization_doc_def)
  have complete: "conditions_complete (JList (map (condition_doc env) results))"
    using assms by (simp add: conditions_of_results)
  show ?thesis
    by (subst doc) (auto simp: layered_authorization_def Let_def authorization_fields complete simp del: map_of_eq_Some_iff)
qed

lemma results_not_empty: "map fst results = CONDITIONS \<Longrightarrow> results \<noteq> []"
  by (auto simp: CONDITIONS_def)

lemma flip_facts:
  assumes "enable env w = (Inr results, w')"
  shows "map fst results = CONDITIONS"
    and "failed results \<noteq> [] \<longrightarrow> lw_policy_file w' = lw_policy_file w \<and> lw_authorization w' = lw_authorization w"
    and "failed results = [] \<longrightarrow>
      (\<exists>before m after. universal_newlines (lw_policy_file w) = before @ m @ after \<and> m \<in> set MODES
          \<and> lw_policy_file w' = before @ ''layered'' @ after)
      \<and> current_mode (lw_policy_file w') = Inr ''layered''
      \<and> (\<forall>now h. fst (layered_authorization (lw_authorization w') now 3600 (Some h))
          \<longleftrightarrow> h = lg_sha256 env (lw_policy_file w') \<and> lg_now env \<le> now \<and> now \<le> lg_now env + 3600)
      \<and> (\<forall>now. layered_authorized (lg_sha256 env) (lw_authorization w') now (lw_policy_file w')
          \<longleftrightarrow> lg_now env \<le> now \<and> now \<le> lg_now env + 3600)"
proof -
  obtain guard w1 where run: "run_checks env guard CONDITIONS w = (Inr results, w1)"
    and refused: "failed results \<noteq> [] \<Longrightarrow> lw_policy_file w' = lw_policy_file w1 \<and> lw_authorization w' = lw_authorization w1"
    and flipped: "failed results = [] \<Longrightarrow> set_mode (lw_policy_file w1) ''layered'' = Inr (lw_policy_file w')
      \<and> lw_authorization w' = Some (authorization_doc env results (lw_policy_file w'))"
    using assms by (rule enable_cases) blast
  note facts = run_checks_cases [OF run]
  show all: "map fst results = CONDITIONS" by (rule facts(1))
  show "failed results \<noteq> [] \<longrightarrow> lw_policy_file w' = lw_policy_file w \<and> lw_authorization w' = lw_authorization w"
    using refused facts(2,3) by simp
  show "failed results = [] \<longrightarrow>
      (\<exists>before m after. universal_newlines (lw_policy_file w) = before @ m @ after \<and> m \<in> set MODES
          \<and> lw_policy_file w' = before @ ''layered'' @ after)
      \<and> current_mode (lw_policy_file w') = Inr ''layered''
      \<and> (\<forall>now h. fst (layered_authorization (lw_authorization w') now 3600 (Some h))
          \<longleftrightarrow> h = lg_sha256 env (lw_policy_file w') \<and> lg_now env \<le> now \<and> now \<le> lg_now env + 3600)
      \<and> (\<forall>now. layered_authorized (lg_sha256 env) (lw_authorization w') now (lw_policy_file w')
          \<longleftrightarrow> lg_now env \<le> now \<and> now \<le> lg_now env + 3600)"
  proof (intro impI)
    assume none: "failed results = []"
    from flipped [OF none] have set: "set_mode (lw_policy_file w) ''layered'' = Inr (lw_policy_file w')"
      and doc: "lw_authorization w' = Some (authorization_doc env results (lw_policy_file w'))" by (simp_all add: facts(2))
    obtain before m after where sw: "switchable (universal_newlines (lw_policy_file w)) before m after"
      using set by (auto simp: set_mode_def replace_mode_def switchable_def universal_newlines_def newlines_after_plain split: option.splits)
    have lay: "''layered'' \<in> set MODES" by (simp add: MODES_def)
    note there = switchable_set [OF sw lay]
    have disk: "lw_policy_file w' = before @ ''layered'' @ after" using there(1) set by (simp add: set_mode_def)
    have again: "replace_mode (universal_newlines (lw_policy_file w')) ''layered'' = Inr (lw_policy_file w')"
      using switchable_set(1) [OF there(2) lay] by (simp add: set_mode_def disk)
    have "layered_authorized (lg_sha256 env) (lw_authorization w') now (lw_policy_file w')
        \<longleftrightarrow> lg_now env \<le> now \<and> now \<le> lg_now env + 3600" for now
    proof -
      have obj: "authorization_doc env results bytes = JObj (obj_of (authorization_doc env results bytes))" for bytes
        by (simp add: authorization_doc_def)
      have complete: "conditions_complete (JList (map (condition_doc env) results))"
        using none results_not_empty [OF all] by (simp add: conditions_of_results)
      show ?thesis
        unfolding layered_authorized_def doc again
        by (subst obj) (auto simp: authorization_fields complete simp del: map_of_eq_Some_iff)
    qed
    then show "(\<exists>before m after. universal_newlines (lw_policy_file w) = before @ m @ after \<and> m \<in> set MODES
          \<and> lw_policy_file w' = before @ ''layered'' @ after)
      \<and> current_mode (lw_policy_file w') = Inr ''layered''
      \<and> (\<forall>now h. fst (layered_authorization (lw_authorization w') now 3600 (Some h))
          \<longleftrightarrow> h = lg_sha256 env (lw_policy_file w') \<and> lg_now env \<le> now \<and> now \<le> lg_now env + 3600)
      \<and> (\<forall>now. layered_authorized (lg_sha256 env) (lw_authorization w') now (lw_policy_file w')
          \<longleftrightarrow> lg_now env \<le> now \<and> now \<le> lg_now env + 3600)"
      using there(3,4) disk switchable_mode [OF there(2)] authorization_accepted [OF none results_not_empty [OF all]]
      by (simp add: doc) blast
  qed
qed


section \<open>The next flip\<close>

lemma layered_plain: "enable env w = (Inr results, w') \<Longrightarrow> failed results = [] \<Longrightarrow> universal_newlines (lw_policy_file w') = lw_policy_file w'"
proof -
  assume "enable env w = (Inr results, w')" "failed results = []"
  from flip_facts(3) [OF this(1)] this(2) obtain before m after where parts: "universal_newlines (lw_policy_file w) = before @ m @ after"
    "lw_policy_file w' = before @ ''layered'' @ after" by blast
  have "CHR 0x0D \<notin> set (before @ m @ after)" using newlines_after_plain parts(1) by (metis universal_newlines_def)
  then show ?thesis by (simp add: parts(2) universal_newlines_def newlines_plain)
qed

lemma held:
  assumes "run_checks env guard cs w = (Inr results, w')" and "c \<in> set cs" and "required guard c"
  shows "\<exists>ok w0 w1. (c, ok) \<in> set results \<and> lw_policy_file w0 = lw_policy_file w \<and> check env c w0 = (Inr ok, w1)"
proof -
  have "c \<in> fst ` set results" using run_checks_cases(1) [OF assms(1)] assms(2) by (metis list.set_map)
  then obtain ok where ok: "(c, ok) \<in> set results" by auto
  then have "\<exists>w0 w1. lw_policy_file w0 = lw_policy_file w \<and> check env c w0 = (Inr ok, w1)"
    using run_checks_cases(4) [OF assms(1)] assms(3) by blast
  with ok show ?thesis by blast
qed

lemma held_true:
  assumes "run_checks env guard CONDITIONS w = (Inr results, w')" and "failed results = []" and "required guard c"
  shows "\<exists>w0 w1. lw_policy_file w0 = lw_policy_file w \<and> check env c w0 = (Inr True, w1) \<and> (c, True) \<in> set results"
proof -
  have "c \<in> set CONDITIONS" by (cases c) (simp_all add: CONDITIONS_def)
  from held [OF assms(1) this assms(3)] obtain ok w0 w1 where "(c, ok) \<in> set results"
    "lw_policy_file w0 = lw_policy_file w" "check env c w0 = (Inr ok, w1)" by blast
  moreover from this assms(2) have "ok" by (auto simp: failed_none)
  ultimately show ?thesis by auto
qed

lemma rehearsal_of_file: "lw_policy_file w0 = lw_policy_file w \<Longrightarrow> check_rollback_rehearsal env w0 = check_rollback_rehearsal env w"
  by (auto simp: check_rollback_rehearsal_def split: option.split)

text \<open>Every flip that changes the policy needs a rehearsal of its own: after a flip that was required to be
  rehearsed, the same rehearsal fails the next check of the policy that is now in force, whatever else
  has changed; the marker of a rehearsal made on that policy is good for a day.\<close>

theorem flip_needs_new_rehearsal:
  assumes "enable env w = (Inr results, w')" and "failed results = []"
    and "policy_section env ''gate_guard'' = Inr guard" and "required guard Rollback_rehearsal"
    and "lg_sha256 env (lw_policy_file w') \<noteq> lg_sha256 env (lw_policy_file w)"
    and "lg_policy env' = lg_policy env" and "lg_sha256 env' = lg_sha256 env"
    and "lw_policy_file v = lw_policy_file w'" and "check_all env' v = (Inr results', v')"
  shows "(lg_rehearsal env' = lg_rehearsal env \<longrightarrow> Rollback_rehearsal \<in> set (failed results'))
    \<and> (\<exists>marker. rehearse (lg_sha256 env) now (lw_policy_file w') = (Inr marker, lw_policy_file w')
      \<and> (lg_rehearsal env' = Some (JObj marker) \<and> lg_now env' \<le> now + 86400 \<longrightarrow> Rollback_rehearsal \<notin> set (failed results')))"
proof -
  obtain guard1 w1 where g1: "policy_section env ''gate_guard'' = Inr guard1" and run: "run_checks env guard1 CONDITIONS w = (Inr results, w1)"
    using assms(1) by (rule enable_cases) blast
  have guard1: "guard1 = guard" using assms(3) g1 by simp
  obtain guard2 w2 where g2: "policy_section env' ''gate_guard'' = Inr guard2" and run': "run_checks env' guard2 CONDITIONS v = (Inr results', w2)"
    using assms(9) by (rule check_all_cases) blast
  have guard2: "guard2 = guard" using assms(3,6) g2 by (simp add: policy_section_def)
  from held_true [OF run [unfolded guard1] assms(2,4)] obtain w0 where "lw_policy_file w0 = lw_policy_file w" "check_rollback_rehearsal env w0"
    by auto
  then have old: "check_rollback_rehearsal env w" using rehearsal_of_file by blast
  have "Rollback_rehearsal \<in> set CONDITIONS" by (simp add: CONDITIONS_def)
  from held [OF run' [unfolded guard2] this assms(4)] obtain ok w3 where ok1: "(Rollback_rehearsal, ok) \<in> set results'"
    "lw_policy_file w3 = lw_policy_file v" "ok = check_rollback_rehearsal env' w3" by auto
  then have ok: "(Rollback_rehearsal, ok) \<in> set results'" "ok = check_rollback_rehearsal env' v"
    using rehearsal_of_file [OF ok1(2)] by simp_all
  have one: "Rollback_rehearsal \<in> set (failed results') \<longleftrightarrow> \<not> ok"
  proof -
    have apart: "distinct (map fst results')" using run_checks_cases(1) [OF run'] by (simp add: CONDITIONS_def)
    have "b = ok" if "(Rollback_rehearsal, b) \<in> set results'" for b by (rule eq_key_imp_eq_value [OF apart that ok(1)])
    moreover have "Rollback_rehearsal \<in> set (failed results') \<longleftrightarrow> (Rollback_rehearsal, False) \<in> set results'"
      by (force simp: failed_def)
    ultimately show ?thesis using ok(1) by (cases ok) metis+
  qed
  have "\<not> ok" if "lg_rehearsal env' = lg_rehearsal env"
    using old assms(5,7,8) that by (auto simp: ok(2) check_rollback_rehearsal_def dated_def split: option.splits json.splits sum.splits)
  moreover
  have flip: "current_mode (lw_policy_file w') = Inr ''layered''" using flip_facts(3) [OF assms(1)] assms(2) by blast
  obtain before after where there: "switchable (lw_policy_file w') before ''layered'' after"
    using switchable_current [OF flip] unfolding layered_plain [OF assms(1,2)] by blast
  define marker where "marker = [(''schema'', JStr ''codex-loop-rollback-rehearsal/v2''), (''status'', JStr ''PASS''),
      (''ts'', JFloat now), (''original_mode'', JStr ''layered''), (''policy_sha256'', JStr (lg_sha256 env (lw_policy_file w'))),
      (''restored_sha256'', JStr (lg_sha256 env (lw_policy_file w')))]"
  have rehearsed: "rehearse (lg_sha256 env) now (lw_policy_file w') = (Inr marker, lw_policy_file w')"
    unfolding marker_def by (rule rehearse_switchable [OF there])
  have "passes marker" "map_of marker ''ts'' = Some (JFloat now)" "jget marker ''restored_sha256'' = JStr (lg_sha256 env (lw_policy_file w'))"
    by (simp_all add: marker_def passes_def del: map_of_eq_Some_iff)
  then have "lg_rehearsal env' = Some (JObj marker) \<Longrightarrow> lg_now env' \<le> now + 86400 \<Longrightarrow> ok"
    using assms(7,8) by (simp add: ok(2) check_rollback_rehearsal_def dated_def del: map_of_eq_Some_iff)
  with rehearsed have "\<exists>marker. rehearse (lg_sha256 env) now (lw_policy_file w') = (Inr marker, lw_policy_file w')
      \<and> (lg_rehearsal env' = Some (JObj marker) \<and> lg_now env' \<le> now + 86400 \<longrightarrow> ok)" by blast
  ultimately show ?thesis using one by blast
qed

section \<open>The router after the flip\<close>

text \<open>A document as the router reads it: one that cannot be read is \<open>null\<close>.\<close>

definition or_null :: "json option \<Rightarrow> json" where
  "or_null content = (case content of None \<Rightarrow> JNull | Some v \<Rightarrow> v)"

lemma heartbeat_held:
  assumes "check_consumer_heartbeat env = Inr True" and "g_now genv = lg_now env" and "g_heartbeat genv = or_null (lg_heartbeat env)"
    and "jget_or (JObj []) policy ''l2_queue'' = jget_or (JObj []) (lg_policy env) ''l2_queue''"
    and "py_float (policy_value policy ''l2_queue'' ''consumer_heartbeat_max_age_s'' (JInt 300)) = Inr max_age"
  shows "heartbeat_ok genv max_age"
  using assms
  by (auto simp: check_consumer_heartbeat_def policy_section_def policy_value_def heartbeat_ok_def or_null_def not_less
      split: json.splits sum.splits option.splits)

lemma canary_held: "marks_pass content \<Longrightarrow> g_canary genv = or_null content \<Longrightarrow> canary_ok genv"
  by (auto simp: marks_pass_def canary_ok_def or_null_def passes_def)

lemma validator_held: "marks_enabled content \<Longrightarrow> g_validator genv = or_null content \<Longrightarrow> validator_enabled genv"
  by (auto simp: marks_enabled_def validator_enabled_def or_null_def)

lemma no_float_literal: "float_literal [] = None"
  by code_simp

lemma provider_not_backed_off:
  assumes "check_provider_health env = Inr True" and "policy_section env ''models'' = Inr models"
    and "hh_sha256 henv = lg_sha256 env"
  shows "backoff_active henv (text_of env (jget_or (JStr []) models ''k3_model'')) (lg_now env) (lg_health env) = Inr False"
proof -
  let ?model = "text_of env (jget_or (JStr []) models ''k3_model'')"
  obtain health backoff where health: "map_of (lg_health env) (health_path (lg_sha256 env) ?model) = Some health"
    and backoff: "py_float (jget_or (JInt 0) health ''backoff_until'') = Inr backoff" "\<not> lg_now env < backoff"
    using assms(1,2) by (auto simp: check_provider_health_def Let_def split: option.splits sum.splits)
  have "py_float (py_or (jget health ''backoff_until'') (JInt 0)) = Inr (if truthy (jget health ''backoff_until'') then backoff else 0)"
    using backoff(1) by (auto simp: py_or_def jget_def jget_or_def dict_get_or_def split: option.splits)
  moreover have "backoff = 0" if "\<not> truthy (jget health ''backoff_until'')"
    using backoff(1) that
    by (cases "map_of health ''backoff_until''"; cases "jget_or (JInt 0) health ''backoff_until''")
      (auto simp: jget_def jget_or_def dict_get_or_def no_float_literal split: option.splits)
  moreover have "dict_get_or [] (health_path (hh_sha256 henv) ?model) (lg_health env) = health"
    using health by (simp add: dict_get_or_def assms(3) del: map_of_eq_Some_iff)
  ultimately show ?thesis using backoff(2) by (auto simp: backoff_active_def)
qed

text \<open>The flip opens the router. If the heartbeat, the canary, the validator and the provider health were
  required and every condition held, then at that moment, with the files the gate left, the router
  finds the heartbeat fresh, the canary passed, the validator enabled and the authorization current:
  only the three guards it judges by other evidence (the role file of the verifier, the schema of the
  ledger, the exact text of the rollback key) can still keep it closed. And the dispatcher does not
  find the provider of the reviews backed off.\<close>

theorem flip_opens_router:
  assumes "enable env w = (Inr results, w')" and "failed results = []"
    and "policy_section env ''gate_guard'' = Inr guard"
    and "list_all (required guard) [Consumer_heartbeat, Exactly_once_canary, Validator_enabled, Provider_healthy]"
    and "g_now genv = lg_now env" and "g_heartbeat genv = or_null (lg_heartbeat env)"
    and "g_canary genv = or_null (lw_canary w')" and "g_validator genv = or_null (lw_validator w')"
    and "g_marker genv = lw_authorization w'" and "g_policy_hash genv = Some (lg_sha256 env (lw_policy_file w'))"
    and "jget_or (JObj []) policy ''l2_queue'' = jget_or (JObj []) (lg_policy env) ''l2_queue''"
    and "check_layered_gate_guards genv policy = Inr report"
    and "policy_section env ''models'' = Inr models" and "hh_sha256 henv = lg_sha256 env"
  shows "set (failing report) \<subseteq> {K3_VERIFIER_MODEL_PINNED, STATEMACHINE_SCHEMA_COMPATIBLE, ROLLBACK_KEY_AVAILABLE}
    \<and> backoff_active henv (text_of env (jget_or (JStr []) models ''k3_model'')) (lg_now env) (lg_health env) = Inr False"
proof -
  obtain guard1 w1 where g1: "policy_section env ''gate_guard'' = Inr guard1" and run1: "run_checks env guard1 CONDITIONS w = (Inr results, w1)"
    and kept: "lw_canary w' = lw_canary w1" "lw_validator w' = lw_validator w1"
    using assms(1) by (rule enable_cases) blast
  have "guard1 = guard" using assms(3) g1 by simp
  with run1 have run: "run_checks env guard CONDITIONS w = (Inr results, w1)" by simp
  have req: "required guard Consumer_heartbeat" "required guard Exactly_once_canary" "required guard Validator_enabled"
    "required guard Provider_healthy" using assms(4) by simp_all
  note true = held_true [OF run assms(2)]
  have heartbeat: "check_consumer_heartbeat env = Inr True" using true [OF req(1)] by auto
  have health: "check_provider_health env = Inr True" using true [OF req(4)] by auto
  have canary: "marks_pass (lw_canary w')" using true [OF req(2)] run_checks_cases(5) [OF run] req(2) kept by auto
  have validator: "marks_enabled (lw_validator w')" using true [OF req(3)] run_checks_cases(6) [OF run] req(3) kept by auto
  have authorized: "fst (layered_authorization (g_marker genv) (g_now genv) 3600 (g_policy_hash genv))"
    using flip_facts(3) [OF assms(1)] assms(2,5,9,10) by simp
  obtain max_age schema_ok where age: "py_float (policy_value policy ''l2_queue'' ''consumer_heartbeat_max_age_s'' (JInt 300)) = Inr max_age"
    and report: "report = [(CONSUMER_HEARTBEAT_FRESH, heartbeat_ok genv max_age),
               (EXACTLY_ONCE_CANARY, canary_ok genv), (K3_VERIFIER_MODEL_PINNED, verifier_pinned genv policy),
               (SHORT_RESULT_VALIDATOR_ENABLED, validator_enabled genv), (STATEMACHINE_SCHEMA_COMPATIBLE, schema_ok),
               (ROLLBACK_KEY_AVAILABLE, rollback_available policy), (LAYERED_AUTHORIZATION_CURRENT, authorization_ok genv policy)]"
    using assms(12) by (auto simp: check_layered_gate_guards_def split: sum.splits)
  have "heartbeat_ok genv max_age" by (rule heartbeat_held [OF heartbeat assms(5,6,11) age])
  moreover have "canary_ok genv" by (rule canary_held [OF canary assms(7)])
  moreover have "validator_enabled genv" by (rule validator_held [OF validator assms(8)])
  moreover have "authorization_ok genv policy" using authorized by (simp add: authorization_ok_def)
  ultimately show ?thesis
    using provider_not_backed_off [OF health assms(13,14)] by (auto simp: report failing_def)
qed

text \<open>
  The gate promises that every condition is checked. The policy it guards can switch each of them off,
  and the flip is then authorized by nothing.
\<close>

lemma nothing_required:
  assumes "\<And>c. \<not> required guard c"
  shows "run_checks env guard cs w = (Inr (map (\<lambda>c. (c, True)) cs), w)"
  using assms by (induction cs) simp_all

section \<open>An example\<close>

definition demo_source :: string where
  "demo_source = ''import dispatch as dispatch_v1 orchestration_v2_adapter trigger_eval_v2 routing_mode statemachine_v2 ''
     @ ''cold_start shadow layered lifecycle_supervisor.py load_plan_settings''"

definition demo_layered_policy :: jobj where
  "demo_layered_policy = [(''models'', JObj [(''k3_model'', JStr ''kimi/k3'')]), (''validator'', JObj [(''enabled'', JBool True)]),
     (''routing'', JObj [(''rollback_mode'', JStr ''cold_start''), (''mode'', JStr ''layered'')])]"

definition demo_layered_env :: layered_env where
  "demo_layered_env = \<lparr>lg_policy = demo_layered_policy, lg_now = 100, lg_heartbeat = Some (JObj [(''ts'', JInt 90)]),
     lg_canary = Some True, lg_importable = True,
     lg_schema = Some (JObj [(''transitions'', JList default_transitions)]), lg_files = (\<lambda>p. Some demo_source),
     lg_adapter_marker = None,
     lg_meter = Some (JObj [(''generated_at'', JInt 90), (''windows'', JObj [(''rolling_5h'',
       JObj [(''status'', JStr ''OK''), (''production_effective_tokens'', JInt 3000000)])])]),
     lg_role = Some [(''model'', JStr ''kimi/k3'')], lg_pipeline_marker = None,
     lg_health = [(''k3.json'', [(''status'', JStr ''healthy''), (''ts'', JInt 90), (''model'', JStr ''kimi/k3'')])],
     lg_roster = Some (JObj [(''jobs'', JObj [])]),
     lg_rehearsal = Some (JObj [(''status'', JStr ''PASS''), (''ts'', JInt 90), (''restored_sha256'', JStr demo_policy_text)]),
     lg_dual_plane = Some (JObj [(''status'', JStr ''PASS''), (''ts'', JInt 90), (''policy_sha256'', JStr demo_policy_text)]),
     lg_sha256 = (\<lambda>s. s), lg_str = (\<lambda>v. []), lg_detail = (\<lambda>c b. [])\<rparr>"

definition demo_layered_world :: layered_world where
  "demo_layered_world = \<lparr>lw_policy_file = demo_policy_text, lw_canary = None, lw_validator = None, lw_authorization = None, lw_log = []\<rparr>"

definition flipped_world :: layered_world where
  "flipped_world = snd (enable demo_layered_env demo_layered_world)"

lemma demo_enables: "fst (enable demo_layered_env demo_layered_world) = Inr (map (\<lambda>c. (c, True)) CONDITIONS)"
  by code_simp

lemma demo_enable: "enable demo_layered_env demo_layered_world = (Inr (map (\<lambda>c. (c, True)) CONDITIONS), flipped_world)"
  unfolding flipped_world_def using demo_enables by (metis prod.collapse)

lemma demo_none_failed: "failed (map (\<lambda>c. (c, True)) CONDITIONS) = []"
  by (simp add: failed_def)

lemma demo_guard: "policy_section demo_layered_env ''gate_guard'' = Inr []"
  by code_simp


theorem flip_needs_new_rehearsal_witness:
  "\<exists>results' v'. check_all demo_layered_env flipped_world = (Inr results', v') \<and> Rollback_rehearsal \<in> set (failed results')"
proof -
  have "(case fst (check_all demo_layered_env flipped_world) of Inr r \<Rightarrow> True | Inl e \<Rightarrow> False)" by code_simp
  then obtain results' v' where again: "check_all demo_layered_env flipped_world = (Inr results', v')"
    by (cases "check_all demo_layered_env flipped_world"; cases "fst (check_all demo_layered_env flipped_world)") auto
  have required: "required [] Rollback_rehearsal" by code_simp
  have "lw_policy_file flipped_world \<noteq> lw_policy_file demo_layered_world" by code_simp
  then have changed: "lg_sha256 demo_layered_env (lw_policy_file flipped_world) \<noteq> lg_sha256 demo_layered_env (lw_policy_file demo_layered_world)"
    by (simp add: demo_layered_env_def)
  show ?thesis
    using flip_needs_new_rehearsal [OF demo_enable demo_none_failed demo_guard required changed refl refl refl again] again by blast
qed

definition demo_flip_guards :: guard_env where
  "demo_flip_guards = \<lparr>g_now = 100, g_heartbeat = JObj [(''ts'', JInt 90)], g_canary = or_null (lw_canary flipped_world),
     g_verifier_model = None, g_validator = or_null (lw_validator flipped_world), g_ledger = JNull,
     g_marker = lw_authorization flipped_world, g_policy_hash = Some (lw_policy_file flipped_world)\<rparr>"

theorem flip_opens_router_witness:
  "\<exists>report. check_layered_gate_guards demo_flip_guards demo_layered_policy = Inr report
    \<and> set (failing report) \<subseteq> {K3_VERIFIER_MODEL_PINNED, STATEMACHINE_SCHEMA_COMPATIBLE, ROLLBACK_KEY_AVAILABLE}"
proof -
  have "(case check_layered_gate_guards demo_flip_guards demo_layered_policy of Inr r \<Rightarrow> True | Inl e \<Rightarrow> False)" by code_simp
  then obtain report where report: "check_layered_gate_guards demo_flip_guards demo_layered_policy = Inr report"
    by (cases "check_layered_gate_guards demo_flip_guards demo_layered_policy") auto
  have required: "list_all (required []) [Consumer_heartbeat, Exactly_once_canary, Validator_enabled, Provider_healthy]" by code_simp
  have models: "policy_section demo_layered_env ''models'' = Inr [(''k3_model'', JStr ''kimi/k3'')]" by code_simp
  let ?henv = "\<lparr>hh_policy = None, hh_sha256 = (\<lambda>s. s), hh_windows = False\<rparr>"
  have "g_now demo_flip_guards = lg_now demo_layered_env" "g_heartbeat demo_flip_guards = or_null (lg_heartbeat demo_layered_env)"
    "g_canary demo_flip_guards = or_null (lw_canary flipped_world)" "g_validator demo_flip_guards = or_null (lw_validator flipped_world)"
    "g_marker demo_flip_guards = lw_authorization flipped_world"
    "g_policy_hash demo_flip_guards = Some (lg_sha256 demo_layered_env (lw_policy_file flipped_world))"
    "jget_or (JObj []) demo_layered_policy ''l2_queue'' = jget_or (JObj []) (lg_policy demo_layered_env) ''l2_queue''"
    "hh_sha256 ?henv = lg_sha256 demo_layered_env"
    by (simp_all add: demo_flip_guards_def demo_layered_env_def or_null_def)
  then show ?thesis
    using flip_opens_router [OF demo_enable demo_none_failed demo_guard required _ _ _ _ _ _ _ report models] report by blast
qed

end
