(* ===== verification/Plan_Pipeline.thy ===== *)
theory Plan_Pipeline
  imports Parent_Import
begin

text \<open>
  The expansion of a decision into packets, \<open>src/harness/orchestration/plan_pipeline.py\<close>: the settings
  of the planner, the projection of its answer onto the schema, and the publication of the packets
  with their waves. The schema validator (a library), the supervised process, the digest and the text of
  a value that is no string are arguments; the fallback without a supervisor is not modelled.
\<close>

section \<open>Values\<close>

record plan_env =
  pl_policy :: "jobj option"
  pl_files :: "string \<Rightarrow> json option"
  pl_valid :: "string \<Rightarrow> json \<Rightarrow> bool"
  pl_run :: "string list \<Rightarrow> int \<times> json option"
  pl_health :: health_env
  pl_health_files :: "jobj dict"
  pl_digest :: "string \<Rightarrow> string"
  pl_str :: "json \<Rightarrow> string"
  pl_windows :: bool
  pl_now :: rat

text \<open>\<open>str(v)\<close>\<close>

definition text_str :: "plan_env \<Rightarrow> json \<Rightarrow> string" where
  "text_str env v = (case v of JStr s \<Rightarrow> s | _ \<Rightarrow> pl_str env v)"

text \<open>\<open>for x in v\<close>\<close>

definition items_of :: "json \<Rightarrow> py_error + json list" where
  "items_of v =
     (case v of
        JList xs \<Rightarrow> Inr xs
      | JStr s \<Rightarrow> Inr (map (\<lambda>c. JStr [c]) s)
      | JObj d \<Rightarrow> Inr (map (\<lambda>p. JStr (fst p)) d)
      | _ \<Rightarrow> Inl TypeError)"

definition load_json :: "json option \<Rightarrow> py_error + jobj" where
  "load_json content = (case content of Some (JObj d) \<Rightarrow> Inr d | _ \<Rightarrow> Inl ValueError)"

text \<open>A document against a schema file; \<open>pl_valid\<close> is the validator on this schema.\<close>

definition validate_doc :: "plan_env \<Rightarrow> json option \<Rightarrow> string \<Rightarrow> py_error + jobj" where
  "validate_doc env content schema =
     (case (load_json content, load_json (pl_files env schema)) of
        (Inr d, Inr s) \<Rightarrow> if pl_valid env schema (JObj d) then Inr d else Inl ValueError
      | _ \<Rightarrow> Inl ValueError)"

section \<open>Settings and command\<close>

definition PLAN_KEYS :: "string list" where
  "PLAN_KEYS = [''k3_model'', ''k3_reasoning'', ''k3_context_tokens'', ''k3_compaction_tokens'']"

definition load_plan_settings :: "plan_env \<Rightarrow> py_error + jobj" where
  "load_plan_settings env =
     (case pl_policy env of
        None \<Rightarrow> Inl ValueError
      | Some doc \<Rightarrow>
          (case jget_or (JObj []) doc ''models'' of
             JObj models \<Rightarrow>
               if list_all (\<lambda>k. truthy (jget models k)) PLAN_KEYS then Inr (map (\<lambda>k. (k, jget models k)) PLAN_KEYS)
               else Inl ValueError
           | _ \<Rightarrow> Inl AttributeError))"

definition build_prompt :: "string \<Rightarrow> string \<Rightarrow> string" where
  "build_prompt decision control =
     ''You are the configured K3 plan_expander. Read exactly these two JSON files:'' @ [CHR 0x0A]
     @ ''DecisionSkeleton: '' @ decision @ [CHR 0x0A] @ ''ControlPacket: '' @ control @ [CHR 0x0A]
     @ ''Do not read the root transcript or unrelated files. Preserve every user/Sol/''
     @ ''policy decision and constraint. Expand only into independent bounded packets; ''
     @ ''put ambiguity in needs_decision. Return exactly one JSON object matching the ''
     @ ''provided output schema and nothing else.''"

definition build_command ::
  "plan_env \<Rightarrow> string \<Rightarrow> string \<Rightarrow> string \<Rightarrow> string \<Rightarrow> string \<Rightarrow> jobj \<Rightarrow> string list" where
  "build_command env codex_bin cwd decision control output settings =
     [codex_bin, ''exec'', ''--skip-git-repo-check'', ''--sandbox'', ''read-only'',
      ''-C'', cwd, ''-m'', text_str env (jget settings ''k3_model''),
      ''-c'', ''model_reasoning_effort='' @ text_str env (jget settings ''k3_reasoning''),
      ''-c'', ''model_context_window='' @ text_str env (jget settings ''k3_context_tokens''),
      ''-c'', ''model_auto_compact_token_limit='' @ text_str env (jget settings ''k3_compaction_tokens''),
      ''-c'', ''mcp_servers.ipybox.enabled=false'']
     @ (if pl_windows env then [''-c'', ''mcp_servers.node_repl.enabled=false''] else [])
     @ [''--output-schema'', ''schemas/plan_expander.schema.json'', ''--json'', ''-o'', output, build_prompt decision control]"

section \<open>Projection onto the schema\<close>

definition TOP_LEVEL_KEYS :: "string list" where
  "TOP_LEVEL_KEYS = [''control_packet_id'', ''decision_skeleton_id'', ''packets'', ''needs_decision'']"

definition PACKET_KEYS :: "string list" where
  "PACKET_KEYS = [''packet_id'', ''goal'', ''authorized_paths'', ''allowed_side_effects'', ''dependencies'',
     ''acceptance'', ''artifacts'', ''risk_tags'', ''decision_refs'', ''evidence_refs'']"

text \<open>The edges of the answer as lists of predecessors, in the order of the edges.\<close>

definition add_edge :: "plan_env \<Rightarrow> json \<Rightarrow> string list dict \<Rightarrow> string list dict" where
  "add_edge env edge deps =
     (case edge of
        JList [a, b] \<Rightarrow> dict_set (text_str env b) (dict_get_or [] (text_str env b) deps @ [text_str env a]) deps
      | JObj d \<Rightarrow>
          if truthy (jget d ''from'') \<and> truthy (jget d ''to'')
          then dict_set (text_str env (jget d ''to''))
            (dict_get_or [] (text_str env (jget d ''to'')) deps @ [text_str env (jget d ''from'')]) deps
          else deps
      | _ \<Rightarrow> deps)"

definition plan_edges :: "plan_env \<Rightarrow> jobj \<Rightarrow> py_error + string list dict" where
  "plan_edges env raw =
     (case (case jget raw ''dag'' of
              JObj dag \<Rightarrow> items_of (py_or (jget dag ''edges'') (JList [])) | _ \<Rightarrow> Inr []) of
        Inl e \<Rightarrow> Inl e
      | Inr edges \<Rightarrow> Inr (fold (add_edge env) edges []))"

definition decision_ref :: "plan_env \<Rightarrow> json \<Rightarrow> json list" where
  "decision_ref env item =
     (case item of JObj d \<Rightarrow> if truthy (jget d ''id'') then [JStr (text_str env (jget d ''id''))] else [] | _ \<Rightarrow> [])"

record plan_defaults =
  pd_side_effects :: "json list"
  pd_edges :: "string list dict"
  pd_risk :: string
  pd_decisions :: "json list"
  pd_evidence :: "json list"

definition normalize_packet :: "plan_env \<Rightarrow> plan_defaults \<Rightarrow> json \<Rightarrow> json" where
  "normalize_packet env df v =
     (case v of
        JObj item \<Rightarrow>
          (let packet = map (\<lambda>k. (k, jget item k)) (filter (\<lambda>k. dict_has k item) PACKET_KEYS);
               pid = (let x = py_or (jget item ''packet_id'') (JStr []) in text_str env x);
               p1 = dict_setdefault ''allowed_side_effects'' (JList (pd_side_effects df)) packet;
               p2 = dict_setdefault ''dependencies'' (JList (map JStr (dict_get_or [] pid (pd_edges df)))) p1;
               p3 = dict_setdefault ''artifacts'' (JList []) p2;
               p4 = dict_setdefault ''risk_tags'' (JList [JStr (pd_risk df)]) p3;
               p5 = dict_setdefault ''decision_refs'' (JList (pd_decisions df)) p4 in
           JObj (dict_setdefault ''evidence_refs'' (JList (pd_evidence df)) p5))
      | _ \<Rightarrow> v)"

text \<open>The values a packet may lack come from the two inputs alone.\<close>

definition plan_defaults_of :: "plan_env \<Rightarrow> jobj \<Rightarrow> jobj \<Rightarrow> jobj \<Rightarrow> py_error + plan_defaults" where
  "plan_defaults_of env raw decision control =
     (case (plan_edges env raw, items_of (jget_or (JList []) decision ''decisions''),
            items_of (py_or (jget control ''evidence_paths'') (py_or (jget decision ''evidence_roots'') (JList []))),
            items_of (py_or (jget decision ''allowed_side_effects'') (JList []))) of
        (Inr edges, Inr decisions, Inr evidence, Inr effects) \<Rightarrow>
          Inr \<lparr>pd_side_effects = effects, pd_edges = edges,
            pd_risk = text_str env (py_or (jget decision ''risk_class'') (JStr ''low'')),
            pd_decisions = concat (map (decision_ref env) decisions),
            pd_evidence = map (\<lambda>v. JStr (text_str env v)) evidence\<rparr>
      | _ \<Rightarrow> Inl TypeError)"

definition normalize_plan :: "plan_env \<Rightarrow> jobj \<Rightarrow> jobj \<Rightarrow> jobj \<Rightarrow> py_error + jobj" where
  "normalize_plan env raw decision control =
     (case (plan_defaults_of env raw decision control, items_of (py_or (jget raw ''packets'') (JList []))) of
        (Inr df, Inr items) \<Rightarrow>
          Inr (dict_set ''needs_decision'' (py_or (jget raw ''needs_decision'') (JList []))
            (dict_set ''packets'' (JList (map (normalize_packet env df) items))
              (map (\<lambda>k. (k, jget raw k)) TOP_LEVEL_KEYS)))
      | _ \<Rightarrow> Inl TypeError)"

section \<open>Publication\<close>

record plan_world =
  pw_packets :: "json option dict"
  pw_dags :: "jobj dict"
  pw_active :: "jobj option"
  pw_wakes :: "jobj dict"

fun blocking :: "plan_env \<Rightarrow> json list \<Rightarrow> py_error + string list" where
  "blocking env [] = Inr []"
| "blocking env (v # vs) =
     (case (case v of JObj d \<Rightarrow> items_of (py_or (jget d ''blocking_packets'') (JList [])) | _ \<Rightarrow> Inr []) of
        Inl e \<Rightarrow> Inl e
      | Inr pids \<Rightarrow> (case blocking env vs of Inl e \<Rightarrow> Inl e | Inr rest \<Rightarrow> Inr (map (text_str env) pids @ rest)))"

text \<open>\<open>{str(item["packet_id"]): item for item in packets}\<close>\<close>

fun packet_table :: "plan_env \<Rightarrow> json list \<Rightarrow> json dict \<Rightarrow> py_error + json dict" where
  "packet_table env [] table = Inr table"
| "packet_table env (v # vs) table =
     (case v of
        JObj d \<Rightarrow> (case map_of d ''packet_id'' of None \<Rightarrow> Inl KeyError | Some pid \<Rightarrow> packet_table env vs (dict_set (text_str env pid) v table))
      | _ \<Rightarrow> Inl TypeError)"

text \<open>The packets are written one after the other; a divergent one ends the run with those before it written.\<close>

fun publish :: "string list \<Rightarrow> json dict \<Rightarrow> json option dict \<Rightarrow> (py_error + string list) \<times> json option dict" where
  "publish blocked [] files = (Inr [], files)"
| "publish blocked ((pid, packet) # rest) files =
     (if pid \<in> set blocked then publish blocked rest files
      else
       (let written = (case map_of files pid of
              None \<Rightarrow> Some (dict_set pid (Some packet) files)
            | Some content \<Rightarrow>
                (case load_json content of
                   Inl e \<Rightarrow> None
                 | Inr existing \<Rightarrow> if json_eq (JObj existing) packet then Some files else None)) in
        case written of
          None \<Rightarrow> (Inl ValueError, files)
        | Some files1 \<Rightarrow>
            (case publish blocked rest files1 of
               (Inl e, files2) \<Rightarrow> (Inl e, files2)
             | (Inr pids, files2) \<Rightarrow> (Inr (pid # pids), files2))))"

text \<open>The predecessors of a packet among the packets of the plan.\<close>

definition packet_deps :: "plan_env \<Rightarrow> json dict \<Rightarrow> string \<Rightarrow> py_error + string list" where
  "packet_deps env table pid =
     (case items_of (jget_or (JList []) (obj_of (dict_get_or JNull pid table)) ''dependencies'') of
        Inl e \<Rightarrow> Inl e
      | Inr deps \<Rightarrow> Inr (filter (\<lambda>d. dict_has d table) (map (text_str env) deps)))"

text \<open>Each wave is what is ready once the waves before it are done.\<close>

function plan_waves :: "(string \<Rightarrow> string list) \<Rightarrow> string list \<Rightarrow> string list \<Rightarrow> string list list option" where
  "plan_waves deps remaining finished =
     (if remaining = [] then Some []
      else
       (let ready = sort (filter (\<lambda>p. set (deps p) \<subseteq> set finished) remaining) in
        if ready = [] then None
        else map_option (Cons ready) (plan_waves deps (filter (\<lambda>p. p \<notin> set ready) remaining) (finished @ ready))))"
  by pat_completeness auto
termination
proof (relation "measure (\<lambda>(deps, remaining, finished). length remaining)")
  show "wf (measure (\<lambda>(deps :: string \<Rightarrow> string list, remaining :: string list, finished :: string list). length remaining))" by simp
next
  fix deps :: "string \<Rightarrow> string list" and remaining finished ready
  assume "remaining \<noteq> []" "ready = sort (filter (\<lambda>p. set (deps p) \<subseteq> set finished) remaining)" "ready \<noteq> []"
  then obtain p where p: "p \<in> set ready" by (meson list.set_sel(1))
  moreover have "set ready \<subseteq> set remaining" using \<open>ready = _\<close> by auto
  ultimately have "p \<in> set remaining" "p \<in> set ready" by auto
  then have "length (filter (\<lambda>p. p \<notin> set ready) remaining) < length remaining" by (auto intro: length_filter_less)
  then show "((deps, filter (\<lambda>p. p \<notin> set ready) remaining, finished @ ready), deps, remaining, finished)
      \<in> measure (\<lambda>(deps, remaining, finished). length remaining)" by simp
qed

declare plan_waves.simps [simp del]

definition dag_doc :: "plan_env \<Rightarrow> string \<Rightarrow> json \<Rightarrow> string list list \<Rightarrow> string list \<Rightarrow> nat \<Rightarrow> jobj" where
  "dag_doc env control_id skeleton waves blocked count =
     [(''schema'', JStr ''codex-loop-plan-dag/v2''), (''control_packet_id'', JStr control_id),
      (''decision_skeleton_id'', skeleton), (''waves'', JList (map jtexts waves)),
      (''blocked_packets'', jtexts (sort (remdups blocked))), (''packet_count'', JInt (int count)), (''ts'', JFloat (pl_now env))]"

definition publish_dag ::
  "plan_env \<Rightarrow> string \<Rightarrow> jobj \<Rightarrow> string list list \<Rightarrow> string list \<Rightarrow> nat \<Rightarrow> plan_world \<Rightarrow> (py_error + string list list) \<times> plan_world" where
  "publish_dag env control_id result waves blocked count w =
     (case map_of result ''decision_skeleton_id'' of
        None \<Rightarrow> (Inl KeyError, w)
      | Some skeleton \<Rightarrow>
          (let name = take 20 (pl_digest env control_id);
               w1 = w\<lparr>pw_dags := dict_set name (dag_doc env control_id skeleton waves blocked count) (pw_dags w),
                 pw_active := Some [(''schema'', JStr ''codex-loop-active-plan/v2''), (''control_packet_id'', JStr control_id),
                   (''dag'', JStr name), (''ts'', JFloat (pl_now env))]\<rparr>;
               needs = jget result ''needs_decision'' in
           (Inr waves,
            if \<not> truthy needs then w1
            else w1\<lparr>pw_wakes := dict_set name [(''schema'', JStr ''codex-loop-bounded-adjudication/v2''),
                   (''control_packet_id'', JStr control_id), (''needs_decision'', needs), (''dag'', JStr name),
                   (''ts'', JFloat (pl_now env))] (pw_wakes w1)\<rparr>)))"

definition deps_table :: "plan_env \<Rightarrow> json dict \<Rightarrow> string \<Rightarrow> string list" where
  "deps_table env table pid = right_or [] (packet_deps env table pid)"

definition materialize_plan :: "plan_env \<Rightarrow> jobj \<Rightarrow> plan_world \<Rightarrow> (py_error + string list list) \<times> plan_world" where
  "materialize_plan env result w =
     (case (map_of result ''control_packet_id'', items_of (py_or (jget result ''needs_decision'') (JList [])),
            items_of (py_or (jget result ''packets'') (JList []))) of
        (Some control, Inr needs, Inr items) \<Rightarrow>
          (case (blocking env needs, packet_table env items []) of
             (Inl e, _) \<Rightarrow> (Inl e, w)
           | (Inr blocked, Inl e) \<Rightarrow> (Inl e, w)
           | (Inr blocked, Inr table) \<Rightarrow>
               (case publish blocked table (pw_packets w) of
                  (Inl e, files) \<Rightarrow> (Inl e, w\<lparr>pw_packets := files\<rparr>)
                | (Inr published, files) \<Rightarrow>
                    (let w1 = w\<lparr>pw_packets := files\<rparr> in
                     if \<not> list_all (\<lambda>p. packet_deps env table p \<noteq> Inl TypeError) published then (Inl TypeError, w1)
                     else (case plan_waves (deps_table env table) published [] of
                             None \<Rightarrow> (Inl ValueError, w1)
                           | Some waves \<Rightarrow>
                               publish_dag env (text_str env control) result waves blocked (length published) w1))))
      | (None, _) \<Rightarrow> (Inl KeyError, w)
      | _ \<Rightarrow> (Inl TypeError, w))"

section \<open>The program\<close>

record plan_args =
  pa_decision :: string
  pa_control :: string
  pa_output :: string
  pa_cwd :: string
  pa_codex :: string
  pa_execute :: bool
  pa_materialize :: bool

text \<open>The exit code of the supervised planner and the raw answer it leaves; 75 while its provider is backed off.\<close>

definition execute_supervised :: "plan_env \<Rightarrow> jobj \<Rightarrow> string list \<Rightarrow> py_error + (int \<times> json option)" where
  "execute_supervised env settings command =
     (case backoff_active (pl_health env) (text_str env (jget settings ''k3_model'')) (pl_now env) (pl_health_files env) of
        Inl e \<Rightarrow> Inl e
      | Inr True \<Rightarrow> Inr (75, None)
      | Inr False \<Rightarrow> Inr (pl_run env command))"

definition same_plan :: "jobj \<Rightarrow> jobj \<Rightarrow> jobj \<Rightarrow> bool" where
  "same_plan result decision control \<longleftrightarrow>
     py_eq (jget result ''control_packet_id'') (jget control ''control_packet_id'')
     \<and> py_eq (jget result ''decision_skeleton_id'') (jget decision ''decision_skeleton_id'')"

definition plan_finish :: "plan_env \<Rightarrow> plan_args \<Rightarrow> jobj \<Rightarrow> jobj \<Rightarrow> json option \<Rightarrow> plan_world \<Rightarrow> (py_error + int) \<times> plan_world" where
  "plan_finish env args decision control raw w =
     (case load_json raw of
        Inl e \<Rightarrow> (Inl e, w)
      | Inr answer \<Rightarrow>
          (case normalize_plan env answer decision control of
             Inl e \<Rightarrow> (Inl e, w)
           | Inr plan \<Rightarrow>
               (case validate_doc env (Some (JObj plan)) ''schemas/plan_expander.schema.json'' of
                  Inl e \<Rightarrow> (Inl e, w)
                | Inr result \<Rightarrow>
                    if \<not> same_plan result decision control then (Inl ValueError, w)
                    else if \<not> pa_materialize args then (Inr 0, w)
                    else (case materialize_plan env result w of
                            (Inl e, w1) \<Rightarrow> (Inl e, w1)
                          | (Inr waves, w1) \<Rightarrow> (Inr 0, w1)))))"

definition plan_main :: "plan_env \<Rightarrow> plan_args \<Rightarrow> plan_world \<Rightarrow> (py_error + int) \<times> plan_world" where
  "plan_main env args w =
     (case (validate_doc env (pl_files env (pa_decision args)) ''schemas/decision_skeleton.schema.json'',
            load_json (pl_files env (pa_control args)), load_plan_settings env) of
        (Inl e, _) \<Rightarrow> (Inl e, w)
      | (Inr decision, Inl e, _) \<Rightarrow> (Inl e, w)
      | (Inr decision, Inr control, settings) \<Rightarrow>
          (case jget control ''control_packet_id'' of
             JStr (c # cs) \<Rightarrow>
               (case settings of
                  Inl e \<Rightarrow> (Inl e, w)
                | Inr st \<Rightarrow>
                    (let command = build_command env (pa_codex args) (pa_cwd args) (pa_decision args) (pa_control args)
                           (pa_output args @ ''.raw.json'') st in
                     if \<not> pa_execute args then (Inr 0, w)
                     else (case execute_supervised env st command of
                             Inl e \<Rightarrow> (Inl e, w)
                           | Inr (rc, raw) \<Rightarrow> if rc \<noteq> 0 then (Inr rc, w) else plan_finish env args decision control raw w)))
           | _ \<Rightarrow> (Inl ValueError, w)))"

end
