(* ===== verification/Plan_Consumer.thy ===== *)
theory Plan_Consumer
  imports Plan_Pipeline
begin

text \<open>
  The consumer of plan requests, \<open>src/harness/plan_consumer.py\<close>: the check of a request, the claim
  file that is created exclusively and reaped when it is old, the drain of the inbox. The pipeline runs as a process;
  its exit code, the output file it leaves, the resolution of paths and the clock are arguments. A
  directory of files named by request is a dictionary.
\<close>

section \<open>State\<close>

text \<open>\<open>pc_resolve\<close> gives the path of a file under the root, \<open>pc_run\<close> the exit code (\<open>None\<close> if the runner raises)
  and whether the output exists, \<open>pc_time\<close> the clock when a request is claimed.\<close>

record consumer_env =
  pc_mode :: string
  pc_resolve :: "string \<Rightarrow> string option"
  pc_docs :: "string \<Rightarrow> json option"
  pc_run :: "string \<Rightarrow> int option \<times> bool"
  pc_time :: "string \<Rightarrow> rat"
  pc_str :: "json \<Rightarrow> string"

datatype plan_outcome = Plan_rejected | Plan_completed | Plan_failed int

record plan_inbox =
  pq_claims :: "rat dict"
  pq_completions :: "plan_outcome dict"
  pq_reaped :: "(string \<times> int) list"
  pq_shadow :: "(json \<times> string \<times> string) dict"
  pq_events :: "(string \<times> string \<times> string) list"
  pq_launches :: "string list"

record drain_stats =
  ds_discovered :: nat
  ds_observed :: nat
  ds_claimed :: nat
  ds_completed :: nat
  ds_failed :: nat
  ds_already_terminal :: nat
  ds_already_claimed :: nat
  ds_errors :: "string list"

definition no_stats :: drain_stats where
  "no_stats = \<lparr>ds_discovered = 0, ds_observed = 0, ds_claimed = 0, ds_completed = 0, ds_failed = 0,
     ds_already_terminal = 0, ds_already_claimed = 0, ds_errors = []\<rparr>"

section \<open>A request\<close>

definition or_text :: "consumer_env \<Rightarrow> json \<Rightarrow> string" where
  "or_text env v = (if \<not> truthy v then [] else case v of JStr s \<Rightarrow> s | _ \<Rightarrow> pc_str env v)"

definition safe_request_id :: "consumer_env \<Rightarrow> json \<Rightarrow> py_error + string" where
  "safe_request_id env v = (if valid_pid (or_text env v) then Inr (or_text env v) else Inl ValueError)"

definition inside_root_file :: "consumer_env \<Rightarrow> json \<Rightarrow> py_error + string" where
  "inside_root_file env v = (case pc_resolve env (or_text env v) of None \<Rightarrow> Inl ValueError | Some p \<Rightarrow> Inr p)"

text \<open>The decision and the control packet must name the same plan.\<close>

definition same_control :: "consumer_env \<Rightarrow> json \<Rightarrow> json \<Rightarrow> py_error + unit" where
  "same_control env decision control =
     (case control of
        JObj c \<Rightarrow>
          (let control_id = or_text env (jget c ''control_packet_id'') in
           if control_id = [] then Inl ValueError
           else (case decision of
                   JObj d \<Rightarrow> if jget d ''control_packet_id'' = JStr control_id then Inr () else Inl ValueError
                 | _ \<Rightarrow> Inl AttributeError))
      | _ \<Rightarrow> Inl AttributeError)"

record plan_request =
  rq_packet :: string
  rq_packet_id :: json
  rq_decision :: string
  rq_control :: string
  rq_timeout :: rat

definition load_request :: "consumer_env \<Rightarrow> string \<Rightarrow> json option \<Rightarrow> py_error + plan_request" where
  "load_request env stem content =
     (case content of
        Some (JObj doc) \<Rightarrow>
          (case safe_request_id env (jget doc ''request_id'') of Inl e \<Rightarrow> Inl e | Inr request_id \<Rightarrow>
           if request_id \<noteq> stem then Inl ValueError else
          (case safe_request_id env (jget doc ''packet_id'') of Inl e \<Rightarrow> Inl e | Inr pid \<Rightarrow>
          (case inside_root_file env (jget doc ''decision_skeleton'') of Inl e \<Rightarrow> Inl e | Inr decision \<Rightarrow>
          (case inside_root_file env (jget doc ''control_packet'') of Inl e \<Rightarrow> Inl e | Inr control \<Rightarrow>
          (case (pc_docs env decision, pc_docs env control) of
             (Some decision_doc, Some control_doc) \<Rightarrow>
               (case same_control env decision_doc control_doc of Inl e \<Rightarrow> Inl e | Inr _ \<Rightarrow>
               (case py_float (jget_or (JInt 600) doc ''timeout_seconds'') of Inl e \<Rightarrow> Inl e | Inr t \<Rightarrow>
                if t < 10 \<or> 1800 < t then Inl ValueError
                else Inr \<lparr>rq_packet = pid, rq_packet_id = jget doc ''packet_id'', rq_decision = decision, rq_control = control,
                  rq_timeout = t\<rparr>))
           | _ \<Rightarrow> Inl ValueError)))))
      | _ \<Rightarrow> Inl ValueError)"

section \<open>Claims\<close>

text \<open>An old claim without a completion is moved away; then the claim file is created if there is none.\<close>

definition reap_old :: "rat \<Rightarrow> string \<Rightarrow> plan_inbox \<Rightarrow> plan_inbox" where
  "reap_old now rid w =
     (case map_of (pq_claims w) rid of
        Some claimed \<Rightarrow>
          if \<not> dict_has rid (pq_completions w) \<and> 1900 < now - claimed
          then w\<lparr>pq_claims := dict_del rid (pq_claims w), pq_reaped := pq_reaped w @ [(rid, trunc_rat now)]\<rparr> else w
      | None \<Rightarrow> w)"

definition claim_request :: "rat \<Rightarrow> string \<Rightarrow> plan_inbox \<Rightarrow> bool \<times> plan_inbox" where
  "claim_request now rid w =
     (let w1 = reap_old now rid w in
      if dict_has rid (pq_claims w1) then (False, w1)
      else (True, w1\<lparr>pq_claims := dict_set rid now (pq_claims w1)\<rparr>))"

definition plan_event :: "string \<Rightarrow> string \<Rightarrow> string \<Rightarrow> plan_inbox \<Rightarrow> plan_inbox" where
  "plan_event pid event rid w = w\<lparr>pq_events := pq_events w @ [(pid, event, rid)]\<rparr>"

definition finish_request :: "string \<Rightarrow> plan_outcome \<Rightarrow> plan_inbox \<Rightarrow> plan_inbox" where
  "finish_request rid outcome w =
     w\<lparr>pq_completions := dict_set rid outcome (pq_completions w), pq_claims := dict_del rid (pq_claims w)\<rparr>"

section \<open>The drain\<close>

definition launch_request :: "consumer_env \<Rightarrow> string \<Rightarrow> plan_request \<Rightarrow> drain_stats \<times> plan_inbox \<Rightarrow> drain_stats \<times> plan_inbox" where
  "launch_request env rid rq acc =
     (case acc of (st, w) \<Rightarrow>
      (let w1 = plan_event (rq_packet rq) ''skeleton_ready'' rid (w\<lparr>pq_launches := pq_launches w @ [rid]\<rparr>);
           rc = (case fst (pc_run env rid) of None \<Rightarrow> 125 | Some n \<Rightarrow> n);
           st1 = (if fst (pc_run env rid) = None then st\<lparr>ds_errors := ds_errors st @ [rid]\<rparr> else st) in
       if rc = 0 \<and> snd (pc_run env rid)
       then (st1\<lparr>ds_completed := ds_completed st1 + 1\<rparr>,
         finish_request rid Plan_completed (plan_event (rq_packet rq) ''expansion_valid'' rid w1))
       else (st1\<lparr>ds_failed := ds_failed st1 + 1\<rparr>,
         finish_request rid (Plan_failed rc) (plan_event (rq_packet rq) ''expansion_invalid'' rid w1))))"

definition observe_request :: "consumer_env \<Rightarrow> string \<Rightarrow> json option \<Rightarrow> drain_stats \<times> plan_inbox \<Rightarrow> drain_stats \<times> plan_inbox" where
  "observe_request env rid content acc =
     (case acc of (st, w) \<Rightarrow>
      if dict_has rid (pq_shadow w) then (st, w)
      else (case load_request env rid content of
              Inl e \<Rightarrow> (st\<lparr>ds_errors := ds_errors st @ [rid]\<rparr>, w)
            | Inr rq \<Rightarrow> (st\<lparr>ds_observed := ds_observed st + 1\<rparr>,
                w\<lparr>pq_shadow := dict_set rid (rq_packet_id rq, rq_decision rq, rq_control rq) (pq_shadow w)\<rparr>)))"

definition drain_request :: "consumer_env \<Rightarrow> string \<times> json option \<Rightarrow> drain_stats \<times> plan_inbox \<Rightarrow> drain_stats \<times> plan_inbox" where
  "drain_request env request acc =
     (case (request, acc) of ((rid, content), (st0, w)) \<Rightarrow>
      (let st = st0\<lparr>ds_discovered := ds_discovered st0 + 1\<rparr> in
       if dict_has rid (pq_completions w) then (st\<lparr>ds_already_terminal := ds_already_terminal st + 1\<rparr>, w)
       else if pc_mode env = ''shadow'' then observe_request env rid content (st, w)
       else (case load_request env rid content of
               Inl e \<Rightarrow> (st\<lparr>ds_failed := ds_failed st + 1, ds_errors := ds_errors st @ [rid]\<rparr>,
                 w\<lparr>pq_completions := dict_set rid Plan_rejected (pq_completions w)\<rparr>)
             | Inr rq \<Rightarrow>
                 (case claim_request (pc_time env rid) rid w of
                    (False, w1) \<Rightarrow> (st\<lparr>ds_already_claimed := ds_already_claimed st + 1\<rparr>, w1)
                  | (True, w1) \<Rightarrow> launch_request env rid rq (st\<lparr>ds_claimed := ds_claimed st + 1\<rparr>, w1)))))"

definition drain_plans :: "consumer_env \<Rightarrow> (string \<times> json option) list \<Rightarrow> plan_inbox \<Rightarrow> drain_stats \<times> plan_inbox" where
  "drain_plans env inbox w =
     (if pc_mode env = ''cold_start'' then (no_stats, w) else fold (drain_request env) inbox (no_stats, w))"

definition run_code :: "drain_stats \<Rightarrow> int" where
  "run_code st = (if ds_errors st = [] then 0 else 1)"

end
