(* ===== verification/Plan_Properties.thy ===== *)
theory Plan_Properties
  imports Plan_Consumer
begin

text \<open>
  The waves of a plan, what their publication leaves, and the inbox of plan requests: what a drain
  settles and when two launches of a request can meet.
\<close>

section \<open>Waves\<close>

lemma plan_waves_nil [simp]: "plan_waves deps [] finished = Some []"
  by (subst plan_waves.simps) simp

lemma plan_waves_sound:
  assumes "plan_waves deps remaining finished = Some waves" and "distinct remaining"
  shows "set (concat waves) = set remaining" and "distinct (concat waves)"
    and "\<forall>i < length waves. \<forall>p \<in> set (waves ! i). set (deps p) \<subseteq> set finished \<union> set (concat (take i waves))"
    and "\<forall>wave \<in> set waves. wave \<noteq> [] \<and> sorted wave"
proof -
  have "set (concat waves) = set remaining \<and> distinct (concat waves)
    \<and> (\<forall>i < length waves. \<forall>p \<in> set (waves ! i). set (deps p) \<subseteq> set finished \<union> set (concat (take i waves)))
    \<and> (\<forall>wave \<in> set waves. wave \<noteq> [] \<and> sorted wave)"
    using assms
  proof (induction deps remaining finished arbitrary: waves rule: plan_waves.induct)
    case (1 deps remaining finished)
    define ready where "ready = sort (filter (\<lambda>p. set (deps p) \<subseteq> set finished) remaining)"
    define rest where "rest = filter (\<lambda>p. p \<notin> set ready) remaining"
    show ?case
    proof (cases "remaining = []")
      case True
      then show ?thesis using "1.prems"(1) by simp
    next
      case False
      then obtain later where nonempty: "ready \<noteq> []" and later: "plan_waves deps rest (finished @ ready) = Some later"
        and waves: "waves = ready # later"
        using "1.prems"(1) by (subst (asm) plan_waves.simps) (auto simp: ready_def [symmetric] rest_def [symmetric] Let_def split: if_splits)
      have "distinct rest" using "1.prems"(2) by (simp add: rest_def)
      then have IH: "set (concat later) = set rest" "distinct (concat later)"
        "\<forall>i < length later. \<forall>p \<in> set (later ! i). set (deps p) \<subseteq> set (finished @ ready) \<union> set (concat (take i later))"
        "\<forall>wave \<in> set later. wave \<noteq> [] \<and> sorted wave"
        using "1.IH" [OF False ready_def nonempty, folded rest_def] later by blast+
      have ready: "set ready = {p \<in> set remaining. set (deps p) \<subseteq> set finished}" "distinct ready" "sorted ready"
        using "1.prems"(2) by (simp_all add: ready_def)
      have "set (deps p) \<subseteq> set finished \<union> set (concat (take i waves))" if "i < length waves" "p \<in> set (waves ! i)" for i p
      proof (cases i)
        case 0
        then show ?thesis using that ready(1) by (simp add: waves)
      next
        case (Suc j)
        then show ?thesis using that IH(3) by (auto simp: waves)
      qed
      moreover have "set (concat waves) = set remaining" using IH(1) ready(1) by (auto simp: waves rest_def)
      moreover have "distinct (concat waves)" using IH(1,2) ready(2) by (auto simp: waves rest_def)
      ultimately show ?thesis using IH(4) ready(3) nonempty by (auto simp: waves)
    qed
  qed
  then show "set (concat waves) = set remaining" and "distinct (concat waves)"
    and "\<forall>i < length waves. \<forall>p \<in> set (waves ! i). set (deps p) \<subseteq> set finished \<union> set (concat (take i waves))"
    and "\<forall>wave \<in> set waves. wave \<noteq> [] \<and> sorted wave" by blast+
qed

lemma least_ranked: "xs \<noteq> [] \<Longrightarrow> \<exists>p \<in> set xs. \<forall>q \<in> set xs. (rank p :: nat) \<le> rank q"
proof -
  assume "xs \<noteq> []"
  then have "Min (rank ` set xs) \<in> rank ` set xs" by (intro Min_in) auto
  then obtain p where "p \<in> set xs" "rank p = Min (rank ` set xs)" by auto
  then show ?thesis by (auto intro!: bexI [of _ p])
qed

lemma plan_waves_complete:
  assumes "\<forall>p \<in> set remaining. \<forall>d \<in> set (deps p). d \<in> set finished \<or> (d \<in> set remaining \<and> (rank d :: nat) < rank p)"
  shows "plan_waves deps remaining finished \<noteq> None"
  using assms
proof (induction deps remaining finished rule: plan_waves.induct)
  case (1 deps remaining finished)
  define ready where "ready = sort (filter (\<lambda>p. set (deps p) \<subseteq> set finished) remaining)"
  define rest where "rest = filter (\<lambda>p. p \<notin> set ready) remaining"
  show ?case
  proof (cases "remaining = []")
    case True
    then show ?thesis by simp
  next
    case False
    then obtain p where p: "p \<in> set remaining" "\<forall>q \<in> set remaining. rank p \<le> rank q" using least_ranked by blast
    then have "set (deps p) \<subseteq> set finished" using "1.prems" by force
    then have nonempty: "ready \<noteq> []" using p(1) by (auto simp: ready_def filter_empty_conv dest: arg_cong [of _ _ set])
    have "\<forall>p \<in> set rest. \<forall>d \<in> set (deps p). d \<in> set (finished @ ready) \<or> (d \<in> set rest \<and> rank d < rank p)"
      using "1.prems" by (auto simp: rest_def)
    from "1.IH" [OF False ready_def nonempty, folded rest_def, OF this]
    show ?thesis using False nonempty
      by (subst plan_waves.simps) (auto simp: ready_def [symmetric] rest_def [symmetric] Let_def)
  qed
qed

text \<open>There are waves exactly if the packets can be ranked: no cycle, and no packet that waits for one left out.\<close>

lemma plan_waves_iff:
  assumes "distinct remaining"
  shows "plan_waves deps remaining [] \<noteq> None
    \<longleftrightarrow> (\<exists>rank :: string \<Rightarrow> nat. \<forall>p \<in> set remaining. \<forall>d \<in> set (deps p). d \<in> set remaining \<and> rank d < rank p)"
proof
  assume "plan_waves deps remaining [] \<noteq> None"
  then obtain waves where waves: "plan_waves deps remaining [] = Some waves" by auto
  note sound = plan_waves_sound [OF waves assms]
  define rank where "rank p = (LEAST i. i < length waves \<and> p \<in> set (waves ! i))" for p
  have place: "rank p < length waves \<and> p \<in> set (waves ! rank p)" if "p \<in> set remaining" for p
  proof -
    from that sound(1) obtain wave where "wave \<in> set waves" "p \<in> set wave" by auto
    then have "\<exists>i. i < length waves \<and> p \<in> set (waves ! i)" by (metis in_set_conv_nth)
    then show ?thesis unfolding rank_def by (rule LeastI_ex)
  qed
  have "d \<in> set remaining \<and> rank d < rank p" if p: "p \<in> set remaining" and d: "d \<in> set (deps p)" for p d
  proof -
    have "d \<in> set (concat (take (rank p) waves))" 
    proof -
      have "set (deps p) \<subseteq> set [] \<union> set (concat (take (rank p) waves))" using sound(3) place [OF p] by blast
      then show ?thesis using d by auto
    qed
    then obtain wave where "wave \<in> set (take (rank p) waves)" and wave: "d \<in> set wave" by auto
    then obtain i where "i < length (take (rank p) waves)" "take (rank p) waves ! i = wave" by (meson in_set_conv_nth)
    then have i: "i < rank p" "d \<in> set (waves ! i)" using wave by auto
    then have "i < length waves" using place [OF p] by simp
    moreover from this i have "rank d \<le> i" unfolding rank_def by (intro Least_le) simp
    moreover have "d \<in> set (concat waves)" using nth_mem [OF \<open>i < length waves\<close>] i(2) by auto
    then have "d \<in> set remaining" by (simp only: sound(1))
    ultimately show ?thesis using i(1) by simp
  qed
  then show "\<exists>rank :: string \<Rightarrow> nat. \<forall>p \<in> set remaining. \<forall>d \<in> set (deps p). d \<in> set remaining \<and> rank d < rank p" by blast
next
  assume "\<exists>rank :: string \<Rightarrow> nat. \<forall>p \<in> set remaining. \<forall>d \<in> set (deps p). d \<in> set remaining \<and> rank d < rank p"
  then obtain rank :: "string \<Rightarrow> nat" where "\<forall>p \<in> set remaining. \<forall>d \<in> set (deps p). d \<in> set [] \<or> (d \<in> set remaining \<and> rank d < rank p)"
    by auto
  then show "plan_waves deps remaining [] \<noteq> None" by (rule plan_waves_complete)
qed

section \<open>Publication\<close>

lemma publish_keeps:
  assumes "publish blocked table files = (r, files')" and "map_of files pid = Some content"
  shows "map_of files' pid = Some content"
  using assms
proof (induction blocked table files arbitrary: r files' rule: publish.induct)
  case (1 blocked files)
  then show ?case by simp
next
  case (2 blocked p packet rest files)
  show ?case
  proof (cases "p \<in> set blocked")
    case True
    then show ?thesis using 2 by simp
  next
    case False
    define written where "written = (case map_of files p of
              None \<Rightarrow> Some (dict_set p (Some packet) files)
            | Some content \<Rightarrow>
                (case load_json content of
                   Inl e \<Rightarrow> None
                 | Inr existing \<Rightarrow> if json_eq (JObj existing) packet then Some files else None))"
    show ?thesis
    proof (cases written)
      case None
      then show ?thesis using "2.prems" False by (simp add: written_def [symmetric] Let_def)
    next
      case (Some files1)
      have kept: "map_of files1 pid = Some content"
        using Some "2.prems"(2) by (auto simp: written_def split: option.splits sum.splits if_splits simp del: map_of_eq_Some_iff)
      obtain r1 files2 where sub: "publish blocked rest files1 = (r1, files2)" by (cases "publish blocked rest files1")
      then have "files' = files2" using "2.prems"(1) False Some
        by (auto simp: written_def [symmetric] Let_def split: sum.splits)
      then show ?thesis using "2.IH"(2) [OF False written_def Some sub kept] by simp
    qed
  qed
qed

lemma publish_done:
  assumes "publish blocked table files = (Inr published, files')" and "wf_dict table"
  shows "published = filter (\<lambda>p. p \<notin> set blocked) (map fst table)"
    and "\<forall>p \<in> set published. \<exists>d. map_of files' p = Some (Some d) \<and> (d = dict_get_or JNull p table \<or> json_eq d (dict_get_or JNull p table))"
proof -
  have "published = filter (\<lambda>p. p \<notin> set blocked) (map fst table)
    \<and> (\<forall>(p, packet) \<in> set table. p \<notin> set blocked \<longrightarrow> (\<exists>d. map_of files' p = Some (Some d) \<and> (d = packet \<or> json_eq d packet)))"
    using assms
  proof (induction blocked table files arbitrary: published files' rule: publish.induct)
    case (1 blocked files)
    then show ?case by simp
  next
    case (2 blocked p packet rest files)
    show ?case
    proof (cases "p \<in> set blocked")
      case True
      then show ?thesis using 2 by auto
    next
      case False
      define written where "written = (case map_of files p of
                None \<Rightarrow> Some (dict_set p (Some packet) files)
              | Some content \<Rightarrow>
                  (case load_json content of
                     Inl e \<Rightarrow> None
                   | Inr existing \<Rightarrow> if json_eq (JObj existing) packet then Some files else None))"
      obtain files1 where files1: "written = Some files1"
        using "2.prems"(1) False by (cases written) (simp_all add: written_def [symmetric] Let_def)
      obtain pids where sub: "publish blocked rest files1 = (Inr pids, files')" and published: "published = p # pids"
        using "2.prems"(1) False files1 by (auto simp: written_def [symmetric] Let_def split: prod.splits sum.splits)
      have "\<exists>d. map_of files1 p = Some (Some d) \<and> (d = packet \<or> json_eq d packet)"
        using files1 by (auto simp: written_def load_json_def split: option.splits sum.splits if_splits json.splits simp del: map_of_eq_Some_iff)
      then have "\<exists>d. map_of files' p = Some (Some d) \<and> (d = packet \<or> json_eq d packet)"
        using publish_keeps [OF sub] by blast
      then show ?thesis using "2.IH"(2) [OF False written_def files1 sub] "2.prems"(2) False published by auto
    qed
  qed
  then show "published = filter (\<lambda>p. p \<notin> set blocked) (map fst table)"
    and "\<forall>p \<in> set published. \<exists>d. map_of files' p = Some (Some d) \<and> (d = dict_get_or JNull p table \<or> json_eq d (dict_get_or JNull p table))"
    using assms(2) by (auto simp: dict_get_or_def split: option.splits)
qed

lemma packet_table_wf: "packet_table env vs acc = Inr table \<Longrightarrow> wf_dict acc \<Longrightarrow> wf_dict table"
  by (induction vs arbitrary: acc) (auto split: json.splits option.splits)

text \<open>The order of a published plan, over the packets of its answer and those blocked by an open decision.\<close>

definition ordered_plan :: "plan_env \<Rightarrow> jobj \<Rightarrow> string list list \<Rightarrow> plan_world \<Rightarrow> bool" where
  "ordered_plan env result waves w' \<longleftrightarrow>
     (\<exists>items needs table blocked. items_of (py_or (jget result ''packets'') (JList [])) = Inr items
        \<and> items_of (py_or (jget result ''needs_decision'') (JList [])) = Inr needs
        \<and> packet_table env items [] = Inr table \<and> blocking env needs = Inr blocked
        \<and> set (concat waves) = fst ` set table - set blocked \<and> distinct (concat waves)
        \<and> (\<forall>i < length waves. \<forall>p \<in> set (waves ! i). set (deps_table env table p) \<subseteq> set (concat (take i waves)))
        \<and> (\<forall>p \<in> set (concat waves). \<exists>d. map_of (pw_packets w') p = Some (Some d)
            \<and> (d = dict_get_or JNull p table \<or> json_eq d (dict_get_or JNull p table))))"

text \<open>Claim C22. What the publication of a plan leaves. Whatever comes of it, no packet file that was there is changed. If it
  succeeds, the waves name every packet that is not blocked exactly once, each after all the packets of the
  plan it depends on, and the file of each of them is there with the content of the plan.\<close>

theorem published_plan_is_ordered:
  assumes "materialize_plan env result w = (r, w')"
  shows "(map_of (pw_packets w) pid = Some content \<longrightarrow> map_of (pw_packets w') pid = Some content)
    \<and> (r = Inr waves \<longrightarrow> ordered_plan env result waves w')"
proof (cases "\<exists>control needs items blocked table. map_of result ''control_packet_id'' = Some control
    \<and> items_of (py_or (jget result ''needs_decision'') (JList [])) = Inr needs
    \<and> items_of (py_or (jget result ''packets'') (JList [])) = Inr items
    \<and> blocking env needs = Inr blocked \<and> packet_table env items [] = Inr table")
  case False
  then have "w' = w \<and> (\<forall>waves. r \<noteq> Inr waves)" using assms by (auto simp: materialize_plan_def split: option.splits sum.splits)
  then show ?thesis by simp
next
  case True
  then obtain control needs items blocked table where parts: "map_of result ''control_packet_id'' = Some control"
    "items_of (py_or (jget result ''needs_decision'') (JList [])) = Inr needs"
    "items_of (py_or (jget result ''packets'') (JList [])) = Inr items"
    "blocking env needs = Inr blocked" "packet_table env items [] = Inr table" by blast
  obtain p files where pub: "publish blocked table (pw_packets w) = (p, files)" by (cases "publish blocked table (pw_packets w)")
  have dag: "pw_packets v' = pw_packets v \<and> (\<forall>ws. x = Inr ws \<longrightarrow> ws = waves')" if "publish_dag env c result waves' blocked n v = (x, v')"
    for c waves' n v x v' using that by (auto simp: publish_dag_def Let_def split: option.splits if_splits)
  note body = assms [unfolded materialize_plan_def parts, simplified, unfolded parts, simplified, unfolded pub, simplified]
  have files': "pw_packets w' = files"
    using body by (cases p) (auto simp: Let_def split: sum.splits if_splits option.splits dest!: dag)
  have ordered: "set (concat waves) = fst ` set table - set blocked \<and> distinct (concat waves)
        \<and> (\<forall>i < length waves. \<forall>p \<in> set (waves ! i). set (deps_table env table p) \<subseteq> set (concat (take i waves)))
        \<and> (\<forall>p \<in> set (concat waves). \<exists>d. map_of (pw_packets w') p = Some (Some d)
            \<and> (d = dict_get_or JNull p table \<or> json_eq d (dict_get_or JNull p table)))" if ok: "r = Inr waves"
  proof -
    obtain published where p: "p = Inr published" and waves: "plan_waves (deps_table env table) published [] = Some waves"
    proof (cases p)
      case (Inl e)
      then show ?thesis using body ok by simp
    next
      case (Inr published)
      have body': "(case plan_waves (deps_table env table) published [] of None \<Rightarrow> (Inl ValueError, w\<lparr>pw_packets := files\<rparr>)
          | Some ws \<Rightarrow> publish_dag env (text_str env control) result ws blocked (length published) (w\<lparr>pw_packets := files\<rparr>)) = (Inr waves, w')"
        using body ok by (auto simp: Inr Let_def split: if_splits)
      then obtain ws where ws: "plan_waves (deps_table env table) published [] = Some ws"
        "publish_dag env (text_str env control) result ws blocked (length published) (w\<lparr>pw_packets := files\<rparr>) = (Inr waves, w')"
        by (auto split: option.splits)
      moreover from dag [OF ws(2)] have "ws = waves" by simp
      ultimately show ?thesis using Inr that by blast
    qed
    have wf: "wf_dict table" using packet_table_wf [OF parts(5)] by simp
    note done' = publish_done [OF pub [unfolded p] wf]
    have "distinct published" using wf by (simp add: done'(1))
    note sound = plan_waves_sound [OF waves this]
    have "set published = fst ` set table - set blocked" by (auto simp: done'(1))
    then show ?thesis using sound done'(2) by (simp add: files')
  qed
  show ?thesis using publish_keeps [OF pub] ordered parts
    by (simp add: files' ordered_plan_def del: map_of_eq_Some_iff set_concat)
qed

definition plan_demo :: plan_env where
  "plan_demo = \<lparr>pl_policy = None, pl_files = (\<lambda>f. None), pl_valid = (\<lambda>f v. True), pl_run = (\<lambda>c. (0, None)),
     pl_health = health_demo, pl_health_files = [], pl_digest = (\<lambda>s. s), pl_str = (\<lambda>v. []), pl_windows = False, pl_now = 0\<rparr>"

definition plan_answer :: jobj where
  "plan_answer = [(''control_packet_id'', JStr ''K''), (''decision_skeleton_id'', JStr ''S''),
     (''packets'', JList [JObj [(''packet_id'', JStr ''B''), (''dependencies'', JList [JStr ''A''])],
        JObj [(''packet_id'', JStr ''A''), (''dependencies'', JList [JStr ''Z''])], JObj [(''packet_id'', JStr ''C'')]]),
     (''needs_decision'', JList [JObj [(''blocking_packets'', JList [JStr ''C''])]])]"

definition plan_empty :: plan_world where
  "plan_empty = \<lparr>pw_packets = [(''Q'', None)], pw_dags = [], pw_active = None, pw_wakes = []\<rparr>"

theorem published_plan_is_ordered_witness:
  "map_of (pw_packets (snd (materialize_plan plan_demo plan_answer plan_empty))) ''Q'' = Some None
    \<and> ordered_plan plan_demo plan_answer [[''A''], [''B'']] (snd (materialize_plan plan_demo plan_answer plan_empty))"
proof -
  have "fst (materialize_plan plan_demo plan_answer plan_empty) = Inr [[''A''], [''B'']]"
    and "map_of (pw_packets plan_empty) ''Q'' = Some None" by code_simp+
  then show ?thesis
    using published_plan_is_ordered [where env = plan_demo and result = plan_answer and w = plan_empty and pid = "''Q''"
      and content = None and waves = "[[''A''], [''B'']]", OF prod.collapse [symmetric]] by simp
qed

text \<open>A packet that waits for a blocked one, and is in no cycle, makes the plan refused as cyclic, after its file was
  written.\<close>

definition waiting_answer :: jobj where
  "waiting_answer = [(''control_packet_id'', JStr ''K''), (''decision_skeleton_id'', JStr ''S''),
     (''packets'', JList [JObj [(''packet_id'', JStr ''A'')],
        JObj [(''packet_id'', JStr ''B''), (''dependencies'', JList [JStr ''A''])]]),
     (''needs_decision'', JList [JObj [(''blocking_packets'', JList [JStr ''A''])]])]"

lemma dependent_of_blocked_is_refused:
  "fst (materialize_plan plan_demo waiting_answer plan_empty) = Inl ValueError
    \<and> dict_has ''B'' (pw_packets (snd (materialize_plan plan_demo waiting_answer plan_empty)))
    \<and> pw_active (snd (materialize_plan plan_demo waiting_answer plan_empty)) = None"
  by code_simp

text \<open>A plan whose packets could all be written is put into waves exactly if its packets can be ranked so
  that each depends only on packets of lower rank that are published with it; else no plan becomes active.\<close>

theorem plan_accepted_iff_ranked:
  assumes "map_of result ''control_packet_id'' = Some control" and "map_of result ''decision_skeleton_id'' = Some skeleton"
    and "items_of (py_or (jget result ''packets'') (JList [])) = Inr items"
    and "items_of (py_or (jget result ''needs_decision'') (JList [])) = Inr needs"
    and "blocking env needs = Inr blocked" and "packet_table env items [] = Inr table"
    and "publish blocked table (pw_packets w) = (Inr published, files)"
    and "list_all (\<lambda>p. packet_deps env table p \<noteq> Inl TypeError) published"
    and "materialize_plan env result w = (r, w')"
  shows "((\<exists>waves. r = Inr waves) \<longleftrightarrow> (\<exists>rank :: string \<Rightarrow> nat. \<forall>p \<in> set published. \<forall>d \<in> set (deps_table env table p).
        d \<in> set published \<and> rank d < rank p))
    \<and> ((\<exists>e. r = Inl e) \<longrightarrow> pw_active w' = pw_active w \<and> pw_dags w' = pw_dags w)"
proof -
  have "wf_dict table" using packet_table_wf [OF assms(6)] by simp
  then have "distinct published" using publish_done(1) [OF assms(7)] by simp
  note ranked = plan_waves_iff [OF this, of "deps_table env table"]
  have body: "(case plan_waves (deps_table env table) published [] of None \<Rightarrow> (Inl ValueError, w\<lparr>pw_packets := files\<rparr>)
      | Some ws \<Rightarrow> publish_dag env (text_str env control) result ws blocked (length published) (w\<lparr>pw_packets := files\<rparr>)) = (r, w')"
    using assms(9) by (simp add: materialize_plan_def assms(1,3-8) Let_def)
  show ?thesis
  proof (cases "plan_waves (deps_table env table) published []")
    case None
    then have "r = Inl ValueError" "w' = w\<lparr>pw_packets := files\<rparr>" using body by simp_all
    then show ?thesis using ranked None by auto
  next
    case (Some ws)
    then have "r = Inr ws" using body by (auto simp: publish_dag_def assms(2) Let_def)
    then show ?thesis using ranked Some by auto
  qed
qed

theorem plan_accepted_iff_ranked_witness:
  "\<not> (\<exists>rank :: string \<Rightarrow> nat. \<forall>p \<in> set [''B'']. \<forall>d \<in> set (deps_table plan_demo
      [(''A'', JObj [(''packet_id'', JStr ''A'')]), (''B'', JObj [(''packet_id'', JStr ''B''), (''dependencies'', JList [JStr ''A''])])] p).
      d \<in> set [''B''] \<and> rank d < rank p)"
proof -
  let ?a = "JObj [(''packet_id'', JStr ''A'')]" and ?b = "JObj [(''packet_id'', JStr ''B''), (''dependencies'', JList [JStr ''A''])]"
  have "map_of waiting_answer ''control_packet_id'' = Some (JStr ''K'')" and "map_of waiting_answer ''decision_skeleton_id'' = Some (JStr ''S'')"
    and "items_of (py_or (jget waiting_answer ''packets'') (JList [])) = Inr [?a, ?b]"
    and "items_of (py_or (jget waiting_answer ''needs_decision'') (JList [])) = Inr [JObj [(''blocking_packets'', JList [JStr ''A''])]]"
    and "blocking plan_demo [JObj [(''blocking_packets'', JList [JStr ''A''])]] = Inr [''A'']"
    and "packet_table plan_demo [?a, ?b] [] = Inr [(''A'', ?a), (''B'', ?b)]"
    and "publish [''A''] [(''A'', ?a), (''B'', ?b)] (pw_packets plan_empty) = (Inr [''B''], [(''Q'', None), (''B'', Some ?b)])"
    and "list_all (\<lambda>p. packet_deps plan_demo [(''A'', ?a), (''B'', ?b)] p \<noteq> Inl TypeError) [''B'']"
    by code_simp+
  from plan_accepted_iff_ranked [OF this prod.collapse [symmetric]] dependent_of_blocked_is_refused
  show ?thesis by simp
qed

text \<open>The projection of an answer leaves what a packet is and may write as the answer says, absent if it does not say it.\<close>

lemma projection_invents_no_authority:
  assumes "normalize_packet env df (JObj item) = JObj packet"
    and "k \<in> {''packet_id'', ''goal'', ''authorized_paths'', ''acceptance''}"
  shows "map_of packet k = map_of item k"
proof -
  have listed: "k \<in> set PACKET_KEYS" using assms(2) by (auto simp: PACKET_KEYS_def)
  have "map_of (map (\<lambda>k. (k, jget item k)) (filter (\<lambda>k. dict_has k item) PACKET_KEYS)) k
      = (if k \<in> set PACKET_KEYS \<and> dict_has k item then Some (jget item k) else None)"
    by (simp add: map_of_map_restrict restrict_map_def)
  also have "\<dots> = map_of item k" using listed
    by (cases "map_of item k") (simp_all add: dict_has_def jget_def dict_get_or_def del: map_of_eq_Some_iff)
  finally have pick: "map_of (map (\<lambda>k. (k, jget item k)) (filter (\<lambda>k. dict_has k item) PACKET_KEYS)) k = map_of item k" .
  have "k \<notin> {''allowed_side_effects'', ''dependencies'', ''artifacts'', ''risk_tags'', ''decision_refs'', ''evidence_refs''}"
    using assms(2) by auto
  then show ?thesis using assms(1) pick by (auto simp: normalize_packet_def Let_def map_of_setdefault simp del: map_of_eq_Some_iff)
qed

section \<open>The inbox\<close>

lemma request_timeout:
  assumes "load_request env stem content = Inr rq"
  shows "10 \<le> rq_timeout rq" and "rq_timeout rq \<le> 1800"
  using assms by (auto simp: load_request_def Let_def split: option.splits json.splits sum.splits if_splits)

abbreviation plan_live :: "consumer_env \<Rightarrow> bool" where
  "plan_live env \<equiv> pc_mode env \<noteq> ''cold_start'' \<and> pc_mode env \<noteq> ''shadow''"

text \<open>What one request does to an inbox: only its own claim and completion change, and it is launched only if it
  had no completion; then it has one.\<close>

definition settles :: "string \<Rightarrow> plan_inbox \<Rightarrow> plan_inbox \<Rightarrow> bool" where
  "settles rid w w' \<longleftrightarrow>
     (\<forall>q. q \<noteq> rid \<longrightarrow> map_of (pq_completions w') q = map_of (pq_completions w) q \<and> map_of (pq_claims w') q = map_of (pq_claims w) q)
     \<and> (dict_has rid (pq_completions w) \<longrightarrow> w' = w)
     \<and> (dict_has rid (pq_completions w') \<or> dict_has rid (pq_claims w'))
     \<and> (\<exists>launched. pq_launches w' = pq_launches w @ launched \<and> (launched = []
          \<or> launched = [rid] \<and> \<not> dict_has rid (pq_completions w) \<and> dict_has rid (pq_completions w') \<and> \<not> dict_has rid (pq_claims w')))"

lemma reap_frame:
  "pq_completions (reap_old now rid w) = pq_completions w" "pq_launches (reap_old now rid w) = pq_launches w"
  "q \<noteq> rid \<Longrightarrow> map_of (pq_claims (reap_old now rid w)) q = map_of (pq_claims w) q"
  by (simp_all add: reap_old_def split: option.splits)

lemma claim_request_frame:
  assumes "claim_request now rid w = (won, w')"
  shows "pq_completions w' = pq_completions w" and "pq_launches w' = pq_launches w"
    and "dict_has rid (pq_claims w')" and "q \<noteq> rid \<Longrightarrow> map_of (pq_claims w') q = map_of (pq_claims w) q"
  using assms by (auto simp: reap_frame claim_request_def Let_def split: if_splits)

lemma launch_frame:
  assumes "launch_request env rid rq (st, w) = (st', w')"
  shows "\<exists>outcome. pq_completions w' = dict_set rid outcome (pq_completions w)"
    and "pq_claims w' = dict_del rid (pq_claims w)" and "pq_launches w' = pq_launches w @ [rid]"
    and "ds_completed st' + ds_failed st' = ds_completed st + ds_failed st + 1"
    and "ds_discovered st' = ds_discovered st" "ds_already_terminal st' = ds_already_terminal st"
    and "ds_already_claimed st' = ds_already_claimed st"
  using assms by (auto simp: launch_request_def finish_request_def plan_event_def Let_def split: if_splits)

definition balanced :: "drain_stats \<Rightarrow> bool" where
  "balanced st \<longleftrightarrow> ds_discovered st = ds_already_terminal st + ds_already_claimed st + ds_completed st + ds_failed st"

lemma drain_request_settles:
  assumes "plan_live env" and "drain_request env (rid, content) (st, w) = (st', w')"
  shows "settles rid w w'" and "balanced st \<Longrightarrow> balanced st'" and "ds_discovered st' = ds_discovered st + 1"
proof -
  have "settles rid w w' \<and> (balanced st \<longrightarrow> balanced st') \<and> ds_discovered st' = ds_discovered st + 1"
  proof (cases "dict_has rid (pq_completions w)")
    case True
    then show ?thesis using assms(2) by (auto simp: drain_request_def settles_def balanced_def)
  next
    case open_request: False
    show ?thesis
    proof (cases "load_request env rid content")
      case (Inl e)
      then show ?thesis using assms open_request by (auto simp: drain_request_def settles_def balanced_def)
    next
      case (Inr rq)
      obtain won w1 where claim: "claim_request (pc_time env rid) rid w = (won, w1)" by (cases "claim_request (pc_time env rid) rid w")
      note frame = claim_request_frame [OF claim]
      show ?thesis
      proof (cases won)
        case False
        then show ?thesis using assms open_request frame by (auto simp: drain_request_def settles_def balanced_def Inr claim)
      next
        case True
        define st1 where "st1 = st\<lparr>ds_discovered := ds_discovered st + 1, ds_claimed := ds_claimed st + 1\<rparr>"
        have launch: "launch_request env rid rq (st1, w1) = (st', w')"
          using assms open_request by (simp add: drain_request_def Inr claim True st1_def)
        note run = launch_frame [OF launch]
        from run(1) obtain outcome where "pq_completions w' = dict_set rid outcome (pq_completions w1)" by blast
        then show ?thesis using frame run(2-) open_request
          by (auto simp: settles_def balanced_def st1_def dict_has_def simp del: map_of_eq_Some_iff)
      qed
    qed
  qed
  then show "settles rid w w'" and "balanced st \<Longrightarrow> balanced st'" and "ds_discovered st' = ds_discovered st + 1" by blast+
qed

lemma drain_fold:
  assumes "plan_live env" and "distinct (map fst inbox)" and "fold (drain_request env) inbox (st, w) = (st', w')" and "balanced st"
  shows "balanced st' \<and> ds_discovered st' = ds_discovered st + length inbox
    \<and> (\<forall>q. q \<notin> fst ` set inbox \<longrightarrow> map_of (pq_completions w') q = map_of (pq_completions w) q
          \<and> map_of (pq_claims w') q = map_of (pq_claims w) q)
    \<and> (\<forall>rid \<in> fst ` set inbox. dict_has rid (pq_completions w') \<or> dict_has rid (pq_claims w'))
    \<and> (\<forall>rid outcome. map_of (pq_completions w) rid = Some outcome \<longrightarrow> map_of (pq_completions w') rid = Some outcome)
    \<and> (\<exists>launched. pq_launches w' = pq_launches w @ launched \<and> distinct launched \<and> (\<forall>rid \<in> set launched.
          rid \<in> fst ` set inbox \<and> \<not> dict_has rid (pq_completions w) \<and> dict_has rid (pq_completions w') \<and> \<not> dict_has rid (pq_claims w')))"
  using assms(2-4)
proof (induction inbox arbitrary: st w)
  case Nil
  then show ?case by simp
next
  case (Cons request inbox)
  obtain rid content where request: "request = (rid, content)" by (cases request)
  obtain st1 w1 where first: "drain_request env (rid, content) (st, w) = (st1, w1)" by (cases "drain_request env (rid, content) (st, w)")
  note step = drain_request_settles [OF assms(1) first]
  from step(1) have frame: "\<And>q. q \<noteq> rid \<Longrightarrow> map_of (pq_completions w1) q = map_of (pq_completions w) q \<and> map_of (pq_claims w1) q = map_of (pq_claims w) q"
    and same: "dict_has rid (pq_completions w) \<Longrightarrow> w1 = w" and here: "dict_has rid (pq_completions w1) \<or> dict_has rid (pq_claims w1)"
    unfolding settles_def by blast+
  from step(1) obtain launched where launched: "pq_launches w1 = pq_launches w @ launched" "launched = []
      \<or> launched = [rid] \<and> \<not> dict_has rid (pq_completions w) \<and> dict_has rid (pq_completions w1) \<and> \<not> dict_has rid (pq_claims w1)"
    unfolding settles_def by blast
  have fresh: "rid \<notin> fst ` set inbox" and names: "distinct (map fst inbox)" using Cons.prems(1) by (auto simp: request)
  have rest: "fold (drain_request env) inbox (st1, w1) = (st', w')" using Cons.prems(2) first by (simp add: request)
  note IH = Cons.IH [OF names rest step(2) [OF Cons.prems(3)]]
  have later: "map_of (pq_completions w') rid = map_of (pq_completions w1) rid" "map_of (pq_claims w') rid = map_of (pq_claims w1) rid"
    using IH fresh by blast+
  from IH obtain more where more: "pq_launches w' = pq_launches w1 @ more" "distinct more" "\<forall>q \<in> set more.
      q \<in> fst ` set inbox \<and> \<not> dict_has q (pq_completions w1) \<and> dict_has q (pq_completions w') \<and> \<not> dict_has q (pq_claims w')" by blast
  have "q \<in> fst ` set (request # inbox) \<and> \<not> dict_has q (pq_completions w) \<and> dict_has q (pq_completions w') \<and> \<not> dict_has q (pq_claims w')"
    if "q \<in> set (launched @ more)" for q
  proof (cases "q = rid")
    case True
    then have "q \<notin> set more" using more(3) fresh by blast
    then show ?thesis using that launched(2) True later by (auto simp: request dict_has_def)
  next
    case False
    then show ?thesis using that launched(2) more(3) frame [OF False] by (auto simp: request dict_has_def)
  qed
  moreover have "distinct (launched @ more)" using launched(2) more(2,3) fresh by auto
  moreover have "pq_launches w' = pq_launches w @ (launched @ more)" using more(1) launched(1) by simp
  ultimately have launches: "\<exists>launched. pq_launches w' = pq_launches w @ launched \<and> distinct launched \<and> (\<forall>q \<in> set launched.
      q \<in> fst ` set (request # inbox) \<and> \<not> dict_has q (pq_completions w) \<and> dict_has q (pq_completions w') \<and> \<not> dict_has q (pq_claims w'))"
    by blast
  have kept: "\<forall>q outcome. map_of (pq_completions w) q = Some outcome \<longrightarrow> map_of (pq_completions w') q = Some outcome"
  proof (intro allI impI)
    fix q outcome
    assume "map_of (pq_completions w) q = Some outcome"
    moreover from this have "map_of (pq_completions w1) q = map_of (pq_completions w) q"
      using same frame by (cases "q = rid") (auto simp: dict_has_def simp del: map_of_eq_Some_iff)
    ultimately show "map_of (pq_completions w') q = Some outcome" using IH by metis
  qed
  have settled: "\<forall>q \<in> fst ` set (request # inbox). dict_has q (pq_completions w') \<or> dict_has q (pq_claims w')"
    using IH here later by (auto simp: request dict_has_def)
  have "\<forall>q. q \<notin> fst ` set (request # inbox) \<longrightarrow> map_of (pq_completions w') q = map_of (pq_completions w) q
      \<and> map_of (pq_claims w') q = map_of (pq_claims w) q"
    using IH frame by (simp add: request)
  then show ?case using IH launches kept settled step(3) by simp
qed

text \<open>A live drain settles its inbox. Every request is counted once, as terminal, claimed by another
  consumer, completed or failed; afterwards each has a completion or a claim; what was completed stays as it was;
  and the requests launched are distinct ones that had no completion, and each of them has one afterwards.\<close>

theorem drain_settles:
  assumes "pc_mode env \<noteq> ''cold_start''" and "pc_mode env \<noteq> ''shadow''" and "distinct (map fst inbox)"
    and "drain_plans env inbox w = (st, w')"
  shows "ds_discovered st = length inbox
    \<and> ds_discovered st = ds_already_terminal st + ds_already_claimed st + ds_completed st + ds_failed st
    \<and> (\<forall>rid \<in> fst ` set inbox. dict_has rid (pq_completions w') \<or> dict_has rid (pq_claims w'))
    \<and> (\<forall>rid outcome. map_of (pq_completions w) rid = Some outcome \<longrightarrow> map_of (pq_completions w') rid = Some outcome)
    \<and> (\<exists>launched. pq_launches w' = pq_launches w @ launched \<and> distinct launched \<and> (\<forall>rid \<in> set launched.
          rid \<in> fst ` set inbox \<and> \<not> dict_has rid (pq_completions w) \<and> dict_has rid (pq_completions w')))"
proof -
  have "fold (drain_request env) inbox (no_stats, w) = (st, w')" using assms(1,4) by (simp add: drain_plans_def)
  from drain_fold [OF conjI [OF assms(1,2)] assms(3) this] show ?thesis
    by (simp add: balanced_def no_stats_def) blast
qed

section \<open>An inbox with a request and an unreadable one\<close>

definition race_env :: consumer_env where
  "race_env = \<lparr>pc_mode = ''layered'', pc_resolve = Some, pc_docs = (\<lambda>p. Some (JObj [(''control_packet_id'', JStr ''C'')])),
     pc_run = (\<lambda>rid. (Some 0, True)), pc_time = (\<lambda>rid. 0), pc_str = (\<lambda>v. [])\<rparr>"

definition race_request :: "string \<Rightarrow> json option" where
  "race_request rid = Some (JObj [(''request_id'', JStr rid), (''packet_id'', JStr ''P''),
     (''decision_skeleton'', JStr ''d''), (''control_packet'', JStr ''c'')])"

definition race_inbox :: plan_inbox where
  "race_inbox = \<lparr>pq_claims = [], pq_completions = [], pq_reaped = [], pq_shadow = [], pq_events = [], pq_launches = []\<rparr>"

definition drain_demo :: "drain_stats \<times> plan_inbox" where
  "drain_demo = drain_plans race_env [(''R'', race_request ''R''), (''X'', None)] race_inbox"

theorem drain_settles_witness:
  "ds_discovered (fst drain_demo) = 2
    \<and> (dict_has ''X'' (pq_completions (snd drain_demo)) \<or> dict_has ''X'' (pq_claims (snd drain_demo)))
    \<and> (\<exists>launched. pq_launches (snd drain_demo) = launched \<and> distinct launched
        \<and> (\<forall>rid \<in> set launched. dict_has rid (pq_completions (snd drain_demo))))"
proof -
  have live: "pc_mode race_env \<noteq> ''cold_start''" "pc_mode race_env \<noteq> ''shadow''" by code_simp+
  have "drain_plans race_env [(''R'', race_request ''R''), (''X'', None)] race_inbox = (fst drain_demo, snd drain_demo)"
    by (simp add: drain_demo_def)
  from drain_settles [OF live _ this] show ?thesis by (auto simp: race_inbox_def)
qed

end
