(* ===== verification/Plan_Race.thy ===== *)
theory Plan_Race
  imports Plan_Properties
begin

text \<open>
  Several consumers of plan requests (\<open>src/harness/plan_consumer.py\<close>) at work on one inbox. The drain of a consumer is
  cut at the points where another can come between: the look at the completion and at the request, the claim, the end of the
  launch. The clock may pass only as far as the launches that run may last: \<open>subprocess.run\<close> kills its child
  after the timeout of the request and 30 seconds.
\<close>

section \<open>The steps\<close>

record race =
  rc_inbox :: plan_inbox
  rc_clock :: rat
  rc_looked :: "(string \<times> rat) list"
  rc_running :: "(string \<times> rat \<times> rat) list"

text \<open>A consumer that ends early, with its child, leaves its claim behind.\<close>

inductive race_step :: "consumer_env \<Rightarrow> (string \<Rightarrow> json option) \<Rightarrow> race \<Rightarrow> race \<Rightarrow> bool" for env requests where
  look: "\<not> dict_has rid (pq_completions (rc_inbox s)) \<Longrightarrow> load_request env rid (requests rid) = Inr rq
    \<Longrightarrow> race_step env requests s (s\<lparr>rc_looked := (rid, rq_timeout rq) # rc_looked s\<rparr>)"
| claim: "(rid, t) \<in> set (rc_looked s) \<Longrightarrow> claim_request (rc_clock s) rid (rc_inbox s) = (True, w)
    \<Longrightarrow> race_step env requests s (s\<lparr>rc_inbox := w\<lparr>pq_launches := pq_launches w @ [rid]\<rparr>,
          rc_looked := remove1 (rid, t) (rc_looked s), rc_running := (rid, rc_clock s, t) # rc_running s\<rparr>)"
| miss: "(rid, t) \<in> set (rc_looked s) \<Longrightarrow> claim_request (rc_clock s) rid (rc_inbox s) = (False, w)
    \<Longrightarrow> race_step env requests s (s\<lparr>rc_inbox := w, rc_looked := remove1 (rid, t) (rc_looked s)\<rparr>)"
| finish: "(rid, began, t) \<in> set (rc_running s)
    \<Longrightarrow> race_step env requests s (s\<lparr>rc_inbox := finish_request rid outcome (rc_inbox s),
          rc_running := remove1 (rid, began, t) (rc_running s)\<rparr>)"
| die: "(rid, began, t) \<in> set (rc_running s)
    \<Longrightarrow> race_step env requests s (s\<lparr>rc_running := remove1 (rid, began, t) (rc_running s)\<rparr>)"
| tick: "rc_clock s \<le> now \<Longrightarrow> \<forall>(rid, began, t) \<in> set (rc_running s). now \<le> began + t + 30
    \<Longrightarrow> race_step env requests s (s\<lparr>rc_clock := now\<rparr>)"

inductive race_reach :: "consumer_env \<Rightarrow> (string \<Rightarrow> json option) \<Rightarrow> race \<Rightarrow> bool" for env requests where
  start: "race_reach env requests \<lparr>rc_inbox = w, rc_clock = now, rc_looked = [], rc_running = []\<rparr>"
| next_step: "race_reach env requests s \<Longrightarrow> race_step env requests s s' \<Longrightarrow> race_reach env requests s'"

section \<open>The claim of a launch\<close>

text \<open>Every launch holds its claim, and no claim of a launch is old enough to be reaped.\<close>

definition held :: "race \<Rightarrow> bool" where
  "held s \<longleftrightarrow> distinct (map fst (rc_running s)) \<and> (\<forall>(rid, t) \<in> set (rc_looked s). 10 \<le> t \<and> t \<le> 1800)
     \<and> (\<forall>(rid, began, t) \<in> set (rc_running s). map_of (pq_claims (rc_inbox s)) rid = Some began \<and> t \<le> 1800
          \<and> rc_clock s \<le> began + t + 30)"

lemma held_claim_stays:
  assumes "held s" and "(q, began, t) \<in> set (rc_running s)" and "claim_request (rc_clock s) rid (rc_inbox s) = (won, w)"
  shows "map_of (pq_claims w) q = Some began" and "won \<Longrightarrow> q \<noteq> rid"
proof -
  have here: "map_of (pq_claims (rc_inbox s)) q = Some began" "t \<le> 1800" "rc_clock s \<le> began + t + 30"
    using assms(1,2) unfolding held_def by blast+
  then have "\<not> 1900 < rc_clock s - began" by simp
  then have "map_of (pq_claims w) q = Some began \<and> (won \<longrightarrow> q \<noteq> rid)"
    using assms(3) here(1)
    by (cases "q = rid") (auto simp: claim_request_def reap_old_def dict_has_def Let_def
        simp del: map_of_eq_Some_iff split: if_splits option.splits)
  then show "map_of (pq_claims w) q = Some began" and "won \<Longrightarrow> q \<noteq> rid" by blast+
qed

lemma running_unique:
  assumes "held s" and "(rid, began, t) \<in> set (rc_running s)" and "(q, began', t') \<in> set (remove1 (rid, began, t) (rc_running s))"
  shows "q \<noteq> rid" and "(q, began', t') \<in> set (rc_running s)"
proof -
  have d: "distinct (map fst (rc_running s))" using assms(1) by (simp add: held_def)
  from assms(2) obtain xs ys where split: "rc_running s = xs @ (rid, began, t) # ys" "(rid, began, t) \<notin> set xs"
    by (meson split_list_first)
  then show "q \<noteq> rid" using assms(3) d by (auto simp: remove1_append rev_image_eqI)
  show "(q, began', t') \<in> set (rc_running s)" using assms(3) set_remove1_subset by fastforce
qed

lemma distinct_remove1_fst: "distinct (map fst xs) \<Longrightarrow> distinct (map fst (remove1 x xs))"
  by (auto simp: distinct_map intro: inj_on_subset)

lemma held_without:
  assumes "held s" and "(rid, began, t) \<in> set (rc_running s)"
  shows "distinct (map fst (remove1 (rid, began, t) (rc_running s)))"
    and "\<forall>(q, since, limit) \<in> set (remove1 (rid, began, t) (rc_running s)). q \<noteq> rid
      \<and> map_of (pq_claims (rc_inbox s)) q = Some since \<and> limit \<le> 1800 \<and> rc_clock s \<le> since + limit + 30"
proof -
  show "distinct (map fst (remove1 (rid, began, t) (rc_running s)))"
    using assms(1) unfolding held_def by (intro distinct_remove1_fst) blast
  show "\<forall>(q, since, limit) \<in> set (remove1 (rid, began, t) (rc_running s)). q \<noteq> rid
      \<and> map_of (pq_claims (rc_inbox s)) q = Some since \<and> limit \<le> 1800 \<and> rc_clock s \<le> since + limit + 30"
  proof clarify
    fix q since limit
    assume "(q, since, limit) \<in> set (remove1 (rid, began, t) (rc_running s))"
    from running_unique [OF assms this]
    show "q \<noteq> rid \<and> map_of (pq_claims (rc_inbox s)) q = Some since \<and> limit \<le> 1800 \<and> rc_clock s \<le> since + limit + 30"
      using assms(1) unfolding held_def by blast
  qed
qed

lemma race_step_held:
  assumes "race_step env requests s s'" and "held s"
  shows "held s'"
  using assms
proof (induction rule: race_step.induct)
  case (look rid s rq)
  then show ?case using request_timeout [OF look(2)] by (auto simp: held_def)
next
  case (claim rid t s w)
  then have t: "10 \<le> t" "t \<le> 1800" by (auto simp: held_def)
  have "map_of (pq_claims w) rid = Some (rc_clock s)"
    using claim(2) by (auto simp: claim_request_def Let_def split: if_splits)
  moreover have "rid \<notin> fst ` set (rc_running s)" using held_claim_stays(2) [OF claim(3) _ claim(2)] by force
  ultimately show ?case using held_claim_stays(1) [OF claim(3) _ claim(2)] claim(3) t set_remove1_subset [of "(rid, t)" "rc_looked s"]
    unfolding held_def by (auto simp del: map_of_eq_Some_iff)
next
  case (miss rid t s w)
  note stays = held_claim_stays(1) [OF miss(3) _ miss(2)]
  have looked: "\<forall>(q, limit) \<in> set (remove1 (rid, t) (rc_looked s)). 10 \<le> limit \<and> limit \<le> 1800"
    using miss(3) set_remove1_subset [of "(rid, t)" "rc_looked s"] unfolding held_def by blast
  have "\<forall>(q, began, limit) \<in> set (rc_running s). map_of (pq_claims w) q = Some began \<and> limit \<le> 1800
      \<and> rc_clock s \<le> began + limit + 30"
    using miss(3) stays unfolding held_def by blast
  with looked show ?case using miss(3) by (simp add: held_def del: map_of_eq_Some_iff)
next
  case (finish rid began t s outcome)
  note rest = held_without [OF finish(2,1)]
  have "\<forall>(q, since, limit) \<in> set (remove1 (rid, began, t) (rc_running s)).
      map_of (dict_del rid (pq_claims (rc_inbox s))) q = Some since \<and> limit \<le> 1800 \<and> rc_clock s \<le> since + limit + 30"
  proof clarify
    fix q since limit
    assume "(q, since, limit) \<in> set (remove1 (rid, began, t) (rc_running s))"
    then have "q \<noteq> rid" "map_of (pq_claims (rc_inbox s)) q = Some since" "limit \<le> 1800" "rc_clock s \<le> since + limit + 30"
      using rest(2) by blast+
    then show "map_of (dict_del rid (pq_claims (rc_inbox s))) q = Some since \<and> limit \<le> 1800 \<and> rc_clock s \<le> since + limit + 30"
      by (simp del: map_of_eq_Some_iff)
  qed
  then show ?case using rest(1) finish(2) by (simp add: held_def finish_request_def del: map_of_eq_Some_iff map_of_dict_del)
next
  case (die rid began t s)
  note rest = held_without [OF die(2,1)]
  have "\<forall>(q, since, limit) \<in> set (remove1 (rid, began, t) (rc_running s)).
      map_of (pq_claims (rc_inbox s)) q = Some since \<and> limit \<le> 1800 \<and> rc_clock s \<le> since + limit + 30"
    using rest(2) by blast
  then show ?case using rest(1) die(2) by (simp add: held_def del: map_of_eq_Some_iff)
next
  case (tick s now)
  then show ?case unfolding held_def by auto
qed


section \<open>A run of two consumers\<close>

definition race_rq :: plan_request where
  "race_rq = \<lparr>rq_packet = ''P'', rq_packet_id = JStr ''P'', rq_decision = ''d'', rq_control = ''c'', rq_timeout = 600\<rparr>"

definition race_start :: race where
  "race_start = \<lparr>rc_inbox = race_inbox,
     rc_clock = 0, rc_looked = [], rc_running = []\<rparr>"

lemma race_loads: "load_request race_env ''R'' (race_request ''R'') = Inr race_rq"
  by code_simp

lemmas race_demo = race_inbox_def race_env_def race_request_def race_rq_def race_start_def

text \<open>Both consumers have looked, one has claimed and launched.\<close>

definition race_first :: race where
  "race_first = race_start\<lparr>rc_inbox := (rc_inbox race_start)\<lparr>pq_claims := [(''R'', 0)], pq_launches := [''R'']\<rparr>,
     rc_looked := [(''R'', 600)], rc_running := [(''R'', 0, 600)]\<rparr>"

lemma race_first_reached: "race_reach race_env race_request race_first"
proof -
  let ?one = "race_start\<lparr>rc_looked := [(''R'', 600)]\<rparr>" and ?two = "race_start\<lparr>rc_looked := [(''R'', 600), (''R'', 600)]\<rparr>"
  have "race_reach race_env race_request race_start" unfolding race_start_def by (rule race_reach.start)
  moreover have "race_step race_env race_request race_start ?one"
    using race_step.look [of "''R''" race_start race_env race_request race_rq, OF _ race_loads] by (simp add: race_demo dict_has_def)
  moreover have "race_step race_env race_request ?one ?two"
    using race_step.look [of "''R''" ?one race_env race_request race_rq, OF _ race_loads] by (simp add: race_demo dict_has_def)
  moreover have "race_step race_env race_request ?two race_first"
    using race_step.claim [of "''R''" 600 ?two "(rc_inbox race_start)\<lparr>pq_claims := [(''R'', 0)]\<rparr>"]
    by (simp add: race_demo race_first_def claim_request_def reap_old_def dict_has_def)
  ultimately show ?thesis by (meson race_reach.next_step)
qed


text \<open>Launched again. The second consumer claims after the first has finished: it looked for a completion before.\<close>

lemma completed_request_runs_again:
  "\<exists>s. race_reach race_env race_request s \<and> pq_launches (rc_inbox s) = [''R'', ''R''] \<and> dict_has ''R'' (pq_completions (rc_inbox s))"
proof -
  let ?one = "race_first\<lparr>rc_inbox := finish_request ''R'' Plan_completed (rc_inbox race_first), rc_running := []\<rparr>"
  let ?w = "(finish_request ''R'' Plan_completed (rc_inbox race_first))\<lparr>pq_claims := [(''R'', 0)]\<rparr>"
  let ?two = "?one\<lparr>rc_inbox := ?w\<lparr>pq_launches := [''R'', ''R'']\<rparr>, rc_looked := [], rc_running := [(''R'', 0, 600)]\<rparr>"
  have "race_step race_env race_request race_first ?one"
    using race_step.finish [of "''R''" 0 600 race_first race_env race_request Plan_completed] by (simp add: race_first_def)
  moreover have "race_step race_env race_request ?one ?two"
    using race_step.claim [of "''R''" 600 ?one ?w race_env race_request]
    by (simp add: race_first_def race_start_def race_inbox_def claim_request_def reap_old_def finish_request_def dict_has_def)
  ultimately have "race_reach race_env race_request ?two" by (meson race_reach.next_step race_first_reached)
  then show ?thesis by (rule exI [of _ ?two, OF conjI]) (simp add: finish_request_def race_first_def race_start_def race_inbox_def dict_has_def)
qed

end
