(* ===== verification/Supervisor.thy ===== *)
theory Supervisor
  imports Lifecycle Provider_Health Budget
begin

text \<open>
  The supervisor of one headless worker, \<open>src/harness/lifecycle_supervisor.py\<close>: the roster of
  executions with its generations and history, the event stream, cancel files, and the run from the first
  entry to the finalization. The child process is given by the samples the supervisor takes of it, and what other
  processes do between two of them by a function on the files. Locks are held around each operation of the store.
\<close>

section \<open>Files\<close>

datatype aftermath = Terminal_epilogue | Refill_request

text \<open>A published report is the copied text or the envelope around it.\<close>

datatype published = Copied string | Enveloped jobj

text \<open>\<open>sw_jobs\<close> is \<open>None\<close> if the roster cannot be parsed.\<close>

record super_world =
  sw_jobs :: "jobj dict option"
  sw_events :: "jobj option list"
  sw_cancel :: "jobj dict"
  sw_health :: "jobj dict"
  sw_budget :: budget_doc
  sw_reports :: "published dict"
  sw_after :: "aftermath list"

section \<open>The roster\<close>

definition EXEC_TERMINAL_STATES :: "string list" where
  "EXEC_TERMINAL_STATES = [''completed'', ''failed'', ''timed_out'', ''cancelled'', ''spawn_failed'']"

definition TERMINAL_FIELDS :: "string list" where
  "TERMINAL_FIELDS = [''exit_code'', ''failure'', ''stop_reason'', ''published_report'']"

definition GENERATION_FIELDS :: "string list" where
  "GENERATION_FIELDS = TERMINAL_FIELDS @ [''cleanup_status'', ''cleanup_failed_at'']"

definition push_history :: "jobj \<Rightarrow> jobj \<Rightarrow> py_error + jobj" where
  "push_history row item =
     (case map_of item ''history'' of
        None \<Rightarrow> Inr (dict_set ''history'' (JList [JObj row]) item)
      | Some (JList rows) \<Rightarrow> Inr (dict_set ''history'' (JList (rows @ [JObj row])) item)
      | Some v \<Rightarrow> Inl AttributeError)"

record store_call =
  sc_time :: rat
  sc_packet :: string
  sc_run :: string
  sc_attempt :: int
  sc_fields :: jobj

definition started_at :: "jobj \<Rightarrow> py_error + rat" where
  "started_at d = py_float (py_or (jget_or (JInt 0) d ''started_at'') (JInt 0))"

text \<open>A new generation is let in if the packet has none, or with a start that is not older; \<open>None\<close> is a
  refusal.\<close>

definition enter_generation :: "store_call \<Rightarrow> jobj \<Rightarrow> py_error + jobj option" where
  "enter_generation c item =
     (if sc_run c = [] \<or> jget item ''run_id'' = JStr (sc_run c) then Inr (Some item)
      else (case (started_at (sc_fields c), started_at item) of
              (Inr incoming_start, Inr current_start) \<Rightarrow>
                if truthy (jget item ''run_id'')
                   \<and> \<not> (jget (sc_fields c) ''state'' = JStr ''starting'' \<and> current_start \<le> incoming_start)
                then Inr None
                else (case push_history [(''ts'', JFloat (sc_time c)), (''state'', JStr ''generation_started''),
                             (''run_id'', JStr (sc_run c)), (''attempt'', JInt (sc_attempt c))] item of
                        Inl e \<Rightarrow> Inl e
                      | Inr item1 \<Rightarrow>
                          Inr (Some (dict_set ''attempt'' (JInt (sc_attempt c)) (dict_set ''run_id'' (JStr (sc_run c))
                            (fold dict_del GENERATION_FIELDS item1)))))
            | (Inl e, _) \<Rightarrow> Inl e
            | (_, Inl e) \<Rightarrow> Inl e))"

definition history_row :: "store_call \<Rightarrow> json \<Rightarrow> jobj \<Rightarrow> jobj" where
  "history_row c state item =
     [(''ts'', JFloat (sc_time c)), (''state'', state),
      (''run_id'', if sc_run c \<noteq> [] then JStr (sc_run c) else jget item ''run_id''), (''attempt'', JInt (sc_attempt c))]
     @ (if state \<in> JStr ` set EXEC_TERMINAL_STATES
        then map (\<lambda>k. (k, jget (sc_fields c) k)) (filter (\<lambda>k. dict_has k (sc_fields c)) TERMINAL_FIELDS) else [])"

definition enter_state :: "store_call \<Rightarrow> jobj \<Rightarrow> py_error + jobj" where
  "enter_state c item =
     (let state = jget (sc_fields c) ''state'' in
      if truthy state \<and> \<not> py_eq state (jget item ''state'') then push_history (history_row c state item) item else Inr item)"

definition fresh_row :: "string \<Rightarrow> jobj" where
  "fresh_row packet = [(''packet_id'', JStr packet), (''history'', JList [])]"

definition update_row :: "store_call \<Rightarrow> jobj \<Rightarrow> py_error + jobj option" where
  "update_row c item =
     (case enter_generation c item of
        Inl e \<Rightarrow> Inl e
      | Inr None \<Rightarrow> Inr None
      | Inr (Some item1) \<Rightarrow>
          (case enter_state c item1 of
             Inl e \<Rightarrow> Inl e
           | Inr item2 \<Rightarrow> Inr (Some (dict_set ''updated_at'' (JFloat (sc_time c)) (dict_update (sc_fields c) item2)))))"

definition job_row :: "string \<Rightarrow> jobj dict \<Rightarrow> jobj" where
  "job_row packet jobs = dict_get_or (fresh_row packet) packet jobs"

text \<open>\<open>Store.update\<close>: an unreadable roster is never overwritten, a refused update writes nothing.\<close>

definition store_update :: "store_call \<Rightarrow> super_world \<Rightarrow> (py_error + jobj) \<times> super_world" where
  "store_update c w =
     (case sw_jobs w of
        None \<Rightarrow> (Inl ValueError, w)
      | Some jobs \<Rightarrow>
          (case update_row c (job_row (sc_packet c) jobs) of
             Inl e \<Rightarrow> (Inl e, w)
           | Inr None \<Rightarrow> (Inr (job_row (sc_packet c) jobs), w)
           | Inr (Some item) \<Rightarrow> (Inr item, w\<lparr>sw_jobs := Some (dict_set (sc_packet c) item jobs)\<rparr>)))"

section \<open>Events and cancel files\<close>

definition event_once :: "rat \<Rightarrow> string \<Rightarrow> string \<Rightarrow> int \<Rightarrow> string \<Rightarrow> jobj \<Rightarrow> super_world \<Rightarrow> super_world" where
  "event_once now packet run_id attempt event detail w =
     w\<lparr>sw_events := snd (exec_event (packet, JStr run_id, event) (now, attempt, detail) (sw_events w))\<rparr>"

text \<open>Whether a cancel file is for this run. \<open>int(\<dots>)\<close> of its attempt may raise.\<close>

definition cancel_for :: "string \<Rightarrow> int \<Rightarrow> jobj \<Rightarrow> py_error + bool" where
  "cancel_for run_id attempt row =
     (if row = [] \<or> jget row ''run_id'' \<noteq> JStr run_id then Inr False
      else (case py_int (jget_or (JInt (- 1)) row ''attempt'') of Inl e \<Rightarrow> Inl e | Inr n \<Rightarrow> Inr (n = attempt)))"

definition cancel_request :: "string \<Rightarrow> string \<Rightarrow> int \<Rightarrow> super_world \<Rightarrow> py_error + jobj option" where
  "cancel_request packet run_id attempt w =
     (let row = dict_get_or [] packet (sw_cancel w) in
      case cancel_for run_id attempt row of
        Inl e \<Rightarrow> Inl e
      | Inr b \<Rightarrow> Inr (if b then Some row else None))"

definition consume_cancel :: "string \<Rightarrow> string \<Rightarrow> int \<Rightarrow> super_world \<Rightarrow> (py_error + unit) \<times> super_world" where
  "consume_cancel packet run_id attempt w =
     (case cancel_for run_id attempt (dict_get_or [] packet (sw_cancel w)) of
        Inl e \<Rightarrow> (Inl e, w)
      | Inr b \<Rightarrow> (Inr (), if b then w\<lparr>sw_cancel := dict_del packet (sw_cancel w)\<rparr> else w))"

section \<open>The run\<close>

record super_args =
  sa_packet :: string
  sa_run :: string
  sa_attempt :: int
  sa_parent :: json
  sa_manifest :: json
  sa_task_name :: string
  sa_role :: string
  sa_model :: string
  sa_plane :: string
  sa_cwd :: string
  sa_stdout :: string
  sa_stderr :: string
  sa_report :: string
  sa_publish :: "string option"
  sa_timeout :: rat
  sa_grace :: rat
  sa_command :: "string list"
  sa_l2 :: bool

text \<open>What the consumer of verification requests makes of the report of a review.\<close>

datatype l2_result = L2_raises string | L2_invalid json | L2_accepted

text \<open>The report is \<open>None\<close> if it does not exist, else its text and what it parses to;
  \<open>se_owned\<close> says whether the paths of a publication lie in the roots they must lie in.\<close>

record super_env =
  se_time :: rat
  se_clock :: rat
  se_pid :: int
  se_ticks :: "int option"
  se_spawn :: "py_error + int \<times> int option"
  se_tail :: "string \<Rightarrow> string"
  se_report :: "(string \<times> json option) option"
  se_owned :: bool
  se_l2 :: l2_result
  se_packet_file :: bool
  se_health :: health_env
  se_budget :: budget_config
  se_str :: "json \<Rightarrow> string"
  se_error :: "py_error \<Rightarrow> string"

text \<open>One look at the child: its exit code, the clocks (read once for all that follows from the look), what other processes did to the files since the last
  look, and the exit code after its process group was ended.\<close>

record poll_sample =
  ps_rc :: "int option"
  ps_clock :: rat
  ps_time :: rat
  ps_others :: "super_world \<Rightarrow> super_world"
  ps_killed :: "int option"

type_synonym 'a super_io = "super_world \<Rightarrow> (py_error + 'a) \<times> super_world"

definition and_then :: "'a super_io \<Rightarrow> ('a \<Rightarrow> 'b super_io) \<Rightarrow> 'b super_io" where
  "and_then m f w = (case m w of (Inl e, w1) \<Rightarrow> (Inl e, w1) | (Inr x, w1) \<Rightarrow> f x w1)"

definition record_state :: "super_args \<Rightarrow> rat \<Rightarrow> jobj \<Rightarrow> jobj super_io" where
  "record_state a now kvs =
     store_update \<lparr>sc_time = now, sc_packet = sa_packet a, sc_run = sa_run a, sc_attempt = sa_attempt a, sc_fields = kvs\<rparr>"

definition record_event :: "super_args \<Rightarrow> rat \<Rightarrow> string \<Rightarrow> jobj \<Rightarrow> unit super_io" where
  "record_event a now event detail w = (Inr (), event_once now (sa_packet a) (sa_run a) (sa_attempt a) event detail w)"

definition int_or_null :: "int option \<Rightarrow> json" where
  "int_or_null n = (case n of None \<Rightarrow> JNull | Some k \<Rightarrow> JInt k)"

definition birth_fields :: "super_args \<Rightarrow> super_env \<Rightarrow> jobj" where
  "birth_fields a env =
     [(''state'', JStr ''starting''), (''task_name'', JStr (sa_task_name a)), (''role'', JStr (sa_role a)),
      (''model'', JStr (sa_model a)), (''plane'', JStr (sa_plane a)), (''cwd'', JStr (sa_cwd a)),
      (''supervisor_pid'', JInt (se_pid env)), (''supervisor_proc_start_ticks'', int_or_null (se_ticks env)),
      (''parent_session_id'', sa_parent a), (''manifest_id'', sa_manifest a), (''started_at'', JFloat (se_time env)),
      (''deadline_at'', JFloat (se_time env + sa_timeout a)), (''command'', JList (map JStr (sa_command a))),
      (''stdout_path'', JStr (sa_stdout a)), (''stderr_path'', JStr (sa_stderr a))]"

datatype watch_end = Child_exit poll_sample int | Stop_child poll_sample string bool | Still_running

fun watch :: "super_args \<Rightarrow> super_env \<Rightarrow> rat \<Rightarrow> poll_sample list \<Rightarrow> watch_end super_io" where
  "watch a env heartbeat [] w = (Inr Still_running, w)"
| "watch a env heartbeat (s # samples) w =
     (let w1 = ps_others s w in
      case ps_rc s of
        Some rc \<Rightarrow> (Inr (Child_exit s rc), w1)
      | None \<Rightarrow>
          (case cancel_request (sa_packet a) (sa_run a) (sa_attempt a) w1 of
             Inl e \<Rightarrow> (Inl e, w1)
           | Inr (Some row) \<Rightarrow>
               (let reason = py_or (jget row ''reason'') (JStr ''parent_stop'') in
                (Inr (Stop_child s (case reason of JStr text \<Rightarrow> text | _ \<Rightarrow> se_str env reason) True), w1))
           | Inr None \<Rightarrow>
               if se_clock env + sa_timeout a < ps_clock s then (Inr (Stop_child s ''timeout'' False), w1)
               else if 10 \<le> ps_clock s - heartbeat
               then and_then (record_state a (ps_time s) [(''state'', JStr ''running''), (''heartbeat_at'', JFloat (ps_time s))])
                      (\<lambda>row. watch a env (ps_clock s) samples) w1
               else watch a env heartbeat samples w1))"

text \<open>Each end of a run gives the exit code of the supervisor and whether it counts as terminal.\<close>

definition note_failure :: "super_args \<Rightarrow> super_env \<Rightarrow> rat \<Rightarrow> int \<Rightarrow> string \<Rightarrow> bool \<Rightarrow> unit super_io" where
  "note_failure a env now rc stderr timed_out w =
     (Inr (), w\<lparr>sw_health := record_failure (se_health env) (sa_model a) now (sa_run a) rc stderr
        (se_tail env (sa_stdout a)) timed_out (sw_health w)\<rparr>)"

definition stop_run :: "super_args \<Rightarrow> super_env \<Rightarrow> int \<Rightarrow> poll_sample \<Rightarrow> string \<Rightarrow> bool \<Rightarrow> (int \<times> bool) super_io" where
  "stop_run a env pid s reason cancelled =
     (let timed_out = (reason = ''timeout'') in
      and_then (record_state a (ps_time s) [(''state'', JStr (if timed_out then ''timed_out'' else ''cancelled'')),
          (''exit_code'', int_or_null (ps_killed s)), (''stop_reason'', JStr reason)]) (\<lambda>row.
      and_then (record_event a (ps_time s) (if timed_out then ''timeout'' else ''exec_failed'')
          [(''why'', JStr reason), (''cancelled'', JBool (\<not> timed_out)), (''os_pid'', JInt pid),
           (''limit_s'', JFloat (sa_timeout a)), (''grace_s'', JFloat (sa_grace a))]) (\<lambda>u.
      and_then (note_failure a env (ps_time s) 124 (se_tail env (sa_stderr a)) timed_out) (\<lambda>u.
      and_then (if cancelled then consume_cancel (sa_packet a) (sa_run a) (sa_attempt a) else Pair (Inr ())) (\<lambda>u.
      Pair (Inr (124, True)))))))"

text \<open>The copy of the report; a report that is no object of this packet is put in an envelope.\<close>

definition publish_report :: "super_args \<Rightarrow> super_env \<Rightarrow> string \<times> json option \<Rightarrow> string \<Rightarrow> unit super_io" where
  "publish_report a env report destination w =
     (if \<not> se_owned env then (Inl ValueError, w)
      else (Inr (), w\<lparr>sw_reports := dict_set destination
        (if sa_l2 a then Copied (fst report)
         else (case snd report of
                 Some (JObj doc) \<Rightarrow> if jget doc ''packet_id'' = JStr (sa_packet a) then Enveloped doc
                   else Enveloped [(''packet_id'', JStr (sa_packet a)), (''status'', JStr ''done''),
                          (''run_id'', JStr (sa_run a)), (''summary'', JStr (fst report))]
               | _ \<Rightarrow> Enveloped [(''packet_id'', JStr (sa_packet a)), (''status'', JStr ''done''),
                          (''run_id'', JStr (sa_run a)), (''summary'', JStr (fst report))])) (sw_reports w)\<rparr>))"

definition fail_run :: "super_args \<Rightarrow> rat \<Rightarrow> int \<Rightarrow> jobj \<Rightarrow> unit super_io" where
  "fail_run a now rc detail =
     and_then (record_state a now [(''state'', JStr ''failed''), (''exit_code'', JInt rc), (''failure'', JObj detail)])
       (\<lambda>row. record_event a now ''exec_failed'' detail)"

definition published_path :: "super_args \<Rightarrow> string" where
  "published_path a = (case sa_publish a of None \<Rightarrow> sa_report a | Some p \<Rightarrow> p)"

definition complete_run :: "super_args \<Rightarrow> super_env \<Rightarrow> rat \<Rightarrow> (int \<times> bool) super_io" where
  "complete_run a env now =
     and_then (record_state a now [(''state'', JStr ''completed''), (''exit_code'', JInt 0),
         (''published_report'', JStr (published_path a))]) (\<lambda>row.
     and_then (record_event a now ''subagent_stop'' [(''source'', JStr ''lifecycle_supervisor''), (''exit_code'', JInt 0)])
       (\<lambda>u w. (Inr (0, True), w\<lparr>sw_health := record_success (se_health env) (sa_model a) now (sa_run a) (sw_health w)\<rparr>)))"

definition finish_run :: "super_args \<Rightarrow> super_env \<Rightarrow> poll_sample \<Rightarrow> int \<Rightarrow> (int \<times> bool) super_io" where
  "finish_run a env s rc =
     (case se_report env of
        Some report \<Rightarrow>
          if rc = 0 then
            and_then (case sa_publish a of None \<Rightarrow> Pair (Inr ()) | Some p \<Rightarrow> publish_report a env report p) (\<lambda>u.
              if \<not> sa_l2 a then complete_run a env (ps_time s)
              else (case se_l2 env of
                      L2_accepted \<Rightarrow> complete_run a env (ps_time s)
                    | L2_raises e \<Rightarrow> and_then (fail_run a (ps_time s) 1 [(''why'', JStr ''l2_completion_failed''), (''error'', JStr e),
                        (''report'', JStr (published_path a))]) (\<lambda>u. Pair (Inr (1, False)))
                    | L2_invalid v \<Rightarrow> and_then (fail_run a (ps_time s) 1 [(''why'', JStr ''l2_report_invalid''),
                        (''validation'', v), (''report'', JStr (published_path a))]) (\<lambda>u. Pair (Inr (1, False)))))
          else and_then (fail_run a (ps_time s) rc [(''why'', JStr ''nonzero_exit''), (''exit_code'', JInt rc),
                 (''stderr_path'', JStr (sa_stderr a)), (''stderr_tail'', JStr (se_tail env (sa_stderr a)))]) (\<lambda>u.
               and_then (note_failure a env (ps_time s) rc (se_tail env (sa_stderr a)) False) (\<lambda>u. Pair (Inr (rc, True))))
      | None \<Rightarrow>
          and_then (fail_run a (ps_time s) rc [(''why'', JStr (if rc = 0 then ''missing_report'' else ''nonzero_exit'')),
                 (''exit_code'', JInt rc), (''stderr_path'', JStr (sa_stderr a)),
                 (''stderr_tail'', JStr (se_tail env (sa_stderr a)))]) (\<lambda>u.
               and_then (note_failure a env (ps_time s) (if rc = 0 then 1 else rc) (se_tail env (sa_stderr a)) False)
                 (\<lambda>u. Pair (Inr (if rc = 0 then 1 else rc, True)))))"

definition conclude :: "super_args \<Rightarrow> super_env \<Rightarrow> int \<Rightarrow> watch_end \<Rightarrow> (int \<times> bool) option super_io" where
  "conclude a env pid ended =
     (case ended of
        Still_running \<Rightarrow> Pair (Inr None)
      | Stop_child s reason cancelled \<Rightarrow> and_then (stop_run a env pid s reason cancelled) (\<lambda>r. Pair (Inr (Some r)))
      | Child_exit s rc \<Rightarrow> and_then (finish_run a env s rc) (\<lambda>r. Pair (Inr (Some r))))"

text \<open>The body of the \<open>try\<close>, once the child is born.\<close>

definition attend :: "super_args \<Rightarrow> super_env \<Rightarrow> int \<times> int option \<Rightarrow> poll_sample list \<Rightarrow> (int \<times> bool) option super_io" where
  "attend a env child samples =
     and_then (record_state a (se_time env) [(''state'', JStr ''running''), (''os_pid'', JInt (fst child)),
         (''worker_proc_start_ticks'', int_or_null (snd child)), (''heartbeat_at'', JFloat (se_time env))]) (\<lambda>row.
     and_then (record_event a (se_time env) ''exec_spawned'' [(''os_pid'', JInt (fst child)),
         (''task_name'', JStr (sa_task_name a))]) (\<lambda>u.
     and_then (watch a env (se_clock env) samples) (conclude a env (fst child))))"

text \<open>Failures to record the failure itself are swallowed.\<close>

definition supervisor_error :: "super_args \<Rightarrow> super_env \<Rightarrow> bool \<Rightarrow> rat \<Rightarrow> py_error \<Rightarrow> super_world \<Rightarrow> super_world" where
  "supervisor_error a env born now e w =
     (let detail = [(''why'', JStr ''supervisor_error''), (''phase'', JStr (if born then ''post_spawn'' else ''pre_spawn'')),
            (''error'', JStr (se_error env e))] in
      snd (record_event a now ''exec_failed'' detail
        (snd (record_state a now [(''state'', JStr (if born then ''failed'' else ''spawn_failed'')), (''failure'', JObj detail)] w))))"

definition wind_up :: "super_args \<Rightarrow> super_env \<Rightarrow> rat \<Rightarrow> bool \<Rightarrow> super_world \<Rightarrow> super_world" where
  "wind_up a env now terminal w =
     (let w1 = snd (consume_cancel (sa_packet a) (sa_run a) (sa_attempt a) w);
          w2 = (if terminal then w1\<lparr>sw_after := sw_after w1 @ [if se_packet_file env then Terminal_epilogue else Refill_request]\<rparr>
                else w1) in
      w2\<lparr>sw_budget := snd (reclaim (se_budget env) now (sa_run a) (sw_budget w2))\<rparr>)"

definition end_time :: "super_env \<Rightarrow> poll_sample list \<Rightarrow> rat" where
  "end_time env samples = (if samples = [] then se_time env else ps_time (last samples))"

text \<open>The \<open>except\<close> and the \<open>finally\<close> after the child was watched; the code is \<open>None\<close> while
  the child runs.\<close>

fun after_watch :: "super_args \<Rightarrow> super_env \<Rightarrow> rat \<Rightarrow> (py_error + (int \<times> bool) option) \<times> super_world
    \<Rightarrow> (py_error + int option) \<times> super_world" where
  "after_watch a env now (Inr None, w) = (Inr None, w)"
| "after_watch a env now (Inr (Some (rc, terminal)), w) = (Inr (Some rc), wind_up a env now terminal w)"
| "after_watch a env now (Inl e, w) = (Inr (Some 1), wind_up a env now True (supervisor_error a env True now e w))"

fun after_spawn :: "super_args \<Rightarrow> super_env \<Rightarrow> poll_sample list \<Rightarrow> py_error + int \<times> int option \<Rightarrow> int option super_io" where
  "after_spawn a env samples (Inl e) w =
     (Inr (Some 1), wind_up a env (se_time env) False (supervisor_error a env False (se_time env) e w))"
| "after_spawn a env samples (Inr child) w = after_watch a env (end_time env samples) (attend a env child samples w)"

definition run_supervisor :: "super_args \<Rightarrow> super_env \<Rightarrow> poll_sample list \<Rightarrow> int option super_io" where
  "run_supervisor a env samples w =
     (if sa_command a = [] then (Inl ValueError, w)
      else and_then (record_state a (se_time env) (birth_fields a env)) (\<lambda>row. after_spawn a env samples (se_spawn env)) w)"

end
