(* ===== verification/Supervisor_Properties.thy ===== *)
theory Supervisor_Properties
  imports Supervisor Lifecycle_Composition Budget_Properties
begin

text \<open>
  What the supervisor of a worker leaves: the evidence of a terminal run across generations of its
  packet, the settlement of a run, its end after a stop of the parent, and the bound on its looks.
\<close>

section \<open>Rows of the roster\<close>

declare jget_dict_del [simp]

definition hist_rows :: "jobj \<Rightarrow> json list" where
  "hist_rows item = (case jget item ''history'' of JList rows \<Rightarrow> rows | _ \<Rightarrow> [])"

text \<open>The fields of a call leave alone what the store itself writes.\<close>

definition clean_fields :: "jobj \<Rightarrow> bool" where
  "clean_fields kvs \<longleftrightarrow> set (map fst kvs) \<inter> {''run_id'', ''attempt'', ''history'', ''packet_id'', ''updated_at''} = {}"

lemma push_history_get:
  assumes "push_history row item = Inr item'"
  shows "k \<noteq> ''history'' \<Longrightarrow> jget item' k = jget item k"
    and "hist_rows item' = hist_rows item @ [JObj row]"
  using assms by (auto simp: push_history_def hist_rows_def jget_def dict_get_or_def split: option.splits json.splits
      simp del: map_of_eq_Some_iff)

lemma jget_fold_del: "jget (fold dict_del ks d) k = (if k \<in> set ks then JNull else jget d k)"
  by (induction ks arbitrary: d) simp_all

lemma generation_keeps [simp]:
  "jget (fold dict_del GENERATION_FIELDS d) ''state'' = jget d ''state''"
  "jget (fold dict_del GENERATION_FIELDS d) ''history'' = jget d ''history''"
  by (simp_all only: jget_fold_del) (simp_all add: GENERATION_FIELDS_def TERMINAL_FIELDS_def)

lemma enter_generation_get:
  assumes "enter_generation c item = Inr (Some item1)"
  shows "sc_run c \<noteq> [] \<Longrightarrow> jget item1 ''run_id'' = JStr (sc_run c)"
    and "jget item1 ''state'' = jget item ''state''"
    and "jget item ''run_id'' = JStr (sc_run c) \<and> item1 = item
      \<or> sc_run c = [] \<and> item1 = item
      \<or> sc_run c \<noteq> [] \<and> jget item ''run_id'' \<noteq> JStr (sc_run c)
        \<and> (truthy (jget item ''run_id'') \<longrightarrow> jget (sc_fields c) ''state'' = JStr ''starting'')
        \<and> hist_rows item1 = hist_rows item @ [JObj [(''ts'', JFloat (sc_time c)), (''state'', JStr ''generation_started''),
            (''run_id'', JStr (sc_run c)), (''attempt'', JInt (sc_attempt c))]]"
proof -
  have "jget (dict_set ''attempt'' a (dict_set ''run_id'' r (fold dict_del GENERATION_FIELDS d))) ''state'' = jget d ''state''"
    and "hist_rows (dict_set ''attempt'' a (dict_set ''run_id'' r (fold dict_del GENERATION_FIELDS d))) = hist_rows d" for a r d
    by (simp_all add: hist_rows_def)
  note gets = this
  show "sc_run c \<noteq> [] \<Longrightarrow> jget item1 ''run_id'' = JStr (sc_run c)"
    using assms by (auto simp: enter_generation_def split: if_splits sum.splits)
  show "jget item1 ''state'' = jget item ''state''"
    using assms by (auto simp: enter_generation_def gets dest: push_history_get(1) [of _ _ _ "''state''"] split: if_splits sum.splits)
  show "jget item ''run_id'' = JStr (sc_run c) \<and> item1 = item
      \<or> sc_run c = [] \<and> item1 = item
      \<or> sc_run c \<noteq> [] \<and> jget item ''run_id'' \<noteq> JStr (sc_run c)
        \<and> (truthy (jget item ''run_id'') \<longrightarrow> jget (sc_fields c) ''state'' = JStr ''starting'')
        \<and> hist_rows item1 = hist_rows item @ [JObj [(''ts'', JFloat (sc_time c)), (''state'', JStr ''generation_started''),
            (''run_id'', JStr (sc_run c)), (''attempt'', JInt (sc_attempt c))]]"
    using assms by (auto simp: enter_generation_def gets dest!: push_history_get(2) split: if_splits sum.splits)
qed

lemma enter_state_get:
  assumes "enter_state c item = Inr item'"
  shows "k \<noteq> ''history'' \<Longrightarrow> jget item' k = jget item k"
    and "hist_rows item' = hist_rows item @ (let state = jget (sc_fields c) ''state'' in
      if truthy state \<and> \<not> py_eq state (jget item ''state'') then [JObj (history_row c state item)] else [])"
  using assms push_history_get by (auto simp: enter_state_def Let_def split: if_splits)

lemma jget_update:
  assumes "wf_dict kvs"
  shows "jget (dict_update kvs d) k = (if dict_has k kvs then jget kvs k else jget d k)"
  using assms
proof (induction kvs arbitrary: d)
  case Nil
  then show ?case by (simp add: dict_has_def)
next
  case (Cons kv kvs)
  obtain k' v where kv: "kv = (k', v)" by (cases kv)
  have "map_of kvs k' = None" using Cons.prems by (simp add: kv map_of_eq_None_iff)
  then show ?case using Cons by (auto simp: kv dict_has_def simp del: map_of_eq_None_iff map_of_eq_Some_iff)
qed

section \<open>The row of a run\<close>

text \<open>The roster is readable, the run has the row of its packet, with a history.\<close>

definition own :: "super_args \<Rightarrow> super_world \<Rightarrow> bool" where
  "own a w \<longleftrightarrow> (\<exists>jobs item rows. sw_jobs w = Some jobs \<and> map_of jobs (sa_packet a) = Some item
     \<and> jget item ''run_id'' = JStr (sa_run a) \<and> jget item ''history'' = JList rows)"

definition row_state :: "super_args \<Rightarrow> super_world \<Rightarrow> json" where
  "row_state a w = (case sw_jobs w of None \<Rightarrow> JNull | Some jobs \<Rightarrow> jget (job_row (sa_packet a) jobs) ''state'')"

lemma push_history_ok:
  assumes "jget item ''history'' = JList rows"
  shows "\<exists>item'. push_history row item = Inr item' \<and> jget item' ''history'' = JList (rows @ [JObj row])
    \<and> (\<forall>k. k \<noteq> ''history'' \<longrightarrow> jget item' k = jget item k)"
proof -
  have "map_of item ''history'' = Some (JList rows)"
    using assms by (auto simp: jget_def dict_get_or_def split: option.splits simp del: map_of_eq_Some_iff)
  then show ?thesis by (simp add: push_history_def del: map_of_eq_Some_iff)
qed

lemma enter_state_ok:
  assumes "jget item ''history'' = JList rows"
  shows "\<exists>item' rows'. enter_state c item = Inr item' \<and> jget item' ''history'' = JList rows'
    \<and> (\<forall>k. k \<noteq> ''history'' \<longrightarrow> jget item' k = jget item k)"
proof (cases "truthy (jget (sc_fields c) ''state'') \<and> \<not> py_eq (jget (sc_fields c) ''state'') (jget item ''state'')")
  case True
  then show ?thesis using push_history_ok [OF assms] by (simp add: enter_state_def) blast
next
  case False
  then show ?thesis using assms by (auto simp: enter_state_def Let_def)
qed

lemma update_row_own:
  assumes "jget item ''run_id'' = JStr (sc_run c)" and "jget item ''history'' = JList rows"
    and "clean_fields (sc_fields c)" and "wf_dict (sc_fields c)"
  shows "\<exists>item' rows'. update_row c item = Inr (Some item') \<and> jget item' ''run_id'' = JStr (sc_run c)
    \<and> jget item' ''history'' = JList rows'
    \<and> jget item' ''state'' = (if dict_has ''state'' (sc_fields c) then jget (sc_fields c) ''state'' else jget item ''state'')"
proof -
  obtain item1 rows1 where state: "enter_state c item = Inr item1" "jget item1 ''history'' = JList rows1"
    "\<forall>k. k \<noteq> ''history'' \<longrightarrow> jget item1 k = jget item k"
    using enter_state_ok [OF assms(2)] by blast
  have "\<not> dict_has ''run_id'' (sc_fields c)" "\<not> dict_has ''history'' (sc_fields c)"
    using assms(3) by (auto simp: clean_fields_def dict_has_def map_of_eq_None_iff)
  then show ?thesis using state assms(1) jget_update [OF assms(4)]
    by (simp add: update_row_def enter_generation_def)
qed

lemma record_state_own:
  assumes "own a w" and "clean_fields kvs" and "wf_dict kvs"
  shows "\<exists>item jobs. record_state a now kvs w = (Inr item, w\<lparr>sw_jobs := Some jobs\<rparr>) \<and> own a (w\<lparr>sw_jobs := Some jobs\<rparr>)
    \<and> row_state a (w\<lparr>sw_jobs := Some jobs\<rparr>) = (if dict_has ''state'' kvs then jget kvs ''state'' else row_state a w)"
proof -
  let ?c = "\<lparr>sc_time = now, sc_packet = sa_packet a, sc_run = sa_run a, sc_attempt = sa_attempt a, sc_fields = kvs\<rparr>"
  from assms(1) obtain jobs item rows where w: "sw_jobs w = Some jobs" "map_of jobs (sa_packet a) = Some item"
    "jget item ''run_id'' = JStr (sa_run a)" "jget item ''history'' = JList rows" unfolding own_def by blast
  obtain item' rows' where new: "update_row ?c item = Inr (Some item')" "jget item' ''run_id'' = JStr (sa_run a)"
      "jget item' ''history'' = JList rows'"
      "jget item' ''state'' = (if dict_has ''state'' kvs then jget kvs ''state'' else jget item ''state'')"
    using update_row_own [of item ?c rows] w(3,4) assms(2,3) by auto
  have row: "job_row (sa_packet a) jobs = item" using w(2) by (simp add: job_row_def dict_get_or_def del: map_of_eq_Some_iff)
  have "record_state a now kvs w = (Inr item', w\<lparr>sw_jobs := Some (dict_set (sa_packet a) item' jobs)\<rparr>)"
    by (simp add: record_state_def store_update_def w(1) row new(1))
  then show ?thesis using new w(1) row by (auto simp: own_def row_state_def job_row_def)
qed

lemma record_event_own:
  "own a w \<Longrightarrow> record_event a now event detail w = (Inr (), w\<lparr>sw_events := sw_events (event_once now (sa_packet a) (sa_run a) (sa_attempt a) event detail w)\<rparr>)"
  by (simp add: record_event_def event_once_def)

definition announced :: "super_args \<Rightarrow> string \<Rightarrow> super_world \<Rightarrow> bool" where
  "announced a event w \<longleftrightarrow> list_ex (exec_row (sa_packet a, JStr (sa_run a), event)) (sw_events w)"

lemma announced_once:
  "announced a event (event_once now (sa_packet a) (sa_run a) (sa_attempt a) event detail w)"
  by (simp add: announced_def event_once_def exec_event_def append_once_def exec_row_def line_is_def)

lemma own_frame [simp]:
  "own a (w\<lparr>sw_events := es\<rparr>) = own a w" "own a (w\<lparr>sw_cancel := cs\<rparr>) = own a w" "own a (w\<lparr>sw_health := hs\<rparr>) = own a w"
  "own a (w\<lparr>sw_budget := b\<rparr>) = own a w" "own a (w\<lparr>sw_reports := r\<rparr>) = own a w" "own a (w\<lparr>sw_after := xs\<rparr>) = own a w"
  by (simp_all add: own_def)

lemma row_state_frame [simp]:
  "row_state a (w\<lparr>sw_events := es\<rparr>) = row_state a w" "row_state a (w\<lparr>sw_cancel := cs\<rparr>) = row_state a w"
  "row_state a (w\<lparr>sw_health := hs\<rparr>) = row_state a w" "row_state a (w\<lparr>sw_budget := b\<rparr>) = row_state a w"
  "row_state a (w\<lparr>sw_reports := r\<rparr>) = row_state a w" "row_state a (w\<lparr>sw_after := xs\<rparr>) = row_state a w"
  by (simp_all add: row_state_def)

lemma announced_frame [simp]:
  "announced a event (w\<lparr>sw_jobs := js\<rparr>) = announced a event w" "announced a event (w\<lparr>sw_cancel := cs\<rparr>) = announced a event w"
  "announced a event (w\<lparr>sw_health := hs\<rparr>) = announced a event w" "announced a event (w\<lparr>sw_budget := b\<rparr>) = announced a event w"
  "announced a event (w\<lparr>sw_reports := r\<rparr>) = announced a event w" "announced a event (w\<lparr>sw_after := xs\<rparr>) = announced a event w"
  by (simp_all add: announced_def)

lemma event_once_frame [simp]:
  "own a (event_once now p r n ev d w) = own a w" "row_state a (event_once now p r n ev d w) = row_state a w"
  "sw_cancel (event_once now p r n ev d w) = sw_cancel w" "sw_budget (event_once now p r n ev d w) = sw_budget w"
  by (simp_all add: event_once_def)

lemma announced_kept: "announced a ev w \<Longrightarrow> announced a ev (event_once now p r n ev' d w)"
  by (simp add: announced_def event_once_def exec_event_def append_once_def)

section \<open>The ends of a run\<close>

lemma and_then_Inr: "m w = (Inr x, w1) \<Longrightarrow> and_then m f w = f x w1"
  by (simp add: and_then_def)

lemma and_then_Inl: "m w = (Inl e, w1) \<Longrightarrow> and_then m f w = (Inl e, w1)"
  by (simp add: and_then_def)

lemma event_then [simp]:
  "and_then (record_event a now ev d) f w = f () (event_once now (sa_packet a) (sa_run a) (sa_attempt a) ev d w)"
  by (simp add: and_then_def record_event_def)

lemma note_then [simp]:
  "and_then (note_failure a env now rc stderr timed_out) f w = f () (snd (note_failure a env now rc stderr timed_out w))"
  by (simp add: and_then_def note_failure_def)

lemma record_then: "record_state a now kvs w = (Inr x, w1) \<Longrightarrow> and_then (record_state a now kvs) f w = f x w1"
  by (simp add: and_then_def)

lemma record_state_ok:
  assumes "own a w" and "clean_fields kvs" and "wf_dict kvs" and "map_of kvs ''state'' = Some state"
  shows "\<exists>item jobs. record_state a now kvs w = (Inr item, w\<lparr>sw_jobs := Some jobs\<rparr>)
    \<and> own a (w\<lparr>sw_jobs := Some jobs\<rparr>) \<and> row_state a (w\<lparr>sw_jobs := Some jobs\<rparr>) = state"
proof -
  have "(if dict_has ''state'' kvs then jget kvs ''state'' else row_state a w) = state"
    using assms(4) by (simp add: dict_has_def jget_def dict_get_or_def del: map_of_eq_Some_iff)
  then show ?thesis using record_state_own [OF assms(1-3), of now] by auto
qed

lemma fail_run_own:
  assumes "own a w"
  shows "\<exists>w'. fail_run a now rc detail w = (Inr (), w') \<and> own a w' \<and> row_state a w' = JStr ''failed'' \<and> announced a ''exec_failed'' w'
    \<and> sw_cancel w' = sw_cancel w"
proof -
  let ?kvs = "[(''state'', JStr ''failed''), (''exit_code'', JInt rc), (''failure'', JObj detail)]"
  obtain item jobs where step: "record_state a now ?kvs w = (Inr item, w\<lparr>sw_jobs := Some jobs\<rparr>)"
    "own a (w\<lparr>sw_jobs := Some jobs\<rparr>)" "row_state a (w\<lparr>sw_jobs := Some jobs\<rparr>) = JStr ''failed''"
    using record_state_ok [OF assms, of ?kvs "JStr ''failed''" now] by (auto simp: clean_fields_def)
  then show ?thesis using step(2,3) by (simp add: fail_run_def record_then [OF step(1)] record_event_def announced_once)
qed

lemma complete_run_own:
  assumes "own a w"
  shows "\<exists>w'. complete_run a env now w = (Inr (0, True), w') \<and> own a w' \<and> row_state a w' = JStr ''completed''
    \<and> announced a ''subagent_stop'' w'"
proof -
  let ?kvs = "[(''state'', JStr ''completed''), (''exit_code'', JInt 0), (''published_report'', JStr (published_path a))]"
  obtain item jobs where step: "record_state a now ?kvs w = (Inr item, w\<lparr>sw_jobs := Some jobs\<rparr>)"
    "own a (w\<lparr>sw_jobs := Some jobs\<rparr>)" "row_state a (w\<lparr>sw_jobs := Some jobs\<rparr>) = JStr ''completed''"
    using record_state_ok [OF assms, of ?kvs "JStr ''completed''" now] by (auto simp: clean_fields_def)
  then show ?thesis using step(2,3) by (simp add: complete_run_def record_then [OF step(1)] announced_once)
qed

lemma consume_cancel_cases:
  obtains e where "consume_cancel p r n w = (Inl e, w)"
  | cs where "consume_cancel p r n w = (Inr (), w\<lparr>sw_cancel := cs\<rparr>)"
      and "cancel_for r n (dict_get_or [] p cs) = Inr False"
proof (cases "cancel_for r n (dict_get_or [] p (sw_cancel w))")
  case (Inl e)
  then show ?thesis using that(1) by (simp add: consume_cancel_def)
next
  case (Inr b)
  show ?thesis
  proof (cases b)
    case True
    then show ?thesis using that(2) [of "dict_del p (sw_cancel w)"] Inr by (simp add: consume_cancel_def cancel_for_def)
  next
    case False
    then show ?thesis using that(2) [of "sw_cancel w"] Inr by (simp add: consume_cancel_def)
  qed
qed

lemma stop_run_own:
  assumes "own a w"
  shows "\<exists>r w'. stop_run a env pid s reason cancelled w = (r, w') \<and> own a w' \<and> (r = Inr (124, True) \<or> (\<exists>e. r = Inl e))
    \<and> row_state a w' = JStr (if reason = ''timeout'' then ''timed_out'' else ''cancelled'')
    \<and> announced a (if reason = ''timeout'' then ''timeout'' else ''exec_failed'') w'
    \<and> (cancelled \<longrightarrow> cancel_for (sa_run a) (sa_attempt a) (dict_get_or [] (sa_packet a) (sw_cancel w)) = Inr True
        \<longrightarrow> r = Inr (124, True) \<and> sw_cancel w' = dict_del (sa_packet a) (sw_cancel w))"
proof -
  let ?state = "JStr (if reason = ''timeout'' then ''timed_out'' else ''cancelled'')"
  let ?kvs = "[(''state'', ?state), (''exit_code'', int_or_null (ps_killed s)), (''stop_reason'', JStr reason)]"
  obtain item jobs where step: "record_state a (ps_time s) ?kvs w = (Inr item, w\<lparr>sw_jobs := Some jobs\<rparr>)"
    "own a (w\<lparr>sw_jobs := Some jobs\<rparr>)" "row_state a (w\<lparr>sw_jobs := Some jobs\<rparr>) = ?state"
    using record_state_ok [OF assms, of ?kvs ?state "ps_time s"] by (auto simp: clean_fields_def)
  define event where "event = (if reason = ''timeout'' then ''timeout'' else ''exec_failed'')"
  define w1 where "w1 = event_once (ps_time s) (sa_packet a) (sa_run a) (sa_attempt a) event
      [(''why'', JStr reason), (''cancelled'', JBool (reason \<noteq> ''timeout'')), (''os_pid'', JInt pid),
       (''limit_s'', JFloat (sa_timeout a)), (''grace_s'', JFloat (sa_grace a))] (w\<lparr>sw_jobs := Some jobs\<rparr>)"
  have w1: "own a w1" "row_state a w1 = ?state" "announced a event w1" using step(2,3) by (simp_all add: w1_def announced_once)
  define w2 where "w2 = snd (note_failure a env (ps_time s) 124 (se_tail env (sa_stderr a)) (reason = ''timeout'') w1)"
  have w2: "own a w2" "row_state a w2 = ?state" "announced a event w2" "sw_cancel w2 = sw_cancel w"
    using w1 by (simp_all add: w2_def note_failure_def w1_def)
  have "stop_run a env pid s reason cancelled w
      = and_then (if cancelled then consume_cancel (sa_packet a) (sa_run a) (sa_attempt a) else Pair (Inr ())) (\<lambda>u. Pair (Inr (124, True))) w2"
    by (simp only: stop_run_def Let_def record_then [OF step(1)] event_then note_then w2_def w1_def event_def)
  moreover have "\<exists>r w'. and_then (if cancelled then consume_cancel (sa_packet a) (sa_run a) (sa_attempt a) else Pair (Inr ()))
      (\<lambda>u. Pair (Inr (124, True :: bool))) w2 = (r, w') \<and> own a w' \<and> (r = Inr (124, True) \<or> (\<exists>e. r = Inl e))
      \<and> row_state a w' = ?state \<and> announced a event w'
      \<and> (cancelled \<longrightarrow> cancel_for (sa_run a) (sa_attempt a) (dict_get_or [] (sa_packet a) (sw_cancel w)) = Inr True
          \<longrightarrow> r = Inr (124, True) \<and> sw_cancel w' = dict_del (sa_packet a) (sw_cancel w))"
    using w2 by (auto simp: and_then_def consume_cancel_def split: sum.splits)
  ultimately show ?thesis by (simp add: event_def)
qed

text \<open>How a run ended: its code, the state of its row and the event that says so.\<close>

definition run_settled :: "super_args \<Rightarrow> int \<Rightarrow> super_world \<Rightarrow> bool" where
  "run_settled a rc w \<longleftrightarrow> own a w \<and> (if rc = 0 then row_state a w = JStr ''completed'' \<and> announced a ''subagent_stop'' w
     else row_state a w \<in> {JStr ''failed'', JStr ''cancelled'', JStr ''spawn_failed''} \<and> announced a ''exec_failed'' w
       \<or> row_state a w = JStr ''timed_out'' \<and> announced a ''timeout'' w)"

lemma settled_frame [simp]:
  "run_settled a rc (w\<lparr>sw_cancel := cs\<rparr>) = run_settled a rc w" "run_settled a rc (w\<lparr>sw_health := hs\<rparr>) = run_settled a rc w"
  "run_settled a rc (w\<lparr>sw_budget := b\<rparr>) = run_settled a rc w" "run_settled a rc (w\<lparr>sw_after := xs\<rparr>) = run_settled a rc w"
  by (simp_all add: run_settled_def)

lemma settled_own: "run_settled a rc w \<Longrightarrow> own a w"
  by (simp add: run_settled_def)

lemma fail_then:
  assumes "own a w" and "code \<noteq> 0"
  shows "\<exists>w'. and_then (fail_run a now rc detail) f w = f () w' \<and> run_settled a code w'"
  using fail_run_own [OF assms(1), of now rc detail] assms(2) unfolding run_settled_def and_then_def by auto

lemma finish_run_own:
  assumes "own a w"
  shows "\<exists>r w'. finish_run a env s rc w = (r, w') \<and> own a w' \<and> (\<forall>code b. r = Inr (code, b) \<longrightarrow> run_settled a code w')"
proof -
  have done': "\<exists>r w'. complete_run a env (ps_time s) v = (r, w') \<and> own a w' \<and> (\<forall>code b. r = Inr (code, b) \<longrightarrow> run_settled a code w')"
    if "own a v" for v using complete_run_own [OF that, of env "ps_time s"] by (auto simp: run_settled_def)
  have bad: "\<exists>r w'. and_then (fail_run a (ps_time s) n detail) (\<lambda>u. Pair (Inr (1, False))) v = (r, w') \<and> own a w'
      \<and> (\<forall>code b. r = Inr (code, b) \<longrightarrow> run_settled a code w')" if "own a v" for v n detail
    using fail_then [OF that, of 1 "ps_time s" n detail "\<lambda>u. Pair (Inr (1, False))"] by (auto intro: settled_own)
  have failed: "\<exists>r w'. and_then (fail_run a (ps_time s) n detail) (\<lambda>u.
        and_then (note_failure a env (ps_time s) k t False) (\<lambda>u. Pair (Inr (k, True)))) v = (r, w') \<and> own a w'
      \<and> (\<forall>code b. r = Inr (code, b) \<longrightarrow> run_settled a code w')" if "own a v" "k \<noteq> 0" for v n k detail t
    using fail_then [OF that, of "ps_time s" n detail "\<lambda>u. and_then (note_failure a env (ps_time s) k t False) (\<lambda>u. Pair (Inr (k, True)))"]
    by (auto simp: note_failure_def intro: settled_own)
  have publish: "publish_report a env report p w = (r, w1) \<Longrightarrow> own a w1 \<and> (\<forall>x. r = Inr x \<longrightarrow> own a w1)" for report p r w1
    using assms by (auto simp: publish_report_def split: if_splits)
  show ?thesis
  proof (cases "se_report env")
    case None
    then show ?thesis using failed [OF assms] by (simp add: finish_run_def)
  next
    case (Some report)
    show ?thesis
    proof (cases "rc = 0")
      case False
      then show ?thesis using failed [OF assms] Some by (simp add: finish_run_def)
    next
      case True
      obtain r w1 where pub: "(case sa_publish a of None \<Rightarrow> Pair (Inr ()) | Some p \<Rightarrow> publish_report a env report p) w = (r, w1)"
        by (cases "(case sa_publish a of None \<Rightarrow> Pair (Inr ()) | Some p \<Rightarrow> publish_report a env report p) w")
      then have w1: "own a w1" using assms publish by (auto split: option.splits)
      show ?thesis
      proof (cases r)
        case (Inl e)
        then show ?thesis using w1 pub Some True by (simp add: finish_run_def and_then_def)
      next
        case (Inr u)
        note step = and_then_Inr [where m = "case sa_publish a of None \<Rightarrow> Pair (Inr ()) | Some p \<Rightarrow> publish_report a env report p"
          and w = w, OF pub [unfolded Inr]]
        have "finish_run a env s rc w = (if \<not> sa_l2 a then complete_run a env (ps_time s) w1
            else (case se_l2 env of
                    L2_accepted \<Rightarrow> complete_run a env (ps_time s) w1
                  | L2_raises e \<Rightarrow> and_then (fail_run a (ps_time s) 1 [(''why'', JStr ''l2_completion_failed''), (''error'', JStr e),
                      (''report'', JStr (published_path a))]) (\<lambda>u. Pair (Inr (1, False))) w1
                  | L2_invalid v \<Rightarrow> and_then (fail_run a (ps_time s) 1 [(''why'', JStr ''l2_report_invalid''),
                      (''validation'', v), (''report'', JStr (published_path a))]) (\<lambda>u. Pair (Inr (1, False))) w1))"
          using Some True by (simp add: finish_run_def step split: l2_result.split)
        then show ?thesis using done' [OF w1] bad [OF w1] by (auto split: l2_result.split)
      qed
    qed
  qed
qed

lemma supervisor_error_own:
  assumes "own a w"
  shows "run_settled a 1 (supervisor_error a env born now e w)"
proof -
  define detail where "detail = [(''why'', JStr ''supervisor_error''), (''phase'', JStr (if born then ''post_spawn'' else ''pre_spawn'')),
            (''error'', JStr (se_error env e))]"
  let ?state = "JStr (if born then ''failed'' else ''spawn_failed'')"
  obtain item jobs where step: "record_state a now [(''state'', ?state), (''failure'', JObj detail)] w = (Inr item, w\<lparr>sw_jobs := Some jobs\<rparr>)"
    "own a (w\<lparr>sw_jobs := Some jobs\<rparr>)" "row_state a (w\<lparr>sw_jobs := Some jobs\<rparr>) = ?state"
    using record_state_ok [OF assms, of "[(''state'', ?state), (''failure'', JObj detail)]" ?state now] by (auto simp: clean_fields_def)
  have "supervisor_error a env born now e w
      = event_once now (sa_packet a) (sa_run a) (sa_attempt a) ''exec_failed'' detail (w\<lparr>sw_jobs := Some jobs\<rparr>)"
    by (simp only: supervisor_error_def Let_def detail_def [symmetric] step(1) record_event_def snd_conv)
  then show ?thesis using step(2,3) by (simp add: run_settled_def announced_once)
qed

section \<open>The whole run\<close>

text \<open>Other processes leave the row of the packet to the run.\<close>

definition polite :: "super_args \<Rightarrow> poll_sample \<Rightarrow> bool" where
  "polite a s \<longleftrightarrow> (\<forall>w. own a w \<longrightarrow> own a (ps_others s w))"

lemma watch_own:
  assumes "own a w" and "\<forall>s \<in> set samples. polite a s"
  shows "own a (snd (watch a env heartbeat samples w))"
  using assms
proof (induction samples arbitrary: heartbeat w)
  case Nil
  then show ?case by simp
next
  case (Cons s samples)
  then have own: "own a (ps_others s w)" by (simp add: polite_def)
  let ?kvs = "[(''state'', JStr ''running''), (''heartbeat_at'', JFloat (ps_time s))]"
  obtain item jobs where step: "record_state a (ps_time s) ?kvs (ps_others s w) = (Inr item, (ps_others s w)\<lparr>sw_jobs := Some jobs\<rparr>)"
    "own a ((ps_others s w)\<lparr>sw_jobs := Some jobs\<rparr>)"
    using record_state_own [OF own, of ?kvs "ps_time s"] by (auto simp: clean_fields_def)
  from Cons.IH [OF own] Cons.IH [OF step(2)] Cons.prems(2) own show ?case
    by (auto simp: Let_def record_then [OF step(1)] split: option.splits sum.splits)
qed

lemma attend_own:
  assumes "own a w" and "\<forall>s \<in> set samples. polite a s" and "attend a env child samples w = (r, w')"
  shows "own a w'" and "\<forall>code b. r = Inr (Some (code, b)) \<longrightarrow> run_settled a code w'"
proof -
  let ?kvs = "[(''state'', JStr ''running''), (''os_pid'', JInt (fst child)),
         (''worker_proc_start_ticks'', int_or_null (snd child)), (''heartbeat_at'', JFloat (se_time env))]"
  obtain item jobs where step: "record_state a (se_time env) ?kvs w = (Inr item, w\<lparr>sw_jobs := Some jobs\<rparr>)"
    "own a (w\<lparr>sw_jobs := Some jobs\<rparr>)"
    using record_state_own [OF assms(1), of ?kvs "se_time env"] by (auto simp: clean_fields_def)
  define w1 where "w1 = event_once (se_time env) (sa_packet a) (sa_run a) (sa_attempt a) ''exec_spawned''
      [(''os_pid'', JInt (fst child)), (''task_name'', JStr (sa_task_name a))] (w\<lparr>sw_jobs := Some jobs\<rparr>)"
  have "own a w1" using step(2) by (simp add: w1_def)
  obtain ended w2 where watched: "watch a env (se_clock env) samples w1 = (ended, w2)" by (cases "watch a env (se_clock env) samples w1")
  have own: "own a w2" using watch_own [OF \<open>own a w1\<close> assms(2), of env "se_clock env"] by (simp add: watched)
  have body: "(case ended of Inl e \<Rightarrow> (Inl e, w2) | Inr x \<Rightarrow> conclude a env (fst child) x w2) = (r, w')"
    using assms(3) by (simp add: attend_def record_then [OF step(1)] and_then_def [of "watch a env (se_clock env) samples"]
        watched flip: w1_def)
  have "own a w' \<and> (\<forall>code b. r = Inr (Some (code, b)) \<longrightarrow> run_settled a code w')"
  proof (cases ended)
    case (Inl e)
    then show ?thesis using body own by auto
  next
    case (Inr x)
    show ?thesis
    proof (cases x)
      case (Child_exit s rc)
      then show ?thesis using body Inr finish_run_own [OF own, of env s rc] by (auto simp: conclude_def and_then_def split: sum.splits)
    next
      case (Stop_child s reason cancelled)
      then show ?thesis using body Inr stop_run_own [OF own, of env "fst child" s reason cancelled]
        by (auto simp: conclude_def and_then_def run_settled_def split: sum.splits if_splits)
    next
      case Still_running
      then show ?thesis using body Inr own by (auto simp: conclude_def)
    qed
  qed
  then show "own a w'" and "\<forall>code b. r = Inr (Some (code, b)) \<longrightarrow> run_settled a code w'" by blast+
qed

text \<open>The roster is readable and has no later generation of the packet.\<close>

definition can_start :: "super_args \<Rightarrow> super_env \<Rightarrow> super_world \<Rightarrow> bool" where
  "can_start a env w \<longleftrightarrow> (\<exists>jobs rows began. sw_jobs w = Some jobs \<and> jget (job_row (sa_packet a) jobs) ''history'' = JList rows
     \<and> started_at (job_row (sa_packet a) jobs) = Inr began \<and> began \<le> se_time env)"

lemma start_generation:
  assumes "jget item ''history'' = JList rows" and "started_at item = Inr began" and "started_at (sc_fields c) = Inr t"
    and "began \<le> t" and "jget (sc_fields c) ''state'' = JStr ''starting''" and "sc_run c \<noteq> []"
  shows "\<exists>item1 rows1. enter_generation c item = Inr (Some item1) \<and> jget item1 ''history'' = JList rows1
    \<and> jget item1 ''run_id'' = JStr (sc_run c)"
proof (cases "jget item ''run_id'' = JStr (sc_run c)")
  case True
  then show ?thesis using assms(1) by (simp add: enter_generation_def)
next
  case False
  obtain pushed where "push_history [(''ts'', JFloat (sc_time c)), (''state'', JStr ''generation_started''),
      (''run_id'', JStr (sc_run c)), (''attempt'', JInt (sc_attempt c))] item = Inr pushed" "\<exists>rows. jget pushed ''history'' = JList rows"
    using push_history_ok [OF assms(1)] by blast
  then show ?thesis using False assms by (auto simp: enter_generation_def)
qed

lemma first_record:
  assumes "can_start a env w" and "sa_run a \<noteq> []"
  shows "\<exists>item jobs. record_state a (se_time env) (birth_fields a env) w = (Inr item, w\<lparr>sw_jobs := Some jobs\<rparr>)
    \<and> own a (w\<lparr>sw_jobs := Some jobs\<rparr>)"
proof -
  let ?c = "\<lparr>sc_time = se_time env, sc_packet = sa_packet a, sc_run = sa_run a, sc_attempt = sa_attempt a, sc_fields = birth_fields a env\<rparr>"
  from assms(1) obtain jobs rows began where w: "sw_jobs w = Some jobs" "jget (job_row (sa_packet a) jobs) ''history'' = JList rows"
    "started_at (job_row (sa_packet a) jobs) = Inr began" "began \<le> se_time env" unfolding can_start_def by blast
  let ?item = "job_row (sa_packet a) jobs"
  have incoming: "started_at (birth_fields a env) = Inr (se_time env)"
    by (simp add: started_at_def birth_fields_def jget_or_def dict_get_or_def py_or_def)
  have state: "jget (birth_fields a env) ''state'' = JStr ''starting''" by (simp add: birth_fields_def)
  obtain item1 rows1 where gen: "enter_generation ?c ?item = Inr (Some item1)" and hist: "jget item1 ''history'' = JList rows1"
    and run: "jget item1 ''run_id'' = JStr (sa_run a)"
  proof -
    have "\<exists>item1 rows1. enter_generation ?c ?item = Inr (Some item1) \<and> jget item1 ''history'' = JList rows1
        \<and> jget item1 ''run_id'' = JStr (sc_run ?c)"
      by (rule start_generation [OF w(2,3) _ w(4)]) (simp_all add: incoming state assms(2))
    then show ?thesis using that by auto
  qed
  obtain item2 rows2 where st: "enter_state ?c item1 = Inr item2" "jget item2 ''history'' = JList rows2"
    "\<forall>k. k \<noteq> ''history'' \<longrightarrow> jget item2 k = jget item1 k"
    using enter_state_ok [OF hist, of ?c] by blast
  let ?new = "dict_set ''updated_at'' (JFloat (se_time env)) (dict_update (birth_fields a env) item2)"
  have "record_state a (se_time env) (birth_fields a env) w = (Inr ?new, w\<lparr>sw_jobs := Some (dict_set (sa_packet a) ?new jobs)\<rparr>)"
    by (simp add: record_state_def store_update_def w(1) update_row_def gen st(1))
  moreover have "jget ?new ''run_id'' = JStr (sa_run a)" "jget ?new ''history'' = JList rows2"
    using run st by (simp_all add: birth_fields_def)
  ultimately show ?thesis by (auto simp: own_def)
qed

lemma wind_up_settled:
  assumes "run_settled a rc w"
  shows "run_settled a rc (wind_up a env now terminal w)"
    and "cancel_for (sa_run a) (sa_attempt a) (dict_get_or [] (sa_packet a) (sw_cancel (wind_up a env now terminal w))) \<noteq> Inr True"
    and "map_of (allocated (sw_budget (wind_up a env now terminal w))) (sa_run a) = None"
proof -
  have "run_settled a rc (wind_up a env now terminal w)
    \<and> cancel_for (sa_run a) (sa_attempt a) (dict_get_or [] (sa_packet a) (sw_cancel (wind_up a env now terminal w))) \<noteq> Inr True
    \<and> map_of (allocated (sw_budget (wind_up a env now terminal w))) (sa_run a) = None"
    using assms
  proof (cases rule: consume_cancel_cases [of "sa_packet a" "sa_run a" "sa_attempt a" w])
    case (1 e)
    then have "cancel_for (sa_run a) (sa_attempt a) (dict_get_or [] (sa_packet a) (sw_cancel w)) \<noteq> Inr True"
      by (auto simp: consume_cancel_def split: sum.splits if_splits)
    then show ?thesis using assms 1 by (simp add: wind_up_def Let_def reclaim_def recompute_keeps)
  next
    case (2 cs)
    then show ?thesis using assms by (simp add: wind_up_def Let_def reclaim_def recompute_keeps)
  qed
  then show "run_settled a rc (wind_up a env now terminal w)"
    and "cancel_for (sa_run a) (sa_attempt a) (dict_get_or [] (sa_packet a) (sw_cancel (wind_up a env now terminal w))) \<noteq> Inr True"
    and "map_of (allocated (sw_budget (wind_up a env now terminal w))) (sa_run a) = None" by blast+
qed


section \<open>The end of the watch\<close>

lemma still_running:
  assumes "fst (watch a env heartbeat samples w) = Inr Still_running"
  shows "\<forall>s \<in> set samples. ps_rc s = None \<and> ps_clock s \<le> se_clock env + sa_timeout a"
  using assms
proof (induction samples arbitrary: heartbeat w)
  case Nil
  then show ?case by simp
next
  case (Cons s samples)
  then show ?case by (auto simp: Let_def and_then_def split: option.splits sum.splits if_splits prod.splits)
qed

lemma after_spawn_runs:
  assumes "fst (after_spawn a env samples spawn w) = Inr None"
  shows "\<exists>child v. attend a env child samples w = (Inr None, v)"
proof (cases spawn)
  case (Inl e)
  then show ?thesis using assms by simp
next
  case (Inr child)
  obtain r v where "attend a env child samples w = (r, v)" by (cases "attend a env child samples w")
  moreover from this have "r = Inr None"
    using assms by (cases "(a, env, end_time env samples, (r, v))" rule: after_watch.cases) (auto simp: Inr)
  ultimately show ?thesis by blast
qed

text \<open>Claim C40. The supervisor ends. If it looks at the child every fifth of a second it has returned or raised after as many
  looks as fit into its timeout and one more, whatever the child and the other processes do.\<close>

theorem supervisor_ends:
  assumes "\<forall>i < length samples. se_clock env + of_nat i / 5 \<le> ps_clock (samples ! i)"
    and "sa_timeout a < of_nat (length samples - 1) / 5" and "samples \<noteq> []"
  shows "fst (run_supervisor a env samples w) \<noteq> Inr None"
proof
  assume none: "fst (run_supervisor a env samples w) = Inr None"
  then have "\<exists>w child v. attend a env child samples w = (Inr None, v)"
    using after_spawn_runs by (simp add: run_supervisor_def and_then_def split: if_splits prod.splits sum.splits) blast
  then obtain w1 child v where attended: "attend a env child samples w1 = (Inr None, v)" by blast
  then obtain v v' where "watch a env (se_clock env) samples v = (Inr Still_running, v')"
    by (auto simp: attend_def and_then_def conclude_def split: prod.splits sum.splits watch_end.splits)
  then have "fst (watch a env (se_clock env) samples v) = Inr Still_running" by simp
  from still_running [OF this] have "ps_clock (samples ! (length samples - 1)) \<le> se_clock env + sa_timeout a"
    using assms(3) by (simp add: last_conv_nth)
  moreover have "se_clock env + of_nat (length samples - 1) / 5 \<le> ps_clock (samples ! (length samples - 1))"
    using assms(1,3) by simp
  ultimately show False using assms(2) by simp
qed

section \<open>After a stop of the parent\<close>

lemma parent_stop_cancels:
  assumes "parent_stop env payload w = (True, w')" and "resolve_identity payload = Inr (agent, Some P)"
    and "wf_dict (hw_jobs w)" and "map_of (hw_jobs w) pid = Some job" and "cancels P job"
  shows "map_of (hw_cancel w') pid = Some (cancel_file (he_now env) P job)"
proof -
  let ?w1 = "w\<lparr>hw_parents := deactivate_parent (he_now env) P (hw_parents w)\<rparr>"
  obtain y w2 where step: "transact (interrupt_parent env P) ?w1 = (y, w2)" by (cases "transact (interrupt_parent env P) ?w1")
  from assms(1,2) step obtain changed where y: "y = Some changed"
    and w': "hw_cancel w' = cancel_jobs (he_now env) P (hw_jobs w2) (hw_cancel w2)"
    by (auto simp: parent_stop_def Let_def trigger_def audit_def split: option.splits)
  from step obtain r r' w3 where run: "interrupt_parent env P r ?w1 = (changed, r', w3)" "w2 = w3\<lparr>hw_roster := Stored r'\<rparr>"
    by (cases rule: transact_cases) (use y in auto)
  then have "interrupt_agents env P (nr_agents r) ?w1 = (changed, nr_agents r', w3)"
    by (auto simp: interrupt_parent_def split: prod.splits)
  then have "hw_jobs w2 = hw_jobs w" using interrupt_agents_jobs run(2) by fastforce
  then show ?thesis using cancel_jobs_get [OF assms(3-5)] by (simp add: w')
qed

text \<open>Claim C10. A stop of the parent ends its workers. Once the stop hook has run, the supervisor of a live job of the parent
  that finds its child running ends it at its next look: it returns 124, the row of the run is cancelled, the
  event stream says so and the cancel file is gone.\<close>

theorem stop_ends_workers:
  assumes "parent_stop henv payload hw = (True, hw')" and "resolve_identity payload = Inr (agent, Some P)"
    and "wf_dict (hw_jobs hw)" and "map_of (hw_jobs hw) (sa_packet a) = Some job" and "cancels P job"
    and "jget job ''run_id'' = JStr (sa_run a)" and "jget job ''attempt'' = JInt (sa_attempt a)"
    and "own a (ps_others s w)" and "ps_rc s = None" and "sw_cancel (ps_others s w) = hw_cancel hw'"
  shows "\<exists>w'. and_then (watch a env heartbeat (s # samples)) (conclude a env pid) w = (Inr (Some (124, True)), w')
    \<and> row_state a w' = JStr ''cancelled'' \<and> list_ex (exec_row (sa_packet a, JStr (sa_run a), ''exec_failed'')) (sw_events w')
    \<and> map_of (sw_cancel w') (sa_packet a) = None"
proof -
  note written = parent_stop_cancels [OF assms(1-5)]
  have row: "dict_get_or [] (sa_packet a) (sw_cancel (ps_others s w)) = cancel_file (he_now henv) P job"
    using written by (simp add: assms(10) dict_get_or_def del: map_of_eq_Some_iff)
  have attempt: "map_of job ''attempt'' = Some (JInt (sa_attempt a))"
    using assms(7) by (auto simp: jget_def dict_get_or_def split: option.splits simp del: map_of_eq_Some_iff)
  have match: "cancel_for (sa_run a) (sa_attempt a) (cancel_file (he_now henv) P job) = Inr True"
    using assms(6) attempt by (simp add: cancel_for_def cancel_file_def jget_or_def dict_get_or_def del: map_of_eq_Some_iff)
  have "watch a env heartbeat (s # samples) w = (Inr (Stop_child s ''parent_stop'' True), ps_others s w)"
    using assms(9) row match by (simp add: cancel_request_def Let_def cancel_file_def py_or_def)
  then have "and_then (watch a env heartbeat (s # samples)) (conclude a env pid) w
      = and_then (stop_run a env pid s ''parent_stop'' True) (\<lambda>r. Pair (Inr (Some r))) (ps_others s w)"
    by (simp add: and_then_def [of "watch a env heartbeat (s # samples)"] conclude_def)
  then show ?thesis using stop_run_own [OF assms(8), of env pid s "''parent_stop''" True] row match
    unfolding announced_def by (auto simp: and_then_def)
qed

section \<open>Sample runs\<close>

definition demo_super_args :: super_args where
  "demo_super_args = \<lparr>sa_packet = ''k1'', sa_run = ''r1'', sa_attempt = 0, sa_parent = JStr ''p1'', sa_manifest = JNull,
     sa_task_name = ''t'', sa_role = ''worker'', sa_model = ''m'', sa_plane = ''WSL CLI'', sa_cwd = ''w'', sa_stdout = ''o'',
     sa_stderr = ''e'', sa_report = ''r'', sa_publish = Some ''p'', sa_timeout = 1 / 10, sa_grace = 10, sa_command = [''codex''],
     sa_l2 = False\<rparr>"

definition demo_super_env :: super_env where
  "demo_super_env = \<lparr>se_time = 100, se_clock = 0, se_pid = 5, se_ticks = Some 1, se_spawn = Inr (6, Some 2), se_tail = (\<lambda>f. []),
     se_report = Some (''ok'', None), se_owned = True, se_l2 = L2_accepted, se_packet_file = True, se_health = health_demo,
     se_budget = demo_budget_config, se_str = (\<lambda>v. []), se_error = (\<lambda>e. [])\<rparr>"

definition demo_super_world :: super_world where
  "demo_super_world = \<lparr>sw_jobs = Some [], sw_events = [], sw_cancel = [], sw_health = [],
     sw_budget = budget_load 0 None, sw_reports = [], sw_after = []\<rparr>"

definition look :: "int option \<Rightarrow> rat \<Rightarrow> poll_sample" where
  "look rc t = \<lparr>ps_rc = rc, ps_clock = t, ps_time = 100 + t, ps_others = id, ps_killed = Some 124\<rparr>"

lemma demo_start: "can_start demo_super_args demo_super_env demo_super_world" "sa_run demo_super_args \<noteq> []"
  by (simp_all add: can_start_def demo_super_args_def demo_super_env_def demo_super_world_def job_row_def dict_get_or_def
      fresh_row_def started_at_def jget_or_def py_or_def)


theorem supervisor_ends_witness:
  "fst (run_supervisor demo_super_args demo_super_env [look None 0, look None 1] demo_super_world) \<noteq> Inr None"
  by (rule supervisor_ends) (simp_all add: demo_super_args_def demo_super_env_def look_def less_Suc_eq all_conj_distrib)

definition demo_job :: jobj where
  "demo_job = [(''state'', JStr ''running''), (''parent_session_id'', JStr ''p1''), (''run_id'', JStr ''r1''),
     (''attempt'', JInt 0), (''history'', JList [])]"

definition demo_stop :: hook_world where
  "demo_stop = stop_world\<lparr>hw_jobs := [(''k1'', demo_job)]\<rparr>"

theorem stop_ends_workers_witness:
  "\<exists>hw' w'. parent_stop quiet_env stop_payload demo_stop = (True, hw')
    \<and> and_then (watch demo_super_args demo_super_env 0 [(look None 0)\<lparr>ps_others := \<lambda>w. w\<lparr>sw_cancel := hw_cancel hw'\<rparr>\<rparr>])
        (conclude demo_super_args demo_super_env 6) (demo_super_world\<lparr>sw_jobs := Some (hw_jobs demo_stop)\<rparr>) = (Inr (Some (124, True)), w')
    \<and> row_state demo_super_args w' = JStr ''cancelled'' \<and> map_of (sw_cancel w') ''k1'' = None"
proof -
  have "fst (parent_stop quiet_env stop_payload demo_stop) = True" by code_simp
  then obtain hw' where stop: "parent_stop quiet_env stop_payload demo_stop = (True, hw')"
    by (cases "parent_stop quiet_env stop_payload demo_stop") simp
  let ?s = "(look None 0)\<lparr>ps_others := \<lambda>w. w\<lparr>sw_cancel := hw_cancel hw'\<rparr>\<rparr>"
  let ?w = "demo_super_world\<lparr>sw_jobs := Some (hw_jobs demo_stop)\<rparr>"
  have "wf_dict (hw_jobs demo_stop)" "map_of (hw_jobs demo_stop) (sa_packet demo_super_args) = Some demo_job"
    "cancels ''p1'' demo_job" "jget demo_job ''run_id'' = JStr (sa_run demo_super_args)"
    "jget demo_job ''attempt'' = JInt (sa_attempt demo_super_args)" "own demo_super_args (ps_others ?s ?w)" "ps_rc ?s = None"
    "sw_cancel (ps_others ?s ?w) = hw_cancel hw'"
    by (simp_all add: demo_stop_def demo_job_def demo_super_args_def cancels_def live_state_def own_def look_def)
  from stop_ends_workers [OF stop stop_runs(2) this, of demo_super_env 0 "[]" 6]
  show ?thesis using stop by (auto simp: demo_super_args_def)
qed

text \<open>A review whose report is refused ends without the request that follows every other end.\<close>

lemma refused_review_schedules_nothing:
  "fst (run_supervisor (demo_super_args\<lparr>sa_l2 := True\<rparr>) (demo_super_env\<lparr>se_l2 := L2_invalid JNull\<rparr>) [look (Some 0) 0] demo_super_world)
      = Inr (Some 1)
    \<and> sw_after (snd (run_supervisor (demo_super_args\<lparr>sa_l2 := True\<rparr>) (demo_super_env\<lparr>se_l2 := L2_invalid JNull\<rparr>)
        [look (Some 0) 0] demo_super_world)) = []"
  "sw_after (snd (run_supervisor demo_super_args demo_super_env [look (Some 0) 0] demo_super_world)) = [Terminal_epilogue]"
  by code_simp+

end
