(* ===== verification/Wave.thy ===== *)
theory Wave
  imports Supervisor Dispatch Diff_Gate
begin

text \<open>
  The headless wave, \<open>src/harness/headless_wave.py\<close>: the check of a manifest, the roster as the wave
  sees it, the waits for a birth and for the end of the runs, the commands of a task, and the launch of
  the tasks one after the other. The dispatcher, the start of a supervisor and what the roster shows
  during a wait are functions on the state; paths, digests, processes and reports are arguments.
\<close>

section \<open>State\<close>

text \<open>\<open>ww_births\<close> lists what the wave started: the packet and the command, empty if the dispatcher was called.\<close>

record wave_world =
  ww_files :: super_world
  ww_ledger :: "json dict"
  ww_births :: "(string \<times> string list) list"

text \<open>\<open>wv_watch\<close> gives what the looks at the row of a packet show, with their times, and the state after them.\<close>

record wave_env =
  wv_pins :: dispatch_env
  wv_resolve :: "string \<Rightarrow> string"
  wv_casefold :: "string \<Rightarrow> string"
  wv_digest :: string
  wv_hex :: "nat \<Rightarrow> string"
  wv_codex :: "string option"
  wv_label :: string
  wv_view :: string
  wv_root :: string
  wv_windows :: bool
  wv_now :: rat
  wv_proc :: "int \<Rightarrow> int option"
  wv_reports :: "string dict"
  wv_ready :: "nat \<Rightarrow> bool"
  wv_dispatch :: "string \<Rightarrow> string \<Rightarrow> bool \<Rightarrow> wave_world \<Rightarrow> int \<times> wave_world"
  wv_launch :: "string list \<Rightarrow> wave_world \<Rightarrow> int \<times> wave_world"
  wv_watch :: "string \<Rightarrow> wave_world \<Rightarrow> (rat \<times> jobj) list \<times> wave_world"

definition text_or :: "wave_env \<Rightarrow> json \<Rightarrow> string \<Rightarrow> string" where
  "text_or env v s = (if truthy v then text_of_json (wv_pins env) v else s)"

section \<open>The manifest\<close>

definition ROLE_SET :: "string list" where
  "ROLE_SET = [''worker'', ''verifier'', ''reviewer'', ''plan_expander'', ''duty_officer'']"

definition filled :: "jobj \<Rightarrow> string \<Rightarrow> bool" where
  "filled task k = (case jget task k of JStr s \<Rightarrow> py_strip s \<noteq> [] | _ \<Rightarrow> False)"

definition write_cwd :: "wave_env \<Rightarrow> jobj \<Rightarrow> string" where
  "write_cwd env task = wv_casefold env (wv_resolve env (case jget task ''cwd'' of JStr s \<Rightarrow> s | _ \<Rightarrow> []))"

text \<open>One task, given the ids and the working directories taken by the tasks before it.\<close>

definition check_task :: "wave_env \<Rightarrow> string list \<Rightarrow> string list \<Rightarrow> jobj \<Rightarrow> bool" where
  "check_task env seen_ids cwds task =
     (let task_id = text_or env (jget task ''task_id'') [];
          packet = jget task ''packet_id'';
          sandbox = text_or env (jget task ''sandbox'') ''read-only'' in
      valid_pid task_id \<and> task_id \<notin> set seen_ids
      \<and> (packet = JNull \<or> (case packet of JStr p \<Rightarrow> valid_pid p | _ \<Rightarrow> False))
      \<and> list_all (filled task) (if packet = JNull then [''task_name'', ''prompt'', ''cwd''] else [''task_name''])
      \<and> text_or env (jget task ''role'') ''worker'' \<in> set ROLE_SET
      \<and> sandbox \<in> {''read-only'', ''workspace-write''}
      \<and> (packet = JNull \<or> \<not> list_ex (\<lambda>k. dict_has k task) [''prompt'', ''cwd'', ''sandbox'', ''allow_write''])
      \<and> (sandbox = ''workspace-write'' \<longrightarrow> jget task ''allow_write'' = JBool True \<and> write_cwd env task \<notin> set cwds))"

fun check_tasks :: "wave_env \<Rightarrow> string list \<Rightarrow> string list \<Rightarrow> json list \<Rightarrow> jobj list option" where
  "check_tasks env seen_ids cwds [] = Some []"
| "check_tasks env seen_ids cwds (v # vs) =
     (case v of
        JObj task \<Rightarrow>
          if check_task env seen_ids cwds task
          then map_option (Cons task) (check_tasks env (text_or env (jget task ''task_id'') [] # seen_ids)
            (if text_or env (jget task ''sandbox'') ''read-only'' = ''workspace-write'' then write_cwd env task # cwds else cwds) vs)
          else None
      | _ \<Rightarrow> None)"

text \<open>\<open>None\<close> is a \<open>WaveError\<close>.\<close>

definition load_manifest :: "wave_env \<Rightarrow> json option \<Rightarrow> jobj list option" where
  "load_manifest env content =
     (case content of
        Some (JObj doc) \<Rightarrow> (case jget doc ''tasks'' of JList (v # vs) \<Rightarrow> check_tasks env [] [] (v # vs) | _ \<Rightarrow> None)
      | _ \<Rightarrow> None)"

section \<open>The roster\<close>

definition ACTIVE :: "string list" where
  "ACTIVE = [''starting'', ''running'']"

definition WAVE_TERMINAL :: "string list" where
  "WAVE_TERMINAL = [''completed'', ''failed'', ''timed_out'', ''cancelled'', ''spawn_failed'', ''lost'']"

definition row_in :: "string list \<Rightarrow> jobj \<Rightarrow> bool" where
  "row_in states row \<longleftrightarrow> jget row ''state'' \<in> JStr ` set states"

definition roster_item :: "string \<Rightarrow> super_world \<Rightarrow> jobj" where
  "roster_item packet w = (case sw_jobs w of None \<Rightarrow> [] | Some jobs \<Rightarrow> dict_get_or [] packet jobs)"

definition process_alive :: "wave_env \<Rightarrow> json \<Rightarrow> json \<Rightarrow> bool" where
  "process_alive env pid expected_start =
     (case py_int pid of
        Inl e \<Rightarrow> False
      | Inr n \<Rightarrow> (case wv_proc env n of
            None \<Rightarrow> False
          | Some actual \<Rightarrow> expected_start = JNull \<or> py_int expected_start = Inr actual))"

definition both_alive :: "wave_env \<Rightarrow> jobj \<Rightarrow> bool" where
  "both_alive env row \<longleftrightarrow> process_alive env (jget row ''supervisor_pid'') (jget row ''supervisor_proc_start_ticks'')
     \<and> process_alive env (jget row ''os_pid'') (jget row ''worker_proc_start_ticks'')"

definition update_from :: "wave_env \<Rightarrow> string \<Rightarrow> jobj \<Rightarrow> jobj \<Rightarrow> jobj super_io" where
  "update_from env packet row kvs w =
     (case py_int (py_or (jget_or (JInt 0) row ''attempt'') (JInt 0)) of
        Inl e \<Rightarrow> (Inl e, w)
      | Inr attempt \<Rightarrow> store_update \<lparr>sc_time = wv_now env, sc_packet = packet, sc_run = text_or env (jget row ''run_id'') [],
          sc_attempt = attempt, sc_fields = kvs\<rparr> w)"

text \<open>A row given up although its run completed or its processes live is put right.\<close>

definition recover_live_supervisor :: "wave_env \<Rightarrow> string \<Rightarrow> jobj super_io" where
  "recover_live_supervisor env packet w =
     (let row = roster_item packet w in
      if jget row ''state'' = JStr ''lost'' \<and> py_eq (jget row ''exit_code'') (JInt 0)
         \<and> (case jget row ''published_report'' of JStr p \<Rightarrow> dict_has p (wv_reports env) | _ \<Rightarrow> False)
      then update_from env packet row [(''state'', JStr ''completed''), (''recovered_by'', JStr ''headless_wave_completed_report'')] w
      else if \<not> row_in ACTIVE row \<and> truthy (jget row ''run_id'') \<and> both_alive env row
      then update_from env packet row [(''state'', JStr ''running''), (''heartbeat_at'', JFloat (wv_now env)),
        (''recovered_by'', JStr ''headless_wave'')] w
      else (Inr row, w))"

section \<open>Waits\<close>

text \<open>A birth counts if the row shows the run as running over looks that span a quarter of a second.\<close>

fun wait_observed :: "string \<Rightarrow> rat \<Rightarrow> rat option \<Rightarrow> (rat \<times> jobj) list \<Rightarrow> bool" where
  "wait_observed run_id deadline first [] = False"
| "wait_observed run_id deadline first ((now, row) # looks) =
     (if deadline \<le> now then False
      else if jget row ''run_id'' \<noteq> JStr run_id then wait_observed run_id deadline None looks
      else if jget row ''state'' = JStr ''running'' then
        (case first of
           None \<Rightarrow> wait_observed run_id deadline (Some now) looks
         | Some since \<Rightarrow> 1 / 4 \<le> now - since \<or> wait_observed run_id deadline (Some since) looks)
      else if row_in EXEC_TERMINAL_STATES row then False
      else wait_observed run_id deadline None looks)"

fun wait_generation_change :: "wave_env \<Rightarrow> string \<Rightarrow> rat \<Rightarrow> jobj \<Rightarrow> (rat \<times> jobj) list \<Rightarrow> jobj" where
  "wait_generation_change env prior_run deadline latest [] = latest"
| "wait_generation_change env prior_run deadline latest ((now, row) # looks) =
     (if deadline \<le> now then latest
      else let run_id = text_or env (jget row ''run_id'') [] in
           if run_id \<noteq> [] \<and> run_id \<noteq> prior_run then row
           else wait_generation_change env prior_run deadline row looks)"

text \<open>The first line of a report, cut at 500 characters.\<close>

definition first_line :: "string \<Rightarrow> string option" where
  "first_line text =
     (case filter (\<lambda>l. l \<noteq> []) (map py_strip (py_splitlines text)) of [] \<Rightarrow> None | l # ls \<Rightarrow> Some (take 500 l))"

definition completion_fields :: "wave_env \<Rightarrow> jobj \<Rightarrow> jobj" where
  "completion_fields env row =
     (case py_or (jget row ''published_report'') (jget row ''report'') of
        JStr (c # cs) \<Rightarrow>
          (''report_path'', JStr (c # cs)) # (case map_of (wv_reports env) (c # cs) of
             None \<Rightarrow> []
           | Some text \<Rightarrow> (case first_line text of None \<Rightarrow> [] | Some l \<Rightarrow> [(''summary'', JStr l)]))
      | _ \<Rightarrow> [])
     @ (if jget row ''failure'' = JNull then [] else [(''failure'', jget row ''failure'')])"

text \<open>The evidence about a run: the live row if the run has it, else its last terminal entry in the history.\<close>

definition terminal_of :: "json \<Rightarrow> jobj \<Rightarrow> json list" where
  "terminal_of run_id row =
     filter (\<lambda>v. case v of JObj h \<Rightarrow> jget h ''run_id'' = run_id \<and> row_in WAVE_TERMINAL h | _ \<Rightarrow> False)
       (case jget row ''history'' of JList rows \<Rightarrow> rows | _ \<Rightarrow> [])"

definition run_evidence :: "json \<Rightarrow> jobj \<Rightarrow> jobj" where
  "run_evidence run_id row =
     (if jget row ''run_id'' = run_id then row
      else if terminal_of run_id row = [] then [] else obj_of (last (terminal_of run_id row)))"

text \<open>
  The wait for the end of the runs: each pass looks at every pending result, at most until the deadline.
  A pass is given by its time and what other processes did before it.
\<close>

definition settle_result :: "wave_env \<Rightarrow> jobj \<Rightarrow> super_world \<Rightarrow> (py_error + jobj option) \<times> super_world" where
  "settle_result env res w =
     (case recover_live_supervisor env (text_or env (jget res ''packet_id'') []) w of
        (Inl e, w1) \<Rightarrow> (Inl e, w1)
      | (Inr row, w1) \<Rightarrow>
          (let evidence = run_evidence (jget res ''run_id'') row in
           (Inr (if row_in WAVE_TERMINAL evidence
                 then Some (dict_update (completion_fields env evidence) (dict_set ''status'' (jget evidence ''state'') res))
                 else None), w1)))"

fun settle_pass :: "wave_env \<Rightarrow> (bool \<times> jobj) list \<Rightarrow> super_world \<Rightarrow> (py_error + (bool \<times> jobj) list) \<times> super_world" where
  "settle_pass env [] w = (Inr [], w)"
| "settle_pass env ((pending, res) # rest) w =
     (case (if pending then settle_result env res w else (Inr None, w)) of
        (Inl e, w1) \<Rightarrow> (Inl e, w1)
      | (Inr settled, w1) \<Rightarrow>
          (case settle_pass env rest w1 of
             (Inl e, w2) \<Rightarrow> (Inl e, w2)
           | (Inr rest', w2) \<Rightarrow>
               (Inr ((case settled of None \<Rightarrow> (pending, res) | Some res' \<Rightarrow> (False, res')) # rest'), w2)))"

definition timed_out_result :: "rat \<Rightarrow> bool \<times> jobj \<Rightarrow> jobj" where
  "timed_out_result timeout item =
     (if fst item
      then dict_set ''failure'' (JObj [(''reason'', JStr ''parent_wave_wait_timeout''), (''timeout_seconds'', JFloat timeout)])
        (dict_set ''status'' (JStr ''wait_timeout'') (snd item))
      else snd item)"

fun wait_passes :: "wave_env \<Rightarrow> rat \<Rightarrow> rat \<Rightarrow> (rat \<times> (super_world \<Rightarrow> super_world)) list \<Rightarrow> (bool \<times> jobj) list \<Rightarrow> super_world
    \<Rightarrow> (py_error + jobj list) option \<times> super_world" where
  "wait_passes env timeout deadline [] results w = (if list_ex fst results then (None, w) else (Some (Inr (map snd results)), w))"
| "wait_passes env timeout deadline ((now, others) # passes) results w =
     (if \<not> list_ex fst results then (Some (Inr (map snd results)), w)
      else (case settle_pass env results (others w) of
              (Inl e, w1) \<Rightarrow> (Some (Inl e), w1)
            | (Inr results', w1) \<Rightarrow>
                if list_ex fst results' \<and> deadline \<le> now then (Some (Inr (map (timed_out_result timeout) results')), w1)
                else wait_passes env timeout deadline passes results' w1))"

definition awaited :: "jobj \<Rightarrow> bool" where
  "awaited res \<longleftrightarrow> jget res ''status'' \<in> {JStr ''running'', JStr ''already_active''}
     \<and> truthy (jget res ''packet_id'') \<and> truthy (jget res ''run_id'')"

definition wait_for_terminal :: "wave_env \<Rightarrow> rat \<Rightarrow> rat \<Rightarrow> (rat \<times> (super_world \<Rightarrow> super_world)) list \<Rightarrow> jobj list \<Rightarrow> super_world
    \<Rightarrow> (py_error + jobj list) option \<times> super_world" where
  "wait_for_terminal env began timeout passes results w =
     wait_passes env timeout (began + max 0 timeout) passes (map (\<lambda>r. (awaited r, r)) results) w"

section \<open>Commands\<close>

definition task_key :: "wave_env \<Rightarrow> string \<Rightarrow> string option" where
  "task_key env task_id =
     (if 79 < length task_id then None else Some (take 96 (''adhoc-'' @ wv_digest env @ ''-'' @ task_id)))"

definition execution_pool :: "wave_env \<Rightarrow> string list" where
  "execution_pool env =
     (let raw = py_or (policy_value (de_policy (wv_pins env)) ''models'' ''execution_model_pool'' JNull) (JList []) in
      filter (\<lambda>s. s \<noteq> []) (map (\<lambda>v. py_strip (text_of_json (wv_pins env) v))
        (case raw of JList vs \<Rightarrow> vs | JStr s \<Rightarrow> [JStr s] | _ \<Rightarrow> [])))"

definition execution_pool_model :: "wave_env \<Rightarrow> string \<Rightarrow> nat \<Rightarrow> string option" where
  "execution_pool_model env role slot =
     (if role \<noteq> ''worker'' \<or> execution_pool env = [] then None
      else Some (execution_pool env ! ((slot - 1) mod length (execution_pool env))))"

definition LEAF_RULE :: string where
  "LEAF_RULE = ''You are a leaf LOOP agent. Do not spawn, delegate to, create, or ''
     @ ''message any subagent/thread, and do not call multi-agent tools. ''
     @ ''Complete this bounded packet yourself and return directly to the '' @ ''orchestrator.'' @ [CHR 0x0A]"

definition task_text :: "jobj \<Rightarrow> string \<Rightarrow> string" where
  "task_text task k = (case jget task k of JStr s \<Rightarrow> s | _ \<Rightarrow> [])"

text \<open>The label of the task name is not ASCII, so it is an argument; the view of the run follows if there is one.\<close>

definition task_prompt :: "wave_env \<Rightarrow> jobj \<Rightarrow> string" where
  "task_prompt env task =
     wv_label env @ task_text task ''task_name'' @ [CHR 0x0A] @ LEAF_RULE @ task_text task ''prompt''
     @ (if wv_view env = [] then [] else [CHR 0x0A, CHR 0x0A] @ wv_view env)"

record wave_command =
  wc_packet :: string
  wc_run :: string
  wc_model :: string
  wc_worker :: "string list"
  wc_supervisor :: "string list"

definition worker_command :: "wave_env \<Rightarrow> jobj \<Rightarrow> role_pin \<Rightarrow> string \<Rightarrow> string \<Rightarrow> string \<Rightarrow> string list" where
  "worker_command env task pin codex role report =
     [codex, ''exec'', ''--skip-git-repo-check'', ''--sandbox'', text_or env (jget task ''sandbox'') ''read-only'']
     @ cli_overrides (wv_pins env) pin
     @ [''-c'', ''mcp_servers.ipybox.enabled='' @ (if ipybox_enabled_for (wv_pins env) role task then ''true'' else ''false'')]
     @ (if wv_windows env then [''-c'', ''mcp_servers.node_repl.enabled=false''] else [])
     @ (if jget task ''enable_apps'' = JBool True then []
        else [''-c'', ''features.apps=false'', ''-c'', ''features.plugins=false'', ''-c'', ''features.recommended_plugins=false'',
              ''-c'', ''features.remote_plugin=false''])
     @ [''--json'', ''-o'', report, task_prompt env task]"

definition optional_flag :: "wave_env \<Rightarrow> jobj \<Rightarrow> string \<Rightarrow> string \<Rightarrow> string list" where
  "optional_flag env task flag k = (if truthy (jget task k) then [flag, text_or env (jget task k) []] else [])"

definition build_commands :: "wave_env \<Rightarrow> string \<Rightarrow> nat \<Rightarrow> jobj \<Rightarrow> (dispatch_error + wave_command)" where
  "build_commands env timeout index task =
     (let role = text_or env (jget task ''role'') ''worker'' in
      case resolve_role_pin (wv_pins env) role of
        Inl e \<Rightarrow> Inl (Policy_refused e)
      | Inr pin0 \<Rightarrow>
          (let pin = (case execution_pool_model env role index of None \<Rightarrow> pin0 | Some m \<Rightarrow> pin0\<lparr>pn_model := m\<rparr>) in
           case (task_key env (text_or env (jget task ''task_id'') []), wv_codex env) of
             (Some packet, Some codex) \<Rightarrow>
               (let run_id = packet @ ''-'' @ wv_hex env index;
                    dir = wv_root env @ ''/data/reports/headless-wave/'' @ packet @ ''/'' @ run_id;
                    worker = worker_command env task pin codex role (dir @ ''/last_message.txt'') in
                Inr \<lparr>wc_packet = packet, wc_run = run_id, wc_model = pn_model pin, wc_worker = worker,
                  wc_supervisor = [''python'', wv_root env @ ''/harness/lifecycle_supervisor.py'', ''--data-dir'', wv_root env @ ''/data'',
                      ''--packet'', packet, ''--run-id'', run_id, ''--attempt'', ''0'']
                    @ optional_flag env task ''--parent-session-id'' ''parent_session_id''
                    @ optional_flag env task ''--manifest-id'' ''manifest_id''
                    @ [''--task-name'', take 160 (task_text task ''task_name''), ''--role'', role, ''--model'', pn_model pin,
                       ''--plane'', if wv_windows env then ''Windows CLI'' else ''WSL CLI'', ''--cwd'', wv_resolve env (task_text task ''cwd''),
                       ''--stdout'', dir @ ''/events.jsonl'', ''--stderr'', dir @ ''/stderr.log'', ''--report'', dir @ ''/last_message.txt'',
                       ''--timeout'', timeout, ''--''] @ worker\<rparr>)
           | _ \<Rightarrow> Inl (Refused ''wave_error'')))"

section \<open>The launch\<close>

record wave_args =
  wa_timeout :: rat
  wa_timeout_text :: string
  wa_observe :: rat
  wa_health_every :: nat
  wa_dry_run :: bool
  wa_wait_all :: bool
  wa_detach :: bool

type_synonym wave_io = "(dispatch_error + jobj) \<times> wave_world"

definition task_outcome :: "jobj \<Rightarrow> string \<Rightarrow> jobj \<Rightarrow> jobj" where
  "task_outcome task status kvs = (''task_id'', jget task ''task_id'') # (''status'', JStr status) # kvs"

definition recover :: "wave_env \<Rightarrow> string \<Rightarrow> wave_world \<Rightarrow> (py_error + jobj) \<times> wave_world" where
  "recover env packet w =
     (case recover_live_supervisor env packet (ww_files w) of (r, files) \<Rightarrow> (r, w\<lparr>ww_files := files\<rparr>))"

definition observe_birth :: "wave_env \<Rightarrow> wave_args \<Rightarrow> string \<Rightarrow> string \<Rightarrow> wave_world \<Rightarrow> bool \<times> wave_world" where
  "observe_birth env args packet run_id w =
     (case wv_watch env packet w of (looks, w1) \<Rightarrow> (wait_observed run_id (wv_now env + wa_observe args) None looks, w1))"

text \<open>A generation that is already starting is waited for, not started again.\<close>

definition await_starting :: "wave_env \<Rightarrow> wave_args \<Rightarrow> jobj \<Rightarrow> string \<Rightarrow> jobj \<Rightarrow> wave_world \<Rightarrow> wave_io" where
  "await_starting env args task packet prior w =
     (let prior_run = text_or env (jget prior ''run_id'') [];
          (seen_running, w1) = (if prior_run = [] then (False, w) else observe_birth env args packet prior_run w);
          final = roster_item packet (ww_files w1) in
      (Inr (if seen_running then task_outcome task ''already_active'' [(''packet_id'', JStr packet), (''run_id'', JStr prior_run)]
            else task_outcome task (text_or env (jget final ''state'') ''initializing'')
              [(''packet_id'', JStr packet), (''run_id'', JStr prior_run), (''failure'', jget final ''failure'')]), w1))"

definition health_due :: "wave_args \<Rightarrow> nat \<Rightarrow> bool" where
  "health_due args index \<longleftrightarrow> index = 1 \<or> (index - 1) mod max 1 (wa_health_every args) = 0"

text \<open>The gates before a birth; backoff is one of births only.\<close>

definition birth_gate :: "wave_env \<Rightarrow> wave_args \<Rightarrow> nat \<Rightarrow> jobj \<Rightarrow> jobj \<Rightarrow> string \<Rightarrow> string \<Rightarrow> wave_world \<Rightarrow> dispatch_error + jobj option" where
  "birth_gate env args index task kvs packet model w =
     (case backoff_active (de_health (wv_pins env)) model (wv_now env) (sw_health (ww_files w)) of
        Inl e \<Rightarrow> Inl (Crashed e)
      | Inr True \<Rightarrow> Inr (Some (task_outcome task ''provider_backoff'' (kvs @ [(''model'', JStr model)])))
      | Inr False \<Rightarrow>
          Inr (if health_due args index \<and> \<not> wv_ready env index
               then Some (task_outcome task ''health_blocked'' [(''packet_id'', JStr packet)]) else None))"

definition note_birth :: "string \<Rightarrow> string list \<Rightarrow> wave_world \<Rightarrow> wave_world" where
  "note_birth packet command w = w\<lparr>ww_births := ww_births w @ [(packet, command)]\<rparr>"

text \<open>A packet of the ledger goes through the dispatcher; the birth counts if its new generation is seen running.\<close>

definition dispatch_packet :: "wave_env \<Rightarrow> wave_args \<Rightarrow> jobj \<Rightarrow> string \<Rightarrow> string \<Rightarrow> jobj \<Rightarrow> wave_world \<Rightarrow> wave_io" where
  "dispatch_packet env args task packet role prior w =
     (let prior_run = text_or env (jget prior ''run_id'') [];
          (rc, w1) = wv_dispatch env packet role False (note_birth packet [] w);
          (fresh, w2) = (if rc = 0 then (case wv_watch env packet w1 of
              (looks, w2) \<Rightarrow> (wait_generation_change env prior_run (wv_now env + wa_observe args) [] looks, w2))
            else (roster_item packet (ww_files w1), w1));
          run_id = text_or env (jget fresh ''run_id'') [];
          (seen_running, w3) = (if rc = 0 \<and> run_id \<noteq> [] \<and> run_id \<noteq> prior_run then observe_birth env args packet run_id w2 else (False, w2));
          final = roster_item packet (ww_files w3) in
      (Inr (if seen_running then task_outcome task ''running'' [(''packet_id'', JStr packet), (''run_id'', JStr run_id)]
            else task_outcome task (if rc \<noteq> 0 then ''dispatch_refused'' else text_or env (jget final ''state'') ''unobserved'')
              [(''packet_id'', JStr packet), (''run_id'', JStr run_id), (''failure'', jget final ''failure'')]), w3))"

definition conflict_result :: "jobj \<Rightarrow> string \<Rightarrow> string \<Rightarrow> string \<Rightarrow> jobj \<Rightarrow> wave_env \<Rightarrow> jobj option" where
  "conflict_result task packet role model prior env =
     (if row_in ACTIVE prior \<and> \<not> both_alive env prior
      then Some (task_outcome task ''stale_active_roster'' [(''packet_id'', JStr packet), (''run_id'', jget prior ''run_id'')])
      else if row_in ACTIVE prior \<and> (jget prior ''role'' \<noteq> JStr role \<or> jget prior ''model'' \<noteq> JStr model)
      then Some (task_outcome task ''active_route_conflict'' [(''packet_id'', JStr packet),
        (''observed_role'', jget prior ''role''), (''observed_model'', jget prior ''model'')])
      else if jget prior ''state'' = JStr ''running''
      then Some (task_outcome task ''already_active'' [(''packet_id'', JStr packet), (''run_id'', jget prior ''run_id'')])
      else None)"

definition packet_task :: "wave_env \<Rightarrow> wave_args \<Rightarrow> nat \<Rightarrow> jobj \<Rightarrow> wave_world \<Rightarrow> wave_io" where
  "packet_task env args index task w =
     (let packet = text_or env (jget task ''packet_id'') [];
          role = text_or env (jget task ''role'') ''worker'';
          entry_state = (case map_of (ww_ledger w) packet of Some (JObj e) \<Rightarrow> jget e ''state'' | _ \<Rightarrow> JNull) in
      if entry_state \<noteq> JStr ''DISPATCHABLE''
      then (Inr (task_outcome task ''ledger_state_blocked'' [(''packet_id'', JStr packet), (''ledger_state'', entry_state)]), w)
      else (case resolve_role_pin (wv_pins env) role of
        Inl e \<Rightarrow> (Inl (Policy_refused e), w)
      | Inr pin \<Rightarrow>
          (case recover env packet w of
             (Inl e, w1) \<Rightarrow> (Inl (Crashed e), w1)
           | (Inr prior, w1) \<Rightarrow>
               (case conflict_result task packet role (pn_model pin) prior env of
                  Some r \<Rightarrow> (Inr r, w1)
                | None \<Rightarrow>
                    if jget prior ''state'' = JStr ''starting'' then await_starting env args task packet prior w1
                    else if wa_dry_run args then
                      (case wv_dispatch env packet role True w1 of
                         (rc, w2) \<Rightarrow> (Inr (task_outcome task (if rc = 0 then ''dry_run'' else ''dispatch_refused'')
                           [(''packet_id'', JStr packet), (''role'', JStr role)]), w2))
                    else (case birth_gate env args index task [] packet (pn_model pin) w1 of
                            Inl e \<Rightarrow> (Inl e, w1)
                          | Inr (Some r) \<Rightarrow> (Inr r, w1)
                          | Inr None \<Rightarrow> dispatch_packet env args task packet role prior w1)))))"

text \<open>An ad-hoc task is started under its own supervisor; it is not started again if it completed or runs.\<close>

definition launch_adhoc :: "wave_env \<Rightarrow> wave_args \<Rightarrow> jobj \<Rightarrow> wave_command \<Rightarrow> wave_world \<Rightarrow> wave_io" where
  "launch_adhoc env args task c w =
     (let (pid, w1) = wv_launch env (wc_supervisor c) (note_birth (wc_packet c) (wc_supervisor c) w);
          (seen_running, w2) = observe_birth env args (wc_packet c) (wc_run c) w1;
          final = roster_item (wc_packet c) (ww_files w2) in
      (Inr (if seen_running then task_outcome task ''running'' [(''packet_id'', JStr (wc_packet c)), (''run_id'', JStr (wc_run c)),
              (''supervisor_pid'', JInt pid)]
            else task_outcome task (text_or env (jget final ''state'') ''unobserved'') [(''packet_id'', JStr (wc_packet c)),
              (''run_id'', JStr (wc_run c)), (''supervisor_pid'', JInt pid), (''failure'', jget final ''failure'')]), w2))"

definition adhoc_task :: "wave_env \<Rightarrow> wave_args \<Rightarrow> nat \<Rightarrow> jobj \<Rightarrow> wave_world \<Rightarrow> wave_io" where
  "adhoc_task env args index task w =
     (case build_commands env (wa_timeout_text args) index task of
        Inl e \<Rightarrow> (Inl e, w)
      | Inr c \<Rightarrow>
          (case recover env (wc_packet c) w of
             (Inl e, w1) \<Rightarrow> (Inl (Crashed e), w1)
           | (Inr prior, w1) \<Rightarrow>
               if jget prior ''state'' = JStr ''completed''
               then (Inr (task_outcome task ''already_completed'' [(''packet_id'', JStr (wc_packet c)), (''run_id'', jget prior ''run_id'')]), w1)
               else if jget prior ''state'' = JStr ''running''
               then (Inr (task_outcome task ''already_active'' [(''packet_id'', JStr (wc_packet c)), (''run_id'', jget prior ''run_id'')]), w1)
               else if jget prior ''state'' = JStr ''starting'' then await_starting env args task (wc_packet c) prior w1
               else if wa_dry_run args
               then (Inr (task_outcome task ''dry_run'' [(''packet_id'', JStr (wc_packet c)), (''model'', JStr (wc_model c))]), w1)
               else (case birth_gate env args index task [(''packet_id'', JStr (wc_packet c))] (wc_packet c) (wc_model c) w1 of
                       Inl e \<Rightarrow> (Inl e, w1)
                     | Inr (Some r) \<Rightarrow> (Inr r, w1)
                     | Inr None \<Rightarrow> launch_adhoc env args task c w1)))"

fun run_tasks :: "wave_env \<Rightarrow> wave_args \<Rightarrow> nat \<Rightarrow> jobj list \<Rightarrow> wave_world \<Rightarrow> (dispatch_error + jobj list) \<times> wave_world" where
  "run_tasks env args index [] w = (Inr [], w)"
| "run_tasks env args index (task # tasks) w =
     (case (if jget task ''packet_id'' \<noteq> JNull then packet_task env args index task w else adhoc_task env args index task w) of
        (Inl e, w1) \<Rightarrow> (Inl e, w1)
      | (Inr r, w1) \<Rightarrow>
          (case run_tasks env args (Suc index) tasks w1 of
             (Inl e, w2) \<Rightarrow> (Inl e, w2)
           | (Inr rs, w2) \<Rightarrow> (Inr (r # rs), w2)))"

definition waits :: "wave_args \<Rightarrow> jobj list \<Rightarrow> bool" where
  "waits args tasks \<longleftrightarrow> wa_wait_all args \<or> \<not> wa_detach args \<and> list_ex (\<lambda>t. truthy (jget t ''parent_session_id'')) tasks"

definition GOOD_STATUSES :: "string list" where
  "GOOD_STATUSES = [''running'', ''already_active'', ''already_completed'', ''completed'', ''dry_run'']"

definition wave_exit :: "jobj list \<Rightarrow> int" where
  "wave_exit results = (if list_all (\<lambda>r. jget r ''status'' \<in> JStr ` set GOOD_STATUSES) results then 0 else 3)"

text \<open>\<open>None\<close> while the wave still waits.\<close>

definition run_wave :: "wave_env \<Rightarrow> wave_args \<Rightarrow> json option \<Rightarrow> (rat \<times> (super_world \<Rightarrow> super_world)) list \<Rightarrow> wave_world
    \<Rightarrow> (dispatch_error + int \<times> jobj list) option \<times> wave_world" where
  "run_wave env args content passes w =
     (case load_manifest env content of
        None \<Rightarrow> (Some (Inl (Refused ''wave_error'')), w)
      | Some tasks \<Rightarrow>
          if wa_detach args \<and> wa_wait_all args then (Some (Inl (Refused ''wave_error'')), w)
          else (case run_tasks env args 1 tasks w of
                  (Inl e, w1) \<Rightarrow> (Some (Inl e), w1)
                | (Inr results, w1) \<Rightarrow>
                    if \<not> (waits args tasks \<and> \<not> wa_dry_run args) then (Some (Inr (wave_exit results, results)), w1)
                    else (case wait_for_terminal env (wv_now env) (wa_timeout args + 30) passes results (ww_files w1) of
                            (None, files) \<Rightarrow> (None, w1\<lparr>ww_files := files\<rparr>)
                          | (Some (Inl e), files) \<Rightarrow> (Some (Inl (Crashed e)), w1\<lparr>ww_files := files\<rparr>)
                          | (Some (Inr rs), files) \<Rightarrow> (Some (Inr (wave_exit rs, rs)), w1\<lparr>ww_files := files\<rparr>))))"

end
