(* ===== verification/Wave_Properties.thy ===== *)
theory Wave_Properties
  imports Wave Supervisor_Properties Dispatch_Properties
begin

text \<open>
  What a wave may rely on and what it does: the outcome of a run is found after later generations of its
  packet, every birth passes the gates, and a result that says running was seen running.
\<close>

section \<open>Outcomes across generations\<close>

text \<open>The last terminal entry about a run in the history of a row.\<close>

definition told :: "string \<Rightarrow> string \<Rightarrow> jobj \<Rightarrow> bool" where
  "told r t item \<longleftrightarrow> terminal_of (JStr r) item \<noteq> [] \<and> jget (obj_of (last (terminal_of (JStr r) item))) ''state'' = JStr t"

lemma terminal_of_hist: "terminal_of run_id row =
    filter (\<lambda>v. case v of JObj h \<Rightarrow> jget h ''run_id'' = run_id \<and> row_in WAVE_TERMINAL h | _ \<Rightarrow> False) (hist_rows row)"
  by (simp add: terminal_of_def hist_rows_def)

lemma update_row_get:
  assumes "update_row c item = Inr (Some item')" and "sc_run c \<noteq> []" and "clean_fields (sc_fields c)" and "wf_dict (sc_fields c)"
  shows "jget item' ''run_id'' = JStr (sc_run c)"
    and "\<exists>gen. set gen \<subseteq> {JObj [(''ts'', JFloat (sc_time c)), (''state'', JStr ''generation_started''),
            (''run_id'', JStr (sc_run c)), (''attempt'', JInt (sc_attempt c))]}
      \<and> (\<exists>mid. jget mid ''state'' = jget item ''state'' \<and> hist_rows item' = hist_rows item @ gen
          @ (let state = jget (sc_fields c) ''state'' in
             if truthy state \<and> \<not> py_eq state (jget item ''state'') then [JObj (history_row c state mid)] else []))"
    and "dict_has ''state'' (sc_fields c) \<Longrightarrow> jget item' ''state'' = jget (sc_fields c) ''state''"
proof -
  obtain item1 item2 where gen: "enter_generation c item = Inr (Some item1)" and st: "enter_state c item1 = Inr item2"
    and item': "item' = dict_set ''updated_at'' (JFloat (sc_time c)) (dict_update (sc_fields c) item2)"
    using assms(1) by (auto simp: update_row_def split: sum.splits option.splits)
  have absent: "\<not> dict_has ''run_id'' (sc_fields c)" "\<not> dict_has ''history'' (sc_fields c)"
    using assms(3) by (auto simp: clean_fields_def dict_has_def map_of_eq_None_iff)
  note upd = jget_update [OF assms(4), of item2]
  show "jget item' ''run_id'' = JStr (sc_run c)"
    using enter_generation_get(1) [OF gen assms(2)] enter_state_get(1) [OF st, of "''run_id''"] absent by (simp add: item' upd)
  show "dict_has ''state'' (sc_fields c) \<Longrightarrow> jget item' ''state'' = jget (sc_fields c) ''state''"
    by (simp add: item' upd)
  have hist: "hist_rows item' = hist_rows item2" using absent by (simp add: hist_rows_def item' upd)
  have state: "jget item1 ''state'' = jget item ''state''" by (rule enter_generation_get(2) [OF gen])
  let ?row = "JObj [(''ts'', JFloat (sc_time c)), (''state'', JStr ''generation_started''),
            (''run_id'', JStr (sc_run c)), (''attempt'', JInt (sc_attempt c))]"
  have "\<exists>gen. set gen \<subseteq> {?row} \<and> hist_rows item1 = hist_rows item @ gen"
    using enter_generation_get(3) [OF gen] assms(2) by (elim disjE) (auto intro: exI [of _ "[]"] exI [of _ "[?row]"])
  then show "\<exists>gen. set gen \<subseteq> {?row} \<and> (\<exists>mid. jget mid ''state'' = jget item ''state'' \<and> hist_rows item' = hist_rows item @ gen
          @ (let state = jget (sc_fields c) ''state'' in
             if truthy state \<and> \<not> py_eq state (jget item ''state'') then [JObj (history_row c state mid)] else []))"
    using enter_state_get(2) [OF st] state hist by (auto intro!: exI [of _ item1])
qed

lemma history_row_get [simp]:
  "sc_run c \<noteq> [] \<Longrightarrow> jget (history_row c state item) ''run_id'' = JStr (sc_run c)"
  "jget (history_row c state item) ''state'' = state"
  by (simp_all add: history_row_def)

text \<open>Another run's updates say nothing about this one.\<close>

lemma told_by_others:
  assumes "update_row c item = Inr (Some item')" and "sc_run c \<noteq> []" and "clean_fields (sc_fields c)" and "wf_dict (sc_fields c)"
    and "sc_run c \<noteq> r"
  shows "terminal_of (JStr r) item' = terminal_of (JStr r) item" and "jget item' ''run_id'' \<noteq> JStr r"
proof -
  note get = update_row_get [OF assms(1-4)]
  show "jget item' ''run_id'' \<noteq> JStr r" using get(1) assms(5) by simp
  from get(2) obtain gen mid where "set gen \<subseteq> {JObj [(''ts'', JFloat (sc_time c)), (''state'', JStr ''generation_started''),
            (''run_id'', JStr (sc_run c)), (''attempt'', JInt (sc_attempt c))]}"
    and hist: "hist_rows item' = hist_rows item @ gen @ (let state = jget (sc_fields c) ''state'' in
        if truthy state \<and> \<not> py_eq state (jget item ''state'') then [JObj (history_row c state mid)] else [])" by blast
  then have "filter (\<lambda>v. case v of JObj h \<Rightarrow> jget h ''run_id'' = JStr r \<and> row_in WAVE_TERMINAL h | _ \<Rightarrow> False) gen = []"
    using assms(5) by (auto simp: filter_empty_conv)
  then show "terminal_of (JStr r) item' = terminal_of (JStr r) item"
    using assms(2,5) by (simp add: terminal_of_hist hist Let_def)
qed

text \<open>The update that makes a run terminal tells so.\<close>

lemma told_by_end:
  assumes "update_row c item = Inr (Some item')" and "sc_run c \<noteq> []" and "clean_fields (sc_fields c)" and "wf_dict (sc_fields c)"
    and "map_of (sc_fields c) ''state'' = Some (JStr t)" and "t \<in> set EXEC_TERMINAL_STATES" and "jget item ''state'' \<noteq> JStr t"
  shows "told (sc_run c) t item'" and "jget item' ''run_id'' = JStr (sc_run c)" and "jget item' ''state'' = JStr t"
proof -
  note get = update_row_get [OF assms(1-4)]
  have state: "jget (sc_fields c) ''state'' = JStr t" using assms(5) by (simp add: jget_def dict_get_or_def del: map_of_eq_Some_iff)
  show "jget item' ''run_id'' = JStr (sc_run c)" by (rule get(1))
  show "jget item' ''state'' = JStr t" using get(3) assms(5) state by (simp add: dict_has_def del: map_of_eq_Some_iff)
  have "list_all (\<lambda>t. t \<noteq> [] \<and> t \<in> set WAVE_TERMINAL) EXEC_TERMINAL_STATES" by code_simp
  then have "truthy (JStr t)" "t \<in> set WAVE_TERMINAL" using assms(6) by (auto simp: list_all_iff)
  note facts = this
  from get(2) obtain gen mid where hist: "hist_rows item' = hist_rows item @ gen @ (let state = jget (sc_fields c) ''state'' in
        if truthy state \<and> \<not> py_eq state (jget item ''state'') then [JObj (history_row c state mid)] else [])" by blast
  have "\<not> py_eq (JStr t) (jget item ''state'')" using assms(7) by simp
  then have "hist_rows item' = (hist_rows item @ gen) @ [JObj (history_row c (JStr t) mid)]"
    using facts(1) by (simp only: hist state Let_def append_assoc) simp
  then show "told (sc_run c) t item'"
    using assms(2) facts(2) by (simp add: told_def terminal_of_hist row_in_def)
qed

definition sound_call :: "store_call \<Rightarrow> bool" where
  "sound_call c \<longleftrightarrow> sc_run c \<noteq> [] \<and> clean_fields (sc_fields c) \<and> wf_dict (sc_fields c)"

definition store_calls :: "store_call list \<Rightarrow> super_world \<Rightarrow> super_world" where
  "store_calls cs w = fold (\<lambda>c w. snd (store_update c w)) cs w"

text \<open>The row of the packet tells how the run ended, and is not the row of the run in another state.\<close>

definition tells :: "string \<Rightarrow> string \<Rightarrow> string \<Rightarrow> super_world \<Rightarrow> bool" where
  "tells p r t w \<longleftrightarrow> (\<exists>jobs item. sw_jobs w = Some jobs \<and> map_of jobs p = Some item \<and> told r t item
     \<and> is_str (jget item ''run_id'') \<and> (jget item ''run_id'' = JStr r \<longrightarrow> jget item ''state'' = JStr t))"

lemma tells_item:
  assumes "tells p r t w"
  obtains item where "roster_item p w = item" "told r t item" "is_str (jget item ''run_id'')" "jget item ''run_id'' = JStr r \<longrightarrow> jget item ''state'' = JStr t"
  using assms by (auto simp: tells_def roster_item_def dict_get_or_def simp del: map_of_eq_Some_iff)

lemma store_update_tells:
  assumes "tells p r t w" and "sound_call c" and "sc_packet c = p \<longrightarrow> sc_run c \<noteq> r"
  shows "tells p r t (snd (store_update c w))"
proof -
  from assms(1) obtain jobs item where w: "sw_jobs w = Some jobs" "map_of jobs p = Some item" "told r t item"
    "is_str (jget item ''run_id'')" "jget item ''run_id'' = JStr r \<longrightarrow> jget item ''state'' = JStr t" unfolding tells_def by blast
  show ?thesis
  proof (cases "\<exists>new. update_row c (job_row (sc_packet c) jobs) = Inr (Some new)")
    case False
    then have "snd (store_update c w) = w" by (auto simp: store_update_def w(1) split: sum.splits option.splits)
    then show ?thesis using assms(1) by simp
  next
    case True
    then obtain new where new: "update_row c (job_row (sc_packet c) jobs) = Inr (Some new)" by blast
    then have w': "snd (store_update c w) = w\<lparr>sw_jobs := Some (dict_set (sc_packet c) new jobs)\<rparr>"
      by (simp add: store_update_def w(1))
    show ?thesis
    proof (cases "sc_packet c = p")
      case False
      then show ?thesis using w by (simp add: w' tells_def del: map_of_eq_Some_iff)
    next
      case True
      then have "job_row (sc_packet c) jobs = item" using w(2) by (simp add: job_row_def dict_get_or_def del: map_of_eq_Some_iff)
      then show ?thesis using told_by_others [of c item new r] new assms(2,3) True w(3)
          update_row_get(1) [of c item new]
        by (simp add: w' tells_def sound_call_def told_def)
    qed
  qed
qed

lemma store_calls_tell:
  "tells p r t w \<Longrightarrow> \<forall>c \<in> set cs. sound_call c \<and> (sc_packet c = p \<longrightarrow> sc_run c \<noteq> r) \<Longrightarrow> tells p r t (store_calls cs w)"
  unfolding store_calls_def by (induction cs arbitrary: w) (simp_all add: store_update_tells)

lemma tells_evidence:
  assumes "told r t item" and "jget item ''run_id'' = JStr r \<longrightarrow> jget item ''state'' = JStr t"
  shows "jget (run_evidence (JStr r) item) ''state'' = JStr t"
  using assms by (auto simp: run_evidence_def told_def)

text \<open>What the wave does to a row before it looks for the evidence is an update of the run the row has.\<close>

lemma recover_tells:
  assumes "tells p r t w" and "recover_live_supervisor env p w = (Inr row, w')"
    and "jget (roster_item p w) ''run_id'' = JStr r \<longrightarrow> t \<noteq> ''lost'' \<and> \<not> both_alive env (roster_item p w)"
    and "r \<noteq> []"
  shows "told r t row \<and> (jget row ''run_id'' = JStr r \<longrightarrow> jget row ''state'' = JStr t)"
proof -
  obtain item where item: "roster_item p w = item" "told r t item" "jget item ''run_id'' = JStr r \<longrightarrow> jget item ''state'' = JStr t"
    and named: "is_str (jget item ''run_id'')"
    using assms(1) by (rule tells_item)
  have moved: "told r t row \<and> (jget row ''run_id'' = JStr r \<longrightarrow> jget row ''state'' = JStr t)"
    if "update_from env p item kvs w = (Inr row, w')" "clean_fields kvs" "wf_dict kvs" "jget item ''run_id'' \<noteq> JStr r" for kvs
  proof -
    from that(1) obtain attempt where call: "store_update \<lparr>sc_time = wv_now env, sc_packet = p,
        sc_run = text_or env (jget item ''run_id'') [], sc_attempt = attempt, sc_fields = kvs\<rparr> w = (Inr row, w')"
      by (auto simp: update_from_def split: sum.splits)
    let ?c = "\<lparr>sc_time = wv_now env, sc_packet = p, sc_run = text_or env (jget item ''run_id'') [], sc_attempt = attempt, sc_fields = kvs\<rparr>"
    from assms(1) obtain jobs where jobs: "sw_jobs w = Some jobs" "job_row p jobs = item"
      using item(1) by (auto simp: tells_def roster_item_def job_row_def dict_get_or_def simp del: map_of_eq_Some_iff)
    have "row = item \<or> update_row ?c item = Inr (Some row)"
      using call jobs by (auto simp: store_update_def split: sum.splits option.splits)
    then show ?thesis
    proof
      assume "row = item"
      then show ?thesis using item by simp
    next
      assume upd: "update_row ?c item = Inr (Some row)"
      show ?thesis
      proof (cases "text_or env (jget item ''run_id'') [] = []")
        case True
        then have "enter_generation ?c item = Inr (Some item)" by (simp add: enter_generation_def)
        then obtain item2 where st: "enter_state ?c item = Inr item2"
          "row = dict_set ''updated_at'' (JFloat (wv_now env)) (dict_update kvs item2)"
          using upd by (auto simp: update_row_def split: sum.splits)
        have absent: "\<not> dict_has ''run_id'' kvs" "\<not> dict_has ''history'' kvs"
          using that(2) by (auto simp: clean_fields_def dict_has_def map_of_eq_None_iff)
        have run: "jget row ''run_id'' = jget item ''run_id''"
          using st(2) enter_state_get(1) [OF st(1), of "''run_id''"] absent jget_update [OF that(3)] by simp
        have "hist_rows row = hist_rows item2" using st(2) absent jget_update [OF that(3)] by (simp add: hist_rows_def)
        then have "terminal_of (JStr r) row = terminal_of (JStr r) item"
          using enter_state_get(2) [OF st(1)] that(4) True
          by (simp add: terminal_of_hist history_row_def Let_def)
        then show ?thesis using item run that(4) by (simp add: told_def)
      next
        case False
        moreover have "text_or env (jget item ''run_id'') [] \<noteq> r"
          using named assms(4) that(4) by (cases "jget item ''run_id''") (auto simp: text_or_def text_of_json_def)
        ultimately show ?thesis using told_by_others [OF upd, of r] that(2,3) item(2) by (simp add: told_def)
      qed
    qed
  qed
  show ?thesis
  proof (cases "jget item ''run_id'' = JStr r")
    case True
    then have "row = item" using assms(2,3) item(1,3) by (auto simp: recover_live_supervisor_def Let_def split: if_splits)
    then show ?thesis using item by simp
  next
    case False
    let ?lost = "[(''state'', JStr ''completed''), (''recovered_by'', JStr ''headless_wave_completed_report'')]"
    let ?live = "[(''state'', JStr ''running''), (''heartbeat_at'', JFloat (wv_now env)), (''recovered_by'', JStr ''headless_wave'')]"
    from assms(2) have "update_from env p item ?lost w = (Inr row, w') \<or> update_from env p item ?live w = (Inr row, w') \<or> row = item"
      using item(1) by (auto simp: recover_live_supervisor_def Let_def split: if_splits)
    then show ?thesis using moved [of ?lost] moved [of ?live] False item by (auto simp: clean_fields_def)
  qed
qed

text \<open>Claim C12. The outcome of a run reaches the wave that waits for it. Once the store has recorded a terminal state of a
  run, other runs may update the roster in any number and take over the packet: the next look of the
  wave reports this run in this state, provided its processes are gone if it still has the row.\<close>

theorem outcome_survives_generations:
  assumes "store_update c w = (Inr item, w0)" and "jget item ''run_id'' = JStr (sc_run c)" and "sound_call c"
    and "map_of (sc_fields c) ''state'' = Some (JStr t)" and "t \<in> set EXEC_TERMINAL_STATES"
    and "jget (roster_item (sc_packet c) w) ''state'' \<noteq> JStr t"
    and "\<forall>d \<in> set cs. sound_call d \<and> (sc_packet d = sc_packet c \<longrightarrow> sc_run d \<noteq> sc_run c)"
    and "jget res ''run_id'' = JStr (sc_run c)" and "jget res ''packet_id'' = JStr (sc_packet c)"
    and "settle_result env res (store_calls cs w0) = (Inr x, w')" and "sc_packet c \<noteq> []"
    and "jget (roster_item (sc_packet c) (store_calls cs w0)) ''run_id'' = JStr (sc_run c)
      \<longrightarrow> \<not> both_alive env (roster_item (sc_packet c) (store_calls cs w0))"
  shows "\<exists>res'. x = Some res' \<and> jget res' ''status'' = JStr t"
proof -
  let ?p = "sc_packet c" and ?r = "sc_run c" and ?w = "store_calls cs w0"
  from assms(1) obtain jobs where jobs: "sw_jobs w = Some jobs" by (auto simp: store_update_def split: option.splits)
  have upd: "update_row c (job_row ?p jobs) = Inr (Some item)" and w0: "w0 = w\<lparr>sw_jobs := Some (dict_set ?p item jobs)\<rparr>"
    using assms(1,2) by (auto simp: store_update_def jobs update_row_def enter_generation_def split: sum.splits option.splits if_splits)
  have "jget (job_row ?p jobs) ''state'' \<noteq> JStr t"
    using assms(6) by (cases "map_of jobs ?p") (auto simp: job_row_def roster_item_def jobs dict_get_or_def fresh_row_def
        simp del: map_of_eq_Some_iff)
  then have "tells ?p ?r t w0"
    using told_by_end [OF upd] assms(3-5) by (simp add: w0 tells_def sound_call_def)
  then have tells: "tells ?p ?r t ?w" using assms(7) by (rule store_calls_tell)
  have id: "text_or env (jget res ''packet_id'') [] = ?p" using assms(9,11) by (simp add: text_or_def text_of_json_def)
  obtain row where row: "recover_live_supervisor env ?p ?w = (Inr row, w')"
    and x: "x = (if row_in WAVE_TERMINAL (run_evidence (JStr ?r) row)
        then Some (dict_update (completion_fields env (run_evidence (JStr ?r) row))
          (dict_set ''status'' (jget (run_evidence (JStr ?r) row) ''state'') res)) else None)"
    using assms(10) by (auto simp: settle_result_def id assms(8) Let_def split: prod.splits sum.splits)
  have list: "list_all (\<lambda>s. s \<in> set WAVE_TERMINAL \<and> s \<noteq> ''lost'') EXEC_TERMINAL_STATES" by code_simp
  then have t: "t \<in> set WAVE_TERMINAL" "t \<noteq> ''lost''" using assms(5) by (auto simp: list_all_iff)
  have "?r \<noteq> []" using assms(3) by (simp add: sound_call_def)
  from recover_tells [OF tells row _ this] have "told ?r t row \<and> (jget row ''run_id'' = JStr ?r \<longrightarrow> jget row ''state'' = JStr t)"
    using assms(12) t(2) by blast
  then have state: "jget (run_evidence (JStr ?r) row) ''state'' = JStr t" using tells_evidence by blast
  then have "x = Some (dict_update (completion_fields env (run_evidence (JStr ?r) row)) (dict_set ''status'' (JStr t) res))"
    using t(1) by (simp add: x row_in_def)
  moreover have "''status'' \<notin> fst ` set (completion_fields env e)" for e
    by (auto simp: completion_fields_def split: json.splits list.splits option.splits if_splits)
  ultimately show ?thesis by (simp add: jget_dict_update_other)
qed

text \<open>What is lost. If the next generation starts before the run has recorded its end, the store refuses the record, and the
  wave never finds it.\<close>

definition demo_wave_env :: wave_env where
  "demo_wave_env = \<lparr>wv_pins = demo_dispatch_env, wv_resolve = id, wv_casefold = id, wv_digest = ''d'', wv_hex = (\<lambda>n. ''h''),
     wv_codex = Some ''codex'', wv_label = [], wv_view = [], wv_root = ''/r'', wv_windows = False, wv_now = 0, wv_proc = (\<lambda>n. None),
     wv_reports = [], wv_ready = (\<lambda>n. True), wv_dispatch = (\<lambda>p r d w. (0, w)), wv_launch = (\<lambda>c w. (7, w)),
     wv_watch = (\<lambda>p w. ([], w))\<rparr>"

definition demo_call :: "string \<Rightarrow> rat \<Rightarrow> jobj \<Rightarrow> store_call" where
  "demo_call r now kvs = \<lparr>sc_time = now, sc_packet = ''k'', sc_run = r, sc_attempt = 0, sc_fields = kvs\<rparr>"

definition demo_start_call :: "string \<Rightarrow> rat \<Rightarrow> store_call" where
  "demo_start_call r now = demo_call r now [(''state'', JStr ''starting''), (''started_at'', JFloat now)]"

definition demo_end_call :: store_call where
  "demo_end_call = demo_call ''r1'' 2 [(''state'', JStr ''failed''), (''exit_code'', JInt 3)]"

definition demo_result :: jobj where
  "demo_result = [(''status'', JStr ''running''), (''packet_id'', JStr ''k''), (''run_id'', JStr ''r1'')]"

definition demo_roster :: super_world where
  "demo_roster = store_calls [demo_start_call ''r1'' 1] demo_super_world"

lemma demo_roster_facts:
  "(case fst (store_update demo_end_call demo_roster) of Inr item \<Rightarrow> jget item ''run_id'' = JStr ''r1'' | Inl e \<Rightarrow> False)"
  "jget (roster_item ''k'' demo_roster) ''state'' \<noteq> JStr ''failed''"
  "jget (roster_item ''k'' (store_calls [demo_start_call ''r2'' 3] (snd (store_update demo_end_call demo_roster)))) ''run_id'' = JStr ''r2''"
  "(case fst (settle_result demo_wave_env demo_result (store_calls [demo_start_call ''r2'' 3] (snd (store_update demo_end_call demo_roster)))) of
      Inr x \<Rightarrow> True | Inl e \<Rightarrow> False)"
  by code_simp+

theorem outcome_survives_generations_witness:
  "\<exists>x w' res'. settle_result demo_wave_env demo_result
      (store_calls [demo_start_call ''r2'' 3] (snd (store_update demo_end_call demo_roster))) = (Inr (Some res'), w')
    \<and> jget res' ''status'' = JStr ''failed''"
proof -
  obtain item where first: "store_update demo_end_call demo_roster = (Inr item, snd (store_update demo_end_call demo_roster))"
    and run: "jget item ''run_id'' = JStr (sc_run demo_end_call)"
    using demo_roster_facts(1) by (cases "store_update demo_end_call demo_roster")
      (auto simp: demo_end_call_def demo_call_def split: sum.splits)
  let ?w = "store_calls [demo_start_call ''r2'' 3] (snd (store_update demo_end_call demo_roster))"
  obtain x w' where settled: "settle_result demo_wave_env demo_result ?w = (Inr x, w')"
    using demo_roster_facts(4) by (cases "settle_result demo_wave_env demo_result ?w") (auto split: sum.splits)
  have "sound_call demo_end_call" "map_of (sc_fields demo_end_call) ''state'' = Some (JStr ''failed'')"
    "''failed'' \<in> set EXEC_TERMINAL_STATES" "jget (roster_item (sc_packet demo_end_call) demo_roster) ''state'' \<noteq> JStr ''failed''"
    "\<forall>d \<in> set [demo_start_call ''r2'' 3]. sound_call d \<and> (sc_packet d = sc_packet demo_end_call \<longrightarrow> sc_run d \<noteq> sc_run demo_end_call)"
    "jget demo_result ''run_id'' = JStr (sc_run demo_end_call)" "jget demo_result ''packet_id'' = JStr (sc_packet demo_end_call)"
    using demo_roster_facts(2)
    by (simp_all add: demo_end_call_def demo_start_call_def demo_call_def sound_call_def clean_fields_def demo_result_def EXEC_TERMINAL_STATES_def)
  from outcome_survives_generations [OF first run this settled] demo_roster_facts(3)
  show ?thesis using settled by (auto simp: demo_end_call_def demo_call_def)
qed

lemma superseded_end_is_lost:
  "jget (roster_item ''k'' (store_calls [demo_start_call ''r2'' 3, demo_end_call] demo_roster)) ''run_id'' = JStr ''r2''"
  "terminal_of (JStr ''r1'') (roster_item ''k'' (store_calls [demo_start_call ''r2'' 3, demo_end_call] demo_roster)) = []"
  by code_simp+

section \<open>Births\<close>

text \<open>The dispatcher, the start of a supervisor and the waits leave the list of births alone.\<close>

definition leaves_births :: "wave_env \<Rightarrow> bool" where
  "leaves_births env \<longleftrightarrow> (\<forall>p r d w. ww_births (snd (wv_dispatch env p r d w)) = ww_births w)
     \<and> (\<forall>c w. ww_births (snd (wv_launch env c w)) = ww_births w) \<and> (\<forall>p w. ww_births (snd (wv_watch env p w)) = ww_births w)"

text \<open>What holds when a task of the wave gives birth, \<open>v\<close> being the state at its turn.\<close>

definition gated :: "wave_env \<Rightarrow> wave_args \<Rightarrow> nat \<Rightarrow> jobj \<Rightarrow> wave_world \<Rightarrow> string \<times> string list \<Rightarrow> bool" where
  "gated env args index task v birth \<longleftrightarrow>
     (\<exists>prior v1 model. recover env (fst birth) v = (Inr prior, v1) \<and> \<not> row_in ACTIVE prior
        \<and> backoff_active (de_health (wv_pins env)) model (wv_now env) (sw_health (ww_files v1)) = Inr False
        \<and> (health_due args index \<longrightarrow> wv_ready env index)
        \<and> (if jget task ''packet_id'' \<noteq> JNull
           then fst birth = text_or env (jget task ''packet_id'') []
             \<and> (\<exists>e. map_of (ww_ledger v) (fst birth) = Some (JObj e) \<and> jget e ''state'' = JStr ''DISPATCHABLE'')
             \<and> (\<exists>pin. resolve_role_pin (wv_pins env) (text_or env (jget task ''role'') ''worker'') = Inr pin \<and> model = pn_model pin)
           else (\<exists>c. build_commands env (wa_timeout_text args) index task = Inr c \<and> birth = (wc_packet c, wc_supervisor c)
             \<and> model = wc_model c \<and> jget prior ''state'' \<noteq> JStr ''completed'')))"

lemma recover_births: "ww_births (snd (recover env p w)) = ww_births w"
  by (simp add: recover_def split: prod.splits)

lemma observe_births: "leaves_births env \<Longrightarrow> ww_births (snd (observe_birth env args p r w)) = ww_births w"
  by (auto simp: observe_birth_def leaves_births_def split: prod.splits dest: spec [of _ p])
     (metis snd_conv)

lemma await_births: "leaves_births env \<Longrightarrow> ww_births (snd (await_starting env args task p prior w)) = ww_births w"
  using observe_births [of env args p "text_or env (jget prior ''run_id'') []" w]
  by (auto simp: await_starting_def Let_def split: prod.splits)

lemma gate_open:
  "birth_gate env args index task kvs p model w = Inr None \<Longrightarrow>
    backoff_active (de_health (wv_pins env)) model (wv_now env) (sw_health (ww_files w)) = Inr False
    \<and> (health_due args index \<longrightarrow> wv_ready env index)"
  by (auto simp: birth_gate_def split: sum.splits bool.splits if_splits)

lemma dispatch_births:
  assumes "leaves_births env"
  shows "ww_births (snd (dispatch_packet env args task p role prior w)) = ww_births w @ [(p, [])]"
proof -
  obtain rc w1 where d: "wv_dispatch env p role False (note_birth p [] w) = (rc, w1)"
    by (cases "wv_dispatch env p role False (note_birth p [] w)")
  have "ww_births (snd (wv_dispatch env p role False (note_birth p [] w))) = ww_births (note_birth p [] w)"
    using assms unfolding leaves_births_def by blast
  then have w1: "ww_births w1 = ww_births w @ [(p, [])]" by (simp only: d snd_conv) (simp add: note_birth_def)
  obtain fresh w2 where f: "(if rc = 0 then (case wv_watch env p w1 of
              (looks, w2) \<Rightarrow> (wait_generation_change env (text_or env (jget prior ''run_id'') []) (wv_now env + wa_observe args) [] looks, w2))
            else (roster_item p (ww_files w1), w1)) = (fresh, w2)" by fastforce
  have w2: "ww_births w2 = ww_births w1"
    using f assms unfolding leaves_births_def by (auto split: if_splits prod.splits) (metis snd_conv)
  show ?thesis
    using observe_births [OF assms, of args p "text_or env (jget fresh ''run_id'') []" w2] w1 w2
    by (auto simp: dispatch_packet_def Let_def d f split: prod.splits if_splits)
qed

lemma launch_births:
  assumes "leaves_births env"
  shows "ww_births (snd (launch_adhoc env args task c w)) = ww_births w @ [(wc_packet c, wc_supervisor c)]"
proof -
  obtain pid w1 where d: "wv_launch env (wc_supervisor c) (note_birth (wc_packet c) (wc_supervisor c) w) = (pid, w1)"
    by (cases "wv_launch env (wc_supervisor c) (note_birth (wc_packet c) (wc_supervisor c) w)")
  have "ww_births (snd (wv_launch env (wc_supervisor c) (note_birth (wc_packet c) (wc_supervisor c) w)))
      = ww_births (note_birth (wc_packet c) (wc_supervisor c) w)" using assms unfolding leaves_births_def by blast
  then have "ww_births w1 = ww_births w @ [(wc_packet c, wc_supervisor c)]"
    by (simp only: d snd_conv) (simp add: note_birth_def)
  then show ?thesis using observe_births [OF assms, of args "wc_packet c" "wc_run c" w1]
    by (auto simp: launch_adhoc_def Let_def d split: prod.splits)
qed

lemma packet_task_births:
  assumes "leaves_births env" and "packet_task env args index task w = (r, w')" and "jget task ''packet_id'' \<noteq> JNull"
  shows "ww_births w' = ww_births w
    \<or> \<not> wa_dry_run args \<and> (\<exists>birth. ww_births w' = ww_births w @ [birth] \<and> gated env args index task w birth)"
proof -
  define p where "p = text_or env (jget task ''packet_id'') []"
  define role where "role = text_or env (jget task ''role'') ''worker''"
  define st where "st = (case map_of (ww_ledger w) p of Some (JObj e) \<Rightarrow> jget e ''state'' | _ \<Rightarrow> JNull)"
  note body = assms(2) [unfolded packet_task_def Let_def, folded p_def, folded role_def st_def]
  show ?thesis
  proof (cases "st = JStr ''DISPATCHABLE''")
    case blocked: False
    then show ?thesis using body by auto
  next
    case dispatchable: True
    then obtain e where e: "map_of (ww_ledger w) p = Some (JObj e)" "jget e ''state'' = JStr ''DISPATCHABLE''"
      by (auto simp: st_def split: option.splits json.splits simp del: map_of_eq_Some_iff)
    show ?thesis
    proof (cases "resolve_role_pin (wv_pins env) role")
      case (Inl x)
      then show ?thesis using body dispatchable by auto
    next
      case pin: (Inr pin)
      obtain x w1 where rec: "recover env p w = (x, w1)" by (cases "recover env p w")
      have kept: "ww_births w1 = ww_births w" using recover_births [of env p w] by (simp add: rec)
      show ?thesis
      proof (cases x)
        case (Inl y)
        then show ?thesis using body dispatchable pin rec kept by auto
      next
        case prior: (Inr prior)
        show ?thesis
        proof (cases "conflict_result task p role (pn_model pin) prior env")
          case (Some y)
          then show ?thesis using body dispatchable pin rec kept prior by auto
        next
          case None
          then have "jget prior ''state'' \<noteq> JStr ''running''" by (auto simp: conflict_result_def split: if_splits)
          then have inactive: "jget prior ''state'' \<noteq> JStr ''starting'' \<Longrightarrow> \<not> row_in ACTIVE prior"
            by (simp add: row_in_def ACTIVE_def)
          show ?thesis
          proof (cases "jget prior ''state'' = JStr ''starting''")
            case True
            then have "(r, w') = await_starting env args task p prior w1" using body dispatchable pin rec prior None by simp
            then show ?thesis using await_births [OF assms(1), of args task p prior w1] kept by (metis snd_conv)
          next
            case waiting: False
            show ?thesis
            proof (cases "wa_dry_run args")
              case True
              then have "w' = snd (wv_dispatch env p role True w1)"
                using body dispatchable pin rec prior None waiting by (auto split: prod.splits)
              then show ?thesis using assms(1) kept by (auto simp: leaves_births_def)
            next
              case wet: False
              show ?thesis
              proof (cases "birth_gate env args index task [] p (pn_model pin) w1 = Inr None")
                case False
                then have "w' = w1" using body dispatchable pin rec prior None waiting wet by (auto split: sum.splits option.splits)
                then show ?thesis using kept by simp
              next
                case True
                then have "(r, w') = dispatch_packet env args task p role prior w1"
                  using body dispatchable pin rec prior None waiting wet by simp
                then have "ww_births w' = ww_births w @ [(p, [])]"
                  using dispatch_births [OF assms(1), of args task p role prior w1] kept by (metis snd_conv)
                moreover have "gated env args index task w (p, [])"
                  using assms(3) rec prior inactive [OF waiting] gate_open [OF True] e pin
                  by (simp add: gated_def p_def [symmetric] role_def [symmetric] del: map_of_eq_Some_iff)
                ultimately show ?thesis using wet by blast
              qed
            qed
          qed
        qed
      qed
    qed
  qed
qed

lemma adhoc_task_births:
  assumes "leaves_births env" and "adhoc_task env args index task w = (r, w')" and "jget task ''packet_id'' = JNull"
  shows "ww_births w' = ww_births w
    \<or> \<not> wa_dry_run args \<and> (\<exists>birth. ww_births w' = ww_births w @ [birth] \<and> gated env args index task w birth)"
proof -
  note run = assms(2)
  show ?thesis
  proof (cases "build_commands env (wa_timeout_text args) index task")
    case (Inl e)
    then show ?thesis using run by (auto simp: adhoc_task_def)
  next
    case c: (Inr c)
    obtain x w1 where rec: "recover env (wc_packet c) w = (x, w1)" by (cases "recover env (wc_packet c) w")
    have kept: "ww_births w1 = ww_births w" using recover_births [of env "wc_packet c" w] by (simp add: rec)
    show ?thesis
    proof (cases x)
      case (Inl y)
      then show ?thesis using run c rec kept by (auto simp: adhoc_task_def)
    next
      case prior: (Inr prior)
      show ?thesis
      proof (cases "jget prior ''state'' \<in> {JStr ''completed'', JStr ''running''}
          \<or> jget prior ''state'' \<noteq> JStr ''starting'' \<and> (wa_dry_run args
            \<or> birth_gate env args index task [(''packet_id'', JStr (wc_packet c))] (wc_packet c) (wc_model c) w1 \<noteq> Inr None)")
        case True
        then have "w' = w1" using run c rec prior by (auto simp: adhoc_task_def split: sum.splits option.splits if_splits)
        then show ?thesis using kept by simp
      next
        case idle: False
        show ?thesis
        proof (cases "jget prior ''state'' = JStr ''starting''")
          case True
          then have "(r, w') = await_starting env args task (wc_packet c) prior w1" using run c rec prior by (simp add: adhoc_task_def)
          then show ?thesis using await_births [OF assms(1), of args task "wc_packet c" prior w1] kept by (metis snd_conv)
        next
          case False
          then have gate: "birth_gate env args index task [(''packet_id'', JStr (wc_packet c))] (wc_packet c) (wc_model c) w1 = Inr None"
            and wet: "\<not> wa_dry_run args" and state: "jget prior ''state'' \<noteq> JStr ''completed''" "\<not> row_in ACTIVE prior"
            using idle by (auto simp: row_in_def ACTIVE_def)
          then have "(r, w') = launch_adhoc env args task c w1" using run c rec prior idle False by (simp add: adhoc_task_def)
          then have "ww_births w' = ww_births w @ [(wc_packet c, wc_supervisor c)]"
            using launch_births [OF assms(1), of args task c w1] kept by (metis snd_conv)
          moreover have "gated env args index task w (wc_packet c, wc_supervisor c)"
            using assms(3) rec prior state gate_open [OF gate] c by (simp add: gated_def)
          ultimately show ?thesis using wet by blast
        qed
      qed
    qed
  qed
qed

text \<open>Claim C11. The births of a wave are gated. A wave gives birth at most once per task and never in a dry run; at each
  birth the row of the packet, put right if it had been given up, is neither starting nor running, the
  model is not backed off, the host was ready if it was asked, and the packet is dispatchable in the ledger or, of
  a task without one, not completed.\<close>

theorem births_are_gated:
  assumes "leaves_births env" and "run_tasks env args index tasks w = (r, w')"
  shows "\<exists>births. ww_births w' = ww_births w @ births \<and> length births \<le> length tasks \<and> (wa_dry_run args \<longrightarrow> births = [])
    \<and> (\<forall>birth \<in> set births. \<exists>i task v. i < length tasks \<and> task = tasks ! i \<and> gated env args (index + i) task v birth)"
  using assms(2)
proof (induction tasks arbitrary: index w r)
  case Nil
  then show ?case by simp
next
  case (Cons task tasks)
  obtain x w1 where first: "(if jget task ''packet_id'' \<noteq> JNull then packet_task env args index task w else adhoc_task env args index task w) = (x, w1)"
    by fastforce
  have step: "ww_births w1 = ww_births w
      \<or> \<not> wa_dry_run args \<and> (\<exists>birth. ww_births w1 = ww_births w @ [birth] \<and> gated env args index task w birth)"
    using first packet_task_births [OF assms(1)] adhoc_task_births [OF assms(1)] by (metis (full_types))
  then obtain here where here: "ww_births w1 = ww_births w @ here" "length here \<le> 1" "wa_dry_run args \<longrightarrow> here = []"
    "\<forall>birth \<in> set here. gated env args index task w birth" by fastforce
  show ?case
  proof (cases x)
    case (Inl e)
    then have "w' = w1" using Cons.prems first by simp
    then show ?thesis using here by (intro exI [of _ here]) force
  next
    case (Inr res)
    obtain y w2 where rest: "run_tasks env args (Suc index) tasks w1 = (y, w2)" by (cases "run_tasks env args (Suc index) tasks w1")
    have "w' = w2" using Cons.prems first Inr rest by (auto split: sum.splits)
    from Cons.IH [OF rest [folded this]] obtain later where later: "ww_births w' = ww_births w1 @ later" "length later \<le> length tasks"
      "wa_dry_run args \<longrightarrow> later = []"
      "\<forall>birth \<in> set later. \<exists>i task v. i < length tasks \<and> task = tasks ! i \<and> gated env args (Suc index + i) task v birth" by blast
    have "\<exists>i t v. i < length (task # tasks) \<and> t = (task # tasks) ! i \<and> gated env args (index + i) t v birth"
      if "birth \<in> set (here @ later)" for birth
    proof (cases "birth \<in> set here")
      case True
      then show ?thesis using here(4) by (intro exI [of _ 0]) auto
    next
      case False
      then obtain i v where "i < length tasks" "gated env args (Suc index + i) (tasks ! i) v birth" using later(4) \<open>birth \<in> _\<close> by auto
      then show ?thesis by (intro exI [of _ "Suc i"]) auto
    qed
    then show ?thesis using here(1-3) later(1-3) by (intro exI [of _ "here @ later"]) auto
  qed
qed

definition demo_task :: jobj where
  "demo_task = [(''task_id'', JStr ''t''), (''task_name'', JStr ''n''), (''prompt'', JStr ''p''), (''cwd'', JStr ''/w''),
     (''role'', JStr ''verifier'')]"

definition demo_wave_args :: wave_args where
  "demo_wave_args = \<lparr>wa_timeout = 60, wa_timeout_text = ''60.0'', wa_observe = 5, wa_health_every = 8, wa_dry_run = False,
     wa_wait_all = False, wa_detach = False\<rparr>"

definition demo_wave_world :: wave_world where
  "demo_wave_world = \<lparr>ww_files = demo_super_world, ww_ledger = [], ww_births = []\<rparr>"

lemma demo_wave_births:
  "map fst (ww_births (snd (run_tasks demo_wave_env demo_wave_args 1 [demo_task] demo_wave_world))) = [''adhoc-d-t'']"
  by code_simp

theorem births_are_gated_witness:
  "\<exists>birth v. ww_births (snd (run_tasks demo_wave_env demo_wave_args 1 [demo_task] demo_wave_world)) = [birth]
    \<and> gated demo_wave_env demo_wave_args 1 demo_task v birth"
proof -
  have "leaves_births demo_wave_env" by (simp add: leaves_births_def demo_wave_env_def)
  from births_are_gated [OF this prod.collapse [symmetric], where w = demo_wave_world and index = 1 and tasks = "[demo_task]"
      and args = demo_wave_args] demo_wave_births
  show ?thesis by (auto simp: demo_wave_world_def)
qed

text \<open>A birth that was not seen counts all the same if the row says running at the end, even with another run.\<close>

definition stale_watch :: "string \<Rightarrow> wave_world \<Rightarrow> (rat \<times> jobj) list \<times> wave_world" where
  "stale_watch p w = ([], w\<lparr>ww_files := (ww_files w)\<lparr>sw_jobs := Some [(p, [(''run_id'', JStr ''other''), (''state'', JStr ''running'')])]\<rparr>\<rparr>)"

lemma unobserved_birth_counts:
  "(case fst (run_tasks (demo_wave_env\<lparr>wv_watch := stale_watch\<rparr>) demo_wave_args 1 [demo_task] demo_wave_world) of
      Inr [res] \<Rightarrow> jget res ''status'' = JStr ''running'' \<and> jget res ''run_id'' = JStr ''adhoc-d-t-h'' \<and> wave_exit [res] = 0
    | _ \<Rightarrow> False)"
  by code_simp

text \<open>A birth that was seen was seen over a quarter of a second: two looks that far apart, or the look the wait
  started from and a later one, show the same run running.\<close>

definition shows_running :: "string \<Rightarrow> (rat \<times> jobj) list \<Rightarrow> rat \<Rightarrow> bool" where
  "shows_running r looks t \<longleftrightarrow> (\<exists>row. (t, row) \<in> set looks \<and> jget row ''run_id'' = JStr r \<and> jget row ''state'' = JStr ''running'')"

lemma shows_running_later: "shows_running r looks t \<Longrightarrow> shows_running r (pair # looks) t"
  by (auto simp: shows_running_def)

lemma observed_birth_ran:
  assumes "wait_observed r deadline first looks"
  shows "\<exists>since t. shows_running r looks t \<and> t < deadline \<and> 1 / 4 \<le> t - since \<and> (first = Some since \<or> shows_running r looks since)"
  using assms
proof (induction r deadline first looks rule: wait_observed.induct)
  case (1 r deadline first)
  then show ?case by simp
next
  case (2 r deadline first now row looks)
  have open_still: "\<not> deadline \<le> now" using 2(5) by (auto split: if_splits)
  show ?case
  proof (cases "jget row ''run_id'' = JStr r \<and> jget row ''state'' = JStr ''running''")
    case running: True
    then have here: "shows_running r ((now, row) # looks) now" by (auto simp: shows_running_def)
    show ?thesis
    proof (cases first)
      case None
      with 2(5) running open_still have "wait_observed r deadline (Some now) looks" by simp
      with 2(2) running open_still None obtain since t where
        "shows_running r looks t" "t < deadline" "1 / 4 \<le> t - since" "Some now = Some since \<or> shows_running r looks since" by auto
      then show ?thesis using here shows_running_later by blast
    next
      case (Some since)
      show ?thesis
      proof (cases "1 / 4 \<le> now - since")
        case True
        then show ?thesis using here Some open_still by (intro exI [of _ since] exI [of _ now]) (simp add: not_le)
      next
        case False
        with 2(5) running open_still Some have "wait_observed r deadline (Some since) looks" by simp
        with 2(3) running open_still Some False obtain since' t where
          "shows_running r looks t" "t < deadline" "1 / 4 \<le> t - since'" "Some since = Some since' \<or> shows_running r looks since'" by auto
        then show ?thesis using Some shows_running_later by blast
      qed
    qed
  next
    case False
    with 2(5) open_still have rest: "wait_observed r deadline None looks" by (auto split: if_splits)
    have "\<exists>since t. shows_running r looks t \<and> t < deadline \<and> 1 / 4 \<le> t - since \<and> (None = Some since \<or> shows_running r looks since)"
    proof (cases "jget row ''run_id'' = JStr r")
      case True
      with False 2(5) open_still have "\<not> row_in EXEC_TERMINAL_STATES row" by (auto split: if_splits)
      with True False open_still show ?thesis using 2(4) [OF _ _ _ _ rest] by simp
    next
      case other: False
      with open_still show ?thesis using 2(1) [OF _ _ rest] by simp
    qed
    then show ?thesis using shows_running_later by blast
  qed
qed

end
