(* ===== verification/Spec2Isabelle.thy ===== *)
theory Spec2Isabelle
  imports SM_Liveness Budget_Properties Retry_Routing Trigger_Properties Dag_Properties Verdicts
    Refill_Properties Governor_Properties Short_Result_Properties Reducer_Properties Diff_Properties
    L2_Properties Duty_Properties Refill_Consumer_Properties Lifecycle_Composition Provider_Health
    Dispatch_Properties Spawn_Properties Tool_Properties Import_Composition Layered_Properties Plan_Race
    Supervisor_Properties Wave_Properties
begin

text \<open>
  Verification development for the packet orchestration harness under \<open>src/harness\<close> and the hook
  of native subagents under \<open>src/hooks\<close>.

  \<^bold>\<open>The program.\<close> A loop of agents works on packets. A planner writes packets, the harness starts one
  child process for each of them, children leave short results, and deterministic gates decide what
  happens next. The components are scripts that share files: a progress ledger, an append-only event
  stream, rosters, queues and budget documents. None of them trusts another: each reads the files
  again, takes a lock, and writes once. What the theories show is what survives this: no packet is
  started twice, nothing is released without a human, no budget is passed, nothing is lost silently.

  \<^bold>\<open>From plan to child.\<close>
  \<^item> \<open>Dag_Gate\<close> (\<open>dag_assert.py\<close>): the waves of a plan are acyclic and disjoint in the files they touch.
  \<^item> \<open>Refill\<close> (\<open>refill_controller_v2.py\<close>) counts pending work, splits the deficit between the pools and
    publishes it; \<open>Refill_Consumer\<close> (\<open>refill_consumer_v2.py\<close>) selects packets within that debt and
    starts a wave.
  \<^item> \<open>Dispatch\<close> (\<open>dispatch_v2.py\<close>) starts the child of one packet: \<open>Router\<close> (\<open>agent_router.py\<close>) chooses
    its route, \<open>Policy\<close> (\<open>orchestration_common.py\<close>) pins its model, \<open>Budget\<close> (\<open>budget_controller.py\<close>)
    grants its tokens, \<open>Provider_Health\<close> (\<open>provider_health.py\<close>) says whether its provider is backed off, and
    \<open>Governor\<close> (\<open>root_turn_governor.py\<close>) bounds what the root session itself may call.
  \<^item> \<open>Plan_Pipeline\<close> (\<open>orchestration/plan_pipeline.py\<close>) turns an expanded plan into packet files and waves;
    \<open>Plan_Consumer\<close> (\<open>plan_consumer.py\<close>) drains the requests for expansion, and \<open>Plan_Race\<close> interleaves
    several consumers.
  \<^item> \<open>Parent_Import\<close> (\<open>parent_manifest_importer.py\<close>) admits the manifest of a parent session: its packet
    files, its ledger entries and its registration. \<open>Import_Batch\<close> treats interrupted and repeated imports.
  \<^item> \<open>Wave\<close> (\<open>headless_wave.py\<close>) starts the tasks of a manifest one after the other and waits for their
    ends; \<open>Supervisor\<close> (\<open>lifecycle_supervisor.py\<close>) holds the roster of the runs and follows one child from
    its birth to its settlement.
  \<^item> \<open>Mode_Switch\<close> (\<open>routing_mode.py\<close>) edits the routing mode in the policy file, and \<open>Layered_Gate\<close>
    (\<open>layered_gate.py\<close>) authorizes the layered mode on evidence.
  \<^item> \<open>Tool_Gates\<close> (\<open>sol_tool_gate.py\<close>, \<open>sol_tool_gate_router.py\<close>, \<open>global_loop_mode.py\<close>) stands in front of
    the governor, \<open>Spawn_Gates\<close> (\<open>leaf_agent_spawn_gate.py\<close>, \<open>root_agent_spawn_gate.py\<close>) in front of a
    native birth.

  \<^bold>\<open>From result to release.\<close>
  \<^item> \<open>Short_Result\<close> (\<open>short_result_validator.py\<close>, \<open>lifecycle_supervisor_v2.py\<close>): a result is published only
    if it meets its contract. \<open>Reducer\<close> (\<open>result_reducer.py\<close>) consolidates published results.
  \<^item> \<open>Diff_Gate\<close> (\<open>diffvalidator.py\<close>) confines a diff to the authorized paths.
  \<^item> \<open>Trigger_Eval\<close> (\<open>trigger_eval_v2.py\<close>) decides how much review a result needs; \<open>L2_Consumer\<close>
    (\<open>l2_consumer.py\<close>) runs the verifications it asks for exactly once; \<open>Verdicts\<close>
    (\<open>verdict_aggregate.py\<close>, \<open>verdict_check.py\<close>) folds and checks their rulings.
  \<^item> \<open>SM_Table\<close>, \<open>SM_Machine\<close>, \<open>SM_Step\<close> (\<open>statemachine_v2.py\<close>) move the packets of the ledger along the
    event stream that all the others write to.

  \<^bold>\<open>When something fails.\<close>
  \<^item> \<open>Retry\<close> (\<open>retry.py\<close>) classifies a failure and dispatches again, or leaves a ticket; \<open>Duty\<close>
    (\<open>duty_gate.py\<close>, \<open>duty_route.py\<close>, \<open>duty_driver.py\<close>) rules on the tickets.
  \<^item> \<open>Lifecycle\<close> (\<open>subagent_lifecycle.py\<close>) follows native agents through the hooks of the host, ends
    what a stopped parent left, and settles jobs whose supervisor died.

  \<^bold>\<open>How the model reads.\<close> A file the code owns is a field of the component's state record, a file it only
  reads, the clock, a process table or an environment variable is a field of its environment record.
  A JSON value is \<open>json\<close> of \<open>Py_Json\<close>, with the conversions and truth values of the language; a document
  the code always writes itself is a typed record. A dictionary is an association list in insertion
  order (\<open>Py_Prelude\<close>), a Python integer an \<open>int\<close>, a float an exact rational. An operation returns its
  result and the new state; an exception is \<open>Inl\<close>, and what was written before it stays written. Code
  that is not the harness's own (processes, digests, regular expressions given in configuration,
  the text of rendered values) is an argument.

  \<^bold>\<open>Interfaces.\<close> \<open>fallible_machine\<close> (runs of steps that may raise keep an invariant) and \<open>capped_counter\<close> (a
  persisted counter admits at most its cap) are in \<open>Py_Prelude\<close>; \<open>worst_of\<close> (folding verdicts by
  severity) in \<open>Severity\<close>; \<open>once_log\<close> (an append-only file that doubles as a record of what was done)
  in \<open>Once_Log\<close>; \<open>hook_contract\<close> (what every mutation of the roster keeps, every hook keeps) in
  \<open>Lifecycle_Contract\<close>. Each is interpreted on the definitions of the components that provide it.

  \<^bold>\<open>What the lemmas show.\<close> Each \<open>_Properties\<close> theory holds the theorems about the component of its name. The
  packet machine refines a small graph of states, and its counters bound every run (\<open>SM_Invariants\<close>,
  \<open>SM_Properties\<close>); from every reachable state a fixed list of events leads to the release (\<open>SM_Liveness\<close>).
  Several theories compose components: \<open>Retry_Routing\<close> and \<open>Duty_Properties\<close> run the events of the failure lanes
  through the packet machine, \<open>Refill_Consumer\<close> runs the controller and the machine inside one
  transaction, \<open>Lifecycle_Composition\<close> follows a stopped parent through the sync and the actuator,
  \<open>Supervisor_Properties\<close> follows it to the child its supervisor ends, \<open>Import_Composition\<close> to the importer,
  and an imported packet to the dispatcher; \<open>Dispatch_Properties\<close> follows a reservation through the budget,
  \<open>Layered_Properties\<close> the authorization of a mode to the router and the tool gates, and \<open>Wave_Properties\<close>
  the end a supervisor records to the wave that waits for it. Where the code does not keep a promise of
  its comments, a lemma with the counterexample says so.

  \<^bold>\<open>Fuel and measures.\<close> \<open>kahn_loop\<close> is run with as many rounds as there are nodes, each round removing one,
  and \<open>Dag_Properties\<close> proves that it ends; the truncation loop of the reducer and the rounds of the
  actuator's selection terminate by a measure; the drain of refill requests is run over the list of
  requests that arrive while it works.

  The watch of the supervisor and the waits of the wave are run over the list of what their looks show;
  \<open>supervisor_ends\<close> bounds how many looks a run can take, and a wait that has not ended with the given
  looks is \<open>None\<close>. The waves of a plan are peeled off by a recursion on the packets that are left.

  \<^bold>\<open>Not modelled.\<close> Starting a process, its signals, worktrees and pipes (\<open>dispatch.py\<close>, the launchers, the
  process boundary of \<open>lifecycle_supervisor.py\<close> and \<open>headless_wave.py\<close>) is an argument of the decisions above.
  The first versions of the machine, the trigger and the refill controller stand beside the modelled second ones. The
  meters and the views aggregate logs for people. Installation, repair and recovery scripts, the
  configuration managers and the command lines are glue. Locks are modelled by the atomicity of what
  they enclose; where a component leaves its lock between two steps, the steps are separate.
\<close>

end
